(* ===== verification/Prelude.thy ===== *)
theory Prelude
  imports Main "HOL-Library.Word"
begin

text \<open>
  Shared vocabulary of the development: Python strings over the Latin-1 range with the
  string methods the sources call (\<^verbatim>\<open>strip\<close>, \<^verbatim>\<open>split\<close>, \<^verbatim>\<open>join\<close>, \<^verbatim>\<open>lower\<close>, \<^verbatim>\<open>casefold\<close>,
  \<^verbatim>\<open>in\<close>, \<^verbatim>\<open>startswith\<close>, \<^verbatim>\<open>rsplit\<close>), \<^verbatim>\<open>uuid.UUID\<close> as a 128-bit word with its textual form,
  \<^verbatim>\<open>datetime\<close> with an optional UTC offset, results \<open>'e + 'a\<close> for code that may raise, and
  the effectful computations (state survives an exception, as in Python) in which the
  repositories and services are written. The generic lemmas on these types are collected
  here so that the component theories share them.
\<close>

section \<open>Collections of facts\<close>

named_theorems py_simps \<open>unfolding of the Python string operations\<close>
named_theorems eff_simps \<open>evaluation of effectful computations\<close>

section \<open>Results of code that may raise\<close>

definition bind_res :: "'e + 'a \<Rightarrow> ('a \<Rightarrow> 'e + 'b) \<Rightarrow> 'e + 'b" where
  "bind_res r f = (case r of Inl e \<Rightarrow> Inl e | Inr x \<Rightarrow> f x)"

definition raise_if :: "bool \<Rightarrow> 'e \<Rightarrow> 'e + unit" where
  "raise_if c e = (if c then Inl e else Inr ())"

definition opt_res :: "('a \<Rightarrow> 'e + 'b) \<Rightarrow> 'a option \<Rightarrow> 'e + 'b option" where
  "opt_res f x = (case x of None \<Rightarrow> Inr None | Some v \<Rightarrow> bind_res (f v) (\<lambda>w. Inr (Some w)))"

definition ok :: "'e + 'a \<Rightarrow> bool" where
  "ok r \<longleftrightarrow> (\<exists>x. r = Inr x)"

lemma bind_res_simps [simp]:
  "bind_res (Inl e) f = Inl e"
  "bind_res (Inr x) f = f x"
  by (simp_all add: bind_res_def)

text \<open>The continuation of a bind is simplified only once its argument is known.\<close>

lemma bind_res_weak_cong [cong]: "r = r' \<Longrightarrow> bind_res r f = bind_res r' f"
  by simp

lemma bind_res_eq_Inr [simp]:
  "bind_res r f = Inr y \<longleftrightarrow> (\<exists>x. r = Inr x \<and> f x = Inr y)"
  by (cases r) auto

lemma bind_res_eq_Inl:
  "bind_res r f = Inl e \<longleftrightarrow> r = Inl e \<or> (\<exists>x. r = Inr x \<and> f x = Inl e)"
  by (cases r) auto

lemma raise_if_eq [simp]:
  "raise_if c e = Inr u \<longleftrightarrow> \<not> c"
  "raise_if c e = Inl e' \<longleftrightarrow> c \<and> e' = e"
  by (auto simp: raise_if_def)

lemma raise_if_const [simp]:
  "raise_if True e = Inl e"
  "raise_if False e = Inr ()"
  by (simp_all add: raise_if_def)

lemma opt_res_simps [simp]:
  "opt_res f None = Inr None"
  "opt_res f (Some v) = bind_res (f v) (\<lambda>w. Inr (Some w))"
  by (simp_all add: opt_res_def)

lemma opt_res_eq_Inr:
  "opt_res f x = Inr y \<longleftrightarrow>
     (x = None \<and> y = None) \<or> (\<exists>v w. x = Some v \<and> f v = Inr w \<and> y = Some w)"
  by (cases x) auto

lemma ok_simps [simp]:
  "ok (Inr x)" "\<not> ok (Inl e)"
  by (simp_all add: ok_def)

lemma ok_bind_res: "ok (bind_res r f) \<longleftrightarrow> (\<exists>x. r = Inr x \<and> ok (f x))"
  by (cases r) auto

section \<open>Effectful computations\<close>

text \<open>
  A computation maps the state to a result and the state afterwards. When it raises, what
  it did to the state before raising stays done: only an explicit rollback undoes it.
\<close>

type_synonym ('s, 'e, 'a) eff = "'s \<Rightarrow> ('e + 'a) \<times> 's"

definition ret :: "'a \<Rightarrow> ('s, 'e, 'a) eff" where
  "ret x = (\<lambda>s. (Inr x, s))"

definition raise :: "'e \<Rightarrow> ('s, 'e, 'a) eff" where
  "raise e = (\<lambda>s. (Inl e, s))"

definition of_res :: "'e + 'a \<Rightarrow> ('s, 'e, 'a) eff" where
  "of_res r = (\<lambda>s. (r, s))"

definition gets :: "('s \<Rightarrow> 'a) \<Rightarrow> ('s, 'e, 'a) eff" where
  "gets f = (\<lambda>s. (Inr (f s), s))"

definition modify :: "('s \<Rightarrow> 's) \<Rightarrow> ('s, 'e, unit) eff" where
  "modify f = (\<lambda>s. (Inr (), f s))"

definition bind :: "('s, 'e, 'a) eff \<Rightarrow> ('a \<Rightarrow> ('s, 'e, 'b) eff) \<Rightarrow> ('s, 'e, 'b) eff" where
  "bind m k = (\<lambda>s. case m s of (Inl e, s') \<Rightarrow> (Inl e, s') | (Inr x, s') \<Rightarrow> k x s')"

definition try_except :: "('s, 'e, 'a) eff \<Rightarrow> ('e \<Rightarrow> ('s, 'e, 'a) eff) \<Rightarrow> ('s, 'e, 'a) eff" where
  "try_except m h = (\<lambda>s. case m s of (Inl e, s') \<Rightarrow> h e s' | (Inr x, s') \<Rightarrow> (Inr x, s'))"

lemma run_simps [eff_simps]:
  "ret x s = (Inr x, s)"
  "raise e s = (Inl e, s)"
  "of_res r s = (r, s)"
  "gets f s = (Inr (f s), s)"
  "modify g s = (Inr (), g s)"
  by (simp_all add: ret_def raise_def of_res_def gets_def modify_def)

lemma run_bind [eff_simps]:
  "m s = (Inr x, s') \<Longrightarrow> bind m k s = k x s'"
  "m s = (Inl e, s') \<Longrightarrow> bind m k s = (Inl e, s')"
  by (simp_all add: bind_def)

lemma run_try_except [eff_simps]:
  "m s = (Inr x, s') \<Longrightarrow> try_except m h s = (Inr x, s')"
  "m s = (Inl e, s') \<Longrightarrow> try_except m h s = h e s'"
  by (simp_all add: try_except_def)

lemma bind_weak_cong [cong]: "m = m' \<Longrightarrow> bind m k = bind m' k"
  by simp

lemma try_except_weak_cong [cong]: "m = m' \<Longrightarrow> try_except m h = try_except m' h"
  by simp

lemma bind_run_simps [simp]:
  "bind (ret x) k s = k x s"
  "bind (raise e) k s = (Inl e, s)"
  "bind (of_res (Inr x)) k s = k x s"
  "bind (of_res (Inl e)) k s = (Inl e, s)"
  "bind (gets f) k s = k (f s) s"
  "bind (modify g) k' s = k' () (g s)"
  by (simp_all add: bind_def ret_def raise_def of_res_def gets_def modify_def)

lemma bind_InrE:
  assumes "bind m k s = (Inr y, t)"
  obtains x s' where "m s = (Inr x, s')" and "k x s' = (Inr y, t)"
  using assms by (auto simp: bind_def split: prod.splits sum.splits)

lemma bind_InlE:
  assumes "bind m k s = (Inl e, t)"
  obtains "m s = (Inl e, t)"
    | x s' where "m s = (Inr x, s')" and "k x s' = (Inl e, t)"
  using assms by (auto simp: bind_def split: prod.splits sum.splits)

lemma bind_cases:
  assumes "bind m k s = (r, t)"
  obtains e where "m s = (Inl e, t)" and "r = Inl e"
    | x s' where "m s = (Inr x, s')" and "k x s' = (r, t)"
  using assms by (auto simp: bind_def split: prod.splits sum.splits)

lemma try_except_cases:
  assumes "try_except m h s = (r, t)"
  obtains x where "m s = (Inr x, t)" and "r = Inr x"
    | e s' where "m s = (Inl e, s')" and "h e s' = (r, t)"
  using assms by (auto simp: try_except_def split: prod.splits sum.splits)

section \<open>Python strings\<close>

text \<open>
  A \<^verbatim>\<open>str\<close> is a list of code points; the model covers the code points U+0000 to U+00FF, one
  \<^typ>\<open>char\<close> each, so \<^const>\<open>length\<close> is Python's \<^verbatim>\<open>len\<close>. On that range NFC normalisation is the
  identity, and \<^verbatim>\<open>str.isspace\<close>, \<^verbatim>\<open>str.lower\<close>, \<^verbatim>\<open>str.casefold\<close> and the control categories
  are the tables below.
\<close>

abbreviation ord :: "char \<Rightarrow> nat" where
  "ord c \<equiv> of_char c"

definition is_space :: "char \<Rightarrow> bool" where
  "is_space c \<longleftrightarrow> (9 \<le> ord c \<and> ord c \<le> 13) \<or> (28 \<le> ord c \<and> ord c \<le> 32)
     \<or> ord c = 133 \<or> ord c = 160"

definition is_control :: "char \<Rightarrow> bool" where
  \<comment> \<open>\<^verbatim>\<open>unicodedata.category(c).startswith("C")\<close>: Cc, and the soft hyphen (Cf)\<close>
  "is_control c \<longleftrightarrow> ord c < 32 \<or> (127 \<le> ord c \<and> ord c < 160) \<or> ord c = 173"

text \<open>
  \<^verbatim>\<open>unicodedata.normalize("NFC", s)\<close>: no Latin-1 character changes under composition, and none
  combines with another, so such a string is its own normal form. Functions whose result depends
  on the normal form of other strings take the normalisation as an argument \<open>nf\<close>.
\<close>

definition nfc :: "string \<Rightarrow> string" where
  [simp]: "nfc s = s"

definition lower_char :: "char \<Rightarrow> char" where
  "lower_char c = (if (65 \<le> ord c \<and> ord c \<le> 90) \<or>
      (192 \<le> ord c \<and> ord c \<le> 222 \<and> ord c \<noteq> 215) then char_of (ord c + 32) else c)"

definition lower :: "string \<Rightarrow> string" where
  "lower s = map lower_char s"

definition casefold :: "string \<Rightarrow> string" where
  \<comment> \<open>\<^verbatim>\<open>casefold\<close> is \<^verbatim>\<open>lower\<close> except that the sharp s becomes two letters, and that the micro
    sign becomes a Greek letter beyond the range, which is kept as it is\<close>
  "casefold s = concat (map (\<lambda>c. if ord c = 223 then ''ss'' else [lower_char c]) s)"

definition lstrip :: "string \<Rightarrow> string" where
  "lstrip s = dropWhile is_space s"

definition strip :: "string \<Rightarrow> string" where
  "strip s = rev (dropWhile is_space (rev (dropWhile is_space s)))"

fun split_acc :: "string \<Rightarrow> string \<Rightarrow> string list" where
  "split_acc acc [] = (if acc = [] then [] else [rev acc])"
| "split_acc acc (c # cs) =
     (if is_space c
      then (if acc = [] then split_acc [] cs else rev acc # split_acc [] cs)
      else split_acc (c # acc) cs)"

definition split_ws :: "string \<Rightarrow> string list" where
  "split_ws s = split_acc [] s"

fun join :: "string \<Rightarrow> string list \<Rightarrow> string" where
  "join sep [] = []"
| "join sep [w] = w"
| "join sep (w # v # ws) = w @ sep @ join sep (v # ws)"

definition normalize_ws :: "string \<Rightarrow> string" where
  \<comment> \<open>the idiom \<^verbatim>\<open>" ".join(value.strip().split())\<close>\<close>
  "normalize_ws s = join '' '' (split_ws (strip s))"

fun startswith :: "string \<Rightarrow> string \<Rightarrow> bool" where
  "startswith s [] = True"
| "startswith [] (p # ps) = False"
| "startswith (c # cs) (p # ps) = (c = p \<and> startswith cs ps)"

fun contains :: "string \<Rightarrow> string \<Rightarrow> bool" where
  \<comment> \<open>\<^verbatim>\<open>pat in s\<close> is \<open>contains s pat\<close>\<close>
  "contains [] pat = (pat = [])"
| "contains (c # cs) pat = (startswith (c # cs) pat \<or> contains cs pat)"

definition endswith :: "string \<Rightarrow> string \<Rightarrow> bool" where
  "endswith s p = startswith (rev s) (rev p)"

fun split_on :: "char \<Rightarrow> string \<Rightarrow> string list" where
  "split_on d [] = [[]]"
| "split_on d (c # cs) =
     (if c = d then [] # split_on d cs
      else (case split_on d cs of [] \<Rightarrow> [[c]] | w # ws \<Rightarrow> (c # w) # ws))"

definition rsplit_last :: "char \<Rightarrow> string \<Rightarrow> string" where
  \<comment> \<open>\<^verbatim>\<open>s.rsplit(d, maxsplit=1)[-1]\<close>\<close>
  "rsplit_last d s = rev (takeWhile (\<lambda>c. c \<noteq> d) (rev s))"

definition replace_char :: "char \<Rightarrow> char \<Rightarrow> string \<Rightarrow> string" where
  "replace_char a b s = map (\<lambda>c. if c = a then b else c) s"

definition digit_char :: "nat \<Rightarrow> char" where
  "digit_char n = char_of (48 + n)"

fun nat_str :: "nat \<Rightarrow> string" where
  "nat_str n = (if n < 10 then [digit_char n] else nat_str (n div 10) @ [digit_char (n mod 10)])"

declare nat_str.simps [simp del]

section \<open>UUIDs\<close>

type_synonym uuid = "128 word"

definition hex_digit :: "nat \<Rightarrow> char" where
  "hex_digit n = (if n < 10 then char_of (48 + n) else char_of (87 + n))"

fun hex_fixed :: "nat \<Rightarrow> nat \<Rightarrow> string" where
  "hex_fixed 0 n = []"
| "hex_fixed (Suc k) n = hex_fixed k (n div 16) @ [hex_digit (n mod 16)]"

definition uuid_str :: "uuid \<Rightarrow> string" where
  \<comment> \<open>\<^verbatim>\<open>str(uuid)\<close>: 32 lower-case hex digits in groups of 8, 4, 4, 4 and 12\<close>
  "uuid_str u = hex_fixed 8 (unat u div 16 ^ 24) @ ''-''
     @ hex_fixed 4 (unat u div 16 ^ 20 mod 16 ^ 4) @ ''-''
     @ hex_fixed 4 (unat u div 16 ^ 16 mod 16 ^ 4) @ ''-''
     @ hex_fixed 4 (unat u div 16 ^ 12 mod 16 ^ 4) @ ''-''
     @ hex_fixed 12 (unat u mod 16 ^ 12)"

section \<open>Timestamps\<close>

text \<open>
  A \<^verbatim>\<open>datetime\<close> is its wall-clock reading in microseconds and, when \<^verbatim>\<open>utcoffset()\<close> is not
  \<^verbatim>\<open>None\<close>, the offset. Aware timestamps compare by instant, which the class instance
  expresses; the comparison is a preorder, since equal instants may have different offsets.
\<close>

datatype datetime = DateTime (wall: int) (utcoffset: "int option")

definition instant :: "datetime \<Rightarrow> int" where
  "instant d = (case utcoffset d of None \<Rightarrow> wall d | Some z \<Rightarrow> wall d - z)"

definition tz_aware :: "datetime \<Rightarrow> bool" where
  "tz_aware d \<longleftrightarrow> utcoffset d \<noteq> None"

definition utc :: "int \<Rightarrow> datetime" where
  "utc n = DateTime n (Some 0)"

definition astimezone_utc :: "datetime \<Rightarrow> datetime" where
  "astimezone_utc d = utc (instant d)"

definition is_utc :: "datetime \<Rightarrow> bool" where
  "is_utc d \<longleftrightarrow> utcoffset d = Some 0"

instantiation datetime :: preorder
begin

definition less_eq_datetime :: "datetime \<Rightarrow> datetime \<Rightarrow> bool" where
  "less_eq_datetime a b \<longleftrightarrow> instant a \<le> instant b"

definition less_datetime :: "datetime \<Rightarrow> datetime \<Rightarrow> bool" where
  "less_datetime a b \<longleftrightarrow> instant a < instant b"

instance
  by standard (auto simp: less_eq_datetime_def less_datetime_def)

end

section \<open>Lemmas on timestamps\<close>

lemma astimezone_utc_simps [simp]:
  "is_utc (astimezone_utc d)"
  "tz_aware (astimezone_utc d)"
  "instant (astimezone_utc d) = instant d"
  by (simp_all add: astimezone_utc_def utc_def is_utc_def tz_aware_def instant_def)

lemma utc_simps [simp]:
  "is_utc (utc n)"
  "tz_aware (utc n)"
  "instant (utc n) = n"
  by (simp_all add: utc_def is_utc_def tz_aware_def instant_def)

lemma DateTime_simps [simp]:
  "tz_aware (DateTime w z) \<longleftrightarrow> z \<noteq> None"
  "is_utc (DateTime w z) \<longleftrightarrow> z = Some 0"
  "instant (DateTime w (Some k)) = w - k"
  "astimezone_utc (DateTime w (Some k)) = DateTime (w - k) (Some 0)"
  by (auto simp: tz_aware_def is_utc_def instant_def astimezone_utc_def utc_def)

lemma is_utc_aware [simp]: "is_utc d \<Longrightarrow> tz_aware d"
  by (simp add: is_utc_def tz_aware_def)

lemma astimezone_utc_id [simp]: "is_utc d \<Longrightarrow> astimezone_utc d = d"
  by (cases d) (simp add: is_utc_def astimezone_utc_def utc_def instant_def)

lemma datetime_order_simps [simp]:
  "a \<le> b \<longleftrightarrow> instant a \<le> instant b"
  "a < b \<longleftrightarrow> instant a < instant b"
  by (simp_all add: less_eq_datetime_def less_datetime_def)

section \<open>Lemmas on strings\<close>

definition is_word :: "string \<Rightarrow> bool" where
  "is_word w \<longleftrightarrow> w \<noteq> [] \<and> list_all (\<lambda>c. \<not> is_space c) w"

definition ws_normal :: "string \<Rightarrow> bool" where
  \<comment> \<open>words without white space, separated by single spaces\<close>
  "ws_normal s \<longleftrightarrow> (\<exists>ws. list_all is_word ws \<and> s = join '' '' ws)"

lemma is_space_space [simp]: "is_space (CHR '' '')"
  by (simp add: is_space_def)

lemma split_acc_words:
  "list_all (\<lambda>c. \<not> is_space c) acc \<Longrightarrow> list_all is_word (split_acc acc s)"
  by (induction acc s rule: split_acc.induct)
    (auto simp: is_word_def)

lemma split_ws_words: "list_all is_word (split_ws s)"
  by (simp add: split_ws_def split_acc_words)

lemma split_acc_word:
  "list_all (\<lambda>c. \<not> is_space c) w \<Longrightarrow> split_acc acc (w @ s) = split_acc (rev w @ acc) s"
  by (induction w arbitrary: acc) auto

lemma split_ws_join:
  "list_all is_word ws \<Longrightarrow> split_ws (join '' '' ws) = ws"
proof (induction "'' ''" ws rule: join.induct)
  case 1
  then show ?case by (simp add: split_ws_def)
next
  case (2 w)
  then show ?case
    using split_acc_word [of w "[]" "[]"] by (simp add: split_ws_def is_word_def)
next
  case (3 w v ws)
  then show ?case
    using split_acc_word [of w "[]" "'' '' @ join '' '' (v # ws)"]
    by (simp add: split_ws_def is_word_def)
qed

lemma join_hd:
  "ws \<noteq> [] \<Longrightarrow> list_all is_word ws \<Longrightarrow> join sep ws \<noteq> [] \<and> hd (join sep ws) = hd (hd ws)"
  by (induction sep ws rule: join.induct) (auto simp: is_word_def)

lemma join_last:
  "ws \<noteq> [] \<Longrightarrow> list_all is_word ws \<Longrightarrow> join sep ws \<noteq> [] \<and> last (join sep ws) = last (last ws)"
  by (induction sep ws rule: join.induct) (auto simp: is_word_def)

lemma dropWhile_hd: "s \<noteq> [] \<Longrightarrow> \<not> P (hd s) \<Longrightarrow> dropWhile P s = s"
  by (cases s) auto

lemma strip_id:
  assumes "s \<noteq> []" and "\<not> is_space (hd s)" and "\<not> is_space (last s)"
  shows "strip s = s"
  using assms by (simp add: strip_def dropWhile_hd hd_rev)

lemma strip_join:
  assumes "list_all is_word ws"
  shows "strip (join '' '' ws) = join '' '' ws"
proof (cases "ws = []")
  case False
  then have "is_word (hd ws)" "is_word (last ws)"
    using assms by (auto simp: list_all_iff)
  then have "\<not> is_space (hd (hd ws))" "\<not> is_space (last (last ws))"
    by (auto simp: is_word_def list_all_iff)
  with False assms show ?thesis
    by (intro strip_id) (use join_hd [of ws] join_last [of ws] in auto)
qed (simp add: strip_def)

lemma ws_normal_normalize [simp]: "ws_normal (normalize_ws s)"
  by (auto simp: ws_normal_def normalize_ws_def intro: split_ws_words)

lemma normalize_ws_id [simp]: "ws_normal s \<Longrightarrow> normalize_ws s = s"
  by (auto simp: ws_normal_def normalize_ws_def strip_join split_ws_join)

lemma normalize_ws_idem: "normalize_ws (normalize_ws s) = normalize_ws s"
  by simp

lemma dropWhile_idem: "dropWhile P (dropWhile P xs) = dropWhile P xs"
  by (induction xs) auto

lemma dropWhile_Cons_hd: "dropWhile P xs = y # ys \<Longrightarrow> \<not> P y"
  by (induction xs) (auto split: if_splits)

lemma strip_idem [simp]: "strip (strip s) = strip s"
proof (cases "strip s = []")
  case False
  let ?t = "dropWhile is_space s"
  have t: "dropWhile is_space (rev ?t) \<noteq> []"
    using False by (simp add: strip_def)
  have "\<not> is_space (hd (dropWhile is_space (rev ?t)))"
    using t by (metis dropWhile_Cons_hd list.exhaust_sel)
  then have last: "\<not> is_space (last (strip s))"
    using t by (simp add: strip_def last_rev)
  obtain pre where pre: "rev ?t = pre @ dropWhile is_space (rev ?t)"
    by (metis takeWhile_dropWhile_id)
  then have "?t = strip s @ rev pre"
    by (metis rev_append rev_rev_ident strip_def)
  then have "hd (strip s) = hd ?t"
    using False by simp
  moreover have "?t \<noteq> []"
    using t by (metis dropWhile.simps(1) rev.simps(1))
  then have "\<not> is_space (hd ?t)"
    by (metis dropWhile_Cons_hd list.exhaust_sel)
  ultimately show ?thesis
    using False last by (intro strip_id) auto
next
  case True
  moreover have "strip [] = []"
    by (simp add: strip_def)
  ultimately show ?thesis
    by (simp only:)
qed

lemma lower_char_idem [simp]: "lower_char (lower_char c) = lower_char c"
proof -
  have "ord c < 256"
    using nat_of_char_less_256 [of c] by simp
  then show ?thesis
    by (auto simp: lower_char_def)
qed

lemma lower_idem [simp]: "lower (lower s) = lower s"
  by (simp add: lower_def)

lemma length_lower [simp]: "length (lower s) = length s"
  by (simp add: lower_def)

lemma startswith_append [simp]: "startswith (p @ s) p"
  by (induction p) auto

lemma startswith_iff: "startswith s p \<longleftrightarrow> (\<exists>t. s = p @ t)"
  by (induction s p rule: startswith.induct) auto

lemma contains_iff: "contains s p \<longleftrightarrow> (\<exists>u v. s = u @ p @ v)"
proof (induction s)
  case (Cons c cs)
  show ?case
  proof
    assume "contains (c # cs) p"
    then consider "startswith (c # cs) p" | "contains cs p" by auto
    then show "\<exists>u v. c # cs = u @ p @ v"
    proof cases
      case 1
      then obtain t where "c # cs = p @ t" by (auto simp: startswith_iff)
      then have "c # cs = [] @ p @ t" by simp
      then show ?thesis by blast
    next
      case 2
      then obtain u v where "c # cs = (c # u) @ p @ v" using Cons.IH by auto
      then show ?thesis by blast
    qed
  next
    assume "\<exists>u v. c # cs = u @ p @ v"
    then obtain u v where uv: "c # cs = u @ p @ v" by blast
    show "contains (c # cs) p"
    proof (cases u)
      case Nil
      with uv have "startswith (c # cs) p" by (auto simp: startswith_iff)
      then show ?thesis by simp
    next
      case (Cons a u')
      with uv have "cs = u' @ p @ v" by simp
      then show ?thesis using Cons.IH by auto
    qed
  qed
qed auto

section \<open>Lemmas on UUID strings\<close>

lemma length_hex_fixed [simp]: "length (hex_fixed k n) = k"
  by (induction k arbitrary: n) auto

lemma hex_digit_inj: "m < 16 \<Longrightarrow> n < 16 \<Longrightarrow> hex_digit m = hex_digit n \<Longrightarrow> m = n"
  by (auto simp: hex_digit_def split: if_splits)

lemma hex_fixed_inj:
  "m < 16 ^ k \<Longrightarrow> n < 16 ^ k \<Longrightarrow> hex_fixed k m = hex_fixed k n \<Longrightarrow> m = n"
proof (induction k arbitrary: m n)
  case (Suc k)
  have "m div 16 < 16 ^ k" "n div 16 < 16 ^ k"
    using Suc.prems by (auto simp: less_mult_imp_div_less mult.commute)
  then have "m div 16 = n div 16"
    using Suc by auto
  moreover have "m mod 16 = n mod 16"
    using Suc.prems by (auto intro: hex_digit_inj)
  ultimately show ?case
    by (metis div_mult_mod_eq)
qed simp

end
