(* ===== verification/Errors.thy ===== *)
theory Errors
  imports Prelude
begin

text \<open>
  The identity enumerations of \<^verbatim>\<open>workflowforge_domain/identity/enums.py\<close> with their string
  values, the exception classes of the domain, application and infrastructure layers as
  one datatype (an exception is its class and the arguments the code gives it), and the
  interface every lock-versioned aggregate of the domain offers: a step function whose
  successful steps keep the invariant and the identity, count up the lock version and
  never leave the archived state.
\<close>

section \<open>Identity enumerations\<close>

datatype Role = OWNER | ADMIN | OPERATOR | REVIEWER | AUDITOR

fun Role_value :: "Role \<Rightarrow> string" where
  "Role_value OWNER = ''owner''"
| "Role_value ADMIN = ''admin''"
| "Role_value OPERATOR = ''operator''"
| "Role_value REVIEWER = ''reviewer''"
| "Role_value AUDITOR = ''auditor''"

datatype MembershipStatus = INVITED | ACTIVE | SUSPENDED | REMOVED

fun MembershipStatus_value :: "MembershipStatus \<Rightarrow> string" where
  "MembershipStatus_value INVITED = ''invited''"
| "MembershipStatus_value ACTIVE = ''active''"
| "MembershipStatus_value SUSPENDED = ''suspended''"
| "MembershipStatus_value REMOVED = ''removed''"

datatype (plugins only: code size) Permission =
    ORGANIZATION_READ | ORGANIZATION_UPDATE
  | MEMBERSHIP_READ | MEMBERSHIP_INVITE | MEMBERSHIP_UPDATE | MEMBERSHIP_REMOVE
  | AUDIT_READ | SECURITY_MANAGE | API_KEYS_MANAGE | PROVIDER_CREDENTIALS_MANAGE
  | DOCUMENT_READ | DOCUMENT_WRITE | DOCUMENT_ARCHIVE | DOCUMENT_DOWNLOAD
  | DOCUMENT_VERSION_READ | DOCUMENT_VERSION_CREATE
  | ARTIFACT_READ | ARTIFACT_DOWNLOAD
  | BATCH_READ | BATCH_WRITE | BATCH_ARCHIVE | BATCH_MANAGE_DOCUMENTS
  | CASE_READ | CASE_WRITE | CASE_ARCHIVE | CASE_MANAGE_DOCUMENTS
  | CASE_COMMENT | CASE_TASK | CASE_DECISION

section \<open>Exceptions\<close>

datatype (plugins only: code size) exn =
    \<comment> \<open>builtins\<close>
    ValueError string
  | TypeError string
  | RuntimeError string
    \<comment> \<open>\<^verbatim>\<open>workflowforge_domain/identity/errors.py\<close>\<close>
  | IdentityDomainError string
  | InvalidEmailAddress string
  | InvalidOrganizationSlug string
  | InvalidDisplayName string
  | InvalidOrganizationName string
  | InvalidTimestamp string
  | InvalidIdentifier string
  | InvalidMembershipTransition string
  | MembershipAlreadyRemoved string
  | LastActiveOwnerViolation string
  | InvalidSessionState string
  | InvalidRefreshTokenState string
    \<comment> \<open>\<^verbatim>\<open>workflowforge_domain/{audit,batches,cases,documents}.py\<close>\<close>
  | InvalidAuditEvent string
  | InvalidAuditMetadata string
  | BatchError string
  | ArchivedBatchMutationError string
  | CaseError string
  | DocumentError string
  | InvalidDocumentTransitionError string
  | ArchivedDocumentMutationError string
    \<comment> \<open>\<^verbatim>\<open>workflowforge_application/authorization/errors.py\<close>\<close>
  | TenantAccessDenied uuid uuid string
  | TenantMembershipInactive uuid uuid uuid MembershipStatus
  | PermissionDenied uuid uuid Permission
  | TenantBoundaryViolation string uuid uuid
  | MembershipAdministrationDenied uuid uuid uuid string
    \<comment> \<open>\<^verbatim>\<open>workflowforge_application/{batches,cases}.py\<close>, \<^verbatim>\<open>documents/errors.py\<close>\<close>
  | BatchNotFoundError string
  | CaseNotFoundError string
  | CaseTaskNotFoundError string
  | DocumentNotFoundError string
  | DuplicateDocumentContentError string
  | ConcurrencyConflictError string
  | UploadValidationError string string
  | InvalidIdempotencyKeyError string
  | IdempotencyConflictError string
  | IdempotencyInProgressError string
  | ObjectStorageUnavailableError string
    \<comment> \<open>\<^verbatim>\<open>workflowforge_application/identity/errors.py\<close>, \<^verbatim>\<open>security/errors.py\<close>, \<^verbatim>\<open>audit/errors.py\<close>\<close>
  | InvalidCredentialsError string
  | InvalidPasswordError string
  | UserAuthenticationDisabledError string
  | MissingIdentityReferenceError string
  | DuplicateNormalizedEmailError string
  | DuplicateOrganizationSlugError string
  | DuplicateOrganizationMembershipError string
  | DuplicateRefreshTokenDigestError string
  | RefreshRotationConflictError string
  | SessionNotFoundError string
  | SessionOwnershipError string
  | InvalidAccessTokenError string
  | ExpiredAccessTokenError string
  | InvalidRefreshTokenError string
  | ExpiredRefreshTokenError string
  | RefreshTokenReplayError string
  | TokenIssuanceError string
  | BootstrapRefusedError string
  | RateLimitUnavailableError string
  | RateLimitExceededError int
  | AuditPersistenceError string
    \<comment> \<open>\<^verbatim>\<open>apps/api/errors.py\<close>: status code, code, message and headers\<close>
  | ApiError int string string "(string \<times> string) list"
    \<comment> \<open>raised by the database driver through SQLAlchemy, with the violated constraint\<close>
  | IntegrityError string
  | DataError string
  | PendingRollbackError string
    \<comment> \<open>\<^verbatim>\<open>workflowforge_infrastructure/storage/s3.py\<close>\<close>
  | ObjectStorageError string
  | ObjectPromotionError string
    \<comment> \<open>raised by \<^verbatim>\<open>zipfile\<close>\<close>
  | BadZipFile string

type_synonym 'a res = "exn + 'a"

section \<open>Validation helpers shared by the domain modules\<close>

text \<open>
  The modules of the domain layer each carry their own copy of these helpers, which differ
  in the exception class and message only; the copies are instances of the definitions
  here.
\<close>

definition bounded_text ::
  "(string \<Rightarrow> exn) \<Rightarrow> string option \<Rightarrow> string \<Rightarrow> nat \<Rightarrow> bool \<Rightarrow> string option res" where
  "bounded_text err value field_name max_length optional =
     (case value of
        None \<Rightarrow> (if optional then Inr None else Inl (err (field_name @ '' is required.'')))
      | Some v \<Rightarrow>
          (let normalized = normalize_ws v in
           if normalized = [] then
             (if optional then Inr None else Inl (err (field_name @ '' is required.'')))
           else if max_length < length normalized then
             Inl (err (field_name @ '' must be at most '' @ nat_str max_length @ '' characters.''))
           else Inr (Some normalized)))"

definition required_text :: "(string \<Rightarrow> exn) \<Rightarrow> string \<Rightarrow> string \<Rightarrow> nat \<Rightarrow> string res" where
  \<comment> \<open>the call with \<^verbatim>\<open>optional=False\<close> on a field of type \<^verbatim>\<open>str\<close>, which never returns \<^verbatim>\<open>None\<close>\<close>
  "required_text err value field_name max_length =
     bind_res (bounded_text err (Some value) field_name max_length False)
       (\<lambda>r. case r of None \<Rightarrow> Inl (err (field_name @ '' is required.'')) | Some t \<Rightarrow> Inr t)"

definition to_utc :: "exn \<Rightarrow> datetime \<Rightarrow> datetime res" where
  "to_utc err value = (if \<not> tz_aware value then Inl err else Inr (astimezone_utc value))"

definition check_uuid :: "(string \<Rightarrow> exn) \<Rightarrow> uuid \<Rightarrow> string \<Rightarrow> unit res" where
  "check_uuid err value field_name =
     raise_if (value = 0) (err (field_name @ '' must not be the nil UUID.''))"

definition text_ok :: "nat \<Rightarrow> string \<Rightarrow> bool" where
  "text_ok m s \<longleftrightarrow> s \<noteq> [] \<and> length s \<le> m \<and> ws_normal s"

abbreviation opt_text_ok :: "nat \<Rightarrow> string option \<Rightarrow> bool" where
  "opt_text_ok m v \<equiv> pred_option (text_ok m) v"

lemma text_ok_word: "s \<noteq> [] \<Longrightarrow> length s \<le> m \<Longrightarrow> list_all (\<lambda>c. \<not> is_space c) s \<Longrightarrow> text_ok m s"
  by (auto simp: text_ok_def ws_normal_def is_word_def list_all_iff intro!: exI [of _ "[s]"])

lemma bounded_text_ok:
  assumes "bounded_text err v f m b = Inr w"
  shows "opt_text_ok m w" and "\<not> b \<Longrightarrow> w \<noteq> None"
  using assms
  by (auto simp: bounded_text_def text_ok_def Let_def split: option.splits if_splits)

lemma bounded_text_id:
  "opt_text_ok m v \<Longrightarrow> (v = None \<longrightarrow> b) \<Longrightarrow> bounded_text err v f m b = Inr v"
  by (cases v) (auto simp: bounded_text_def text_ok_def)

lemma required_text_ok: "required_text err v f m = Inr w \<Longrightarrow> text_ok m w"
  by (auto simp: required_text_def dest!: bounded_text_ok(1) split: option.splits)

lemma required_text_id: "text_ok m v \<Longrightarrow> required_text err v f m = Inr v"
  by (simp add: required_text_def bounded_text_id)

lemma to_utc_eq_Inr [simp]:
  "to_utc e d = Inr t \<longleftrightarrow> tz_aware d \<and> t = astimezone_utc d"
  by (auto simp: to_utc_def)

lemma to_utc_utc: "is_utc d \<Longrightarrow> to_utc e d = Inr d"
  by simp

lemma opt_to_utc_ok: "opt_res (to_utc e) x = Inr y \<Longrightarrow> pred_option is_utc y"
  by (cases x) auto

lemma opt_to_utc_id: "pred_option is_utc x \<Longrightarrow> opt_res (to_utc e) x = Inr x"
  by (cases x) auto

lemma check_uuid_eq_Inr [simp]: "check_uuid err u f = Inr x \<longleftrightarrow> u \<noteq> 0"
  by (simp add: check_uuid_def)

section \<open>Lock-versioned aggregates\<close>

text \<open>Running a list of operations stops at the first exception.\<close>

fun run_ops :: "('a \<Rightarrow> 'o \<Rightarrow> 'a res) \<Rightarrow> 'a \<Rightarrow> 'o list \<Rightarrow> 'a res" where
  "run_ops step a [] = Inr a"
| "run_ops step a (p # ps) = bind_res (step a p) (\<lambda>b. run_ops step b ps)"

lemma run_ops_append:
  "run_ops step a (ps @ qs) = bind_res (run_ops step a ps) (\<lambda>b. run_ops step b qs)"
  by (induction ps arbitrary: a) (simp_all add: bind_res_def split: sum.split)

locale versioned_aggregate =
  fixes wf :: "'a \<Rightarrow> bool"
    and lock :: "'a \<Rightarrow> int"
    and ident :: "'a \<Rightarrow> 'k"
    and archived :: "'a \<Rightarrow> bool"
    and step :: "'a \<Rightarrow> 'o \<Rightarrow> 'a res"
  assumes step_wf: "wf a \<Longrightarrow> step a p = Inr b \<Longrightarrow> wf b"
    and step_lock: "step a p = Inr b \<Longrightarrow> lock b = lock a + 1"
    and step_ident: "step a p = Inr b \<Longrightarrow> ident b = ident a"
    and step_archived: "archived a \<Longrightarrow> step a p = Inr b \<Longrightarrow> archived b"
begin

lemma run_wf: "wf a \<Longrightarrow> run_ops step a ps = Inr b \<Longrightarrow> wf b"
  by (induction ps arbitrary: a) (auto intro: step_wf)

lemma run_lock: "run_ops step a ps = Inr b \<Longrightarrow> lock b = lock a + int (length ps)"
  by (induction ps arbitrary: a) (auto dest: step_lock)

lemma run_ident: "run_ops step a ps = Inr b \<Longrightarrow> ident b = ident a"
proof (induction ps arbitrary: a)
  case (Cons p ps)
  then show ?case by (auto dest: step_ident)
qed simp

lemma run_archived: "archived a \<Longrightarrow> run_ops step a ps = Inr b \<Longrightarrow> archived b"
  by (induction ps arbitrary: a) (auto intro: step_archived)

lemma run_injective_lock:
  assumes "run_ops step a ps = Inr b" and "run_ops step a qs = Inr c" and "lock b = lock c"
  shows "length ps = length qs"
  using run_lock [OF assms(1)] run_lock [OF assms(2)] assms(3) by simp

lemmas run_facts = run_wf run_lock run_ident run_archived

end

text \<open>
  An aggregate that rejects every operation once it is archived. Cases are not of this kind:
  an archived case can be archived again.
\<close>

locale frozen_aggregate = versioned_aggregate +
  assumes frozen: "archived a \<Longrightarrow> \<exists>e. step a p = Inl e"
begin

lemma run_frozen: "archived a \<Longrightarrow> ps \<noteq> [] \<Longrightarrow> \<exists>e. run_ops step a ps = Inl e"
proof (cases ps)
  case (Cons p qs)
  assume "archived a"
  then obtain e where "step a p = Inl e"
    using frozen by blast
  then show ?thesis using Cons by simp
qed simp

lemma run_frozen_prefix:
  assumes "run_ops step a ps = Inr b" and "k < length ps" and "run_ops step a (take k ps) = Inr c"
  shows "\<not> archived c"
proof
  assume arch: "archived c"
  have "run_ops step a (take k ps @ drop k ps) = bind_res (run_ops step a (take k ps)) (\<lambda>d. run_ops step d (drop k ps))"
    by (rule run_ops_append)
  then have "run_ops step c (drop k ps) = Inr b"
    using assms by simp
  then show False
    using run_frozen [OF arch, of "drop k ps"] assms(2) by auto
qed

end

end
