(* ===== verification/Values.thy ===== *)
theory Values
  imports Errors
begin

text \<open>
  Shared value domains of the domain layer: the Python values that may occur in metadata
  mappings (audit events, document artifacts), ISO 8601 rendering of timestamps, and the
  facts about UUID strings and slash-separated keys that the storage-key proofs use.
\<close>

section \<open>Python values in metadata\<close>

text \<open>
  A metadata value. A \<^verbatim>\<open>dict\<close> is its list of items in insertion order; a \<^verbatim>\<open>StrEnum\<close> member is a
  \<^verbatim>\<open>str\<close> and is represented as one; a float is its 64-bit pattern; \<open>VOther\<close> is a value of any
  other type.
\<close>

datatype (plugins only: code size) pyval =
    VNone
  | VBool bool
  | VInt int
  | VFloat "64 word"
  | VStr string
  | VUuid uuid
  | VDatetime datetime
  | VMap "(string \<times> pyval) list"
  | VList "pyval list"
  | VOther

type_synonym metadata = "(string \<times> pyval) list"

section \<open>ISO 8601\<close>

fun dec_fixed :: "nat \<Rightarrow> nat \<Rightarrow> string" where
  "dec_fixed 0 n = []"
| "dec_fixed (Suc k) n = dec_fixed k (n div 10) @ [digit_char (n mod 10)]"

text \<open>
  Year, month and day of the proleptic Gregorian calendar from the days since 1970-01-01,
  counting in eras of 400 years that start on the first of March.
\<close>

definition civil_from_days :: "int \<Rightarrow> int \<times> int \<times> int" where
  "civil_from_days z =
     (let n = z + 719468; era = n div 146097; doe = n mod 146097;
          yoe = (doe - doe div 1460 + doe div 36524 - doe div 146096) div 365;
          doy = doe - (365 * yoe + yoe div 4 - yoe div 100);
          mp = (5 * doy + 2) div 153;
          d = doy - (153 * mp + 2) div 5 + 1;
          m = (if mp < 10 then mp + 3 else mp - 9);
          y = yoe + era * 400
      in (if m \<le> 2 then y + 1 else y, m, d))"

definition isoformat_utc :: "datetime \<Rightarrow> string" where
  \<comment> \<open>\<^verbatim>\<open>value.astimezone(UTC).isoformat()\<close>; years are 1 to 9999, and \<^verbatim>\<open>isoformat\<close> leaves out a
      zero fraction\<close>
  "isoformat_utc d =
     (let t = instant d; secs = t div 1000000; us = t mod 1000000;
          sod = secs mod 86400
      in (case civil_from_days (secs div 86400) of (y, m, dd) \<Rightarrow>
           dec_fixed 4 (nat y) @ ''-'' @ dec_fixed 2 (nat m) @ ''-'' @ dec_fixed 2 (nat dd) @
           ''T'' @ dec_fixed 2 (nat (sod div 3600)) @ '':'' @ dec_fixed 2 (nat (sod div 60 mod 60)) @
           '':'' @ dec_fixed 2 (nat (sod mod 60)) @
           (if us = 0 then [] else ''.'' @ dec_fixed 6 (nat us)) @ ''+00:00''))"

lemma length_dec_fixed [simp]: "length (dec_fixed k n) = k"
  by (induction k arbitrary: n) auto

lemma length_isoformat: "length (isoformat_utc d) \<le> 32"
  by (simp add: isoformat_utc_def Let_def split: prod.splits)

lemma isoformat_nonempty [simp]: "isoformat_utc d \<noteq> []"
  by (simp add: isoformat_utc_def Let_def split: prod.splits)

section \<open>UUID strings\<close>

lemma hex_fixed_mod: "hex_fixed k (n mod 16 ^ k) = hex_fixed k n"
proof (induction k arbitrary: n)
  case (Suc k)
  have "n mod 16 ^ Suc k div 16 = n div 16 mod 16 ^ k"
    by (simp add: mod_mult2_eq)
  moreover have "n mod 16 ^ Suc k mod 16 = n mod 16"
    by (simp add: mod_mod_cancel)
  ultimately show ?case
    using Suc by simp
qed simp

lemma hex_fixed_add: "hex_fixed (a + b) n = hex_fixed a (n div 16 ^ b) @ hex_fixed b n"
proof (induction b arbitrary: n)
  case (Suc b)
  then show ?case
    by (simp add: div_mult2_eq mult.commute)
qed simp

definition is_hex :: "char \<Rightarrow> bool" where
  "is_hex c \<longleftrightarrow> (48 \<le> ord c \<and> ord c \<le> 57) \<or> (97 \<le> ord c \<and> ord c \<le> 102)"

lemma hex_digit_is_hex: "n < 16 \<Longrightarrow> is_hex (hex_digit n)"
  by (auto simp: hex_digit_def is_hex_def)

lemma hex_fixed_is_hex: "list_all is_hex (hex_fixed k n)"
  by (induction k arbitrary: n) (auto simp: hex_digit_is_hex)

lemma not_is_hex [simp]: "\<not> is_hex (CHR ''-'')"
  by (simp add: is_hex_def)

lemma uuid_str_digits: "filter is_hex (uuid_str u) = hex_fixed 32 (unat u)"
proof -
  have hexes: "filter is_hex (hex_fixed k n) = hex_fixed k n" for k n
    using hex_fixed_is_hex [of k n] by (simp add: list_all_iff filter_id_conv)
  have mods: "hex_fixed 4 (n mod 65536) = hex_fixed 4 n"
    "hex_fixed 12 (n mod 281474976710656) = hex_fixed 12 n" for n
    using hex_fixed_mod [of 4 n] hex_fixed_mod [of 12 n] by simp_all
  show ?thesis
    using hex_fixed_add [of 20 12 "unat u"] hex_fixed_add [of 16 4 "unat u div 16 ^ 12"]
      hex_fixed_add [of 12 4 "unat u div 16 ^ 16"] hex_fixed_add [of 8 4 "unat u div 16 ^ 20"]
    by (simp add: uuid_str_def hexes mods flip: div_mult2_eq)
qed

lemma uuid_str_inj: "uuid_str u = uuid_str v \<longleftrightarrow> u = v"
proof
  assume "uuid_str u = uuid_str v"
  then have "hex_fixed 32 (unat u) = hex_fixed 32 (unat v)"
    by (metis uuid_str_digits)
  moreover have "unat w < 16 ^ 32" for w :: uuid
    using unsigned_less [of w] by simp
  ultimately show "u = v"
    by (metis hex_fixed_inj word_unat_eq_iff)
qed simp

lemma length_uuid_str [simp]: "length (uuid_str u) = 36"
  by (simp add: uuid_str_def)

end
