(* ===== verification/Documents.thy ===== *)
theory Documents
  imports Values
begin

text \<open>
  The document aggregate of \<^verbatim>\<open>workflowforge_domain/documents.py\<close>: identifiers, content hashes,
  storage object keys, \<^verbatim>\<open>DocumentVersion\<close>, \<^verbatim>\<open>DocumentArtifact\<close> and \<^verbatim>\<open>Document\<close> with its lifecycle.
  An optional \<^verbatim>\<open>now\<close> argument that is left out is read from the clock, which is the argument
  \<open>clock\<close> of the definition. The regular expressions of the module are the predicates
  \<open>sha256_hex\<close>, \<open>media_type_pattern\<close>, \<open>storage_key_pattern\<close> and \<open>safe_segment\<close>.
\<close>

section \<open>Data\<close>

datatype DocumentStatus = DocRegistered | DocStored | DocFailed | DocArchived
datatype DocumentSourceType = SourceUpload | SourceImport | SourceSystem
datatype DocumentStorageState = StoragePending | StorageStored | StorageFailed
datatype DocumentArtifactType = ArtOriginal | ArtPreview | ArtText | ArtExport | ArtOther

fun DocumentStatus_value :: "DocumentStatus \<Rightarrow> string" where
  "DocumentStatus_value DocRegistered = ''registered''"
| "DocumentStatus_value DocStored = ''stored''"
| "DocumentStatus_value DocFailed = ''failed''"
| "DocumentStatus_value DocArchived = ''archived''"

fun DocumentSourceType_value :: "DocumentSourceType \<Rightarrow> string" where
  "DocumentSourceType_value SourceUpload = ''upload''"
| "DocumentSourceType_value SourceImport = ''import''"
| "DocumentSourceType_value SourceSystem = ''system''"

fun DocumentStorageState_value :: "DocumentStorageState \<Rightarrow> string" where
  "DocumentStorageState_value StoragePending = ''pending''"
| "DocumentStorageState_value StorageStored = ''stored''"
| "DocumentStorageState_value StorageFailed = ''failed''"

fun DocumentArtifactType_value :: "DocumentArtifactType \<Rightarrow> string" where
  "DocumentArtifactType_value ArtOriginal = ''original''"
| "DocumentArtifactType_value ArtPreview = ''preview''"
| "DocumentArtifactType_value ArtText = ''text''"
| "DocumentArtifactType_value ArtExport = ''export''"
| "DocumentArtifactType_value ArtOther = ''other''"

datatype DocumentId = DocumentId (DocumentId_value: uuid)
datatype DocumentVersionId = DocumentVersionId (DocumentVersionId_value: uuid)
datatype DocumentArtifactId = DocumentArtifactId (DocumentArtifactId_value: uuid)
datatype ContentHash = ContentHash (ContentHash_value: string)
datatype StorageObjectKey = StorageObjectKey (StorageObjectKey_value: string)

record DocumentVersion =
  dv_id :: DocumentVersionId
  dv_organization_id :: uuid
  dv_document_id :: DocumentId
  dv_version_number :: int
  dv_original_filename :: string
  dv_media_type :: string
  dv_byte_size :: int
  dv_content_hash :: ContentHash
  dv_storage_object_key :: StorageObjectKey
  dv_storage_state :: DocumentStorageState
  dv_created_at :: datetime
  dv_created_by_user_id :: uuid

record DocumentArtifact =
  da_id :: DocumentArtifactId
  da_organization_id :: uuid
  da_document_id :: DocumentId
  da_document_version_id :: "DocumentVersionId option"
  da_artifact_type :: DocumentArtifactType
  da_media_type :: string
  da_byte_size :: int
  da_content_hash :: "ContentHash option"
  da_storage_object_key :: StorageObjectKey
  da_metadata :: metadata
  da_created_at :: datetime
  da_created_by_user_id :: "uuid option"

record Document =
  d_id :: DocumentId
  d_organization_id :: uuid
  d_display_filename :: string
  d_source_type :: DocumentSourceType
  d_source_reference :: "string option"
  d_status :: DocumentStatus
  d_current_version_id :: DocumentVersionId
  d_archived_at :: "datetime option"
  d_archived_by_user_id :: "uuid option"
  d_created_at :: datetime
  d_created_by_user_id :: uuid
  d_updated_at :: datetime
  d_updated_by_user_id :: uuid
  d_lock_version :: int

section \<open>Helpers of the module\<close>

definition Doc_validate_uuid :: "uuid \<Rightarrow> string \<Rightarrow> unit res" where
  "Doc_validate_uuid value field_name = check_uuid DocumentError value field_name"

definition Doc_normalize_timestamp :: "datetime \<Rightarrow> string \<Rightarrow> datetime res" where
  "Doc_normalize_timestamp value field_name =
     to_utc (DocumentError (''Document '' @ field_name @ '' timestamp must be timezone-aware.'')) value"

definition is_lower_alnum :: "char \<Rightarrow> bool" where
  "is_lower_alnum c \<longleftrightarrow> (48 \<le> ord c \<and> ord c \<le> 57) \<or> (97 \<le> ord c \<and> ord c \<le> 122)"

definition is_alnum :: "char \<Rightarrow> bool" where
  "is_alnum c \<longleftrightarrow> is_lower_alnum c \<or> (65 \<le> ord c \<and> ord c \<le> 90)"

definition sha256_hex :: "string \<Rightarrow> bool" where
  "sha256_hex s \<longleftrightarrow> length s = 64 \<and> list_all is_hex s"

definition media_type_part :: "string \<Rightarrow> bool" where
  "media_type_part s \<longleftrightarrow> s \<noteq> [] \<and> is_alnum (hd s) \<and>
     list_all (\<lambda>c. is_alnum c \<or> c \<in> set ''!#$&^_.+-'') s"

definition media_type_pattern :: "string \<Rightarrow> bool" where
  \<comment> \<open>the parts of the pattern cannot contain the slash between them\<close>
  "media_type_pattern s \<longleftrightarrow>
     (case split_on (CHR ''/'') s of [a, b] \<Rightarrow> media_type_part a \<and> media_type_part b | _ \<Rightarrow> False)"

definition storage_key_pattern :: "string \<Rightarrow> bool" where
  "storage_key_pattern s \<longleftrightarrow> 2 \<le> length s \<and> is_lower_alnum (hd s) \<and> is_lower_alnum (last s) \<and>
     list_all (\<lambda>c. is_lower_alnum c \<or> c \<in> set ''/_-.'') s"

definition safe_segment :: "string \<Rightarrow> bool" where
  "safe_segment s \<longleftrightarrow> s \<noteq> [] \<and> is_lower_alnum (hd s) \<and>
     list_all (\<lambda>c. is_lower_alnum c \<or> c \<in> set ''_.-'') s"

definition DISPLAY_FILENAME_MAX_LENGTH :: nat where "DISPLAY_FILENAME_MAX_LENGTH = 255"
definition SOURCE_REFERENCE_MAX_LENGTH :: nat where "SOURCE_REFERENCE_MAX_LENGTH = 512"
definition ARTIFACT_METADATA_MAX_KEYS :: nat where "ARTIFACT_METADATA_MAX_KEYS = 32"
definition ARTIFACT_METADATA_KEY_MAX_LENGTH :: nat where "ARTIFACT_METADATA_KEY_MAX_LENGTH = 64"
definition ARTIFACT_METADATA_VALUE_MAX_LENGTH :: nat where "ARTIFACT_METADATA_VALUE_MAX_LENGTH = 512"

lemmas document_limits = DISPLAY_FILENAME_MAX_LENGTH_def SOURCE_REFERENCE_MAX_LENGTH_def
  ARTIFACT_METADATA_MAX_KEYS_def ARTIFACT_METADATA_KEY_MAX_LENGTH_def
  ARTIFACT_METADATA_VALUE_MAX_LENGTH_def

definition normalize_original_filename_nfc :: "(string \<Rightarrow> string) \<Rightarrow> string \<Rightarrow> string res" where
  "normalize_original_filename_nfc nf filename =
     (let n1 = replace_char (CHR 0x5C) (CHR ''/'') (nf filename);
          n2 = rsplit_last (CHR ''/'') n1;
          n3 = filter (\<lambda>c. \<not> is_control c) (strip n2);
          normalized = join '' '' (split_ws n3)
      in if normalized \<in> {[], ''.'', ''..''} then
           Inl (DocumentError ''Original filename must contain a safe display name.'')
         else if DISPLAY_FILENAME_MAX_LENGTH < length normalized then
           Inl (DocumentError (''Original filename must be at most '' @
             nat_str DISPLAY_FILENAME_MAX_LENGTH @ '' characters.''))
         else Inr normalized)"

definition normalize_original_filename :: "string \<Rightarrow> string res" where
  "normalize_original_filename = normalize_original_filename_nfc nfc"

definition normalize_source_reference :: "string option \<Rightarrow> string option res" where
  "normalize_source_reference source_reference =
     (case source_reference of
        None \<Rightarrow> Inr None
      | Some v \<Rightarrow>
          (let normalized = strip (nfc v) in
           if normalized = [] then Inr None
           else if SOURCE_REFERENCE_MAX_LENGTH < length normalized then
             Inl (DocumentError (''Source reference must be at most '' @
               nat_str SOURCE_REFERENCE_MAX_LENGTH @ '' characters.''))
           else if list_ex (contains (casefold normalized))
                     [''password'', ''secret'', ''token'', ''authorization''] then
             Inl (DocumentError
               ''Source reference must not contain secrets or authentication data.'')
           else Inr (Some normalized)))"

definition normalize_media_type :: "string \<Rightarrow> string res" where
  "normalize_media_type media_type =
     (let normalized = lower (strip media_type) in
      if \<not> media_type_pattern normalized then
        Inl (DocumentError ''Media type must be a valid type/subtype value.'')
      else Inr normalized)"

definition validate_byte_size :: "int \<Rightarrow> int res" where
  "validate_byte_size byte_size =
     (if byte_size < 0 then Inl (DocumentError ''Document byte size must be a non-negative integer.'')
      else Inr byte_size)"

definition ensure_key_is_tenant_safe :: "StorageObjectKey \<Rightarrow> uuid \<Rightarrow> string \<Rightarrow> unit res" where
  "ensure_key_is_tenant_safe key organization_id expected_prefix =
     raise_if (\<not> contains (StorageObjectKey_value key) (uuid_str organization_id) \<or>
               \<not> startswith (StorageObjectKey_value key) expected_prefix)
       (DocumentError ''Storage object key must be tenant-safe for the owning organization.'')"

fun safe_artifact_items :: "metadata \<Rightarrow> metadata res" where
  "safe_artifact_items [] = Inr []"
| "safe_artifact_items ((key, value) # rest) =
     bind_res (raise_if (key = [] \<or> ARTIFACT_METADATA_KEY_MAX_LENGTH < length key)
       (DocumentError ''Artifact metadata keys are invalid.'')) (\<lambda>_.
     bind_res
       (case value of
          VNone \<Rightarrow> Inr VNone
        | VBool b \<Rightarrow> Inr (VBool b)
        | VInt i \<Rightarrow> Inr (VInt i)
        | VFloat f \<Rightarrow> Inr (VFloat f)
        | VStr s \<Rightarrow>
            (if ARTIFACT_METADATA_VALUE_MAX_LENGTH < length s then
               Inl (DocumentError ''Artifact metadata string value is too long.'')
             else Inr (VStr s))
        | VUuid u \<Rightarrow> Inr (VStr (uuid_str u))
        | _ \<Rightarrow> Inl (DocumentError ''Artifact metadata value type is not supported.''))
       (\<lambda>v. bind_res (safe_artifact_items rest) (\<lambda>r. Inr ((key, v) # r))))"

definition safe_artifact_metadata :: "metadata \<Rightarrow> metadata res" where
  "safe_artifact_metadata metadata =
     bind_res (raise_if (ARTIFACT_METADATA_MAX_KEYS < length metadata)
       (DocumentError (''Artifact metadata must have at most '' @
         nat_str ARTIFACT_METADATA_MAX_KEYS @ '' keys.'')))
       (\<lambda>_. safe_artifact_items metadata)"

section \<open>Identifiers, hashes and keys\<close>

definition DocumentId_post_init :: "uuid \<Rightarrow> DocumentId res" where
  "DocumentId_post_init value =
     bind_res (Doc_validate_uuid value ''Document identifier'') (\<lambda>_. Inr (DocumentId value))"

definition DocumentVersionId_post_init :: "uuid \<Rightarrow> DocumentVersionId res" where
  "DocumentVersionId_post_init value =
     bind_res (Doc_validate_uuid value ''Document version identifier'')
       (\<lambda>_. Inr (DocumentVersionId value))"

definition DocumentArtifactId_post_init :: "uuid \<Rightarrow> DocumentArtifactId res" where
  "DocumentArtifactId_post_init value =
     bind_res (Doc_validate_uuid value ''Document artifact identifier'')
       (\<lambda>_. Inr (DocumentArtifactId value))"

definition ContentHash_post_init :: "string \<Rightarrow> ContentHash res" where
  "ContentHash_post_init value =
     (let normalized = lower value in
      if \<not> sha256_hex normalized then
        Inl (DocumentError ''Content hash must be a 64-character SHA-256 hex digest.'')
      else Inr (ContentHash normalized))"

definition StorageObjectKey_post_init :: "string \<Rightarrow> StorageObjectKey res" where
  "StorageObjectKey_post_init value =
     bind_res (raise_if (contains value ''..'' \<or> contains value [CHR 0x5C] \<or> contains value ''//'')
       (DocumentError
         ''Storage object key must not contain traversal or path separator aliases.'')) (\<lambda>_.
     bind_res (raise_if (\<not> storage_key_pattern value)
       (DocumentError ''Storage object key contains unsupported characters.'')) (\<lambda>_.
     bind_res (raise_if (\<not> list_all safe_segment (split_on (CHR ''/'') value))
       (DocumentError ''Storage object key contains an unsafe path segment.'')) (\<lambda>_.
     Inr (StorageObjectKey value))))"

definition StorageObjectKey_for_document_content :: "uuid \<Rightarrow> ContentHash \<Rightarrow> StorageObjectKey res" where
  "StorageObjectKey_for_document_content organization_id content_hash =
     bind_res (Doc_validate_uuid organization_id ''Storage key organization identifier'') (\<lambda>_.
     let digest = ContentHash_value content_hash in
     StorageObjectKey_post_init (''documents/'' @ uuid_str organization_id @ ''/sha256/'' @
       take 2 digest @ ''/'' @ take 2 (drop 2 digest) @ ''/'' @ digest))"

definition StorageObjectKey_from_content_hash :: "ContentHash \<Rightarrow> StorageObjectKey res" where
  "StorageObjectKey_from_content_hash content_hash =
     Inl (DocumentError ''Document storage object keys require tenant-safe construction.'')"

definition StorageObjectKey_for_temporary_upload :: "uuid \<Rightarrow> uuid \<Rightarrow> StorageObjectKey res" where
  "StorageObjectKey_for_temporary_upload organization_id upload_id =
     bind_res (Doc_validate_uuid organization_id ''Temporary key organization identifier'') (\<lambda>_.
     bind_res (Doc_validate_uuid upload_id ''Temporary key upload identifier'') (\<lambda>_.
     StorageObjectKey_post_init (''tmp/'' @ uuid_str organization_id @ ''/'' @ uuid_str upload_id)))"

definition StorageObjectKey_for_artifact ::
  "uuid \<Rightarrow> DocumentId \<Rightarrow> DocumentArtifactType \<Rightarrow> DocumentArtifactId \<Rightarrow> StorageObjectKey res" where
  "StorageObjectKey_for_artifact organization_id document_id artifact_type artifact_id =
     bind_res (Doc_validate_uuid organization_id ''Artifact key organization identifier'') (\<lambda>_.
     StorageObjectKey_post_init (''artifacts/'' @ uuid_str organization_id @ ''/'' @
       uuid_str (DocumentId_value document_id) @ ''/'' @ DocumentArtifactType_value artifact_type @
       ''/'' @ uuid_str (DocumentArtifactId_value artifact_id)))"

section \<open>Versions and artifacts\<close>

definition DocumentVersion_post_init :: "DocumentVersion \<Rightarrow> DocumentVersion res" where
  "DocumentVersion_post_init v =
     bind_res (Doc_validate_uuid (dv_organization_id v) ''Document version organization identifier'') (\<lambda>_.
     bind_res (Doc_validate_uuid (dv_created_by_user_id v) ''Document version creator identifier'') (\<lambda>_.
     bind_res (raise_if (dv_version_number v \<le> 0)
       (DocumentError ''Document version number must be positive.'')) (\<lambda>_.
     bind_res (normalize_original_filename (dv_original_filename v)) (\<lambda>original_filename.
     bind_res (normalize_media_type (dv_media_type v)) (\<lambda>media_type.
     bind_res (validate_byte_size (dv_byte_size v)) (\<lambda>byte_size.
     bind_res (Doc_normalize_timestamp (dv_created_at v) ''created_at'') (\<lambda>created_at.
     bind_res (ensure_key_is_tenant_safe (dv_storage_object_key v) (dv_organization_id v)
       (''documents/'' @ uuid_str (dv_organization_id v) @ ''/sha256/'')) (\<lambda>_.
     Inr (v\<lparr>dv_original_filename := original_filename, dv_media_type := media_type,
            dv_byte_size := byte_size, dv_created_at := created_at\<rparr>)))))))))"

definition DocumentVersion_create ::
  "datetime \<Rightarrow> DocumentVersionId \<Rightarrow> uuid \<Rightarrow> DocumentId \<Rightarrow> int \<Rightarrow> string \<Rightarrow> string \<Rightarrow> int \<Rightarrow> ContentHash \<Rightarrow>
   DocumentStorageState \<Rightarrow> datetime option \<Rightarrow> uuid \<Rightarrow> StorageObjectKey option \<Rightarrow> DocumentVersion res" where
  "DocumentVersion_create clock version_id organization_id document_id version_number
     original_filename media_type byte_size content_hash storage_state created_at
     created_by_user_id storage_object_key =
     bind_res (case storage_object_key of
         Some key \<Rightarrow> Inr key
       | None \<Rightarrow> StorageObjectKey_for_document_content organization_id content_hash) (\<lambda>key.
     DocumentVersion_post_init
       \<lparr>dv_id = version_id, dv_organization_id = organization_id, dv_document_id = document_id,
        dv_version_number = version_number, dv_original_filename = original_filename,
        dv_media_type = media_type, dv_byte_size = byte_size, dv_content_hash = content_hash,
        dv_storage_object_key = key, dv_storage_state = storage_state,
        dv_created_at = (case created_at of None \<Rightarrow> clock | Some t \<Rightarrow> t),
        dv_created_by_user_id = created_by_user_id\<rparr>)"

definition DocumentArtifact_post_init :: "DocumentArtifact \<Rightarrow> DocumentArtifact res" where
  "DocumentArtifact_post_init a =
     bind_res (Doc_validate_uuid (da_organization_id a) ''Document artifact organization identifier'') (\<lambda>_.
     bind_res (case da_created_by_user_id a of
         None \<Rightarrow> Inl (DocumentError ''Document artifact creator identifier is required.'')
       | Some u \<Rightarrow> Doc_validate_uuid u ''Document artifact creator identifier'') (\<lambda>_.
     bind_res (normalize_media_type (da_media_type a)) (\<lambda>media_type.
     bind_res (validate_byte_size (da_byte_size a)) (\<lambda>byte_size.
     bind_res (safe_artifact_metadata (da_metadata a)) (\<lambda>metadata.
     bind_res (Doc_normalize_timestamp (da_created_at a) ''created_at'') (\<lambda>created_at.
     bind_res (ensure_key_is_tenant_safe (da_storage_object_key a) (da_organization_id a)
       (''artifacts/'' @ uuid_str (da_organization_id a) @ ''/'' @
         uuid_str (DocumentId_value (da_document_id a)) @ ''/'')) (\<lambda>_.
     Inr (a\<lparr>da_media_type := media_type, da_byte_size := byte_size, da_metadata := metadata,
            da_created_at := created_at\<rparr>))))))))"

definition DocumentArtifact_create ::
  "datetime \<Rightarrow> DocumentArtifactId \<Rightarrow> uuid \<Rightarrow> DocumentId \<Rightarrow> DocumentVersionId option \<Rightarrow>
   DocumentArtifactType \<Rightarrow> string \<Rightarrow> int \<Rightarrow> StorageObjectKey \<Rightarrow> uuid \<Rightarrow> ContentHash option \<Rightarrow>
   metadata option \<Rightarrow> datetime option \<Rightarrow> DocumentArtifact res" where
  "DocumentArtifact_create clock artifact_id organization_id document_id document_version_id
     artifact_type media_type byte_size storage_object_key created_by_user_id content_hash
     metadata created_at =
     DocumentArtifact_post_init
       \<lparr>da_id = artifact_id, da_organization_id = organization_id, da_document_id = document_id,
        da_document_version_id = document_version_id, da_artifact_type = artifact_type,
        da_media_type = media_type, da_byte_size = byte_size, da_content_hash = content_hash,
        da_storage_object_key = storage_object_key,
        da_metadata = (case metadata of None \<Rightarrow> [] | Some m \<Rightarrow> m),
        da_created_at = (case created_at of None \<Rightarrow> clock | Some t \<Rightarrow> t),
        da_created_by_user_id = Some created_by_user_id\<rparr>"

section \<open>The document aggregate\<close>

definition Document_post_init :: "Document \<Rightarrow> Document res" where
  "Document_post_init d =
     bind_res (Doc_validate_uuid (d_organization_id d) ''Document organization identifier'') (\<lambda>_.
     bind_res (Doc_validate_uuid (d_created_by_user_id d) ''Document creator identifier'') (\<lambda>_.
     bind_res (Doc_validate_uuid (d_updated_by_user_id d) ''Document updater identifier'') (\<lambda>_.
     bind_res (normalize_original_filename (d_display_filename d)) (\<lambda>display_filename.
     bind_res (normalize_source_reference (d_source_reference d)) (\<lambda>source_reference.
     bind_res (Doc_normalize_timestamp (d_created_at d) ''created_at'') (\<lambda>created_at.
     bind_res (Doc_normalize_timestamp (d_updated_at d) ''updated_at'') (\<lambda>updated_at.
     bind_res (opt_res (\<lambda>t. Doc_normalize_timestamp t ''archived_at'') (d_archived_at d)) (\<lambda>archived_at.
     bind_res (raise_if (updated_at < created_at)
       (DocumentError
         ''Document updated timestamp must not be earlier than creation timestamp.'')) (\<lambda>_.
     bind_res (raise_if (d_lock_version d \<le> 0)
       (DocumentError ''Document lock version must be positive.'')) (\<lambda>_.
     bind_res
       (if d_status d = DocArchived then
          (case (d_archived_at d, d_archived_by_user_id d) of
             (Some _, Some u) \<Rightarrow> Doc_validate_uuid u ''Document archiver identifier''
           | _ \<Rightarrow> Inl (DocumentError
               ''Archived documents require archive timestamp and actor metadata.''))
        else raise_if (d_archived_at d \<noteq> None \<or> d_archived_by_user_id d \<noteq> None)
          (DocumentError ''Only archived documents may carry archive metadata.'')) (\<lambda>_.
     Inr (d\<lparr>d_display_filename := display_filename, d_source_reference := source_reference,
            d_created_at := created_at, d_updated_at := updated_at,
            d_archived_at := archived_at\<rparr>))))))))))))"

definition Document_register ::
  "datetime \<Rightarrow> DocumentId \<Rightarrow> uuid \<Rightarrow> string \<Rightarrow> DocumentSourceType \<Rightarrow> string option \<Rightarrow> DocumentVersion \<Rightarrow>
   uuid \<Rightarrow> datetime option \<Rightarrow> Document res" where
  "Document_register clock document_id organization_id display_filename source_type
     source_reference current_version created_by_user_id now =
     bind_res (raise_if (dv_document_id current_version \<noteq> document_id)
       (DocumentError ''Current version must belong to the same document.'')) (\<lambda>_.
     bind_res (raise_if (dv_organization_id current_version \<noteq> organization_id)
       (DocumentError ''Current version must belong to the same tenant.'')) (\<lambda>_.
     bind_res (Doc_normalize_timestamp (case now of None \<Rightarrow> clock | Some t \<Rightarrow> t) ''now'') (\<lambda>timestamp.
     Document_post_init
       \<lparr>d_id = document_id, d_organization_id = organization_id,
        d_display_filename = display_filename, d_source_type = source_type,
        d_source_reference = source_reference, d_status = DocRegistered,
        d_current_version_id = dv_id current_version, d_archived_at = None,
        d_archived_by_user_id = None, d_created_at = timestamp,
        d_created_by_user_id = created_by_user_id, d_updated_at = timestamp,
        d_updated_by_user_id = created_by_user_id, d_lock_version = 1\<rparr>)))"

definition Document_ensure_mutable :: "Document \<Rightarrow> unit res" where
  "Document_ensure_mutable d = raise_if (d_status d = DocArchived)
     (ArchivedDocumentMutationError ''Archived documents reject ordinary mutation.'')"

definition Document_mutated ::
  "datetime \<Rightarrow> Document \<Rightarrow> uuid \<Rightarrow> datetime option \<Rightarrow> (Document \<Rightarrow> Document) \<Rightarrow> Document res" where
  "Document_mutated clock d actor_user_id now changes =
     bind_res (Doc_validate_uuid actor_user_id ''Document mutation actor identifier'') (\<lambda>_.
     bind_res (Doc_normalize_timestamp (case now of None \<Rightarrow> clock | Some t \<Rightarrow> t) ''now'') (\<lambda>timestamp.
     bind_res (raise_if (timestamp < d_created_at d)
       (DocumentError
         ''Document mutation timestamp must not be earlier than creation timestamp.'')) (\<lambda>_.
     Document_post_init
       ((changes d)\<lparr>d_updated_at := timestamp, d_updated_by_user_id := actor_user_id,
                    d_lock_version := d_lock_version d + 1\<rparr>))))"

definition Document_transition_to ::
  "datetime \<Rightarrow> Document \<Rightarrow> DocumentStatus \<Rightarrow> uuid \<Rightarrow> datetime option \<Rightarrow> Document res" where
  "Document_transition_to clock d status actor_user_id now =
     bind_res (Document_ensure_mutable d) (\<lambda>_.
     bind_res (raise_if (d_status d \<notin> {DocRegistered, DocFailed})
       (InvalidDocumentTransitionError (''Cannot transition document from '' @
         DocumentStatus_value (d_status d) @ '' to '' @ DocumentStatus_value status @ ''.''))) (\<lambda>_.
     Document_mutated clock d actor_user_id now (\<lambda>d. d\<lparr>d_status := status\<rparr>)))"

definition Document_mark_stored :: "datetime \<Rightarrow> Document \<Rightarrow> uuid \<Rightarrow> datetime option \<Rightarrow> Document res" where
  "Document_mark_stored clock d actor_user_id now =
     Document_transition_to clock d DocStored actor_user_id now"

definition Document_mark_failed :: "datetime \<Rightarrow> Document \<Rightarrow> uuid \<Rightarrow> datetime option \<Rightarrow> Document res" where
  "Document_mark_failed clock d actor_user_id now =
     Document_transition_to clock d DocFailed actor_user_id now"

definition Document_set_current_version ::
  "datetime \<Rightarrow> Document \<Rightarrow> DocumentVersion \<Rightarrow> uuid \<Rightarrow> datetime option \<Rightarrow> Document res" where
  "Document_set_current_version clock d version actor_user_id now =
     bind_res (Document_ensure_mutable d) (\<lambda>_.
     bind_res (raise_if (dv_document_id version \<noteq> d_id d)
       (DocumentError ''Current version must belong to the same document.'')) (\<lambda>_.
     bind_res (raise_if (dv_organization_id version \<noteq> d_organization_id d)
       (DocumentError ''Current version must belong to the same tenant.'')) (\<lambda>_.
     Document_mutated clock d actor_user_id now
       (\<lambda>d. d\<lparr>d_current_version_id := dv_id version,
               d_display_filename := dv_original_filename version,
               d_status := (if dv_storage_state version = StorageStored then DocStored
                            else DocRegistered)\<rparr>))))"

definition Document_archive :: "datetime \<Rightarrow> Document \<Rightarrow> uuid \<Rightarrow> datetime option \<Rightarrow> Document res" where
  "Document_archive clock d actor_user_id now =
     bind_res (Document_ensure_mutable d) (\<lambda>_.
     bind_res (Doc_normalize_timestamp (case now of None \<Rightarrow> clock | Some t \<Rightarrow> t) ''now'') (\<lambda>timestamp.
     bind_res (Doc_validate_uuid actor_user_id ''Document archive actor identifier'') (\<lambda>_.
     bind_res (raise_if (timestamp < d_created_at d)
       (DocumentError
         ''Document archive timestamp must not be earlier than creation timestamp.'')) (\<lambda>_.
     Document_post_init
       (d\<lparr>d_status := DocArchived, d_archived_at := Some timestamp,
          d_archived_by_user_id := Some actor_user_id, d_updated_at := timestamp,
          d_updated_by_user_id := actor_user_id, d_lock_version := d_lock_version d + 1\<rparr>)))))"

definition assert_artifact_consistent ::
  "Document \<Rightarrow> DocumentArtifact \<Rightarrow> DocumentVersion option \<Rightarrow> unit res" where
  "assert_artifact_consistent document artifact version =
     bind_res (raise_if (da_organization_id artifact \<noteq> d_organization_id document \<or>
                         da_document_id artifact \<noteq> d_id document)
       (DocumentError ''Artifact must belong to the same document and tenant.'')) (\<lambda>_.
     case version of
       None \<Rightarrow> Inr ()
     | Some v \<Rightarrow>
         bind_res (raise_if (da_document_version_id artifact \<noteq> Some (dv_id v))
           (DocumentError ''Artifact version reference must match the supplied version.'')) (\<lambda>_.
         raise_if (dv_organization_id v \<noteq> d_organization_id document \<or>
                   dv_document_id v \<noteq> d_id document)
           (DocumentError ''Artifact version must belong to the same document and tenant.'')))"

end
