(* ===== verification/Storage_Keys.thy ===== *)
theory Storage_Keys
  imports Documents
begin

text \<open>
  Normal forms of file names, media types and content hashes, and the storage object keys
  built from them. A key that one of the constructors builds is a list of plain segments
  joined by slashes; such keys pass the validation of \<^verbatim>\<open>StorageObjectKey.__post_init__\<close>, and
  splitting gives the segments back, so keys of different tenants never collide.
\<close>

section \<open>Slash-separated keys\<close>

definition plain_segment :: "string \<Rightarrow> bool" where
  "plain_segment s \<longleftrightarrow> s \<noteq> [] \<and> is_lower_alnum (hd s) \<and> is_lower_alnum (last s) \<and>
     list_all (\<lambda>c. is_lower_alnum c \<or> c = CHR ''-'') s"

lemma is_lower_alnum_simps [simp]:
  "\<not> is_lower_alnum (CHR ''/'')" "\<not> is_lower_alnum (CHR ''.'')" "\<not> is_lower_alnum (CHR ''-'')"
  "\<not> is_lower_alnum (CHR 0x5C)"
  by (simp_all add: is_lower_alnum_def)

lemma split_on_no_sep: "d \<notin> set w \<Longrightarrow> split_on d w = [w]"
  by (induction w) auto

lemma split_on_append: "d \<notin> set w \<Longrightarrow> split_on d (w @ d # s) = w # split_on d s"
  by (induction w) auto

lemma split_on_join:
  "ws \<noteq> [] \<Longrightarrow> \<forall>w \<in> set ws. d \<notin> set w \<Longrightarrow> split_on d (join [d] ws) = ws"
  by (induction "[d]" ws rule: join.induct) (auto simp: split_on_no_sep split_on_append)

lemma plain_segment_chars:
  assumes "plain_segment s"
  shows "CHR ''/'' \<notin> set s" and "CHR ''.'' \<notin> set s" and "CHR 0x5C \<notin> set s" and "s \<noteq> []"
  using assms by (auto simp: plain_segment_def list_all_iff)

lemma split_plain:
  "ws \<noteq> [] \<Longrightarrow> list_all plain_segment ws \<Longrightarrow> split_on (CHR ''/'') (join ''/'' ws) = ws"
  by (rule split_on_join) (auto simp: list_all_iff plain_segment_chars)

lemma join_set: "set (join sep ws) \<subseteq> \<Union> (set ` set ws) \<union> set sep"
  by (induction sep ws rule: join.induct) auto

lemma contains_set: "contains s p \<Longrightarrow> set p \<subseteq> set s"
  by (auto simp: contains_iff)

lemma contains_pair_Cons:
  "contains (c # s) [a, b] \<longleftrightarrow> (c = a \<and> s \<noteq> [] \<and> hd s = b) \<or> contains s [a, b]"
  by (cases s) auto

lemma contains_pair_append:
  "a \<notin> set w \<Longrightarrow> contains (w @ s) [a, b] \<longleftrightarrow> contains s [a, b]"
  by (induction w) (auto simp: contains_pair_Cons simp del: contains.simps)

lemma plain_hd: "plain_segment w \<Longrightarrow> hd (w @ s) \<noteq> CHR ''/''"
  by (auto simp: plain_segment_def)

lemma join_no_double_slash:
  "list_all plain_segment ws \<Longrightarrow> \<not> contains (join ''/'' ws) ''//''"
proof (induction "''/''" ws rule: join.induct)
  case (2 w)
  then show ?case
    by (auto dest!: contains_set plain_segment_chars(1))
next
  case (3 w v ws)
  then have "hd (join ''/'' (v # ws)) \<noteq> CHR ''/''" and "CHR ''/'' \<notin> set w"
    by (cases ws; auto simp: plain_segment_def plain_segment_chars)+
  then show ?case
    using 3 by (simp add: contains_pair_append contains_pair_Cons del: contains.simps)
qed simp

lemma hd_last_join:
  "ws \<noteq> [] \<Longrightarrow> list_all plain_segment ws \<Longrightarrow>
     join sep ws \<noteq> [] \<and> hd (join sep ws) = hd (hd ws) \<and> last (join sep ws) = last (last ws)"
  by (induction sep ws rule: join.induct) (auto simp: plain_segment_def)

lemma StorageObjectKey_join:
  assumes "list_all plain_segment ws" and "1 < length ws"
  shows "StorageObjectKey_post_init (join ''/'' ws) = Inr (StorageObjectKey (join ''/'' ws))"
proof -
  let ?k = "join ''/'' ws"
  have ne: "ws \<noteq> []" using assms(2) by auto
  have chars: "\<forall>c \<in> set ?k. is_lower_alnum c \<or> c = CHR ''-'' \<or> c = CHR ''/''"
    using join_set [of "''/''" ws] assms(1) by (fastforce simp: list_all_iff plain_segment_def)
  then have "\<not> contains ?k ''..''" and "\<not> contains ?k [CHR 0x5C]"
    by (fastforce dest: contains_set)+
  moreover have "2 \<le> length ?k"
    using assms ne by (cases ws rule: remdups_adj.cases) (auto simp: plain_segment_def Suc_le_eq)
  moreover have "is_lower_alnum (hd ?k)" "is_lower_alnum (last ?k)"
    using hd_last_join [OF ne assms(1), of "''/''"] assms(1) ne
    by (auto simp: list_all_iff plain_segment_def)
  moreover have "list_all safe_segment ws"
    using assms(1) by (auto simp: list_all_iff plain_segment_def safe_segment_def)
  ultimately show ?thesis
    using chars join_no_double_slash [OF assms(1)] split_plain [OF ne assms(1)]
    by (auto simp: StorageObjectKey_post_init_def storage_key_pattern_def list_all_iff)
qed

lemma is_hex_alnum: "is_hex c \<Longrightarrow> is_lower_alnum c"
  by (auto simp: is_hex_def is_lower_alnum_def)

lemma plain_uuid_str [simp]: "plain_segment (uuid_str u)"
proof -
  have hx: "list_all is_lower_alnum (hex_fixed k n)" for k n
    using hex_fixed_is_hex [of k n] by (auto simp: list_all_iff is_hex_alnum)
  have ends: "is_lower_alnum (hd (hex_fixed (Suc k) n))" "is_lower_alnum (last (hex_fixed (Suc k) n))"
    for k n
    using hx [of "Suc k" n] by (metis length_hex_fixed list.size(3) list_all_iff hd_in_set last_in_set
        nat.distinct(1))+
  have ne: "hex_fixed (Suc k) n \<noteq> []" for k n
    using length_hex_fixed [of "Suc k" n] by (metis list.size(3) nat.distinct(1))
  have "uuid_str u = hex_fixed (Suc 7) (unat u div 16 ^ 24) @ ''-'' @ drop 9 (uuid_str u)"
    by (simp add: uuid_str_def)
  moreover have "last (uuid_str u) = last (hex_fixed (Suc 11) (unat u mod 16 ^ 12))"
    using ne [of 11] by (simp add: uuid_str_def del: hex_fixed.simps)
  ultimately have "is_lower_alnum (hd (uuid_str u))" and "is_lower_alnum (last (uuid_str u))"
    using ends ne [of 7] by (metis hd_append2)+
  moreover have "list_all (\<lambda>c. is_lower_alnum c \<or> c = CHR ''-'') (hex_fixed k n)" for k n
    using hx [of k n] by (auto simp: list_all_iff)
  then have "list_all (\<lambda>c. is_lower_alnum c \<or> c = CHR ''-'') (uuid_str u)"
    by (simp add: uuid_str_def del: hex_fixed.simps)
  moreover have "uuid_str u \<noteq> []"
    by (metis length_uuid_str list.size(3) zero_neq_numeral)
  ultimately show ?thesis
    by (simp add: plain_segment_def)
qed

lemma plain_hex: "list_all is_hex s \<Longrightarrow> s \<noteq> [] \<Longrightarrow> plain_segment s"
  by (auto simp: plain_segment_def list_all_iff is_hex_alnum)

lemma plain_literals [simp]:
  "plain_segment ''documents''" "plain_segment ''sha256''" "plain_segment ''tmp''"
  "plain_segment ''artifacts''" "plain_segment (DocumentArtifactType_value t)"
  by (simp_all add: plain_segment_def is_lower_alnum_def)
    (cases t; simp add: plain_segment_def is_lower_alnum_def)


section \<open>The keys the constructors build\<close>

text \<open>What a storage key is built for.\<close>

datatype KeySource =
    ContentKey uuid ContentHash
  | TemporaryKey uuid uuid
  | ArtifactKey uuid DocumentId DocumentArtifactType DocumentArtifactId

fun build_key :: "KeySource \<Rightarrow> StorageObjectKey res" where
  "build_key (ContentKey org h) = StorageObjectKey_for_document_content org h"
| "build_key (TemporaryKey org upload) = StorageObjectKey_for_temporary_upload org upload"
| "build_key (ArtifactKey org doc t art) = StorageObjectKey_for_artifact org doc t art"

fun key_org :: "KeySource \<Rightarrow> uuid" where
  "key_org (ContentKey org h) = org"
| "key_org (TemporaryKey org upload) = org"
| "key_org (ArtifactKey org doc t art) = org"

fun key_source_ok :: "KeySource \<Rightarrow> bool" where
  "key_source_ok (ContentKey org h) \<longleftrightarrow> org \<noteq> 0 \<and> sha256_hex (ContentHash_value h)"
| "key_source_ok (TemporaryKey org upload) \<longleftrightarrow> org \<noteq> 0 \<and> upload \<noteq> 0"
| "key_source_ok (ArtifactKey org doc t art) \<longleftrightarrow> org \<noteq> 0"

fun key_segments :: "KeySource \<Rightarrow> string list" where
  "key_segments (ContentKey org h) =
     [''documents'', uuid_str org, ''sha256'', take 2 (ContentHash_value h),
      take 2 (drop 2 (ContentHash_value h)), ContentHash_value h]"
| "key_segments (TemporaryKey org upload) = [''tmp'', uuid_str org, uuid_str upload]"
| "key_segments (ArtifactKey org doc t art) =
     [''artifacts'', uuid_str org, uuid_str (DocumentId_value doc), DocumentArtifactType_value t,
      uuid_str (DocumentArtifactId_value art)]"

lemma key_segments_plain: "key_source_ok s \<Longrightarrow> list_all plain_segment (key_segments s)"
  by (cases s)
    (auto simp: sha256_hex_def list_all_iff dest!: in_set_takeD in_set_dropD intro!: plain_hex)

lemma build_key_ok:
  assumes "key_source_ok s"
  shows "build_key s = Inr (StorageObjectKey (join ''/'' (key_segments s)))"
  using StorageObjectKey_join [OF key_segments_plain [OF assms]] assms
  by (cases s)
    (auto simp: StorageObjectKey_for_document_content_def StorageObjectKey_for_temporary_upload_def
      StorageObjectKey_for_artifact_def Doc_validate_uuid_def check_uuid_def Let_def)

lemma DocumentArtifactType_value_inj:
  "DocumentArtifactType_value a = DocumentArtifactType_value b \<longleftrightarrow> a = b"
  by (cases a; cases b) simp_all

lemma key_segments_inj:
  "key_segments s = key_segments t \<Longrightarrow> s = t"
  by (cases s; cases t)
    (auto simp: uuid_str_inj DocumentArtifactType_value_inj ContentHash.expand
      DocumentId.expand DocumentArtifactId.expand)

lemma join_tenant_prefix:
  "join ''/'' (a # u # w # ws) = (a @ ''/'' @ u @ ''/'') @ join ''/'' (w # ws)"
  by simp

section \<open>Properties\<close>

text \<open>
  C29. Storage keys are never shared: when two key requests (final content of a tenant's
  document, temporary upload, stored artifact) produce the same object key, they are the same
  request. In particular two tenants, and a temporary and a final object, never share a key.
\<close>

theorem storage_keys_never_collide:
  assumes "key_source_ok s" and "key_source_ok t"
    and "build_key s = Inr k" and "build_key t = Inr k"
  shows "s = t"
proof -
  have "join ''/'' (key_segments s) = join ''/'' (key_segments t)"
    using assms build_key_ok by fastforce
  moreover have "key_segments s \<noteq> []" "key_segments t \<noteq> []"
    by (cases s; simp) (cases t; simp)
  ultimately have "key_segments s = key_segments t"
    using assms key_segments_plain split_plain by metis
  then show ?thesis
    by (rule key_segments_inj)
qed

definition sample_hash :: string where
  "sample_hash = replicate 32 (CHR ''a'') @ replicate 32 (CHR ''0'')"

lemma sample_hash_ok [simp]: "sha256_hex sample_hash"
  by (simp add: sample_hash_def sha256_hex_def is_hex_def list_all_iff)

theorem storage_keys_never_collide_witness:
  "\<exists>k. build_key (ContentKey 5 (ContentHash sample_hash)) = Inr k \<and>
     build_key (ContentKey 6 (ContentHash sample_hash)) \<noteq> Inr k"
proof -
  let ?s = "ContentKey 5 (ContentHash sample_hash)" and ?t = "ContentKey 6 (ContentHash sample_hash)"
  have ok: "key_source_ok ?s" "key_source_ok ?t" and ne: "?s \<noteq> ?t"
    by simp_all
  obtain k where k: "build_key ?s = Inr k"
    using build_key_ok [OF ok(1)] by blast
  then have "build_key ?t \<noteq> Inr k"
    using storage_keys_never_collide [OF ok k] ne by blast
  with k show ?thesis by blast
qed

section \<open>Normal forms\<close>

lemma split_acc_set: "\<forall>w \<in> set (split_acc acc s). set w \<subseteq> set acc \<union> set s"
  by (induction acc s rule: split_acc.induct) auto

lemma join_split_ws_set: "set (join '' '' (split_ws s)) \<subseteq> insert (CHR '' '') (set s)"
  using join_set [of "'' ''" "split_ws s"] split_acc_set [of "[]" s]
  by (fastforce simp: split_ws_def)

definition safe_filename :: "string \<Rightarrow> bool" where
  "safe_filename f \<longleftrightarrow> f \<notin> {[], ''.'', ''..''} \<and> length f \<le> 255 \<and> ws_normal f \<and>
     CHR ''/'' \<notin> set f \<and> CHR 0x5C \<notin> set f \<and> list_all (\<lambda>c. \<not> is_control c) f"

lemma strip_set: "set (strip s) \<subseteq> set s"
  by (auto simp: strip_def dest!: set_dropWhileD)

lemma rsplit_last_set: "set (rsplit_last d s) \<subseteq> set s - {d}"
  by (auto simp: rsplit_last_def dest: set_takeWhileD)

lemma normalize_original_filename_safe:
  assumes "normalize_original_filename f = Inr g"
  shows "safe_filename g"
proof -
  let ?n2 = "rsplit_last (CHR ''/'') (replace_char (CHR 0x5C) (CHR ''/'') f)"
  let ?n3 = "filter (\<lambda>c. \<not> is_control c) (strip ?n2)"
  have g: "g = join '' '' (split_ws ?n3)" and "g \<notin> {[], ''.'', ''..''}" and "length g \<le> 255"
    using assms by (auto simp: normalize_original_filename_def normalize_original_filename_nfc_def Let_def document_limits split: if_splits)
  moreover have "CHR ''/'' \<notin> set ?n2" "CHR 0x5C \<notin> set ?n2"
    using rsplit_last_set [of "CHR ''/''" "replace_char (CHR 0x5C) (CHR ''/'') f"]
    by (auto simp: replace_char_def)
  then have "\<forall>c \<in> set g. c \<noteq> CHR ''/'' \<and> c \<noteq> CHR 0x5C \<and> \<not> is_control c"
    using join_split_ws_set [of ?n3] strip_set [of ?n2] g by (auto simp: is_control_def)
  moreover have "ws_normal g"
    using g split_ws_words by (auto simp: ws_normal_def)
  ultimately show ?thesis
    unfolding safe_filename_def list_all_iff by blast
qed

lemma rsplit_last_id: "d \<notin> set s \<Longrightarrow> rsplit_last d s = s"
proof -
  assume "d \<notin> set s"
  then have "takeWhile (\<lambda>c. c \<noteq> d) (rev s) = rev s"
    by (intro takeWhile_eq_all_conv [THEN iffD2]) auto
  then show ?thesis
    by (simp only: rsplit_last_def rev_rev_ident)
qed

lemma replace_char_id: "a \<notin> set s \<Longrightarrow> replace_char a b s = s"
  by (induction s) (auto simp: replace_char_def)

lemma ws_normal_join: "ws_normal s \<Longrightarrow> strip s = s \<and> join '' '' (split_ws s) = s"
  by (auto simp: ws_normal_def strip_join split_ws_join)

lemma normalize_original_filename_id:
  "safe_filename f \<Longrightarrow> normalize_original_filename f = Inr f"
  by (simp add: safe_filename_def normalize_original_filename_def normalize_original_filename_nfc_def Let_def document_limits
      rsplit_last_id replace_char_id ws_normal_join list_all_iff filter_id_conv)

lemma media_type_part_no_space: "media_type_part s \<Longrightarrow> list_all (\<lambda>c. \<not> is_space c) s"
  by (auto simp: media_type_part_def list_all_iff is_alnum_def is_lower_alnum_def is_space_def)

lemma split_on_nonempty: "split_on d s \<noteq> []"
  by (cases s) (auto split: list.splits)

lemma split_on_single: "split_on d s = [b] \<Longrightarrow> s = b"
  by (induction s arbitrary: b) (auto simp: split_on_nonempty split: if_splits list.splits)

lemma split_on_pair: "split_on d s = [a, b] \<Longrightarrow> s = a @ d # b"
  by (induction s arbitrary: a)
    (auto simp: split_on_nonempty split: if_splits list.splits dest: split_on_single)

lemma normalize_media_type_fixed:
  assumes "normalize_media_type m = Inr n"
  shows "media_type_pattern n" and "lower n = n" and "strip n = n"
proof -
  show pat: "media_type_pattern n" and "lower n = n"
    using assms by (auto simp: normalize_media_type_def Let_def split: if_splits)
  then obtain a b where ab: "n = a @ CHR ''/'' # b" "media_type_part a" "media_type_part b"
    by (auto simp: media_type_pattern_def split: list.splits dest: split_on_pair)
  then have "n \<noteq> []" "\<not> is_space (hd n)" "\<not> is_space (last n)"
    using media_type_part_no_space [of a] media_type_part_no_space [of b]
    by (auto simp: media_type_part_def list_all_iff)
  then show "strip n = n"
    by (intro strip_id) auto
qed

lemma normalize_media_type_id:
  "media_type_pattern n \<Longrightarrow> lower n = n \<Longrightarrow> strip n = n \<Longrightarrow> normalize_media_type n = Inr n"
  by (simp add: normalize_media_type_def)

section \<open>Properties of normal forms and tenant safety\<close>

text \<open>
  A file name that the normalisation accepts has no path separator and no control
  character, is not empty or a dot directory and is at most 255 characters long; and it is
  its own normal form, so storing and reloading it changes nothing.
\<close>

theorem original_filename_normal_form:
  assumes "normalize_original_filename f = Inr g"
  shows "safe_filename g \<and> normalize_original_filename g = Inr g"
  using normalize_original_filename_safe [OF assms] normalize_original_filename_id by blast

theorem original_filename_normal_form_witness:
  "normalize_original_filename ''a/b'' = Inr ''b'' \<and> safe_filename ''b''"
proof -
  have "normalize_original_filename ''a/b'' = Inr ''b''"
    by code_simp
  then show ?thesis
    using original_filename_normal_form by blast
qed

lemma uuid_prefix_eq:
  assumes "startswith (a @ uuid_str v @ s) (a @ uuid_str u @ p)"
  shows "u = v"
proof -
  obtain t where "a @ uuid_str v @ s = (a @ uuid_str u @ p) @ t"
    using assms by (auto simp: startswith_iff)
  then have "uuid_str v = uuid_str u"
    by simp
  then show ?thesis
    by (simp add: uuid_str_inj)
qed

lemma startswith_extend: "startswith (a @ s) (a @ p) \<longleftrightarrow> startswith s p"
  by (simp add: startswith_iff)

lemma DocumentVersion_post_init_key:
  "DocumentVersion_post_init v = Inr w \<Longrightarrow>
     dv_storage_object_key w = dv_storage_object_key v \<and> dv_organization_id w = dv_organization_id v \<and>
     startswith (StorageObjectKey_value (dv_storage_object_key v))
       (''documents/'' @ uuid_str (dv_organization_id v) @ ''/sha256/'')"
  by (auto simp: DocumentVersion_post_init_def ensure_key_is_tenant_safe_def)

lemma content_key_tenant_safe:
  assumes "key_source_ok (ContentKey org h)"
  shows "\<exists>k. StorageObjectKey_for_document_content org h = Inr k \<and>
    ensure_key_is_tenant_safe k org (''documents/'' @ uuid_str org @ ''/sha256/'') = Inr ()"
proof -
  let ?k = "join ''/'' (key_segments (ContentKey org h))"
  have k: "?k = (''documents/'' @ uuid_str org @ ''/sha256/'') @
      join ''/'' [take 2 (ContentHash_value h), take 2 (drop 2 (ContentHash_value h)), ContentHash_value h]"
    by simp
  have "startswith ?k (''documents/'' @ uuid_str org @ ''/sha256/'')"
    unfolding k by (rule startswith_append)
  moreover have "contains ?k (uuid_str org)"
    unfolding k contains_iff by (metis append.assoc)
  ultimately show ?thesis
    using build_key_ok [OF assms] by (simp add: ensure_key_is_tenant_safe_def)
qed

text \<open>
  C30. A document version that passes its constructor points into its own tenant's content area:
  its object key, which the constructor leaves as it is, starts with the prefix of the version's
  organization. So it starts with the content prefix of no other organization, and no other
  tenant is ever given this key, for a document's content, a temporary upload or an artifact.
\<close>

theorem version_key_stays_in_tenant:
  assumes "DocumentVersion_post_init v = Inr w"
  shows "dv_organization_id w = dv_organization_id v \<and> dv_storage_object_key w = dv_storage_object_key v \<and>
    startswith (StorageObjectKey_value (dv_storage_object_key w))
      (''documents/'' @ uuid_str (dv_organization_id w) @ ''/sha256/'') \<and>
    (\<forall>org. startswith (StorageObjectKey_value (dv_storage_object_key w)) (''documents/'' @ uuid_str org) \<longrightarrow>
       org = dv_organization_id w) \<and>
    (\<forall>s. key_source_ok s \<and> build_key s = Inr (dv_storage_object_key w) \<longrightarrow> key_org s = dv_organization_id w)"
proof -
  let ?k = "StorageObjectKey_value (dv_storage_object_key w)" and ?o = "dv_organization_id w"
  have w: "?o = dv_organization_id v" "dv_storage_object_key w = dv_storage_object_key v"
    "startswith ?k (''documents/'' @ uuid_str ?o @ ''/sha256/'')"
    using DocumentVersion_post_init_key [OF assms] by simp_all
  then obtain t where k: "?k = ''documents/'' @ uuid_str ?o @ ''/sha256/'' @ t" by (auto simp: startswith_iff)
  have other: "org = ?o" if "startswith ?k (''documents/'' @ uuid_str org)" for org
    using that uuid_prefix_eq [of "''documents/''" ?o "''/sha256/'' @ t" org "[]"] unfolding k by simp
  have "key_org s = ?o" if s: "key_source_ok s" "build_key s = Inr (dv_storage_object_key w)" for s
  proof -
    have j: "?k = join ''/'' (key_segments s)"
      using build_key_ok [OF s(1)] s(2) by (metis StorageObjectKey.sel sum.inject(2))
    show ?thesis
    proof (cases s)
      case (ContentKey g h)
      have "startswith ?k (''documents/'' @ uuid_str g)"
        unfolding j ContentKey key_segments.simps using startswith_append [of "''documents/'' @ uuid_str g"] by simp
      then show ?thesis using other ContentKey by simp
    qed (use j k in simp_all)
  qed
  with w other show ?thesis by blast
qed

definition sample_version :: DocumentVersion where
  "sample_version =
     \<lparr>dv_id = DocumentVersionId 7, dv_organization_id = 5, dv_document_id = DocumentId 8,
      dv_version_number = 1, dv_original_filename = ''a.pdf'', dv_media_type = ''a/b'',
      dv_byte_size = 4, dv_content_hash = ContentHash sample_hash,
      dv_storage_object_key =
        StorageObjectKey (join ''/'' (key_segments (ContentKey 5 (ContentHash sample_hash)))),
      dv_storage_state = StoragePending, dv_created_at = utc 0, dv_created_by_user_id = 9\<rparr>"

lemma sample_filename [simp]: "normalize_original_filename ''a.pdf'' = Inr ''a.pdf''"
  by code_simp

lemma sample_media_type [simp]: "normalize_media_type ''a/b'' = Inr ''a/b''"
  by code_simp

lemma sample_version_ok: "DocumentVersion_post_init sample_version = Inr sample_version"
  using content_key_tenant_safe [of 5 "ContentHash sample_hash"]
    build_key_ok [of "ContentKey 5 (ContentHash sample_hash)"]
  by (simp add: sample_version_def DocumentVersion_post_init_def Doc_validate_uuid_def check_uuid_def
      validate_byte_size_def Doc_normalize_timestamp_def to_utc_def raise_if_def)

theorem version_key_stays_in_tenant_witness:
  "startswith (StorageObjectKey_value (dv_storage_object_key sample_version)) (''documents/'' @ uuid_str 5 @ ''/sha256/'') \<and>
   build_key (ContentKey 6 (ContentHash sample_hash)) \<noteq> Inr (dv_storage_object_key sample_version)"
proof -
  have "dv_organization_id sample_version = 5" by (simp add: sample_version_def)
  moreover have "key_org (ContentKey 6 (ContentHash sample_hash)) \<noteq> (5::uuid)" "key_source_ok (ContentKey 6 (ContentHash sample_hash))"
    by simp_all
  ultimately show ?thesis using version_key_stays_in_tenant [OF sample_version_ok] by metis
qed

end
