(* ===== verification/Identity.thy ===== *)
theory Identity
  imports Values
begin

text \<open>
  Identity and tenancy, \<^verbatim>\<open>workflowforge_domain/identity/\<close>: email addresses and organization
  slugs (\<^verbatim>\<open>value_objects.py\<close>), users, organizations and memberships with their lifecycle
  operations (\<^verbatim>\<open>entities.py\<close>), the last-active-owner policy (\<^verbatim>\<open>policies.py\<close>) and the permissions
  of each role (\<^verbatim>\<open>permissions.py\<close>).
\<close>

section \<open>Value objects\<close>

record EmailAddress =
  e_display :: string
  e_normalized :: string

definition EMAIL_MIN_LENGTH :: nat where "EMAIL_MIN_LENGTH = 3"
definition EMAIL_MAX_LENGTH :: nat where "EMAIL_MAX_LENGTH = 254"
definition ORGANIZATION_SLUG_MIN_LENGTH :: nat where "ORGANIZATION_SLUG_MIN_LENGTH = 3"
definition ORGANIZATION_SLUG_MAX_LENGTH :: nat where "ORGANIZATION_SLUG_MAX_LENGTH = 63"

lemmas identity_limits = EMAIL_MIN_LENGTH_def EMAIL_MAX_LENGTH_def
  ORGANIZATION_SLUG_MIN_LENGTH_def ORGANIZATION_SLUG_MAX_LENGTH_def

definition email_domain_ok :: "string \<Rightarrow> bool" where
  "email_domain_ok domain_part \<longleftrightarrow> \<not> (startswith domain_part ''.'' \<or> endswith domain_part ''.'' \<or>
     contains domain_part ''..'')"

definition EmailAddress_post_init :: "string \<Rightarrow> EmailAddress res" where
  "EmailAddress_post_init value =
     (let display = strip value; normalized = casefold display in
      bind_res (raise_if (normalized = [])
        (InvalidEmailAddress ''Email address must not be empty.'')) (\<lambda>_.
      bind_res (raise_if (length normalized < EMAIL_MIN_LENGTH)
        (InvalidEmailAddress (''Email address must be at least '' @ nat_str EMAIL_MIN_LENGTH @
          '' characters.''))) (\<lambda>_.
      bind_res (raise_if (EMAIL_MAX_LENGTH < length normalized)
        (InvalidEmailAddress (''Email address must be at most '' @ nat_str EMAIL_MAX_LENGTH @
          '' characters.''))) (\<lambda>_.
      bind_res (raise_if (list_ex is_space normalized)
        (InvalidEmailAddress ''Email address must not contain whitespace.'')) (\<lambda>_.
      bind_res (raise_if (count_list normalized (CHR ''@'') \<noteq> 1)
        (InvalidEmailAddress ''Email address must contain exactly one @ separator.'')) (\<lambda>_.
      let local_part = takeWhile (\<lambda>c. c \<noteq> CHR ''@'') normalized;
          domain_part = tl (dropWhile (\<lambda>c. c \<noteq> CHR ''@'') normalized) in
      bind_res (raise_if (local_part = [])
        (InvalidEmailAddress ''Email address local part must not be empty.'')) (\<lambda>_.
      bind_res (raise_if (domain_part = [])
        (InvalidEmailAddress ''Email address domain part must not be empty.'')) (\<lambda>_.
      bind_res (raise_if (\<not> contains domain_part ''.'')
        (InvalidEmailAddress ''Email address domain part must contain a dot.'')) (\<lambda>_.
      bind_res (raise_if (\<not> email_domain_ok domain_part)
        (InvalidEmailAddress ''Email address domain part is invalid.'')) (\<lambda>_.
      Inr \<lparr>e_display = display, e_normalized = normalized\<rparr>))))))))))"

definition EmailAddress_eq :: "EmailAddress \<Rightarrow> EmailAddress \<Rightarrow> bool" where
  "EmailAddress_eq a b \<longleftrightarrow> e_normalized a = e_normalized b"

datatype OrganizationSlug = OrganizationSlug (OrganizationSlug_value: string)

definition slug_char :: "char \<Rightarrow> bool" where
  "slug_char c \<longleftrightarrow> (48 \<le> ord c \<and> ord c \<le> 57) \<or> (97 \<le> ord c \<and> ord c \<le> 122)"

definition slug_pattern :: "string \<Rightarrow> bool" where
  \<comment> \<open>\<^verbatim>\<open>[a-z0-9]+(?:-[a-z0-9]+)*\<close>: the parts between hyphens are not empty\<close>
  "slug_pattern s \<longleftrightarrow> list_all (\<lambda>w. w \<noteq> [] \<and> list_all slug_char w) (split_on (CHR ''-'') s)"

definition OrganizationSlug_post_init :: "string \<Rightarrow> OrganizationSlug res" where
  "OrganizationSlug_post_init value =
     (let normalized = lower (strip value) in
      bind_res (raise_if (length normalized < ORGANIZATION_SLUG_MIN_LENGTH)
        (InvalidOrganizationSlug (''Organization slug must be at least '' @
          nat_str ORGANIZATION_SLUG_MIN_LENGTH @ '' characters.''))) (\<lambda>_.
      bind_res (raise_if (ORGANIZATION_SLUG_MAX_LENGTH < length normalized)
        (InvalidOrganizationSlug (''Organization slug must be at most '' @
          nat_str ORGANIZATION_SLUG_MAX_LENGTH @ '' characters.''))) (\<lambda>_.
      bind_res (raise_if (\<not> slug_pattern normalized)
        (InvalidOrganizationSlug (''Organization slug must contain only lowercase letters, digits, '' @
          ''and single hyphens between alphanumeric characters.''))) (\<lambda>_.
      Inr (OrganizationSlug normalized)))))"

section \<open>Entities\<close>

definition normalize_timestamp :: "datetime \<Rightarrow> string \<Rightarrow> datetime res" where
  "normalize_timestamp value field_name =
     to_utc (InvalidTimestamp (field_name @ '' timestamp must be timezone-aware.'')) value"

definition validate_uuid :: "uuid \<Rightarrow> string \<Rightarrow> unit res" where
  "validate_uuid value field_name = check_uuid InvalidIdentifier value field_name"

definition normalize_display_name :: "string \<Rightarrow> string res" where
  "normalize_display_name value =
     (let normalized = normalize_ws value in
      if length normalized < 1 then Inl (InvalidDisplayName ''Display name must not be empty.'')
      else if 120 < length normalized then
        Inl (InvalidDisplayName (''Display name must be at most '' @ nat_str 120 @ '' characters.''))
      else Inr normalized)"

definition normalize_organization_name :: "string \<Rightarrow> string res" where
  "normalize_organization_name value =
     (let normalized = normalize_ws value in
      if length normalized < 1 then
        Inl (InvalidOrganizationName ''Organization name must not be empty.'')
      else if 160 < length normalized then
        Inl (InvalidOrganizationName
          (''Organization name must be at most '' @ nat_str 160 @ '' characters.''))
      else Inr normalized)"

subsection \<open>User\<close>

record User =
  u_id :: uuid
  u_email :: EmailAddress
  u_display_name :: string
  u_is_active :: bool
  u_created_at :: datetime
  u_updated_at :: datetime
  u_disabled_at :: "datetime option"

definition User_post_init :: "User \<Rightarrow> User res" where
  "User_post_init u =
     bind_res (validate_uuid (u_id u) ''User identifier'') (\<lambda>_.
     bind_res (normalize_display_name (u_display_name u)) (\<lambda>display_name.
     bind_res (normalize_timestamp (u_created_at u) ''created_at'') (\<lambda>created_at.
     bind_res (normalize_timestamp (u_updated_at u) ''updated_at'') (\<lambda>updated_at.
     bind_res (opt_res (\<lambda>t. normalize_timestamp t ''disabled_at'') (u_disabled_at u)) (\<lambda>disabled_at.
     bind_res (raise_if (updated_at < created_at)
       (InvalidTimestamp
         ''User updated timestamp must not be earlier than creation timestamp.'')) (\<lambda>_.
     bind_res (raise_if (u_is_active u \<and> disabled_at \<noteq> None)
       (InvalidTimestamp ''Active user must not have a disabled timestamp.'')) (\<lambda>_.
     bind_res (raise_if (\<not> u_is_active u \<and> disabled_at = None)
       (InvalidTimestamp ''Inactive user must have a disabled timestamp.'')) (\<lambda>_.
     Inr (u\<lparr>u_display_name := display_name, u_created_at := created_at,
            u_updated_at := updated_at, u_disabled_at := disabled_at\<rparr>)))))))))"

definition User_create :: "uuid \<Rightarrow> EmailAddress \<Rightarrow> string \<Rightarrow> datetime \<Rightarrow> User res" where
  "User_create user_id email display_name now =
     bind_res (normalize_timestamp now ''now'') (\<lambda>timestamp.
     User_post_init
       \<lparr>u_id = user_id, u_email = email, u_display_name = display_name, u_is_active = True,
        u_created_at = timestamp, u_updated_at = timestamp, u_disabled_at = None\<rparr>)"

definition User_mutation_timestamp :: "User \<Rightarrow> datetime \<Rightarrow> datetime res" where
  "User_mutation_timestamp u value =
     bind_res (normalize_timestamp value ''now'') (\<lambda>timestamp.
     bind_res (raise_if (timestamp < u_created_at u)
       (InvalidTimestamp
         ''User mutation timestamp must not be earlier than creation timestamp.'')) (\<lambda>_.
     Inr timestamp))"

definition User_disable :: "User \<Rightarrow> datetime \<Rightarrow> User res" where
  "User_disable u now =
     (if \<not> u_is_active u then Inr u
      else bind_res (User_mutation_timestamp u now) (\<lambda>timestamp.
        User_post_init (u\<lparr>u_is_active := False, u_updated_at := timestamp,
                          u_disabled_at := Some timestamp\<rparr>)))"

definition User_reactivate :: "User \<Rightarrow> datetime \<Rightarrow> User res" where
  "User_reactivate u now =
     (if u_is_active u then Inr u
      else bind_res (User_mutation_timestamp u now) (\<lambda>timestamp.
        User_post_init (u\<lparr>u_is_active := True, u_updated_at := timestamp,
                          u_disabled_at := None\<rparr>)))"

definition User_rename :: "User \<Rightarrow> string \<Rightarrow> datetime \<Rightarrow> User res" where
  "User_rename u display_name now =
     bind_res (normalize_display_name display_name) (\<lambda>normalized_display_name.
     if normalized_display_name = u_display_name u then Inr u
     else bind_res (User_mutation_timestamp u now) (\<lambda>timestamp.
       User_post_init (u\<lparr>u_display_name := normalized_display_name, u_updated_at := timestamp\<rparr>)))"

definition User_change_email :: "User \<Rightarrow> EmailAddress \<Rightarrow> datetime \<Rightarrow> User res" where
  "User_change_email u email now =
     (if EmailAddress_eq email (u_email u) then Inr u
      else bind_res (User_mutation_timestamp u now) (\<lambda>timestamp.
        User_post_init (u\<lparr>u_email := email, u_updated_at := timestamp\<rparr>)))"

subsection \<open>Organization\<close>

record Organization =
  o_id :: uuid
  o_name :: string
  o_slug :: OrganizationSlug
  o_is_active :: bool
  o_created_at :: datetime
  o_updated_at :: datetime
  o_deactivated_at :: "datetime option"

definition Organization_post_init :: "Organization \<Rightarrow> Organization res" where
  "Organization_post_init g =
     bind_res (validate_uuid (o_id g) ''Organization identifier'') (\<lambda>_.
     bind_res (normalize_organization_name (o_name g)) (\<lambda>name.
     bind_res (normalize_timestamp (o_created_at g) ''created_at'') (\<lambda>created_at.
     bind_res (normalize_timestamp (o_updated_at g) ''updated_at'') (\<lambda>updated_at.
     bind_res (opt_res (\<lambda>t. normalize_timestamp t ''deactivated_at'') (o_deactivated_at g))
       (\<lambda>deactivated_at.
     bind_res (raise_if (updated_at < created_at)
       (InvalidTimestamp
         ''Organization updated timestamp must not be earlier than creation timestamp.'')) (\<lambda>_.
     bind_res (raise_if (o_is_active g \<and> deactivated_at \<noteq> None)
       (InvalidTimestamp ''Active organization must not have a deactivated timestamp.'')) (\<lambda>_.
     bind_res (raise_if (\<not> o_is_active g \<and> deactivated_at = None)
       (InvalidTimestamp ''Inactive organization must have a deactivated timestamp.'')) (\<lambda>_.
     Inr (g\<lparr>o_name := name, o_created_at := created_at, o_updated_at := updated_at,
            o_deactivated_at := deactivated_at\<rparr>)))))))))"

definition Organization_create :: "uuid \<Rightarrow> string \<Rightarrow> OrganizationSlug \<Rightarrow> datetime \<Rightarrow> Organization res" where
  "Organization_create organization_id name slug now =
     bind_res (normalize_timestamp now ''now'') (\<lambda>timestamp.
     Organization_post_init
       \<lparr>o_id = organization_id, o_name = name, o_slug = slug, o_is_active = True,
        o_created_at = timestamp, o_updated_at = timestamp, o_deactivated_at = None\<rparr>)"

definition Organization_mutation_timestamp :: "Organization \<Rightarrow> datetime \<Rightarrow> datetime res" where
  "Organization_mutation_timestamp g value =
     bind_res (normalize_timestamp value ''now'') (\<lambda>timestamp.
     bind_res (raise_if (timestamp < o_created_at g)
       (InvalidTimestamp
         ''Organization mutation timestamp must not be earlier than creation timestamp.'')) (\<lambda>_.
     Inr timestamp))"

definition Organization_rename :: "Organization \<Rightarrow> string \<Rightarrow> datetime \<Rightarrow> Organization res" where
  "Organization_rename g name now =
     bind_res (normalize_organization_name name) (\<lambda>normalized_name.
     if normalized_name = o_name g then Inr g
     else bind_res (Organization_mutation_timestamp g now) (\<lambda>timestamp.
       Organization_post_init (g\<lparr>o_name := normalized_name, o_updated_at := timestamp\<rparr>)))"

definition Organization_deactivate :: "Organization \<Rightarrow> datetime \<Rightarrow> Organization res" where
  "Organization_deactivate g now =
     (if \<not> o_is_active g then Inr g
      else bind_res (Organization_mutation_timestamp g now) (\<lambda>timestamp.
        Organization_post_init (g\<lparr>o_is_active := False, o_updated_at := timestamp,
                                  o_deactivated_at := Some timestamp\<rparr>)))"

definition Organization_reactivate :: "Organization \<Rightarrow> datetime \<Rightarrow> Organization res" where
  "Organization_reactivate g now =
     (if o_is_active g then Inr g
      else bind_res (Organization_mutation_timestamp g now) (\<lambda>timestamp.
        Organization_post_init (g\<lparr>o_is_active := True, o_updated_at := timestamp,
                                  o_deactivated_at := None\<rparr>)))"

subsection \<open>Membership\<close>

record Membership =
  m_id :: uuid
  m_user_id :: uuid
  m_organization_id :: uuid
  m_role :: Role
  m_status :: MembershipStatus
  m_created_at :: datetime
  m_updated_at :: datetime
  m_invited_at :: "datetime option"
  m_joined_at :: "datetime option"
  m_suspended_at :: "datetime option"
  m_removed_at :: "datetime option"

definition Membership_validate_lifecycle_state :: "Membership \<Rightarrow> unit res" where
  "Membership_validate_lifecycle_state m =
     (case m_status m of
        INVITED \<Rightarrow>
          bind_res (raise_if (m_invited_at m = None)
            (InvalidTimestamp ''Invited membership must have an invited timestamp.'')) (\<lambda>_.
          bind_res (raise_if (m_joined_at m \<noteq> None \<or> m_suspended_at m \<noteq> None)
            (InvalidTimestamp ''Invited membership cannot have joined or suspended timestamps.'')) (\<lambda>_.
          raise_if (m_removed_at m \<noteq> None)
            (InvalidTimestamp ''Invited membership cannot have a removed timestamp.'')))
      | ACTIVE \<Rightarrow>
          bind_res (raise_if (m_joined_at m = None)
            (InvalidTimestamp ''Active membership must have a joined timestamp.'')) (\<lambda>_.
          raise_if (m_suspended_at m \<noteq> None \<or> m_removed_at m \<noteq> None)
            (InvalidTimestamp ''Active membership cannot have suspended or removed timestamps.''))
      | SUSPENDED \<Rightarrow>
          bind_res (raise_if (m_joined_at m = None \<or> m_suspended_at m = None)
            (InvalidTimestamp ''Suspended membership must have joined and suspended timestamps.'')) (\<lambda>_.
          raise_if (m_removed_at m \<noteq> None)
            (InvalidTimestamp ''Suspended membership cannot have a removed timestamp.''))
      | REMOVED \<Rightarrow>
          raise_if (m_removed_at m = None)
            (InvalidTimestamp ''Removed membership must have a removed timestamp.''))"

definition Membership_post_init :: "Membership \<Rightarrow> Membership res" where
  "Membership_post_init m =
     bind_res (validate_uuid (m_id m) ''Membership identifier'') (\<lambda>_.
     bind_res (validate_uuid (m_user_id m) ''Membership user identifier'') (\<lambda>_.
     bind_res (validate_uuid (m_organization_id m) ''Membership organization identifier'') (\<lambda>_.
     bind_res (normalize_timestamp (m_created_at m) ''created_at'') (\<lambda>created_at.
     bind_res (normalize_timestamp (m_updated_at m) ''updated_at'') (\<lambda>updated_at.
     bind_res (opt_res (\<lambda>t. normalize_timestamp t ''invited_at'') (m_invited_at m)) (\<lambda>invited_at.
     bind_res (opt_res (\<lambda>t. normalize_timestamp t ''joined_at'') (m_joined_at m)) (\<lambda>joined_at.
     bind_res (opt_res (\<lambda>t. normalize_timestamp t ''suspended_at'') (m_suspended_at m)) (\<lambda>suspended_at.
     bind_res (opt_res (\<lambda>t. normalize_timestamp t ''removed_at'') (m_removed_at m)) (\<lambda>removed_at.
     bind_res (raise_if (updated_at < created_at)
       (InvalidTimestamp
         ''Membership updated timestamp must not be earlier than creation timestamp.'')) (\<lambda>_.
     let m' = m\<lparr>m_created_at := created_at, m_updated_at := updated_at,
                m_invited_at := invited_at, m_joined_at := joined_at,
                m_suspended_at := suspended_at, m_removed_at := removed_at\<rparr> in
     bind_res (Membership_validate_lifecycle_state m') (\<lambda>_. Inr m')))))))))))"

definition Membership_invite :: "uuid \<Rightarrow> uuid \<Rightarrow> uuid \<Rightarrow> Role \<Rightarrow> datetime \<Rightarrow> Membership res" where
  "Membership_invite membership_id user_id organization_id role now =
     bind_res (normalize_timestamp now ''now'') (\<lambda>timestamp.
     Membership_post_init
       \<lparr>m_id = membership_id, m_user_id = user_id, m_organization_id = organization_id,
        m_role = role, m_status = INVITED, m_created_at = timestamp, m_updated_at = timestamp,
        m_invited_at = Some timestamp, m_joined_at = None, m_suspended_at = None,
        m_removed_at = None\<rparr>)"

definition Membership_activate_directly :: "uuid \<Rightarrow> uuid \<Rightarrow> uuid \<Rightarrow> Role \<Rightarrow> datetime \<Rightarrow> Membership res" where
  "Membership_activate_directly membership_id user_id organization_id role now =
     bind_res (normalize_timestamp now ''now'') (\<lambda>timestamp.
     Membership_post_init
       \<lparr>m_id = membership_id, m_user_id = user_id, m_organization_id = organization_id,
        m_role = role, m_status = ACTIVE, m_created_at = timestamp, m_updated_at = timestamp,
        m_invited_at = None, m_joined_at = Some timestamp, m_suspended_at = None,
        m_removed_at = None\<rparr>)"

definition Membership_mutation_timestamp :: "Membership \<Rightarrow> datetime \<Rightarrow> datetime res" where
  "Membership_mutation_timestamp m value =
     bind_res (normalize_timestamp value ''now'') (\<lambda>timestamp.
     bind_res (raise_if (timestamp < m_created_at m)
       (InvalidTimestamp
         ''Membership mutation timestamp must not be earlier than creation timestamp.'')) (\<lambda>_.
     Inr timestamp))"

definition raise_removed :: "string \<Rightarrow> exn" where
  "raise_removed operation = MembershipAlreadyRemoved (''Cannot '' @ operation @ '' a removed membership.'')"

definition raise_invalid_transition :: "Membership \<Rightarrow> string \<Rightarrow> exn" where
  "raise_invalid_transition m operation =
     (if m_status m = REMOVED then raise_removed operation
      else InvalidMembershipTransition (''Cannot '' @ operation @ '' membership in '' @
        MembershipStatus_value (m_status m) @ '' status.''))"

definition Membership_activate :: "Membership \<Rightarrow> datetime \<Rightarrow> Membership res" where
  "Membership_activate m now =
     (if m_status m = ACTIVE then Inr m
      else bind_res (raise_if (m_status m \<noteq> INVITED) (raise_invalid_transition m ''activate'')) (\<lambda>_.
        bind_res (Membership_mutation_timestamp m now) (\<lambda>timestamp.
        Membership_post_init
          (m\<lparr>m_status := ACTIVE, m_updated_at := timestamp, m_joined_at := Some timestamp,
             m_suspended_at := None, m_removed_at := None\<rparr>))))"

definition Membership_suspend :: "Membership \<Rightarrow> datetime \<Rightarrow> Membership res" where
  "Membership_suspend m now =
     bind_res (raise_if (m_status m \<noteq> ACTIVE) (raise_invalid_transition m ''suspend'')) (\<lambda>_.
     bind_res (Membership_mutation_timestamp m now) (\<lambda>timestamp.
     Membership_post_init
       (m\<lparr>m_status := SUSPENDED, m_updated_at := timestamp, m_suspended_at := Some timestamp,
          m_removed_at := None\<rparr>)))"

definition Membership_reactivate :: "Membership \<Rightarrow> datetime \<Rightarrow> Membership res" where
  "Membership_reactivate m now =
     (if m_status m = ACTIVE then Inr m
      else bind_res (raise_if (m_status m \<noteq> SUSPENDED) (raise_invalid_transition m ''reactivate'')) (\<lambda>_.
        bind_res (Membership_mutation_timestamp m now) (\<lambda>timestamp.
        Membership_post_init
          (m\<lparr>m_status := ACTIVE, m_updated_at := timestamp, m_suspended_at := None,
             m_removed_at := None\<rparr>))))"

definition Membership_remove :: "Membership \<Rightarrow> datetime \<Rightarrow> Membership res" where
  "Membership_remove m now =
     (if m_status m = REMOVED then Inr m
      else bind_res (Membership_mutation_timestamp m now) (\<lambda>timestamp.
        Membership_post_init
          (m\<lparr>m_status := REMOVED, m_updated_at := timestamp, m_removed_at := Some timestamp\<rparr>)))"

definition Membership_change_role :: "Membership \<Rightarrow> Role \<Rightarrow> datetime \<Rightarrow> Membership res" where
  "Membership_change_role m role now =
     bind_res (raise_if (m_status m = REMOVED) (raise_removed ''change role'')) (\<lambda>_.
     bind_res (raise_if (m_status m = SUSPENDED)
       (raise_invalid_transition m ''change role while suspended'')) (\<lambda>_.
     if role = m_role m then Inr m
     else bind_res (Membership_mutation_timestamp m now) (\<lambda>timestamp.
       Membership_post_init (m\<lparr>m_role := role, m_updated_at := timestamp\<rparr>))))"

section \<open>Policies and permissions\<close>

datatype MembershipMutation = DEMOTE_OWNER | SUSPEND_OWNER | REMOVE_OWNER

definition is_active_owner :: "Membership \<Rightarrow> bool" where
  "is_active_owner m \<longleftrightarrow> m_role m = OWNER \<and> m_status m = ACTIVE"

definition ensure_not_last_active_owner ::
  "Membership \<Rightarrow> Membership list \<Rightarrow> MembershipMutation \<Rightarrow> unit res" where
  "ensure_not_last_active_owner target memberships mutation =
     (if m_role target \<noteq> OWNER \<or> m_status target \<noteq> ACTIVE then Inr ()
      else if mutation \<notin> {DEMOTE_OWNER, SUSPEND_OWNER, REMOVE_OWNER} then Inr ()
      else
        (let active_owner_ids = remdups (m_id target # map m_id
               (filter (\<lambda>m. m_organization_id m = m_organization_id target \<and>
                            m_role m = OWNER \<and> m_status m = ACTIVE) memberships))
         in raise_if (length active_owner_ids \<le> 1 \<and> m_id target \<in> set active_owner_ids)
              (LastActiveOwnerViolation ''Cannot mutate the final active owner membership.'')))"

definition Permission_all :: "Permission list" where
  "Permission_all =
     [ORGANIZATION_READ, ORGANIZATION_UPDATE, MEMBERSHIP_READ, MEMBERSHIP_INVITE,
      MEMBERSHIP_UPDATE, MEMBERSHIP_REMOVE, AUDIT_READ, SECURITY_MANAGE, API_KEYS_MANAGE,
      PROVIDER_CREDENTIALS_MANAGE, DOCUMENT_READ, DOCUMENT_WRITE, DOCUMENT_ARCHIVE,
      DOCUMENT_DOWNLOAD, DOCUMENT_VERSION_READ, DOCUMENT_VERSION_CREATE, ARTIFACT_READ,
      ARTIFACT_DOWNLOAD, BATCH_READ, BATCH_WRITE, BATCH_ARCHIVE, BATCH_MANAGE_DOCUMENTS,
      CASE_READ, CASE_WRITE, CASE_ARCHIVE, CASE_MANAGE_DOCUMENTS, CASE_COMMENT, CASE_TASK,
      CASE_DECISION]"

fun permissions_for_role :: "Role \<Rightarrow> Permission list" where
  "permissions_for_role OWNER = Permission_all"
| "permissions_for_role ADMIN =
     [ORGANIZATION_READ, ORGANIZATION_UPDATE, MEMBERSHIP_READ, MEMBERSHIP_INVITE,
      MEMBERSHIP_UPDATE, MEMBERSHIP_REMOVE, AUDIT_READ, API_KEYS_MANAGE,
      PROVIDER_CREDENTIALS_MANAGE, DOCUMENT_READ, DOCUMENT_WRITE, DOCUMENT_ARCHIVE,
      DOCUMENT_DOWNLOAD, DOCUMENT_VERSION_READ, DOCUMENT_VERSION_CREATE, ARTIFACT_READ,
      ARTIFACT_DOWNLOAD, BATCH_READ, BATCH_WRITE, BATCH_ARCHIVE, BATCH_MANAGE_DOCUMENTS,
      CASE_READ, CASE_WRITE, CASE_ARCHIVE, CASE_MANAGE_DOCUMENTS, CASE_COMMENT, CASE_TASK,
      CASE_DECISION]"
| "permissions_for_role OPERATOR =
     [ORGANIZATION_READ, DOCUMENT_READ, DOCUMENT_WRITE, DOCUMENT_DOWNLOAD,
      DOCUMENT_VERSION_READ, DOCUMENT_VERSION_CREATE, ARTIFACT_READ, ARTIFACT_DOWNLOAD,
      BATCH_READ, BATCH_WRITE, BATCH_MANAGE_DOCUMENTS, CASE_READ, CASE_WRITE,
      CASE_MANAGE_DOCUMENTS, CASE_COMMENT, CASE_TASK, CASE_DECISION]"
| "permissions_for_role REVIEWER =
     [ORGANIZATION_READ, DOCUMENT_READ, DOCUMENT_DOWNLOAD, DOCUMENT_VERSION_READ,
      ARTIFACT_READ, ARTIFACT_DOWNLOAD, BATCH_READ, CASE_READ, CASE_COMMENT, CASE_TASK,
      CASE_DECISION]"
| "permissions_for_role AUDITOR =
     [ORGANIZATION_READ, MEMBERSHIP_READ, AUDIT_READ, DOCUMENT_READ, DOCUMENT_DOWNLOAD,
      DOCUMENT_VERSION_READ, ARTIFACT_READ, ARTIFACT_DOWNLOAD, BATCH_READ, CASE_READ]"

end
