(* ===== verification/Memberships.thy ===== *)
theory Memberships
  imports Identity
begin

text \<open>
  Facts about identity and tenancy: the lifecycle of a membership as a step function with a
  terminal status, the last-active-owner policy, the permissions of roles, and the normal
  forms of email addresses and slugs.
\<close>

section \<open>Machines with terminal states\<close>

text \<open>
  A component whose operations keep an invariant and an identity, and whose terminal states
  are left by no operation.
\<close>

locale terminal_machine =
  fixes inv :: "'a \<Rightarrow> bool"
    and ident :: "'a \<Rightarrow> 'k"
    and terminal :: "'a \<Rightarrow> bool"
    and step :: "'a \<Rightarrow> 'o \<Rightarrow> 'a res"
  assumes step_inv: "inv a \<Longrightarrow> step a p = Inr b \<Longrightarrow> inv b"
    and step_ident: "step a p = Inr b \<Longrightarrow> ident b = ident a"
    and step_terminal: "terminal a \<Longrightarrow> step a p = Inr b \<Longrightarrow> b = a"
begin

lemma run_inv: "inv a \<Longrightarrow> run_ops step a ps = Inr b \<Longrightarrow> inv b"
  by (induction ps arbitrary: a) (auto intro: step_inv)

lemma run_ident: "run_ops step a ps = Inr b \<Longrightarrow> ident b = ident a"
  by (induction ps arbitrary: a) (auto dest: step_ident)

lemma run_terminal: "terminal a \<Longrightarrow> run_ops step a ps = Inr b \<Longrightarrow> b = a"
  by (induction ps arbitrary: a) (auto dest: step_terminal)

lemma run_after_terminal:
  assumes "run_ops step a (ps @ qs) = Inr b" and "run_ops step a ps = Inr c" and "terminal c"
  shows "b = c"
  using assms run_terminal [OF assms(3)] by (auto simp: run_ops_append)

end

section \<open>Invariants of the entities\<close>

lemmas identity_helper_defs = validate_uuid_def normalize_timestamp_def

definition wf_user :: "User \<Rightarrow> bool" where
  "wf_user u \<longleftrightarrow> u_id u \<noteq> 0 \<and> text_ok 120 (u_display_name u) \<and> is_utc (u_created_at u) \<and>
     is_utc (u_updated_at u) \<and> pred_option is_utc (u_disabled_at u) \<and>
     u_created_at u \<le> u_updated_at u \<and> (u_is_active u \<longleftrightarrow> u_disabled_at u = None)"

definition wf_organization :: "Organization \<Rightarrow> bool" where
  "wf_organization g \<longleftrightarrow> o_id g \<noteq> 0 \<and> text_ok 160 (o_name g) \<and> is_utc (o_created_at g) \<and>
     is_utc (o_updated_at g) \<and> pred_option is_utc (o_deactivated_at g) \<and>
     o_created_at g \<le> o_updated_at g \<and> (o_is_active g \<longleftrightarrow> o_deactivated_at g = None)"

definition lifecycle_ok :: "Membership \<Rightarrow> bool" where
  "lifecycle_ok m \<longleftrightarrow>
     (m_status m = INVITED \<longrightarrow> m_invited_at m \<noteq> None \<and> m_joined_at m = None \<and>
        m_suspended_at m = None \<and> m_removed_at m = None) \<and>
     (m_status m = ACTIVE \<longrightarrow> m_joined_at m \<noteq> None \<and> m_suspended_at m = None \<and>
        m_removed_at m = None) \<and>
     (m_status m = SUSPENDED \<longrightarrow> m_joined_at m \<noteq> None \<and> m_suspended_at m \<noteq> None \<and>
        m_removed_at m = None) \<and>
     (m_status m = REMOVED \<longrightarrow> m_removed_at m \<noteq> None)"

definition wf_membership :: "Membership \<Rightarrow> bool" where
  "wf_membership m \<longleftrightarrow> m_id m \<noteq> 0 \<and> m_user_id m \<noteq> 0 \<and> m_organization_id m \<noteq> 0 \<and>
     is_utc (m_created_at m) \<and> is_utc (m_updated_at m) \<and> pred_option is_utc (m_invited_at m) \<and>
     pred_option is_utc (m_joined_at m) \<and> pred_option is_utc (m_suspended_at m) \<and>
     pred_option is_utc (m_removed_at m) \<and> m_created_at m \<le> m_updated_at m \<and> lifecycle_ok m"

lemma validate_lifecycle_iff [simp]:
  "Membership_validate_lifecycle_state m = Inr x \<longleftrightarrow> lifecycle_ok m"
  by (auto simp: Membership_validate_lifecycle_state_def lifecycle_ok_def split: MembershipStatus.split)

lemma validate_lifecycle_ok: "lifecycle_ok m \<Longrightarrow> Membership_validate_lifecycle_state m = Inr ()"
  by simp

lemma display_name_ok: "normalize_display_name v = Inr w \<Longrightarrow> text_ok 120 w"
  by (auto simp: normalize_display_name_def Let_def text_ok_def split: if_splits)

lemma display_name_id: "text_ok 120 v \<Longrightarrow> normalize_display_name v = Inr v"
  by (cases v) (auto simp: normalize_display_name_def text_ok_def)

lemma organization_name_ok: "normalize_organization_name v = Inr w \<Longrightarrow> text_ok 160 w"
  by (auto simp: normalize_organization_name_def Let_def text_ok_def split: if_splits)

lemma organization_name_id: "text_ok 160 v \<Longrightarrow> normalize_organization_name v = Inr v"
  by (cases v) (auto simp: normalize_organization_name_def text_ok_def)

lemma opt_timestamp [simp]:
  "opt_res (\<lambda>t. normalize_timestamp t f) =
     opt_res (to_utc (InvalidTimestamp (f @ '' timestamp must be timezone-aware.'')))"
  by (simp add: normalize_timestamp_def)

lemma User_post_init_frame:
  "User_post_init u = Inr v \<Longrightarrow> wf_user v \<and> u_id v = u_id u \<and> u_email v = u_email u \<and>
     u_is_active v = u_is_active u"
  by (auto simp: User_post_init_def wf_user_def identity_helper_defs dest: opt_to_utc_ok display_name_ok)

lemma User_post_init_id: "wf_user u \<Longrightarrow> User_post_init u = Inr u"
  by (auto simp: User_post_init_def wf_user_def identity_helper_defs display_name_id opt_to_utc_id)

lemma Organization_post_init_frame:
  "Organization_post_init g = Inr h \<Longrightarrow> wf_organization h \<and> o_id h = o_id g \<and> o_slug h = o_slug g \<and>
     o_is_active h = o_is_active g"
  by (auto simp: Organization_post_init_def wf_organization_def identity_helper_defs
      dest: opt_to_utc_ok organization_name_ok)

lemma Organization_post_init_id: "wf_organization g \<Longrightarrow> Organization_post_init g = Inr g"
  by (auto simp: Organization_post_init_def wf_organization_def identity_helper_defs
      organization_name_id opt_to_utc_id)

lemma opt_to_utc_same: "opt_res (to_utc e) x = Inr y \<Longrightarrow> pred_option is_utc x \<Longrightarrow> y = x"
  by (cases x) auto

lemma Membership_post_init_frame:
  assumes "Membership_post_init m = Inr n"
  shows "wf_membership n \<and> m_id n = m_id m \<and> m_user_id n = m_user_id m \<and>
    m_organization_id n = m_organization_id m \<and> m_role n = m_role m \<and> m_status n = m_status m \<and>
    (pred_option is_utc (m_invited_at m) \<longrightarrow> m_invited_at n = m_invited_at m) \<and>
    (pred_option is_utc (m_joined_at m) \<longrightarrow> m_joined_at n = m_joined_at m)"
  using assms
  by (auto simp: Membership_post_init_def wf_membership_def identity_helper_defs Let_def
      dest: opt_to_utc_ok opt_to_utc_same)

lemma Membership_post_init_id: "wf_membership m \<Longrightarrow> Membership_post_init m = Inr m"
  by (simp add: Membership_post_init_def wf_membership_def identity_helper_defs Let_def
      opt_to_utc_id to_utc_utc check_uuid_def validate_lifecycle_ok)

section \<open>Membership operations as steps\<close>

datatype MembershipOp =
    ActivateOp datetime
  | SuspendOp datetime
  | ReactivateOp datetime
  | RemoveOp datetime
  | ChangeRoleOp Role datetime

fun membership_step :: "Membership \<Rightarrow> MembershipOp \<Rightarrow> Membership res" where
  "membership_step m (ActivateOp t) = Membership_activate m t"
| "membership_step m (SuspendOp t) = Membership_suspend m t"
| "membership_step m (ReactivateOp t) = Membership_reactivate m t"
| "membership_step m (RemoveOp t) = Membership_remove m t"
| "membership_step m (ChangeRoleOp r t) = Membership_change_role m r t"

lemmas membership_op_defs = Membership_activate_def Membership_suspend_def
  Membership_reactivate_def Membership_remove_def Membership_change_role_def
  Membership_mutation_timestamp_def

text \<open>
  A successful step returns the membership itself or the constructor's copy of the changed
  one, which \<open>membership_effect\<close> describes.
\<close>

fun membership_effect :: "Membership \<Rightarrow> MembershipOp \<Rightarrow> Membership" where
  "membership_effect m (ActivateOp t) = m\<lparr>m_status := ACTIVE, m_updated_at := astimezone_utc t,
     m_joined_at := Some (astimezone_utc t), m_suspended_at := None, m_removed_at := None\<rparr>"
| "membership_effect m (SuspendOp t) = m\<lparr>m_status := SUSPENDED, m_updated_at := astimezone_utc t,
     m_suspended_at := Some (astimezone_utc t), m_removed_at := None\<rparr>"
| "membership_effect m (ReactivateOp t) = m\<lparr>m_status := ACTIVE, m_updated_at := astimezone_utc t,
     m_suspended_at := None, m_removed_at := None\<rparr>"
| "membership_effect m (RemoveOp t) = m\<lparr>m_status := REMOVED, m_updated_at := astimezone_utc t,
     m_removed_at := Some (astimezone_utc t)\<rparr>"
| "membership_effect m (ChangeRoleOp r t) = m\<lparr>m_role := r, m_updated_at := astimezone_utc t\<rparr>"

lemma membership_step_effect:
  assumes "membership_step m p = Inr n"
  shows "n = m \<or> Membership_post_init (membership_effect m p) = Inr n \<and> m_status m \<noteq> REMOVED \<and>
    ((\<exists>t. p = ActivateOp t) \<longrightarrow> m_status m = INVITED)"
  using assms
  by (cases p) (auto simp: membership_op_defs identity_helper_defs split: if_splits)

lemma membership_effect_fields [simp]:
  "m_id (membership_effect m p) = m_id m" "m_user_id (membership_effect m p) = m_user_id m"
  "m_organization_id (membership_effect m p) = m_organization_id m"
  "m_invited_at (membership_effect m p) = m_invited_at m"
  by (cases p; simp)+

lemma membership_effect_joined:
  "m_joined_at (membership_effect m p) =
     (case p of ActivateOp t \<Rightarrow> Some (astimezone_utc t) | _ \<Rightarrow> m_joined_at m)"
  by (cases p) simp_all

lemma membership_step_frame:
  assumes "membership_step m p = Inr n" and "wf_membership m"
  shows "wf_membership n \<and> m_invited_at n = m_invited_at m \<and>
    (m_joined_at m \<noteq> None \<longrightarrow> m_joined_at n = m_joined_at m)"
proof (cases "n = m")
  case False
  with assms(1) have eff: "Membership_post_init (membership_effect m p) = Inr n"
    and act: "(\<exists>t. p = ActivateOp t) \<longrightarrow> m_status m = INVITED"
    using membership_step_effect by blast+
  have "pred_option is_utc (m_invited_at m)" "pred_option is_utc (m_joined_at m)"
    and "m_status m = INVITED \<longrightarrow> m_joined_at m = None"
    using assms(2) by (auto simp: wf_membership_def lifecycle_ok_def)
  then show ?thesis
    using Membership_post_init_frame [OF eff] act
    by (cases p) (auto simp: membership_effect_joined)
qed (use assms in simp)

lemma membership_step_ident:
  "membership_step m p = Inr n \<Longrightarrow>
     (m_id n, m_user_id n, m_organization_id n) = (m_id m, m_user_id m, m_organization_id m)"
  by (drule membership_step_effect) (auto dest!: Membership_post_init_frame)

lemma removed_step: "m_status m = REMOVED \<Longrightarrow> membership_step m p = Inr n \<Longrightarrow> n = m"
  by (drule membership_step_effect) auto

interpretation membership: terminal_machine wf_membership
  "\<lambda>m. (m_id m, m_user_id m, m_organization_id m)" "\<lambda>m. m_status m = REMOVED" membership_step
  by unfold_locales (auto dest: membership_step_frame membership_step_ident removed_step)

lemma run_joined:
  "wf_membership m \<Longrightarrow> run_ops membership_step m ps = Inr n \<Longrightarrow>
     m_invited_at n = m_invited_at m \<and> (m_joined_at m \<noteq> None \<longrightarrow> m_joined_at n = m_joined_at m)"
proof (induction ps arbitrary: m)
  case (Cons p ps)
  then obtain k where k: "membership_step m p = Inr k" "run_ops membership_step k ps = Inr n"
    by auto
  show ?case
    using membership_step_frame [OF k(1) Cons.prems(1)] Cons.IH [OF _ k(2)] by auto
qed simp

section \<open>Normal forms of addresses and slugs\<close>

lemma lower_char_sharp: "ord (lower_char c) = 223 \<longleftrightarrow> ord c = 223"
proof -
  have "ord c < 256"
    using nat_of_char_less_256 [of c] by simp
  then show ?thesis
    by (auto simp: lower_char_def)
qed

lemma casefold_Cons:
  "casefold (c # s) = (if ord c = 223 then ''ss'' else [lower_char c]) @ casefold s"
  by (simp add: casefold_def)

lemma lower_char_s [simp]: "lower_char (CHR ''s'') = CHR ''s''"
  by (simp add: lower_char_def)

lemma casefold_idem [simp]: "casefold (casefold s) = casefold s"
  by (induction s) (auto simp: casefold_Cons lower_char_sharp, simp add: casefold_def)

lemma strip_no_space: "list_all (\<lambda>c. \<not> is_space c) s \<Longrightarrow> strip s = s"
proof (cases "s = []")
  case False
  moreover assume "list_all (\<lambda>c. \<not> is_space c) s"
  ultimately show ?thesis
    by (intro strip_id) (auto simp: list_all_iff)
qed (simp add: strip_def)

lemma split_on_mem: "x \<in> set s \<Longrightarrow> x = d \<or> (\<exists>w \<in> set (split_on d s). x \<in> set w)"
  by (induction s) (auto split: list.splits)

lemma strip_slug: "slug_pattern s \<Longrightarrow> strip s = s"
proof (rule strip_no_space)
  assume "slug_pattern s"
  then have "x = CHR ''-'' \<or> slug_char x" if "x \<in> set s" for x
    using split_on_mem [OF that, of "CHR ''-''"] by (auto simp: slug_pattern_def list_all_iff)
  moreover have "\<not> is_space x" if "x = CHR ''-'' \<or> slug_char x" for x
    using that by (auto simp: slug_char_def is_space_def)
  ultimately show "list_all (\<lambda>c. \<not> is_space c) s"
    unfolding list_all_iff by blast
qed

section \<open>Properties\<close>

text \<open>
  C38. A membership created by invitation or directly, after any sequence of lifecycle
  operations that did not raise, satisfies the constructor's checks (status and timestamps
  agree), keeps its identifier, user and organization and its invitation time, and its joining
  time once set is never rewritten; once it is removed no operation changes it.
\<close>

theorem membership_history:
  assumes "Membership_invite i u org r t = Inr m0 \<or> Membership_activate_directly i u org r t = Inr m0"
    and "run_ops membership_step m0 ps = Inr m" and "run_ops membership_step m (p # qs) = Inr n"
  shows "wf_membership n \<and> m_id n = i \<and> m_user_id n = u \<and> m_organization_id n = org \<and>
    m_invited_at n = m_invited_at m0 \<and> (m_joined_at m \<noteq> None \<longrightarrow> m_joined_at n = m_joined_at m) \<and>
    (m_status m = REMOVED \<longrightarrow> n = m)"
proof -
  have m0: "wf_membership m0" "m_id m0 = i" "m_user_id m0 = u" "m_organization_id m0 = org"
    using assms(1)
    by (auto simp: Membership_invite_def Membership_activate_directly_def
        dest!: Membership_post_init_frame)
  have m: "wf_membership m"
    using membership.run_inv [OF m0(1) assms(2)] .
  show ?thesis
    using membership.run_inv [OF m assms(3)] membership.run_ident [OF assms(2)]
      membership.run_ident [OF assms(3)] run_joined [OF m0(1) assms(2)] run_joined [OF m assms(3)]
      membership.run_terminal [OF _ assms(3)] m0
    by simp
qed

definition sample_owner :: "uuid \<Rightarrow> Membership" where
  "sample_owner i =
     \<lparr>m_id = i, m_user_id = i + 100, m_organization_id = 5, m_role = OWNER, m_status = ACTIVE,
      m_created_at = utc 0, m_updated_at = utc 0, m_invited_at = None, m_joined_at = Some (utc 0),
      m_suspended_at = None, m_removed_at = None\<rparr>"

lemma sample_owner_wf: "wf_membership (sample_owner 1)"
  by (simp add: sample_owner_def wf_membership_def lifecycle_ok_def)

lemmas membership_eval = membership_op_defs identity_helper_defs Membership_post_init_id
  wf_membership_def lifecycle_ok_def to_utc_def raise_if_def check_uuid_def

lemma sample_owner_created:
  "Membership_activate_directly 1 101 5 OWNER (utc 0) = Inr (sample_owner 1)"
  by (simp add: Membership_activate_directly_def sample_owner_def membership_eval)

lemma sample_owner_suspend:
  "membership_step (sample_owner 1) (SuspendOp (utc 4)) =
     Inr (sample_owner 1\<lparr>m_status := SUSPENDED, m_updated_at := utc 4, m_suspended_at := Some (utc 4)\<rparr>)"
  by (simp add: sample_owner_def membership_eval)

theorem membership_history_witness:
  "\<exists>n. run_ops membership_step (sample_owner 1) [SuspendOp (utc 4), RemoveOp (utc 9)] = Inr n \<and>
     wf_membership n \<and> m_joined_at n = Some (utc 0)"
proof -
  let ?m = "sample_owner 1\<lparr>m_status := SUSPENDED, m_updated_at := utc 4, m_suspended_at := Some (utc 4)\<rparr>"
  let ?n = "?m\<lparr>m_status := REMOVED, m_updated_at := utc 9, m_removed_at := Some (utc 9)\<rparr>"
  have m: "run_ops membership_step (sample_owner 1) [SuspendOp (utc 4)] = Inr ?m"
    using sample_owner_suspend by simp
  have n: "run_ops membership_step ?m [RemoveOp (utc 9)] = Inr ?n"
    by (simp add: sample_owner_def membership_eval)
  have "wf_membership ?n \<and> m_joined_at ?n = Some (utc 0)"
    using membership_history [OF disjI2 [OF sample_owner_created] m n]
    by (simp add: sample_owner_def)
  moreover have "run_ops membership_step (sample_owner 1) [SuspendOp (utc 4), RemoveOp (utc 9)] = Inr ?n"
    using m n sample_owner_suspend by simp
  ultimately show ?thesis by blast
qed

lemma active_owner_other:
  "ensure_not_last_active_owner t ms mu = Inr () \<longleftrightarrow>
     (is_active_owner t \<longrightarrow>
       (\<exists>m \<in> set ms. is_active_owner m \<and> m_organization_id m = m_organization_id t \<and> m_id m \<noteq> m_id t))"
proof -
  have mu: "mu \<in> {DEMOTE_OWNER, SUSPEND_OWNER, REMOVE_OWNER}"
    by (cases mu) simp_all
  have one: "length (remdups (a # xs)) \<le> 1 \<longleftrightarrow> set xs \<subseteq> {a}" for a :: uuid and xs
    unfolding length_remdups_card_conv
    using card_le_Suc0_iff_eq [of "set (a # xs)"] by auto
  show ?thesis
    unfolding ensure_not_last_active_owner_def Let_def one using mu
    by (auto simp: is_active_owner_def)
qed

text \<open>
  C37. The last-active-owner policy is exactly what keeps an organization governed: when it
  accepts a mutation of a membership and the organization has an active owner, then after
  replacing that membership by the result of any lifecycle operation the organization still
  has an active owner; and the policy rejects only when no other active owner exists.
\<close>

theorem active_owner_remains:
  assumes "distinct (map m_id ms)" and "target \<in> set ms"
    and "\<exists>m \<in> set ms. is_active_owner m \<and> m_organization_id m = m_organization_id target"
    and "membership_step target p = Inr target'"
  shows "(ensure_not_last_active_owner target ms mutation = Inr () \<longrightarrow>
      (\<exists>m \<in> set (map (\<lambda>m. if m_id m = m_id target then target' else m) ms).
         is_active_owner m \<and> m_organization_id m = m_organization_id target)) \<and>
    (ensure_not_last_active_owner target ms mutation \<noteq> Inr () \<longrightarrow>
      (\<forall>m \<in> set ms. is_active_owner m \<and> m_organization_id m = m_organization_id target \<longrightarrow> m = target))"
proof -
  have uniq: "m = target" if "m \<in> set ms" "m_id m = m_id target" for m
    using assms(1,2) that by (auto simp: distinct_map dest: inj_onD)
  have "\<exists>m \<in> set (map (\<lambda>m. if m_id m = m_id target then target' else m) ms).
         is_active_owner m \<and> m_organization_id m = m_organization_id target"
    if accepted: "ensure_not_last_active_owner target ms mutation = Inr ()"
  proof -
    obtain m where "m \<in> set ms" "is_active_owner m" "m_organization_id m = m_organization_id target"
      "m_id m \<noteq> m_id target"
      using accepted assms(3) uniq unfolding active_owner_other by metis
    then show ?thesis by (auto intro!: bexI [of _ m])
  qed
  moreover have "\<forall>m \<in> set ms. is_active_owner m \<and> m_organization_id m = m_organization_id target \<longrightarrow>
      m = target" if "ensure_not_last_active_owner target ms mutation \<noteq> Inr ()"
    using that uniq active_owner_other [of target ms mutation] by auto
  ultimately show ?thesis by blast
qed

theorem active_owner_remains_witness:
  "\<exists>m \<in> set (map (\<lambda>m. if m_id m = 1 then
        sample_owner 1\<lparr>m_status := SUSPENDED, m_updated_at := utc 4, m_suspended_at := Some (utc 4)\<rparr>
        else m) [sample_owner 1, sample_owner 2]). is_active_owner m"
proof -
  have "ensure_not_last_active_owner (sample_owner 1) [sample_owner 1, sample_owner 2] SUSPEND_OWNER = Inr ()"
    by (simp add: ensure_not_last_active_owner_def sample_owner_def)
  then show ?thesis
    using active_owner_remains [OF _ _ _ sample_owner_suspend, of "[sample_owner 1, sample_owner 2]"
        SUSPEND_OWNER]
    by (auto simp: sample_owner_def is_active_owner_def)
qed

text \<open>
  C40. Addresses and slugs are stored in a normal form that reading back does not change:
  constructing an address again from its display form gives the same address, constructing
  it from the normalised form gives an equal address, and a slug constructed from a slug's
  value is that slug.
\<close>

theorem email_and_slug_roundtrip:
  "(EmailAddress_post_init v = Inr e \<longrightarrow>
      EmailAddress_post_init (e_display e) = Inr e \<and>
      (\<exists>f. EmailAddress_post_init (e_normalized e) = Inr f \<and> EmailAddress_eq f e)) \<and>
   (OrganizationSlug_post_init w = Inr s \<longrightarrow>
      OrganizationSlug_post_init (OrganizationSlug_value s) = Inr s)"
proof (intro conjI impI)
  assume e: "EmailAddress_post_init v = Inr e"
  then have disp: "e_display e = strip v" and norm: "e_normalized e = casefold (strip v)"
    by (auto simp: EmailAddress_post_init_def Let_def)
  then show "EmailAddress_post_init (e_display e) = Inr e"
    using e by (simp only: EmailAddress_post_init_def strip_idem)
  have "list_all (\<lambda>c. \<not> is_space c) (e_normalized e)"
    using e norm by (auto simp: EmailAddress_post_init_def Let_def list_all_iff list_ex_iff)
  then have "EmailAddress_post_init (e_normalized e) =
      Inr \<lparr>e_display = e_normalized e, e_normalized = e_normalized e\<rparr>"
    using e norm by (auto simp: EmailAddress_post_init_def Let_def strip_no_space)
  then show "\<exists>f. EmailAddress_post_init (e_normalized e) = Inr f \<and> EmailAddress_eq f e"
    by (auto simp: EmailAddress_eq_def)
next
  assume "OrganizationSlug_post_init w = Inr s"
  then show "OrganizationSlug_post_init (OrganizationSlug_value s) = Inr s"
    by (auto simp: OrganizationSlug_post_init_def Let_def strip_slug)
qed

theorem email_and_slug_roundtrip_witness:
  "EmailAddress_post_init ''A@b.c'' = Inr \<lparr>e_display = ''A@b.c'', e_normalized = ''a@b.c''\<rparr> \<and>
   (\<exists>f. EmailAddress_post_init ''a@b.c'' = Inr f) \<and>
   OrganizationSlug_post_init ''A-b'' = Inr (OrganizationSlug ''a-b'') \<and>
   OrganizationSlug_post_init ''a-b'' = Inr (OrganizationSlug ''a-b'')"
proof -
  have "EmailAddress_post_init ''A@b.c'' = Inr \<lparr>e_display = ''A@b.c'', e_normalized = ''a@b.c''\<rparr>"
    and "OrganizationSlug_post_init ''A-b'' = Inr (OrganizationSlug ''a-b'')"
    by code_simp+
  then show ?thesis
    using email_and_slug_roundtrip [of "''A@b.c''" _ "''A-b''" "OrganizationSlug ''a-b''"]
    by fastforce
qed

text \<open>
  The role table is a hierarchy: reviewers may do what operators may, operators what
  administrators may, and owners everything; administrators lack exactly the security
  management permission, and auditors hold read and download permissions only.
\<close>

theorem role_permission_hierarchy:
  "set (permissions_for_role REVIEWER) \<subseteq> set (permissions_for_role OPERATOR) \<and>
   set (permissions_for_role OPERATOR) \<subseteq> set (permissions_for_role ADMIN) \<and>
   set (permissions_for_role OWNER) = insert SECURITY_MANAGE (set (permissions_for_role ADMIN)) \<and>
   SECURITY_MANAGE \<notin> set (permissions_for_role ADMIN) \<and>
   p \<in> set (permissions_for_role OWNER) \<and>
   set (permissions_for_role AUDITOR) \<subseteq>
     {ORGANIZATION_READ, MEMBERSHIP_READ, AUDIT_READ, DOCUMENT_READ, DOCUMENT_DOWNLOAD,
      DOCUMENT_VERSION_READ, ARTIFACT_READ, ARTIFACT_DOWNLOAD, BATCH_READ, CASE_READ}"
proof -
  have "p \<in> set (permissions_for_role OWNER)"
    by (cases p) (simp_all add: Permission_all_def)
  moreover have "set (permissions_for_role OWNER) = insert SECURITY_MANAGE (set (permissions_for_role ADMIN))"
    by (rule subset_antisym) (simp_all add: Permission_all_def)
  ultimately show ?thesis
    by (intro conjI) (simp_all del: permissions_for_role.simps(1))
qed

end
