(* ===== verification/Audit_Log.thy ===== *)
theory Audit_Log
  imports Values
begin

text \<open>
  Security audit events, \<^verbatim>\<open>workflowforge_domain/audit.py\<close>: the event taxonomy, the request
  context, and the event constructor with the metadata sanitiser, whose recursion over nested
  mappings and lists is the mutual recursion below. The properties say what an accepted
  event's metadata looks like at every nesting level.
\<close>

section \<open>Data\<close>

datatype (plugins only: code size) AuditEventType =
    AUTHENTICATION_LOGIN_SUCCEEDED | AUTHENTICATION_LOGIN_FAILED
  | AUTHENTICATION_ACCESS_TOKEN_REJECTED
  | SESSION_CREATED | SESSION_REFRESHED | SESSION_REFRESH_FAILED
  | SESSION_REFRESH_REPLAY_DETECTED | SESSION_REVOKED | SESSION_REVOKED_ALL
  | TENANCY_ACCESS_DENIED | TENANCY_INACTIVE_MEMBERSHIP | TENANCY_INACTIVE_ORGANIZATION
  | AUTHORIZATION_PERMISSION_DENIED
  | CREDENTIAL_PASSWORD_SET | CREDENTIAL_PASSWORD_REPLACED
  | BOOTSTRAP_OWNER_CREATED | BOOTSTRAP_REFUSED
  | AUTHENTICATION_LOGIN_RATE_LIMITED | SESSION_REFRESH_RATE_LIMITED
  | SECURITY_RATE_LIMIT_BACKEND_UNAVAILABLE
  | DOCUMENT_REGISTERED | DOCUMENT_VERSION_CREATED | DOCUMENT_ARCHIVED
  | DOCUMENT_ARTIFACT_REGISTERED | DOCUMENT_UPLOAD_STARTED | DOCUMENT_STORAGE_SUCCEEDED
  | DOCUMENT_UPLOAD_FAILED | DOCUMENT_DUPLICATE_DETECTED | DOCUMENT_DOWNLOADED
  | DOCUMENT_VERSION_DOWNLOADED | DOCUMENT_ARTIFACT_DOWNLOADED
  | BATCH_CREATED | BATCH_UPDATED | BATCH_DOCUMENT_ADDED | BATCH_DOCUMENT_REMOVED
  | BATCH_ARCHIVED
  | CASE_CREATED | CASE_UPDATED | CASE_DOCUMENT_ADDED | CASE_DOCUMENT_REMOVED
  | CASE_COMMENT_CREATED | CASE_TASK_CREATED | CASE_TASK_UPDATED | CASE_TASK_COMPLETED
  | CASE_DECISION_CREATED | CASE_CLOSED | CASE_REOPENED | CASE_ARCHIVED

datatype AuditOutcome = SUCCESS | FAILURE | DENIED | REPLAY_DETECTED

record AuditRequestContext =
  rc_request_id :: "string option"
  rc_source_ip :: "string option"
  rc_user_agent :: "string option"

record AuditEvent =
  ae_id :: uuid
  ae_event_type :: AuditEventType
  ae_outcome :: AuditOutcome
  ae_occurred_at :: datetime
  ae_actor_user_id :: "uuid option"
  ae_organization_id :: "uuid option"
  ae_session_id :: "uuid option"
  ae_request_id :: "string option"
  ae_source_ip :: "string option"
  ae_user_agent :: "string option"
  ae_metadata :: metadata
  ae_created_at :: "datetime option"

section \<open>Validation\<close>

definition AUDIT_REQUEST_ID_MAX_LENGTH :: nat where "AUDIT_REQUEST_ID_MAX_LENGTH = 128"
definition AUDIT_SOURCE_IP_MAX_LENGTH :: nat where "AUDIT_SOURCE_IP_MAX_LENGTH = 45"
definition AUDIT_USER_AGENT_MAX_LENGTH :: nat where "AUDIT_USER_AGENT_MAX_LENGTH = 512"
definition AUDIT_METADATA_MAX_KEYS :: nat where "AUDIT_METADATA_MAX_KEYS = 32"
definition AUDIT_METADATA_KEY_MAX_LENGTH :: nat where "AUDIT_METADATA_KEY_MAX_LENGTH = 64"
definition AUDIT_METADATA_STRING_MAX_LENGTH :: nat where "AUDIT_METADATA_STRING_MAX_LENGTH = 512"
definition AUDIT_METADATA_LIST_MAX_ITEMS :: nat where "AUDIT_METADATA_LIST_MAX_ITEMS = 32"
definition AUDIT_METADATA_MAX_DEPTH :: nat where "AUDIT_METADATA_MAX_DEPTH = 4"

lemmas audit_limits = AUDIT_REQUEST_ID_MAX_LENGTH_def AUDIT_SOURCE_IP_MAX_LENGTH_def
  AUDIT_USER_AGENT_MAX_LENGTH_def AUDIT_METADATA_MAX_KEYS_def AUDIT_METADATA_KEY_MAX_LENGTH_def
  AUDIT_METADATA_STRING_MAX_LENGTH_def AUDIT_METADATA_LIST_MAX_ITEMS_def AUDIT_METADATA_MAX_DEPTH_def

definition SECRET_KEY_PARTS :: "string list" where
  "SECRET_KEY_PARTS =
     [''authorization'', ''cookie'', ''csrf'', ''digest'', ''hash'', ''password'', ''secret'', ''token'']"

definition secret_like :: "string \<Rightarrow> bool" where
  "secret_like key \<longleftrightarrow> list_ex (contains (casefold key)) SECRET_KEY_PARTS"

definition Audit_validate_optional_string :: "string option \<Rightarrow> nat \<Rightarrow> string \<Rightarrow> unit res" where
  "Audit_validate_optional_string value max_length field_name =
     (case value of
        None \<Rightarrow> Inr ()
      | Some v \<Rightarrow> raise_if (v = [] \<or> max_length < length v)
          (InvalidAuditEvent (field_name @ '' must be between 1 and '' @ nat_str max_length @
            '' characters.'')))"

definition Audit_require_timezone_aware :: "datetime \<Rightarrow> string \<Rightarrow> unit res" where
  "Audit_require_timezone_aware value field_name =
     raise_if (\<not> tz_aware value) (InvalidAuditEvent (field_name @ '' must be timezone-aware.''))"

definition nesting_error :: exn where
  "nesting_error = InvalidAuditMetadata
     (''Audit metadata nesting must be at most '' @ nat_str AUDIT_METADATA_MAX_DEPTH @ '' levels.'')"

function (sequential)
  safe_metadata :: "metadata \<Rightarrow> nat \<Rightarrow> metadata res" and
  safe_items :: "metadata \<Rightarrow> nat \<Rightarrow> metadata res" and
  safe_metadata_value :: "string \<Rightarrow> pyval \<Rightarrow> nat \<Rightarrow> pyval res" and
  safe_list :: "string \<Rightarrow> pyval list \<Rightarrow> nat \<Rightarrow> pyval list res"
where
  "safe_metadata metadata depth =
     (if AUDIT_METADATA_MAX_DEPTH < depth then Inl nesting_error
      else if AUDIT_METADATA_MAX_KEYS < length metadata then
        Inl (InvalidAuditMetadata (''Audit metadata must have at most '' @
          nat_str AUDIT_METADATA_MAX_KEYS @ '' keys.''))
      else safe_items metadata depth)"
| "safe_items [] depth = Inr []"
| "safe_items ((key, value) # rest) depth =
     bind_res (raise_if (key = [] \<or> AUDIT_METADATA_KEY_MAX_LENGTH < length key)
       (InvalidAuditMetadata (''Audit metadata keys must be between 1 and '' @
         nat_str AUDIT_METADATA_KEY_MAX_LENGTH @ ''.''))) (\<lambda>_.
     bind_res (safe_metadata_value key value depth) (\<lambda>v.
     bind_res (safe_items rest depth) (\<lambda>r. Inr ((key, v) # r))))"
| "safe_metadata_value key value depth =
     (if secret_like key then
        Inl (InvalidAuditMetadata ''Audit metadata contains a prohibited secret-like key.'')
      else (case value of
          VNone \<Rightarrow> Inr VNone
        | VBool b \<Rightarrow> Inr (VBool b)
        | VInt i \<Rightarrow> Inr (VInt i)
        | VFloat f \<Rightarrow> Inr (VFloat f)
        | VStr s \<Rightarrow>
            (if AUDIT_METADATA_STRING_MAX_LENGTH < length s then
               Inl (InvalidAuditMetadata ''Audit metadata string value is too long.'')
             else Inr (VStr s))
        | VUuid u \<Rightarrow> Inr (VStr (uuid_str u))
        | VDatetime t \<Rightarrow>
            bind_res (Audit_require_timezone_aware t ''metadata datetime value'')
              (\<lambda>_. Inr (VStr (isoformat_utc t)))
        | VMap m \<Rightarrow>
            (if AUDIT_METADATA_MAX_DEPTH \<le> depth then Inl nesting_error
             else bind_res (safe_metadata m (depth + 1)) (\<lambda>r. Inr (VMap r)))
        | VList xs \<Rightarrow>
            (if AUDIT_METADATA_MAX_DEPTH \<le> depth then Inl nesting_error
             else if AUDIT_METADATA_LIST_MAX_ITEMS < length xs then
               Inl (InvalidAuditMetadata ''Audit metadata list value is too long.'')
             else bind_res (safe_list key xs (depth + 1)) (\<lambda>r. Inr (VList r)))
        | VOther \<Rightarrow>
            Inl (InvalidAuditMetadata ''Audit metadata value type is not supported.'')))"
| "safe_list key [] depth = Inr []"
| "safe_list key (x # xs) depth =
     bind_res (safe_metadata_value key x depth) (\<lambda>v.
     bind_res (safe_list key xs depth) (\<lambda>r. Inr (v # r)))"
  by pat_completeness auto
termination
  by (relation "measure (\<lambda>x. case x of
        Inl (Inl (m, d)) \<Rightarrow> 2 * size_list (size_prod (\<lambda>_. 0) size) m + 1
      | Inl (Inr (m, d)) \<Rightarrow> 2 * size_list (size_prod (\<lambda>_. 0) size) m
      | Inr (Inl (k, v, d)) \<Rightarrow> 2 * size v
      | Inr (Inr (k, xs, d)) \<Rightarrow> 2 * size_list size xs)") auto

declare safe_metadata.simps [simp del] safe_metadata_value.simps [simp del]

definition AuditRequestContext_post_init :: "AuditRequestContext \<Rightarrow> AuditRequestContext res" where
  "AuditRequestContext_post_init c =
     bind_res (Audit_validate_optional_string (rc_request_id c) AUDIT_REQUEST_ID_MAX_LENGTH
       ''request_id'') (\<lambda>_.
     bind_res (Audit_validate_optional_string (rc_source_ip c) AUDIT_SOURCE_IP_MAX_LENGTH
       ''source_ip'') (\<lambda>_.
     bind_res (Audit_validate_optional_string (rc_user_agent c) AUDIT_USER_AGENT_MAX_LENGTH
       ''user_agent'') (\<lambda>_.
     Inr c)))"

definition AuditEvent_post_init :: "AuditEvent \<Rightarrow> AuditEvent res" where
  "AuditEvent_post_init e =
     bind_res (Audit_require_timezone_aware (ae_occurred_at e) ''occurred_at'') (\<lambda>_.
     bind_res (case ae_created_at e of
         None \<Rightarrow> Inr ()
       | Some t \<Rightarrow> Audit_require_timezone_aware t ''created_at'') (\<lambda>_.
     bind_res (AuditRequestContext_post_init
       \<lparr>rc_request_id = ae_request_id e, rc_source_ip = ae_source_ip e,
        rc_user_agent = ae_user_agent e\<rparr>) (\<lambda>_.
     bind_res (safe_metadata (ae_metadata e) 0) (\<lambda>metadata.
     Inr (e\<lparr>ae_metadata := metadata, ae_occurred_at := astimezone_utc (ae_occurred_at e),
            ae_created_at := map_option astimezone_utc (ae_created_at e)\<rparr>)))))"

definition AuditEvent_create ::
  "uuid \<Rightarrow> AuditEventType \<Rightarrow> AuditOutcome \<Rightarrow> datetime \<Rightarrow> uuid option \<Rightarrow> uuid option \<Rightarrow> uuid option \<Rightarrow>
   AuditRequestContext option \<Rightarrow> metadata option \<Rightarrow> AuditEvent res" where
  "AuditEvent_create event_id event_type outcome occurred_at actor_user_id organization_id
     session_id request_context metadata =
     (let context = (case request_context of
            Some c \<Rightarrow> c
          | None \<Rightarrow> \<lparr>rc_request_id = None, rc_source_ip = None, rc_user_agent = None\<rparr>)
      in AuditEvent_post_init
       \<lparr>ae_id = event_id, ae_event_type = event_type, ae_outcome = outcome,
        ae_occurred_at = occurred_at, ae_actor_user_id = actor_user_id,
        ae_organization_id = organization_id, ae_session_id = session_id,
        ae_request_id = rc_request_id context, ae_source_ip = rc_source_ip context,
        ae_user_agent = rc_user_agent context,
        ae_metadata = (case metadata of None \<Rightarrow> [] | Some m \<Rightarrow> m), ae_created_at = None\<rparr>)"

section \<open>What accepted metadata looks like\<close>

text \<open>
  \<open>safe_value d key v\<close>: no secret-like key at or below \<open>v\<close>, strings and lists bounded, only
  plain values, and at most \<open>d\<close> further levels of nesting.
\<close>

function (sequential) safe_value :: "nat \<Rightarrow> string \<Rightarrow> pyval \<Rightarrow> bool" where
  "safe_value d key VNone \<longleftrightarrow> \<not> secret_like key"
| "safe_value d key (VBool b) \<longleftrightarrow> \<not> secret_like key"
| "safe_value d key (VInt i) \<longleftrightarrow> \<not> secret_like key"
| "safe_value d key (VFloat f) \<longleftrightarrow> \<not> secret_like key"
| "safe_value d key (VStr s) \<longleftrightarrow> \<not> secret_like key \<and> length s \<le> 512"
| "safe_value d key (VMap m) \<longleftrightarrow> \<not> secret_like key \<and> 0 < d \<and> length m \<le> 32 \<and>
     (\<forall>(k, v) \<in> set m. k \<noteq> [] \<and> length k \<le> 64 \<and> safe_value (d - 1) k v)"
| "safe_value d key (VList xs) \<longleftrightarrow> \<not> secret_like key \<and> 0 < d \<and> length xs \<le> 32 \<and>
     (\<forall>x \<in> set xs. safe_value (d - 1) key x)"
| "safe_value d key _ \<longleftrightarrow> False"
  by pat_completeness auto
termination
  by (relation "measure (\<lambda>(d, k, v). size v)")
    (auto dest!: split_list simp: size_list_append)

definition safe_mapping :: "nat \<Rightarrow> metadata \<Rightarrow> bool" where
  "safe_mapping d m \<longleftrightarrow> length m \<le> 32 \<and>
     (\<forall>(k, v) \<in> set m. k \<noteq> [] \<and> length k \<le> 64 \<and> safe_value d k v)"

lemma safe_metadata_sound:
  "safe_metadata m d = Inr r \<Longrightarrow> d \<le> 4 \<and> safe_mapping (4 - d) r"
  "safe_items m d = Inr r \<Longrightarrow> length r = length m \<and>
     (\<forall>(k, v) \<in> set r. k \<noteq> [] \<and> length k \<le> 64 \<and> safe_value (4 - d) k v)"
  "safe_metadata_value k v d = Inr w \<Longrightarrow> safe_value (4 - d) k w"
  "safe_list k xs d = Inr ys \<Longrightarrow> length ys = length xs \<and> (\<forall>x \<in> set ys. safe_value (4 - d) k x)"
proof (induction m d and m d and k v d and k xs d
    arbitrary: r and r and w and ys
    rule: safe_metadata_safe_items_safe_metadata_value_safe_list.induct)
  case (1 m d)
  then show ?case
    by (auto simp: safe_metadata.simps safe_mapping_def audit_limits split: if_splits)
next
  case (3 key v rest d)
  then show ?case
    by (auto simp: audit_limits)
next
  case (4 key v d)
  have sub: "4 - d - Suc 0 = 4 - (d + 1)" by simp
  show ?case
  proof (cases v)
    case (VMap m)
    then show ?thesis
      using 4 by (auto simp: safe_metadata_value.simps audit_limits safe_mapping_def split: if_splits)
  next
    case (VList xs)
    then show ?thesis
      using 4 by (auto simp: safe_metadata_value.simps audit_limits split: if_splits)
  next
    case (VDatetime t)
    then show ?thesis
      using 4 length_isoformat [of t]
      by (auto simp: safe_metadata_value.simps audit_limits split: if_splits)
  qed (use 4 in \<open>auto simp: safe_metadata_value.simps audit_limits split: if_splits\<close>)
qed (auto simp: safe_metadata.simps)

lemma safe_metadata_complete:
  "d \<le> 4 \<Longrightarrow> safe_mapping (4 - d) m \<Longrightarrow> safe_metadata m d = Inr m"
  "\<forall>(k, v) \<in> set m. k \<noteq> [] \<and> length k \<le> 64 \<and> safe_value (4 - d) k v \<Longrightarrow> safe_items m d = Inr m"
  "safe_value (4 - d) k v \<Longrightarrow> safe_metadata_value k v d = Inr v"
  "\<forall>x \<in> set xs. safe_value (4 - d) k x \<Longrightarrow> safe_list k xs d = Inr xs"
proof (induction m d and m d and k v d and k xs d
    rule: safe_metadata_safe_items_safe_metadata_value_safe_list.induct)
  case (1 m d)
  then show ?case
    by (auto simp: safe_metadata.simps safe_mapping_def audit_limits)
next
  case (3 key v rest d)
  then show ?case
    by (auto simp: audit_limits raise_if_def)
next
  case (4 key v d)
  then show ?case
    by (cases v) (auto simp: safe_metadata_value.simps audit_limits safe_mapping_def)
qed simp_all

lemma AuditEvent_post_init_frame:
  assumes "AuditEvent_post_init e = Inr f"
  shows "safe_mapping 4 (ae_metadata f) \<and> is_utc (ae_occurred_at f) \<and>
    ae_id f = ae_id e \<and> ae_event_type f = ae_event_type e \<and> ae_outcome f = ae_outcome e \<and>
    ae_actor_user_id f = ae_actor_user_id e \<and> ae_organization_id f = ae_organization_id e \<and>
    ae_session_id f = ae_session_id e \<and>
    pred_option (\<lambda>s. s \<noteq> [] \<and> length s \<le> 128) (ae_request_id f) \<and>
    pred_option (\<lambda>s. s \<noteq> [] \<and> length s \<le> 45) (ae_source_ip f) \<and>
    pred_option (\<lambda>s. s \<noteq> [] \<and> length s \<le> 512) (ae_user_agent f)"
  using assms safe_metadata_sound(1) [of "ae_metadata e" 0]
  by (auto simp: AuditEvent_post_init_def AuditRequestContext_post_init_def
      Audit_validate_optional_string_def audit_limits split: option.splits)

section \<open>Properties\<close>

text \<open>
  C39. An audit event that the constructor accepts carries no secret-like key at any depth of
  its metadata, at most four levels of nesting below the top mapping, at most 32 entries per
  mapping and list, bounded strings, and no value but plain ones; its times are in UTC and
  the request fields bounded.
\<close>

theorem audit_event_is_sanitised:
  assumes "AuditEvent_create i ty out t actor org sess ctxt md = Inr e"
  shows "safe_mapping 4 (ae_metadata e) \<and> is_utc (ae_occurred_at e) \<and> ae_event_type e = ty \<and>
    ae_organization_id e = org \<and> ae_actor_user_id e = actor \<and>
    pred_option (\<lambda>s. s \<noteq> [] \<and> length s \<le> 128) (ae_request_id e) \<and>
    pred_option (\<lambda>s. s \<noteq> [] \<and> length s \<le> 45) (ae_source_ip e) \<and>
    pred_option (\<lambda>s. s \<noteq> [] \<and> length s \<le> 512) (ae_user_agent e)"
  using AuditEvent_post_init_frame assms unfolding AuditEvent_create_def Let_def by fastforce

theorem audit_event_is_sanitised_witness:
  "\<exists>e. AuditEvent_create 1 BATCH_CREATED SUCCESS (utc 0) None (Some 5) None None
      (Some [(''n'', VList [VInt 3])]) = Inr e \<and>
     safe_mapping 4 (ae_metadata e) \<and> ae_organization_id e = Some 5"
proof -
  have "\<not> secret_like ''n''"
    by code_simp
  then have "safe_metadata [(''n'', VList [VInt 3])] 0 = Inr [(''n'', VList [VInt 3])]"
    by (intro safe_metadata_complete) (simp_all add: safe_mapping_def)
  then have "ok (AuditEvent_create 1 BATCH_CREATED SUCCESS (utc 0) None (Some 5) None None
      (Some [(''n'', VList [VInt 3])]))"
    by (simp add: AuditEvent_create_def AuditEvent_post_init_def AuditRequestContext_post_init_def
        Audit_require_timezone_aware_def Audit_validate_optional_string_def)
  then obtain e where e: "AuditEvent_create 1 BATCH_CREATED SUCCESS (utc 0) None (Some 5) None None
      (Some [(''n'', VList [VInt 3])]) = Inr e"
    by (auto simp: ok_def)
  have "safe_mapping 4 (ae_metadata e) \<and> ae_organization_id e = Some 5"
    using audit_event_is_sanitised [OF e] by simp
  with e show ?thesis by blast
qed

text \<open>
  The sanitiser is exact on sanitised values: a mapping is accepted unchanged at a depth
  exactly when it is safe there, so what was stored once is accepted again as it is, and a
  mapping with a secret-like key at any level is rejected.
\<close>

theorem safe_metadata_fixpoint:
  "safe_metadata m d = Inr m \<longleftrightarrow> d \<le> 4 \<and> safe_mapping (4 - d) m"
  using safe_metadata_sound(1) safe_metadata_complete(1) by blast

end
