(* ===== verification/Document_Lifecycle.thy ===== *)
theory Document_Lifecycle
  imports Storage_Keys
begin

text \<open>
  The lifecycle of the document aggregate: the invariant its constructor establishes, the
  operations as steps of a lock-versioned aggregate that freezes when archived, and the
  transition table of \<^verbatim>\<open>DocumentStatus\<close>.
\<close>

section \<open>Invariant\<close>

definition safe_reference :: "string \<Rightarrow> bool" where
  "safe_reference r \<longleftrightarrow> r \<noteq> [] \<and> strip r = r \<and> length r \<le> 512 \<and>
     \<not> list_ex (contains (casefold r)) [''password'', ''secret'', ''token'', ''authorization'']"

definition wf_document :: "Document \<Rightarrow> bool" where
  "wf_document d \<longleftrightarrow>
     d_organization_id d \<noteq> 0 \<and> d_created_by_user_id d \<noteq> 0 \<and> d_updated_by_user_id d \<noteq> 0 \<and>
     safe_filename (d_display_filename d) \<and> pred_option safe_reference (d_source_reference d) \<and>
     is_utc (d_created_at d) \<and> is_utc (d_updated_at d) \<and> pred_option is_utc (d_archived_at d) \<and>
     d_created_at d \<le> d_updated_at d \<and> 0 < d_lock_version d \<and>
     (d_status d = DocArchived \<longleftrightarrow> d_archived_at d \<noteq> None) \<and>
     (d_status d = DocArchived \<longleftrightarrow> d_archived_by_user_id d \<noteq> None) \<and>
     d_archived_by_user_id d \<noteq> Some 0"

lemma normalize_source_reference_safe:
  "normalize_source_reference r = Inr s \<Longrightarrow> pred_option safe_reference s"
  by (auto simp: normalize_source_reference_def safe_reference_def Let_def document_limits
      split: option.splits if_splits)

lemma normalize_source_reference_id:
  "pred_option safe_reference r \<Longrightarrow> normalize_source_reference r = Inr r"
  by (cases r) (auto simp: normalize_source_reference_def safe_reference_def document_limits)

lemmas document_helper_defs = Doc_validate_uuid_def Doc_normalize_timestamp_def Document_ensure_mutable_def

lemma Document_post_init_frame:
  assumes "Document_post_init d = Inr e"
  shows "wf_document e \<and> d_id e = d_id d \<and> d_organization_id e = d_organization_id d \<and>
    d_status e = d_status d \<and> d_current_version_id e = d_current_version_id d \<and>
    d_created_by_user_id e = d_created_by_user_id d \<and> d_source_type e = d_source_type d \<and>
    d_lock_version e = d_lock_version d \<and>
    (is_utc (d_created_at d) \<longrightarrow> d_created_at e = d_created_at d)"
  using assms
  by (auto simp: Document_post_init_def wf_document_def document_helper_defs opt_res_eq_Inr
      dest!: normalize_original_filename_safe normalize_source_reference_safe
      split: if_splits option.splits)

lemma Document_post_init_id: "wf_document d \<Longrightarrow> Document_post_init d = Inr d"
  by (cases "d_archived_at d"; cases "d_archived_by_user_id d")
    (auto simp: Document_post_init_def wf_document_def document_helper_defs
      normalize_original_filename_id normalize_source_reference_id to_utc_def raise_if_def check_uuid_def)

section \<open>Steps\<close>

datatype DocumentOp =
    MarkStoredOp uuid datetime
  | MarkFailedOp uuid datetime
  | SetCurrentVersionOp DocumentVersion uuid datetime
  | ArchiveDocumentOp uuid datetime

fun document_step :: "Document \<Rightarrow> DocumentOp \<Rightarrow> Document res" where
  "document_step d (MarkStoredOp u t) = Document_mark_stored t d u (Some t)"
| "document_step d (MarkFailedOp u t) = Document_mark_failed t d u (Some t)"
| "document_step d (SetCurrentVersionOp v u t) = Document_set_current_version t d v u (Some t)"
| "document_step d (ArchiveDocumentOp u t) = Document_archive t d u (Some t)"

text \<open>The transition table of the lifecycle.\<close>

fun next_status :: "Document \<Rightarrow> DocumentOp \<Rightarrow> DocumentStatus option" where
  "next_status d (MarkStoredOp u t) =
     (if d_status d \<in> {DocRegistered, DocFailed} then Some DocStored else None)"
| "next_status d (MarkFailedOp u t) =
     (if d_status d \<in> {DocRegistered, DocFailed} then Some DocFailed else None)"
| "next_status d (SetCurrentVersionOp v u t) =
     (if d_status d = DocArchived then None
      else Some (if dv_storage_state v = StorageStored then DocStored else DocRegistered))"
| "next_status d (ArchiveDocumentOp u t) = (if d_status d = DocArchived then None else Some DocArchived)"

fun op_actor :: "DocumentOp \<Rightarrow> uuid" where
  "op_actor (MarkStoredOp u t) = u"
| "op_actor (MarkFailedOp u t) = u"
| "op_actor (SetCurrentVersionOp v u t) = u"
| "op_actor (ArchiveDocumentOp u t) = u"

fun op_time :: "DocumentOp \<Rightarrow> datetime" where
  "op_time (MarkStoredOp u t) = t"
| "op_time (MarkFailedOp u t) = t"
| "op_time (SetCurrentVersionOp v u t) = t"
| "op_time (ArchiveDocumentOp u t) = t"

text \<open>A version handed to \<^verbatim>\<open>set_current_version\<close> belongs to the document.\<close>

fun op_fits :: "Document \<Rightarrow> DocumentOp \<Rightarrow> bool" where
  "op_fits d (SetCurrentVersionOp v u t) \<longleftrightarrow>
     dv_document_id v = d_id d \<and> dv_organization_id v = d_organization_id d \<and>
     safe_filename (dv_original_filename v)"
| "op_fits d p \<longleftrightarrow> True"

lemmas document_op_defs = Document_mark_stored_def Document_mark_failed_def
  Document_transition_to_def Document_mutated_def Document_set_current_version_def Document_archive_def

lemma document_step_frame:
  assumes "document_step d p = Inr e"
  shows "wf_document e" and "d_lock_version e = d_lock_version d + 1"
    and "d_id e = d_id d" and "d_organization_id e = d_organization_id d"
    and "d_created_by_user_id e = d_created_by_user_id d"
    and "next_status d p = Some (d_status e)"
    and "op_actor p \<noteq> 0" and "tz_aware (op_time p)" and "d_created_at d \<le> op_time p"
  using assms
  by (cases p; auto simp: document_op_defs document_helper_defs dest!: Document_post_init_frame)+

lemma document_step_succeeds:
  assumes "wf_document d" and "next_status d p \<noteq> None" and "op_fits d p"
    and "op_actor p \<noteq> 0" and "tz_aware (op_time p)" and "d_created_at d \<le> op_time p"
  shows "\<exists>e. document_step d p = Inr e"
  using assms
  by (cases p; cases "d_archived_at d"; cases "d_archived_by_user_id d")
    (auto simp: document_op_defs document_helper_defs wf_document_def to_utc_def raise_if_def
      check_uuid_def Document_post_init_id split: if_splits)

interpretation document: frozen_aggregate wf_document d_lock_version
  "\<lambda>d. (d_id d, d_organization_id d, d_created_by_user_id d)"
  "\<lambda>d. d_status d = DocArchived" document_step
proof unfold_locales
  fix a b :: Document and p
  show "d_status a = DocArchived \<Longrightarrow> document_step a p = Inr b \<Longrightarrow> d_status b = DocArchived"
    by (drule document_step_frame(6)) (cases p; auto)
  show "d_status a = DocArchived \<Longrightarrow> \<exists>e. document_step a p = Inl e"
    by (cases "document_step a p") (auto dest!: document_step_frame(6), cases p, auto)
qed (auto dest: document_step_frame)


lemma Document_register_frame:
  assumes "Document_register clock i org f st r v u now = Inr d"
  shows "wf_document d" and "d_lock_version d = 1" and "d_status d = DocRegistered"
    and "d_id d = i" and "d_organization_id d = org" and "d_created_by_user_id d = u"
    and "dv_document_id v = i" and "dv_organization_id v = org" and "d_current_version_id d = dv_id v"
  using assms
  by (auto simp: Document_register_def dest!: Document_post_init_frame)

definition sample_document :: Document where
  "sample_document =
     \<lparr>d_id = DocumentId 8, d_organization_id = 5, d_display_filename = ''a.pdf'',
      d_source_type = SourceUpload, d_source_reference = None, d_status = DocRegistered,
      d_current_version_id = DocumentVersionId 7, d_archived_at = None,
      d_archived_by_user_id = None, d_created_at = utc 0, d_created_by_user_id = 9,
      d_updated_at = utc 0, d_updated_by_user_id = 9, d_lock_version = 1\<rparr>"

lemma sample_safe_filename [simp]: "safe_filename ''a.pdf''"
  by (rule normalize_original_filename_safe) (rule sample_filename)

lemma sample_document_registered:
  "Document_register (utc 0) (DocumentId 8) 5 ''a.pdf'' SourceUpload None sample_version 9 None =
     Inr sample_document"
  by (simp add: Document_register_def sample_version_def sample_document_def document_helper_defs
      to_utc_def raise_if_def Document_post_init_id wf_document_def)

section \<open>Properties\<close>

text \<open>
  C31. The lifecycle table is exact. On a document as its constructor leaves it, and with a
  version that belongs to the document, an operation succeeds exactly when the table has an
  entry for it (storing and failing only from registered or failed, a new version from any
  status but archived, archiving once), the actor is not nil and the timestamp is aware and
  not earlier than the creation; and then the status is the table's.
\<close>

theorem document_transition_table:
  assumes "wf_document d" and "op_fits d p"
  shows "(\<exists>e. document_step d p = Inr e \<and> d_status e = s) \<longleftrightarrow>
    next_status d p = Some s \<and> op_actor p \<noteq> 0 \<and> tz_aware (op_time p) \<and> d_created_at d \<le> op_time p"
proof
  assume "\<exists>e. document_step d p = Inr e \<and> d_status e = s"
  then show "next_status d p = Some s \<and> op_actor p \<noteq> 0 \<and> tz_aware (op_time p) \<and>
      d_created_at d \<le> op_time p"
    using document_step_frame(6-9) by blast
next
  assume *: "next_status d p = Some s \<and> op_actor p \<noteq> 0 \<and> tz_aware (op_time p) \<and>
      d_created_at d \<le> op_time p"
  then obtain e where e: "document_step d p = Inr e"
    using document_step_succeeds [OF assms(1) _ assms(2)] by blast
  then have "d_status e = s"
    using document_step_frame(6) * by fastforce
  with e show "\<exists>e. document_step d p = Inr e \<and> d_status e = s" by blast
qed

theorem document_transition_table_witness:
  "\<exists>e. document_step sample_document (MarkStoredOp 9 (utc 3)) = Inr e \<and> d_status e = DocStored"
  using document_transition_table [of sample_document "MarkStoredOp 9 (utc 3)" DocStored]
  by (simp add: sample_document_def wf_document_def)

text \<open>
  C32. A registered document, after any sequence of operations that did not raise, satisfies
  the constructor's invariant, keeps identifier, tenant and creator, counts the operations in
  its lock version, and if it was archived at some point that was the last operation.
\<close>

theorem document_history:
  assumes "Document_register clock i org f st r v u now = Inr d0"
    and "run_ops document_step d0 ps = Inr d"
  shows "wf_document d \<and> d_id d = i \<and> d_organization_id d = org \<and> d_created_by_user_id d = u \<and>
    d_lock_version d = 1 + int (length ps) \<and>
    (\<forall>k < length ps. \<forall>c. run_ops document_step d0 (take k ps) = Inr c \<longrightarrow> d_status c \<noteq> DocArchived)"
proof -
  have "d_status c \<noteq> DocArchived"
    if "k < length ps" "run_ops document_step d0 (take k ps) = Inr c" for k c
    using document.run_frozen_prefix [OF assms(2) that] .
  then show ?thesis
    using document.run_wf [OF Document_register_frame(1) [OF assms(1)] assms(2)]
      document.run_lock [OF assms(2)] document.run_ident [OF assms(2)]
      Document_register_frame(2,4,5,6) [OF assms(1)]
    by simp
qed

theorem document_history_witness:
  "\<exists>d. run_ops document_step sample_document
      [MarkFailedOp 9 (utc 3), MarkStoredOp 9 (utc 4), ArchiveDocumentOp 9 (utc 5)] = Inr d \<and>
     wf_document d \<and> d_lock_version d = 4"
proof -
  let ?ps = "[MarkFailedOp 9 (utc 3), MarkStoredOp 9 (utc 4), ArchiveDocumentOp 9 (utc 5)]"
  have "ok (run_ops document_step sample_document ?ps)"
    by (simp add: sample_document_def document_op_defs document_helper_defs to_utc_def raise_if_def
        check_uuid_def Document_post_init_id wf_document_def)
  then obtain d where d: "run_ops document_step sample_document ?ps = Inr d"
    by (auto simp: ok_def split: sum.splits)
  have "wf_document d \<and> d_lock_version d = 4"
    using document_history [OF sample_document_registered d] by simp
  with d show ?thesis by blast
qed

end
