(* ===== verification/Batches.thy ===== *)
theory Batches
  imports Document_Lifecycle
begin

text \<open>
  The batch aggregate of \<^verbatim>\<open>workflowforge_domain/batches.py\<close>: \<^verbatim>\<open>Batch\<close> with the checks its
  constructor runs in \<^verbatim>\<open>__post_init__\<close>, its operations \<^verbatim>\<open>create\<close>, \<^verbatim>\<open>update\<close> and \<^verbatim>\<open>archive\<close>
  (\<^verbatim>\<open>dataclasses.replace\<close> runs the constructor again), and the membership record
  \<^verbatim>\<open>BatchDocument\<close>. The invariant \<open>wf_batch\<close> is what the constructor establishes; the
  aggregate is an instance of the lock-versioned aggregates of theory \<^verbatim>\<open>Errors\<close>.
\<close>

section \<open>Data\<close>

datatype BatchStatus = BatchOpen | BatchClosed | BatchArchived

fun BatchStatus_value :: "BatchStatus \<Rightarrow> string" where
  "BatchStatus_value BatchOpen = ''open''"
| "BatchStatus_value BatchClosed = ''closed''"
| "BatchStatus_value BatchArchived = ''archived''"

datatype BatchId = BatchId (BatchId_value: uuid)
datatype BatchDocumentId = BatchDocumentId (BatchDocumentId_value: uuid)

record Batch =
  b_id :: BatchId
  b_organization_id :: uuid
  b_name :: string
  b_description :: "string option"
  b_status :: BatchStatus
  b_external_reference :: "string option"
  b_created_at :: datetime
  b_created_by_user_id :: uuid
  b_updated_at :: datetime
  b_updated_by_user_id :: uuid
  b_archived_at :: "datetime option"
  b_archived_by_user_id :: "uuid option"
  b_lock_version :: int

record BatchDocument =
  bd_id :: BatchDocumentId
  bd_organization_id :: uuid
  bd_batch_id :: BatchId
  bd_document_id :: DocumentId
  bd_added_at :: datetime
  bd_added_by_user_id :: uuid

section \<open>Operations\<close>

definition Batch_validate_uuid :: "uuid \<Rightarrow> string \<Rightarrow> unit res" where
  "Batch_validate_uuid value field_name = check_uuid BatchError value field_name"

definition Batch_timestamp :: "datetime \<Rightarrow> datetime res" where
  "Batch_timestamp value = to_utc (BatchError ''Batch timestamps must be timezone-aware.'') value"

definition Batch_bounded_text ::
  "string option \<Rightarrow> string \<Rightarrow> nat \<Rightarrow> bool \<Rightarrow> string option res" where
  "Batch_bounded_text value field_name max_length optional =
     bounded_text BatchError value field_name max_length optional"

definition BatchId_post_init :: "uuid \<Rightarrow> BatchId res" where
  "BatchId_post_init value =
     bind_res (Batch_validate_uuid value ''Batch identifier'') (\<lambda>_. Inr (BatchId value))"

definition BatchDocumentId_post_init :: "uuid \<Rightarrow> BatchDocumentId res" where
  "BatchDocumentId_post_init value =
     bind_res (Batch_validate_uuid value ''Batch document identifier'')
       (\<lambda>_. Inr (BatchDocumentId value))"

definition Batch_post_init :: "Batch \<Rightarrow> Batch res" where
  "Batch_post_init b =
     bind_res (Batch_validate_uuid (b_organization_id b) ''Batch organization identifier'') (\<lambda>_.
     bind_res (Batch_validate_uuid (b_created_by_user_id b) ''Batch creator identifier'') (\<lambda>_.
     bind_res (Batch_validate_uuid (b_updated_by_user_id b) ''Batch updater identifier'') (\<lambda>_.
     bind_res (required_text BatchError (b_name b) ''Batch name'' 255) (\<lambda>name.
     bind_res (Batch_bounded_text (b_description b) ''Batch description'' 2000 True) (\<lambda>description.
     bind_res (Batch_bounded_text (b_external_reference b) ''Batch external reference'' 255 True)
       (\<lambda>external_reference.
     bind_res (Batch_timestamp (b_created_at b)) (\<lambda>created_at.
     bind_res (Batch_timestamp (b_updated_at b)) (\<lambda>updated_at.
     bind_res (raise_if (b_lock_version b \<le> 0)
       (BatchError ''Batch lock version must be positive.'')) (\<lambda>_.
     bind_res
       (if b_status b = BatchArchived then
          bind_res (raise_if (b_archived_at b = None \<or> b_archived_by_user_id b = None)
            (BatchError ''Archived batches require archive metadata.''))
            (\<lambda>_. opt_res Batch_timestamp (b_archived_at b))
        else
          bind_res (raise_if (b_archived_at b \<noteq> None \<or> b_archived_by_user_id b \<noteq> None)
            (BatchError ''Only archived batches may carry archive metadata.''))
            (\<lambda>_. Inr (b_archived_at b))) (\<lambda>archived_at.
     Inr (b\<lparr>b_name := name, b_description := description,
            b_external_reference := external_reference, b_created_at := created_at,
            b_updated_at := updated_at, b_archived_at := archived_at\<rparr>)))))))))))"

definition Batch_create ::
  "BatchId \<Rightarrow> uuid \<Rightarrow> string \<Rightarrow> string option \<Rightarrow> string option \<Rightarrow> uuid \<Rightarrow> datetime \<Rightarrow> Batch res" where
  "Batch_create batch_id organization_id name description external_reference created_by_user_id now =
     bind_res (Batch_timestamp now) (\<lambda>timestamp.
     Batch_post_init
       \<lparr>b_id = batch_id, b_organization_id = organization_id, b_name = name,
        b_description = description, b_status = BatchOpen,
        b_external_reference = external_reference, b_created_at = timestamp,
        b_created_by_user_id = created_by_user_id, b_updated_at = timestamp,
        b_updated_by_user_id = created_by_user_id, b_archived_at = None,
        b_archived_by_user_id = None, b_lock_version = 1\<rparr>)"

definition Batch_ensure_mutable :: "Batch \<Rightarrow> unit res" where
  "Batch_ensure_mutable b = raise_if (b_status b = BatchArchived)
     (ArchivedBatchMutationError ''Archived batches reject ordinary mutation.'')"

definition Batch_update ::
  "Batch \<Rightarrow> string option \<Rightarrow> string option \<Rightarrow> string option \<Rightarrow> uuid \<Rightarrow> datetime \<Rightarrow> Batch res" where
  "Batch_update b name description external_reference actor_user_id now =
     bind_res (Batch_ensure_mutable b) (\<lambda>_.
     bind_res (Batch_validate_uuid actor_user_id ''Batch mutation actor identifier'') (\<lambda>_.
     bind_res (Batch_timestamp now) (\<lambda>timestamp.
     Batch_post_init
       (b\<lparr>b_name := (case name of None \<Rightarrow> b_name b | Some n \<Rightarrow> n),
          b_description := description, b_external_reference := external_reference,
          b_updated_at := timestamp, b_updated_by_user_id := actor_user_id,
          b_lock_version := b_lock_version b + 1\<rparr>))))"

definition Batch_archive :: "Batch \<Rightarrow> uuid \<Rightarrow> datetime \<Rightarrow> Batch res" where
  "Batch_archive b actor_user_id now =
     bind_res (Batch_ensure_mutable b) (\<lambda>_.
     bind_res (Batch_timestamp now) (\<lambda>timestamp.
     Batch_post_init
       (b\<lparr>b_status := BatchArchived, b_archived_at := Some timestamp,
          b_archived_by_user_id := Some actor_user_id, b_updated_at := timestamp,
          b_updated_by_user_id := actor_user_id, b_lock_version := b_lock_version b + 1\<rparr>)))"

definition BatchDocument_post_init :: "BatchDocument \<Rightarrow> BatchDocument res" where
  "BatchDocument_post_init m =
     bind_res (Batch_validate_uuid (bd_organization_id m)
       ''Batch document organization identifier'') (\<lambda>_.
     bind_res (Batch_validate_uuid (bd_added_by_user_id m)
       ''Batch document actor identifier'') (\<lambda>_.
     bind_res (Batch_timestamp (bd_added_at m)) (\<lambda>added_at.
     Inr (m\<lparr>bd_added_at := added_at\<rparr>))))"

section \<open>Invariant\<close>

definition wf_batch :: "Batch \<Rightarrow> bool" where
  "wf_batch b \<longleftrightarrow>
     b_organization_id b \<noteq> 0 \<and> b_created_by_user_id b \<noteq> 0 \<and> b_updated_by_user_id b \<noteq> 0 \<and>
     text_ok 255 (b_name b) \<and> opt_text_ok 2000 (b_description b) \<and>
     opt_text_ok 255 (b_external_reference b) \<and>
     is_utc (b_created_at b) \<and> is_utc (b_updated_at b) \<and> pred_option is_utc (b_archived_at b) \<and>
     0 < b_lock_version b \<and>
     (b_status b = BatchArchived \<longleftrightarrow> b_archived_at b \<noteq> None) \<and>
     (b_status b = BatchArchived \<longleftrightarrow> b_archived_by_user_id b \<noteq> None)"

lemmas batch_helper_defs =
  Batch_validate_uuid_def Batch_timestamp_def Batch_bounded_text_def Batch_ensure_mutable_def

lemma Batch_post_init_wf: "Batch_post_init b = Inr b' \<Longrightarrow> wf_batch b'"
  by (auto simp: Batch_post_init_def wf_batch_def batch_helper_defs
      dest: required_text_ok bounded_text_ok opt_to_utc_ok split: if_splits)

lemma Batch_post_init_id: "wf_batch b \<Longrightarrow> Batch_post_init b = Inr b"
  by (auto simp: Batch_post_init_def wf_batch_def batch_helper_defs
      required_text_id bounded_text_id opt_to_utc_id)

lemma Batch_post_init_frame:
  "Batch_post_init b = Inr b' \<Longrightarrow>
     b_id b' = b_id b \<and> b_organization_id b' = b_organization_id b \<and>
     b_status b' = b_status b \<and> b_created_by_user_id b' = b_created_by_user_id b \<and>
     b_updated_by_user_id b' = b_updated_by_user_id b \<and>
     b_archived_by_user_id b' = b_archived_by_user_id b \<and>
     b_lock_version b' = b_lock_version b \<and>
     (is_utc (b_created_at b) \<longrightarrow> b_created_at b' = b_created_at b)"
  by (auto simp: Batch_post_init_def batch_helper_defs)


text \<open>The mutations of a batch, as the services call them.\<close>

datatype BatchOp =
    UpdateBatchOp "string option" "string option" "string option" uuid datetime
  | ArchiveBatchOp uuid datetime

fun batch_step :: "Batch \<Rightarrow> BatchOp \<Rightarrow> Batch res" where
  "batch_step b (UpdateBatchOp name description reference actor now) =
     Batch_update b name description reference actor now"
| "batch_step b (ArchiveBatchOp actor now) = Batch_archive b actor now"

lemma Batch_update_frame:
  assumes "Batch_update b n d r u t = Inr b'"
  shows "wf_batch b'" and "b_lock_version b' = b_lock_version b + 1"
    and "b_id b' = b_id b" and "b_organization_id b' = b_organization_id b"
    and "b_created_by_user_id b' = b_created_by_user_id b" and "b_status b' = b_status b"
    and "is_utc (b_created_at b) \<Longrightarrow> b_created_at b' = b_created_at b"
    and "b_status b \<noteq> BatchArchived"
  using assms
  by (auto simp: Batch_update_def batch_helper_defs dest: Batch_post_init_wf Batch_post_init_frame)

lemma Batch_archive_frame:
  assumes "Batch_archive b u t = Inr b'"
  shows "wf_batch b'" and "b_lock_version b' = b_lock_version b + 1"
    and "b_id b' = b_id b" and "b_organization_id b' = b_organization_id b"
    and "b_created_by_user_id b' = b_created_by_user_id b" and "b_status b' = BatchArchived"
    and "is_utc (b_created_at b) \<Longrightarrow> b_created_at b' = b_created_at b"
    and "b_status b \<noteq> BatchArchived"
  using assms
  by (auto simp: Batch_archive_def batch_helper_defs dest: Batch_post_init_wf Batch_post_init_frame)

lemmas batch_frames = Batch_update_frame Batch_archive_frame

interpretation batch: frozen_aggregate wf_batch b_lock_version
  "\<lambda>b. (b_id b, b_organization_id b, b_created_by_user_id b)"
  "\<lambda>b. b_status b = BatchArchived" batch_step
proof unfold_locales
  fix a b :: Batch and p
  show "wf_batch a \<Longrightarrow> batch_step a p = Inr b \<Longrightarrow> wf_batch b"
    by (cases p) (auto dest: batch_frames)
  show "batch_step a p = Inr b \<Longrightarrow> b_lock_version b = b_lock_version a + 1"
    by (cases p) (auto dest: batch_frames)
  show "batch_step a p = Inr b \<Longrightarrow>
      (b_id b, b_organization_id b, b_created_by_user_id b) =
      (b_id a, b_organization_id a, b_created_by_user_id a)"
    by (cases p) (auto dest: batch_frames)
  show "b_status a = BatchArchived \<Longrightarrow> batch_step a p = Inr b \<Longrightarrow> b_status b = BatchArchived"
    by (cases p) (auto dest: batch_frames)
  show "b_status a = BatchArchived \<Longrightarrow> \<exists>e. batch_step a p = Inl e"
    by (cases p) (auto simp: Batch_update_def Batch_archive_def Batch_ensure_mutable_def raise_if_def)
qed

lemma Batch_create_frame:
  assumes "Batch_create i org n d r u t = Inr b"
  shows "wf_batch b" and "b_lock_version b = 1" and "b_status b = BatchOpen"
    and "b_id b = i" and "b_organization_id b = org" and "b_created_by_user_id b = u"
  using assms
  by (auto simp: Batch_create_def dest: Batch_post_init_wf Batch_post_init_frame)

lemmas batch_eval = Batch_create_def Batch_update_def Batch_archive_def batch_helper_defs
  Batch_post_init_id wf_batch_def text_ok_word is_space_def to_utc_def check_uuid_def raise_if_def

section \<open>Properties\<close>

text \<open>
  C33. Every batch obtained from \<^verbatim>\<open>Batch.create\<close> by any sequence of updates and archivals that
  did not raise satisfies the invariant of the constructor (normalised bounded texts, UTC
  timestamps, archive metadata exactly when archived), keeps its identifier, tenant and
  creator, and its lock version is one more than the number of mutations.
\<close>

theorem batch_history:
  assumes "Batch_create i org n d r u t = Inr b0" and "run_ops batch_step b0 ps = Inr b"
  shows "wf_batch b \<and> b_lock_version b = 1 + int (length ps) \<and>
    b_id b = i \<and> b_organization_id b = org \<and> b_created_by_user_id b = u"
  using batch.run_wf [OF Batch_create_frame(1) [OF assms(1)] assms(2)]
    batch.run_lock [OF assms(2)] batch.run_ident [OF assms(2)] Batch_create_frame [OF assms(1)]
  by simp


theorem batch_history_witness:
  "\<exists>b0 b. Batch_create (BatchId 1) 2 ''Q1'' None None 3 (DateTime 3600 (Some 60)) = Inr b0 \<and>
     run_ops batch_step b0
       [UpdateBatchOp (Some ''Q2'') None None 3 (DateTime 7200 (Some 0)),
        ArchiveBatchOp 3 (DateTime 7300 (Some 0))] = Inr b \<and>
     wf_batch b \<and> b_lock_version b = 3 \<and> b_organization_id b = 2"
proof -
  let ?c = "Batch_create (BatchId 1) 2 ''Q1'' None None 3 (DateTime 3600 (Some 60))"
  let ?ps = "[UpdateBatchOp (Some ''Q2'') None None 3 (DateTime 7200 (Some 0)),
    ArchiveBatchOp 3 (DateTime 7300 (Some 0))]"
  have "ok (bind_res ?c (\<lambda>b. run_ops batch_step b ?ps))"
    by (simp add: batch_eval)
  then obtain b0 b where *: "?c = Inr b0" "run_ops batch_step b0 ?ps = Inr b"
    unfolding ok_bind_res by (auto simp: ok_def simp del: run_ops.simps)
  have "wf_batch b \<and> b_lock_version b = 3 \<and> b_organization_id b = 2"
    using batch_history [OF *] by simp
  with * show ?thesis by blast
qed

end
