(* ===== verification/Cases.thy ===== *)
theory Cases
  imports Batches
begin

text \<open>
  The case aggregate of \<^verbatim>\<open>workflowforge_domain/cases.py\<close>: \<^verbatim>\<open>Case\<close> with its constructor checks
  and its operations \<^verbatim>\<open>create\<close>, \<^verbatim>\<open>update\<close>, \<^verbatim>\<open>close\<close>, \<^verbatim>\<open>reopen\<close> and \<^verbatim>\<open>archive\<close>, the records hanging
  off a case, and \<^verbatim>\<open>CaseTask\<close> with \<^verbatim>\<open>update\<close> and \<^verbatim>\<open>complete\<close>. The relation \<open>case_reachable\<close>
  holds of the cases that \<^verbatim>\<open>create\<close> and the operations produce; the lifecycle facts about
  \<^verbatim>\<open>closed_at\<close> and \<^verbatim>\<open>archived_at\<close>, which no constructor check enforces, are proved by rule
  induction over it.
\<close>

section \<open>Data\<close>

datatype CaseStatus = CaseOpen | CaseClosed | CaseArchived
datatype CasePriority = PriorityLow | PriorityNormal | PriorityHigh | PriorityUrgent
datatype CaseTaskStatus = TaskOpen | TaskCompleted | TaskCancelled

fun CaseStatus_value :: "CaseStatus \<Rightarrow> string" where
  "CaseStatus_value CaseOpen = ''open''"
| "CaseStatus_value CaseClosed = ''closed''"
| "CaseStatus_value CaseArchived = ''archived''"

fun CasePriority_value :: "CasePriority \<Rightarrow> string" where
  "CasePriority_value PriorityLow = ''low''"
| "CasePriority_value PriorityNormal = ''normal''"
| "CasePriority_value PriorityHigh = ''high''"
| "CasePriority_value PriorityUrgent = ''urgent''"

fun CaseTaskStatus_value :: "CaseTaskStatus \<Rightarrow> string" where
  "CaseTaskStatus_value TaskOpen = ''open''"
| "CaseTaskStatus_value TaskCompleted = ''completed''"
| "CaseTaskStatus_value TaskCancelled = ''cancelled''"

datatype CaseId = CaseId (CaseId_value: uuid)
datatype CaseDocumentId = CaseDocumentId (CaseDocumentId_value: uuid)
datatype CaseCommentId = CaseCommentId (CaseCommentId_value: uuid)
datatype CaseTaskId = CaseTaskId (CaseTaskId_value: uuid)
datatype CaseDecisionId = CaseDecisionId (CaseDecisionId_value: uuid)

record Case =
  c_id :: CaseId
  c_organization_id :: uuid
  c_title :: string
  c_summary :: "string option"
  c_status :: CaseStatus
  c_priority :: CasePriority
  c_external_reference :: "string option"
  c_created_at :: datetime
  c_created_by_user_id :: uuid
  c_updated_at :: datetime
  c_updated_by_user_id :: uuid
  c_closed_at :: "datetime option"
  c_closed_by_user_id :: "uuid option"
  c_archived_at :: "datetime option"
  c_archived_by_user_id :: "uuid option"
  c_lock_version :: int

record CaseDocument =
  cd_id :: CaseDocumentId
  cd_organization_id :: uuid
  cd_case_id :: CaseId
  cd_document_id :: DocumentId
  cd_added_at :: datetime
  cd_added_by_user_id :: uuid

record CaseComment =
  cc_id :: CaseCommentId
  cc_organization_id :: uuid
  cc_case_id :: CaseId
  cc_body :: string
  cc_created_at :: datetime
  cc_created_by_user_id :: uuid
  cc_updated_at :: "datetime option"
  cc_updated_by_user_id :: "uuid option"

record CaseTask =
  ct_id :: CaseTaskId
  ct_organization_id :: uuid
  ct_case_id :: CaseId
  ct_title :: string
  ct_description :: "string option"
  ct_status :: CaseTaskStatus
  ct_assigned_to_user_id :: "uuid option"
  ct_due_at :: "datetime option"
  ct_completed_at :: "datetime option"
  ct_completed_by_user_id :: "uuid option"
  ct_created_at :: datetime
  ct_created_by_user_id :: uuid
  ct_updated_at :: datetime
  ct_updated_by_user_id :: uuid
  ct_lock_version :: int

record CaseDecision =
  cx_id :: CaseDecisionId
  cx_organization_id :: uuid
  cx_case_id :: CaseId
  cx_decision_type :: string
  cx_rationale :: string
  cx_created_at :: datetime
  cx_created_by_user_id :: uuid

section \<open>Operations\<close>

definition Case_validate_uuid :: "uuid \<Rightarrow> string \<Rightarrow> unit res" where
  "Case_validate_uuid value field_name = check_uuid CaseError value field_name"

definition Case_timestamp :: "datetime \<Rightarrow> datetime res" where
  "Case_timestamp value = to_utc (CaseError ''Case timestamps must be timezone-aware.'') value"

definition Case_bounded_text ::
  "string option \<Rightarrow> string \<Rightarrow> nat \<Rightarrow> bool \<Rightarrow> string option res" where
  "Case_bounded_text value field_name max_length optional =
     bounded_text CaseError value field_name max_length optional"

definition Case_post_init :: "Case \<Rightarrow> Case res" where
  "Case_post_init c =
     bind_res (Case_validate_uuid (c_organization_id c) ''Case organization identifier'') (\<lambda>_.
     bind_res (required_text CaseError (c_title c) ''Case title'' 255) (\<lambda>title.
     bind_res (Case_bounded_text (c_summary c) ''Case summary'' 4000 True) (\<lambda>summary.
     bind_res (Case_bounded_text (c_external_reference c) ''Case external reference'' 255 True)
       (\<lambda>external_reference.
     bind_res (Case_timestamp (c_created_at c)) (\<lambda>created_at.
     bind_res (Case_timestamp (c_updated_at c)) (\<lambda>updated_at.
     bind_res (opt_res Case_timestamp (c_closed_at c)) (\<lambda>closed_at.
     bind_res (opt_res Case_timestamp (c_archived_at c)) (\<lambda>archived_at.
     bind_res (raise_if (c_lock_version c \<le> 0)
       (CaseError ''Case lock version must be positive.'')) (\<lambda>_.
     Inr (c\<lparr>c_title := title, c_summary := summary,
            c_external_reference := external_reference, c_created_at := created_at,
            c_updated_at := updated_at, c_closed_at := closed_at,
            c_archived_at := archived_at\<rparr>))))))))))"

definition Case_create ::
  "CaseId \<Rightarrow> uuid \<Rightarrow> string \<Rightarrow> string option \<Rightarrow> CasePriority \<Rightarrow> string option \<Rightarrow> uuid \<Rightarrow> datetime \<Rightarrow>
   Case res" where
  "Case_create case_id organization_id title summary priority external_reference
     created_by_user_id now =
     bind_res (Case_timestamp now) (\<lambda>timestamp.
     Case_post_init
       \<lparr>c_id = case_id, c_organization_id = organization_id, c_title = title,
        c_summary = summary, c_status = CaseOpen, c_priority = priority,
        c_external_reference = external_reference, c_created_at = timestamp,
        c_created_by_user_id = created_by_user_id, c_updated_at = timestamp,
        c_updated_by_user_id = created_by_user_id, c_closed_at = None,
        c_closed_by_user_id = None, c_archived_at = None, c_archived_by_user_id = None,
        c_lock_version = 1\<rparr>)"

definition Case_ensure_mutable :: "Case \<Rightarrow> unit res" where
  "Case_ensure_mutable c = raise_if (c_status c = CaseArchived)
     (CaseError ''Archived cases reject ordinary mutation.'')"

definition Case_update ::
  "Case \<Rightarrow> string option \<Rightarrow> string option \<Rightarrow> CasePriority option \<Rightarrow> string option \<Rightarrow> uuid \<Rightarrow> datetime \<Rightarrow>
   Case res" where
  "Case_update c title summary priority external_reference actor_user_id now =
     bind_res (Case_ensure_mutable c) (\<lambda>_.
     bind_res (Case_timestamp now) (\<lambda>timestamp.
     Case_post_init
       (c\<lparr>c_title := (case title of None \<Rightarrow> c_title c | Some t \<Rightarrow> t), c_summary := summary,
          c_priority := (case priority of None \<Rightarrow> c_priority c | Some p \<Rightarrow> p),
          c_external_reference := external_reference, c_updated_at := timestamp,
          c_updated_by_user_id := actor_user_id, c_lock_version := c_lock_version c + 1\<rparr>)))"

definition Case_close :: "Case \<Rightarrow> uuid \<Rightarrow> datetime \<Rightarrow> Case res" where
  "Case_close c actor_user_id now =
     bind_res (Case_ensure_mutable c) (\<lambda>_.
     bind_res (Case_timestamp now) (\<lambda>timestamp.
     Case_post_init
       (c\<lparr>c_status := CaseClosed, c_closed_at := Some timestamp,
          c_closed_by_user_id := Some actor_user_id, c_updated_at := timestamp,
          c_updated_by_user_id := actor_user_id, c_lock_version := c_lock_version c + 1\<rparr>)))"

definition Case_reopen :: "Case \<Rightarrow> uuid \<Rightarrow> datetime \<Rightarrow> Case res" where
  "Case_reopen c actor_user_id now =
     bind_res (raise_if (c_status c = CaseArchived)
       (CaseError ''Archived cases cannot be reopened.'')) (\<lambda>_.
     bind_res (Case_timestamp now) (\<lambda>timestamp.
     Case_post_init
       (c\<lparr>c_status := CaseOpen, c_closed_at := None, c_closed_by_user_id := None,
          c_updated_at := timestamp, c_updated_by_user_id := actor_user_id,
          c_lock_version := c_lock_version c + 1\<rparr>)))"

definition Case_archive :: "Case \<Rightarrow> uuid \<Rightarrow> datetime \<Rightarrow> Case res" where
  "Case_archive c actor_user_id now =
     bind_res (Case_timestamp now) (\<lambda>timestamp.
     Case_post_init
       (c\<lparr>c_status := CaseArchived, c_archived_at := Some timestamp,
          c_archived_by_user_id := Some actor_user_id, c_updated_at := timestamp,
          c_updated_by_user_id := actor_user_id, c_lock_version := c_lock_version c + 1\<rparr>))"

definition CaseTask_update ::
  "CaseTask \<Rightarrow> string option \<Rightarrow> string option \<Rightarrow> uuid option \<Rightarrow> datetime option \<Rightarrow> uuid \<Rightarrow> datetime \<Rightarrow>
   CaseTask res" where
  "CaseTask_update t title description assigned_to_user_id due_at actor_user_id now =
     bind_res (Case_timestamp now) (\<lambda>timestamp.
     Inr (t\<lparr>ct_title := (case title of None \<Rightarrow> ct_title t | Some s \<Rightarrow> s),
            ct_description := description, ct_assigned_to_user_id := assigned_to_user_id,
            ct_due_at := due_at, ct_updated_at := timestamp,
            ct_updated_by_user_id := actor_user_id,
            ct_lock_version := ct_lock_version t + 1\<rparr>))"

definition CaseTask_complete :: "CaseTask \<Rightarrow> uuid \<Rightarrow> datetime \<Rightarrow> CaseTask res" where
  "CaseTask_complete t actor_user_id now =
     bind_res (Case_timestamp now) (\<lambda>timestamp.
     Inr (t\<lparr>ct_status := TaskCompleted, ct_completed_at := Some timestamp,
            ct_completed_by_user_id := Some actor_user_id, ct_updated_at := timestamp,
            ct_updated_by_user_id := actor_user_id,
            ct_lock_version := ct_lock_version t + 1\<rparr>))"

section \<open>Invariant\<close>

definition wf_case :: "Case \<Rightarrow> bool" where
  "wf_case c \<longleftrightarrow>
     c_organization_id c \<noteq> 0 \<and> text_ok 255 (c_title c) \<and> opt_text_ok 4000 (c_summary c) \<and>
     opt_text_ok 255 (c_external_reference c) \<and>
     is_utc (c_created_at c) \<and> is_utc (c_updated_at c) \<and>
     pred_option is_utc (c_closed_at c) \<and> pred_option is_utc (c_archived_at c) \<and>
     0 < c_lock_version c"

text \<open>What the history of a case adds to the constructor's checks.\<close>

definition case_lifecycle :: "Case \<Rightarrow> bool" where
  "case_lifecycle c \<longleftrightarrow>
     (c_status c = CaseOpen \<longrightarrow> c_closed_at c = None) \<and>
     (c_status c = CaseClosed \<longrightarrow> c_closed_at c \<noteq> None) \<and>
     (c_status c = CaseArchived \<longleftrightarrow> c_archived_at c \<noteq> None) \<and>
     (c_closed_at c = None \<longleftrightarrow> c_closed_by_user_id c = None) \<and>
     (c_archived_at c = None \<longleftrightarrow> c_archived_by_user_id c = None)"

lemmas case_helper_defs =
  Case_validate_uuid_def Case_timestamp_def Case_bounded_text_def Case_ensure_mutable_def

lemma opt_Case_timestamp [simp]: "opt_res Case_timestamp = opt_res (to_utc (CaseError ''Case timestamps must be timezone-aware.''))"
  by (simp add: Case_timestamp_def [abs_def])

lemma Case_post_init_wf: "Case_post_init c = Inr c' \<Longrightarrow> wf_case c'"
  by (auto simp: Case_post_init_def wf_case_def case_helper_defs
      dest: required_text_ok bounded_text_ok opt_to_utc_ok)

lemma Case_post_init_id: "wf_case c \<Longrightarrow> Case_post_init c = Inr c"
  by (auto simp: Case_post_init_def wf_case_def case_helper_defs
      required_text_id bounded_text_id opt_to_utc_id)

lemma opt_res_None_iff: "opt_res f x = Inr y \<Longrightarrow> y = None \<longleftrightarrow> x = None"
  by (auto simp: opt_res_eq_Inr)

lemma Case_post_init_frame:
  "Case_post_init c = Inr c' \<Longrightarrow>
     wf_case c' \<and> c_id c' = c_id c \<and> c_organization_id c' = c_organization_id c \<and>
     c_status c' = c_status c \<and> c_priority c' = c_priority c \<and>
     c_created_by_user_id c' = c_created_by_user_id c \<and>
     c_updated_by_user_id c' = c_updated_by_user_id c \<and>
     c_closed_by_user_id c' = c_closed_by_user_id c \<and>
     c_archived_by_user_id c' = c_archived_by_user_id c \<and>
     (c_closed_at c' = None \<longleftrightarrow> c_closed_at c = None) \<and>
     (c_archived_at c' = None \<longleftrightarrow> c_archived_at c = None) \<and>
     c_lock_version c' = c_lock_version c"
  using Case_post_init_wf [of c c']
  by (auto simp: Case_post_init_def case_helper_defs opt_res_None_iff)

lemma Case_post_init_lifecycle:
  "Case_post_init c = Inr c' \<Longrightarrow> case_lifecycle c' \<longleftrightarrow> case_lifecycle c"
  by (drule Case_post_init_frame) (simp add: case_lifecycle_def)

datatype CaseOp =
    UpdateCaseOp "string option" "string option" "CasePriority option" "string option" uuid datetime
  | CloseCaseOp uuid datetime
  | ReopenCaseOp uuid datetime
  | ArchiveCaseOp uuid datetime

fun case_step :: "Case \<Rightarrow> CaseOp \<Rightarrow> Case res" where
  "case_step c (UpdateCaseOp title summary priority reference actor now) =
     Case_update c title summary priority reference actor now"
| "case_step c (CloseCaseOp actor now) = Case_close c actor now"
| "case_step c (ReopenCaseOp actor now) = Case_reopen c actor now"
| "case_step c (ArchiveCaseOp actor now) = Case_archive c actor now"

lemmas case_op_defs = Case_update_def Case_close_def Case_reopen_def Case_archive_def

lemma case_step_post_init:
  assumes "case_step c p = Inr c'"
  obtains d where "Case_post_init d = Inr c'" and "c_lock_version d = c_lock_version c + 1"
    and "c_id d = c_id c" and "c_organization_id d = c_organization_id c"
    and "c_created_by_user_id d = c_created_by_user_id c"
    and "c_status c = CaseArchived \<longrightarrow> c_status d = CaseArchived"
    and "case_lifecycle c \<longrightarrow> case_lifecycle d"
  using assms
  by (cases p) (force simp: case_op_defs case_helper_defs case_lifecycle_def)+

lemma case_step_frame:
  assumes "case_step c p = Inr c'"
  shows "wf_case c'" and "c_lock_version c' = c_lock_version c + 1"
    and "c_id c' = c_id c" and "c_organization_id c' = c_organization_id c"
    and "c_created_by_user_id c' = c_created_by_user_id c"
    and "c_status c = CaseArchived \<Longrightarrow> c_status c' = CaseArchived"
    and "case_lifecycle c \<Longrightarrow> case_lifecycle c'"
proof -
  obtain d where "Case_post_init d = Inr c'" and eqs: "c_lock_version d = c_lock_version c + 1"
    "c_id d = c_id c" "c_organization_id d = c_organization_id c"
    "c_created_by_user_id d = c_created_by_user_id c"
    "c_status c = CaseArchived \<longrightarrow> c_status d = CaseArchived"
    "case_lifecycle c \<longrightarrow> case_lifecycle d"
    using assms by (rule case_step_post_init)
  note frame = Case_post_init_frame [OF this(1)] Case_post_init_lifecycle [OF this(1)] eqs
  show "wf_case c'" "c_lock_version c' = c_lock_version c + 1" "c_id c' = c_id c"
    "c_organization_id c' = c_organization_id c"
    "c_created_by_user_id c' = c_created_by_user_id c"
    "c_status c = CaseArchived \<Longrightarrow> c_status c' = CaseArchived"
    "case_lifecycle c \<Longrightarrow> case_lifecycle c'"
    using frame by simp_all
qed

interpretation case_agg: versioned_aggregate wf_case c_lock_version
  "\<lambda>c. (c_id c, c_organization_id c, c_created_by_user_id c)"
  "\<lambda>c. c_status c = CaseArchived" case_step
  by unfold_locales (auto dest: case_step_frame)

inductive case_reachable :: "Case \<Rightarrow> bool" where
  created: "Case_create i org title s p r u now = Inr c \<Longrightarrow> case_reachable c"
| stepped: "case_reachable c \<Longrightarrow> case_step c p = Inr c' \<Longrightarrow> case_reachable c'"

lemma Case_create_frame:
  assumes "Case_create i org title s p r u now = Inr c"
  shows "wf_case c" and "case_lifecycle c" and "c_lock_version c = 1" and "c_status c = CaseOpen"
    and "c_id c = i" and "c_organization_id c = org" and "c_created_by_user_id c = u"
  using assms
  by (auto simp: Case_create_def case_lifecycle_def dest!: Case_post_init_frame)

lemma archived_case_step:
  "c_status c = CaseArchived \<Longrightarrow> case_step c p = Inr c' \<Longrightarrow> \<exists>u t. p = ArchiveCaseOp u t"
  by (cases p) (auto simp: case_op_defs case_helper_defs)

lemmas case_eval = case_op_defs Case_create_def case_helper_defs Case_post_init_id
  wf_case_def text_ok_word is_space_def to_utc_def check_uuid_def raise_if_def

section \<open>Properties\<close>

text \<open>
  C34. Every case that \<^verbatim>\<open>Case.create\<close> and any sequence of update, close, reopen and archive
  produce satisfies the constructor's checks and is consistent with its status: an open case
  has no closing data, a closed case has it, and a case is archived exactly when it carries
  archive data. No constructor check enforces the latter.
\<close>

theorem case_reachable_consistent:
  assumes "case_reachable c"
  shows "wf_case c \<and> case_lifecycle c"
  using assms
  by induction (auto dest: Case_create_frame case_step_frame)

theorem case_reachable_consistent_witness:
  "\<exists>c c'. Case_create (CaseId 1) 2 ''Claim'' None PriorityHigh None 3 (DateTime 5 (Some 0)) = Inr c \<and>
     case_step c (CloseCaseOp 3 (DateTime 9 (Some 0))) = Inr c' \<and> wf_case c' \<and> c_closed_at c' \<noteq> None"
proof -
  let ?c = "Case_create (CaseId 1) 2 ''Claim'' None PriorityHigh None 3 (DateTime 5 (Some 0))"
  have "ok (bind_res ?c (\<lambda>c. case_step c (CloseCaseOp 3 (DateTime 9 (Some 0)))))"
    and "bind_res (bind_res ?c (\<lambda>c. case_step c (CloseCaseOp 3 (DateTime 9 (Some 0)))))
           (\<lambda>c. Inr (c_status c)) = Inr CaseClosed"
    by (simp_all add: case_eval)
  then obtain c c' where *: "?c = Inr c" "case_step c (CloseCaseOp 3 (DateTime 9 (Some 0))) = Inr c'"
    "c_status c' = CaseClosed"
    by (auto simp: ok_bind_res)
  then have "wf_case c' \<and> case_lifecycle c'"
    by (intro case_reachable_consistent) (blast intro: case_reachable.intros)
  with * show ?thesis
    by (auto simp: case_lifecycle_def)
qed

text \<open>
  C35. An archived case stays archived, and the only operation that succeeds on it is another
  archival: whatever sequence of operations runs without raising, all of them are archivals
  and each adds one to the lock version.
\<close>

theorem archived_case_is_final:
  assumes "c_status c = CaseArchived" and "run_ops case_step c ps = Inr c'"
  shows "c_status c' = CaseArchived \<and> c_lock_version c' = c_lock_version c + int (length ps) \<and>
    (\<forall>p \<in> set ps. \<exists>u t. p = ArchiveCaseOp u t)"
proof -
  have "\<forall>p \<in> set ps. \<exists>u t. p = ArchiveCaseOp u t"
    using assms
    by (induction ps arbitrary: c) (auto dest: archived_case_step case_step_frame(6))
  then show ?thesis
    using case_agg.run_archived [OF assms] case_agg.run_lock [OF assms(2)] by blast
qed

definition sample_archived_case :: Case where
  "sample_archived_case =
     \<lparr>c_id = CaseId 1, c_organization_id = 2, c_title = ''Claim'', c_summary = None,
      c_status = CaseArchived, c_priority = PriorityLow, c_external_reference = None,
      c_created_at = utc 5, c_created_by_user_id = 3, c_updated_at = utc 9,
      c_updated_by_user_id = 3, c_closed_at = None, c_closed_by_user_id = None,
      c_archived_at = Some (utc 9), c_archived_by_user_id = Some 3, c_lock_version = 2\<rparr>"

theorem archived_case_is_final_witness:
  "\<exists>c'. run_ops case_step sample_archived_case [ArchiveCaseOp 4 (DateTime 12 (Some 0))] = Inr c' \<and>
     c_status c' = CaseArchived \<and> c_lock_version c' = 3"
proof -
  let ?r = "run_ops case_step sample_archived_case [ArchiveCaseOp 4 (DateTime 12 (Some 0))]"
  have "ok ?r"
    by (simp add: sample_archived_case_def case_eval)
  then obtain c' where *: "?r = Inr c'"
    by (auto simp: ok_def split: sum.splits)
  have "c_status sample_archived_case = CaseArchived" "c_lock_version sample_archived_case = 2"
    by (simp_all add: sample_archived_case_def)
  with archived_case_is_final [OF _ *] * show ?thesis
    by simp
qed

text \<open>
  C36. Reopening undoes closing: on a case as the constructor leaves it, open and without
  closing data, closing it and reopening it succeeds whenever both timestamps are aware, and
  gives back the case with only the update stamp changed and the lock version raised by two.
\<close>

theorem close_reopen_roundtrip:
  assumes "wf_case c" and "case_lifecycle c" and "c_status c = CaseOpen"
    and "tz_aware t1" and "tz_aware t2"
  shows "bind_res (Case_close c u1 t1) (\<lambda>d. Case_reopen d u2 t2) =
    Inr (c\<lparr>c_updated_at := astimezone_utc t2, c_updated_by_user_id := u2,
           c_lock_version := c_lock_version c + 2\<rparr>)"
  using assms
  by (cases c) (simp add: Case_close_def Case_reopen_def case_helper_defs to_utc_def raise_if_def
      Case_post_init_id wf_case_def case_lifecycle_def)

definition sample_open_case :: Case where
  "sample_open_case = sample_archived_case\<lparr>c_status := CaseOpen, c_archived_at := None,
     c_archived_by_user_id := None, c_lock_version := 1\<rparr>"

theorem close_reopen_roundtrip_witness:
  "bind_res (Case_close sample_open_case 3 (DateTime 20 (Some 0)))
     (\<lambda>d. Case_reopen d 4 (DateTime 30 (Some 10))) =
   Inr (sample_open_case\<lparr>c_updated_at := DateTime 20 (Some 0), c_updated_by_user_id := 4,
     c_lock_version := 3\<rparr>)"
  using close_reopen_roundtrip [of sample_open_case "DateTime 20 (Some 0)" "DateTime 30 (Some 10)" 3 4]
  by (simp add: sample_open_case_def sample_archived_case_def case_eval case_lifecycle_def)

end
