(* ===== verification/Sessions.thy ===== *)
theory Sessions
  imports Memberships
begin

text \<open>
  Authenticated sessions and refresh tokens, \<^verbatim>\<open>workflowforge_domain/identity/sessions.py\<close>:
  identifiers and digests, \<^verbatim>\<open>AuthSession\<close> and \<^verbatim>\<open>RefreshTokenRecord\<close> with their constructor checks
  and operations. Both queries that compare with the clock normalise the timestamp first and
  raise on a naive one.
\<close>

section \<open>Data\<close>

datatype SessionId = SessionId (SessionId_value: uuid)
datatype RefreshTokenId = RefreshTokenId (RefreshTokenId_value: uuid)
datatype RefreshTokenFamilyId = RefreshTokenFamilyId (RefreshTokenFamilyId_value: uuid)
datatype RefreshTokenDigest = RefreshTokenDigest (RefreshTokenDigest_value: string)

record AuthSession =
  s_id :: SessionId
  s_user_id :: uuid
  s_created_at :: datetime
  s_updated_at :: datetime
  s_expires_at :: datetime
  s_revoked_at :: "datetime option"

record RefreshTokenRecord =
  rt_id :: RefreshTokenId
  rt_session_id :: SessionId
  rt_token_family_id :: RefreshTokenFamilyId
  rt_token_digest :: RefreshTokenDigest
  rt_generation :: int
  rt_issued_at :: datetime
  rt_expires_at :: datetime
  rt_used_at :: "datetime option"
  rt_revoked_at :: "datetime option"
  rt_replaced_by_token_id :: "RefreshTokenId option"

section \<open>Operations\<close>

definition Session_normalize_timestamp :: "datetime \<Rightarrow> string \<Rightarrow> datetime res" where
  "Session_normalize_timestamp value field_name =
     to_utc (InvalidTimestamp (field_name @ '' timestamp must be timezone-aware.'')) value"

definition Session_mutation_timestamp :: "datetime \<Rightarrow> datetime \<Rightarrow> datetime res" where
  "Session_mutation_timestamp value created_at =
     bind_res (Session_normalize_timestamp value ''now'') (\<lambda>timestamp.
     bind_res (raise_if (timestamp < created_at)
       (InvalidSessionState
         ''Session mutation timestamp must not be earlier than creation timestamp.'')) (\<lambda>_.
     Inr timestamp))"

definition SessionId_post_init :: "uuid \<Rightarrow> SessionId res" where
  "SessionId_post_init value =
     bind_res (validate_uuid value ''Session identifier'') (\<lambda>_. Inr (SessionId value))"

definition RefreshTokenId_post_init :: "uuid \<Rightarrow> RefreshTokenId res" where
  "RefreshTokenId_post_init value =
     bind_res (validate_uuid value ''Refresh token identifier'') (\<lambda>_. Inr (RefreshTokenId value))"

definition RefreshTokenFamilyId_post_init :: "uuid \<Rightarrow> RefreshTokenFamilyId res" where
  "RefreshTokenFamilyId_post_init value =
     bind_res (validate_uuid value ''Refresh token family identifier'')
       (\<lambda>_. Inr (RefreshTokenFamilyId value))"

definition digest_hex :: "string \<Rightarrow> bool" where
  "digest_hex s \<longleftrightarrow> length s = 64 \<and> list_all is_hex s"

definition RefreshTokenDigest_post_init :: "string \<Rightarrow> RefreshTokenDigest res" where
  "RefreshTokenDigest_post_init value =
     (let normalized = lower (strip value) in
      if \<not> digest_hex normalized then
        Inl (InvalidIdentifier ''Refresh token digest must be a 64-character SHA-256 hex digest.'')
      else Inr (RefreshTokenDigest normalized))"

definition AuthSession_post_init :: "AuthSession \<Rightarrow> AuthSession res" where
  "AuthSession_post_init s =
     bind_res (validate_uuid (s_user_id s) ''Session user identifier'') (\<lambda>_.
     bind_res (Session_normalize_timestamp (s_created_at s) ''created_at'') (\<lambda>created_at.
     bind_res (Session_normalize_timestamp (s_updated_at s) ''updated_at'') (\<lambda>updated_at.
     bind_res (Session_normalize_timestamp (s_expires_at s) ''expires_at'') (\<lambda>expires_at.
     bind_res (opt_res (\<lambda>t. Session_normalize_timestamp t ''revoked_at'') (s_revoked_at s)) (\<lambda>revoked_at.
     bind_res (raise_if (expires_at \<le> created_at)
       (InvalidTimestamp ''Session expiry timestamp must be later than creation timestamp.'')) (\<lambda>_.
     bind_res (raise_if (updated_at < created_at)
       (InvalidTimestamp
         ''Session updated timestamp must not be earlier than creation timestamp.'')) (\<lambda>_.
     bind_res (raise_if (case revoked_at of None \<Rightarrow> False | Some t \<Rightarrow> t < created_at)
       (InvalidTimestamp
         ''Session revocation timestamp must not be earlier than creation timestamp.'')) (\<lambda>_.
     Inr (s\<lparr>s_created_at := created_at, s_updated_at := updated_at,
            s_expires_at := expires_at, s_revoked_at := revoked_at\<rparr>)))))))))"

definition AuthSession_create :: "SessionId \<Rightarrow> uuid \<Rightarrow> datetime \<Rightarrow> datetime \<Rightarrow> AuthSession res" where
  "AuthSession_create session_id user_id now expires_at =
     bind_res (Session_normalize_timestamp now ''now'') (\<lambda>timestamp.
     AuthSession_post_init
       \<lparr>s_id = session_id, s_user_id = user_id, s_created_at = timestamp,
        s_updated_at = timestamp, s_expires_at = expires_at, s_revoked_at = None\<rparr>)"

definition AuthSession_is_expired :: "AuthSession \<Rightarrow> datetime \<Rightarrow> bool res" where
  "AuthSession_is_expired s at =
     bind_res (Session_normalize_timestamp at ''at'') (\<lambda>t. Inr (s_expires_at s \<le> t))"

definition AuthSession_is_active :: "AuthSession \<Rightarrow> datetime \<Rightarrow> bool res" where
  "AuthSession_is_active s at =
     (if s_revoked_at s \<noteq> None then Inr False
      else bind_res (AuthSession_is_expired s at) (\<lambda>b. Inr (\<not> b)))"

definition AuthSession_revoke :: "AuthSession \<Rightarrow> datetime \<Rightarrow> AuthSession res" where
  "AuthSession_revoke s now =
     (if s_revoked_at s \<noteq> None then Inr s
      else bind_res (Session_mutation_timestamp now (s_created_at s)) (\<lambda>timestamp.
        AuthSession_post_init (s\<lparr>s_updated_at := timestamp, s_revoked_at := Some timestamp\<rparr>)))"

definition RefreshTokenRecord_post_init :: "RefreshTokenRecord \<Rightarrow> RefreshTokenRecord res" where
  "RefreshTokenRecord_post_init r =
     bind_res (raise_if (rt_generation r < 0)
       (InvalidRefreshTokenState ''Refresh token generation must be a non-negative integer.'')) (\<lambda>_.
     bind_res (Session_normalize_timestamp (rt_issued_at r) ''issued_at'') (\<lambda>issued_at.
     bind_res (Session_normalize_timestamp (rt_expires_at r) ''expires_at'') (\<lambda>expires_at.
     bind_res (opt_res (\<lambda>t. Session_normalize_timestamp t ''used_at'') (rt_used_at r)) (\<lambda>used_at.
     bind_res (opt_res (\<lambda>t. Session_normalize_timestamp t ''revoked_at'') (rt_revoked_at r)) (\<lambda>revoked_at.
     bind_res (raise_if (expires_at \<le> issued_at)
       (InvalidTimestamp ''Refresh token expiry timestamp must be later than issue timestamp.'')) (\<lambda>_.
     bind_res (raise_if (case used_at of None \<Rightarrow> False | Some t \<Rightarrow> t < issued_at)
       (InvalidTimestamp
         ''Refresh token used timestamp must not be earlier than issue timestamp.'')) (\<lambda>_.
     bind_res (raise_if (case revoked_at of None \<Rightarrow> False | Some t \<Rightarrow> t < issued_at)
       (InvalidTimestamp
         ''Refresh token revocation timestamp must not be earlier than issue timestamp.'')) (\<lambda>_.
     Inr (r\<lparr>rt_issued_at := issued_at, rt_expires_at := expires_at, rt_used_at := used_at,
            rt_revoked_at := revoked_at\<rparr>)))))))))"

definition RefreshTokenRecord_issue_initial ::
  "RefreshTokenId \<Rightarrow> SessionId \<Rightarrow> RefreshTokenFamilyId \<Rightarrow> RefreshTokenDigest \<Rightarrow> datetime \<Rightarrow> datetime \<Rightarrow>
   RefreshTokenRecord res" where
  "RefreshTokenRecord_issue_initial token_id session_id token_family_id token_digest issued_at
     expires_at =
     RefreshTokenRecord_post_init
       \<lparr>rt_id = token_id, rt_session_id = session_id, rt_token_family_id = token_family_id,
        rt_token_digest = token_digest, rt_generation = 0, rt_issued_at = issued_at,
        rt_expires_at = expires_at, rt_used_at = None, rt_revoked_at = None,
        rt_replaced_by_token_id = None\<rparr>"

definition RefreshTokenRecord_is_expired :: "RefreshTokenRecord \<Rightarrow> datetime \<Rightarrow> bool res" where
  "RefreshTokenRecord_is_expired r at =
     bind_res (Session_normalize_timestamp at ''at'') (\<lambda>t. Inr (rt_expires_at r \<le> t))"

definition RefreshTokenRecord_is_current :: "RefreshTokenRecord \<Rightarrow> datetime \<Rightarrow> bool res" where
  "RefreshTokenRecord_is_current r at =
     (if rt_used_at r \<noteq> None \<or> rt_revoked_at r \<noteq> None \<or> rt_replaced_by_token_id r \<noteq> None
      then Inr False
      else bind_res (RefreshTokenRecord_is_expired r at) (\<lambda>b. Inr (\<not> b)))"

definition RefreshTokenRecord_consume ::
  "RefreshTokenRecord \<Rightarrow> RefreshTokenId \<Rightarrow> datetime \<Rightarrow> RefreshTokenRecord res" where
  "RefreshTokenRecord_consume r replacement_token_id now =
     bind_res (RefreshTokenRecord_is_current r now) (\<lambda>current.
     bind_res (raise_if (\<not> current)
       (InvalidRefreshTokenState ''Refresh token is not current and cannot be rotated.'')) (\<lambda>_.
     bind_res (Session_normalize_timestamp now ''now'') (\<lambda>timestamp.
     RefreshTokenRecord_post_init
       (r\<lparr>rt_used_at := Some timestamp, rt_replaced_by_token_id := Some replacement_token_id\<rparr>))))"

definition RefreshTokenRecord_replacement ::
  "RefreshTokenRecord \<Rightarrow> RefreshTokenId \<Rightarrow> RefreshTokenDigest \<Rightarrow> datetime \<Rightarrow> datetime \<Rightarrow>
   RefreshTokenRecord res" where
  "RefreshTokenRecord_replacement r token_id token_digest issued_at expires_at =
     bind_res (raise_if (token_digest = rt_token_digest r)
       (InvalidRefreshTokenState ''Refresh token rotation must install a new digest.'')) (\<lambda>_.
     RefreshTokenRecord_post_init
       \<lparr>rt_id = token_id, rt_session_id = rt_session_id r,
        rt_token_family_id = rt_token_family_id r, rt_token_digest = token_digest,
        rt_generation = rt_generation r + 1, rt_issued_at = issued_at,
        rt_expires_at = expires_at, rt_used_at = None, rt_revoked_at = None,
        rt_replaced_by_token_id = None\<rparr>)"

definition RefreshTokenRecord_revoke :: "RefreshTokenRecord \<Rightarrow> datetime \<Rightarrow> RefreshTokenRecord res" where
  "RefreshTokenRecord_revoke r now =
     (if rt_revoked_at r \<noteq> None then Inr r
      else bind_res (Session_normalize_timestamp now ''now'') (\<lambda>timestamp.
        RefreshTokenRecord_post_init (r\<lparr>rt_revoked_at := Some timestamp\<rparr>)))"

section \<open>Invariants\<close>

lemmas session_helper_defs = validate_uuid_def Session_normalize_timestamp_def
  Session_mutation_timestamp_def

definition wf_session :: "AuthSession \<Rightarrow> bool" where
  "wf_session s \<longleftrightarrow> s_user_id s \<noteq> 0 \<and> is_utc (s_created_at s) \<and> is_utc (s_updated_at s) \<and>
     is_utc (s_expires_at s) \<and> s_created_at s < s_expires_at s \<and> s_created_at s \<le> s_updated_at s \<and>
     pred_option (\<lambda>t. is_utc t \<and> s_created_at s \<le> t) (s_revoked_at s)"

definition wf_token :: "RefreshTokenRecord \<Rightarrow> bool" where
  "wf_token r \<longleftrightarrow> 0 \<le> rt_generation r \<and> is_utc (rt_issued_at r) \<and> is_utc (rt_expires_at r) \<and>
     rt_issued_at r < rt_expires_at r \<and>
     pred_option (\<lambda>t. is_utc t \<and> rt_issued_at r \<le> t) (rt_used_at r) \<and>
     pred_option (\<lambda>t. is_utc t \<and> rt_issued_at r \<le> t) (rt_revoked_at r)"

lemma AuthSession_post_init_frame:
  "AuthSession_post_init s = Inr s' \<Longrightarrow> wf_session s' \<and> s_id s' = s_id s \<and> s_user_id s' = s_user_id s \<and>
     (s_revoked_at s' = None \<longleftrightarrow> s_revoked_at s = None) \<and>
     instant (s_expires_at s') = instant (s_expires_at s)"
  by (auto simp: AuthSession_post_init_def wf_session_def session_helper_defs opt_res_eq_Inr)

lemma AuthSession_post_init_id: "wf_session s \<Longrightarrow> AuthSession_post_init s = Inr s"
  by (cases "s_revoked_at s")
    (auto simp: AuthSession_post_init_def wf_session_def session_helper_defs)

lemma RefreshTokenRecord_post_init_frame:
  "RefreshTokenRecord_post_init r = Inr r' \<Longrightarrow> wf_token r' \<and> rt_id r' = rt_id r \<and>
     rt_session_id r' = rt_session_id r \<and> rt_token_digest r' = rt_token_digest r \<and>
     rt_token_family_id r' = rt_token_family_id r \<and>
     rt_generation r' = rt_generation r \<and> (rt_used_at r' = None \<longleftrightarrow> rt_used_at r = None) \<and>
     (rt_revoked_at r' = None \<longleftrightarrow> rt_revoked_at r = None) \<and>
     rt_replaced_by_token_id r' = rt_replaced_by_token_id r \<and>
     instant (rt_expires_at r') = instant (rt_expires_at r) \<and>
     instant (rt_issued_at r') = instant (rt_issued_at r)"
  by (auto simp: RefreshTokenRecord_post_init_def wf_token_def session_helper_defs opt_res_eq_Inr)

lemma RefreshTokenRecord_post_init_id: "wf_token r \<Longrightarrow> RefreshTokenRecord_post_init r = Inr r"
  by (cases "rt_used_at r"; cases "rt_revoked_at r")
    (auto simp: RefreshTokenRecord_post_init_def wf_token_def session_helper_defs)

end
