(* ===== verification/Database.thy ===== *)
theory Database
  imports Audit_Log Cases Sessions
begin

text \<open>
  The relational store and its sessions. A table is the list of its rows; a row has the
  columns of the domain object it stores, with an enum column holding the member whose
  \<^verbatim>\<open>.value\<close> the string is, and an identifier column the wrapped UUID. One \<^verbatim>\<open>AsyncSession\<close> is a
  working copy of the committed tables (\<^verbatim>\<open>database/session.py\<close>): statements read and write the
  working copy, \<^verbatim>\<open>commit\<close> publishes it, \<^verbatim>\<open>rollback\<close> and closing the request's session drop it.
  Sessions do not flush by themselves (\<^verbatim>\<open>autoflush=False\<close>); every repository method flushes
  before it returns, and a flush that violates a constraint of the schema raises
  \<^verbatim>\<open>IntegrityError\<close> with the constraint's name and stores nothing.

  The clock and the random UUIDs are parameters: the \<open>n\<close>-th reading in a run is \<open>e_now E n\<close>,
  the \<open>n\<close>-th \<^verbatim>\<open>uuid4()\<close> is \<open>e_uuid4 E n\<close>, and the state counts the readings.
\<close>

section \<open>Stored data without a domain class\<close>

record PasswordCredential =
  pc_user_id :: uuid
  pc_password_hash :: string
  pc_created_at :: datetime
  pc_updated_at :: datetime

datatype UploadIdempotencyStatus = IdemInProgress | IdemCompleted | IdemFailed

record UploadIdempotencyRecord =
  ui_organization_id :: uuid
  ui_idempotency_key :: string
  ui_request_fingerprint :: "string option"
  ui_status :: UploadIdempotencyStatus
  ui_document_id :: "DocumentId option"
  ui_document_version_id :: "DocumentVersionId option"
  ui_response_status :: "int option"
  ui_outcome :: "string option"
  ui_error_code :: "string option"
  ui_retryable :: bool
  ui_created_at :: datetime
  ui_updated_at :: datetime
  ui_expires_at :: datetime

record UploadIdempotencyRecordModel = UploadIdempotencyRecord +
  um_id :: uuid

section \<open>Tables and sessions\<close>

record db =
  users :: "User list"
  organizations :: "Organization list"
  memberships :: "Membership list"
  password_credentials :: "PasswordCredential list"
  auth_sessions :: "AuthSession list"
  refresh_tokens :: "RefreshTokenRecord list"
  audit_events :: "AuditEvent list"
  batches :: "Batch list"
  batch_documents :: "BatchDocument list"
  cases_tbl :: "Case list"
  case_documents :: "CaseDocument list"
  case_comments :: "CaseComment list"
  case_tasks :: "CaseTask list"
  case_decisions :: "CaseDecision list"
  documents :: "Document list"
  document_versions :: "DocumentVersion list"
  document_artifacts :: "DocumentArtifact list"
  upload_idempotency :: "UploadIdempotencyRecordModel list"

text \<open>
  The object store is an external service; the state records the calls of its client in
  order, so that what the service answers can be a function of the calls so far. Likewise it
  counts the reads of the request's upload stream.
\<close>

datatype s3_call =
    PutObject string string string
  | CopyObject string string "string option"
  | DeleteObject string
  | HeadObject string
  | PresignGet string int

record world =
  committed :: db
  working :: db
  now_reads :: nat
  uuid_reads :: nat
  secret_reads :: nat
  s3_calls :: "s3_call list"
  stream_reads :: nat

record env =
  e_now :: "nat \<Rightarrow> datetime"
  e_uuid4 :: "nat \<Rightarrow> uuid"

type_synonym 'a tx = "(world, exn, 'a) eff"

definition clock_now :: "env \<Rightarrow> datetime tx" where
  "clock_now E = (\<lambda>w. (Inr (e_now E (now_reads w)), w\<lparr>now_reads := Suc (now_reads w)\<rparr>))"

definition uuid4 :: "env \<Rightarrow> uuid tx" where
  "uuid4 E = (\<lambda>w. (Inr (e_uuid4 E (uuid_reads w)), w\<lparr>uuid_reads := Suc (uuid_reads w)\<rparr>))"

definition commit :: "unit tx" where
  "commit = modify (\<lambda>w. w\<lparr>committed := working w\<rparr>)"

definition rollback :: "unit tx" where
  "rollback = modify (\<lambda>w. w\<lparr>working := committed w\<rparr>)"

definition query :: "(db \<Rightarrow> 'a) \<Rightarrow> 'a tx" where
  "query f = gets (\<lambda>w. f (working w))"

definition execute :: "(db \<Rightarrow> db) \<Rightarrow> unit tx" where
  "execute f = modify (\<lambda>w. w\<lparr>working := f (working w)\<rparr>)"

text \<open>A flush of pending rows: the first violated constraint, or the new tables.\<close>

definition flush :: "(db \<Rightarrow> string option) \<Rightarrow> (db \<Rightarrow> db) \<Rightarrow> unit tx" where
  "flush violation f = (\<lambda>w. case violation (working w) of
      Some c \<Rightarrow> (Inl (IntegrityError c), w)
    | None \<Rightarrow> (Inr (), w\<lparr>working := f (working w)\<rparr>))"

text \<open>
  \<^verbatim>\<open>async_session_scope\<close>: the request's session is closed without a commit, so what it did
  not commit is gone when the next request starts.
\<close>

definition session_scope :: "'a tx \<Rightarrow> 'a tx" where
  "session_scope m = (\<lambda>w. case m w of (r, w') \<Rightarrow> (r, w'\<lparr>working := committed w'\<rparr>))"

definition scalar_one_or_none :: "'a list \<Rightarrow> 'a option res" where
  "scalar_one_or_none xs = (case xs of
      [] \<Rightarrow> Inr None
    | [x] \<Rightarrow> Inr (Some x)
    | _ \<Rightarrow> Inl (RuntimeError ''Multiple rows were found when one or none was required''))"

fun first_violation :: "(string \<times> bool) list \<Rightarrow> string option" where
  "first_violation [] = None"
| "first_violation ((c, b) # cs) = (if b then Some c else first_violation cs)"

declare first_violation.simps [simp del]

text \<open>
  Column types. The driver refuses an integer outside the range of an \<^verbatim>\<open>INTEGER\<close> or \<^verbatim>\<open>BIGINT\<close> column
  and a naive timestamp for a column with time zone before it sends the statement.
\<close>

definition check_int4 :: "int \<Rightarrow> unit res" where
  "check_int4 n = raise_if (n < - (2 ^ 31) \<or> 2 ^ 31 \<le> n) (DataError ''value out of int32 range'')"

definition check_bigint :: "int \<Rightarrow> unit res" where
  "check_bigint n = raise_if (n < - (2 ^ 63) \<or> 2 ^ 63 \<le> n) (DataError ''value out of int64 range'')"

definition check_timestamptz :: "datetime option \<Rightarrow> unit res" where
  "check_timestamptz value =
     (case value of
        None \<Rightarrow> Inr ()
      | Some t \<Rightarrow> raise_if (\<not> tz_aware t) (DataError ''naive and aware datetimes''))"

lemma first_violation_None [simp]:
  "first_violation [] = None"
  "first_violation ((c, b) # cs) = None \<longleftrightarrow> \<not> b \<and> first_violation cs = None"
  by (simp_all add: first_violation.simps)

definition replace_where :: "('a \<Rightarrow> bool) \<Rightarrow> ('a \<Rightarrow> 'a) \<Rightarrow> 'a list \<Rightarrow> 'a list" where
  "replace_where P f xs = map (\<lambda>x. if P x then f x else x) xs"

lemma session_steps [eff_simps]:
  "clock_now E w = (Inr (e_now E (now_reads w)), w\<lparr>now_reads := Suc (now_reads w)\<rparr>)"
  "uuid4 E w = (Inr (e_uuid4 E (uuid_reads w)), w\<lparr>uuid_reads := Suc (uuid_reads w)\<rparr>)"
  "commit w = (Inr (), w\<lparr>committed := working w\<rparr>)"
  "rollback w = (Inr (), w\<lparr>working := committed w\<rparr>)"
  "query f w = (Inr (f (working w)), w)"
  "execute g w = (Inr (), w\<lparr>working := g (working w)\<rparr>)"
  by (simp_all add: clock_now_def uuid4_def commit_def rollback_def query_def execute_def
      modify_def gets_def)

lemma bind_session_steps [simp]:
  "bind (clock_now E) k w = k (e_now E (now_reads w)) (w\<lparr>now_reads := Suc (now_reads w)\<rparr>)"
  "bind (uuid4 E) k1 w = k1 (e_uuid4 E (uuid_reads w)) (w\<lparr>uuid_reads := Suc (uuid_reads w)\<rparr>)"
  "bind commit k' w = k' () (w\<lparr>committed := working w\<rparr>)"
  "bind rollback k' w = k' () (w\<lparr>working := committed w\<rparr>)"
  "bind (query f) k'' w = k'' (f (working w)) w"
  "bind (execute g) k' w = k' () (w\<lparr>working := g (working w)\<rparr>)"
  by (simp_all add: bind_def session_steps)

lemma flush_cases:
  assumes "flush v f w = (r, w')"
  obtains c where "v (working w) = Some c" and "r = Inl (IntegrityError c)" and "w' = w"
    | "v (working w) = None" and "r = Inr ()" and "w' = w\<lparr>working := f (working w)\<rparr>"
  using assms by (auto simp: flush_def split: option.splits)

section \<open>The audit log\<close>

definition audit_violation :: "AuditEvent \<Rightarrow> db \<Rightarrow> string option" where
  "audit_violation e d = first_violation
     [(''pk_security_audit_events'', ae_id e \<in> set (map ae_id (audit_events d))),
      (''fk_security_audit_events_actor_user_id_users'',
        \<not> pred_option (\<lambda>u. u \<in> set (map u_id (users d))) (ae_actor_user_id e)),
      (''fk_security_audit_events_organization_id_organizations'',
        \<not> pred_option (\<lambda>g. g \<in> set (map o_id (organizations d))) (ae_organization_id e)),
      (''fk_security_audit_events_session_id_auth_sessions'',
        \<not> pred_option (\<lambda>s. s \<in> set (map (\<lambda>x. SessionId_value (s_id x)) (auth_sessions d)))
           (ae_session_id e))]"

definition record_from_event :: "datetime \<Rightarrow> AuditEvent \<Rightarrow> AuditEvent" where
  "record_from_event now e =
     e\<lparr>ae_created_at := Some (case ae_created_at e of None \<Rightarrow> now | Some t \<Rightarrow> t)\<rparr>"

definition event_from_record :: "AuditEvent \<Rightarrow> AuditEvent res" where
  "event_from_record r = AuditEvent_post_init
     (r\<lparr>ae_occurred_at := astimezone_utc (ae_occurred_at r),
        ae_created_at := map_option astimezone_utc (ae_created_at r)\<rparr>)"

definition audit_record :: "env \<Rightarrow> AuditEvent \<Rightarrow> unit tx" where
  "audit_record E event =
     bind (if ae_created_at event = None then clock_now E else ret (ae_occurred_at event)) (\<lambda>now.
     try_except
       (flush (audit_violation event)
         (\<lambda>d. d\<lparr>audit_events := audit_events d @ [record_from_event now event]\<rparr>))
       (\<lambda>e. case e of
           IntegrityError c \<Rightarrow> raise (AuditPersistenceError ''Audit event could not be persisted.'')
         | _ \<Rightarrow> raise e))"

definition MAX_AUDIT_QUERY_LIMIT :: int where "MAX_AUDIT_QUERY_LIMIT = 100"

definition audit_bounded_limit :: "int \<Rightarrow> int" where
  "audit_bounded_limit limit = (if limit < 1 then 1 else min limit MAX_AUDIT_QUERY_LIMIT)"

fun map_res :: "('a \<Rightarrow> 'b res) \<Rightarrow> 'a list \<Rightarrow> 'b list res" where
  "map_res f [] = Inr []"
| "map_res f (x # xs) = bind_res (f x) (\<lambda>y. bind_res (map_res f xs) (\<lambda>ys. Inr (y # ys)))"

definition audit_list :: "(AuditEvent \<Rightarrow> bool) \<Rightarrow> int \<Rightarrow> AuditEvent list tx" where
  "audit_list P limit =
     bind (query (\<lambda>d. take (nat (audit_bounded_limit limit))
        (sort_key (\<lambda>e. - instant (ae_occurred_at e))
          (sort_key (\<lambda>e. - uint (ae_id e)) (filter P (audit_events d))))))
       (\<lambda>rows. of_res (map_res event_from_record rows))"

definition audit_list_recent :: "int \<Rightarrow> AuditEvent list tx" where
  "audit_list_recent limit = audit_list (\<lambda>e. True) limit"

definition audit_list_for_user :: "uuid \<Rightarrow> int \<Rightarrow> AuditEvent list tx" where
  "audit_list_for_user user_id limit = audit_list (\<lambda>e. ae_actor_user_id e = Some user_id) limit"

definition audit_list_for_organization :: "uuid \<Rightarrow> int \<Rightarrow> AuditEvent list tx" where
  "audit_list_for_organization organization_id limit =
     audit_list (\<lambda>e. ae_organization_id e = Some organization_id) limit"

definition audit_list_by_event_type :: "AuditEventType \<Rightarrow> int \<Rightarrow> AuditEvent list tx" where
  "audit_list_by_event_type event_type limit = audit_list (\<lambda>e. ae_event_type e = event_type) limit"

lemma audit_record_run:
  assumes "ae_created_at e = None"
  shows "audit_record E e w =
    (let w1 = w\<lparr>now_reads := Suc (now_reads w)\<rparr> in
     if audit_violation e (working w) = None then
       (Inr (), w1\<lparr>working := (working w)\<lparr>audit_events := audit_events (working w) @
          [record_from_event (e_now E (now_reads w)) e]\<rparr>\<rparr>)
     else (Inl (AuditPersistenceError ''Audit event could not be persisted.''), w1))"
  using assms
  by (auto simp: audit_record_def flush_def try_except_def eff_simps split: option.splits)

lemma AuditEvent_create_created_at:
  "AuditEvent_create i ty out t actor org sess ctxt md = Inr e \<Longrightarrow> ae_created_at e = None"
  by (auto simp: AuditEvent_create_def AuditEvent_post_init_def Let_def)

end
