(* ===== verification/Identity_Store.thy ===== *)
theory Identity_Store
  imports Database
begin

text \<open>
  The SQLAlchemy identity repositories (\<^verbatim>\<open>infrastructure/identity/repository.py\<close>) over the
  tables of theory \<^verbatim>\<open>Database\<close>: users, password credentials, organizations, memberships,
  sessions and refresh tokens. Reading a row runs the constructor of the domain class again,
  so a row that violates it raises; the constraints of \<^verbatim>\<open>identity/models.py\<close> are the
  \<open>_violation\<close> functions, in the order check constraints, unique keys, foreign keys.
\<close>

section \<open>Rows and domain objects\<close>

definition user_from_record :: "User \<Rightarrow> User res" where
  "user_from_record r =
     bind_res (EmailAddress_post_init (e_display (u_email r))) (\<lambda>email.
     User_post_init
       (r\<lparr>u_email := email, u_created_at := astimezone_utc (u_created_at r),
          u_updated_at := astimezone_utc (u_updated_at r),
          u_disabled_at := map_option astimezone_utc (u_disabled_at r)\<rparr>))"

definition PasswordCredential_post_init :: "PasswordCredential \<Rightarrow> PasswordCredential res" where
  "PasswordCredential_post_init c =
     bind_res (validate_uuid (pc_user_id c) ''Password credential user identifier'') (\<lambda>_.
     bind_res (raise_if (pc_password_hash c = [])
       (InvalidIdentifier ''Password credential hash must not be empty.'')) (\<lambda>_.
     bind_res (normalize_timestamp (pc_created_at c) ''created_at'') (\<lambda>created_at.
     bind_res (normalize_timestamp (pc_updated_at c) ''updated_at'') (\<lambda>updated_at.
     bind_res (raise_if (updated_at < created_at)
       (InvalidTimestamp
         ''Password credential updated timestamp must not be earlier than creation timestamp.'')) (\<lambda>_.
     Inr (c\<lparr>pc_created_at := created_at, pc_updated_at := updated_at\<rparr>))))))"

definition PasswordCredential_replace_hash ::
  "PasswordCredential \<Rightarrow> string \<Rightarrow> datetime \<Rightarrow> PasswordCredential res" where
  "PasswordCredential_replace_hash c password_hash now =
     bind_res (normalize_timestamp now ''now'') (\<lambda>updated_at.
     bind_res (raise_if (updated_at < pc_created_at c)
       (InvalidTimestamp (''Password credential mutation timestamp must not be earlier '' @
         ''than creation timestamp.''))) (\<lambda>_.
     PasswordCredential_post_init
       (c\<lparr>pc_password_hash := password_hash, pc_updated_at := updated_at\<rparr>)))"

definition password_credential_from_record :: "PasswordCredential \<Rightarrow> PasswordCredential res" where
  "password_credential_from_record r = PasswordCredential_post_init
     (r\<lparr>pc_created_at := astimezone_utc (pc_created_at r),
        pc_updated_at := astimezone_utc (pc_updated_at r)\<rparr>)"

definition auth_session_from_record :: "AuthSession \<Rightarrow> AuthSession res" where
  "auth_session_from_record r =
     bind_res (SessionId_post_init (SessionId_value (s_id r))) (\<lambda>session_id.
     AuthSession_post_init
       (r\<lparr>s_id := session_id, s_created_at := astimezone_utc (s_created_at r),
          s_updated_at := astimezone_utc (s_updated_at r),
          s_expires_at := astimezone_utc (s_expires_at r),
          s_revoked_at := map_option astimezone_utc (s_revoked_at r)\<rparr>))"

definition refresh_token_from_record :: "RefreshTokenRecord \<Rightarrow> RefreshTokenRecord res" where
  "refresh_token_from_record r =
     bind_res (RefreshTokenId_post_init (RefreshTokenId_value (rt_id r))) (\<lambda>token_id.
     bind_res (SessionId_post_init (SessionId_value (rt_session_id r))) (\<lambda>session_id.
     bind_res (RefreshTokenFamilyId_post_init (RefreshTokenFamilyId_value (rt_token_family_id r)))
       (\<lambda>family_id.
     bind_res (RefreshTokenDigest_post_init (RefreshTokenDigest_value (rt_token_digest r))) (\<lambda>digest.
     bind_res (opt_res (\<lambda>t. RefreshTokenId_post_init (RefreshTokenId_value t))
       (rt_replaced_by_token_id r)) (\<lambda>replaced_by.
     RefreshTokenRecord_post_init
       (r\<lparr>rt_id := token_id, rt_session_id := session_id, rt_token_family_id := family_id,
          rt_token_digest := digest, rt_issued_at := astimezone_utc (rt_issued_at r),
          rt_expires_at := astimezone_utc (rt_expires_at r),
          rt_used_at := map_option astimezone_utc (rt_used_at r),
          rt_revoked_at := map_option astimezone_utc (rt_revoked_at r),
          rt_replaced_by_token_id := replaced_by\<rparr>))))))"

definition organization_from_record :: "Organization \<Rightarrow> Organization res" where
  "organization_from_record r =
     bind_res (OrganizationSlug_post_init (OrganizationSlug_value (o_slug r))) (\<lambda>slug.
     Organization_post_init
       (r\<lparr>o_slug := slug, o_created_at := astimezone_utc (o_created_at r),
          o_updated_at := astimezone_utc (o_updated_at r),
          o_deactivated_at := map_option astimezone_utc (o_deactivated_at r)\<rparr>))"

definition membership_from_record :: "Membership \<Rightarrow> Membership res" where
  "membership_from_record r = Membership_post_init
     (r\<lparr>m_invited_at := map_option astimezone_utc (m_invited_at r),
        m_joined_at := map_option astimezone_utc (m_joined_at r),
        m_suspended_at := map_option astimezone_utc (m_suspended_at r),
        m_removed_at := map_option astimezone_utc (m_removed_at r),
        m_created_at := astimezone_utc (m_created_at r),
        m_updated_at := astimezone_utc (m_updated_at r)\<rparr>)"

section \<open>Constraints\<close>

definition user_violation :: "bool \<Rightarrow> User \<Rightarrow> db \<Rightarrow> string option" where
  \<comment> \<open>\<open>fresh\<close>: an inserted row; otherwise the row with the same key is replaced\<close>
  "user_violation fresh u d = first_violation
     [(''ck_users_active_disabled_timestamp_consistent'', u_is_active u \<longleftrightarrow> u_disabled_at u \<noteq> None),
      (''pk_users'', fresh \<and> u_id u \<in> set (map u_id (users d))),
      (''uq_users_normalized_email'',
        \<exists>v \<in> set (users d). u_id v \<noteq> u_id u \<and> e_normalized (u_email v) = e_normalized (u_email u))]"

definition organization_violation :: "bool \<Rightarrow> Organization \<Rightarrow> db \<Rightarrow> string option" where
  "organization_violation fresh g d = first_violation
     [(''ck_organizations_active_deactivated_timestamp_consistent'',
        o_is_active g \<longleftrightarrow> o_deactivated_at g \<noteq> None),
      (''pk_organizations'', fresh \<and> o_id g \<in> set (map o_id (organizations d))),
      (''uq_organizations_slug'',
        \<exists>h \<in> set (organizations d). o_id h \<noteq> o_id g \<and> o_slug h = o_slug g)]"

definition membership_check :: "Membership \<Rightarrow> bool" where
  "membership_check m \<longleftrightarrow>
     (m_status m = INVITED \<and> m_invited_at m \<noteq> None \<and> m_joined_at m = None \<and>
       m_suspended_at m = None \<and> m_removed_at m = None) \<or>
     (m_status m = ACTIVE \<and> m_joined_at m \<noteq> None \<and> m_suspended_at m = None \<and>
       m_removed_at m = None) \<or>
     (m_status m = SUSPENDED \<and> m_joined_at m \<noteq> None \<and> m_suspended_at m \<noteq> None \<and>
       m_removed_at m = None) \<or>
     (m_status m = REMOVED \<and> m_removed_at m \<noteq> None)"

definition membership_violation :: "bool \<Rightarrow> Membership \<Rightarrow> db \<Rightarrow> string option" where
  "membership_violation fresh m d = first_violation
     [(''ck_memberships_lifecycle_timestamps_consistent'', \<not> membership_check m),
      (''pk_memberships'', fresh \<and> m_id m \<in> set (map m_id (memberships d))),
      (''uq_memberships_organization_user'',
        \<exists>n \<in> set (memberships d). m_id n \<noteq> m_id m \<and>
          m_organization_id n = m_organization_id m \<and> m_user_id n = m_user_id m),
      (''fk_memberships_user_id_users'', m_user_id m \<notin> set (map u_id (users d))),
      (''fk_memberships_organization_id_organizations'',
        m_organization_id m \<notin> set (map o_id (organizations d)))]"

definition session_violation :: "AuthSession \<Rightarrow> db \<Rightarrow> string option" where
  "session_violation s d = first_violation
     [(''ck_auth_sessions_expires_after_created'', \<not> s_created_at s < s_expires_at s),
      (''ck_auth_sessions_updated_after_created'', \<not> s_created_at s \<le> s_updated_at s),
      (''ck_auth_sessions_revoked_after_created'',
        \<not> pred_option (\<lambda>t. s_created_at s \<le> t) (s_revoked_at s)),
      (''pk_auth_sessions'', s_id s \<in> set (map s_id (auth_sessions d))),
      (''fk_auth_sessions_user_id_users'', s_user_id s \<notin> set (map u_id (users d)))]"

definition token_violation :: "RefreshTokenRecord \<Rightarrow> db \<Rightarrow> string option" where
  "token_violation r d = first_violation
     [(''ck_refresh_tokens_generation_non_negative'', rt_generation r < 0),
      (''ck_refresh_tokens_expires_after_issued'', \<not> rt_issued_at r < rt_expires_at r),
      (''ck_refresh_tokens_used_after_issued'',
        \<not> pred_option (\<lambda>t. rt_issued_at r \<le> t) (rt_used_at r)),
      (''ck_refresh_tokens_revoked_after_issued'',
        \<not> pred_option (\<lambda>t. rt_issued_at r \<le> t) (rt_revoked_at r)),
      (''pk_refresh_tokens'', rt_id r \<in> set (map rt_id (refresh_tokens d))),
      (''uq_refresh_tokens_token_hash'',
        rt_token_digest r \<in> set (map rt_token_digest (refresh_tokens d))),
      (''uq_refresh_tokens_session_generation'',
        (rt_session_id r, rt_generation r) \<in>
          set (map (\<lambda>x. (rt_session_id x, rt_generation x)) (refresh_tokens d))),
      (''fk_refresh_tokens_session_id_auth_sessions'',
        rt_session_id r \<notin> set (map s_id (auth_sessions d))),
      (''fk_refresh_tokens_replaced_by_token_id_refresh_tokens'',
        \<not> pred_option (\<lambda>t. t \<in> set (map rt_id (refresh_tokens d))) (rt_replaced_by_token_id r))]"

definition session_with_token_violation ::
  "AuthSession \<Rightarrow> RefreshTokenRecord \<Rightarrow> db \<Rightarrow> string option" where
  "session_with_token_violation s r d =
     (case session_violation s d of
        Some c \<Rightarrow> Some c
      | None \<Rightarrow> token_violation r (d\<lparr>auth_sessions := auth_sessions d @ [s]\<rparr>))"

section \<open>Users and credentials\<close>

text \<open>Turning a constraint violation into the repository's error, after a rollback.\<close>

definition on_integrity_error :: "'a tx \<Rightarrow> (string \<Rightarrow> 'a tx) \<Rightarrow> 'a tx" where
  "on_integrity_error m h = try_except m (\<lambda>e. case e of
      IntegrityError c \<Rightarrow> bind rollback (\<lambda>_. h c)
    | _ \<Rightarrow> raise e)"

definition opt_row :: "('a \<Rightarrow> 'b res) \<Rightarrow> 'a option \<Rightarrow> 'b option tx" where
  "opt_row f x = of_res (opt_res f x)"

definition user_add :: "User \<Rightarrow> User tx" where
  "user_add user =
     bind (on_integrity_error
       (flush (user_violation True user) (\<lambda>d. d\<lparr>users := users d @ [user]\<rparr>))
       (\<lambda>c. raise (DuplicateNormalizedEmailError ''User normalized email already exists.''))) (\<lambda>_.
     of_res (user_from_record user))"

definition user_get_by_id :: "uuid \<Rightarrow> User option tx" where
  "user_get_by_id user_id =
     bind (query (\<lambda>d. find (\<lambda>u. u_id u = user_id) (users d))) (opt_row user_from_record)"

definition user_get_by_normalized_email :: "string \<Rightarrow> User option tx" where
  "user_get_by_normalized_email normalized_email =
     bind (query (\<lambda>d. filter (\<lambda>u. e_normalized (u_email u) = normalized_email) (users d))) (\<lambda>rows.
     bind (of_res (scalar_one_or_none rows)) (opt_row user_from_record))"

definition user_update :: "User \<Rightarrow> User tx" where
  "user_update user =
     bind (query (\<lambda>d. find (\<lambda>u. u_id u = u_id user) (users d))) (\<lambda>row.
     if row = None then raise (MissingIdentityReferenceError ''User does not exist.'')
     else bind (on_integrity_error
         (flush (user_violation False user)
           (\<lambda>d. d\<lparr>users := replace_where (\<lambda>u. u_id u = u_id user) (\<lambda>_. user) (users d)\<rparr>))
         (\<lambda>c. raise (DuplicateNormalizedEmailError ''User normalized email already exists.''))) (\<lambda>_.
       of_res (user_from_record user)))"

definition credential_get_by_user_id :: "uuid \<Rightarrow> PasswordCredential option tx" where
  "credential_get_by_user_id user_id =
     bind (query (\<lambda>d. find (\<lambda>c. pc_user_id c = user_id) (password_credentials d)))
       (opt_row password_credential_from_record)"

definition credential_set_for_user :: "PasswordCredential \<Rightarrow> PasswordCredential tx" where
  "credential_set_for_user credential =
     bind (query (\<lambda>d. find (\<lambda>c. pc_user_id c = pc_user_id credential) (password_credentials d))) (\<lambda>row.
     bind (on_integrity_error
       (flush
         (\<lambda>d. first_violation [(''fk_password_credentials_user_id_users'',
            pc_user_id credential \<notin> set (map u_id (users d)))])
         (\<lambda>d. d\<lparr>password_credentials :=
            (if row = None then password_credentials d @ [credential]
             else replace_where (\<lambda>c. pc_user_id c = pc_user_id credential) (\<lambda>_. credential)
               (password_credentials d))\<rparr>))
       (\<lambda>c. raise (MissingIdentityReferenceError ''Password credential references a missing user.'')))
       (\<lambda>_. of_res (password_credential_from_record credential)))"

section \<open>Organizations and memberships\<close>

definition organization_add :: "Organization \<Rightarrow> Organization tx" where
  "organization_add organization =
     bind (on_integrity_error
       (flush (organization_violation True organization)
         (\<lambda>d. d\<lparr>organizations := organizations d @ [organization]\<rparr>))
       (\<lambda>c. raise (DuplicateOrganizationSlugError ''Organization slug already exists.''))) (\<lambda>_.
     of_res (organization_from_record organization))"

definition organization_get_by_id :: "uuid \<Rightarrow> Organization option tx" where
  "organization_get_by_id organization_id =
     bind (query (\<lambda>d. find (\<lambda>g. o_id g = organization_id) (organizations d)))
       (opt_row organization_from_record)"

definition organization_get_by_slug :: "string \<Rightarrow> Organization option tx" where
  "organization_get_by_slug slug_value =
     bind (query (\<lambda>d. filter (\<lambda>g. OrganizationSlug_value (o_slug g) = slug_value) (organizations d))) (\<lambda>rows.
     bind (of_res (scalar_one_or_none rows)) (opt_row organization_from_record))"

definition organization_list_for_user :: "uuid \<Rightarrow> Organization list tx" where
  "organization_list_for_user user_id =
     bind (query (\<lambda>d. sort_key (\<lambda>g. instant (o_created_at g)) (sort_key o_id
       (concat (map (\<lambda>g. map (\<lambda>_. g) (filter (\<lambda>m. m_organization_id m = o_id g \<and> m_user_id m = user_id)
         (memberships d))) (organizations d))))))
       (\<lambda>rows. of_res (map_res organization_from_record rows))"

definition organization_update :: "Organization \<Rightarrow> Organization tx" where
  "organization_update organization =
     bind (query (\<lambda>d. find (\<lambda>g. o_id g = o_id organization) (organizations d))) (\<lambda>row.
     if row = None then raise (MissingIdentityReferenceError ''Organization does not exist.'')
     else bind (on_integrity_error
         (flush (organization_violation False organization)
           (\<lambda>d. d\<lparr>organizations := replace_where (\<lambda>g. o_id g = o_id organization)
              (\<lambda>_. organization) (organizations d)\<rparr>))
         (\<lambda>c. raise (DuplicateOrganizationSlugError ''Organization slug already exists.''))) (\<lambda>_.
       of_res (organization_from_record organization)))"

definition raise_membership_integrity_error :: "string \<Rightarrow> 'a tx" where
  "raise_membership_integrity_error c =
     (if contains c ''uq_memberships_organization_user'' then
        raise (DuplicateOrganizationMembershipError ''Organization membership already exists.'')
      else raise (MissingIdentityReferenceError
        ''Membership references a missing user or organization.''))"

definition membership_add :: "Membership \<Rightarrow> Membership tx" where
  "membership_add membership =
     bind (on_integrity_error
       (flush (membership_violation True membership)
         (\<lambda>d. d\<lparr>memberships := memberships d @ [membership]\<rparr>))
       raise_membership_integrity_error) (\<lambda>_.
     of_res (membership_from_record membership))"

definition membership_get_by_id :: "uuid \<Rightarrow> uuid \<Rightarrow> Membership option tx" where
  "membership_get_by_id organization_id membership_id =
     bind (query (\<lambda>d. filter (\<lambda>m. m_organization_id m = organization_id \<and> m_id m = membership_id)
       (memberships d))) (\<lambda>rows.
     bind (of_res (scalar_one_or_none rows)) (opt_row membership_from_record))"

definition membership_get_by_user_and_organization :: "uuid \<Rightarrow> uuid \<Rightarrow> Membership option tx" where
  "membership_get_by_user_and_organization user_id organization_id =
     bind (query (\<lambda>d. filter (\<lambda>m. m_user_id m = user_id \<and> m_organization_id m = organization_id)
       (memberships d))) (\<lambda>rows.
     bind (of_res (scalar_one_or_none rows)) (opt_row membership_from_record))"

definition membership_list :: "(Membership \<Rightarrow> bool) \<Rightarrow> Membership list tx" where
  "membership_list P =
     bind (query (\<lambda>d. sort_key (\<lambda>m. instant (m_created_at m)) (sort_key m_id
       (filter P (memberships d)))))
       (\<lambda>rows. of_res (map_res membership_from_record rows))"

definition membership_list_for_organization :: "uuid \<Rightarrow> Membership list tx" where
  "membership_list_for_organization organization_id =
     membership_list (\<lambda>m. m_organization_id m = organization_id)"

definition membership_list_for_user :: "uuid \<Rightarrow> Membership list tx" where
  "membership_list_for_user user_id = membership_list (\<lambda>m. m_user_id m = user_id)"

definition membership_update :: "Membership \<Rightarrow> Membership tx" where
  "membership_update membership =
     bind (query (\<lambda>d. filter (\<lambda>m. m_organization_id m = m_organization_id membership \<and>
       m_id m = m_id membership) (memberships d))) (\<lambda>rows.
     bind (of_res (scalar_one_or_none rows)) (\<lambda>row.
     if row = None then raise (MissingIdentityReferenceError ''Membership does not exist.'')
     else bind (on_integrity_error
         (flush (membership_violation False membership)
           (\<lambda>d. d\<lparr>memberships := replace_where (\<lambda>m. m_id m = m_id membership)
              (\<lambda>_. membership) (memberships d)\<rparr>))
         raise_membership_integrity_error) (\<lambda>_.
       of_res (membership_from_record membership))))"

section \<open>Sessions and refresh tokens\<close>

definition raise_session_integrity_error :: "string \<Rightarrow> 'a tx" where
  "raise_session_integrity_error c =
     (if contains c ''uq_refresh_tokens_token_hash'' then
        raise (DuplicateRefreshTokenDigestError ''Refresh token digest already exists.'')
      else raise (MissingIdentityReferenceError ''Session references a missing user.''))"

definition raise_refresh_token_integrity_error :: "string \<Rightarrow> 'a tx" where
  "raise_refresh_token_integrity_error c =
     (if contains c ''uq_refresh_tokens_token_hash'' then
        raise (DuplicateRefreshTokenDigestError ''Refresh token digest already exists.'')
      else raise (RefreshRotationConflictError
        ''Refresh token rotation state is stale or invalid.''))"

definition session_add :: "AuthSession \<Rightarrow> RefreshTokenRecord \<Rightarrow> AuthSession tx" where
  "session_add session refresh_token =
     bind (on_integrity_error
       (flush (session_with_token_violation session refresh_token)
         (\<lambda>d. d\<lparr>auth_sessions := auth_sessions d @ [session],
                refresh_tokens := refresh_tokens d @ [refresh_token]\<rparr>))
       raise_session_integrity_error) (\<lambda>_.
     of_res (auth_session_from_record session))"

definition session_get_by_id :: "SessionId \<Rightarrow> AuthSession option tx" where
  "session_get_by_id session_id =
     bind (query (\<lambda>d. find (\<lambda>s. s_id s = session_id) (auth_sessions d)))
       (opt_row auth_session_from_record)"

definition session_get_active_by_id :: "SessionId \<Rightarrow> datetime \<Rightarrow> AuthSession option tx" where
  "session_get_active_by_id session_id at =
     bind (query (\<lambda>d. filter (\<lambda>s. s_id s = session_id \<and> s_revoked_at s = None \<and> at < s_expires_at s)
       (auth_sessions d))) (\<lambda>rows.
     bind (of_res (scalar_one_or_none rows)) (opt_row auth_session_from_record))"

definition session_get_refresh_token_by_digest :: "RefreshTokenDigest \<Rightarrow> RefreshTokenRecord option tx" where
  "session_get_refresh_token_by_digest token_digest =
     bind (query (\<lambda>d. filter (\<lambda>r. rt_token_digest r = token_digest) (refresh_tokens d))) (\<lambda>rows.
     bind (of_res (scalar_one_or_none rows)) (opt_row refresh_token_from_record))"

definition session_update :: "AuthSession \<Rightarrow> AuthSession tx" where
  "session_update session =
     bind (query (\<lambda>d. find (\<lambda>s. s_id s = s_id session) (auth_sessions d))) (\<lambda>row.
     if row = None then raise (SessionNotFoundError ''Session does not exist.'')
     else bind (execute (\<lambda>d. d\<lparr>auth_sessions :=
         replace_where (\<lambda>s. s_id s = s_id session) (\<lambda>_. session) (auth_sessions d)\<rparr>)) (\<lambda>_.
       of_res (auth_session_from_record session)))"

definition revoke_current_refresh_tokens :: "SessionId \<Rightarrow> datetime \<Rightarrow> unit tx" where
  "revoke_current_refresh_tokens session_id revoked_at =
     flush
       (\<lambda>d. first_violation [(''ck_refresh_tokens_revoked_after_issued'',
          \<exists>r \<in> set (refresh_tokens d). rt_session_id r = session_id \<and> rt_used_at r = None \<and>
            rt_revoked_at r = None \<and> \<not> rt_issued_at r \<le> revoked_at)])
       (\<lambda>d. d\<lparr>refresh_tokens :=
          replace_where (\<lambda>r. rt_session_id r = session_id \<and> rt_used_at r = None \<and> rt_revoked_at r = None)
            (\<lambda>r. r\<lparr>rt_revoked_at := Some revoked_at\<rparr>) (refresh_tokens d)\<rparr>)"

definition session_revoke :: "SessionId \<Rightarrow> datetime \<Rightarrow> AuthSession tx" where
  "session_revoke session_id revoked_at =
     bind (query (\<lambda>d. find (\<lambda>s. s_id s = session_id) (auth_sessions d))) (\<lambda>row.
     case row of
       None \<Rightarrow> raise (SessionNotFoundError ''Session does not exist.'')
     | Some r \<Rightarrow>
         bind (of_res (bind_res (auth_session_from_record r) (\<lambda>s. AuthSession_revoke s revoked_at)))
           (\<lambda>session.
         bind (revoke_current_refresh_tokens session_id revoked_at) (\<lambda>_.
         bind (execute (\<lambda>d. d\<lparr>auth_sessions :=
             replace_where (\<lambda>s. s_id s = session_id) (\<lambda>_. session) (auth_sessions d)\<rparr>)) (\<lambda>_.
         of_res (auth_session_from_record session)))))"

fun for_each :: "('a \<Rightarrow> unit tx) \<Rightarrow> 'a list \<Rightarrow> unit tx" where
  "for_each f [] = ret ()"
| "for_each f (x # xs) = bind (f x) (\<lambda>_. for_each f xs)"

definition session_revoke_all_for_user :: "uuid \<Rightarrow> datetime \<Rightarrow> nat tx" where
  "session_revoke_all_for_user user_id revoked_at =
     bind (query (\<lambda>d. map s_id (filter (\<lambda>s. s_user_id s = user_id \<and> s_revoked_at s = None)
       (auth_sessions d)))) (\<lambda>session_ids.
     bind (flush
       (\<lambda>d. first_violation [(''ck_auth_sessions_updated_after_created'',
          \<exists>s \<in> set (auth_sessions d). s_user_id s = user_id \<and> s_revoked_at s = None \<and>
            \<not> s_created_at s \<le> revoked_at)])
       (\<lambda>d. d\<lparr>auth_sessions :=
          replace_where (\<lambda>s. s_user_id s = user_id \<and> s_revoked_at s = None)
            (\<lambda>s. s\<lparr>s_revoked_at := Some revoked_at, s_updated_at := revoked_at\<rparr>) (auth_sessions d)\<rparr>)) (\<lambda>_.
     bind (for_each (\<lambda>i. revoke_current_refresh_tokens i revoked_at) session_ids) (\<lambda>_.
     ret (length session_ids))))"

definition rotation_match ::
  "db \<Rightarrow> SessionId \<Rightarrow> RefreshTokenDigest \<Rightarrow> int \<Rightarrow> datetime \<Rightarrow> RefreshTokenRecord \<Rightarrow> bool" where
  "rotation_match d session_id expected_digest expected_generation rotated_at r \<longleftrightarrow>
     rt_session_id r = session_id \<and> rt_token_digest r = expected_digest \<and>
     rt_generation r = expected_generation \<and> rt_used_at r = None \<and> rt_revoked_at r = None \<and>
     rt_replaced_by_token_id r = None \<and> rotated_at < rt_expires_at r \<and>
     (\<exists>s \<in> set (auth_sessions d). s_id s = rt_session_id r \<and> s_revoked_at s = None \<and>
        rotated_at < s_expires_at s)"

definition session_rotate_refresh_token ::
  "SessionId \<Rightarrow> RefreshTokenDigest \<Rightarrow> int \<Rightarrow> RefreshTokenRecord \<Rightarrow> datetime \<Rightarrow> RefreshTokenRecord tx" where
  "session_rotate_refresh_token session_id expected_digest expected_generation replacement rotated_at =
     bind (of_res (check_int4 (rt_generation replacement))) (\<lambda>_.
     bind (on_integrity_error
       (flush (token_violation replacement)
         (\<lambda>d. d\<lparr>refresh_tokens := refresh_tokens d @ [replacement]\<rparr>))
       raise_refresh_token_integrity_error) (\<lambda>_.
     bind (query (\<lambda>d. length (filter
       (rotation_match d session_id expected_digest expected_generation rotated_at)
       (refresh_tokens d)))) (\<lambda>rowcount.
     bind (flush
       (\<lambda>d. first_violation [(''ck_refresh_tokens_used_after_issued'',
          \<exists>r \<in> set (refresh_tokens d).
            rotation_match d session_id expected_digest expected_generation rotated_at r \<and>
            \<not> rt_issued_at r \<le> rotated_at)])
       (\<lambda>d. d\<lparr>refresh_tokens := replace_where
          (rotation_match d session_id expected_digest expected_generation rotated_at)
          (\<lambda>r. r\<lparr>rt_used_at := Some rotated_at,
                 rt_replaced_by_token_id := Some (rt_id replacement)\<rparr>) (refresh_tokens d)\<rparr>)) (\<lambda>_.
     if rowcount \<noteq> 1 then
       bind rollback (\<lambda>_. raise (RefreshRotationConflictError
         ''Refresh token rotation state is stale or invalid.''))
     else of_res (refresh_token_from_record replacement)))))"

end
