(* ===== verification/Transactions.thy ===== *)
theory Transactions
  imports Database
begin

text \<open>
  Reasoning about transactions. \<open>preserves P m\<close>: the computation keeps the state predicate \<open>P\<close>
  whether it returns or raises. \<open>atomic m\<close>: when it raises, nothing has been committed. Both are
  proved for a handler by introduction rules that follow its text; the rules are collected in
  \<open>preserves_intros\<close> and \<open>atomic_intros\<close>.
\<close>

lemma in_replace_where:
  "y \<in> set (replace_where P g xs) \<longleftrightarrow> (\<exists>x \<in> set xs. y = (if P x then g x else x))"
  by (auto simp: replace_where_def)

lemma ball_replace_where:
  "(\<forall>y \<in> set (replace_where P g xs). Q y) \<longleftrightarrow> (\<forall>x \<in> set xs. Q (if P x then g x else x))"
  unfolding replace_where_def by (induction xs) simp_all

lemma find_SomeD: "find P xs = Some x \<Longrightarrow> x \<in> set xs \<and> P x"
  by (induction xs) (auto split: if_splits)

lemma find_unique:
  assumes "distinct (map f xs)" and "x \<in> set xs"
  shows "find (\<lambda>y. f y = f x) xs = Some x"
  using assms by (induction xs) (auto simp: image_iff)

lemma filter_unique:
  assumes "distinct (map f xs)" and "x \<in> set xs"
  shows "filter (\<lambda>y. f y = f x) xs = [x]"
  using assms
proof (induction xs)
  case (Cons y ys)
  show ?case
  proof (cases "y = x")
    case True
    then have "filter (\<lambda>y. f y = f x) ys = []"
      using Cons.prems by (auto simp: filter_empty_conv) (metis image_eqI)
    then show ?thesis using True by simp
  next
    case False
    then have "x \<in> set ys" "f y \<noteq> f x"
      using Cons.prems by auto
    then show ?thesis using Cons by simp
  qed
qed simp

named_theorems preserves_intros \<open>rules that propagate a state predicate through a computation\<close>
named_theorems atomic_intros \<open>rules that propagate atomicity through a computation\<close>

definition preserves :: "(world \<Rightarrow> bool) \<Rightarrow> 'a tx \<Rightarrow> bool" where
  "preserves P m \<longleftrightarrow> (\<forall>w. P w \<longrightarrow> P (snd (m w)))"

definition atomic :: "'a tx \<Rightarrow> bool" where
  "atomic m \<longleftrightarrow> (\<forall>w e w'. m w = (Inl e, w') \<longrightarrow> committed w' = committed w)"

text \<open>A predicate of the tables, held by the committed and the working copy.\<close>

definition both :: "(db \<Rightarrow> bool) \<Rightarrow> world \<Rightarrow> bool" where
  "both I w \<longleftrightarrow> I (committed w) \<and> I (working w)"

definition commits_to :: "db \<Rightarrow> world \<Rightarrow> bool" where
  "commits_to c w \<longleftrightarrow> committed w = c"

abbreviation no_commit :: "'a tx \<Rightarrow> bool" where
  "no_commit m \<equiv> \<forall>c. preserves (commits_to c) m"

lemma preservesD: "preserves P m \<Longrightarrow> P w \<Longrightarrow> m w = (r, w') \<Longrightarrow> P w'"
  by (force simp: preserves_def)

lemma preserves_basic [preserves_intros]:
  "preserves P (ret x)" "preserves P (raise e)" "preserves P (of_res r)" "preserves P (query f)"
  by (simp_all add: preserves_def eff_simps)

lemma preserves_bind:
  "preserves P m \<Longrightarrow> (\<And>x. preserves P (k x)) \<Longrightarrow> preserves P (bind m k)"
  by (auto simp: preserves_def bind_def split: prod.splits sum.splits)

lemma preserves_bind_of_res:
  "(\<And>x. r = Inr x \<Longrightarrow> preserves P (k x)) \<Longrightarrow> preserves P (bind (of_res r) k)"
  by (cases r) (auto simp: preserves_def)

lemma preserves_try [preserves_intros]:
  "preserves P m \<Longrightarrow> (\<And>e. preserves P (h e)) \<Longrightarrow> preserves P (try_except m h)"
  by (auto simp: preserves_def try_except_def split: prod.splits sum.splits)

lemma preserves_if [preserves_intros]:
  "(c \<Longrightarrow> preserves P m) \<Longrightarrow> (\<not> c \<Longrightarrow> preserves P n) \<Longrightarrow> preserves P (if c then m else n)"
  by simp

lemma preserves_option [preserves_intros]:
  "(x = None \<Longrightarrow> preserves P m) \<Longrightarrow> (\<And>y. x = Some y \<Longrightarrow> preserves P (f y)) \<Longrightarrow>
     preserves P (case x of None \<Rightarrow> m | Some y \<Rightarrow> f y)"
  by (cases x) auto

lemma preserves_clock:
  "(\<And>w n. P (w\<lparr>now_reads := n\<rparr>) = P w) \<Longrightarrow> preserves P (clock_now E)"
  by (simp add: preserves_def eff_simps)

lemma preserves_uuid4:
  "(\<And>w n. P (w\<lparr>uuid_reads := n\<rparr>) = P w) \<Longrightarrow> preserves P (uuid4 E)"
  by (simp add: preserves_def eff_simps)

lemma both_simps [simp]:
  "both I (w\<lparr>now_reads := n\<rparr>) = both I w" "both I (w\<lparr>uuid_reads := n\<rparr>) = both I w"
  "both I (w\<lparr>secret_reads := n\<rparr>) = both I w" "both I (w\<lparr>s3_calls := cs\<rparr>) = both I w"
  "commits_to c (w\<lparr>s3_calls := cs\<rparr>) = commits_to c w"
  "both I (w\<lparr>stream_reads := n\<rparr>) = both I w" "commits_to c (w\<lparr>stream_reads := n\<rparr>) = commits_to c w"
  "commits_to c (w\<lparr>now_reads := n\<rparr>) = commits_to c w"
  "commits_to c (w\<lparr>uuid_reads := n\<rparr>) = commits_to c w"
  "commits_to c (w\<lparr>secret_reads := n\<rparr>) = commits_to c w"
  "commits_to c (w\<lparr>working := d\<rparr>) = commits_to c w"
  by (simp_all add: both_def commits_to_def)

lemma preserves_oracles [preserves_intros]:
  "preserves (both I) (clock_now E)" "preserves (both I) (uuid4 E)"
  "preserves (commits_to c) (clock_now E)" "preserves (commits_to c) (uuid4 E)"
  by (simp_all add: preserves_clock preserves_uuid4)

lemma preserves_transaction [preserves_intros]:
  "preserves (both I) commit" "preserves (both I) rollback" "preserves (commits_to c) rollback"
  by (simp_all add: preserves_def eff_simps both_def commits_to_def)

lemma preserves_both_flush:
  "(\<And>d. I d \<Longrightarrow> v d = None \<Longrightarrow> I (f d)) \<Longrightarrow> preserves (both I) (flush v f)"
  by (auto simp: preserves_def flush_def both_def split: option.splits)

lemma preserves_both_execute:
  "(\<And>d. I d \<Longrightarrow> I (f d)) \<Longrightarrow> preserves (both I) (execute f)"
  by (auto simp: preserves_def eff_simps both_def)

lemma preserves_commits_to [preserves_intros]:
  "preserves (commits_to c) (flush v f)" "preserves (commits_to c) (execute f)"
  by (auto simp: preserves_def flush_def eff_simps split: option.splits)

lemma preserves_exn [preserves_intros]:
  "(\<And>c. e = IntegrityError c \<Longrightarrow> preserves P (h c)) \<Longrightarrow> preserves P m \<Longrightarrow>
     preserves P (case e of IntegrityError c \<Rightarrow> h c | _ \<Rightarrow> m)"
  by (cases e) auto

lemma preserves_audit_both [preserves_intros]:
  "(\<And>d a. I (d\<lparr>audit_events := a\<rparr>) = I d) \<Longrightarrow> preserves (both I) (audit_record E e)"
  unfolding audit_record_def
  by (intro preserves_bind preserves_intros preserves_both_flush) simp

lemma preserves_audit_commits [preserves_intros]: "preserves (commits_to c) (audit_record E e)"
  unfolding audit_record_def
  by (intro preserves_bind preserves_intros)

lemma session_scope_both:
  "preserves (both I) m \<Longrightarrow> both I w \<Longrightarrow> session_scope m w = (r, w') \<Longrightarrow> both I w'"
  by (auto simp: session_scope_def both_def dest!: preservesD split: prod.splits)

section \<open>Atomicity\<close>

lemma atomicD: "atomic m \<Longrightarrow> m w = (Inl e, w') \<Longrightarrow> committed w' = committed w"
  by (simp add: atomic_def)

lemma no_commitD: "no_commit m \<Longrightarrow> m w = (r, w') \<Longrightarrow> committed w' = committed w"
  using preservesD [of "commits_to (committed w)" m w r w'] by (simp add: commits_to_def)

lemma atomic_no_commit: "no_commit m \<Longrightarrow> atomic m"
  unfolding atomic_def using no_commitD by blast

lemma atomic_bind [atomic_intros]:
  assumes m: "no_commit m" and k: "\<And>x. atomic (k x)"
  shows "atomic (bind m k)"
  unfolding atomic_def
proof (intro allI impI)
  fix w e w'
  assume "bind m k w = (Inl e, w')"
  then show "committed w' = committed w"
  proof (cases rule: bind_InlE)
    case 1
    then show ?thesis using m no_commitD by blast
  next
    case (2 x w1)
    then show ?thesis using no_commitD [OF m 2(1)] atomicD [OF k 2(2)] by simp
  qed
qed

lemma atomic_commit_ret [atomic_intros]: "atomic (bind commit (\<lambda>_. ret x))"
  by (auto simp: atomic_def eff_simps)

lemma atomic_rollback_reraise [atomic_intros]:
  assumes "atomic m"
  shows "atomic (try_except m (\<lambda>e. bind rollback (\<lambda>_. raise e)))"
  unfolding atomic_def
proof (intro allI impI)
  fix w e w'
  assume "try_except m (\<lambda>e. bind rollback (\<lambda>_. raise e)) w = (Inl e, w')"
  then show "committed w' = committed w"
    by (cases rule: try_except_cases) (auto simp: eff_simps dest: atomicD [OF assms])
qed

lemma atomic_if [atomic_intros]:
  "(c \<Longrightarrow> atomic m) \<Longrightarrow> (\<not> c \<Longrightarrow> atomic n) \<Longrightarrow> atomic (if c then m else n)"
  by simp

lemma atomic_option [atomic_intros]:
  "(x = None \<Longrightarrow> atomic m) \<Longrightarrow> (\<And>y. x = Some y \<Longrightarrow> atomic (f y)) \<Longrightarrow>
     atomic (case x of None \<Rightarrow> m | Some y \<Rightarrow> f y)"
  by (cases x) auto

lemma atomic_session_scope: "atomic m \<Longrightarrow> atomic (session_scope m)"
  by (force simp: atomic_def session_scope_def split: prod.splits)

section \<open>Table invariants\<close>

text \<open>
  \<open>keeps I m\<close>: from a state whose two copies satisfy the table invariant \<open>I\<close>, the computation
  returns in such a state, or raises with the committed copy still satisfying it; the
  working copy may then be left in the middle of a change, until a rollback.
\<close>

named_theorems keeps_intros \<open>rules that propagate a table invariant through a computation\<close>

definition keeps :: "(db \<Rightarrow> bool) \<Rightarrow> 'a tx \<Rightarrow> bool" where
  "keeps I m \<longleftrightarrow> (\<forall>w. both I w \<longrightarrow>
     (case m w of (Inr x, w') \<Rightarrow> both I w' | (Inl e, w') \<Rightarrow> I (committed w')))"

lemma keepsD:
  assumes "keeps I m" and "both I w"
  shows "m w = (Inr x, w') \<Longrightarrow> both I w'" and "m w = (Inl e, w') \<Longrightarrow> I (committed w')"
  using assms by (force simp: keeps_def)+

lemma keepsI:
  assumes "\<And>w x w'. both I w \<Longrightarrow> m w = (Inr x, w') \<Longrightarrow> both I w'"
    and "\<And>w e w'. both I w \<Longrightarrow> m w = (Inl e, w') \<Longrightarrow> I (committed w')"
  shows "keeps I m"
  using assms by (auto simp: keeps_def split: prod.splits sum.splits)

lemma keeps_preserves: "preserves (both I) m \<Longrightarrow> keeps I m"
  by (rule keepsI) (auto simp: both_def dest: preservesD)

lemma keeps_basic [keeps_intros]:
  "keeps I (ret x)" "keeps I (raise e)" "keeps I (of_res r)" "keeps I (query f)"
  "keeps I (clock_now E)" "keeps I (uuid4 E)" "keeps I commit" "keeps I rollback"
  by (intro keeps_preserves preserves_intros)+

lemma keeps_bind [keeps_intros]:
  assumes "keeps I m" and "\<And>x. keeps I (k x)"
  shows "keeps I (bind m k)"
proof (rule keepsI)
  fix w x w'
  assume "both I w" "bind m k w = (Inr x, w')"
  then show "both I w'"
    using assms by (metis bind_InrE keepsD(1))
next
  fix w e w'
  assume "both I w" "bind m k w = (Inl e, w')"
  then show "I (committed w')"
    using assms by (metis bind_InlE keepsD)
qed

lemma keeps_bind_of_res:
  "(\<And>x. r = Inr x \<Longrightarrow> keeps I (k x)) \<Longrightarrow> keeps I (bind (of_res r) k)"
  by (cases r) (auto simp: keeps_def both_def)

lemma keeps_flush:
  "(\<And>d. I d \<Longrightarrow> v d = None \<Longrightarrow> I (f d)) \<Longrightarrow> keeps I (flush v f)"
  by (intro keeps_preserves preserves_both_flush)

lemma keeps_execute: "(\<And>d. I d \<Longrightarrow> I (f d)) \<Longrightarrow> keeps I (execute f)"
  by (intro keeps_preserves preserves_both_execute)

lemma keeps_if [keeps_intros]:
  "(c \<Longrightarrow> keeps I m) \<Longrightarrow> (\<not> c \<Longrightarrow> keeps I n) \<Longrightarrow> keeps I (if c then m else n)"
  by simp

lemma keeps_option [keeps_intros]:
  "(x = None \<Longrightarrow> keeps I m) \<Longrightarrow> (\<And>y. x = Some y \<Longrightarrow> keeps I (f y)) \<Longrightarrow>
     keeps I (case x of None \<Rightarrow> m | Some y \<Rightarrow> f y)"
  by (cases x) auto

lemma keeps_prod [keeps_intros]:
  "(\<And>a b. p = (a, b) \<Longrightarrow> keeps I (f a b)) \<Longrightarrow> keeps I (case p of (a, b) \<Rightarrow> f a b)"
  by (cases p) auto

text \<open>An exception handler starts with the committed copy intact.\<close>

lemma keeps_try_rollback:
  assumes m: "keeps I m"
    and h: "\<And>e. h e = raise e \<or> (\<exists>k. h e = bind rollback (\<lambda>_. k) \<and> keeps I k)"
  shows "keeps I (try_except m h)"
proof (rule keepsI)
  fix w x w'
  assume I: "both I w" and t: "try_except m h w = (Inr x, w')"
  from t show "both I w'"
  proof (cases rule: try_except_cases)
    case (1 y)
    show ?thesis using keepsD(1) [OF m I 1(1)] .
  next
    case (2 e w1)
    have "I (committed w1)"
      using keepsD(2) [OF m I 2(1)] .
    then have r: "both I (w1\<lparr>working := committed w1\<rparr>)" and "I (committed w1)"
      by (simp_all add: both_def)
    then show ?thesis
      using h [of e] 2(2) by (auto simp: eff_simps dest: keepsD(1) [OF _ r])
  qed
next
  fix w e' w'
  assume I: "both I w" and t: "try_except m h w = (Inl e', w')"
  from t show "I (committed w')"
  proof (cases rule: try_except_cases)
    case (2 e w1)
    have "I (committed w1)"
      using keepsD(2) [OF m I 2(1)] .
    then have r: "both I (w1\<lparr>working := committed w1\<rparr>)" and "I (committed w1)"
      by (simp_all add: both_def)
    then show ?thesis
      using h [of e] 2(2) by (auto simp: eff_simps dest: keepsD(2) [OF _ r])
  qed simp
qed

lemma keeps_rollback_reraise [keeps_intros]:
  "keeps I m \<Longrightarrow> keeps I (try_except m (\<lambda>e. bind rollback (\<lambda>_. raise e)))"
  by (rule keeps_try_rollback) (auto intro: keeps_basic)

lemma keeps_audit [keeps_intros]:
  "(\<And>d a. I (d\<lparr>audit_events := a\<rparr>) = I d) \<Longrightarrow> keeps I (audit_record E e)"
  by (intro keeps_preserves preserves_intros)

lemma session_scope_keeps:
  assumes "keeps I m" and "both I w"
  shows "both I (snd (session_scope m w))"
proof (cases "m w")
  case (Pair r w')
  have "I (committed w')"
    using keepsD [OF assms, of _ w'] Pair by (cases r) (auto simp: both_def)
  then show ?thesis
    using Pair by (simp add: session_scope_def both_def)
qed

section \<open>Triples\<close>

text \<open>
  \<open>hoare C P m Q\<close>: from a committed copy satisfying \<open>C\<close> and a working copy satisfying \<open>P\<close>, the
  computation returns \<open>x\<close> with the working copy satisfying \<open>Q x\<close>, and keeps \<open>C\<close> of the committed
  copy in every case.
\<close>

named_theorems hoare_intros \<open>rules for triples\<close>

definition hoare :: "(db \<Rightarrow> bool) \<Rightarrow> (db \<Rightarrow> bool) \<Rightarrow> 'a tx \<Rightarrow> ('a \<Rightarrow> db \<Rightarrow> bool) \<Rightarrow> bool" where
  "hoare C P m Q \<longleftrightarrow> (\<forall>w. C (committed w) \<and> P (working w) \<longrightarrow>
     (case m w of (Inr x, w') \<Rightarrow> C (committed w') \<and> Q x (working w') | (Inl e, w') \<Rightarrow> C (committed w')))"

lemma keeps_hoare: "keeps I m \<longleftrightarrow> hoare I I m (\<lambda>_. I)"
  unfolding keeps_def hoare_def both_def ..

lemma hoareD:
  assumes "hoare C P m Q" and "C (committed w)" and "P (working w)"
  shows "m w = (Inr x, w') \<Longrightarrow> C (committed w') \<and> Q x (working w')"
    and "m w = (Inl e, w') \<Longrightarrow> C (committed w')"
  using assms(1) [unfolded hoare_def, rule_format, of w] assms(2,3) by simp_all

lemma hoareI:
  assumes "\<And>w x w'. C (committed w) \<Longrightarrow> P (working w) \<Longrightarrow> m w = (Inr x, w') \<Longrightarrow>
      C (committed w') \<and> Q x (working w')"
    and "\<And>w e w'. C (committed w) \<Longrightarrow> P (working w) \<Longrightarrow> m w = (Inl e, w') \<Longrightarrow> C (committed w')"
  shows "hoare C P m Q"
  unfolding hoare_def
proof (intro allI impI)
  fix w :: world
  assume w: "C (committed w) \<and> P (working w)"
  show "case m w of (Inr x, w') \<Rightarrow> C (committed w') \<and> Q x (working w') | (Inl e, w') \<Rightarrow> C (committed w')"
  proof (cases "m w")
    case (Pair r w')
    show ?thesis
      using assms(1) [of w _ w'] assms(2) [of w _ w'] w Pair by (cases r) simp_all
  qed
qed

lemma hoare_bind:
  assumes m: "hoare C P m Q" and k: "\<And>x. hoare C (Q x) (k x) R"
  shows "hoare C P (bind m k) R"
proof (rule hoareI)
  fix w x w'
  assume C: "C (committed w)" and P: "P (working w)" and "bind m k w = (Inr x, w')"
  then obtain y w1 where *: "m w = (Inr y, w1)" "k y w1 = (Inr x, w')"
    by (elim bind_InrE)
  have "C (committed w1)" "Q y (working w1)"
    using hoareD(1) [OF m C P *(1)] by simp_all
  then show "C (committed w') \<and> R x (working w')"
    using hoareD(1) [OF k _ _ *(2)] by blast
next
  fix w e w'
  assume C: "C (committed w)" and P: "P (working w)" and b: "bind m k w = (Inl e, w')"
  from b show "C (committed w')"
  proof (cases rule: bind_InlE)
    case 1
    show ?thesis using hoareD(2) [OF m C P 1] .
  next
    case (2 y w1)
    have "C (committed w1)" "Q y (working w1)"
      using hoareD(1) [OF m C P 2(1)] by simp_all
    then show ?thesis
      using hoareD(2) [OF k _ _ 2(2)] by blast
  qed
qed

lemma hoare_conseq:
  "hoare C P' m Q' \<Longrightarrow> (\<And>d. P d \<Longrightarrow> P' d) \<Longrightarrow> (\<And>x d. Q' x d \<Longrightarrow> Q x d) \<Longrightarrow> hoare C P m Q"
  by (rule hoareI) (blast dest: hoareD)+

lemma hoare_ret: "(\<And>d. P d \<Longrightarrow> Q x d) \<Longrightarrow> hoare C P (ret x) Q"
  by (simp add: hoare_def eff_simps)

lemma hoare_raise: "hoare C P (raise e) Q"
  by (simp add: hoare_def eff_simps)

lemma hoare_of_res: "(\<And>x d. r = Inr x \<Longrightarrow> P d \<Longrightarrow> Q x d) \<Longrightarrow> hoare C P (of_res r) Q"
  by (cases r) (simp_all add: hoare_def eff_simps)

lemma hoare_query: "(\<And>d. P d \<Longrightarrow> Q (f d) d) \<Longrightarrow> hoare C P (query f) Q"
  by (simp add: hoare_def eff_simps)

lemma hoare_flush: "(\<And>d. P d \<Longrightarrow> v d = None \<Longrightarrow> Q () (f d)) \<Longrightarrow> hoare C P (flush v f) Q"
  by (auto simp: hoare_def flush_def split: option.splits)

lemma hoare_execute: "(\<And>d. P d \<Longrightarrow> Q () (f d)) \<Longrightarrow> hoare C P (execute f) Q"
  by (simp add: hoare_def eff_simps)

lemma hoare_rollback_raise: "hoare C P (bind rollback (\<lambda>_. raise e)) Q"
  by (simp add: hoare_def eff_simps)

lemma hoare_if:
  "(c \<Longrightarrow> hoare C P m Q) \<Longrightarrow> (\<not> c \<Longrightarrow> hoare C P n Q) \<Longrightarrow> hoare C P (if c then m else n) Q"
  by simp

lemma hoare_option:
  "(x = None \<Longrightarrow> hoare C P m Q) \<Longrightarrow> (\<And>y. x = Some y \<Longrightarrow> hoare C P (f y) Q) \<Longrightarrow>
     hoare C P (case x of None \<Rightarrow> m | Some y \<Rightarrow> f y) Q"
  by (cases x) auto

lemma hoare_pre: "(\<And>d. P d \<Longrightarrow> hoare C (\<lambda>e. e = d) m Q) \<Longrightarrow> hoare C P m Q"
  by (rule hoareI) (blast dest: hoareD)+

text \<open>One step of a run, from a triple for its first command.\<close>

lemma hoare_step:
  assumes m: "hoare C P m Q" and w: "C (committed w)" "P (working w)" and b: "bind m k w = (res, w')"
  obtains (raised) e where "res = Inl e" "C (committed w')"
    | (returned) x w1 where "C (committed w1)" "Q x (working w1)" "k x w1 = (res, w')"
proof (cases "m w")
  case (Pair r w1)
  show thesis
  proof (cases r)
    case (Inl e)
    then show thesis
      using Pair b hoareD(2) [OF m w, of e w1] raised by (auto simp: bind_def)
  next
    case (Inr x)
    then show thesis
      using Pair b hoareD(1) [OF m w, of x w1] returned [of w1 x] by (simp add: bind_def)
  qed
qed

text \<open>\<open>returns m R\<close>: whatever the computation returns satisfies \<open>R\<close>.\<close>

definition returns :: "'a tx \<Rightarrow> ('a \<Rightarrow> bool) \<Rightarrow> bool" where
  "returns m R \<longleftrightarrow> (\<forall>w x w'. m w = (Inr x, w') \<longrightarrow> R x)"

lemma returnsD: "returns m R \<Longrightarrow> m w = (Inr x, w') \<Longrightarrow> R x"
  by (auto simp: returns_def)

lemma returns_bind:
  "(\<And>x. returns (k x) R) \<Longrightarrow> returns (bind m k) R"
  unfolding returns_def by (metis bind_InrE)

lemma returns_bind_of_res:
  "(\<And>x. r = Inr x \<Longrightarrow> returns (k x) R) \<Longrightarrow> returns (bind (of_res r) k) R"
  by (cases r) (auto simp: returns_def)

lemma returns_bind_query:
  "(\<And>d. returns (k (f d)) R) \<Longrightarrow> returns (bind (query f) k) R"
  by (auto simp: returns_def)

lemma returns_query: "(\<And>d. R (f d)) \<Longrightarrow> returns (query f) R"
  by (simp add: returns_def eff_simps)

lemma returns_of_res: "(\<And>x. r = Inr x \<Longrightarrow> R x) \<Longrightarrow> returns (of_res r) R"
  by (cases r) (auto simp: returns_def eff_simps)

lemma keeps_bind_returns:
  assumes r: "returns m R" and m: "keeps I m" and k: "\<And>x. R x \<Longrightarrow> keeps I (k x)"
  shows "keeps I (bind m k)"
proof (rule keepsI)
  fix w x w'
  assume I: "both I w" and "bind m k w = (Inr x, w')"
  then obtain y w1 where *: "m w = (Inr y, w1)" "k y w1 = (Inr x, w')"
    by (elim bind_InrE)
  show "both I w'"
    using keepsD(1) [OF k [OF returnsD [OF r *(1)]] keepsD(1) [OF m I *(1)] *(2)] .
next
  fix w e w'
  assume I: "both I w" and b: "bind m k w = (Inl e, w')"
  from b show "I (committed w')"
  proof (cases rule: bind_InlE)
    case 1
    show ?thesis using keepsD(2) [OF m I 1] .
  next
    case (2 y w1)
    show ?thesis
      using keepsD(2) [OF k [OF returnsD [OF r 2(1)]] keepsD(1) [OF m I 2(1)] 2(2)] .
  qed
qed

text \<open>Computations that leave the tables alone.\<close>

named_theorems readonly_intros \<open>computations that do not change the tables\<close>

definition readonly :: "'a tx \<Rightarrow> bool" where
  "readonly m \<longleftrightarrow> (\<forall>w. committed (snd (m w)) = committed w \<and> working (snd (m w)) = working w)"

lemma readonlyD:
  "readonly m \<Longrightarrow> m w = (r, w') \<Longrightarrow> committed w' = committed w \<and> working w' = working w"
  unfolding readonly_def by (metis snd_conv)

lemma readonly_basic [readonly_intros]:
  "readonly (ret x)" "readonly (raise e)" "readonly (of_res r)" "readonly (query f)"
  "readonly (clock_now E)" "readonly (uuid4 E)"
  by (simp_all add: readonly_def eff_simps)

lemma readonly_bind [readonly_intros]:
  assumes m: "readonly m" and k: "\<And>x. readonly (k x)"
  shows "readonly (bind m k)"
  unfolding readonly_def
proof
  fix w
  show "committed (snd (bind m k w)) = committed w \<and> working (snd (bind m k w)) = working w"
  proof (cases "m w")
    case (Pair r w1)
    have "committed w1 = committed w \<and> working w1 = working w"
      using readonlyD [OF m Pair] .
    then show ?thesis
      using Pair k by (cases r) (simp_all add: bind_def readonly_def)
  qed
qed

lemma readonly_cases [readonly_intros]:
  "(c \<Longrightarrow> readonly m) \<Longrightarrow> (\<not> c \<Longrightarrow> readonly n) \<Longrightarrow> readonly (if c then m else n)"
  "readonly a \<Longrightarrow> (\<And>y. readonly (f y)) \<Longrightarrow> readonly (case z of None \<Rightarrow> a | Some y \<Rightarrow> f y)"
  "(\<And>u v. readonly (g u v)) \<Longrightarrow> readonly (case q of (u, v) \<Rightarrow> g u v)"
  by (auto split: option.splits prod.splits)

lemma hoare_readonly:
  assumes "readonly m"
  shows "hoare C P m (\<lambda>_. P)"
proof (rule hoareI)
  fix w x w' assume "C (committed w)" "P (working w)" "m w = (Inr x, w')"
  then show "C (committed w') \<and> P (working w')" using readonlyD [OF assms] by metis
next
  fix w e w' assume "C (committed w)" "P (working w)" "m w = (Inl e, w')"
  then show "C (committed w')" using readonlyD [OF assms] by metis
qed

lemma hoare_bind_readonly:
  "readonly m \<Longrightarrow> (\<And>x. hoare C P (k x) Q) \<Longrightarrow> hoare C P (bind m k) Q"
  by (rule hoare_bind [OF hoare_readonly])

lemma hoare_bind_of_res:
  "(\<And>x. r = Inr x \<Longrightarrow> hoare C P (k x) Q) \<Longrightarrow> hoare C P (bind (of_res r) k) Q"
  by (cases r) (auto simp: hoare_def)

lemma hoare_weaken: "hoare C P' m Q \<Longrightarrow> (\<And>d. P d \<Longrightarrow> P' d) \<Longrightarrow> hoare C P m Q"
  by (rule hoare_conseq)

lemma hoare_trivial: "hoare (\<lambda>_. True) P m (\<lambda>_ _. True)"
  by (rule hoareI) simp_all

lemma hoare_False: "(\<And>d. \<not> P d) \<Longrightarrow> hoare C P m Q"
  by (simp add: hoare_def)

lemma hoare_conj:
  "hoare C P m Q \<Longrightarrow> hoare C P' m Q' \<Longrightarrow> hoare C (\<lambda>d. P d \<and> P' d) m (\<lambda>x d. Q x d \<and> Q' x d)"
  by (rule hoareI) (blast dest: hoareD)+

lemma hoare_audit:
  assumes "ae_created_at e = None" and "\<And>d a. P (d\<lparr>audit_events := a\<rparr>) = P d"
  shows "hoare C P (audit_record E e) (\<lambda>_. P)"
  using audit_record_run [OF assms(1), of E, unfolded Let_def] assms(2)
  by (intro hoareI) (auto split: if_splits)

section \<open>Accepted audit events\<close>

lemma AuditEvent_create_frame:
  assumes "AuditEvent_create i ty out t actor org sess ctxt md = Inr e"
  shows "ae_event_type e = ty" "ae_outcome e = out" "ae_actor_user_id e = actor"
    "ae_organization_id e = org" "ae_session_id e = sess" "ae_created_at e = None"
  using assms AuditEvent_post_init_frame AuditEvent_create_created_at
  by (fastforce simp: AuditEvent_create_def Let_def)+

text \<open>A request context is an object of its class, so its constructor has accepted it.\<close>

definition constructed_context :: "AuditRequestContext option \<Rightarrow> bool" where
  "constructed_context c \<longleftrightarrow> (case c of None \<Rightarrow> True | Some x \<Rightarrow> AuditRequestContext_post_init x = Inr x)"

lemma constructed_context_None [simp]: "constructed_context None"
  by (simp add: constructed_context_def)

lemma AuditEvent_create_accepts:
  assumes "safe_metadata (case md of None \<Rightarrow> [] | Some m \<Rightarrow> m) 0 = Inr md'" and "tz_aware t" and "constructed_context c"
  shows "\<exists>e. AuditEvent_create i ty out t a g s c md = Inr e \<and> ae_id e = i"
proof -
  have "AuditRequestContext_post_init \<lparr>rc_request_id = rc_request_id x, rc_source_ip = rc_source_ip x,
      rc_user_agent = rc_user_agent x\<rparr> = Inr y"
    if "x = (case c of Some x \<Rightarrow> x | None \<Rightarrow> \<lparr>rc_request_id = None, rc_source_ip = None, rc_user_agent = None\<rparr>)" "x = y" for x y
    using assms(3) that unfolding constructed_context_def
    by (cases c) (simp_all add: AuditRequestContext_post_init_def Audit_validate_optional_string_def)
  then show ?thesis
    using assms(1,2) by (simp add: AuditEvent_create_def AuditEvent_post_init_def Audit_require_timezone_aware_def Let_def raise_if_def)
qed

section \<open>Request bodies\<close>

text \<open>
  \<open>transacts P m Q\<close>: from a working copy satisfying \<open>P\<close>, the body either raises with nothing
  committed, or returns \<open>x\<close> with its working copy committed and satisfying \<open>Q x\<close>.
\<close>

named_theorems transacts_intros \<open>rules for request bodies\<close>

definition transacts :: "(db \<Rightarrow> bool) \<Rightarrow> 'a tx \<Rightarrow> ('a \<Rightarrow> db \<Rightarrow> bool) \<Rightarrow> bool" where
  "transacts P m Q \<longleftrightarrow> (\<forall>w. P (working w) \<longrightarrow> (case m w of
      (Inl e, w') \<Rightarrow> committed w' = committed w
    | (Inr x, w') \<Rightarrow> committed w' = working w' \<and> Q x (working w')))"

lemma transactsD:
  assumes "transacts P m Q" and "P (working w)"
  shows "m w = (Inl e, w') \<Longrightarrow> committed w' = committed w"
    and "m w = (Inr x, w') \<Longrightarrow> committed w' = working w' \<and> Q x (working w')"
  using assms(1) [unfolded transacts_def, rule_format, of w] assms(2) by simp_all

lemma transactsI:
  assumes "\<And>w e w'. P (working w) \<Longrightarrow> m w = (Inl e, w') \<Longrightarrow> committed w' = committed w"
    and "\<And>w x w'. P (working w) \<Longrightarrow> m w = (Inr x, w') \<Longrightarrow> committed w' = working w' \<and> Q x (working w')"
  shows "transacts P m Q"
  unfolding transacts_def
proof (intro allI impI)
  fix w :: world
  assume w: "P (working w)"
  show "case m w of (Inl e, w') \<Rightarrow> committed w' = committed w
    | (Inr x, w') \<Rightarrow> committed w' = working w' \<and> Q x (working w')"
  proof (cases "m w")
    case (Pair r w')
    show ?thesis
      using assms(1) [of w _ w'] assms(2) [of w _ w'] w Pair by (cases r) simp_all
  qed
qed

lemma transacts_bind:
  assumes m: "\<And>c. hoare (\<lambda>d. d = c) P m R" and k: "\<And>x. transacts (R x) (k x) Q"
  shows "transacts P (bind m k) Q"
proof (rule transactsI)
  fix w e w'
  assume P: "P (working w)" and b: "bind m k w = (Inl e, w')"
  show "committed w' = committed w"
  proof (cases rule: hoare_step [OF m [of "committed w"] refl P b])
    case (2 x w1)
    then show ?thesis using transactsD(1) [OF k 2(2,3)] by simp
  qed
next
  fix w x w'
  assume P: "P (working w)" and b: "bind m k w = (Inr x, w')"
  show "committed w' = working w' \<and> Q x (working w')"
  proof (cases rule: hoare_step [OF m [of "committed w"] refl P b])
    case (2 y w1)
    then show ?thesis using transactsD(2) [OF k 2(2,3)] by simp
  qed simp
qed

lemma transacts_basic [transacts_intros]: "transacts P (raise e) Q"
  by (simp add: transacts_def eff_simps)

lemma transacts_commit:
  "(\<And>d. P d \<Longrightarrow> Q x d) \<Longrightarrow> transacts P (bind commit (\<lambda>_. ret x)) Q"
  "(\<And>d. P d \<Longrightarrow> \<exists>y. r = Inr y \<and> Q y d) \<Longrightarrow> transacts P (bind commit (\<lambda>_. of_res r)) Q"
  by (auto simp: transacts_def eff_simps split: prod.splits sum.splits)

lemma transacts_bind_readonly:
  "readonly m \<Longrightarrow> (\<And>x. transacts P (k x) Q) \<Longrightarrow> transacts P (bind m k) Q"
  by (rule transacts_bind [OF hoare_readonly])

lemma hoare_readonly_returns:
  "readonly m \<Longrightarrow> returns m R \<Longrightarrow> hoare C P m (\<lambda>x d. P d \<and> R x)"
  by (rule hoareI) (auto dest: readonlyD returnsD)

lemma transacts_bind_returns:
  assumes "readonly m" "returns m R" and k: "\<And>x. R x \<Longrightarrow> transacts P (k x) Q"
  shows "transacts P (bind m k) Q"
proof (rule transacts_bind [OF hoare_readonly_returns [OF assms(1,2)]])
  show "transacts (\<lambda>d. P d \<and> R x) (k x) Q" for x
    using k [of x] by (cases "R x") (auto simp: transacts_def)
qed

lemma transacts_bind_of_res:
  "(\<And>x. r = Inr x \<Longrightarrow> transacts P (k x) Q) \<Longrightarrow> transacts P (bind (of_res r) k) Q"
  by (cases r) (auto simp: transacts_def)

lemma transacts_if [transacts_intros]:
  "(c \<Longrightarrow> transacts P m Q) \<Longrightarrow> (\<not> c \<Longrightarrow> transacts P n Q) \<Longrightarrow> transacts P (if c then m else n) Q"
  by simp

lemma transacts_option [transacts_intros]:
  "(x = None \<Longrightarrow> transacts P m Q) \<Longrightarrow> (\<And>y. x = Some y \<Longrightarrow> transacts P (f y) Q) \<Longrightarrow>
     transacts P (case x of None \<Rightarrow> m | Some y \<Rightarrow> f y) Q"
  by (cases x) auto

lemma transacts_prod [transacts_intros]:
  "(\<And>a b. p = (a, b) \<Longrightarrow> transacts P (f a b) Q) \<Longrightarrow> transacts P (case p of (a, b) \<Rightarrow> f a b) Q"
  by (cases p) auto

lemma transacts_conseq:
  "transacts P' m Q' \<Longrightarrow> (\<And>d. P d \<Longrightarrow> P' d) \<Longrightarrow> (\<And>x d. Q' x d \<Longrightarrow> Q x d) \<Longrightarrow> transacts P m Q"
  by (rule transactsI) (blast dest: transactsD)+

lemma transacts_rollback_reraise:
  assumes "transacts P m Q"
  shows "transacts P (try_except m (\<lambda>e. bind rollback (\<lambda>_. raise e))) Q"
proof (rule transactsI)
  fix w e w'
  assume P: "P (working w)" and t: "try_except m (\<lambda>e. bind rollback (\<lambda>_. raise e)) w = (Inl e, w')"
  from t show "committed w' = committed w"
    by (cases rule: try_except_cases) (auto simp: eff_simps dest: transactsD(1) [OF assms P])
next
  fix w x w'
  assume P: "P (working w)" and t: "try_except m (\<lambda>e. bind rollback (\<lambda>_. raise e)) w = (Inr x, w')"
  from t show "committed w' = working w' \<and> Q x (working w')"
    by (cases rule: try_except_cases) (auto simp: eff_simps dest: transactsD(2) [OF assms P])
qed

section \<open>Initial states\<close>

definition empty_db :: db where
  "empty_db = \<lparr>users = [], organizations = [], memberships = [], password_credentials = [],
     auth_sessions = [], refresh_tokens = [], audit_events = [], batches = [], batch_documents = [],
     cases_tbl = [], case_documents = [], case_comments = [], case_tasks = [], case_decisions = [],
     documents = [], document_versions = [], document_artifacts = [], upload_idempotency = []\<rparr>"

text \<open>A request starts with a working copy equal to the committed tables.\<close>

definition fresh_world :: "db \<Rightarrow> world" where
  "fresh_world d = \<lparr>committed = d, working = d, now_reads = 0, uuid_reads = 0, secret_reads = 0,
     s3_calls = [], stream_reads = 0\<rparr>"

lemma fresh_world_simps [simp]:
  "committed (fresh_world d) = d" "working (fresh_world d) = d"
  by (simp_all add: fresh_world_def)

end
