(* ===== verification/Session_Lifecycle.thy ===== *)
theory Session_Lifecycle
  imports Identity_Store Transactions
begin

text \<open>
  Authentication and the session use cases: \<^verbatim>\<open>application/identity/authentication.py\<close> and
  \<^verbatim>\<open>session_lifecycle.py\<close> with the contracts of \<^verbatim>\<open>tokens.py\<close>, composed with the SQLAlchemy
  repositories and the audit log as \<^verbatim>\<open>apps/api/dependencies.py\<close> composes them. The password
  hasher, SHA-256, the random token generator and the JWT codec are the parameters of the
  record \<open>crypto\<close>.
\<close>

section \<open>Contracts\<close>

definition plus_timedelta :: "datetime \<Rightarrow> int \<Rightarrow> datetime" where
  "plus_timedelta t delta = DateTime (wall t + delta) (utcoffset t)"

definition min_datetime :: "datetime \<Rightarrow> datetime \<Rightarrow> datetime" where
  "min_datetime a b = (if b < a then b else a)"

record SessionLifecyclePolicy =
  sp_access_token_lifetime :: int
  sp_refresh_token_lifetime :: int
  sp_session_lifetime :: int

definition SessionLifecyclePolicy_post_init :: "SessionLifecyclePolicy \<Rightarrow> SessionLifecyclePolicy res" where
  "SessionLifecyclePolicy_post_init p =
     bind_res (raise_if (sp_access_token_lifetime p \<le> 0)
       (ValueError ''access_token_lifetime must be positive.'')) (\<lambda>_.
     bind_res (raise_if (sp_refresh_token_lifetime p \<le> 0)
       (ValueError ''refresh_token_lifetime must be positive.'')) (\<lambda>_.
     bind_res (raise_if (sp_session_lifetime p \<le> 0)
       (ValueError ''session_lifetime must be positive.'')) (\<lambda>_.
     bind_res (raise_if (sp_session_lifetime p < sp_refresh_token_lifetime p)
       (ValueError ''refresh_token_lifetime must not exceed session_lifetime.'')) (\<lambda>_.
     Inr p))))"

record AccessTokenClaims =
  tc_user_id :: uuid
  tc_session_id :: SessionId
  tc_token_id :: uuid
  tc_issued_at :: datetime
  tc_expires_at :: datetime

definition AccessTokenClaims_post_init :: "AccessTokenClaims \<Rightarrow> AccessTokenClaims res" where
  "AccessTokenClaims_post_init c =
     bind_res (validate_uuid (tc_user_id c) ''Access token user identifier'') (\<lambda>_.
     bind_res (validate_uuid (tc_token_id c) ''Access token identifier'') (\<lambda>_.
     bind_res (normalize_timestamp (tc_issued_at c) ''issued_at'') (\<lambda>issued_at.
     bind_res (normalize_timestamp (tc_expires_at c) ''expires_at'') (\<lambda>expires_at.
     bind_res (raise_if (expires_at \<le> issued_at)
       (InvalidTimestamp
         ''Access token expiry timestamp must be later than issue timestamp.'')) (\<lambda>_.
     Inr (c\<lparr>tc_issued_at := issued_at, tc_expires_at := expires_at\<rparr>))))))"

definition VerifiedAccessPrincipal_post_init :: "AccessTokenClaims \<Rightarrow> AccessTokenClaims res" where
  \<comment> \<open>the principal has the fields of the claims and validates them as claims\<close>
  "VerifiedAccessPrincipal_post_init c = AccessTokenClaims_post_init c"

record TokenPair =
  tp_access_token :: string
  tp_refresh_token :: string
  tp_token_type :: string
  tp_session_id :: SessionId
  tp_access_token_expires_at :: datetime
  tp_refresh_token_expires_at :: datetime

definition TokenPair_post_init :: "TokenPair \<Rightarrow> TokenPair res" where
  "TokenPair_post_init p =
     bind_res (normalize_timestamp (tp_access_token_expires_at p) ''access_token_expires_at'') (\<lambda>a.
     bind_res (normalize_timestamp (tp_refresh_token_expires_at p) ''refresh_token_expires_at'') (\<lambda>r.
     Inr (p\<lparr>tp_access_token_expires_at := a, tp_refresh_token_expires_at := r\<rparr>)))"

record crypto =
  k_verify_password :: "string \<Rightarrow> string \<Rightarrow> bool"
  k_hash_password :: "nat \<Rightarrow> string \<Rightarrow> string"
  k_sha256_hexdigest :: "string \<Rightarrow> string"
  k_token_urlsafe :: "nat \<Rightarrow> string"
  k_issue_token :: "AccessTokenClaims \<Rightarrow> string res"
  k_verify_token :: "string \<Rightarrow> AccessTokenClaims res"

definition next_secret :: "(nat \<Rightarrow> 'a) \<Rightarrow> 'a tx" where
  "next_secret f = (\<lambda>w. (Inr (f (secret_reads w)), w\<lparr>secret_reads := Suc (secret_reads w)\<rparr>))"

definition digest_token :: "crypto \<Rightarrow> string \<Rightarrow> RefreshTokenDigest res" where
  "digest_token K plain_token = RefreshTokenDigest_post_init (k_sha256_hexdigest K plain_token)"

definition lifecycle_timestamp :: "datetime \<Rightarrow> datetime res" where
  "lifecycle_timestamp value =
     to_utc (ValueError ''Session lifecycle timestamp must be timezone-aware.'') value"

definition clock_utc :: "env \<Rightarrow> datetime tx" where
  "clock_utc E = bind (clock_now E) (\<lambda>t. of_res (lifecycle_timestamp t))"

section \<open>Authentication\<close>

record AuthenticatedUser =
  au_user_id :: uuid
  au_email :: string
  au_display_name :: string
  au_is_active :: bool

abbreviation invalid_credentials :: exn where
  "invalid_credentials \<equiv> InvalidCredentialsError ''Invalid email or password.''"

definition AuthenticateUser :: "crypto \<Rightarrow> string \<Rightarrow> string \<Rightarrow> AuthenticatedUser tx" where
  \<comment> \<open>the verification against a dummy hash on the failing branches has no effect on the result\<close>
  "AuthenticateUser K email_text password =
     (case EmailAddress_post_init email_text of
        Inl (InvalidEmailAddress _) \<Rightarrow> raise invalid_credentials
      | Inl e \<Rightarrow> raise e
      | Inr email \<Rightarrow>
          bind (user_get_by_normalized_email (e_normalized email)) (\<lambda>found.
          case found of
            None \<Rightarrow> raise invalid_credentials
          | Some user \<Rightarrow>
              bind (credential_get_by_user_id (u_id user)) (\<lambda>credential.
              case credential of
                None \<Rightarrow> raise invalid_credentials
              | Some c \<Rightarrow>
                  if \<not> k_verify_password K password (pc_password_hash c) then
                    raise invalid_credentials
                  else if \<not> u_is_active user then
                    raise (UserAuthenticationDisabledError ''User is not allowed to authenticate.'')
                  else ret \<lparr>au_user_id = u_id user, au_email = e_normalized (u_email user),
                            au_display_name = u_display_name user,
                            au_is_active = u_is_active user\<rparr>)))"

definition validate_password_policy :: "string \<Rightarrow> unit res" where
  "validate_password_policy password =
     bind_res (raise_if (length password < 12)
       (InvalidPasswordError (''Password must be at least '' @ nat_str 12 @ '' characters.''))) (\<lambda>_.
     raise_if (256 < length password)
       (InvalidPasswordError (''Password must be at most '' @ nat_str 256 @ '' characters.'')))"

definition SetUserPassword ::
  "env \<Rightarrow> crypto \<Rightarrow> uuid \<Rightarrow> string \<Rightarrow> AuditRequestContext option \<Rightarrow> datetime option \<Rightarrow>
   PasswordCredential tx" where
  "SetUserPassword E K user_id password audit_context now =
     bind (of_res (validate_password_policy password)) (\<lambda>_.
     bind (user_get_by_id user_id) (\<lambda>user.
     if user = None then raise (MissingIdentityReferenceError ''User does not exist.'')
     else
       bind (case now of None \<Rightarrow> clock_now E | Some t \<Rightarrow> ret t) (\<lambda>t.
       let timestamp = astimezone_utc t in
       bind (next_secret (\<lambda>n. k_hash_password K n password)) (\<lambda>password_hash.
       bind (credential_get_by_user_id user_id) (\<lambda>existing.
       bind (of_res (case existing of
           Some c \<Rightarrow> PasswordCredential_replace_hash c password_hash timestamp
         | None \<Rightarrow> PasswordCredential_post_init
             \<lparr>pc_user_id = user_id, pc_password_hash = password_hash, pc_created_at = timestamp,
              pc_updated_at = timestamp\<rparr>)) (\<lambda>credential.
       bind (credential_set_for_user credential) (\<lambda>saved.
       bind (uuid4 E) (\<lambda>event_id.
       bind (of_res (AuditEvent_create event_id
         (if existing \<noteq> None then CREDENTIAL_PASSWORD_REPLACED else CREDENTIAL_PASSWORD_SET)
         SUCCESS timestamp (Some user_id) None None audit_context None)) (\<lambda>event.
       bind (audit_record E event) (\<lambda>_. ret saved))))))))))"

section \<open>Session use cases\<close>

definition record_event ::
  "env \<Rightarrow> AuditEventType \<Rightarrow> AuditOutcome \<Rightarrow> datetime \<Rightarrow> uuid option \<Rightarrow> uuid option \<Rightarrow>
   AuditRequestContext option \<Rightarrow> metadata option \<Rightarrow> unit tx" where
  \<comment> \<open>the calls \<^verbatim>\<open>self._audit.record(AuditEvent.create(id=self._ids.new_uuid(), ...))\<close>\<close>
  "record_event E event_type outcome occurred_at actor_user_id session_id request_context metadata =
     bind (uuid4 E) (\<lambda>event_id.
     bind (of_res (AuditEvent_create event_id event_type outcome occurred_at actor_user_id None
       session_id request_context metadata)) (audit_record E))"

definition new_refresh_credential :: "crypto \<Rightarrow> (string \<times> RefreshTokenDigest) tx" where
  "new_refresh_credential K =
     bind (next_secret (k_token_urlsafe K)) (\<lambda>token.
     bind (of_res (digest_token K token)) (\<lambda>digest. ret (token, digest)))"

definition issue_access_token ::
  "env \<Rightarrow> crypto \<Rightarrow> SessionLifecyclePolicy \<Rightarrow> uuid \<Rightarrow> SessionId \<Rightarrow> datetime \<Rightarrow> (string \<times> datetime) tx" where
  "issue_access_token E K policy user_id session_id issued_at =
     (let expires_at = plus_timedelta issued_at (sp_access_token_lifetime policy) in
      bind (uuid4 E) (\<lambda>token_id.
      bind (of_res (AccessTokenClaims_post_init
        \<lparr>tc_user_id = user_id, tc_session_id = session_id, tc_token_id = token_id,
         tc_issued_at = issued_at, tc_expires_at = expires_at\<rparr>)) (\<lambda>claims.
      bind (of_res (k_issue_token K claims)) (\<lambda>token. ret (token, expires_at)))))"

definition rollback_and_reraise :: "'a tx \<Rightarrow> 'a tx" where
  "rollback_and_reraise m = try_except m (\<lambda>e. bind rollback (\<lambda>_. raise e))"

definition StartUserSession ::
  "env \<Rightarrow> crypto \<Rightarrow> SessionLifecyclePolicy \<Rightarrow> string \<Rightarrow> string \<Rightarrow> AuditRequestContext option \<Rightarrow> TokenPair tx" where
  "StartUserSession E K policy email password audit_context =
     rollback_and_reraise (
       bind (AuthenticateUser K email password) (\<lambda>user.
       bind (clock_utc E) (\<lambda>issued_at.
       bind (uuid4 E) (\<lambda>sid.
       bind (of_res (SessionId_post_init sid)) (\<lambda>session_id.
       let session_expires_at = plus_timedelta issued_at (sp_session_lifetime policy);
           refresh_expires_at = plus_timedelta issued_at (sp_refresh_token_lifetime policy) in
       bind (of_res (AuthSession_create session_id (au_user_id user) issued_at session_expires_at))
         (\<lambda>session.
       bind (new_refresh_credential K) (\<lambda>(refresh_token, refresh_digest).
       bind (uuid4 E) (\<lambda>tid.
       bind (of_res (RefreshTokenId_post_init tid)) (\<lambda>token_id.
       bind (uuid4 E) (\<lambda>fid.
       bind (of_res (RefreshTokenFamilyId_post_init fid)) (\<lambda>family_id.
       bind (of_res (RefreshTokenRecord_issue_initial token_id session_id family_id refresh_digest
         issued_at refresh_expires_at)) (\<lambda>refresh_record.
       bind (issue_access_token E K policy (au_user_id user) session_id issued_at)
         (\<lambda>(access_token, access_expires_at).
       bind (session_add session refresh_record) (\<lambda>_.
       bind (record_event E AUTHENTICATION_LOGIN_SUCCEEDED SUCCESS issued_at (Some (au_user_id user))
         (Some (SessionId_value session_id)) audit_context None) (\<lambda>_.
       bind (record_event E SESSION_CREATED SUCCESS issued_at (Some (au_user_id user))
         (Some (SessionId_value session_id)) audit_context None) (\<lambda>_.
       bind commit (\<lambda>_.
       of_res (TokenPair_post_init
         \<lparr>tp_access_token = access_token, tp_refresh_token = refresh_token,
          tp_token_type = ''Bearer'', tp_session_id = session_id,
          tp_access_token_expires_at = access_expires_at,
          tp_refresh_token_expires_at = refresh_expires_at\<rparr>))))))))))))))))))"

definition refresh_body ::
  "env \<Rightarrow> crypto \<Rightarrow> SessionLifecyclePolicy \<Rightarrow> string \<Rightarrow> AuditRequestContext option \<Rightarrow> TokenPair tx" where
  \<comment> \<open>the \<^verbatim>\<open>try\<close> body of \<^verbatim>\<open>RefreshSession.__call__\<close>, with the token pair it leaves in its locals\<close>
  "refresh_body E K policy refresh_token audit_context =
     bind (clock_utc E) (\<lambda>rotated_at.
     bind (of_res (digest_token K refresh_token)) (\<lambda>digest.
     bind (session_get_refresh_token_by_digest digest) (\<lambda>found.
     case found of
       None \<Rightarrow> raise (InvalidRefreshTokenError ''Refresh token is invalid.'')
     | Some current \<Rightarrow>
         if rt_used_at current \<noteq> None \<or> rt_replaced_by_token_id current \<noteq> None then
           bind (session_revoke (rt_session_id current) rotated_at) (\<lambda>_.
           bind (record_event E SESSION_REFRESH_REPLAY_DETECTED REPLAY_DETECTED rotated_at None
             (Some (SessionId_value (rt_session_id current))) audit_context None) (\<lambda>_.
           bind (record_event E SESSION_REVOKED SUCCESS rotated_at None
             (Some (SessionId_value (rt_session_id current))) audit_context
             (Some [(''reason'', VStr ''refresh_replay'')])) (\<lambda>_.
           bind commit (\<lambda>_.
           raise (RefreshTokenReplayError ''Refresh token replay was detected.'')))))
         else if rt_revoked_at current \<noteq> None then
           raise (InvalidRefreshTokenError ''Refresh token is invalid.'')
         else
           bind (of_res (RefreshTokenRecord_is_expired current rotated_at)) (\<lambda>expired.
           if expired then raise (ExpiredRefreshTokenError ''Refresh token has expired.'')
           else
             bind (session_get_active_by_id (rt_session_id current) rotated_at) (\<lambda>active.
             case active of
               None \<Rightarrow> raise (InvalidRefreshTokenError ''Refresh token is invalid.'')
             | Some session \<Rightarrow>
                 bind (new_refresh_credential K) (\<lambda>(new_token, new_digest).
                 bind (uuid4 E) (\<lambda>tid.
                 bind (of_res (RefreshTokenId_post_init tid)) (\<lambda>token_id.
                 bind (of_res (RefreshTokenRecord_replacement current token_id new_digest rotated_at
                   (min_datetime (plus_timedelta rotated_at (sp_refresh_token_lifetime policy))
                     (s_expires_at session)))) (\<lambda>replacement.
                 bind (issue_access_token E K policy (s_user_id session) (s_id session) rotated_at)
                   (\<lambda>(access_token, access_expires_at).
                 bind (session_rotate_refresh_token (s_id session) digest (rt_generation current)
                   replacement rotated_at) (\<lambda>_.
                 bind (record_event E SESSION_REFRESHED SUCCESS rotated_at (Some (s_user_id session))
                   (Some (SessionId_value (s_id session))) audit_context None) (\<lambda>_.
                 bind commit (\<lambda>_.
                 ret \<lparr>tp_access_token = access_token, tp_refresh_token = new_token,
                      tp_token_type = ''Bearer'', tp_session_id = s_id session,
                      tp_access_token_expires_at = access_expires_at,
                      tp_refresh_token_expires_at = rt_expires_at replacement\<rparr>)))))))))))))"

definition RefreshSession ::
  "env \<Rightarrow> crypto \<Rightarrow> SessionLifecyclePolicy \<Rightarrow> string \<Rightarrow> AuditRequestContext option \<Rightarrow> TokenPair tx" where
  "RefreshSession E K policy refresh_token audit_context =
     bind (try_except (refresh_body E K policy refresh_token audit_context)
       (\<lambda>e. case e of
           RefreshTokenReplayError m \<Rightarrow> raise e
         | _ \<Rightarrow> bind rollback (\<lambda>_. raise e)))
       (\<lambda>p. of_res (TokenPair_post_init p))"

definition LogoutSession :: "env \<Rightarrow> uuid \<Rightarrow> SessionId \<Rightarrow> AuditRequestContext option \<Rightarrow> unit tx" where
  "LogoutSession E user_id session_id audit_context =
     rollback_and_reraise (
       bind (session_get_by_id session_id) (\<lambda>found.
       case found of
         None \<Rightarrow> raise (SessionNotFoundError ''Session does not exist.'')
       | Some session \<Rightarrow>
           if s_user_id session \<noteq> user_id then
             raise (SessionOwnershipError ''Session does not belong to the user.'')
           else
             bind (clock_utc E) (\<lambda>revoked_at.
             bind (session_revoke session_id revoked_at) (\<lambda>_.
             bind (record_event E SESSION_REVOKED SUCCESS revoked_at (Some user_id)
               (Some (SessionId_value session_id)) audit_context None) (\<lambda>_.
             bind commit (\<lambda>_. ret ()))))))"

definition LogoutAllSessions ::
  "env \<Rightarrow> uuid \<Rightarrow> SessionId option \<Rightarrow> AuditRequestContext option \<Rightarrow> nat tx" where
  "LogoutAllSessions E user_id session_id audit_context =
     rollback_and_reraise (
       bind (clock_utc E) (\<lambda>revoked_at.
       bind (session_revoke_all_for_user user_id revoked_at) (\<lambda>revoked.
       bind (record_event E SESSION_REVOKED_ALL SUCCESS revoked_at (Some user_id)
         (map_option SessionId_value session_id) audit_context
         (Some [(''revoked_sessions'', VInt (int revoked))])) (\<lambda>_.
       bind commit (\<lambda>_. ret revoked)))))"

definition VerifyAccessToken :: "env \<Rightarrow> crypto \<Rightarrow> string \<Rightarrow> AccessTokenClaims tx" where
  "VerifyAccessToken E K token =
     bind (of_res (k_verify_token K token)) (\<lambda>claims.
     bind (clock_utc E) (\<lambda>at.
     bind (session_get_active_by_id (tc_session_id claims) at) (\<lambda>active.
     case active of
       None \<Rightarrow> raise (InvalidAccessTokenError ''Access token is invalid.'')
     | Some session \<Rightarrow>
         if s_user_id session \<noteq> tc_user_id claims then
           raise (InvalidAccessTokenError ''Access token is invalid.'')
         else of_res (VerifiedAccessPrincipal_post_init claims))))"

end
