(* ===== verification/Session_Safety.thy ===== *)
theory Session_Safety
  imports Session_Lifecycle
begin

text \<open>
  Safety of refresh-token rotation. The table invariant \<open>token_inv\<close> says that a session has at
  most one open refresh token and a revoked session none; every session request keeps it,
  whatever its outcome. From it follow the replay and logout properties.
\<close>

section \<open>The token invariant\<close>

definition open_token :: "RefreshTokenRecord \<Rightarrow> bool" where
  "open_token r \<longleftrightarrow> rt_used_at r = None \<and> rt_revoked_at r = None"

definition session_open :: "db \<Rightarrow> SessionId \<Rightarrow> bool" where
  "session_open d i \<longleftrightarrow> (\<exists>s \<in> set (auth_sessions d). s_id s = i \<and> s_revoked_at s = None)"

text \<open>\<open>token_inv_upto S\<close> exempts the sessions in \<open>S\<close>, whose open tokens are still to be revoked.\<close>

definition token_inv_upto :: "SessionId set \<Rightarrow> db \<Rightarrow> bool" where
  "token_inv_upto S d \<longleftrightarrow>
     distinct (map s_id (auth_sessions d)) \<and>
     distinct (map rt_token_digest (refresh_tokens d)) \<and>
     (\<forall>r \<in> set (refresh_tokens d). rt_session_id r \<in> s_id ` set (auth_sessions d)) \<and>
     (\<forall>r \<in> set (refresh_tokens d). rt_used_at r = None \<longleftrightarrow> rt_replaced_by_token_id r = None) \<and>
     (\<forall>r \<in> set (refresh_tokens d). open_token r \<and> rt_session_id r \<notin> S \<longrightarrow>
        session_open d (rt_session_id r)) \<and>
     (\<forall>r \<in> set (refresh_tokens d). \<forall>q \<in> set (refresh_tokens d).
        open_token r \<and> open_token q \<and> rt_session_id r = rt_session_id q \<longrightarrow>
        rt_token_digest r = rt_token_digest q)"

abbreviation token_inv :: "db \<Rightarrow> bool" where
  "token_inv \<equiv> token_inv_upto {}"

lemma token_inv_audit [simp]: "token_inv (d\<lparr>audit_events := a\<rparr>) = token_inv d"
  by (simp add: token_inv_upto_def session_open_def)

lemma token_invD:
  assumes "token_inv_upto S d"
  shows "distinct (map s_id (auth_sessions d))" and "distinct (map rt_token_digest (refresh_tokens d))"
    and "r \<in> set (refresh_tokens d) \<Longrightarrow> rt_session_id r \<in> s_id ` set (auth_sessions d)"
    and "r \<in> set (refresh_tokens d) \<Longrightarrow> rt_used_at r = None \<longleftrightarrow> rt_replaced_by_token_id r = None"
    and "r \<in> set (refresh_tokens d) \<Longrightarrow> open_token r \<Longrightarrow> rt_session_id r \<notin> S \<Longrightarrow> session_open d (rt_session_id r)"
    and "r \<in> set (refresh_tokens d) \<Longrightarrow> q \<in> set (refresh_tokens d) \<Longrightarrow> open_token r \<Longrightarrow>
      open_token q \<Longrightarrow> rt_session_id r = rt_session_id q \<Longrightarrow> rt_token_digest r = rt_token_digest q"
  using assms unfolding token_inv_upto_def by blast+

lemma token_invI:
  assumes "distinct (map s_id (auth_sessions d))" and "distinct (map rt_token_digest (refresh_tokens d))"
    and "\<And>r. r \<in> set (refresh_tokens d) \<Longrightarrow> rt_session_id r \<in> s_id ` set (auth_sessions d)"
    and "\<And>r. r \<in> set (refresh_tokens d) \<Longrightarrow> rt_used_at r = None \<longleftrightarrow> rt_replaced_by_token_id r = None"
    and "\<And>r. r \<in> set (refresh_tokens d) \<Longrightarrow> open_token r \<Longrightarrow> rt_session_id r \<notin> S \<Longrightarrow> session_open d (rt_session_id r)"
    and "\<And>r q. r \<in> set (refresh_tokens d) \<Longrightarrow> q \<in> set (refresh_tokens d) \<Longrightarrow> open_token r \<Longrightarrow>
      open_token q \<Longrightarrow> rt_session_id r = rt_session_id q \<Longrightarrow> rt_token_digest r = rt_token_digest q"
  shows "token_inv_upto S d"
  using assms unfolding token_inv_upto_def by blast

lemma token_inv_add:
  assumes inv: "token_inv d" and v: "session_with_token_violation s t d = None"
    and t: "rt_session_id t = s_id s" "rt_replaced_by_token_id t = None" "rt_used_at t = None"
    and s: "s_revoked_at s = None"
  shows "token_inv (d\<lparr>auth_sessions := auth_sessions d @ [s], refresh_tokens := refresh_tokens d @ [t]\<rparr>)"
proof -
  have fresh: "s_id s \<notin> set (map s_id (auth_sessions d))"
    "rt_token_digest t \<notin> set (map rt_token_digest (refresh_tokens d))"
    using v
    by (auto simp: session_with_token_violation_def session_violation_def token_violation_def
        split: option.splits)
  have other: "rt_session_id r \<noteq> s_id s" if "r \<in> set (refresh_tokens d)" for r
    using token_invD(3) [OF inv that] fresh(1) by auto
  let ?d = "d\<lparr>auth_sessions := auth_sessions d @ [s], refresh_tokens := refresh_tokens d @ [t]\<rparr>"
  have opened: "session_open d i \<Longrightarrow> session_open ?d i" "session_open ?d (s_id s)" for i
    using s by (auto simp: session_open_def)
  show ?thesis
  proof (rule token_invI)
    show "distinct (map s_id (auth_sessions ?d))"
      "distinct (map rt_token_digest (refresh_tokens ?d))"
      using token_invD(1,2) [OF inv] fresh by simp_all
    show "rt_session_id r \<in> s_id ` set (auth_sessions ?d)" if "r \<in> set (refresh_tokens ?d)" for r
      using that token_invD(3) [OF inv] t by auto
    show "rt_used_at r = None \<longleftrightarrow> rt_replaced_by_token_id r = None" if "r \<in> set (refresh_tokens ?d)" for r
      using that token_invD(4) [OF inv] t by auto
    show "session_open ?d (rt_session_id r)" if "r \<in> set (refresh_tokens ?d)" "open_token r" for r
      using that token_invD(5) [OF inv, of r] t opened by auto
    show "rt_token_digest r = rt_token_digest q"
      if "r \<in> set (refresh_tokens ?d)" "q \<in> set (refresh_tokens ?d)" "open_token r" "open_token q"
        "rt_session_id r = rt_session_id q" for r q
    proof -
      have "r = t \<or> r \<in> set (refresh_tokens d)" "q = t \<or> q \<in> set (refresh_tokens d)"
        using that(1,2) by auto
      then have "r = q \<or> r \<in> set (refresh_tokens d) \<and> q \<in> set (refresh_tokens d)"
        using other t(1) that(5) by metis
      then show ?thesis
        using token_invD(6) [OF inv _ _ that(3-5)] by blast
    qed
  qed
qed

lemma distinct_replace_where:
  "(\<And>x. f (g x) = f x) \<Longrightarrow> map f (replace_where P g xs) = map f xs"
  by (simp add: replace_where_def)

lemma no_open_token_left:
  "\<forall>r \<in> set (replace_where (\<lambda>r. rt_session_id r = i \<and> rt_used_at r = None \<and> rt_revoked_at r = None)
     (\<lambda>r. r\<lparr>rt_revoked_at := Some t\<rparr>) rs). open_token r \<longrightarrow> rt_session_id r \<noteq> i"
  unfolding ball_replace_where open_token_def
proof
  fix x assume "x \<in> set rs"
  let ?x = "if rt_session_id x = i \<and> rt_used_at x = None \<and> rt_revoked_at x = None
    then x\<lparr>rt_revoked_at := Some t\<rparr> else x"
  show "rt_used_at ?x = None \<and> rt_revoked_at ?x = None \<longrightarrow> rt_session_id ?x \<noteq> i"
    by (cases "rt_used_at x"; cases "rt_revoked_at x") simp_all
qed

lemma token_inv_revoke_tokens:
  assumes "token_inv_upto S d"
  shows "token_inv_upto (S - {i}) (d\<lparr>refresh_tokens := replace_where
     (\<lambda>r. rt_session_id r = i \<and> rt_used_at r = None \<and> rt_revoked_at r = None)
     (\<lambda>r. r\<lparr>rt_revoked_at := Some t\<rparr>) (refresh_tokens d)\<rparr>)"
proof -
  let ?P = "\<lambda>r. rt_session_id r = i \<and> rt_used_at r = None \<and> rt_revoked_at r = None"
  let ?g = "\<lambda>r. r\<lparr>rt_revoked_at := Some t\<rparr>"
  let ?d = "d\<lparr>refresh_tokens := replace_where ?P ?g (refresh_tokens d)\<rparr>"
  note inv = token_invD [OF assms]
  have orig: "\<exists>x \<in> set (refresh_tokens d). rt_session_id x = rt_session_id r \<and>
      rt_token_digest x = rt_token_digest r \<and> rt_used_at x = rt_used_at r \<and>
      rt_replaced_by_token_id x = rt_replaced_by_token_id r \<and> (open_token r \<longrightarrow> open_token x)"
    if "r \<in> set (refresh_tokens ?d)" for r
  proof -
    from that obtain x where x: "x \<in> set (refresh_tokens d)" "r = (if ?P x then ?g x else x)"
      by (auto simp: in_replace_where)
    then show ?thesis
      by (intro bexI [of _ x]) (simp_all add: open_token_def)
  qed
  show ?thesis
  proof (rule token_invI)
    show "distinct (map s_id (auth_sessions ?d))" using inv(1) by simp
    have "map rt_token_digest (replace_where ?P ?g (refresh_tokens d)) = map rt_token_digest (refresh_tokens d)"
      by (rule distinct_replace_where) simp
    then show "distinct (map rt_token_digest (refresh_tokens ?d))" using inv(2) by simp
    show "rt_session_id r \<in> s_id ` set (auth_sessions ?d)" if "r \<in> set (refresh_tokens ?d)" for r
    proof -
      from orig [OF that] obtain x where "x \<in> set (refresh_tokens d)" "rt_session_id x = rt_session_id r"
        by blast
      then show ?thesis using inv(3) [of x] by simp
    qed
    show "rt_used_at r = None \<longleftrightarrow> rt_replaced_by_token_id r = None" if "r \<in> set (refresh_tokens ?d)" for r
    proof -
      from orig [OF that] obtain x where "x \<in> set (refresh_tokens d)" "rt_used_at x = rt_used_at r"
        "rt_replaced_by_token_id x = rt_replaced_by_token_id r"
        by blast
      then show ?thesis using inv(4) [of x] by simp
    qed
    show "session_open ?d (rt_session_id r)"
      if "r \<in> set (refresh_tokens ?d)" "open_token r" "rt_session_id r \<notin> S - {i}" for r
    proof -
      have "rt_session_id r \<noteq> i"
        using that(1,2) no_open_token_left [of i t "refresh_tokens d"] by simp
      then have "rt_session_id r \<notin> S"
        using that(3) by simp
      moreover from orig [OF that(1)] that(2) obtain x where "x \<in> set (refresh_tokens d)"
        "rt_session_id x = rt_session_id r" "open_token x"
        by blast
      ultimately show ?thesis using inv(5) [of x] by (simp add: session_open_def)
    qed
    show "rt_token_digest r = rt_token_digest q"
      if "r \<in> set (refresh_tokens ?d)" "q \<in> set (refresh_tokens ?d)" "open_token r" "open_token q"
        "rt_session_id r = rt_session_id q" for r q
    proof -
      from orig [OF that(1)] that(3) obtain x where x: "x \<in> set (refresh_tokens d)" "open_token x"
        "rt_session_id x = rt_session_id r" "rt_token_digest x = rt_token_digest r" by blast
      from orig [OF that(2)] that(4) obtain y where y: "y \<in> set (refresh_tokens d)" "open_token y"
        "rt_session_id y = rt_session_id q" "rt_token_digest y = rt_token_digest q" by blast
      have "rt_token_digest x = rt_token_digest y"
        by (rule inv(6) [OF x(1) y(1) x(2) y(2)]) (simp add: x(3) y(3) that(5))
      then show ?thesis by (simp add: x(4) y(4))
    qed
  qed
qed

text \<open>Revoking sessions leaves their open tokens to be revoked.\<close>

lemma token_inv_revoke_sessions:
  assumes inv: "token_inv_upto S d" and g: "\<And>s. s \<in> set (auth_sessions d) \<Longrightarrow> P s \<Longrightarrow> s_id (g s) = s_id s"
    and S': "S \<union> s_id ` {s \<in> set (auth_sessions d). P s} \<subseteq> S'"
  shows "token_inv_upto S' (d\<lparr>auth_sessions := replace_where P g (auth_sessions d)\<rparr>)"
proof -
  have ids: "map s_id (replace_where P g (auth_sessions d)) = map s_id (auth_sessions d)"
    using g by (simp add: replace_where_def)
  then have ids': "s_id ` set (replace_where P g (auth_sessions d)) = s_id ` set (auth_sessions d)"
    by (metis list.set_map)
  let ?d = "d\<lparr>auth_sessions := replace_where P g (auth_sessions d)\<rparr>"
  have still: "session_open ?d (rt_session_id r)"
    if r: "r \<in> set (refresh_tokens d)" "open_token r" "rt_session_id r \<notin> S'" for r
  proof -
    have "rt_session_id r \<notin> S" using r(3) S' by blast
    then obtain s where s: "s \<in> set (auth_sessions d)" "s_id s = rt_session_id r" "s_revoked_at s = None"
      using token_invD(5) [OF inv r(1,2)] by (auto simp: session_open_def)
    then have "\<not> P s"
      using S' r(3) by (metis (mono_tags, lifting) UnI2 image_eqI mem_Collect_eq subsetD)
    with s have "s \<in> set (replace_where P g (auth_sessions d)) \<and> s_id s = rt_session_id r \<and>
        s_revoked_at s = None"
      by (auto simp: in_replace_where)
    then show ?thesis
      unfolding session_open_def by (intro bexI [of _ s]) simp_all
  qed
  show ?thesis
  proof (rule token_invI)
    show "distinct (map s_id (auth_sessions ?d))" using ids token_invD(1) [OF inv] by simp
    show "distinct (map rt_token_digest (refresh_tokens ?d))" using token_invD(2) [OF inv] by simp
    show "rt_session_id r \<in> s_id ` set (auth_sessions ?d)" if "r \<in> set (refresh_tokens ?d)" for r
      using that token_invD(3) [OF inv, of r] ids' by simp
    show "rt_used_at r = None \<longleftrightarrow> rt_replaced_by_token_id r = None" if "r \<in> set (refresh_tokens ?d)" for r
      using that token_invD(4) [OF inv, of r] by simp
    show "session_open ?d (rt_session_id r)"
      if "r \<in> set (refresh_tokens ?d)" "open_token r" "rt_session_id r \<notin> S'" for r
      using that still by simp
    show "rt_token_digest r = rt_token_digest q"
      if "r \<in> set (refresh_tokens ?d)" "q \<in> set (refresh_tokens ?d)" "open_token r" "open_token q"
        "rt_session_id r = rt_session_id q" for r q
      using that token_invD(6) [OF inv, of r q] by simp
  qed
qed

lemma token_inv_mono: "token_inv_upto S d \<Longrightarrow> S \<subseteq> T \<Longrightarrow> token_inv_upto T d"
  by (rule token_invI) (blast dest: token_invD)+

text \<open>A session without open tokens needs no exemption.\<close>

lemma token_inv_drop:
  assumes "token_inv_upto (insert i S) d"
    and "\<And>r. r \<in> set (refresh_tokens d) \<Longrightarrow> open_token r \<Longrightarrow> rt_session_id r \<noteq> i"
  shows "token_inv_upto S d"
proof (rule token_invI)
  fix r assume r: "r \<in> set (refresh_tokens d)" "open_token r" "rt_session_id r \<notin> S"
  then show "session_open d (rt_session_id r)"
    using token_invD(5) [OF assms(1) r(1,2)] assms(2) [OF r(1,2)] by simp
qed (fact token_invD [OF assms(1)])+

lemma hoare_revoke_tokens:
  "hoare C (token_inv_upto S) (revoke_current_refresh_tokens i t)
     (\<lambda>_ d. token_inv_upto (S - {i}) d \<and> (\<forall>r \<in> set (refresh_tokens d). open_token r \<longrightarrow> rt_session_id r \<noteq> i))"
  unfolding revoke_current_refresh_tokens_def
  by (rule hoare_flush, rule conjI, erule token_inv_revoke_tokens) (simp add: no_open_token_left)

lemma keeps_opt_row [keeps_intros]: "keeps I (opt_row f x)"
  unfolding opt_row_def by (rule keeps_basic)

lemma keeps_next_secret [keeps_intros]: "keeps I (next_secret f)"
  by (simp add: keeps_def next_secret_def)

lemma keeps_clock_utc [keeps_intros]: "keeps I (clock_utc E)"
  unfolding clock_utc_def by (intro keeps_intros)

lemma keeps_record_event [keeps_intros]:
  "(\<And>d a. I (d\<lparr>audit_events := a\<rparr>) = I d) \<Longrightarrow> keeps I (record_event E ty out t a s c m)"
  unfolding record_event_def by (intro keeps_intros)

lemma keeps_on_integrity_error:
  "keeps I m \<Longrightarrow> (\<And>c. keeps I (h c)) \<Longrightarrow> keeps I (on_integrity_error m h)"
  unfolding on_integrity_error_def
  by (rule keeps_try_rollback) (auto split: exn.splits)

lemma keeps_lookups [keeps_intros]:
  "keeps I (session_get_by_id i)" "keeps I (session_get_active_by_id i t)"
  "keeps I (session_get_refresh_token_by_digest g)"
  "keeps I (user_get_by_normalized_email n)" "keeps I (user_get_by_id u)"
  "keeps I (credential_get_by_user_id u)"
  unfolding session_get_by_id_def session_get_active_by_id_def session_get_refresh_token_by_digest_def
    user_get_by_normalized_email_def user_get_by_id_def credential_get_by_user_id_def
  by (intro keeps_intros)+

lemma hoare_on_integrity_error:
  assumes m: "hoare C P m Q" and h: "\<And>c w. \<exists>e. h c w = (Inl e, w)"
  shows "hoare C P (on_integrity_error m h) Q"
  unfolding on_integrity_error_def
proof (rule hoareI)
  fix w x w'
  let ?h = "\<lambda>e. case e of IntegrityError c \<Rightarrow> bind rollback (\<lambda>_. h c) | _ \<Rightarrow> raise e"
  assume C: "C (committed w)" "P (working w)" and t: "try_except m ?h w = (Inr x, w')"
  from t show "C (committed w') \<and> Q x (working w')"
  proof (cases rule: try_except_cases)
    case (1 y)
    then show ?thesis using hoareD(1) [OF m C 1(1)] by simp
  next
    case (2 e w1)
    show ?thesis
    proof (cases "\<exists>c. e = IntegrityError c")
      case True
      then obtain c where "e = IntegrityError c" ..
      then show ?thesis using 2(2) h [of c "w1\<lparr>working := committed w1\<rparr>"] by auto
    qed (use 2(2) in \<open>cases e; auto simp: eff_simps\<close>)
  qed
next
  fix w e' w'
  let ?h = "\<lambda>e. case e of IntegrityError c \<Rightarrow> bind rollback (\<lambda>_. h c) | _ \<Rightarrow> raise e"
  assume C: "C (committed w)" "P (working w)" and t: "try_except m ?h w = (Inl e', w')"
  from t show "C (committed w')"
  proof (cases rule: try_except_cases)
    case (2 e w1)
    have "C (committed w1)" using hoareD(2) [OF m C 2(1)] .
    moreover have "committed w' = committed w1"
    proof (cases "\<exists>c. e = IntegrityError c")
      case True
      then obtain c where "e = IntegrityError c" ..
      then show ?thesis using 2(2) h [of c "w1\<lparr>working := committed w1\<rparr>"] by auto
    qed (use 2(2) in \<open>cases e; auto simp: eff_simps\<close>)
    ultimately show ?thesis by simp
  qed simp
qed

lemma raise_integrity_errors:
  "\<exists>e. raise_session_integrity_error c w = (Inl e, w)"
  "\<exists>e. raise_refresh_token_integrity_error c w = (Inl e, w)"
  by (simp_all add: raise_session_integrity_error_def raise_refresh_token_integrity_error_def eff_simps)

lemma hoare_session_add:
  assumes "rt_session_id t = s_id s" "rt_replaced_by_token_id t = None" "rt_used_at t = None"
    "s_revoked_at s = None"
  shows "hoare token_inv token_inv (session_add s t) (\<lambda>_. token_inv)"
  unfolding session_add_def
  by (rule hoare_bind, rule hoare_on_integrity_error, rule hoare_flush, rule token_inv_add,
      assumption, assumption, rule assms, rule assms, rule assms, rule assms,
      rule raise_integrity_errors, rule hoare_of_res, assumption)

text \<open>Rotation: the replacement is inserted open, and the consumed token closed with it.\<close>

abbreviation mark_rotated :: "RefreshTokenRecord \<Rightarrow> datetime \<Rightarrow> RefreshTokenRecord \<Rightarrow> RefreshTokenRecord" where
  "mark_rotated new t r \<equiv> r\<lparr>rt_used_at := Some t, rt_replaced_by_token_id := Some (rt_id new)\<rparr>"

lemma in_rotated:
  assumes "y \<in> set (replace_where P (mark_rotated new t) (rs @ [new]))" and "\<not> P new"
  obtains x where "x \<in> set rs" "P x" "y = mark_rotated new t x"
    | "y \<in> set rs" "\<not> P y" | "y = new"
  using assms by (auto simp: in_replace_where split: if_splits)

lemma token_inv_rotate:
  assumes inv: "token_inv d" and v: "token_violation new d = None"
    and new: "rt_session_id new = i" "rt_used_at new = None" "rt_replaced_by_token_id new = None"
    and r0: "r0 \<in> set (refresh_tokens d)" "P r0"
    and P: "\<And>r. P r \<Longrightarrow> open_token r \<and> rt_session_id r = i" "\<not> P new" "session_open d i"
  shows "token_inv (d\<lparr>refresh_tokens := replace_where P (mark_rotated new t) (refresh_tokens d @ [new])\<rparr>)"
proof -
  let ?rs = "replace_where P (mark_rotated new t) (refresh_tokens d @ [new])"
  let ?d = "d\<lparr>refresh_tokens := ?rs\<rparr>"
  note inv' = token_invD [OF inv]
  have i: "i \<in> s_id ` set (auth_sessions d)"
    using inv'(3) [OF r0(1)] P(1) [OF r0(2)] by simp
  have closed: "\<not> open_token (mark_rotated new t x)" for x
    by (simp add: open_token_def)
  have unmatched: False if "y \<in> set (refresh_tokens d)" "\<not> P y" "open_token y" "rt_session_id y = i" for y
  proof -
    have "rt_token_digest y = rt_token_digest r0"
      using inv'(6) [OF that(1) r0(1)] that P(1) [OF r0(2)] by simp
    then have "y = r0"
      using inv'(2) that(1) r0(1) by (simp add: distinct_map inj_on_def)
    then show False using that(2) r0(2) by simp
  qed
  show ?thesis
  proof (rule token_invI)
    show "distinct (map s_id (auth_sessions ?d))" using inv'(1) by simp
    have "map rt_token_digest ?rs = map rt_token_digest (refresh_tokens d @ [new])"
      by (rule distinct_replace_where) simp
    moreover have "rt_token_digest new \<notin> set (map rt_token_digest (refresh_tokens d))"
      using v by (simp add: token_violation_def)
    ultimately show "distinct (map rt_token_digest (refresh_tokens ?d))" using inv'(2) by simp
  next
    fix r assume r: "r \<in> set (refresh_tokens ?d)"
    then have r': "r \<in> set ?rs" by simp
    show "rt_session_id r \<in> s_id ` set (auth_sessions ?d)"
      by (rule in_rotated [OF r' P(2)]) (use i new inv'(3) in auto)
    show "rt_used_at r = None \<longleftrightarrow> rt_replaced_by_token_id r = None"
      by (rule in_rotated [OF r' P(2)]) (use new inv'(4) in simp_all)
    show "session_open ?d (rt_session_id r)" if "open_token r"
      by (rule in_rotated [OF r' P(2)])
        (use that closed new P(3) inv'(5) in \<open>auto simp: session_open_def\<close>)
  next
    fix r q
    assume rq: "r \<in> set (refresh_tokens ?d)" "q \<in> set (refresh_tokens ?d)" "open_token r" "open_token q"
      "rt_session_id r = rt_session_id q"
    have r': "r \<in> set (refresh_tokens d) \<and> \<not> P r \<or> r = new"
      by (rule in_rotated [of r P new t "refresh_tokens d"]) (use rq P(2) closed in auto)
    have q': "q \<in> set (refresh_tokens d) \<and> \<not> P q \<or> q = new"
      by (rule in_rotated [of q P new t "refresh_tokens d"]) (use rq P(2) closed in auto)
    have "r = q \<or> r \<in> set (refresh_tokens d) \<and> q \<in> set (refresh_tokens d)"
      using r' q' unmatched rq(3-5) new(1) by metis
    then show "rt_token_digest r = rt_token_digest q"
      using inv'(6) rq(3-5) by blast
  qed
qed

lemma hoare_rotate:
  assumes new: "rt_session_id new = i" "rt_used_at new = None" "rt_replaced_by_token_id new = None"
    and g: "rt_token_digest new \<noteq> g"
  shows "hoare token_inv token_inv (session_rotate_refresh_token i g n new t) (\<lambda>_. token_inv)"
  unfolding session_rotate_refresh_token_def
proof (rule hoare_bind_of_res, rule hoare_bind, rule hoare_on_integrity_error)
  let ?added = "\<lambda>d. d\<lparr>refresh_tokens := refresh_tokens d @ [new]\<rparr>"
  let ?Q1 = "\<lambda>d1. \<exists>d. token_inv d \<and> token_violation new d = None \<and> d1 = ?added d"
  let ?hits = "\<lambda>d. filter (rotation_match d i g n t) (refresh_tokens d)"
  show "hoare token_inv token_inv (flush (token_violation new) ?added) (\<lambda>_. ?Q1)"
    by (rule hoare_flush) blast
  show "\<exists>e. raise_refresh_token_integrity_error c w = (Inl e, w)" for c w
    by (rule raise_integrity_errors)
  let ?upd = "\<lambda>d. d\<lparr>refresh_tokens := replace_where (rotation_match d i g n t) (mark_rotated new t) (refresh_tokens d)\<rparr>"
  have rotated: "token_inv (?upd d1)" if "?Q1 d1" and one: "length (?hits d1) = 1" for d1
  proof -
    from that(1) obtain d where d: "token_inv d" "token_violation new d = None" "d1 = ?added d" by blast
    from one obtain r0 where "r0 \<in> set (?hits d1)" by (cases "?hits d1") auto
    then have r0: "r0 \<in> set (refresh_tokens d1)" "rotation_match d1 i g n t r0" by simp_all
    have no: "\<not> rotation_match d1 i g n t new" using g by (simp add: rotation_match_def)
    then have r0': "r0 \<in> set (refresh_tokens d)" using r0 d(3) by auto
    have op: "session_open d i" using r0(2) d(3) by (auto simp: rotation_match_def session_open_def)
    have m: "open_token r \<and> rt_session_id r = i" if "rotation_match d1 i g n t r" for r
      using that by (simp add: rotation_match_def open_token_def)
    show ?thesis
      using token_inv_rotate [OF d(1,2) new r0' r0(2) m no op] d(3) by simp
  qed
  show "hoare token_inv ?Q1 (bind (query (\<lambda>d. length (?hits d))) (\<lambda>rowcount.
     bind (flush
       (\<lambda>d. first_violation [(''ck_refresh_tokens_used_after_issued'',
          \<exists>r \<in> set (refresh_tokens d). rotation_match d i g n t r \<and> \<not> rt_issued_at r \<le> t)]) ?upd) (\<lambda>_.
     if rowcount \<noteq> 1 then
       bind rollback (\<lambda>_. raise (RefreshRotationConflictError
         ''Refresh token rotation state is stale or invalid.''))
     else of_res (refresh_token_from_record new)))) (\<lambda>_. token_inv)"
  proof (rule hoare_bind)
    show "hoare token_inv ?Q1 (query (\<lambda>d. length (?hits d))) (\<lambda>k d. ?Q1 d \<and> k = length (?hits d))"
      by (rule hoare_query) blast
  next
    fix k
    show "hoare token_inv (\<lambda>d. ?Q1 d \<and> k = length (?hits d)) (bind (flush
       (\<lambda>d. first_violation [(''ck_refresh_tokens_used_after_issued'',
          \<exists>r \<in> set (refresh_tokens d). rotation_match d i g n t r \<and> \<not> rt_issued_at r \<le> t)]) ?upd) (\<lambda>_.
     if k \<noteq> 1 then
       bind rollback (\<lambda>_. raise (RefreshRotationConflictError
         ''Refresh token rotation state is stale or invalid.''))
     else of_res (refresh_token_from_record new))) (\<lambda>_. token_inv)"
      by (rule hoare_bind [where Q = "\<lambda>_ d. k = 1 \<longrightarrow> token_inv d"], rule hoare_flush)
        (use rotated in \<open>auto intro!: hoare_if hoare_rollback_raise hoare_of_res\<close>)
  qed
qed

lemma auth_session_from_record_frame:
  "auth_session_from_record r = Inr s \<Longrightarrow> s_id s = s_id r \<and> s_user_id s = s_user_id r \<and>
     (s_revoked_at s = None \<longleftrightarrow> s_revoked_at r = None)"
  by (auto simp: auth_session_from_record_def SessionId_post_init_def validate_uuid_def
      dest: AuthSession_post_init_frame)

lemma digest_hex_normal:
  assumes "digest_hex s"
  shows "lower (strip s) = s"
proof -
  have hex: "\<not> is_space c \<and> lower_char c = c" if "is_hex c" for c
    using that by (auto simp: is_hex_def is_space_def lower_char_def)
  have s: "s \<noteq> []" "\<forall>c \<in> set s. is_hex c"
    using assms by (auto simp: digest_hex_def list_all_iff)
  have "strip s = s"
    by (rule strip_id) (use s hex in simp_all)
  moreover have "lower s = s"
    using s(2) hex by (simp add: lower_def map_idI)
  ultimately show ?thesis by simp
qed

lemma digest_reread:
  "RefreshTokenDigest_post_init v = Inr g \<Longrightarrow> RefreshTokenDigest_post_init (RefreshTokenDigest_value g) = Inr g"
  by (auto simp: RefreshTokenDigest_post_init_def Let_def digest_hex_normal split: if_splits)

lemma token_ids:
  "RefreshTokenId_post_init (RefreshTokenId_value a) = Inr a' \<longleftrightarrow> a' = a \<and> RefreshTokenId_value a \<noteq> 0"
  "SessionId_post_init (SessionId_value b) = Inr b' \<longleftrightarrow> b' = b \<and> SessionId_value b \<noteq> 0"
  "RefreshTokenFamilyId_post_init (RefreshTokenFamilyId_value f) = Inr f' \<longleftrightarrow>
     f' = f \<and> RefreshTokenFamilyId_value f \<noteq> 0"
  by (auto simp: RefreshTokenId_post_init_def SessionId_post_init_def
      RefreshTokenFamilyId_post_init_def validate_uuid_def)

lemma refresh_token_from_record_frame:
  assumes "refresh_token_from_record r = Inr c"
  shows "RefreshTokenDigest_post_init (RefreshTokenDigest_value (rt_token_digest r)) = Inr (rt_token_digest c) \<and>
     rt_session_id c = rt_session_id r \<and>
     (rt_used_at c = None \<longleftrightarrow> rt_used_at r = None) \<and>
     rt_replaced_by_token_id c = rt_replaced_by_token_id r"
proof -
  from assms obtain g x where
    g: "RefreshTokenDigest_post_init (RefreshTokenDigest_value (rt_token_digest r)) = Inr g"
    and x: "opt_res (\<lambda>t. RefreshTokenId_post_init (RefreshTokenId_value t)) (rt_replaced_by_token_id r) = Inr x"
    and p: "RefreshTokenRecord_post_init
       (r\<lparr>rt_token_digest := g, rt_issued_at := astimezone_utc (rt_issued_at r),
          rt_expires_at := astimezone_utc (rt_expires_at r),
          rt_used_at := map_option astimezone_utc (rt_used_at r),
          rt_revoked_at := map_option astimezone_utc (rt_revoked_at r),
          rt_replaced_by_token_id := x\<rparr>) = Inr c"
    by (auto simp: refresh_token_from_record_def token_ids)
  have "x = rt_replaced_by_token_id r"
    using x by (cases "rt_replaced_by_token_id r") (auto simp: token_ids)
  then show ?thesis
    using RefreshTokenRecord_post_init_frame [OF p] g by simp
qed

lemma auth_session_revoked:
  assumes "bind_res (auth_session_from_record r) (\<lambda>s. AuthSession_revoke s t) = Inr s'"
  shows "s_id s' = s_id r" and "s_revoked_at s' \<noteq> None"
proof -
  from assms obtain s where s: "auth_session_from_record r = Inr s" "AuthSession_revoke s t = Inr s'"
    by auto
  from s(1) have "s_id s = s_id r"
    by (simp add: auth_session_from_record_frame)
  moreover have "s_id s' = s_id s \<and> s_revoked_at s' \<noteq> None"
  proof (cases "s_revoked_at s")
    case None
    then obtain u where "AuthSession_post_init (s\<lparr>s_updated_at := u, s_revoked_at := Some u\<rparr>) = Inr s'"
      using s(2) by (auto simp: AuthSession_revoke_def)
    from AuthSession_post_init_frame [OF this] show ?thesis by simp
  qed (use s(2) in \<open>simp add: AuthSession_revoke_def\<close>)
  ultimately show "s_id s' = s_id r" and "s_revoked_at s' \<noteq> None" by simp_all
qed

lemma not_session_open:
  "\<not> session_open d i \<longleftrightarrow> (\<forall>s \<in> set (auth_sessions d). s_id s = i \<longrightarrow> s_revoked_at s \<noteq> None)"
  by (auto simp: session_open_def)

lemma not_open_after_replace:
  "s_revoked_at s \<noteq> None \<Longrightarrow>
     \<not> session_open (d\<lparr>auth_sessions := replace_where (\<lambda>x. s_id x = i) (\<lambda>_. s) (auth_sessions d)\<rparr>) i"
  unfolding not_session_open by (simp add: ball_replace_where)

lemma hoare_session_revoke:
  "hoare C token_inv (session_revoke i t) (\<lambda>_ d. token_inv d \<and> \<not> session_open d i)"
  unfolding session_revoke_def
proof (rule hoare_bind)
  let ?row = "\<lambda>d. find (\<lambda>s. s_id s = i) (auth_sessions d)"
  show "hoare C token_inv (query ?row) (\<lambda>x d. token_inv d \<and> x = ?row d)"
    by (rule hoare_query) simp
  fix x
  show "hoare C (\<lambda>d. token_inv d \<and> x = ?row d) (case x of
       None \<Rightarrow> raise (SessionNotFoundError ''Session does not exist.'')
     | Some r \<Rightarrow>
         bind (of_res (bind_res (auth_session_from_record r) (\<lambda>s. AuthSession_revoke s t))) (\<lambda>session.
         bind (revoke_current_refresh_tokens i t) (\<lambda>_.
         bind (execute (\<lambda>d. d\<lparr>auth_sessions :=
             replace_where (\<lambda>s. s_id s = i) (\<lambda>_. session) (auth_sessions d)\<rparr>)) (\<lambda>_.
         of_res (auth_session_from_record session))))) (\<lambda>_ d. token_inv d \<and> \<not> session_open d i)"
  proof (rule hoare_option [OF hoare_raise], rule hoare_bind)
    fix r
    assume x: "x = Some r"
    let ?Q = "\<lambda>s' d. token_inv d \<and> s_id s' = i \<and> s_revoked_at s' \<noteq> None"
    show "hoare C (\<lambda>d. token_inv d \<and> x = ?row d)
        (of_res (bind_res (auth_session_from_record r) (\<lambda>s. AuthSession_revoke s t))) ?Q"
    proof (rule hoare_of_res)
      fix s' d
      assume r: "bind_res (auth_session_from_record r) (\<lambda>s. AuthSession_revoke s t) = Inr s'"
        and d: "token_inv d \<and> x = ?row d"
      have "s_id r = i"
        using find_SomeD [of "\<lambda>s. s_id s = i" "auth_sessions d" r] x d by simp
      then show "?Q s' d"
        using auth_session_revoked [OF r] d by simp
    qed
    fix s' :: AuthSession
    let ?Q2 = "\<lambda>_ d. token_inv d \<and> (\<forall>r \<in> set (refresh_tokens d). open_token r \<longrightarrow> rt_session_id r \<noteq> i) \<and>
      s_id s' = i \<and> s_revoked_at s' \<noteq> None"
    show "hoare C (?Q s') (bind (revoke_current_refresh_tokens i t) (\<lambda>_.
         bind (execute (\<lambda>d. d\<lparr>auth_sessions :=
             replace_where (\<lambda>s. s_id s = i) (\<lambda>_. s') (auth_sessions d)\<rparr>)) (\<lambda>_.
         of_res (auth_session_from_record s')))) (\<lambda>_ d. token_inv d \<and> \<not> session_open d i)"
    proof (rule hoare_bind [where Q = ?Q2])
      show "hoare C (?Q s') (revoke_current_refresh_tokens i t) ?Q2"
      proof (rule hoare_pre)
        fix d assume "?Q s' d"
        then show "hoare C (\<lambda>e. e = d) (revoke_current_refresh_tokens i t) ?Q2"
          by (intro hoare_conseq [OF hoare_revoke_tokens [of C "{}" i t]]) simp_all
      qed
      show "hoare C (?Q2 u) (bind (execute (\<lambda>d. d\<lparr>auth_sessions :=
             replace_where (\<lambda>s. s_id s = i) (\<lambda>_. s') (auth_sessions d)\<rparr>)) (\<lambda>_.
         of_res (auth_session_from_record s'))) (\<lambda>_ d. token_inv d \<and> \<not> session_open d i)" for u
      proof (rule hoare_bind, rule hoare_execute)
        fix d :: db
        let ?d = "d\<lparr>auth_sessions := replace_where (\<lambda>s. s_id s = i) (\<lambda>_. s') (auth_sessions d)\<rparr>"
        assume Q2: "?Q2 u d"
        then have "token_inv_upto {i} ?d"
          by (intro token_inv_revoke_sessions [where S = "{}"]) auto
        then have "token_inv ?d"
          by (rule token_inv_drop) (use Q2 in simp)
        then show "token_inv ?d \<and> \<not> session_open ?d i"
          using Q2 not_open_after_replace [of s' i d] by simp
      qed (rule hoare_of_res, assumption)
    qed
  qed
qed

lemma hoare_revoke_each:
  "hoare C (token_inv_upto (set is)) (for_each (\<lambda>i. revoke_current_refresh_tokens i t) is) (\<lambda>_. token_inv)"
proof (induction "is")
  case Nil
  show ?case by (simp add: hoare_ret)
next
  case (Cons i "is")
  have drop: "token_inv_upto (set is) d" if "token_inv_upto (set (i # is) - {i}) d" for d
    using that by (rule token_inv_mono) auto
  show ?case
    unfolding for_each.simps
    by (rule hoare_bind [OF hoare_revoke_tokens], rule hoare_conseq [OF Cons]) (use drop in auto)
qed

lemma hoare_revoke_all:
  "hoare C token_inv (session_revoke_all_for_user u t) (\<lambda>_. token_inv)"
  unfolding session_revoke_all_for_user_def
proof (rule hoare_bind)
  let ?P = "\<lambda>s. s_user_id s = u \<and> s_revoked_at s = None"
  let ?ids = "\<lambda>d. map s_id (filter ?P (auth_sessions d))"
  show "hoare C token_inv (query ?ids) (\<lambda>is d. token_inv d \<and> is = ?ids d)"
    by (rule hoare_query) simp
  fix "is"
  let ?v = "\<lambda>d. first_violation [(''ck_auth_sessions_updated_after_created'',
          \<exists>s \<in> set (auth_sessions d). s_user_id s = u \<and> s_revoked_at s = None \<and> \<not> s_created_at s \<le> t)]"
  let ?upd = "\<lambda>d. d\<lparr>auth_sessions := replace_where ?P
            (\<lambda>s. s\<lparr>s_revoked_at := Some t, s_updated_at := t\<rparr>) (auth_sessions d)\<rparr>"
  have "hoare C (\<lambda>d. token_inv d \<and> is = ?ids d) (flush ?v ?upd) (\<lambda>_. token_inv_upto (set is))"
    by (rule hoare_flush) (auto intro!: token_inv_revoke_sessions [where S = "{}"])
  then show "hoare C (\<lambda>d. token_inv d \<and> is = ?ids d) (bind (flush ?v ?upd) (\<lambda>_.
     bind (for_each (\<lambda>i. revoke_current_refresh_tokens i t) is) (\<lambda>_. ret (length is)))) (\<lambda>_. token_inv)"
    by (rule hoare_bind) (rule hoare_bind [OF hoare_revoke_each], rule hoare_ret, assumption)
qed

end
