(* ===== verification/Session_Requests.thy ===== *)
theory Session_Requests
  imports Session_Safety
begin

text \<open>
  The session requests as a whole. The locale \<open>session_tables\<close> states what a predicate of the
  tables needs of the session repository to survive every request; the requests are proved to
  keep such a predicate once, inside it. It is interpreted with the token invariant and with
  \<open>session i is recorded and revoked\<close>.
\<close>

section \<open>What the requests hand to the repository\<close>

lemma keeps_authenticate [keeps_intros]: "keeps I (AuthenticateUser K m p)"
proof (cases "EmailAddress_post_init m")
  case (Inl e)
  then show ?thesis
    by (cases e) (simp_all add: AuthenticateUser_def keeps_basic)
next
  case (Inr email)
  show ?thesis
    unfolding AuthenticateUser_def Inr sum.case by (intro keeps_intros)
qed

lemma keeps_credentials [keeps_intros]:
  "keeps I (new_refresh_credential K)" "keeps I (issue_access_token E K p u s t)"
  unfolding new_refresh_credential_def issue_access_token_def Let_def by (intro keeps_intros)+

lemma AuthSession_create_open:
  assumes "AuthSession_create i u t x = Inr s"
  shows "s_id s = i" "s_revoked_at s = None" "s_user_id s = u"
proof -
  from assms obtain v where "AuthSession_post_init v = Inr s" "s_id v = i" "s_revoked_at v = None" "s_user_id v = u"
    by (auto simp: AuthSession_create_def)
  with AuthSession_post_init_frame [OF this(1)]
  show "s_id s = i" "s_revoked_at s = None" "s_user_id s = u" by simp_all
qed

lemma issue_initial_open:
  assumes "RefreshTokenRecord_issue_initial ti si fi g t x = Inr r"
  shows "rt_session_id r = si" "rt_replaced_by_token_id r = None" "rt_used_at r = None"
    "rt_revoked_at r = None" "rt_token_digest r = g"
  using RefreshTokenRecord_post_init_frame [OF assms [unfolded RefreshTokenRecord_issue_initial_def]]
  by simp_all

lemma replacement_open:
  assumes "RefreshTokenRecord_replacement c ti g t x = Inr r"
  shows "rt_session_id r = rt_session_id c" "rt_replaced_by_token_id r = None" "rt_used_at r = None"
    "rt_token_digest r = g" "g \<noteq> rt_token_digest c"
proof -
  have "g \<noteq> rt_token_digest c" and p: "RefreshTokenRecord_post_init
       \<lparr>rt_id = ti, rt_session_id = rt_session_id c,
        rt_token_family_id = rt_token_family_id c, rt_token_digest = g,
        rt_generation = rt_generation c + 1, rt_issued_at = t,
        rt_expires_at = x, rt_used_at = None, rt_revoked_at = None,
        rt_replaced_by_token_id = None\<rparr> = Inr r"
    using assms by (auto simp: RefreshTokenRecord_replacement_def raise_if_def split: if_splits)
  then show "g \<noteq> rt_token_digest c" by simp
  show "rt_session_id r = rt_session_id c" "rt_replaced_by_token_id r = None" "rt_used_at r = None"
    "rt_token_digest r = g"
    using RefreshTokenRecord_post_init_frame [OF p] by simp_all
qed

lemma scalar_one_or_none_in: "scalar_one_or_none xs = Inr (Some x) \<Longrightarrow> x \<in> set xs"
  by (auto simp: scalar_one_or_none_def split: list.splits)

lemma opt_res_Some_D: "opt_res f x = Inr (Some y) \<Longrightarrow> \<exists>z. x = Some z \<and> f z = Inr y"
  by (cases x) auto

lemma returns_lookup:
  assumes "\<And>d x y. x \<in> set (f d) \<Longrightarrow> g x = Inr y \<Longrightarrow> R y"
  shows "returns (bind (query f) (\<lambda>rows. bind (of_res (scalar_one_or_none rows)) (opt_row g)))
    (\<lambda>x. \<forall>y. x = Some y \<longrightarrow> R y)"
  unfolding opt_row_def
  by (rule returns_bind_query, rule returns_bind_of_res, rule returns_of_res)
    (use assms in \<open>fastforce dest!: opt_res_Some_D scalar_one_or_none_in\<close>)

lemma returns_token_by_digest:
  assumes "digest_token K tok = Inr g"
  shows "returns (session_get_refresh_token_by_digest g) (\<lambda>x. \<forall>c. x = Some c \<longrightarrow> rt_token_digest c = g)"
  unfolding session_get_refresh_token_by_digest_def
proof (rule returns_lookup)
  fix d x y
  assume "x \<in> set (filter (\<lambda>r. rt_token_digest r = g) (refresh_tokens d))" "refresh_token_from_record x = Inr y"
  then show "rt_token_digest y = g"
    using refresh_token_from_record_frame [of x y] digest_reread [OF assms [unfolded digest_token_def]] by simp
qed

lemma returns_active_session:
  "returns (session_get_active_by_id i t) (\<lambda>x. \<forall>s. x = Some s \<longrightarrow> s_id s = i)"
  unfolding session_get_active_by_id_def
  by (rule returns_lookup) (simp add: auth_session_from_record_frame)

section \<open>Requests over an invariant of the session tables\<close>

locale session_tables =
  fixes I :: "db \<Rightarrow> bool"
  assumes audit: "I (d\<lparr>audit_events := a\<rparr>) = I d"
    and add: "AuthSession_create i u t x = Inr s \<Longrightarrow>
      RefreshTokenRecord_issue_initial ti i fi g t' x' = Inr r \<Longrightarrow> keeps I (session_add s r)"
    and rotate: "RefreshTokenRecord_replacement c ti g t x = Inr r \<Longrightarrow> rt_session_id c = i \<Longrightarrow>
      rt_token_digest c = g' \<Longrightarrow> keeps I (session_rotate_refresh_token i g' n r t')"
    and revoke: "keeps I (session_revoke i t)"
    and revoke_all: "keeps I (session_revoke_all_for_user u t)"
begin

lemma start_session: "keeps I (StartUserSession E K p m pw c)"
  unfolding StartUserSession_def rollback_and_reraise_def Let_def
  by (rule keeps_rollback_reraise)
    (rule keeps_bind_of_res keeps_record_event audit keeps_intros
      | (rule add, assumption, assumption))+

lemma refresh_try: "keeps I (refresh_body E K p tok c)"
  unfolding refresh_body_def Let_def
  by ((rule keeps_bind_returns [OF returns_token_by_digest], assumption)
      | rule keeps_bind_returns [OF returns_active_session] keeps_bind_of_res
      keeps_record_event audit revoke keeps_intros
      | (rule rotate, assumption, simp, simp))+

lemma refresh: "keeps I (RefreshSession E K p tok c)"
  unfolding RefreshSession_def
  by (intro keeps_bind keeps_try_rollback refresh_try keeps_intros)
    (simp split: exn.splits, blast intro: keeps_intros)

lemma logout: "keeps I (LogoutSession E u i c)"
  unfolding LogoutSession_def rollback_and_reraise_def
  by (rule keeps_rollback_reraise) (rule keeps_record_event audit revoke keeps_intros)+

lemma logout_all: "keeps I (LogoutAllSessions E u i c)"
  unfolding LogoutAllSessions_def rollback_and_reraise_def
  by (rule keeps_rollback_reraise) (rule keeps_record_event audit revoke_all keeps_intros)+

end

section \<open>Runs of requests\<close>

datatype SessionRequest =
    LoginRequest string string
  | RefreshRequest string
  | LogoutRequest uuid SessionId
  | LogoutAllRequest uuid "SessionId option"

text \<open>Each request runs in its own database session, with its audit context.\<close>

definition serve ::
  "env \<Rightarrow> crypto \<Rightarrow> SessionLifecyclePolicy \<Rightarrow> SessionRequest \<times> AuditRequestContext option \<Rightarrow> world \<Rightarrow> world" where
  "serve E K p q w = (case q of
      (LoginRequest email password, c) \<Rightarrow> snd (session_scope (StartUserSession E K p email password c) w)
    | (RefreshRequest token, c) \<Rightarrow> snd (session_scope (RefreshSession E K p token c) w)
    | (LogoutRequest u i, c) \<Rightarrow> snd (session_scope (LogoutSession E u i c) w)
    | (LogoutAllRequest u i, c) \<Rightarrow> snd (session_scope (LogoutAllSessions E u i c) w))"

context session_tables
begin

lemma serve_keeps: "both I w \<Longrightarrow> both I (serve E K p q w)"
  by (cases q; cases "fst q")
    (auto simp: serve_def intro!: session_scope_keeps start_session refresh logout logout_all)

lemma run_keeps: "both I w \<Longrightarrow> both I (fold (serve E K p) qs w)"
  by (induction qs arbitrary: w) (auto simp: serve_keeps)

end

interpretation tokens: session_tables token_inv
proof
  show "AuthSession_create i u t x = Inr s \<Longrightarrow> RefreshTokenRecord_issue_initial ti i fi g t' x' = Inr r \<Longrightarrow>
     keeps token_inv (session_add s r)" for i u t x s ti fi g t' x' r
    unfolding keeps_hoare
    by (rule hoare_session_add) (simp_all add: AuthSession_create_open issue_initial_open)
  show "RefreshTokenRecord_replacement c ti g t x = Inr r \<Longrightarrow> rt_session_id c = i \<Longrightarrow>
      rt_token_digest c = g' \<Longrightarrow> keeps token_inv (session_rotate_refresh_token i g' n r t')"
    for c ti g t x r i g' n t'
    unfolding keeps_hoare
    using replacement_open [of c ti g t x r] by (intro hoare_rotate) simp_all
  show "keeps token_inv (session_revoke i t)" for i t
    unfolding keeps_hoare by (rule hoare_conseq [OF hoare_session_revoke]) simp_all
  show "keeps token_inv (session_revoke_all_for_user u t)" for u t
    unfolding keeps_hoare by (rule hoare_revoke_all)
qed (rule token_inv_audit)

definition session_closed :: "SessionId \<Rightarrow> db \<Rightarrow> bool" where
  "session_closed i d \<longleftrightarrow> i \<in> s_id ` set (auth_sessions d) \<and> \<not> session_open d i"

lemma session_closed_frame [simp]:
  "session_closed i (d\<lparr>audit_events := a\<rparr>) = session_closed i d"
  "session_closed i (d\<lparr>refresh_tokens := r\<rparr>) = session_closed i d"
  by (simp_all add: session_closed_def session_open_def)

lemma session_closed_replace:
  assumes "session_closed i d" and "\<And>s. P s \<Longrightarrow> s_id (g s) = s_id s" and "\<And>s. P s \<Longrightarrow> s_revoked_at (g s) \<noteq> None"
  shows "session_closed i (d\<lparr>auth_sessions := replace_where P g (auth_sessions d)\<rparr>)"
proof -
  have "map s_id (replace_where P g (auth_sessions d)) = map s_id (auth_sessions d)"
    using assms(2) by (simp add: replace_where_def)
  then have "s_id ` set (replace_where P g (auth_sessions d)) = s_id ` set (auth_sessions d)"
    by (metis list.set_map)
  then show ?thesis
    using assms unfolding session_closed_def not_session_open by (simp add: ball_replace_where)
qed

lemma session_with_token_fresh:
  assumes "session_with_token_violation s r d = None"
  shows "s_id s \<notin> s_id ` set (auth_sessions d)"
proof -
  have "session_violation s d = None"
    using assms by (simp add: session_with_token_violation_def split: option.splits)
  then show ?thesis by (simp add: session_violation_def)
qed

lemma session_closed_add:
  assumes "session_closed i d" and "session_with_token_violation s r d = None"
  shows "session_closed i (d\<lparr>auth_sessions := auth_sessions d @ [s], refresh_tokens := rs\<rparr>)"
proof -
  have "s_id s \<noteq> i"
    using session_with_token_fresh [OF assms(2)] assms(1) by (auto simp: session_closed_def)
  then show ?thesis
    using assms(1) unfolding session_closed_def not_session_open by simp
qed

lemma keeps_closed_revoke_tokens [keeps_intros]: "keeps (session_closed i) (revoke_current_refresh_tokens j t)"
  unfolding revoke_current_refresh_tokens_def by (rule keeps_flush) simp

lemma keeps_for_each [keeps_intros]: "(\<And>x. keeps I (f x)) \<Longrightarrow> keeps I (for_each f xs)"
  by (induction xs) (auto intro: keeps_intros)

lemma keeps_raise_integrity [keeps_intros]:
  "keeps I (raise_session_integrity_error c)" "keeps I (raise_refresh_token_integrity_error c)"
  unfolding raise_session_integrity_error_def raise_refresh_token_integrity_error_def
  by (intro keeps_intros)+

lemma returns_find: "returns (query (\<lambda>d. find P (f d))) (\<lambda>x. \<forall>y. x = Some y \<longrightarrow> P y)"
  by (rule returns_query) (simp add: find_SomeD)

interpretation revoked: session_tables "session_closed i" for i
proof
  show "keeps (session_closed i) (session_add s r)" for s r
    unfolding session_add_def
    by (intro keeps_intros keeps_on_integrity_error keeps_flush session_closed_add)
  show "keeps (session_closed i) (session_rotate_refresh_token j g' n r t')" for j g' n r t'
    unfolding session_rotate_refresh_token_def
    by (intro keeps_intros keeps_on_integrity_error keeps_flush) simp_all
  show "keeps (session_closed i) (session_revoke_all_for_user u t)" for u t
    unfolding session_revoke_all_for_user_def
    by (intro keeps_intros keeps_flush session_closed_replace) simp_all
  show "keeps (session_closed i) (session_revoke j t)" for j t
    unfolding session_revoke_def
    by (rule keeps_bind_returns [OF returns_find]
        | rule keeps_bind_of_res keeps_option keeps_closed_revoke_tokens keeps_execute keeps_intros
        | (rule session_closed_replace, assumption, (simp add: auth_session_revoked)+))+
qed simp

section \<open>Closed sessions grant nothing\<close>

lemma readonly_secret [readonly_intros]: "readonly (next_secret f)" "readonly (opt_row g x)" "readonly (clock_utc E)"
  unfolding opt_row_def clock_utc_def
  by (simp add: readonly_def next_secret_def) (intro readonly_intros)+

lemma hoare_lookup:
  assumes "\<And>d x y. P d \<Longrightarrow> x \<in> set (f d) \<Longrightarrow> g x = Inr y \<Longrightarrow> R y"
  shows "hoare C P (bind (query f) (\<lambda>rows. bind (of_res (scalar_one_or_none rows)) (opt_row g)))
    (\<lambda>x d. P d \<and> (\<forall>y. x = Some y \<longrightarrow> R y))"
proof (rule hoare_bind)
  show "hoare C P (query f) (\<lambda>rows d. P d \<and> rows = f d)"
    by (rule hoare_query) simp
  show "hoare C (\<lambda>d. P d \<and> rows = f d) (bind (of_res (scalar_one_or_none rows)) (opt_row g))
     (\<lambda>x d. P d \<and> (\<forall>y. x = Some y \<longrightarrow> R y))" for rows
  proof (rule hoare_bind_of_res)
    fix x assume x: "scalar_one_or_none rows = Inr x"
    show "hoare C (\<lambda>d. P d \<and> rows = f d) (opt_row g x) (\<lambda>x d. P d \<and> (\<forall>y. x = Some y \<longrightarrow> R y))"
      unfolding opt_row_def
    proof (rule hoare_of_res)
      fix z d
      assume g: "opt_res g x = Inr z" and d: "P d \<and> rows = f d"
      have "R y" if y: "z = Some y" for y
      proof -
        obtain v where v: "x = Some v" "g v = Inr y"
          using opt_res_Some_D [of g x y] g y by auto
        then have "v \<in> set (f d)"
          using d x by (auto intro: scalar_one_or_none_in)
        then show ?thesis using assms [of d v y] d v(2) by simp
      qed
      then show "P d \<and> (\<forall>y. z = Some y \<longrightarrow> R y)" using d by simp
    qed
  qed
qed

lemma hoare_active_closed:
  "hoare C (\<lambda>d. session_closed i d) (session_get_active_by_id i t) (\<lambda>x _. x = None)"
proof -
  have "hoare C (session_closed i) (session_get_active_by_id i t)
      (\<lambda>x d. session_closed i d \<and> (\<forall>y. x = Some y \<longrightarrow> False))"
    unfolding session_get_active_by_id_def
    by (rule hoare_lookup) (auto simp: session_closed_def session_open_def)
  then show ?thesis
    by (rule hoare_conseq) (auto simp: not_Some_eq)
qed

lemma verify_closed:
  assumes "k_verify_token K tok = Inr claims" "tc_session_id claims = i"
  shows "hoare C (session_closed i) (VerifyAccessToken E K tok) (\<lambda>_ _. False)"
  unfolding VerifyAccessToken_def
proof (rule hoare_bind_of_res)
  fix x assume "k_verify_token K tok = Inr x"
  then have x: "tc_session_id x = i" using assms by simp
  show "hoare C (session_closed i) (bind (clock_utc E) (\<lambda>at.
     bind (session_get_active_by_id (tc_session_id x) at) (\<lambda>active.
     case active of
       None \<Rightarrow> raise (InvalidAccessTokenError ''Access token is invalid.'')
     | Some session \<Rightarrow>
         if s_user_id session \<noteq> tc_user_id x then
           raise (InvalidAccessTokenError ''Access token is invalid.'')
         else of_res (VerifiedAccessPrincipal_post_init x)))) (\<lambda>_ _. False)"
    unfolding x
    by (rule hoare_bind_readonly, intro readonly_intros, rule hoare_bind [OF hoare_active_closed])
      (rule hoare_option, rule hoare_raise, rule hoare_False, simp)
qed

text \<open>The presented token is recorded, if at all, for the session \<open>i\<close>.\<close>

definition token_of_closed :: "crypto \<Rightarrow> string \<Rightarrow> SessionId \<Rightarrow> db \<Rightarrow> bool" where
  "token_of_closed K tok i d \<longleftrightarrow> session_closed i d \<and>
     (\<forall>r \<in> set (refresh_tokens d). digest_token K tok = Inr (rt_token_digest r) \<longrightarrow> rt_session_id r = i)"

lemma hoare_token_of_closed:
  assumes g: "digest_token K tok = Inr g"
  shows "hoare C (token_of_closed K tok i) (session_get_refresh_token_by_digest g)
    (\<lambda>x d. token_of_closed K tok i d \<and> (\<forall>r. x = Some r \<longrightarrow> rt_session_id r = i))"
  unfolding session_get_refresh_token_by_digest_def
proof (rule hoare_lookup)
  fix d x y
  assume d: "token_of_closed K tok i d" and x: "x \<in> set (filter (\<lambda>r. rt_token_digest r = g) (refresh_tokens d))"
    and y: "refresh_token_from_record x = Inr y"
  have "rt_session_id x = i"
    using d x g by (simp add: token_of_closed_def)
  then show "rt_session_id y = i"
    using refresh_token_from_record_frame [OF y] by simp
qed

lemma hoare_active_of_closed:
  "hoare C (\<lambda>d. token_of_closed K tok i d \<and> (\<forall>r. Some cur = Some r \<longrightarrow> rt_session_id r = i))
     (session_get_active_by_id (rt_session_id cur) t) (\<lambda>x _. x = None)"
proof (cases "rt_session_id cur = i")
  case True
  show ?thesis
    unfolding True by (rule hoare_weaken [OF hoare_active_closed]) (simp add: token_of_closed_def)
qed (simp add: hoare_False)

lemma refresh_closed:
  "hoare (\<lambda>_. True) (token_of_closed K tok i) (refresh_body E K p tok c) (\<lambda>_ _. False)"
  unfolding refresh_body_def Let_def
  apply (rule hoare_bind_readonly, intro readonly_intros)
  apply (rule hoare_bind_of_res)
  apply (rule hoare_bind, rule hoare_token_of_closed, assumption)
  apply (rule hoare_option, rule hoare_raise)
  apply (rule hoare_if)
  apply (rule hoare_bind, rule hoare_trivial)+
  apply (rule hoare_raise)
  apply (rule hoare_if, rule hoare_raise)
  apply (rule hoare_bind_of_res)
  apply (rule hoare_if, rule hoare_raise)
  apply (rule hoare_bind)
  apply (simp only: )
  apply (rule hoare_active_of_closed)
  apply (rule hoare_option, rule hoare_raise, rule hoare_False, simp)
  done

lemma RefreshSession_never:
  assumes "hoare (\<lambda>_. True) P (refresh_body E K p tok c) (\<lambda>_ _. False)" and "P (working w)"
  shows "\<exists>e w'. RefreshSession E K p tok c w = (Inl e, w')"
proof (cases "refresh_body E K p tok c w")
  case (Pair r w1)
  then obtain e where "r = Inl e"
    using hoareD(1) [OF assms(1) TrueI assms(2), of _ w1] by (cases r) auto
  then show ?thesis
    using Pair by (cases e) (auto simp: RefreshSession_def bind_def try_except_def eff_simps)
qed

lemma hoare_record_event:
  assumes "\<And>d a. P (d\<lparr>audit_events := a\<rparr>) = P d"
  shows "hoare C P (record_event E ty out t a s c m) (\<lambda>_. P)"
  unfolding record_event_def
proof (rule hoare_bind_readonly, intro readonly_intros, rule hoare_bind_of_res)
  fix x y
  assume "AuditEvent_create x ty out t a None s c m = Inr y"
  note at = audit_record_run [OF AuditEvent_create_created_at [OF this], of E, unfolded Let_def]
  show "hoare C P (audit_record E y) (\<lambda>_. P)"
    by (rule hoareI) (use assms in \<open>auto simp: at split: if_splits\<close>)
qed

lemma session_open_audit [simp]: "session_open (d\<lparr>audit_events := a\<rparr>) = session_open d"
  by (simp add: session_open_def fun_eq_iff)

lemma replay_outcome:
  assumes inv: "token_inv (working w)"
    and run: "bind (session_revoke i t) (\<lambda>_.
           bind (record_event E t1 o1 x1 a1 s1 c1 m1) (\<lambda>_.
           bind (record_event E t2 o2 x2 a2 s2 c2 m2) (\<lambda>_.
           bind commit (\<lambda>_. raise e)))) w = (res, w')"
  shows "(\<exists>e'. res = Inl e' \<and> committed w' = committed w) \<or>
    res = Inl e \<and> token_inv (committed w') \<and> \<not> session_open (committed w') i"
proof -
  let ?C = "\<lambda>c. c = committed w"
  let ?Q = "\<lambda>_ d. token_inv d \<and> \<not> session_open d i"
  have rec: "hoare ?C (?Q u) (record_event E ty out t a s c m) ?Q" for u ty out t a s c m
    by (rule hoare_record_event) simp
  show ?thesis
  proof (cases rule: hoare_step [OF hoare_session_revoke [of ?C i t] refl inv run])
    case (2 x w1)
    show ?thesis
    proof (cases rule: hoare_step [OF rec 2(1,2) 2(3)])
      case (2 x2 w2)
      show ?thesis
      proof (cases rule: hoare_step [OF rec 2(1,2) 2(3)])
        case (2 x3 w3)
        then show ?thesis by (auto simp: eff_simps)
      qed blast
    qed blast
  qed blast
qed

lemma token_lookup_run:
  assumes "token_inv (working w)" and "r \<in> set (refresh_tokens (working w))"
  shows "session_get_refresh_token_by_digest (rt_token_digest r) w =
    (case refresh_token_from_record r of Inl e \<Rightarrow> (Inl e, w) | Inr c \<Rightarrow> (Inr (Some c), w))"
  using filter_unique [OF token_invD(2) [OF assms(1)] assms(2)]
  by (simp add: session_get_refresh_token_by_digest_def opt_row_def scalar_one_or_none_def eff_simps
      split: sum.splits)

lemma refresh_body_replay:
  assumes inv: "token_inv (working w)" and g: "digest_token K tok = Inr (rt_token_digest r)"
    and r: "r \<in> set (refresh_tokens (working w))" "rt_used_at r \<noteq> None"
    and run: "refresh_body E K p tok c w = (res, w')"
  shows "(\<exists>e. res = Inl e \<and> committed w' = committed w) \<or>
    res = Inl (RefreshTokenReplayError ''Refresh token replay was detected.'') \<and>
    token_inv (committed w') \<and> \<not> session_open (committed w') (rt_session_id r)"
proof (cases "lifecycle_timestamp (e_now E (now_reads w))")
  case (Inl e)
  then show ?thesis
    using run by (auto simp: refresh_body_def clock_utc_def bind_def eff_simps)
next
  case (Inr t)
  define w1 where "w1 = w\<lparr>now_reads := Suc (now_reads w)\<rparr>"
  have w1: "working w1 = working w" "committed w1 = committed w"
    by (simp_all add: w1_def)
  have clock: "bind (clock_utc E) k w = k t w1" for k :: "datetime \<Rightarrow> 'a tx"
    using Inr by (simp add: clock_utc_def bind_def eff_simps w1_def)
  have lookup: "bind (session_get_refresh_token_by_digest (rt_token_digest r)) k w1 =
    (case refresh_token_from_record r of Inl e \<Rightarrow> (Inl e, w1) | Inr c \<Rightarrow> k (Some c) w1)"
    for k :: "RefreshTokenRecord option \<Rightarrow> 'a tx"
    using token_lookup_run [of w1 r] inv r(1) w1 by (simp add: bind_def split: sum.splits)
  show ?thesis
  proof (cases "refresh_token_from_record r")
    case (Inl e)
    then show ?thesis
      using run w1 by (simp add: refresh_body_def clock g lookup) blast
  next
    case (Inr cur)
    have cur: "rt_used_at cur \<noteq> None" "rt_session_id cur = rt_session_id r"
      using refresh_token_from_record_frame [OF Inr] r(2) by simp_all
    have "token_inv (working w1)"
      using inv w1 by simp
    note outcome = replay_outcome [OF this]
    show ?thesis
      using run outcome w1 cur by (simp add: refresh_body_def clock g lookup Inr)
  qed
qed

lemma RefreshSession_replay:
  assumes "token_inv (working w)" and "digest_token K tok = Inr (rt_token_digest r)"
    and "r \<in> set (refresh_tokens (working w))" "rt_used_at r \<noteq> None"
  shows "\<exists>e w'. RefreshSession E K p tok c w = (Inl e, w') \<and> (committed w' = committed w \<or>
     e = RefreshTokenReplayError ''Refresh token replay was detected.'' \<and>
     token_inv (committed w') \<and> \<not> session_open (committed w') (rt_session_id r))"
proof (cases "refresh_body E K p tok c w")
  case (Pair res w1)
  note out = refresh_body_replay [OF assms Pair]
  from out obtain e where e: "res = Inl e" by blast
  show ?thesis
    using Pair out e
    by (cases e) (auto simp: RefreshSession_def bind_def try_except_def eff_simps)
qed

lemma hoare_revoke_recorded:
  "hoare C (\<lambda>_. True) (session_revoke i t) (\<lambda>_ d. i \<in> s_id ` set (auth_sessions d))"
  unfolding session_revoke_def
proof (rule hoare_bind [OF hoare_query])
  let ?in = "\<lambda>d. i \<in> s_id ` set (auth_sessions d)"
  show "\<forall>r. find (\<lambda>s. s_id s = i) (auth_sessions d) = Some r \<longrightarrow> s_id r = i \<and> ?in d" for d
    using find_SomeD by fastforce
  show "hoare C (\<lambda>d. \<forall>r. x = Some r \<longrightarrow> s_id r = i \<and> ?in d) (case x of
       None \<Rightarrow> raise (SessionNotFoundError ''Session does not exist.'')
     | Some r \<Rightarrow>
         bind (of_res (bind_res (auth_session_from_record r) (\<lambda>s. AuthSession_revoke s t))) (\<lambda>session.
         bind (revoke_current_refresh_tokens i t) (\<lambda>_.
         bind (execute (\<lambda>d. d\<lparr>auth_sessions :=
             replace_where (\<lambda>s. s_id s = i) (\<lambda>_. session) (auth_sessions d)\<rparr>)) (\<lambda>_.
         of_res (auth_session_from_record session))))) (\<lambda>_. ?in)" for x
  proof (rule hoare_option [OF hoare_raise], rule hoare_bind_of_res)
    fix r s'
    assume x: "x = Some r" and s': "bind_res (auth_session_from_record r) (\<lambda>s. AuthSession_revoke s t) = Inr s'"
    have repl: "?in (d\<lparr>auth_sessions := replace_where (\<lambda>s. s_id s = i) (\<lambda>_. s') (auth_sessions d)\<rparr>)"
      if d: "?in d" "s_id r = i" for d
    proof -
      from d(1) obtain s where "s \<in> set (auth_sessions d)" "s_id s = i" by auto
      then have "s' \<in> set (replace_where (\<lambda>s. s_id s = i) (\<lambda>_. s') (auth_sessions d))"
        by (auto simp: in_replace_where)
      moreover have "s_id s' = i" using auth_session_revoked(1) [OF s'] d(2) by simp
      ultimately show ?thesis by force
    qed
    show "hoare C (\<lambda>d. \<forall>r. x = Some r \<longrightarrow> s_id r = i \<and> ?in d)
       (bind (revoke_current_refresh_tokens i t) (\<lambda>_.
         bind (execute (\<lambda>d. d\<lparr>auth_sessions :=
             replace_where (\<lambda>s. s_id s = i) (\<lambda>_. s') (auth_sessions d)\<rparr>)) (\<lambda>_.
         of_res (auth_session_from_record s')))) (\<lambda>_. ?in)"
    proof (rule hoare_bind [where Q = "\<lambda>_ d. s_id r = i \<and> ?in d"])
      show "hoare C (\<lambda>d. \<forall>r. x = Some r \<longrightarrow> s_id r = i \<and> ?in d) (revoke_current_refresh_tokens i t)
          (\<lambda>_ d. s_id r = i \<and> ?in d)"
        unfolding revoke_current_refresh_tokens_def by (rule hoare_flush) (simp add: x)
      show "hoare C (\<lambda>d. s_id r = i \<and> ?in d) (bind (execute (\<lambda>d. d\<lparr>auth_sessions :=
             replace_where (\<lambda>s. s_id s = i) (\<lambda>_. s') (auth_sessions d)\<rparr>)) (\<lambda>_.
         of_res (auth_session_from_record s'))) (\<lambda>_. ?in)"
        by (rule hoare_bind, rule hoare_execute, rule repl, simp, simp, rule hoare_of_res)
    qed
  qed
qed

lemma hoare_session_revoke_closed:
  "hoare C token_inv (session_revoke i t) (\<lambda>_ d. token_inv d \<and> session_closed i d)"
  by (rule hoare_conseq [OF hoare_conj [OF hoare_session_revoke hoare_revoke_recorded]])
    (auto simp: session_closed_def)

lemma readonly_lookups [readonly_intros]:
  "readonly (session_get_by_id i)" "readonly (session_get_active_by_id i t)"
  "readonly (session_get_refresh_token_by_digest g)" "readonly (user_get_by_normalized_email n)"
  "readonly (user_get_by_id u)" "readonly (credential_get_by_user_id u)"
  "readonly (new_refresh_credential K)" "readonly (issue_access_token E K p u s t)"
  unfolding session_get_by_id_def session_get_active_by_id_def session_get_refresh_token_by_digest_def
    user_get_by_normalized_email_def user_get_by_id_def credential_get_by_user_id_def
    new_refresh_credential_def issue_access_token_def Let_def
  by (intro readonly_intros)+

lemma logout_transacts:
  "transacts token_inv (LogoutSession E u i c) (\<lambda>_ d. token_inv d \<and> session_closed i d)"
  unfolding LogoutSession_def rollback_and_reraise_def
  by (rule transacts_rollback_reraise)
    (rule transacts_intros transacts_bind_readonly readonly_lookups readonly_secret
      transacts_bind [OF hoare_session_revoke_closed] transacts_bind [OF hoare_record_event] transacts_commit
      | simp)+

lemma hoare_session_add_new:
  assumes "AuthSession_create i u t x = Inr s" and "RefreshTokenRecord_issue_initial ti i fi g t' x' = Inr r"
  shows "hoare C token_inv (session_add s r)
    (\<lambda>_ d. token_inv d \<and> s \<in> set (auth_sessions d) \<and> r \<in> set (refresh_tokens d))"
  unfolding session_add_def
proof (rule hoare_bind [OF hoare_on_integrity_error [OF hoare_flush]])
  fix d
  assume d: "token_inv d" "session_with_token_violation s r d = None"
  let ?d = "d\<lparr>auth_sessions := auth_sessions d @ [s], refresh_tokens := refresh_tokens d @ [r]\<rparr>"
  have "token_inv ?d"
    by (rule token_inv_add [OF d])
      (simp_all add: AuthSession_create_open [OF assms(1)] issue_initial_open [OF assms(2)])
  then show "token_inv ?d \<and> s \<in> set (auth_sessions ?d) \<and> r \<in> set (refresh_tokens ?d)"
    by simp
qed (rule raise_integrity_errors hoare_readonly readonly_basic)+

lemma returns_clock_utc: "returns (clock_utc E) is_utc"
  unfolding clock_utc_def
  by (rule returns_bind, rule returns_of_res) (auto simp: lifecycle_timestamp_def to_utc_def split: if_splits)

lemma returns_new_credential:
  "returns (new_refresh_credential K) (\<lambda>p. digest_token K (fst p) = Inr (snd p))"
  unfolding new_refresh_credential_def
  by (rule returns_bind, rule returns_bind_of_res) (simp add: returns_def eff_simps)

lemma returns_access_token:
  "returns (issue_access_token E K p u s t) (\<lambda>x. snd x = plus_timedelta t (sp_access_token_lifetime p))"
  unfolding issue_access_token_def Let_def
  by (rule returns_bind, rule returns_bind, rule returns_bind) (simp add: returns_def eff_simps)

lemma is_utc_plus [simp]: "is_utc (plus_timedelta t n) = is_utc t"
  by (cases t) (simp add: plus_timedelta_def is_utc_def)

lemma TokenPair_post_init_id:
  "is_utc (tp_access_token_expires_at q) \<Longrightarrow> is_utc (tp_refresh_token_expires_at q) \<Longrightarrow> TokenPair_post_init q = Inr q"
  by (cases q) (simp add: TokenPair_post_init_def normalize_timestamp_def)

definition session_granted :: "crypto \<Rightarrow> TokenPair \<Rightarrow> db \<Rightarrow> bool" where
  "session_granted K q d \<longleftrightarrow> session_open d (tp_session_id q) \<and>
     (\<exists>r \<in> set (refresh_tokens d). open_token r \<and> rt_session_id r = tp_session_id q \<and>
        digest_token K (tp_refresh_token q) = Inr (rt_token_digest r))"

lemma login_grants:
  assumes "AuthSession_create i u t x = Inr s" and "RefreshTokenRecord_issue_initial ti i fi g t x' = Inr r"
    and "digest_token K (tp_refresh_token q) = Inr g" "tp_session_id q = i"
    and "token_inv d \<and> s \<in> set (auth_sessions d) \<and> r \<in> set (refresh_tokens d)"
    and "is_utc (tp_access_token_expires_at q)" "is_utc (tp_refresh_token_expires_at q)"
  shows "\<exists>y. TokenPair_post_init q = Inr y \<and> token_inv d \<and> session_granted K y d"
proof -
  have "session_open d i"
    using assms(5) AuthSession_create_open [OF assms(1)] by (auto simp: session_open_def)
  moreover have "open_token r" "rt_session_id r = i" "rt_token_digest r = g"
    using issue_initial_open [OF assms(2)] by (simp_all add: open_token_def)
  ultimately have "session_granted K q d"
    using assms(3-5) unfolding session_granted_def by auto
  then show ?thesis
    using assms(5) TokenPair_post_init_id [OF assms(6,7)] by blast
qed

lemma readonly_authenticate: "readonly (AuthenticateUser K m p)"
proof (cases "EmailAddress_post_init m")
  case (Inl e)
  then show ?thesis
    by (cases e) (simp_all add: AuthenticateUser_def readonly_basic)
next
  case (Inr email)
  show ?thesis
    unfolding AuthenticateUser_def Inr sum.case by (intro readonly_intros)
qed

lemma login_transacts:
  "transacts token_inv (StartUserSession E K p m pw c) (\<lambda>q d. token_inv d \<and> session_granted K q d)"
  unfolding StartUserSession_def rollback_and_reraise_def Let_def
  apply (rule transacts_rollback_reraise)
  apply (rule transacts_bind_readonly [OF readonly_authenticate])
  apply (rule transacts_bind_returns [OF _ returns_clock_utc], rule readonly_secret)
  apply (rule transacts_bind_readonly, rule readonly_basic)
  apply (rule transacts_bind_of_res)+
  apply (rule transacts_bind_returns [OF _ returns_new_credential], rule readonly_lookups)
  apply (rule transacts_prod)
  apply (rule transacts_bind_readonly [OF readonly_basic(6)] transacts_bind_of_res)+
  apply (rule transacts_bind_returns [OF _ returns_access_token], rule readonly_lookups)
  apply (rule transacts_prod)
  apply (rule transacts_bind, rule hoare_session_add_new, assumption, assumption)
  apply (rule transacts_bind [OF hoare_record_event], simp)+
  apply (rule transacts_commit)
  apply (rule login_grants, assumption, assumption, simp, simp, assumption, simp, simp)
  done

lemma session_revoked_for_user:
  "hoare C token_inv (session_revoke_all_for_user u t)
    (\<lambda>_ d. token_inv d \<and> (\<forall>s \<in> set (auth_sessions d). s_user_id s = u \<longrightarrow> s_revoked_at s \<noteq> None))"
proof -
  let ?P = "\<lambda>d. \<forall>s \<in> set (auth_sessions d). s_user_id s = u \<longrightarrow> s_revoked_at s \<noteq> None"
  have tok: "hoare C ?P (for_each (\<lambda>i. revoke_current_refresh_tokens i t) is) (\<lambda>_. ?P)" for "is"
  proof (induction "is")
    case (Cons a "is")
    have "hoare C ?P (revoke_current_refresh_tokens a t) (\<lambda>_. ?P)"
      unfolding revoke_current_refresh_tokens_def by (rule hoare_flush) simp
    then show ?case
      unfolding for_each.simps by (rule hoare_bind) (rule Cons)
  qed (simp add: hoare_ret)
  have "hoare C (\<lambda>_. True) (session_revoke_all_for_user u t) (\<lambda>_. ?P)"
    unfolding session_revoke_all_for_user_def
    by (rule hoare_bind_readonly, rule readonly_basic, rule hoare_bind [where Q = "\<lambda>_. ?P"], rule hoare_flush,
        simp add: ball_replace_where, rule hoare_bind [OF tok], rule hoare_ret, assumption)
  from hoare_conseq [OF hoare_conj [OF hoare_revoke_all this]]
  show ?thesis by simp
qed

lemma logout_all_transacts:
  "transacts token_inv (LogoutAllSessions E u i c)
    (\<lambda>_ d. token_inv d \<and> (\<forall>s \<in> set (auth_sessions d). s_user_id s = u \<longrightarrow> s_revoked_at s \<noteq> None))"
  unfolding LogoutAllSessions_def rollback_and_reraise_def
  by (rule transacts_rollback_reraise)
    (rule transacts_bind_readonly readonly_secret
      transacts_bind [OF session_revoked_for_user] transacts_bind [OF hoare_record_event] transacts_commit
      | simp)+

section \<open>Sample data\<close>

definition sample_session :: AuthSession where
  "sample_session = \<lparr>s_id = SessionId 1, s_user_id = 7, s_created_at = DateTime 0 (Some 0),
     s_updated_at = DateTime 0 (Some 0), s_expires_at = DateTime 1000 (Some 0), s_revoked_at = None\<rparr>"

definition sample_token :: RefreshTokenRecord where
  "sample_token = \<lparr>rt_id = RefreshTokenId 2, rt_session_id = SessionId 1, rt_token_family_id = RefreshTokenFamilyId 3,
     rt_token_digest = RefreshTokenDigest (replicate 64 (CHR ''a'')), rt_generation = 0,
     rt_issued_at = DateTime 0 (Some 0), rt_expires_at = DateTime 500 (Some 0),
     rt_used_at = Some (DateTime 5 (Some 0)), rt_revoked_at = None,
     rt_replaced_by_token_id = Some (RefreshTokenId 4)\<rparr>"

definition sample_crypto :: crypto where
  "sample_crypto = \<lparr>k_verify_password = (=), k_hash_password = (\<lambda>_ p. p),
     k_sha256_hexdigest = (\<lambda>_. replicate 64 (CHR ''a'')), k_token_urlsafe = nat_str,
     k_issue_token = (\<lambda>_. Inr []), k_verify_token = (\<lambda>_. Inr \<lparr>tc_user_id = 7, tc_session_id = SessionId 1,
        tc_token_id = 9, tc_issued_at = DateTime 0 (Some 0), tc_expires_at = DateTime 9 (Some 0)\<rparr>)\<rparr>"

definition sample_session_db :: db where
  "sample_session_db = empty_db\<lparr>auth_sessions := [sample_session], refresh_tokens := [sample_token]\<rparr>"

lemma sample_session_db_inv: "token_inv sample_session_db"
  by (simp add: token_inv_upto_def sample_session_db_def empty_db_def sample_session_def sample_token_def open_token_def)

lemma sample_digest: "digest_token sample_crypto tok = Inr (rt_token_digest sample_token)"
proof -
  have "digest_hex (replicate 64 (CHR ''a''))"
    by (simp add: digest_hex_def list_all_iff is_hex_def)
  then show ?thesis
    by (simp add: digest_token_def sample_crypto_def RefreshTokenDigest_post_init_def digest_hex_normal sample_token_def)
qed


definition sample_env :: env where
  "sample_env = \<lparr>e_now = (\<lambda>n. DateTime (10 + int n) (Some 0)), e_uuid4 = (\<lambda>n. of_nat (n + 50))\<rparr>"

definition sample_policy :: SessionLifecyclePolicy where
  "sample_policy = \<lparr>sp_access_token_lifetime = 10, sp_refresh_token_lifetime = 100, sp_session_lifetime = 200\<rparr>"

lemma transacts_run:
  "transacts P m Q \<Longrightarrow> P (working w) \<Longrightarrow> case m w of
     (Inl e, w') \<Rightarrow> committed w' = committed w | (Inr x, w') \<Rightarrow> committed w' = working w' \<and> Q x (working w')"
  by (simp add: transacts_def)

section \<open>Properties\<close>

text \<open>
  C1. Whatever login, refresh, logout and logout-everywhere requests run one after the other,
  with any outcome of each, from tables that satisfy the token invariant (in particular from
  empty ones): in the committed tables an open refresh token belongs to a session that is not
  revoked, and no session has two open tokens.
\<close>

theorem one_open_token_per_session:
  assumes "token_inv (committed w)"
    and "working w = committed w" and "d = committed (fold (serve E K p) qs w)"
    and "r \<in> set (refresh_tokens d)" and "open_token r"
  shows "session_open d (rt_session_id r) \<and>
    (\<forall>q \<in> set (refresh_tokens d). open_token q \<and> rt_session_id q = rt_session_id r \<longrightarrow> q = r)"
proof -
  have "both token_inv w"
    using assms(1,2) by (simp add: both_def)
  then have inv: "token_inv d"
    using tokens.run_keeps [of w E K p qs] assms(3) by (simp add: both_def)
  have "q = r" if "q \<in> set (refresh_tokens d)" "open_token q" "rt_session_id q = rt_session_id r" for q
  proof -
    have "rt_token_digest q = rt_token_digest r"
      using token_invD(6) [OF inv that(1) assms(4) that(2) assms(5) that(3)] .
    then show ?thesis
      using token_invD(2) [OF inv] that(1) assms(4) by (simp add: distinct_map inj_on_def)
  qed
  then show ?thesis
    using token_invD(5) [OF inv assms(4,5)] by simp
qed

definition sample_open_db :: db where
  "sample_open_db = empty_db\<lparr>auth_sessions := [sample_session],
     refresh_tokens := [sample_token\<lparr>rt_used_at := None, rt_replaced_by_token_id := None\<rparr>]\<rparr>"

theorem one_open_token_per_session_witness:
  "let d = committed (fold (serve sample_env sample_crypto sample_policy)
      [(LogoutRequest 7 (SessionId 99), None)] (fresh_world sample_open_db))
   in d = sample_open_db \<and> session_open d (SessionId 1)"
proof -
  let ?r = "sample_token\<lparr>rt_used_at := None, rt_replaced_by_token_id := None\<rparr>"
  have inv: "token_inv sample_open_db"
    by (simp add: token_inv_upto_def sample_open_db_def empty_db_def sample_session_def sample_token_def
        open_token_def session_open_def)
  have d: "committed (fold (serve sample_env sample_crypto sample_policy)
      [(LogoutRequest 7 (SessionId 99), None)] (fresh_world sample_open_db)) = sample_open_db"
    by (simp add: serve_def session_scope_def LogoutSession_def rollback_and_reraise_def try_except_def
        session_get_by_id_def opt_row_def sample_open_db_def sample_session_def empty_db_def fresh_world_def eff_simps)
  have "?r \<in> set (refresh_tokens sample_open_db)" "open_token ?r"
    by (simp_all add: sample_open_db_def empty_db_def open_token_def sample_token_def)
  from one_open_token_per_session [OF _ _ d [symmetric] this]
  have "session_open sample_open_db (rt_session_id ?r)"
    by (simp add: inv)
  then show ?thesis
    unfolding Let_def d by (simp add: sample_token_def)
qed

text \<open>
  C6. A revoked session is final: after any further requests it is still revoked, access tokens
  that name it do not verify, and refresh tokens recorded for it do not refresh.
\<close>

theorem revoked_session_is_final:
  assumes "session_closed i (committed w)" and "working w = committed w"
    and "w' = fold (serve E K p) qs w"
  shows "session_closed i (committed w') \<and>
    (\<forall>tok claims. k_verify_token K tok = Inr claims \<and> tc_session_id claims = i \<longrightarrow>
      (\<exists>e. fst (VerifyAccessToken E K tok w') = Inl e)) \<and>
    (\<forall>tok c. (\<forall>r \<in> set (refresh_tokens (working w')).
        digest_token K tok = Inr (rt_token_digest r) \<longrightarrow> rt_session_id r = i) \<longrightarrow>
      (\<exists>e. fst (RefreshSession E K p tok c w') = Inl e))"
proof (intro conjI allI impI)
  have closed: "both (session_closed i) w'"
    using revoked.run_keeps [of i w E K p qs] assms by (simp add: both_def)
  then show "session_closed i (committed w')" by (simp add: both_def)
  show "\<exists>e. fst (VerifyAccessToken E K tok w') = Inl e"
    if "k_verify_token K tok = Inr claims \<and> tc_session_id claims = i" for tok claims
  proof -
    have "hoare (\<lambda>_. True) (session_closed i) (VerifyAccessToken E K tok) (\<lambda>_ _. False)"
      using verify_closed that by blast
    from hoareD(1) [OF this TrueI] closed show ?thesis
      by (cases "VerifyAccessToken E K tok w'"; cases "fst (VerifyAccessToken E K tok w')") (auto simp: both_def)
  qed
  show "\<exists>e. fst (RefreshSession E K p tok c w') = Inl e"
    if "\<forall>r \<in> set (refresh_tokens (working w')). digest_token K tok = Inr (rt_token_digest r) \<longrightarrow> rt_session_id r = i"
    for tok c
    using RefreshSession_never [OF refresh_closed, of K tok i w' E p c] closed that
    by (auto simp: token_of_closed_def both_def)
qed

definition sample_revoked_db :: db where
  "sample_revoked_db = empty_db\<lparr>auth_sessions := [sample_session\<lparr>s_revoked_at := Some (DateTime 5 (Some 0))\<rparr>]\<rparr>"

theorem revoked_session_is_final_witness:
  "\<exists>e. fst (VerifyAccessToken sample_env sample_crypto ''t''
      (fold (serve sample_env sample_crypto sample_policy) [(RefreshRequest ''t'', None)]
        (fresh_world sample_revoked_db))) = Inl e"
proof -
  have "session_closed (SessionId 1) (committed (fresh_world sample_revoked_db))"
    by (simp add: session_closed_def session_open_def sample_revoked_db_def empty_db_def sample_session_def)
  moreover have "k_verify_token sample_crypto ''t'' = Inr \<lparr>tc_user_id = 7, tc_session_id = SessionId 1,
        tc_token_id = 9, tc_issued_at = DateTime 0 (Some 0), tc_expires_at = DateTime 9 (Some 0)\<rparr>"
    by (simp add: sample_crypto_def)
  ultimately show ?thesis
    using revoked_session_is_final [of "SessionId 1" "fresh_world sample_revoked_db" _ sample_env sample_crypto
        sample_policy "[(RefreshRequest ''t'', None)]", OF _ _ refl] by auto
qed

end
