(* ===== verification/Tenancy.thy ===== *)
theory Tenancy
  imports Transactions
begin

text \<open>
  Tenant isolation. \<open>foreign t d\<close> is everything stored for organizations other than \<open>t\<close>; a
  computation is \<open>isolated t\<close> when it keeps that part of the committed and the working copy as
  it was, whatever its outcome. The services are proved isolated by introduction rules that
  follow their text.
\<close>

named_theorems isolated_intros \<open>computations that keep the rows of other tenants\<close>

record tenant_view =
  v_batches :: "Batch list"
  v_batch_documents :: "BatchDocument list"
  v_cases :: "Case list"
  v_case_documents :: "CaseDocument list"
  v_case_comments :: "CaseComment list"
  v_case_tasks :: "CaseTask list"
  v_case_decisions :: "CaseDecision list"
  v_documents :: "Document list"
  v_document_versions :: "DocumentVersion list"
  v_document_artifacts :: "DocumentArtifact list"
  v_upload_idempotency :: "UploadIdempotencyRecordModel list"
  v_audit_events :: "AuditEvent list"

definition foreign :: "uuid \<Rightarrow> db \<Rightarrow> tenant_view" where
  "foreign t d =
     \<lparr>v_batches = filter (\<lambda>r. b_organization_id r \<noteq> t) (batches d),
      v_batch_documents = filter (\<lambda>r. bd_organization_id r \<noteq> t) (batch_documents d),
      v_cases = filter (\<lambda>r. c_organization_id r \<noteq> t) (cases_tbl d),
      v_case_documents = filter (\<lambda>r. cd_organization_id r \<noteq> t) (case_documents d),
      v_case_comments = filter (\<lambda>r. cc_organization_id r \<noteq> t) (case_comments d),
      v_case_tasks = filter (\<lambda>r. ct_organization_id r \<noteq> t) (case_tasks d),
      v_case_decisions = filter (\<lambda>r. cx_organization_id r \<noteq> t) (case_decisions d),
      v_documents = filter (\<lambda>r. d_organization_id r \<noteq> t) (documents d),
      v_document_versions = filter (\<lambda>r. dv_organization_id r \<noteq> t) (document_versions d),
      v_document_artifacts = filter (\<lambda>r. da_organization_id r \<noteq> t) (document_artifacts d),
      v_upload_idempotency = filter (\<lambda>r. ui_organization_id r \<noteq> t) (upload_idempotency d),
      v_audit_events = filter (\<lambda>r. ae_organization_id r \<noteq> Some t) (audit_events d)\<rparr>"

text \<open>The tables that no tenant-scoped service writes.\<close>

definition shared :: "db \<Rightarrow> User list \<times> Organization list \<times> Membership list \<times> PasswordCredential list \<times>
    AuthSession list \<times> RefreshTokenRecord list" where
  "shared d = (users d, organizations d, memberships d, password_credentials d, auth_sessions d, refresh_tokens d)"

definition outside :: "uuid \<Rightarrow> db \<Rightarrow> tenant_view \<times> User list \<times> Organization list \<times> Membership list \<times>
    PasswordCredential list \<times> AuthSession list \<times> RefreshTokenRecord list" where
  "outside t d = (foreign t d, shared d)"

definition isolated :: "uuid \<Rightarrow> 'a tx \<Rightarrow> bool" where
  "isolated t m \<longleftrightarrow> (\<forall>X. preserves (both (\<lambda>d. outside t d = X)) m)"

lemma isolatedD:
  assumes "isolated t m" and "working w = committed w" and "m w = (r, w')"
  shows "outside t (committed w') = outside t (committed w)"
proof -
  have "preserves (both (\<lambda>d. outside t d = outside t (committed w))) m"
    using assms(1) unfolding isolated_def by blast
  moreover have "both (\<lambda>d. outside t d = outside t (committed w)) w"
    using assms(2) by (simp add: both_def)
  ultimately have "both (\<lambda>d. outside t d = outside t (committed w)) w'"
    using assms(3) by (rule preservesD)
  then show ?thesis by (simp add: both_def)
qed

lemma isolated_basic [isolated_intros]:
  "isolated t (ret x)" "isolated t (raise e)" "isolated t (of_res r)" "isolated t (query f)"
  "isolated t (clock_now E)" "isolated t (uuid4 E)" "isolated t commit" "isolated t rollback"
  unfolding isolated_def by (intro allI preserves_intros)+

lemma isolated_bind [isolated_intros]:
  "isolated t m \<Longrightarrow> (\<And>x. isolated t (k x)) \<Longrightarrow> isolated t (bind m k)"
  unfolding isolated_def by (intro allI preserves_bind) blast+

lemma isolated_bind_of_res:
  "(\<And>x. r = Inr x \<Longrightarrow> isolated t (k x)) \<Longrightarrow> isolated t (bind (of_res r) k)"
  unfolding isolated_def by (intro allI preserves_bind_of_res) blast

lemma isolated_try [isolated_intros]:
  "isolated t m \<Longrightarrow> (\<And>e. isolated t (h e)) \<Longrightarrow> isolated t (try_except m h)"
  unfolding isolated_def by (intro allI preserves_try) blast+

lemma isolated_cases [isolated_intros]:
  "(c \<Longrightarrow> isolated t m) \<Longrightarrow> (\<not> c \<Longrightarrow> isolated t n) \<Longrightarrow> isolated t (if c then m else n)"
  "(x = None \<Longrightarrow> isolated t m) \<Longrightarrow> (\<And>y. x = Some y \<Longrightarrow> isolated t (f y)) \<Longrightarrow>
     isolated t (case x of None \<Rightarrow> m | Some y \<Rightarrow> f y)"
  "(\<And>a b. p = (a, b) \<Longrightarrow> isolated t (g a b)) \<Longrightarrow> isolated t (case p of (a, b) \<Rightarrow> g a b)"
  by (auto split: option.split prod.split)

lemma isolated_flush: "(\<And>d. outside t (f d) = outside t d) \<Longrightarrow> isolated t (flush v f)"
  unfolding isolated_def by (intro allI preserves_both_flush) simp

lemma isolated_execute: "(\<And>d. outside t (f d) = outside t d) \<Longrightarrow> isolated t (execute f)"
  unfolding isolated_def by (intro allI preserves_both_execute) simp

lemma preserves_bind_returns:
  assumes "returns m R" and "preserves P m" and "\<And>x. R x \<Longrightarrow> preserves P (k x)"
  shows "preserves P (bind m k)"
  unfolding preserves_def
proof (intro allI impI)
  fix w
  assume w: "P w"
  show "P (snd (bind m k w))"
  proof (cases "m w")
    case (Pair r w1)
    have w1: "P w1"
      using preservesD [OF assms(2) w Pair] .
    show ?thesis
    proof (cases r)
      case (Inl e)
      then show ?thesis using Pair w1 by (simp add: bind_def)
    next
      case (Inr x)
      then have "preserves P (k x)"
        using assms(3) returnsD [OF assms(1)] Pair by blast
      then show ?thesis
        using Pair Inr w1 by (simp add: bind_def preserves_def)
    qed
  qed
qed

lemma isolated_bind_returns:
  "returns m R \<Longrightarrow> isolated t m \<Longrightarrow> (\<And>x. R x \<Longrightarrow> isolated t (k x)) \<Longrightarrow> isolated t (bind m k)"
  unfolding isolated_def using preserves_bind_returns by blast

text \<open>Updates of one tenant's rows keep the foreign rows of the table.\<close>

lemma filter_replace_where:
  "(\<And>x. P x \<Longrightarrow> \<not> Q x \<and> \<not> Q (g x)) \<Longrightarrow> filter Q (replace_where P g xs) = filter Q xs"
  by (induction xs) (auto simp: replace_where_def)

lemma filter_delete:
  "(\<And>x. P x \<Longrightarrow> \<not> Q x) \<Longrightarrow> filter Q (filter (\<lambda>x. \<not> P x) xs) = filter Q xs"
  by (induction xs) auto

lemmas outside_defs = outside_def foreign_def shared_def

lemma isolated_audit:
  "ae_organization_id e = Some t \<Longrightarrow> isolated t (audit_record E e)"
  unfolding audit_record_def
  by (intro isolated_intros isolated_flush)
    (auto simp: outside_defs record_from_event_def intro!: isolated_intros split: exn.split)

end
