(* ===== verification/Authorization.thy ===== *)
theory Authorization
  imports "HOL-Library.List_Lexorder" Memberships Identity_Store Transactions
begin

text \<open>
  Authorization: \<^verbatim>\<open>application/authorization/{context,policy,tenant_resolution}.py\<close> and the
  organization selection query \<^verbatim>\<open>application/identity/organizations.py\<close>. A tenant context is what
  every tenant-scoped service receives; it is resolved from the stored organization and
  membership. A permission set is the list of its members. Iterating a \<^verbatim>\<open>frozenset\<close> has no
  specified order, so the element that \<^verbatim>\<open>next(iter(...))\<close> yields is an argument of the checks
  over several permissions.
\<close>

section \<open>Tenant contexts\<close>

record TenantContext =
  tn_user_id :: uuid
  tn_organization_id :: uuid
  tn_membership_id :: uuid
  tn_role :: Role
  tn_permissions :: "Permission list"

definition TenantContext_set_validated :: "TenantContext \<Rightarrow> TenantContext res" where
  "TenantContext_set_validated c =
     bind_res (validate_uuid (tn_user_id c) ''Tenant context user identifier'') (\<lambda>_.
     bind_res (validate_uuid (tn_organization_id c) ''Tenant context organization identifier'') (\<lambda>_.
     bind_res (validate_uuid (tn_membership_id c) ''Tenant context membership identifier'') (\<lambda>_.
     Inr c)))"

definition TenantContext_create :: "uuid \<Rightarrow> uuid \<Rightarrow> uuid \<Rightarrow> Role \<Rightarrow> TenantContext res" where
  "TenantContext_create user_id organization_id membership_id role =
     TenantContext_set_validated
       \<lparr>tn_user_id = user_id, tn_organization_id = organization_id, tn_membership_id = membership_id,
        tn_role = role, tn_permissions = permissions_for_role role\<rparr>"

definition TenantContext_trusted_with_permissions ::
  "uuid \<Rightarrow> uuid \<Rightarrow> uuid \<Rightarrow> Role \<Rightarrow> Permission list \<Rightarrow> TenantContext res" where
  "TenantContext_trusted_with_permissions user_id organization_id membership_id role permissions =
     TenantContext_set_validated
       \<lparr>tn_user_id = user_id, tn_organization_id = organization_id, tn_membership_id = membership_id,
        tn_role = role, tn_permissions = permissions\<rparr>"

section \<open>The authorization policy\<close>

definition allows :: "TenantContext \<Rightarrow> Permission \<Rightarrow> bool" where
  "allows context permission \<longleftrightarrow> permission \<in> set (tn_permissions context)"

definition allows_any :: "TenantContext \<Rightarrow> Permission list \<Rightarrow> bool" where
  "allows_any context permissions \<longleftrightarrow> list_ex (\<lambda>p. p \<in> set (tn_permissions context)) permissions"

definition allows_all :: "TenantContext \<Rightarrow> Permission list \<Rightarrow> bool" where
  "allows_all context permissions \<longleftrightarrow> list_all (\<lambda>p. p \<in> set (tn_permissions context)) permissions"

definition require :: "TenantContext \<Rightarrow> Permission \<Rightarrow> unit res" where
  "require context permission =
     raise_if (\<not> allows context permission)
       (PermissionDenied (tn_user_id context) (tn_organization_id context) permission)"

definition require_any ::
  "(Permission list \<Rightarrow> Permission) \<Rightarrow> TenantContext \<Rightarrow> Permission list \<Rightarrow> unit res" where
  "require_any next_iter context permissions =
     bind_res (raise_if (permissions = []) (ValueError ''At least one permission is required.'')) (\<lambda>_.
     raise_if (\<not> allows_any context permissions)
       (PermissionDenied (tn_user_id context) (tn_organization_id context) (next_iter permissions)))"

definition require_all ::
  "(Permission list \<Rightarrow> Permission) \<Rightarrow> TenantContext \<Rightarrow> Permission list \<Rightarrow> unit res" where
  "require_all next_iter context permissions =
     bind_res (raise_if (permissions = []) (ValueError ''At least one permission is required.'')) (\<lambda>_.
     (let missing = filter (\<lambda>p. p \<notin> set (tn_permissions context)) permissions in
      raise_if (missing \<noteq> [])
        (PermissionDenied (tn_user_id context) (tn_organization_id context) (next_iter missing))))"

section \<open>Membership administration\<close>

datatype MembershipAdministrationMutation = AdminUpdate | AdminSuspend | AdminRemove | AdminChangeRole | AdminInvite

definition membership_administration_denied :: "Membership \<Rightarrow> Membership \<Rightarrow> string \<Rightarrow> 'a res" where
  "membership_administration_denied actor target reason =
     Inl (MembershipAdministrationDenied (m_id actor) (m_id target) (m_organization_id actor) reason)"

definition ensure_context_matches_target :: "TenantContext \<Rightarrow> Membership \<Rightarrow> unit res" where
  "ensure_context_matches_target context target =
     raise_if (tn_organization_id context \<noteq> m_organization_id target)
       (TenantBoundaryViolation ''Tenant context does not match target membership''
         (m_organization_id target) (tn_organization_id context))"

definition ensure_same_organization :: "Membership \<Rightarrow> Membership \<Rightarrow> unit res" where
  "ensure_same_organization actor target =
     raise_if (m_organization_id actor \<noteq> m_organization_id target)
       (TenantBoundaryViolation ''Actor membership does not match target membership''
         (m_organization_id target) (m_organization_id actor))"

fun domain_mutation :: "MembershipAdministrationMutation \<Rightarrow> MembershipMutation option" where
  "domain_mutation AdminSuspend = Some SUSPEND_OWNER"
| "domain_mutation AdminRemove = Some REMOVE_OWNER"
| "domain_mutation AdminChangeRole = Some DEMOTE_OWNER"
| "domain_mutation AdminUpdate = None"
| "domain_mutation AdminInvite = None"

definition ensure_owner_last_owner_rule ::
  "Membership \<Rightarrow> MembershipAdministrationMutation \<Rightarrow> Membership list \<Rightarrow> unit res" where
  "ensure_owner_last_owner_rule target mutation members =
     (if m_role target \<noteq> OWNER then Inr ()
      else if m_status target \<noteq> ACTIVE then Inr ()
      else (case domain_mutation mutation of
          None \<Rightarrow> Inr ()
        | Some m \<Rightarrow> ensure_not_last_active_owner target members m))"

definition ensure_target_manageable ::
  "Membership \<Rightarrow> Membership \<Rightarrow> MembershipAdministrationMutation \<Rightarrow> Membership list \<Rightarrow> unit res" where
  "ensure_target_manageable actor target mutation members =
     bind_res (ensure_same_organization actor target) (\<lambda>_.
     if m_role actor = OWNER then ensure_owner_last_owner_rule target mutation members
     else if m_role actor = ADMIN then
       (if m_role target = OWNER then
          membership_administration_denied actor target ''admins cannot manage owner memberships''
        else Inr ())
     else membership_administration_denied actor target
       ''membership target policy requires owner or admin role'')"

definition ensure_self_role_change_allowed :: "Membership \<Rightarrow> Membership \<Rightarrow> Role \<Rightarrow> unit res" where
  "ensure_self_role_change_allowed actor target new_role =
     (if m_id actor \<noteq> m_id target then Inr ()
      else if new_role = m_role target then Inr ()
      else if m_role actor = OWNER then Inr ()
      else membership_administration_denied actor target
        ''non-owner memberships cannot change their own role'')"

definition ensure_role_assignment_allowed ::
  "Membership \<Rightarrow> Membership \<Rightarrow> Role \<Rightarrow> Membership list \<Rightarrow> unit res" where
  "ensure_role_assignment_allowed actor target new_role members =
     bind_res (ensure_same_organization actor target) (\<lambda>_.
     bind_res (ensure_self_role_change_allowed actor target new_role) (\<lambda>_.
     if m_role target = new_role then Inr ()
     else if m_role actor = OWNER then
       (if m_role target = OWNER \<and> new_role \<noteq> OWNER then
          ensure_not_last_active_owner target members DEMOTE_OWNER
        else Inr ())
     else if m_role actor = ADMIN then
       (if new_role = OWNER then
          membership_administration_denied actor target ''admins cannot assign owner role''
        else if m_role target = OWNER then
          membership_administration_denied actor target ''admins cannot update owner memberships''
        else Inr ())
     else membership_administration_denied actor target
       ''role assignment requires owner or admin role''))"

section \<open>Resolution from the tables\<close>

definition ResolveTenantContext :: "uuid \<Rightarrow> uuid \<Rightarrow> TenantContext tx" where
  "ResolveTenantContext user_id organization_id =
     bind (organization_get_by_id organization_id) (\<lambda>found.
     case found of
       None \<Rightarrow> raise (TenantAccessDenied user_id organization_id ''organization not found'')
     | Some organization \<Rightarrow>
         if \<not> o_is_active organization then
           raise (TenantAccessDenied user_id organization_id ''organization inactive'')
         else
           bind (membership_get_by_user_and_organization user_id organization_id) (\<lambda>member.
           case member of
             None \<Rightarrow> raise (TenantAccessDenied user_id organization_id ''membership not found'')
           | Some m \<Rightarrow>
               if m_status m \<noteq> ACTIVE then
                 raise (TenantMembershipInactive user_id organization_id (m_id m) (m_status m))
               else of_res (TenantContext_create user_id organization_id (m_id m) (m_role m))))"

record UserOrganizationSummary =
  us_id :: uuid
  us_name :: string
  us_slug :: OrganizationSlug
  us_membership_id :: uuid
  us_membership_role :: Role
  us_membership_status :: MembershipStatus

text \<open>
  The dictionary keeps the last of several entries for one key; the sort is by the tuple of
  name, slug and identifier text, stable in the order of the memberships.
\<close>

definition summary_of :: "Organization list \<Rightarrow> Membership \<Rightarrow> UserOrganizationSummary list" where
  "summary_of orgs membership =
     (if m_status membership \<noteq> ACTIVE then []
      else (case find (\<lambda>g. o_id g = m_organization_id membership) (rev orgs) of
          None \<Rightarrow> []
        | Some g \<Rightarrow> [\<lparr>us_id = o_id g, us_name = o_name g, us_slug = o_slug g,
             us_membership_id = m_id membership, us_membership_role = m_role membership,
             us_membership_status = m_status membership\<rparr>]))"

definition summary_key :: "UserOrganizationSummary \<Rightarrow> nat list" where
  \<comment> \<open>the tuple order of the three strings: code points, with 0 after each component\<close>
  "summary_key s =
     map (\<lambda>c. Suc (ord c)) (casefold (us_name s)) @ [0] @
     map (\<lambda>c. Suc (ord c)) (OrganizationSlug_value (us_slug s)) @ [0] @
     map (\<lambda>c. Suc (ord c)) (uuid_str (us_id s))"

definition ListUserOrganizations :: "int \<Rightarrow> uuid \<Rightarrow> UserOrganizationSummary list tx" where
  "ListUserOrganizations max_results user_id =
     bind (of_res (raise_if (max_results < 1)
       (ValueError ''Organization list max_results must be positive.''))) (\<lambda>_.
     bind (membership_list_for_user user_id) (\<lambda>members.
     bind (organization_list_for_user user_id) (\<lambda>orgs.
     ret (take (nat max_results)
       (sort_key summary_key (concat (map (summary_of (filter o_is_active orgs)) members)))))))"

section \<open>What resolution depends on\<close>

definition identity_tables :: "db \<Rightarrow> bool" where
  "identity_tables d \<longleftrightarrow>
     distinct (map o_id (organizations d)) \<and>
     distinct (map (\<lambda>m. (m_user_id m, m_organization_id m)) (memberships d)) \<and>
     (\<forall>g \<in> set (organizations d). organization_from_record g = Inr g) \<and>
     (\<forall>m \<in> set (memberships d). membership_from_record m = Inr m)"

lemma distinct_mapD:
  "distinct (map f xs) \<Longrightarrow> x \<in> set xs \<Longrightarrow> y \<in> set xs \<Longrightarrow> f x = f y \<Longrightarrow> x = y"
  by (simp add: distinct_map inj_on_def)

lemma organization_lookup:
  assumes "identity_tables (working w)"
  shows "\<exists>x. organization_get_by_id i w = (Inr x, w) \<and>
    (\<forall>g. x = Some g \<longleftrightarrow> g \<in> set (organizations (working w)) \<and> o_id g = i)"
proof (cases "find (\<lambda>g. o_id g = i) (organizations (working w))")
  case None
  then have "g \<notin> set (organizations (working w)) \<or> o_id g \<noteq> i" for g
    by (auto simp: find_None_iff)
  then show ?thesis
    using None by (intro exI [of _ None]) (auto simp: organization_get_by_id_def opt_row_def eff_simps)
next
  case (Some g)
  have g: "g \<in> set (organizations (working w))" "o_id g = i"
    using find_SomeD [OF Some] by simp_all
  have "organization_from_record g = Inr g"
    using assms g(1) by (simp add: identity_tables_def)
  then have run: "organization_get_by_id i w = (Inr (Some g), w)"
    using Some by (simp add: organization_get_by_id_def opt_row_def eff_simps)
  have uniq: "h = g" if "h \<in> set (organizations (working w))" "o_id h = i" for h
    using distinct_mapD [of o_id "organizations (working w)" h g] assms g that
    by (simp add: identity_tables_def)
  show ?thesis
    by (rule exI [of _ "Some g"]) (use run g uniq in blast)
qed

lemma membership_lookup:
  assumes "identity_tables (working w)"
  shows "\<exists>x. membership_get_by_user_and_organization u i w = (Inr x, w) \<and>
    (\<forall>m. x = Some m \<longleftrightarrow> m \<in> set (memberships (working w)) \<and> m_user_id m = u \<and> m_organization_id m = i)"
proof (cases "filter (\<lambda>m. m_user_id m = u \<and> m_organization_id m = i) (memberships (working w))")
  case Nil
  then show ?thesis
    by (auto simp: membership_get_by_user_and_organization_def opt_row_def scalar_one_or_none_def
        filter_empty_conv eff_simps)
next
  case (Cons m ms)
  then have m: "m \<in> set (memberships (working w))" "m_user_id m = u" "m_organization_id m = i"
    using filter_set [of "\<lambda>m. m_user_id m = u \<and> m_organization_id m = i" "memberships (working w)"]
    by auto
  have uniq: "distinct (map (\<lambda>m. (m_user_id m, m_organization_id m)) (memberships (working w)))"
    using assms by (simp add: identity_tables_def)
  have "filter (\<lambda>m. m_user_id m = u \<and> m_organization_id m = i) (memberships (working w)) = [m]"
    using filter_unique [OF uniq m(1)] m(2,3) by simp
  moreover have "membership_from_record m = Inr m"
    using assms m(1) by (simp add: identity_tables_def)
  ultimately have run: "membership_get_by_user_and_organization u i w = (Inr (Some m), w)"
    by (simp add: membership_get_by_user_and_organization_def opt_row_def scalar_one_or_none_def eff_simps)
  have only: "h = m" if "h \<in> set (memberships (working w))" "m_user_id h = u" "m_organization_id h = i" for h
    using distinct_mapD [OF uniq that(1) m(1)] m that by simp
  show ?thesis
    by (rule exI [of _ "Some m"]) (use run m only in blast)
qed

lemma membership_ids:
  "identity_tables d \<Longrightarrow> m \<in> set (memberships d) \<Longrightarrow>
     m_id m \<noteq> 0 \<and> m_user_id m \<noteq> 0 \<and> m_organization_id m \<noteq> 0"
proof -
  assume "identity_tables d" "m \<in> set (memberships d)"
  then have "membership_from_record m = Inr m"
    by (simp add: identity_tables_def)
  then have "wf_membership m"
    unfolding membership_from_record_def using Membership_post_init_frame by blast
  then show ?thesis
    by (simp add: wf_membership_def)
qed

lemma TenantContext_create_ok:
  "u \<noteq> 0 \<Longrightarrow> g \<noteq> 0 \<Longrightarrow> i \<noteq> 0 \<Longrightarrow> TenantContext_create u g i r =
     Inr \<lparr>tn_user_id = u, tn_organization_id = g, tn_membership_id = i, tn_role = r,
       tn_permissions = permissions_for_role r\<rparr>"
  by (simp add: TenantContext_create_def TenantContext_set_validated_def validate_uuid_def check_uuid_def)

lemma resolve_run:
  assumes t: "identity_tables (working w)"
  shows "(\<exists>w'. ResolveTenantContext u i w = (Inr c, w')) \<longleftrightarrow>
    (\<exists>g m. g \<in> set (organizations (working w)) \<and> o_id g = i \<and> o_is_active g \<and>
       m \<in> set (memberships (working w)) \<and> m_user_id m = u \<and> m_organization_id m = i \<and> m_status m = ACTIVE \<and>
       c = \<lparr>tn_user_id = u, tn_organization_id = i, tn_membership_id = m_id m, tn_role = m_role m,
            tn_permissions = permissions_for_role (m_role m)\<rparr>)"
proof -
  obtain x where x: "organization_get_by_id i w = (Inr x, w)"
    "\<forall>g. x = Some g \<longleftrightarrow> g \<in> set (organizations (working w)) \<and> o_id g = i"
    using organization_lookup [OF t] by blast
  obtain y where y: "membership_get_by_user_and_organization u i w = (Inr y, w)"
    "\<forall>m. y = Some m \<longleftrightarrow> m \<in> set (memberships (working w)) \<and> m_user_id m = u \<and> m_organization_id m = i"
    using membership_lookup [OF t] by blast
  have run: "ResolveTenantContext u i w = (case x of
      None \<Rightarrow> (Inl (TenantAccessDenied u i ''organization not found''), w)
    | Some g \<Rightarrow> if \<not> o_is_active g then (Inl (TenantAccessDenied u i ''organization inactive''), w)
        else (case y of None \<Rightarrow> (Inl (TenantAccessDenied u i ''membership not found''), w)
          | Some m \<Rightarrow> if m_status m \<noteq> ACTIVE then (Inl (TenantMembershipInactive u i (m_id m) (m_status m)), w)
             else (TenantContext_create u i (m_id m) (m_role m), w)))"
    by (simp add: ResolveTenantContext_def bind_def x(1) y(1) eff_simps split: option.split)
  show ?thesis
  proof (cases "\<exists>g m. x = Some g \<and> y = Some m \<and> o_is_active g \<and> m_status m = ACTIVE")
    case True
    then obtain g m where gm: "x = Some g" "y = Some m" "o_is_active g" "m_status m = ACTIVE" by blast
    have m: "m \<in> set (memberships (working w))" "m_user_id m = u" "m_organization_id m = i"
      using y(2) gm(2) by blast+
    have g: "g \<in> set (organizations (working w))" "o_id g = i"
      using x(2) gm(1) by blast+
    have "ResolveTenantContext u i w = (TenantContext_create u i (m_id m) (m_role m), w)"
      using run gm by simp
    also have "TenantContext_create u i (m_id m) (m_role m) =
       Inr \<lparr>tn_user_id = u, tn_organization_id = i, tn_membership_id = m_id m, tn_role = m_role m,
            tn_permissions = permissions_for_role (m_role m)\<rparr>"
      using membership_ids [OF t m(1)] m by (intro TenantContext_create_ok) simp_all
    finally have res: "ResolveTenantContext u i w = (Inr \<lparr>tn_user_id = u, tn_organization_id = i,
        tn_membership_id = m_id m, tn_role = m_role m, tn_permissions = permissions_for_role (m_role m)\<rparr>, w)" .
    have only: "m' = m" if "m' \<in> set (memberships (working w))" "m_user_id m' = u" "m_organization_id m' = i" for m'
      using y(2) gm(2) that by (metis option.inject)
    show ?thesis (is "?l \<longleftrightarrow> ?r")
    proof
      assume ?l
      then have c: "c = \<lparr>tn_user_id = u, tn_organization_id = i, tn_membership_id = m_id m, tn_role = m_role m,
          tn_permissions = permissions_for_role (m_role m)\<rparr>"
        using res by simp
      show ?r
        by (rule exI [of _ g], rule exI [of _ m]) (use c g m gm(3,4) in blast)
    next
      assume ?r
      then obtain m' where "m' \<in> set (memberships (working w))" "m_user_id m' = u" "m_organization_id m' = i"
        "c = \<lparr>tn_user_id = u, tn_organization_id = i, tn_membership_id = m_id m', tn_role = m_role m',
            tn_permissions = permissions_for_role (m_role m')\<rparr>" by blast
      then have "c = \<lparr>tn_user_id = u, tn_organization_id = i, tn_membership_id = m_id m, tn_role = m_role m,
            tn_permissions = permissions_for_role (m_role m)\<rparr>"
        using only by blast
      with res show ?l by blast
    qed
  next
    case False
    then have "\<not> (\<exists>w'. ResolveTenantContext u i w = (Inr c, w'))"
      using run by (auto split: option.splits if_splits)
    then show ?thesis using False x(2) y(2) by metis
  qed
qed

lemma readonly_opt_row [readonly_intros]: "readonly (opt_row f x)"
  unfolding opt_row_def by (rule readonly_basic)

lemma readonly_resolve [readonly_intros]: "readonly (ResolveTenantContext u i)"
  unfolding ResolveTenantContext_def organization_get_by_id_def membership_get_by_user_and_organization_def
  by (intro readonly_intros)

section \<open>Properties\<close>

text \<open>
  C8. Tenant resolution is exact: with tables as the repositories leave them, a user is given a
  context of an organization exactly when the organization is stored and active and the user's
  membership of it is active, and the context then carries the role of that membership and
  exactly the permissions of that role. Resolution changes no table.
\<close>

theorem tenant_resolution_exact:
  assumes "identity_tables (working w)"
  shows "readonly (ResolveTenantContext u i) \<and>
    ((\<exists>w'. ResolveTenantContext u i w = (Inr c, w')) \<longleftrightarrow>
    (\<exists>g m. g \<in> set (organizations (working w)) \<and> o_id g = i \<and> o_is_active g \<and>
       m \<in> set (memberships (working w)) \<and> m_user_id m = u \<and> m_organization_id m = i \<and> m_status m = ACTIVE \<and>
       c = \<lparr>tn_user_id = u, tn_organization_id = i, tn_membership_id = m_id m, tn_role = m_role m,
            tn_permissions = permissions_for_role (m_role m)\<rparr>))"
  using resolve_run [OF assms] readonly_resolve by blast

definition sample_organization :: Organization where
  "sample_organization = \<lparr>o_id = 5, o_name = ''Acme'', o_slug = OrganizationSlug ''acme'', o_is_active = True,
     o_created_at = utc 0, o_updated_at = utc 0, o_deactivated_at = None\<rparr>"

definition sample_identity_db :: db where
  "sample_identity_db = empty_db\<lparr>organizations := [sample_organization], memberships := [sample_owner 1]\<rparr>"

lemma sample_identity_tables: "identity_tables sample_identity_db"
proof -
  have slug: "OrganizationSlug_post_init ''acme'' = Inr (OrganizationSlug ''acme'')"
    by code_simp
  have "text_ok 160 ''Acme''"
    by (rule text_ok_word) (simp_all add: is_word_def is_space_def)
  then have g: "organization_from_record sample_organization = Inr sample_organization"
    by (simp add: organization_from_record_def sample_organization_def slug Organization_post_init_id wf_organization_def)
  have m: "membership_from_record (sample_owner 1) = Inr (sample_owner 1)"
    using sample_owner_wf by (simp add: membership_from_record_def sample_owner_def Membership_post_init_id)
  show ?thesis
    by (simp add: identity_tables_def sample_identity_db_def empty_db_def g m)
qed

theorem tenant_resolution_exact_witness:
  "\<exists>w'. ResolveTenantContext 101 5 (fresh_world sample_identity_db) =
     (Inr \<lparr>tn_user_id = 101, tn_organization_id = 5, tn_membership_id = 1, tn_role = OWNER,
        tn_permissions = permissions_for_role OWNER\<rparr>, w')"
  using tenant_resolution_exact [of "fresh_world sample_identity_db" 101 5] sample_identity_tables
  by (simp add: sample_identity_db_def empty_db_def sample_owner_def sample_organization_def)

text \<open>
  C17. Role assignment is exact: it is accepted exactly within one organization, and there when
  the role does not change, or by an owner unless the last active owner would be demoted, or by
  an administrator for another member when neither the old nor the new role is owner. So no one
  but an owner makes or unmakes owners, nobody but an owner changes their own role, and an
  organization with an active owner has one after an accepted and applied change.
\<close>

theorem role_assignment_exact:
  assumes "distinct (map m_id ms)" and "target \<in> set ms"
    and "\<exists>m \<in> set ms. is_active_owner m \<and> m_organization_id m = m_organization_id target"
  shows "(ensure_role_assignment_allowed actor target r ms = Inr () \<longleftrightarrow>
      m_organization_id actor = m_organization_id target \<and>
      (m_role target = r \<or>
       m_role actor = OWNER \<and> (is_active_owner target \<longrightarrow> (\<exists>m \<in> set ms. is_active_owner m \<and>
         m_organization_id m = m_organization_id target \<and> m_id m \<noteq> m_id target)) \<or>
       m_role actor = ADMIN \<and> r \<noteq> OWNER \<and> m_role target \<noteq> OWNER \<and> m_id actor \<noteq> m_id target)) \<and>
    (ensure_role_assignment_allowed actor target r ms = Inr () \<and> Membership_change_role target r t = Inr target' \<longrightarrow>
      (\<exists>m \<in> set (map (\<lambda>m. if m_id m = m_id target then target' else m) ms).
         is_active_owner m \<and> m_organization_id m = m_organization_id target))"
proof -
  have exact: "ensure_role_assignment_allowed actor target r ms = Inr () \<longleftrightarrow>
      m_organization_id actor = m_organization_id target \<and>
      (m_role target = r \<or>
       m_role actor = OWNER \<and> (is_active_owner target \<longrightarrow> (\<exists>m \<in> set ms. is_active_owner m \<and>
         m_organization_id m = m_organization_id target \<and> m_id m \<noteq> m_id target)) \<or>
       m_role actor = ADMIN \<and> r \<noteq> OWNER \<and> m_role target \<noteq> OWNER \<and> m_id actor \<noteq> m_id target)"
    unfolding ensure_role_assignment_allowed_def ensure_same_organization_def
      ensure_self_role_change_allowed_def membership_administration_denied_def
    by (cases "m_role actor") (auto simp: active_owner_other raise_if_def is_active_owner_def)
  have uniq: "m = target" if "m \<in> set ms" "m_id m = m_id target" for m
    using distinct_mapD [OF assms(1) that(1) assms(2) that(2)] .
  have keep: "\<exists>m \<in> set (map (\<lambda>m. if m_id m = m_id target then target' else m) ms).
         is_active_owner m \<and> m_organization_id m = m_organization_id target"
    if "m \<in> set ms" "is_active_owner m" "m_organization_id m = m_organization_id target"
      "m_id m \<noteq> m_id target \<or> target' = target" for m
  proof -
    have "m \<in> set (map (\<lambda>m. if m_id m = m_id target then target' else m) ms)"
      using that(1,4) uniq [OF that(1)] by (auto simp: image_iff intro!: bexI [of _ m])
    with that(2,3) show ?thesis by blast
  qed
  have "\<exists>m \<in> set (map (\<lambda>m. if m_id m = m_id target then target' else m) ms).
         is_active_owner m \<and> m_organization_id m = m_organization_id target"
    if ok: "ensure_role_assignment_allowed actor target r ms = Inr ()" and ch: "Membership_change_role target r t = Inr target'"
  proof -
    obtain m where m: "m \<in> set ms" "is_active_owner m" "m_organization_id m = m_organization_id target"
      using assms(3) by blast
    show ?thesis
    proof (cases "m_role target = r")
      case True
      then have "target' = target"
        using ch by (simp add: Membership_change_role_def)
      then show ?thesis using keep [OF m] by blast
    next
      case False
      then have "\<exists>m \<in> set ms. is_active_owner m \<and> m_organization_id m = m_organization_id target \<and> m_id m \<noteq> m_id target"
        using ok [unfolded exact] m uniq by (metis is_active_owner_def)
      then show ?thesis using keep by blast
    qed
  qed
  with exact show ?thesis by blast
qed

theorem role_assignment_exact_witness:
  "ensure_role_assignment_allowed (sample_owner 1) (sample_owner 2) ADMIN [sample_owner 1, sample_owner 2] = Inr ()"
proof -
  have "distinct (map m_id [sample_owner 1, sample_owner 2])" "is_active_owner (sample_owner 1)"
    by (simp_all add: sample_owner_def is_active_owner_def)
  then show ?thesis
    using role_assignment_exact [of "[sample_owner 1, sample_owner 2]" "sample_owner 2" "sample_owner 1" ADMIN]
    by (simp add: sample_owner_def is_active_owner_def)
qed

end
