(* ===== verification/Tenant_Store.thy ===== *)
theory Tenant_Store
  imports Tenancy Authorization
begin

text \<open>
  What the tenant-scoped repositories and services share: SQL patterns and pages, foreign keys
  to users and organizations, the audit event of a tenant's mutation, the contract of a table
  with a tenant column (\<open>tenant_table\<close>) and of a table with optimistic locking
  (\<open>versioned_table\<close>), and request bodies that start from a given committed copy.
\<close>

section \<open>Patterns\<close>

text \<open>
  \<^verbatim>\<open>LIKE\<close>: a percent sign matches any text, an underscore any character, a backslash makes the
  next character literal.
\<close>

fun like :: "string \<Rightarrow> string \<Rightarrow> bool" where
  "like [] s \<longleftrightarrow> s = []"
| "like (p # ps) s \<longleftrightarrow>
     (if p = CHR ''%'' then like ps s \<or> (case s of [] \<Rightarrow> False | _ # cs \<Rightarrow> like (p # ps) cs)
      else if p = CHR 0x5C then
        (case ps of
           [] \<Rightarrow> False
         | q # qs \<Rightarrow> (case s of [] \<Rightarrow> False | c # cs \<Rightarrow> c = q \<and> like qs cs))
      else (case s of [] \<Rightarrow> False | c # cs \<Rightarrow> (p = CHR ''_'' \<or> c = p) \<and> like ps cs))"

definition ilike :: "string \<Rightarrow> string \<Rightarrow> bool" where
  "ilike s pattern \<longleftrightarrow> like (lower pattern) (lower s)"

section \<open>Pages\<close>

definition page :: "int \<Rightarrow> int \<Rightarrow> 'a list \<Rightarrow> 'a list" where
  "page limit offset rows = take (nat limit) (drop (nat offset) rows)"

text \<open>\<^verbatim>\<open>ORDER BY created_at DESC, id DESC\<close>.\<close>

definition newest_first :: "('a \<Rightarrow> datetime) \<Rightarrow> ('a \<Rightarrow> uuid) \<Rightarrow> 'a list \<Rightarrow> 'a list" where
  "newest_first created key rows =
     sort_key (\<lambda>r. - instant (created r)) (sort_key (\<lambda>r. - uint (key r)) rows)"

section \<open>Foreign keys\<close>

definition user_missing :: "db \<Rightarrow> uuid \<Rightarrow> bool" where
  "user_missing d u \<longleftrightarrow> u \<notin> set (map u_id (users d))"

definition organization_missing :: "db \<Rightarrow> uuid \<Rightarrow> bool" where
  "organization_missing d g \<longleftrightarrow> g \<notin> set (map o_id (organizations d))"

section \<open>Column types\<close>

text \<open>\<^verbatim>\<open>String(n)\<close> columns.\<close>

definition check_width :: "(string \<times> nat) list \<Rightarrow> unit res" where
  "check_width columns = raise_if (list_ex (\<lambda>(s, n). n < length s) columns) (DataError ''value too long'')"

section \<open>Tables with a tenant column\<close>

locale tenant_table =
  fixes rows :: "db \<Rightarrow> 'r list"
    and put :: "'r list \<Rightarrow> db \<Rightarrow> db"
    and org :: "'r \<Rightarrow> uuid"
  assumes rows_put: "rows (put rs d) = rs"
    and outside_put: "filter (\<lambda>r. org r \<noteq> t) rs = filter (\<lambda>r. org r \<noteq> t) (rows d) \<Longrightarrow>
      outside t (put rs d) = outside t d"
begin

lemma outside_insert: "org r = t \<Longrightarrow> outside t (put (rows d @ [r]) d) = outside t d"
  by (rule outside_put) simp

lemma outside_replace:
  "(\<And>r. P r \<Longrightarrow> org r = t \<and> org (g r) = t) \<Longrightarrow> outside t (put (replace_where P g (rows d)) d) = outside t d"
  by (rule outside_put, rule filter_replace_where) simp

lemma outside_delete:
  "(\<And>r. P r \<Longrightarrow> org r = t) \<Longrightarrow> outside t (put (filter (\<lambda>r. \<not> P r) (rows d)) d) = outside t d"
  by (rule outside_put, rule filter_delete) simp

lemma isolated_insert: "org r = t \<Longrightarrow> isolated t (flush v (\<lambda>d. put (rows d @ [r]) d))"
  by (rule isolated_flush) (rule outside_insert)

lemma isolated_replace:
  "(\<And>r. P r \<Longrightarrow> org r = t \<and> org (g r) = t) \<Longrightarrow>
     isolated t (flush v (\<lambda>d. put (replace_where P g (rows d)) d))"
  by (rule isolated_flush) (rule outside_replace)

lemma isolated_delete:
  "(\<And>r. P r \<Longrightarrow> org r = t) \<Longrightarrow> isolated t (execute (\<lambda>d. put (filter (\<lambda>r. \<not> P r) (rows d)) d))"
  by (rule isolated_execute) (rule outside_delete)

end

interpretation batch_rows: tenant_table batches "\<lambda>rs d. d\<lparr>batches := rs\<rparr>" b_organization_id
  by unfold_locales (simp_all add: outside_defs)

interpretation batch_document_rows: tenant_table batch_documents "\<lambda>rs d. d\<lparr>batch_documents := rs\<rparr>"
  bd_organization_id
  by unfold_locales (simp_all add: outside_defs)

interpretation case_rows: tenant_table cases_tbl "\<lambda>rs d. d\<lparr>cases_tbl := rs\<rparr>" c_organization_id
  by unfold_locales (simp_all add: outside_defs)

interpretation case_document_rows: tenant_table case_documents "\<lambda>rs d. d\<lparr>case_documents := rs\<rparr>"
  cd_organization_id
  by unfold_locales (simp_all add: outside_defs)

interpretation case_comment_rows: tenant_table case_comments "\<lambda>rs d. d\<lparr>case_comments := rs\<rparr>"
  cc_organization_id
  by unfold_locales (simp_all add: outside_defs)

interpretation case_task_rows: tenant_table case_tasks "\<lambda>rs d. d\<lparr>case_tasks := rs\<rparr>" ct_organization_id
  by unfold_locales (simp_all add: outside_defs)

interpretation case_decision_rows: tenant_table case_decisions "\<lambda>rs d. d\<lparr>case_decisions := rs\<rparr>"
  cx_organization_id
  by unfold_locales (simp_all add: outside_defs)

interpretation document_rows: tenant_table documents "\<lambda>rs d. d\<lparr>documents := rs\<rparr>" d_organization_id
  by unfold_locales (simp_all add: outside_defs)

interpretation document_version_rows: tenant_table document_versions
  "\<lambda>rs d. d\<lparr>document_versions := rs\<rparr>" dv_organization_id
  by unfold_locales (simp_all add: outside_defs)

interpretation document_artifact_rows: tenant_table document_artifacts
  "\<lambda>rs d. d\<lparr>document_artifacts := rs\<rparr>" da_organization_id
  by unfold_locales (simp_all add: outside_defs)

interpretation upload_idempotency_rows: tenant_table upload_idempotency
  "\<lambda>rs d. d\<lparr>upload_idempotency := rs\<rparr>" ui_organization_id
  by unfold_locales (simp_all add: outside_defs)

section \<open>Tables with optimistic locking\<close>

text \<open>
  An update statement of such a table replaces the row with the tenant and key of the new
  object whose stored lock version is one below the new one, and keeps the columns that the
  statement does not set.
\<close>

definition row_at :: "('r \<Rightarrow> uuid) \<Rightarrow> ('r \<Rightarrow> 'k) \<Rightarrow> 'r list \<Rightarrow> uuid \<Rightarrow> 'k \<Rightarrow> 'r option" where
  "row_at org key rs g i = find (\<lambda>r. org r = g \<and> key r = i) rs"

definition row_matched :: "('r \<Rightarrow> uuid) \<Rightarrow> ('r \<Rightarrow> 'k) \<Rightarrow> ('r \<Rightarrow> int) \<Rightarrow> 'r \<Rightarrow> 'r \<Rightarrow> bool" where
  "row_matched org key lock n r \<longleftrightarrow> org r = org n \<and> key r = key n \<and> lock r = lock n - 1"

lemma opt_astimezone_id: "pred_option is_utc x \<Longrightarrow> map_option astimezone_utc x = x"
  by (cases x) simp_all

lemma option_ext: "(\<And>s. x = Some s \<longleftrightarrow> y = Some s) \<Longrightarrow> x = y"
  by (metis option.exhaust)

lemma row_at_iff:
  assumes "distinct (map key rs)"
  shows "row_at org key rs g i = Some r \<longleftrightarrow> r \<in> set rs \<and> org r = g \<and> key r = i"
proof
  assume "row_at org key rs g i = Some r"
  then show "r \<in> set rs \<and> org r = g \<and> key r = i"
    unfolding row_at_def by (rule find_SomeD)
next
  assume r: "r \<in> set rs \<and> org r = g \<and> key r = i"
  then obtain s where s: "find (\<lambda>r. org r = g \<and> key r = i) rs = Some s"
    by (cases "find (\<lambda>r. org r = g \<and> key r = i) rs") (auto simp: find_None_iff)
  then have "s \<in> set rs" "key s = i"
    using find_SomeD [OF s] by simp_all
  then have "s = r"
    using r distinct_mapD [OF assms] by blast
  with s show "row_at org key rs g i = Some r" by (simp add: row_at_def)
qed

lemma row_selected:
  assumes "distinct (map key rs)"
  shows "filter (\<lambda>r. org r = g \<and> key r = i) rs = (case row_at org key rs g i of None \<Rightarrow> [] | Some r \<Rightarrow> [r])"
proof (cases "row_at org key rs g i")
  case None
  then have "filter (\<lambda>r. org r = g \<and> key r = i) rs = []"
    by (auto simp: row_at_def find_None_iff filter_empty_conv)
  then show ?thesis using None by simp
next
  case (Some r)
  then have r: "r \<in> set rs" "org r = g" "key r = i"
    using row_at_iff [OF assms] by blast+
  have "filter (\<lambda>s. org s = g \<and> key s = i) rs = filter (\<lambda>s. key s = key r) rs"
  proof (rule filter_cong [OF refl])
    fix s
    assume s: "s \<in> set rs"
    show "org s = g \<and> key s = i \<longleftrightarrow> key s = key r"
      using distinct_mapD [OF assms s r(1)] r(2,3) by auto
  qed
  also have "\<dots> = [r]"
    by (rule filter_unique [OF assms r(1)])
  finally show ?thesis using Some by simp
qed

lemma row_replaced_keys:
  assumes "distinct (map key rs)" and "row_at org key rs (org n) (key n) = Some r"
  shows "map key (map (\<lambda>s. if s = r then n else s) rs) = map key rs"
  using row_at_iff [OF assms(1)] assms(2) by auto

text \<open>The update refines an update of the map from tenants and keys to objects.\<close>

lemma row_at_replaced:
  assumes ok: "distinct (map key rs)" and r: "row_at org key rs (org n) (key n) = Some r"
  shows "row_at org key (map (\<lambda>s. if s = r then n else s) rs) g i =
    (if g = org n \<and> i = key n then Some n else row_at org key rs g i)"
    (is "row_at org key ?rs g i = ?y")
proof -
  have r': "r \<in> set rs" "org r = org n" "key r = key n"
    using row_at_iff [OF ok] r by blast+
  have ok': "distinct (map key ?rs)"
    unfolding row_replaced_keys [OF ok r] by (rule ok)
  have other: "key s \<noteq> key n" if "s \<in> set rs" "s \<noteq> r" for s
    using distinct_mapD [OF ok that(1) r'(1)] that(2) r'(3) by auto
  have "row_at org key ?rs g i = Some s \<longleftrightarrow> ?y = Some s" for s
  proof (cases "g = org n \<and> i = key n")
    case True
    have "s \<in> set ?rs \<and> org s = g \<and> key s = i \<longleftrightarrow> s = n"
      using True r' other by (auto simp: image_iff)
    then show ?thesis using True row_at_iff [OF ok', of org g i s] by auto
  next
    case False
    have "s \<in> set ?rs \<and> org s = g \<and> key s = i \<longleftrightarrow> s \<in> set rs \<and> org s = g \<and> key s = i"
      using False r' by (auto simp: image_iff)
    then have "row_at org key ?rs g i = Some s \<longleftrightarrow> row_at org key rs g i = Some s"
      unfolding row_at_iff [OF ok'] row_at_iff [OF ok] .
    then show ?thesis unfolding if_not_P [OF False] .
  qed
  then show ?thesis by (rule option_ext)
qed

lemma row_at_inserted:
  assumes "key n \<notin> set (map key rs)"
  shows "row_at org key (rs @ [n]) g i = (if g = org n \<and> i = key n then Some n else row_at org key rs g i)"
proof -
  have "\<not> (\<exists>r. r \<in> set rs \<and> org r = org n \<and> key r = key n)"
    using assms by (metis image_eqI set_map)
  then have "find (\<lambda>r. org r = org n \<and> key r = key n) rs = None"
    unfolding find_None_iff .
  moreover have "find P (xs @ [n]) = (case find P xs of None \<Rightarrow> if P n then Some n else None | Some y \<Rightarrow> Some y)" for P xs
    by (induction xs) auto
  ultimately show ?thesis
    by (auto simp: row_at_def split: option.split)
qed

lemma row_at_fresh:
  assumes "i \<notin> set (map key rs)"
  shows "row_at org key rs g i = None"
proof -
  have "\<not> (\<exists>r. r \<in> set rs \<and> org r = g \<and> key r = i)"
    using assms by (metis image_eqI set_map)
  then show ?thesis
    unfolding row_at_def find_None_iff .
qed

lemma hoare_pre_fact: "(F \<Longrightarrow> hoare C P m Q) \<Longrightarrow> hoare C (\<lambda>d. F \<and> P d) m Q"
  by (rule hoareI) (blast dest: hoareD)+

lemma hoare_exact:
  assumes "\<And>w. working w = d0 \<Longrightarrow> m w = (Inr x, w)"
  shows "hoare C (\<lambda>d. d = d0) m (\<lambda>y d. y = x \<and> d = d0)"
  by (rule hoareI) (auto simp: assms)

lemma hoare_insert_ret:
  "hoare C (\<lambda>d. d = d0) (bind (flush v f) (\<lambda>_. ret x)) (\<lambda>y d. (y = x \<and> v d0 = None) \<and> d = f d0)"
  by (rule hoare_bind [OF hoare_flush [where Q = "\<lambda>_ d. v d0 = None \<and> d = f d0"]]) (auto intro: hoare_ret)

lemma hoare_insert_res:
  "hoare C (\<lambda>d. d = d0) (bind (flush v f) (\<lambda>_. of_res r)) (\<lambda>y d. (r = Inr y \<and> v d0 = None) \<and> d = f d0)"
  by (rule hoare_bind [OF hoare_flush [where Q = "\<lambda>_ d. v d0 = None \<and> d = f d0"]]) (auto intro: hoare_of_res)

lemma hoare_step_fact:
  assumes "hoare C P m (\<lambda>x d. F x \<and> d = d1)" and "\<And>x. F x \<Longrightarrow> hoare C (\<lambda>d. d = d1) (k x) Q"
  shows "hoare C P (bind m k) Q"
  by (rule hoare_bind [OF assms(1)]) (intro hoare_pre_fact assms(2))

text \<open>Reading the row with a tenant and key from a table whose rows are valid objects.\<close>

lemma row_read_run:
  assumes "distinct (map key (rows (working w)))" and "\<And>r. r \<in> set (rows (working w)) \<Longrightarrow> load r = Inr r"
  shows "bind (bind (query (\<lambda>d. filter (\<lambda>r. org r = g \<and> key r = i) (rows d)))
      (\<lambda>rs. of_res (scalar_one_or_none rs))) (opt_row load) w =
    (Inr (row_at org key (rows (working w)) g i), w)"
proof (cases "row_at org key (rows (working w)) g i")
  case None
  then show ?thesis
    by (simp add: eff_simps bind_def row_selected [OF assms(1)] scalar_one_or_none_def opt_row_def)
next
  case (Some r)
  then have "load r = Inr r"
    using row_at_iff [OF assms(1)] assms(2) by blast
  with Some show ?thesis
    by (simp add: eff_simps bind_def row_selected [OF assms(1)] scalar_one_or_none_def opt_row_def)
qed

lemma row_read:
  assumes "distinct (map key (rows d0))" and "\<And>r. r \<in> set (rows d0) \<Longrightarrow> load r = Inr r"
  shows "hoare C (\<lambda>d. d = d0)
    (bind (bind (query (\<lambda>d. filter (\<lambda>r. org r = g \<and> key r = i) (rows d)))
      (\<lambda>rs. of_res (scalar_one_or_none rs))) (opt_row load))
    (\<lambda>x d. x = row_at org key (rows d0) g i \<and> d = d0)"
proof (rule hoareI)
  fix w :: world and x w'
  assume w: "C (committed w)" "working w = d0"
    and run: "bind (bind (query (\<lambda>d. filter (\<lambda>r. org r = g \<and> key r = i) (rows d)))
      (\<lambda>rs. of_res (scalar_one_or_none rs))) (opt_row load) w = (Inr x, w')"
  show "C (committed w') \<and> x = row_at org key (rows d0) g i \<and> working w' = d0"
    using row_read_run [of key rows w load org g i] assms w run by simp
next
  fix w :: world and e w'
  assume w: "C (committed w)" "working w = d0"
    and run: "bind (bind (query (\<lambda>d. filter (\<lambda>r. org r = g \<and> key r = i) (rows d)))
      (\<lambda>rs. of_res (scalar_one_or_none rs))) (opt_row load) w = (Inl e, w')"
  show "C (committed w')"
    using row_read_run [of key rows w load org g i] assms w run by simp
qed

locale versioned_table = tenant_table rows put org
  for rows :: "db \<Rightarrow> 'r list" and put and org +
  fixes key :: "'r \<Rightarrow> 'k"
    and lock :: "'r \<Rightarrow> int"
    and fixed :: "'r \<Rightarrow> 'c"
    and assign :: "'r \<Rightarrow> 'r \<Rightarrow> 'r"
  assumes assign_org: "org (assign n r) = org r"
    and assign_fixed: "org n = org r \<Longrightarrow> key n = key r \<Longrightarrow> fixed n = fixed r \<Longrightarrow> assign n r = n"
begin

lemma replaced:
  assumes ok: "distinct (map key rs)" and r: "row_at org key rs (org n) (key n) = Some r"
    and n: "lock n = lock r + 1" "fixed n = fixed r"
  shows "replace_where (row_matched org key lock n) (assign n) rs = map (\<lambda>s. if s = r then n else s) rs"
proof -
  have r': "r \<in> set rs" "org r = org n" "key r = key n"
    using row_at_iff [OF ok] r by blast+
  have "(if row_matched org key lock n s then assign n s else s) = (if s = r then n else s)" if "s \<in> set rs" for s
  proof (cases "s = r")
    case True
    then show ?thesis using r' n assign_fixed [of n r] by (simp add: row_matched_def)
  next
    case False
    then have "key s \<noteq> key n"
      using distinct_mapD [OF ok that r'(1)] r'(3) by auto
    then show ?thesis using False by (simp add: row_matched_def)
  qed
  then show ?thesis by (simp add: replace_where_def)
qed

lemma hoare_update:
  assumes "distinct (map key (rows d0))" and "row_at org key (rows d0) (org n) (key n) = Some r"
    and "lock n = lock r + 1" "fixed n = fixed r"
  shows "hoare C (\<lambda>d. d = d0)
    (flush v (\<lambda>d. put (replace_where (row_matched org key lock n) (assign n) (rows d)) d))
    (\<lambda>_ d. v d0 = None \<and> d = put (map (\<lambda>s. if s = r then n else s) (rows d0)) d0)"
  by (rule hoare_flush) (simp add: replaced [OF assms])

lemma update_matches:
  assumes "row_at org key rs (org n) (key n) = Some r" and "lock n = lock r + 1"
  shows "list_ex (row_matched org key lock n) rs"
  using find_SomeD [OF assms(1) [unfolded row_at_def]] assms(2)
  by (auto simp: list_ex_iff row_matched_def)

lemma isolated_update:
  "isolated (org n) (flush v (\<lambda>d. put (replace_where (row_matched org key lock n) (assign n) (rows d)) d))"
  by (rule isolated_replace) (simp add: row_matched_def assign_org)

lemma outside_update:
  assumes "row_at org key (rows d) (org n) (key n) = Some r"
  shows "outside (org n) (put (map (\<lambda>s. if s = r then n else s) (rows d)) d) = outside (org n) d"
proof -
  have "org r = org n"
    using find_SomeD [OF assms [unfolded row_at_def]] by simp
  then have "outside (org n) (put (replace_where (\<lambda>s. s = r) (\<lambda>_. n) (rows d)) d) = outside (org n) d"
    by (intro outside_replace) simp
  then show ?thesis by (simp add: replace_where_def)
qed

end

section \<open>Audit events of a tenant\<close>

definition tenant_event ::
  "string \<Rightarrow> env \<Rightarrow> AuditEventType \<Rightarrow> TenantContext \<Rightarrow> uuid \<Rightarrow> AuditRequestContext option \<Rightarrow> datetime \<Rightarrow>
   metadata \<Rightarrow> unit tx" where
  "tenant_event target_type E event_type tenant target_id request_context now metadata =
     bind (uuid4 E) (\<lambda>event_id.
     bind (of_res (AuditEvent_create event_id event_type SUCCESS now (Some (tn_user_id tenant))
       (Some (tn_organization_id tenant)) None request_context
       (Some ([(''target_type'', VStr target_type), (''target_id'', VUuid target_id)] @ metadata))))
       (audit_record E))"

definition event_of :: "TenantContext \<Rightarrow> AuditEventType \<Rightarrow> AuditEvent \<Rightarrow> bool" where
  "event_of tenant event_type e \<longleftrightarrow> ae_event_type e = event_type \<and> ae_outcome e = SUCCESS \<and>
     ae_actor_user_id e = Some (tn_user_id tenant) \<and>
     ae_organization_id e = Some (tn_organization_id tenant)"

lemma isolated_tenant_event [isolated_intros]:
  "tn_organization_id tn = t \<Longrightarrow> isolated t (tenant_event s E ty tn i ctxt now md)"
  unfolding tenant_event_def
  by (intro isolated_bind isolated_basic isolated_bind_of_res isolated_audit)
    (simp add: AuditEvent_create_frame)

lemma hoare_uuid4: "hoare C P (uuid4 E) (\<lambda>_. P)"
  by (rule hoare_readonly) (rule readonly_basic)

lemma hoare_clock: "hoare C P (clock_now E) (\<lambda>_. P)"
  by (rule hoare_readonly) (rule readonly_basic)

lemma hoare_audit_append:
  assumes "ae_created_at e = None"
  shows "hoare C (\<lambda>d. d = d0) (audit_record E e)
    (\<lambda>_ d. \<exists>t. d = d0\<lparr>audit_events := audit_events d0 @ [record_from_event t e]\<rparr>)"
  using audit_record_run [OF assms, of E, unfolded Let_def]
  by (intro hoareI) (auto split: if_splits)

definition logged :: "TenantContext \<Rightarrow> AuditEventType \<Rightarrow> db \<Rightarrow> db \<Rightarrow> bool" where
  "logged tenant event_type d0 d \<longleftrightarrow>
     (\<exists>e. event_of tenant event_type e \<and> d = d0\<lparr>audit_events := audit_events d0 @ [e]\<rparr>)"

lemma hoare_tenant_event:
  "hoare C (\<lambda>d. d = d0) (tenant_event s E ty tn i ctxt now md) (\<lambda>_. logged tn ty d0)"
proof -
  have "hoare C (\<lambda>d. d = d0) (audit_record E e) (\<lambda>_. logged tn ty d0)"
    if "AuditEvent_create j ty SUCCESS now (Some (tn_user_id tn)) (Some (tn_organization_id tn)) None ctxt m = Inr e"
    for e j m
  proof (rule hoare_conseq [OF hoare_audit_append])
    fix d
    assume "\<exists>t. d = d0\<lparr>audit_events := audit_events d0 @ [record_from_event t e]\<rparr>"
    then obtain t where "d = d0\<lparr>audit_events := audit_events d0 @ [record_from_event t e]\<rparr>" by blast
    moreover have "event_of tn ty (record_from_event t e)"
      by (simp add: event_of_def record_from_event_def AuditEvent_create_frame [OF that])
    ultimately show "logged tn ty d0 d" unfolding logged_def by blast
  qed (simp_all add: AuditEvent_create_frame [OF that])
  then show ?thesis
    unfolding tenant_event_def
    by (intro hoare_bind [OF hoare_uuid4] hoare_bind_of_res) blast
qed

text \<open>When the event is accepted and stored: an aware time, an unused random identifier, and an
  actor and organization that exist.\<close>

definition event_storable :: "env \<Rightarrow> TenantContext \<Rightarrow> world \<Rightarrow> bool" where
  "event_storable E tn w \<longleftrightarrow>
     e_uuid4 E (uuid_reads w) \<notin> set (map ae_id (audit_events (working w))) \<and>
     tn_user_id tn \<in> set (map u_id (users (working w))) \<and>
     tn_organization_id tn \<in> set (map o_id (organizations (working w)))"

lemma target_metadata_safe:
  assumes "length s \<le> 512"
  shows "safe_metadata [(''target_type'', VStr s), (''target_id'', VUuid i)] 0 =
    Inr [(''target_type'', VStr s), (''target_id'', VStr (uuid_str i))]"
proof -
  have "\<not> secret_like ''target_type''" "\<not> secret_like ''target_id''"
    by code_simp+
  then show ?thesis
    using assms by (simp add: safe_metadata.simps safe_metadata_value.simps audit_limits raise_if_def)
qed

lemma AuditEvent_create_ok:
  assumes "safe_metadata md 0 = Inr md'" and "tz_aware t"
  shows "AuditEvent_create i ty out t actor org sess None (Some md) = Inr
    \<lparr>ae_id = i, ae_event_type = ty, ae_outcome = out, ae_occurred_at = astimezone_utc t,
     ae_actor_user_id = actor, ae_organization_id = org, ae_session_id = sess, ae_request_id = None,
     ae_source_ip = None, ae_user_agent = None, ae_metadata = md', ae_created_at = None\<rparr>"
  using assms
  by (simp add: AuditEvent_create_def AuditEvent_post_init_def AuditRequestContext_post_init_def
      Audit_validate_optional_string_def Audit_require_timezone_aware_def Let_def raise_if_def)

lemma tenant_event_run:
  assumes "tz_aware now" and "length s \<le> 512" and w: "event_storable E tn w" and c: "constructed_context ctxt"
  obtains w' where "tenant_event s E ty tn i ctxt now [] w = (Inr (), w')"
proof -
  let ?c = "AuditEvent_create (e_uuid4 E (uuid_reads w)) ty SUCCESS now (Some (tn_user_id tn))
      (Some (tn_organization_id tn)) None ctxt (Some [(''target_type'', VStr s), (''target_id'', VUuid i)])"
  obtain e where e: "?c = Inr e" "ae_id e = e_uuid4 E (uuid_reads w)"
    using AuditEvent_create_accepts [OF _ assms(1) c, of "Some [(''target_type'', VStr s), (''target_id'', VUuid i)]"]
      target_metadata_safe [OF assms(2)] by (metis option.case(2))
  note f = AuditEvent_create_frame [OF e(1)]
  have "audit_violation e (working w) = None"
    using w f e(2) by (simp add: audit_violation_def event_storable_def)
  then have "tenant_event s E ty tn i ctxt now [] w = (Inr (), snd (tenant_event s E ty tn i ctxt now [] w))"
    using e f by (simp add: tenant_event_def audit_record_run Let_def)
  then show thesis by (rule that)
qed

lemma logged_outside: "logged tn ty d0 d \<Longrightarrow> outside (tn_organization_id tn) d = outside (tn_organization_id tn) d0"
  by (auto simp: logged_def event_of_def outside_defs)

section \<open>Request bodies from a committed copy\<close>

definition commits_from :: "db \<Rightarrow> (db \<Rightarrow> bool) \<Rightarrow> 'a tx \<Rightarrow> ('a \<Rightarrow> db \<Rightarrow> bool) \<Rightarrow> bool" where
  "commits_from c P m Q \<longleftrightarrow> (\<forall>w. committed w = c \<and> P (working w) \<longrightarrow> (case m w of
      (Inl e, w') \<Rightarrow> committed w' = c
    | (Inr x, w') \<Rightarrow> committed w' = working w' \<and> Q x (working w')))"

lemma commits_fromD:
  assumes "commits_from c P m Q" and "committed w = c" and "P (working w)"
  shows "m w = (Inl e, w') \<Longrightarrow> committed w' = c"
    and "m w = (Inr x, w') \<Longrightarrow> committed w' = working w' \<and> Q x (working w')"
  using assms(1) [unfolded commits_from_def, rule_format, of w] assms(2,3) by simp_all

lemma commits_fromI:
  assumes "\<And>w e w'. committed w = c \<Longrightarrow> P (working w) \<Longrightarrow> m w = (Inl e, w') \<Longrightarrow> committed w' = c"
    and "\<And>w x w'. committed w = c \<Longrightarrow> P (working w) \<Longrightarrow> m w = (Inr x, w') \<Longrightarrow>
      committed w' = working w' \<and> Q x (working w')"
  shows "commits_from c P m Q"
  unfolding commits_from_def
proof (intro allI impI)
  fix w :: world
  assume w: "committed w = c \<and> P (working w)"
  show "case m w of (Inl e, w') \<Rightarrow> committed w' = c
    | (Inr x, w') \<Rightarrow> committed w' = working w' \<and> Q x (working w')"
  proof (cases "m w")
    case (Pair r w')
    show ?thesis
      using assms(1) [of w _ w'] assms(2) [of w _ w'] w Pair by (cases r) simp_all
  qed
qed

lemma commits_from_bind:
  assumes m: "hoare (\<lambda>d. d = c) P m R" and k: "\<And>x. commits_from c (R x) (k x) Q"
  shows "commits_from c P (bind m k) Q"
proof (rule commits_fromI)
  fix w e w'
  assume w: "committed w = c" "P (working w)" and b: "bind m k w = (Inl e, w')"
  show "committed w' = c"
  proof (cases rule: hoare_step [OF m w b])
    case (2 x w1)
    then show ?thesis using commits_fromD(1) [OF k 2] by simp
  qed
next
  fix w x w'
  assume w: "committed w = c" "P (working w)" and b: "bind m k w = (Inr x, w')"
  show "committed w' = working w' \<and> Q x (working w')"
  proof (cases rule: hoare_step [OF m w b])
    case (2 y w1)
    then show ?thesis using commits_fromD(2) [OF k 2] by simp
  qed simp
qed

lemma commits_from_raise: "commits_from c P (raise e) Q"
  by (simp add: commits_from_def eff_simps)

lemma commits_from_commit:
  "(\<And>d. P d \<Longrightarrow> Q x d) \<Longrightarrow> commits_from c P (bind commit (\<lambda>_. ret x)) Q"
  by (auto simp: commits_from_def eff_simps)

lemma commits_from_bind_of_res:
  "(\<And>x. r = Inr x \<Longrightarrow> commits_from c P (k x) Q) \<Longrightarrow> commits_from c P (bind (of_res r) k) Q"
  by (cases r) (auto simp: commits_from_def)

lemma commits_from_bind_readonly:
  "readonly m \<Longrightarrow> (\<And>x. commits_from c P (k x) Q) \<Longrightarrow> commits_from c P (bind m k) Q"
  by (rule commits_from_bind [OF hoare_readonly])

lemma commits_from_pre: "(F \<Longrightarrow> commits_from c P m Q) \<Longrightarrow> commits_from c (\<lambda>d. F \<and> P d) m Q"
  by (rule commits_fromI) (blast dest: commits_fromD)+

lemma commits_from_step:
  assumes "hoare (\<lambda>d. d = c) P m (\<lambda>x d. F x \<and> d = d1)" and "\<And>x. F x \<Longrightarrow> commits_from c (\<lambda>d. d = d1) (k x) Q"
  shows "commits_from c P (bind m k) Q"
  by (rule commits_from_bind [OF assms(1)]) (intro commits_from_pre assms(2))

lemma commits_from_logged:
  "(\<And>d. logged tn ty d1 d \<Longrightarrow> Q x d) \<Longrightarrow>
     commits_from c (\<lambda>d. d = d1) (bind (tenant_event s E ty tn i ctxt now md) (\<lambda>_. bind commit (\<lambda>_. ret x))) Q"
  by (rule commits_from_bind [OF hoare_tenant_event]) (rule commits_from_commit)

lemma commits_from_conseq:
  "commits_from c P' m Q' \<Longrightarrow> (\<And>d. P d \<Longrightarrow> P' d) \<Longrightarrow> (\<And>x d. Q' x d \<Longrightarrow> Q x d) \<Longrightarrow> commits_from c P m Q"
  by (rule commits_fromI) (blast dest: commits_fromD)+

lemma commits_from_weaken:
  "commits_from c P m (\<lambda>x d. Q x d \<and> R x d) \<Longrightarrow> commits_from c P m Q"
  by (rule commits_from_conseq) blast+

lemma commits_from_reraise:
  assumes m: "commits_from c P m Q"
    and h: "\<And>e. h e = raise e \<or> h e = bind rollback (\<lambda>_. raise e)"
  shows "commits_from c P (try_except m h) Q"
proof (rule commits_fromI)
  fix w e w'
  assume w: "committed w = c" "P (working w)" and t: "try_except m h w = (Inl e, w')"
  from t show "committed w' = c"
  proof (cases rule: try_except_cases)
    case (2 e1 w1)
    have "committed w1 = c" using commits_fromD(1) [OF m w 2(1)] .
    then show ?thesis using h [of e1] 2(2) by (auto simp: eff_simps)
  qed simp
next
  fix w x w'
  assume w: "committed w = c" "P (working w)" and t: "try_except m h w = (Inr x, w')"
  from t show "committed w' = working w' \<and> Q x (working w')"
  proof (cases rule: try_except_cases)
    case (1 y)
    then show ?thesis using commits_fromD(2) [OF m w, of x w'] by simp
  next
    case (2 e1 w1)
    then show ?thesis using h [of e1] by (auto simp: eff_simps)
  qed
qed

lemma commits_from_cases:
  assumes "\<And>d1. P d1 \<Longrightarrow> commits_from c (\<lambda>d. d = d1) m Q"
  shows "commits_from c P m Q"
proof (rule commits_fromI)
  fix w e w'
  assume w: "committed w = c" "P (working w)" "m w = (Inl e, w')"
  show "committed w' = c"
    by (rule commits_fromD(1) [OF assms [OF w(2)] w(1) refl w(3)])
next
  fix w x w'
  assume w: "committed w = c" "P (working w)" "m w = (Inr x, w')"
  show "committed w' = working w' \<and> Q x (working w')"
    by (rule commits_fromD(2) [OF assms [OF w(2)] w(1) refl w(3)])
qed

lemma commits_from_logged_pre:
  "(\<And>d1 d. P d1 \<Longrightarrow> logged tn ty d1 d \<Longrightarrow> Q x d) \<Longrightarrow>
     commits_from c P (bind (tenant_event s E ty tn i ctxt now md) (\<lambda>_. bind commit (\<lambda>_. ret x))) Q"
  by (rule commits_from_cases, rule commits_from_logged)

abbreviation forget :: "'a tx \<Rightarrow> unit tx" where
  "forget m \<equiv> bind m (\<lambda>_. ret ())"

lemma commits_from_forget:
  assumes m: "commits_from c P m (\<lambda>_. Q)"
  shows "commits_from c P (forget m) (\<lambda>_. Q)"
proof (rule commits_fromI)
  fix w e w'
  assume w: "committed w = c" "P (working w)" and b: "forget m w = (Inl e, w')"
  from b show "committed w' = c"
  proof (cases rule: bind_InlE)
    case 1
    then show ?thesis by (rule commits_fromD(1) [OF m w])
  qed (simp add: eff_simps)
next
  fix w x w'
  assume w: "committed w = c" "P (working w)" and b: "forget m w = (Inr x, w')"
  show "committed w' = working w' \<and> Q (working w')"
  proof (rule bind_InrE [OF b])
    fix y w1
    assume r: "m w = (Inr y, w1)" "ret () w1 = (Inr x, w')"
    show ?thesis
      using commits_fromD(2) [OF m w r(1)] r(2) by (simp add: eff_simps)
  qed
qed

text \<open>One request: a body run in its own session.\<close>

lemma commits_from_run:
  assumes "commits_from (committed w) (\<lambda>d. d = committed w) m Q" and "working w = committed w"
    and "session_scope m w = (r, w')"
  shows "working w' = committed w'"
    and "case r of Inl e \<Rightarrow> committed w' = committed w | Inr x \<Rightarrow> Q x (committed w')"
proof -
  obtain w1 where w1: "m w = (r, w1)" "w' = w1\<lparr>working := committed w1\<rparr>"
    using assms(3) by (auto simp: session_scope_def split: prod.splits)
  show "working w' = committed w'" using w1 by simp
  show "case r of Inl e \<Rightarrow> committed w' = committed w | Inr x \<Rightarrow> Q x (committed w')"
    using commits_fromD(1) [OF assms(1) refl assms(2), of _ w1]
      commits_fromD(2) [OF assms(1) refl assms(2), of _ w1] w1 by (cases r) simp_all
qed

text \<open>An insert that falls back to another computation when a constraint is violated.\<close>

lemma rollback_id: "working w = d \<Longrightarrow> w\<lparr>working := d\<rparr> = (w :: world)"
  by (cases w) simp

lemma hoare_insert_or:
  assumes "v d0 = None \<Longrightarrow> Q x (f d0)" and "\<And>c. hoare (\<lambda>d. d = d0) (\<lambda>d. d = d0) (h c) Q"
  shows "hoare (\<lambda>d. d = d0) (\<lambda>d. d = d0) (on_integrity_error (bind (flush v f) (\<lambda>_. ret x)) h) Q"
proof (cases "v d0")
  case None
  then show ?thesis
    using assms(1) by (auto simp: hoare_def on_integrity_error_def try_except_def bind_def flush_def eff_simps)
next
  case (Some c)
  then have "on_integrity_error (bind (flush v f) (\<lambda>_. ret x)) h w = h c w"
    if "working w = d0" "committed w = d0" for w :: world
    using that by (simp add: rollback_id [of w] on_integrity_error_def try_except_def bind_def flush_def eff_simps)
  then show ?thesis
    using assms(2) [of c] by (simp add: hoare_def)
qed

section \<open>Permission checks\<close>

lemma require_Inr [simp]: "require tn p = Inr x \<longleftrightarrow> p \<in> set (tn_permissions tn)"
  by (simp add: require_def allows_def)

lemma require_ok: "p \<in> set (tn_permissions tn) \<Longrightarrow> require tn p = Inr ()"
  by (simp add: require_def allows_def)

lemma require_Inl: "p \<notin> set (tn_permissions tn) \<Longrightarrow>
    require tn p = Inl (PermissionDenied (tn_user_id tn) (tn_organization_id tn) p)"
  by (simp add: require_def allows_def)

lemma returns_require: "returns (bind (of_res (require tn p)) k) (\<lambda>_. p \<in> set (tn_permissions tn))"
  by (rule returns_bind_of_res) (auto simp: returns_def)

lemma returns_first: "returns m (\<lambda>_. R) \<Longrightarrow> returns (bind m k) (\<lambda>_. R)"
  by (auto simp: returns_def elim!: bind_InrE)

section \<open>A sample tenant\<close>

definition sample_user :: User where
  "sample_user = \<lparr>u_id = 101, u_email = \<lparr>e_display = ''a@b.io'', e_normalized = ''a@b.io''\<rparr>, u_display_name = ''A'',
     u_is_active = True, u_created_at = utc 0, u_updated_at = utc 0, u_disabled_at = None\<rparr>"

definition sample_tenant :: TenantContext where
  "sample_tenant = \<lparr>tn_user_id = 101, tn_organization_id = 5, tn_membership_id = 1, tn_role = OWNER,
     tn_permissions = permissions_for_role OWNER\<rparr>"

definition sample_clock :: env where
  "sample_clock = \<lparr>e_now = (\<lambda>n. DateTime (10 + int n) (Some 0)), e_uuid4 = (\<lambda>n. of_nat (n + 50))\<rparr>"

definition sample_tenant_db :: db where
  "sample_tenant_db = empty_db\<lparr>users := [sample_user], organizations := [sample_organization]\<rparr>"

end
