(* ===== verification/Session_Effects.thy ===== *)
theory Session_Effects
  imports Session_Requests Tenant_Store
begin

text \<open>
  The exact effect on the tables of the requests of \<^verbatim>\<open>application/identity/session_lifecycle.py\<close>
  over \<^verbatim>\<open>infrastructure/identity/repository.py\<close>: what login, logout and logging out everywhere commit, row by row,
  and that the replay of a refresh token commits the revocation of its session whenever the rows
  are valid and the audit events can be stored.
\<close>

section \<open>Recorded events\<close>

definition event_about :: "AuditEventType \<Rightarrow> uuid option \<Rightarrow> SessionId option \<Rightarrow> AuditEvent \<Rightarrow> bool" where
  "event_about ty actor session e \<longleftrightarrow> ae_event_type e = ty \<and> ae_actor_user_id e = actor \<and>
     ae_session_id e = map_option SessionId_value session"

lemma hoare_record_appends:
  "hoare C (\<lambda>d. d = d0) (record_event E ty out t a (map_option SessionId_value s) c md)
    (\<lambda>_ d. \<exists>e. event_about ty a s e \<and> d = d0\<lparr>audit_events := audit_events d0 @ [e]\<rparr>)"
  unfolding record_event_def
proof (rule hoare_bind_readonly, rule readonly_basic, rule hoare_bind_of_res)
  fix x e
  assume "AuditEvent_create x ty out t a None (map_option SessionId_value s) c md = Inr e"
  note f = AuditEvent_create_frame [OF this]
  have "event_about ty a s (record_from_event u e)" for u
    using f by (simp add: event_about_def record_from_event_def)
  then show "hoare C (\<lambda>d. d = d0) (audit_record E e)
      (\<lambda>_ d. \<exists>e. event_about ty a s e \<and> d = d0\<lparr>audit_events := audit_events d0 @ [e]\<rparr>)"
    by (intro hoare_conseq [OF hoare_audit_append [OF f(6)]]) auto
qed

lemma record_event_run:
  assumes "safe_metadata (case md of None \<Rightarrow> [] | Some m \<Rightarrow> m) 0 = Inr md'" and "tz_aware t" and "constructed_context c"
    and "e_uuid4 E (uuid_reads w) \<notin> ae_id ` set (audit_events (working w))" and "i \<in> s_id ` set (auth_sessions (working w))"
    and "pred_option (\<lambda>u. u \<in> set (map u_id (users (working w)))) a"
  obtains e w' where "record_event E ty out t a (Some (SessionId_value i)) c md w = (Inr (), w')"
    "working w' = (working w)\<lparr>audit_events := audit_events (working w) @ [e]\<rparr>" "ae_id e = e_uuid4 E (uuid_reads w)"
    "uuid_reads w' = Suc (uuid_reads w)" "event_about ty a (Some i) e"
proof -
  obtain e where e: "AuditEvent_create (e_uuid4 E (uuid_reads w)) ty out t a None (Some (SessionId_value i)) c md = Inr e"
    "ae_id e = e_uuid4 E (uuid_reads w)"
    using AuditEvent_create_accepts [OF assms(1-3)] by blast
  note f = AuditEvent_create_frame [OF e(1)]
  obtain s where "s \<in> set (auth_sessions (working w))" "s_id s = i" using assms(5) by blast
  then have "audit_violation e (working w) = None"
    using f e(2) assms(4,6) by (auto simp: audit_violation_def first_violation.simps)
  then show thesis
    using e f by (intro that [of "snd (record_event E ty out t a (Some (SessionId_value i)) c md w)"
          "record_from_event (e_now E (now_reads w)) e"])
      (simp_all add: record_event_def audit_record_run Let_def eff_simps record_from_event_def event_about_def)
qed

section \<open>Rows their classes accept\<close>

lemma session_from_record_id:
  assumes "wf_session s" and "SessionId_value (s_id s) \<noteq> 0"
  shows "auth_session_from_record s = Inr s"
proof -
  have i: "SessionId_post_init (SessionId_value (s_id s)) = Inr (s_id s)" using assms(2) by (simp add: token_ids)
  have "s\<lparr>s_id := s_id s, s_created_at := astimezone_utc (s_created_at s), s_updated_at := astimezone_utc (s_updated_at s),
     s_expires_at := astimezone_utc (s_expires_at s), s_revoked_at := map_option astimezone_utc (s_revoked_at s)\<rparr> = s"
    using assms(1) by (cases "s_revoked_at s") (simp_all add: wf_session_def)
  then show ?thesis
    unfolding auth_session_from_record_def i using AuthSession_post_init_id [OF assms(1)] by simp
qed

lemma token_from_record_id:
  assumes "wf_token r" and "RefreshTokenId_value (rt_id r) \<noteq> 0" "SessionId_value (rt_session_id r) \<noteq> 0"
    "RefreshTokenFamilyId_value (rt_token_family_id r) \<noteq> 0"
    and g: "RefreshTokenDigest_post_init (RefreshTokenDigest_value (rt_token_digest r)) = Inr (rt_token_digest r)"
    and "pred_option (\<lambda>t. RefreshTokenId_value t \<noteq> 0) (rt_replaced_by_token_id r)"
  shows "refresh_token_from_record r = Inr r"
proof -
  have i: "RefreshTokenId_post_init (RefreshTokenId_value (rt_id r)) = Inr (rt_id r)"
    "SessionId_post_init (SessionId_value (rt_session_id r)) = Inr (rt_session_id r)"
    "RefreshTokenFamilyId_post_init (RefreshTokenFamilyId_value (rt_token_family_id r)) = Inr (rt_token_family_id r)"
    "opt_res (\<lambda>t. RefreshTokenId_post_init (RefreshTokenId_value t)) (rt_replaced_by_token_id r) = Inr (rt_replaced_by_token_id r)"
    using assms by (simp_all add: token_ids) (cases "rt_replaced_by_token_id r"; simp add: token_ids)
  have "map_option astimezone_utc x = x" if "pred_option (\<lambda>t. is_utc t \<and> rt_issued_at r \<le> t) x" for x
    using that by (cases x) simp_all
  then have "r\<lparr>rt_id := rt_id r, rt_session_id := rt_session_id r, rt_token_family_id := rt_token_family_id r,
       rt_token_digest := rt_token_digest r, rt_issued_at := astimezone_utc (rt_issued_at r),
       rt_expires_at := astimezone_utc (rt_expires_at r), rt_used_at := map_option astimezone_utc (rt_used_at r),
       rt_revoked_at := map_option astimezone_utc (rt_revoked_at r), rt_replaced_by_token_id := rt_replaced_by_token_id r\<rparr> = r"
    using assms(1) by (simp add: wf_token_def)
  then show ?thesis
    unfolding refresh_token_from_record_def i g using RefreshTokenRecord_post_init_id [OF assms(1)] by simp
qed

section \<open>Revocation of a session\<close>

abbreviation stored_session :: "db \<Rightarrow> SessionId \<Rightarrow> AuthSession option" where
  "stored_session d i \<equiv> find (\<lambda>s. s_id s = i) (auth_sessions d)"

text \<open>The revoked form of the stored session, and the tables with it and without open tokens of the session.\<close>

definition revocation :: "SessionId \<Rightarrow> datetime \<Rightarrow> db \<Rightarrow> AuthSession \<Rightarrow> bool" where
  "revocation i t d s' \<longleftrightarrow> (\<exists>s x. stored_session d i = Some s \<and> auth_session_from_record s = Inr x \<and>
     AuthSession_revoke x t = Inr s')"

definition with_revoked :: "SessionId \<Rightarrow> datetime \<Rightarrow> AuthSession \<Rightarrow> db \<Rightarrow> db" where
  "with_revoked i t s' d = d\<lparr>
     auth_sessions := replace_where (\<lambda>s. s_id s = i) (\<lambda>_. s') (auth_sessions d),
     refresh_tokens := replace_where (\<lambda>r. rt_session_id r = i \<and> open_token r) (\<lambda>r. r\<lparr>rt_revoked_at := Some t\<rparr>) (refresh_tokens d)\<rparr>"

lemma revoke_tokens_exact:
  "hoare C (\<lambda>d. d = d0) (revoke_current_refresh_tokens i t) (\<lambda>_ d. d = d0\<lparr>refresh_tokens :=
     replace_where (\<lambda>r. rt_session_id r = i \<and> open_token r) (\<lambda>r. r\<lparr>rt_revoked_at := Some t\<rparr>) (refresh_tokens d0)\<rparr>)"
  unfolding revoke_current_refresh_tokens_def open_token_def by (rule hoare_flush) simp

lemma session_revoke_exact:
  "hoare C (\<lambda>d. d = d0) (session_revoke i t) (\<lambda>_ d. \<exists>s'. revocation i t d0 s' \<and> d = with_revoked i t s' d0)"
  (is "hoare _ _ _ ?Q")
  unfolding session_revoke_def
proof (rule hoare_bind [where Q = "\<lambda>x d. x = stored_session d0 i \<and> d = d0"], rule hoare_query, simp)
  fix row
  show "hoare C (\<lambda>d. row = stored_session d0 i \<and> d = d0) (case row of
       None \<Rightarrow> raise (SessionNotFoundError ''Session does not exist.'')
     | Some r \<Rightarrow>
         bind (of_res (bind_res (auth_session_from_record r) (\<lambda>s. AuthSession_revoke s t))) (\<lambda>session.
         bind (revoke_current_refresh_tokens i t) (\<lambda>_.
         bind (execute (\<lambda>d. d\<lparr>auth_sessions :=
             replace_where (\<lambda>s. s_id s = i) (\<lambda>_. session) (auth_sessions d)\<rparr>)) (\<lambda>_.
         of_res (auth_session_from_record session))))) ?Q"
  proof (rule hoare_option [OF hoare_raise], rule hoare_bind_of_res, rule hoare_pre)
    fix r s' d
    assume "row = Some r" "bind_res (auth_session_from_record r) (\<lambda>s. AuthSession_revoke s t) = Inr s'"
      and d: "row = stored_session d0 i \<and> d = d0"
    then have rv: "revocation i t d0 s'" by (auto simp: revocation_def)
    show "hoare C (\<lambda>e. e = d) (bind (revoke_current_refresh_tokens i t) (\<lambda>_.
         bind (execute (\<lambda>d. d\<lparr>auth_sessions := replace_where (\<lambda>s. s_id s = i) (\<lambda>_. s') (auth_sessions d)\<rparr>)) (\<lambda>_.
         of_res (auth_session_from_record s')))) ?Q"
      by (rule hoare_bind [OF revoke_tokens_exact], rule hoare_bind [OF hoare_execute [where Q = "\<lambda>_ e. e = with_revoked i t s' d"]])
        (use rv d in \<open>auto simp: with_revoked_def intro!: hoare_of_res\<close>)
  qed
qed

lemma revoked_frame:
  assumes "revocation i t d s'"
  shows "s_id s' = i" "s_revoked_at s' \<noteq> None"
proof -
  obtain s x where s: "stored_session d i = Some s" and x: "auth_session_from_record s = Inr x" "AuthSession_revoke x t = Inr s'"
    using assms by (auto simp: revocation_def)
  then have "bind_res (auth_session_from_record s) (\<lambda>s. AuthSession_revoke s t) = Inr s'" by simp
  from auth_session_revoked [OF this] show "s_id s' = i" "s_revoked_at s' \<noteq> None" using find_SomeD [OF s] by simp_all
qed

section \<open>Logging out\<close>

lemma transacts_pre: "(\<And>d. P d \<Longrightarrow> transacts (\<lambda>e. e = d) m Q) \<Longrightarrow> transacts P m Q"
  by (rule transactsI) (blast dest: transactsD)+

lemma rollback_reraise_run:
  "rollback_and_reraise m w = (case m w of (Inl e, w1) \<Rightarrow> (Inl e, w1\<lparr>working := committed w1\<rparr>) | (Inr x, w1) \<Rightarrow> (Inr x, w1))"
  by (simp add: rollback_and_reraise_def try_except_def eff_simps split: prod.splits sum.splits)

definition logged_out :: "uuid \<Rightarrow> SessionId \<Rightarrow> datetime \<Rightarrow> db \<Rightarrow> db \<Rightarrow> bool" where
  "logged_out u i t d0 d \<longleftrightarrow> (\<exists>s s' e. stored_session d0 i = Some s \<and> s_user_id s = u \<and> revocation i t d0 s' \<and>
     event_about SESSION_REVOKED (Some u) (Some i) e \<and>
     d = (with_revoked i t s' d0)\<lparr>audit_events := audit_events d0 @ [e]\<rparr>)"

definition revoke_and_record :: "env \<Rightarrow> uuid \<Rightarrow> SessionId \<Rightarrow> AuditRequestContext option \<Rightarrow> datetime \<Rightarrow> unit tx" where
  "revoke_and_record E u i c t = bind (session_revoke i t) (\<lambda>_.
     bind (record_event E SESSION_REVOKED SUCCESS t (Some u) (Some (SessionId_value i)) c None) (\<lambda>_. bind commit (\<lambda>_. ret ())))"

lemma LogoutSession_steps:
  "LogoutSession E u i c = rollback_and_reraise (bind (session_get_by_id i) (\<lambda>found. case found of
       None \<Rightarrow> raise (SessionNotFoundError ''Session does not exist.'')
     | Some session \<Rightarrow> if s_user_id session \<noteq> u then raise (SessionOwnershipError ''Session does not belong to the user.'')
         else bind (clock_utc E) (revoke_and_record E u i c)))"
  unfolding LogoutSession_def revoke_and_record_def [abs_def] ..

lemma revoke_and_record_transacts:
  "transacts (\<lambda>d. d = d0) (revoke_and_record E u i c t)
     (\<lambda>_ d. \<exists>s' e. revocation i t d0 s' \<and> event_about SESSION_REVOKED (Some u) (Some i) e \<and>
       d = (with_revoked i t s' d0)\<lparr>audit_events := audit_events d0 @ [e]\<rparr>)"
  unfolding revoke_and_record_def
proof (rule transacts_bind [OF session_revoke_exact], rule transacts_pre)
  fix d
  assume "\<exists>s'. revocation i t d0 s' \<and> d = with_revoked i t s' d0"
  then obtain s' where s': "revocation i t d0 s'" "d = with_revoked i t s' d0" by blast
  have ae: "audit_events d = audit_events d0" by (simp add: s' with_revoked_def)
  show "transacts (\<lambda>e. e = d) (bind (record_event E SESSION_REVOKED SUCCESS t (Some u) (Some (SessionId_value i)) c None) (\<lambda>_.
      bind commit (\<lambda>_. ret ()))) (\<lambda>_ d. \<exists>s' e. revocation i t d0 s' \<and> event_about SESSION_REVOKED (Some u) (Some i) e \<and>
       d = (with_revoked i t s' d0)\<lparr>audit_events := audit_events d0 @ [e]\<rparr>)"
    by (rule transacts_bind [OF hoare_record_appends [where s = "Some i", unfolded option.map]], rule transacts_commit(1))
      (use s' ae in auto)
qed

lemma LogoutSession_effect:
  "case LogoutSession E u i c w of
     (Inl e, w') \<Rightarrow> committed w' = committed w
   | (Inr x, w') \<Rightarrow> committed w' = working w' \<and>
       (\<exists>t. lifecycle_timestamp (e_now E (now_reads w)) = Inr t \<and> logged_out u i t (working w) (working w'))"
proof -
  let ?w = "w\<lparr>now_reads := Suc (now_reads w)\<rparr>"
  have body: "revoke_and_record E u i c t ?w = (Inl e, w') \<Longrightarrow> committed w' = committed w"
    "revoke_and_record E u i c t ?w = (Inr x, w') \<Longrightarrow> committed w' = working w' \<and>
      (\<exists>s' e. revocation i t (working w) s' \<and> event_about SESSION_REVOKED (Some u) (Some i) e \<and>
        working w' = (with_revoked i t s' (working w))\<lparr>audit_events := audit_events (working w) @ [e]\<rparr>)" for t e x w'
  proof -
    have p: "working ?w = working w" "committed ?w = committed w" by simp_all
    show "revoke_and_record E u i c t ?w = (Inl e, w') \<Longrightarrow> committed w' = committed w"
      using transactsD(1) [OF revoke_and_record_transacts p(1)] unfolding p(2) .
    show "revoke_and_record E u i c t ?w = (Inr x, w') \<Longrightarrow> committed w' = working w' \<and>
      (\<exists>s' e. revocation i t (working w) s' \<and> event_about SESSION_REVOKED (Some u) (Some i) e \<and>
        working w' = (with_revoked i t s' (working w))\<lparr>audit_events := audit_events (working w) @ [e]\<rparr>)"
      using transactsD(2) [OF revoke_and_record_transacts p(1)] .
  qed
  note run = LogoutSession_steps rollback_reraise_run session_get_by_id_def opt_row_def clock_utc_def eff_simps bind_def
  show ?thesis
  proof (cases "stored_session (working w) i")
    case None
    then show ?thesis by (simp add: run)
  next
    case (Some s)
    show ?thesis
    proof (cases "auth_session_from_record s")
      case (Inl e)
      then show ?thesis using Some by (simp add: run)
    next
      case (Inr x)
      have x: "s_user_id x = s_user_id s" using auth_session_from_record_frame [OF Inr] by simp
      show ?thesis
      proof (cases "s_user_id s = u")
        case False
        then show ?thesis using Some Inr x by (simp add: run)
      next
        case True
        show ?thesis
        proof (cases "lifecycle_timestamp (e_now E (now_reads w))")
          case (Inl e)
          then show ?thesis using Some Inr x True by (simp add: run)
        next
          case t: (Inr t)
          obtain r w' where r: "revoke_and_record E u i c t ?w = (r, w')" by fastforce
          have l: "LogoutSession E u i c w = (case r of Inl e \<Rightarrow> (Inl e, w'\<lparr>working := committed w'\<rparr>) | Inr y \<Rightarrow> (Inr y, w'))"
            using Some Inr x True t r by (simp add: run split: sum.splits)
          show ?thesis
          proof (cases r)
            case (Inl e)
            then have "committed w' = committed w" using r by (intro body(1)) simp
            then show ?thesis unfolding l Inl by simp
          next
            case (Inr y)
            then have b: "revoke_and_record E u i c t ?w = (Inr y, w')" using r by simp
            have "logged_out u i t (working w) (working w')"
              unfolding logged_out_def using body(2) [OF b] Some True by blast
            then show ?thesis unfolding l Inr using body(2) [OF b] t by simp
          qed
        qed
      qed
    qed
  qed
qed

section \<open>Logging out everywhere\<close>

definition open_session_of :: "uuid \<Rightarrow> AuthSession \<Rightarrow> bool" where
  "open_session_of u s \<longleftrightarrow> s_user_id s = u \<and> s_revoked_at s = None"

definition logged_out_everywhere :: "uuid \<Rightarrow> SessionId option \<Rightarrow> datetime \<Rightarrow> db \<Rightarrow> nat \<Rightarrow> db \<Rightarrow> bool" where
  "logged_out_everywhere u j t d0 n d \<longleftrightarrow> n = length (filter (open_session_of u) (auth_sessions d0)) \<and>
     (\<exists>e. event_about SESSION_REVOKED_ALL (Some u) j e \<and>
       d = d0\<lparr>auth_sessions := replace_where (open_session_of u)
             (\<lambda>s. s\<lparr>s_revoked_at := Some t, s_updated_at := t\<rparr>) (auth_sessions d0),
           refresh_tokens := replace_where
             (\<lambda>r. rt_session_id r \<in> s_id ` set (filter (open_session_of u) (auth_sessions d0)) \<and> open_token r)
             (\<lambda>r. r\<lparr>rt_revoked_at := Some t\<rparr>) (refresh_tokens d0),
           audit_events := audit_events d0 @ [e]\<rparr>)"

lemma revoke_tokens_of_all:
  "hoare C (\<lambda>d. d = d0) (for_each (\<lambda>i. revoke_current_refresh_tokens i t) is) (\<lambda>_ d. d = d0\<lparr>refresh_tokens :=
     replace_where (\<lambda>r. rt_session_id r \<in> set is \<and> open_token r) (\<lambda>r. r\<lparr>rt_revoked_at := Some t\<rparr>) (refresh_tokens d0)\<rparr>)"
proof (induction "is" arbitrary: d0)
  case Nil
  show ?case unfolding for_each.simps by (rule hoare_ret) (simp add: replace_where_def)
next
  case (Cons i "is")
  let ?f = "\<lambda>r::RefreshTokenRecord. r\<lparr>rt_revoked_at := Some t\<rparr>"
  have "replace_where (\<lambda>r. rt_session_id r \<in> set is \<and> open_token r) ?f
      (replace_where (\<lambda>r. rt_session_id r = i \<and> open_token r) ?f rs) =
    replace_where (\<lambda>r. rt_session_id r \<in> set (i # is) \<and> open_token r) ?f rs" for rs
    by (simp add: replace_where_def open_token_def)
  with Cons.IH [of "d0\<lparr>refresh_tokens := replace_where (\<lambda>r. rt_session_id r = i \<and> open_token r) ?f (refresh_tokens d0)\<rparr>"]
  show ?case unfolding for_each.simps by (intro hoare_bind [OF revoke_tokens_exact]) simp
qed

lemma session_revoke_all_exact:
  "hoare C (\<lambda>d. d = d0) (session_revoke_all_for_user u t) (\<lambda>n d. n = length (filter (open_session_of u) (auth_sessions d0)) \<and>
     d = d0\<lparr>auth_sessions := replace_where (open_session_of u)
             (\<lambda>s. s\<lparr>s_revoked_at := Some t, s_updated_at := t\<rparr>) (auth_sessions d0),
           refresh_tokens := replace_where
             (\<lambda>r. rt_session_id r \<in> s_id ` set (filter (open_session_of u) (auth_sessions d0)) \<and> open_token r)
             (\<lambda>r. r\<lparr>rt_revoked_at := Some t\<rparr>) (refresh_tokens d0)\<rparr>)"
  (is "hoare _ _ _ ?Q")
  unfolding session_revoke_all_for_user_def open_session_of_def [symmetric]
proof (rule hoare_bind [where Q = "\<lambda>x d. x = map s_id (filter (open_session_of u) (auth_sessions d0)) \<and> d = d0"],
    rule hoare_query, simp, rule hoare_pre)
  fix ids d
  let ?g = "\<lambda>s::AuthSession. s\<lparr>s_revoked_at := Some t, s_updated_at := t\<rparr>"
  assume "ids = map s_id (filter (open_session_of u) (auth_sessions d0)) \<and> d = d0"
  then have i: "ids = map s_id (filter (open_session_of u) (auth_sessions d0))" "d = d0" by simp_all
  show "hoare C (\<lambda>e. e = d) (bind (flush
       (\<lambda>d. first_violation [(''ck_auth_sessions_updated_after_created'',
          \<exists>s \<in> set (auth_sessions d). s_user_id s = u \<and> s_revoked_at s = None \<and> \<not> s_created_at s \<le> t)])
       (\<lambda>d. d\<lparr>auth_sessions := replace_where (open_session_of u) ?g (auth_sessions d)\<rparr>)) (\<lambda>_.
     bind (for_each (\<lambda>i. revoke_current_refresh_tokens i t) ids) (\<lambda>_. ret (length ids)))) ?Q"
    by (rule hoare_bind [OF hoare_flush [where Q = "\<lambda>_ e. e = d\<lparr>auth_sessions := replace_where (open_session_of u) ?g (auth_sessions d)\<rparr>"]],
        simp, rule hoare_bind [OF revoke_tokens_of_all], rule hoare_ret) (simp add: i)
qed

lemma LogoutAllSessions_effect:
  "case LogoutAllSessions E u j c w of
     (Inl e, w') \<Rightarrow> committed w' = committed w
   | (Inr n, w') \<Rightarrow> committed w' = working w' \<and>
       (\<exists>t. lifecycle_timestamp (e_now E (now_reads w)) = Inr t \<and> logged_out_everywhere u j t (working w) n (working w'))"
proof (cases "lifecycle_timestamp (e_now E (now_reads w))")
  case (Inl e)
  then show ?thesis by (simp add: LogoutAllSessions_def rollback_reraise_run clock_utc_def eff_simps bind_def)
next
  case (Inr t)
  define m where "m = bind (session_revoke_all_for_user u t) (\<lambda>revoked.
       bind (record_event E SESSION_REVOKED_ALL SUCCESS t (Some u) (map_option SessionId_value j) c
         (Some [(''revoked_sessions'', VInt (int revoked))])) (\<lambda>_. bind commit (\<lambda>_. ret revoked)))"
  have tr: "transacts (\<lambda>d. d = d0) m (\<lambda>n d. logged_out_everywhere u j t d0 n d)" for d0
    unfolding m_def
  proof (rule transacts_bind [OF session_revoke_all_exact], rule transacts_pre)
    fix n d
    assume d: "n = length (filter (open_session_of u) (auth_sessions d0)) \<and>
     d = d0\<lparr>auth_sessions := replace_where (open_session_of u)
             (\<lambda>s. s\<lparr>s_revoked_at := Some t, s_updated_at := t\<rparr>) (auth_sessions d0),
           refresh_tokens := replace_where
             (\<lambda>r. rt_session_id r \<in> s_id ` set (filter (open_session_of u) (auth_sessions d0)) \<and> open_token r)
             (\<lambda>r. r\<lparr>rt_revoked_at := Some t\<rparr>) (refresh_tokens d0)\<rparr>"
    show "transacts (\<lambda>e. e = d) (bind (record_event E SESSION_REVOKED_ALL SUCCESS t (Some u) (map_option SessionId_value j) c
         (Some [(''revoked_sessions'', VInt (int n))])) (\<lambda>_. bind commit (\<lambda>_. ret n)))
       (\<lambda>n d. logged_out_everywhere u j t d0 n d)"
      by (rule transacts_bind [OF hoare_record_appends], rule transacts_commit(1))
        (use d in \<open>auto simp: logged_out_everywhere_def\<close>)
  qed
  obtain r w' where r: "m (w\<lparr>now_reads := Suc (now_reads w)\<rparr>) = (r, w')" by fastforce
  have l: "LogoutAllSessions E u j c w = (case r of Inl e \<Rightarrow> (Inl e, w'\<lparr>working := committed w'\<rparr>) | Inr n \<Rightarrow> (Inr n, w'))"
  proof -
    have "LogoutAllSessions E u j c = rollback_and_reraise (bind (clock_utc E) (\<lambda>t. bind (session_revoke_all_for_user u t) (\<lambda>revoked.
       bind (record_event E SESSION_REVOKED_ALL SUCCESS t (Some u) (map_option SessionId_value j) c
         (Some [(''revoked_sessions'', VInt (int revoked))])) (\<lambda>_. bind commit (\<lambda>_. ret revoked)))))"
      unfolding LogoutAllSessions_def ..
    moreover have "bind (clock_utc E) k w = k t (w\<lparr>now_reads := Suc (now_reads w)\<rparr>)" for k :: "datetime \<Rightarrow> nat tx"
      using Inr by (simp add: clock_utc_def bind_def eff_simps)
    ultimately show ?thesis using r by (simp add: rollback_reraise_run m_def split: sum.splits)
  qed
  let ?w = "w\<lparr>now_reads := Suc (now_reads w)\<rparr>"
  show ?thesis
  proof (cases r)
    case (Inl e)
    then have "m ?w = (Inl e, w')" using r by simp
    from transactsD(1) [OF tr refl this] show ?thesis unfolding l Inl by simp
  next
    case n: (Inr n)
    then have "m ?w = (Inr n, w')" using r by simp
    from transactsD(2) [OF tr refl this] show ?thesis unfolding l n using Inr by simp
  qed
qed

section \<open>Logging in\<close>

definition authenticated_as :: "crypto \<Rightarrow> string \<Rightarrow> string \<Rightarrow> db \<Rightarrow> uuid \<Rightarrow> bool" where
  "authenticated_as K email password d u \<longleftrightarrow> (\<exists>m row cred.
     EmailAddress_post_init email = Inr m \<and> row \<in> set (users d) \<and> e_normalized (u_email row) = e_normalized m \<and>
     u_id row = u \<and> u_is_active row \<and> cred \<in> set (password_credentials d) \<and> pc_user_id cred = u \<and>
     k_verify_password K password (pc_password_hash cred))"

definition logged_in ::
  "crypto \<Rightarrow> SessionLifecyclePolicy \<Rightarrow> string \<Rightarrow> string \<Rightarrow> datetime \<Rightarrow> db \<Rightarrow> TokenPair \<Rightarrow> db \<Rightarrow> bool" where
  "logged_in K p email password t d0 q d \<longleftrightarrow> (\<exists>u s g ti fi r e1 e2. authenticated_as K email password d0 u \<and>
     AuthSession_create (tp_session_id q) u t (plus_timedelta t (sp_session_lifetime p)) = Inr s \<and>
     digest_token K (tp_refresh_token q) = Inr g \<and>
     RefreshTokenRecord_issue_initial ti (tp_session_id q) fi g t (plus_timedelta t (sp_refresh_token_lifetime p)) = Inr r \<and>
     event_about AUTHENTICATION_LOGIN_SUCCEEDED (Some u) (Some (tp_session_id q)) e1 \<and>
     event_about SESSION_CREATED (Some u) (Some (tp_session_id q)) e2 \<and>
     d = d0\<lparr>auth_sessions := auth_sessions d0 @ [s], refresh_tokens := refresh_tokens d0 @ [r],
            audit_events := audit_events d0 @ [e1, e2]\<rparr>)"

lemma identity_rows_frame:
  "user_from_record row = Inr user \<Longrightarrow> u_id user = u_id row \<and> u_is_active user = u_is_active row"
  "password_credential_from_record cred = Inr c \<Longrightarrow> pc_password_hash c = pc_password_hash cred"
  by (auto simp: user_from_record_def password_credential_from_record_def PasswordCredential_post_init_def
      dest: User_post_init_frame)

lemma authenticate_run:
  assumes "AuthenticateUser K email password w = (r, w')"
  shows "w' = w" "r = Inr a \<Longrightarrow> authenticated_as K email password (working w) (au_user_id a)"
proof -
  have "w' = w \<and> (r = Inr a \<longrightarrow> authenticated_as K email password (working w) (au_user_id a))"
  proof (cases "EmailAddress_post_init email")
    case (Inl e)
    then show ?thesis using assms by (cases e) (auto simp: AuthenticateUser_def eff_simps)
  next
    case (Inr m)
    let ?rows = "filter (\<lambda>u. e_normalized (u_email u) = e_normalized m) (users (working w))"
    note run = AuthenticateUser_def Inr user_get_by_normalized_email_def credential_get_by_user_id_def opt_row_def eff_simps
    show ?thesis
    proof (cases "scalar_one_or_none ?rows")
      case (Inl e)
      then show ?thesis using assms by (auto simp: run)
    next
      case (Inr x)
      note found = Inr
      show ?thesis
      proof (cases "opt_res user_from_record x")
        case (Inl e)
        then show ?thesis using assms found by (auto simp: run)
      next
        case (Inr y)
        note user = Inr
        show ?thesis
        proof (cases y)
          case None
          then show ?thesis using assms found user by (auto simp: run)
        next
          case (Some user)
          obtain row where row: "x = Some row" "user_from_record row = Inr user"
            using opt_res_Some_D [OF Inr [unfolded Some]] by blast
          then have "row \<in> set ?rows" using scalar_one_or_none_in [OF found [unfolded row(1)]] by simp
          then have mem: "row \<in> set (users (working w))" "e_normalized (u_email row) = e_normalized m" by simp_all
          let ?c = "find (\<lambda>c. pc_user_id c = u_id user) (password_credentials (working w))"
          show ?thesis
          proof (cases "opt_res password_credential_from_record ?c")
            case (Inl e)
            then show ?thesis using assms found row Some by (auto simp: run)
          next
            case (Inr z)
            show ?thesis
            proof (cases z)
              case None
              then show ?thesis using assms found row Some Inr by (auto simp: run)
            next
              case c: (Some c)
              obtain cred where cred: "?c = Some cred" "password_credential_from_record cred = Inr c"
                using opt_res_Some_D [OF Inr [unfolded c]] by blast
              have out: "AuthenticateUser K email password w =
                 (if \<not> k_verify_password K password (pc_password_hash c) then (Inl invalid_credentials, w)
                  else if \<not> u_is_active user then
                    (Inl (UserAuthenticationDisabledError ''User is not allowed to authenticate.''), w)
                  else (Inr \<lparr>au_user_id = u_id user, au_email = e_normalized (u_email user),
                     au_display_name = u_display_name user, au_is_active = u_is_active user\<rparr>, w))"
                using found row cred by (simp add: run)
              have au: "authenticated_as K email password (working w) (u_id user)"
                if "k_verify_password K password (pc_password_hash c)" "u_is_active user"
                using \<open>EmailAddress_post_init email = Inr m\<close> mem row(2) that find_SomeD [OF cred(1)] identity_rows_frame(1) [OF row(2)] identity_rows_frame(2) [OF cred(2)]
                unfolding authenticated_as_def by metis
              show ?thesis
                using assms au unfolding out by (auto split: if_splits)
            qed
          qed
        qed
      qed
    qed
  qed
  then show "w' = w" "r = Inr a \<Longrightarrow> authenticated_as K email password (working w) (au_user_id a)" by blast+
qed

lemma hoare_session_added:
  "hoare C (\<lambda>d. d = d0) (session_add s r)
    (\<lambda>_ d. d = d0\<lparr>auth_sessions := auth_sessions d0 @ [s], refresh_tokens := refresh_tokens d0 @ [r]\<rparr>)"
  unfolding session_add_def
  by (rule hoare_bind [OF hoare_on_integrity_error [OF hoare_flush]])
    (simp | rule raise_integrity_errors hoare_readonly readonly_basic)+

definition open_session ::
  "env \<Rightarrow> crypto \<Rightarrow> SessionLifecyclePolicy \<Rightarrow> AuditRequestContext option \<Rightarrow> uuid \<Rightarrow> datetime \<Rightarrow> TokenPair tx" where
  "open_session E K policy audit_context u issued_at =
       bind (uuid4 E) (\<lambda>sid.
       bind (of_res (SessionId_post_init sid)) (\<lambda>session_id.
       let session_expires_at = plus_timedelta issued_at (sp_session_lifetime policy);
           refresh_expires_at = plus_timedelta issued_at (sp_refresh_token_lifetime policy) in
       bind (of_res (AuthSession_create session_id u issued_at session_expires_at))
         (\<lambda>session.
       bind (new_refresh_credential K) (\<lambda>(refresh_token, refresh_digest).
       bind (uuid4 E) (\<lambda>tid.
       bind (of_res (RefreshTokenId_post_init tid)) (\<lambda>token_id.
       bind (uuid4 E) (\<lambda>fid.
       bind (of_res (RefreshTokenFamilyId_post_init fid)) (\<lambda>family_id.
       bind (of_res (RefreshTokenRecord_issue_initial token_id session_id family_id refresh_digest
         issued_at refresh_expires_at)) (\<lambda>refresh_record.
       bind (issue_access_token E K policy u session_id issued_at)
         (\<lambda>(access_token, access_expires_at).
       bind (session_add session refresh_record) (\<lambda>_.
       bind (record_event E AUTHENTICATION_LOGIN_SUCCEEDED SUCCESS issued_at (Some u)
         (Some (SessionId_value session_id)) audit_context None) (\<lambda>_.
       bind (record_event E SESSION_CREATED SUCCESS issued_at (Some u)
         (Some (SessionId_value session_id)) audit_context None) (\<lambda>_.
       bind commit (\<lambda>_.
       of_res (TokenPair_post_init
         \<lparr>tp_access_token = access_token, tp_refresh_token = refresh_token,
          tp_token_type = ''Bearer'', tp_session_id = session_id,
          tp_access_token_expires_at = access_expires_at,
          tp_refresh_token_expires_at = refresh_expires_at\<rparr>)))))))))))))))"

lemma StartUserSession_steps:
  "StartUserSession E K p email password c = rollback_and_reraise (bind (AuthenticateUser K email password) (\<lambda>user.
     bind (clock_utc E) (\<lambda>t. open_session E K p c (au_user_id user) t)))"
  unfolding StartUserSession_def open_session_def ..

lemma login_committed:
  assumes "authenticated_as K email password d0 u" and "is_utc t"
    and "AuthSession_create i u t (plus_timedelta t (sp_session_lifetime p)) = Inr s"
    and "digest_token K (fst cr) = Inr (snd cr)"
    and "RefreshTokenRecord_issue_initial ti i fi (snd cr) t (plus_timedelta t (sp_refresh_token_lifetime p)) = Inr r"
    and "snd at = plus_timedelta t (sp_access_token_lifetime p)"
    and "event_about AUTHENTICATION_LOGIN_SUCCEEDED (Some u) (Some i) e1" "event_about SESSION_CREATED (Some u) (Some i) e2"
    and "d1 = d0\<lparr>auth_sessions := auth_sessions d0 @ [s], refresh_tokens := refresh_tokens d0 @ [r]\<rparr>"
    and "d2 = d1\<lparr>audit_events := audit_events d1 @ [e1]\<rparr>" "d = d2\<lparr>audit_events := audit_events d2 @ [e2]\<rparr>"
  shows "\<exists>y. TokenPair_post_init \<lparr>tp_access_token = fst at, tp_refresh_token = fst cr,
          tp_token_type = ''Bearer'', tp_session_id = i, tp_access_token_expires_at = snd at,
          tp_refresh_token_expires_at = plus_timedelta t (sp_refresh_token_lifetime p)\<rparr> = Inr y \<and>
     logged_in K p email password t d0 y d"
proof -
  let ?q = "\<lparr>tp_access_token = fst at, tp_refresh_token = fst cr,
          tp_token_type = ''Bearer'', tp_session_id = i, tp_access_token_expires_at = snd at,
          tp_refresh_token_expires_at = plus_timedelta t (sp_refresh_token_lifetime p)\<rparr>"
  have q: "tp_session_id ?q = i" "tp_refresh_token ?q = fst cr" by simp_all
  have d: "d = d0\<lparr>auth_sessions := auth_sessions d0 @ [s], refresh_tokens := refresh_tokens d0 @ [r],
      audit_events := audit_events d0 @ [e1, e2]\<rparr>"
    unfolding assms(9-11) by simp
  have "TokenPair_post_init ?q = Inr ?q"
    using assms(2,6) by (intro TokenPair_post_init_id) simp_all
  moreover have "logged_in K p email password t d0 ?q d"
    unfolding logged_in_def q using assms(1,3-5,7,8) d by blast
  ultimately show ?thesis by blast
qed

lemma open_session_effect:
  assumes u: "authenticated_as K email password d0 u" and t: "is_utc t"
  shows "transacts (\<lambda>d. d = d0) (open_session E K p c u t) (logged_in K p email password t d0)"
  unfolding open_session_def Let_def case_prod_beta
  apply (rule transacts_bind_readonly, rule readonly_basic)
  apply (rule transacts_bind_of_res)+
  apply (rule transacts_bind_returns [OF _ returns_new_credential], rule readonly_lookups)
  apply (rule transacts_bind_readonly [OF readonly_basic(6)] transacts_bind_of_res)+
  apply (rule transacts_bind_returns [OF _ returns_access_token], rule readonly_lookups)
  apply (rule transacts_bind, rule hoare_session_added, rule transacts_pre)
  apply (rule transacts_bind, rule hoare_record_appends [where s = "Some i" for i, unfolded option.map], rule transacts_pre, elim exE conjE)
  apply (rule transacts_bind, rule hoare_record_appends [where s = "Some i" for i, unfolded option.map], rule transacts_commit(2), elim exE conjE)
  apply (rule login_committed [OF u t], assumption)
  apply (simp add: case_prod_beta, assumption, assumption, assumption, assumption, assumption, assumption, assumption)
  done

lemma StartUserSession_effect:
  "case StartUserSession E K p email password c w of
     (Inl e, w') \<Rightarrow> committed w' = committed w
   | (Inr q, w') \<Rightarrow> committed w' = working w' \<and>
       (\<exists>t. lifecycle_timestamp (e_now E (now_reads w)) = Inr t \<and>
         logged_in K p email password t (working w) q (working w'))"
proof -
  let ?w = "w\<lparr>now_reads := Suc (now_reads w)\<rparr>"
  obtain a w1 where a: "AuthenticateUser K email password w = (a, w1)" by fastforce
  note w1 = authenticate_run(1) [OF a]
  show ?thesis
  proof (cases a)
    case (Inl e)
    then show ?thesis using a w1 by (simp add: StartUserSession_steps rollback_reraise_run bind_def)
  next
    case user: (Inr user)
    note au = authenticate_run(2) [OF a user]
    show ?thesis
    proof (cases "lifecycle_timestamp (e_now E (now_reads w))")
      case (Inl e)
      then show ?thesis
        using a w1 user by (simp add: StartUserSession_steps rollback_reraise_run bind_def clock_utc_def eff_simps)
    next
      case t: (Inr t)
      then have utc: "is_utc t" by (auto simp: lifecycle_timestamp_def to_utc_def split: if_splits)
      obtain r w' where r: "open_session E K p c (au_user_id user) t ?w = (r, w')" by fastforce
      have l: "StartUserSession E K p email password c w = (case r of Inl e \<Rightarrow> (Inl e, w'\<lparr>working := committed w'\<rparr>) | Inr y \<Rightarrow> (Inr y, w'))"
        using a w1 user t r
        by (simp add: StartUserSession_steps rollback_reraise_run bind_def clock_utc_def eff_simps split: sum.splits)
      note tr = open_session_effect [OF au utc, of E p c]
      have p: "working ?w = working w" by simp
      show ?thesis
      proof (cases r)
        case (Inl e)
        from transactsD(1) [OF tr p r [unfolded this]] show ?thesis unfolding l Inl by simp
      next
        case (Inr q)
        from transactsD(2) [OF tr p r [unfolded this]] show ?thesis unfolding l Inr using t by simp
      qed
    qed
  qed
qed

section \<open>Replay\<close>

lemma session_revoke_run:
  assumes r: "stored_session (working w) i = Some r" and x: "auth_session_from_record r = Inr x"
    and t: "is_utc t" "s_created_at x \<le> t"
    and tok: "\<forall>q \<in> set (refresh_tokens (working w)). rt_session_id q = i \<and> open_token q \<longrightarrow> rt_issued_at q \<le> t"
  obtains s' where "revocation i t (working w) s'" "session_revoke i t w = (Inr s', w\<lparr>working := with_revoked i t s' (working w)\<rparr>)"
proof -
  have i: "s_id r = i" using find_SomeD [OF r] by simp
  then have x': "SessionId_value i \<noteq> 0" "wf_session x" "s_id x = i"
    using x by (auto simp: auth_session_from_record_def token_ids dest: AuthSession_post_init_frame)
  obtain s' where s': "AuthSession_revoke x t = Inr s'" "wf_session s'" "s_id s' = i"
  proof (cases "s_revoked_at x")
    case None
    have "wf_session (x\<lparr>s_updated_at := t, s_revoked_at := Some t\<rparr>)"
      using x'(2) t by (simp add: wf_session_def)
    from AuthSession_post_init_id [OF this] that [of "x\<lparr>s_updated_at := t, s_revoked_at := Some t\<rparr>"] this
    show thesis using None t x'(3)
      by (simp add: AuthSession_revoke_def session_helper_defs raise_if_def)
  next
    case (Some v)
    then show thesis using x' by (intro that [of x]) (simp_all add: AuthSession_revoke_def)
  qed
  have again: "auth_session_from_record s' = Inr s'"
    using s' x'(1) by (simp add: session_from_record_id)
  have rv: "revocation i t (working w) s'" using r x s'(1) by (auto simp: revocation_def)
  have "revoke_current_refresh_tokens i t w = (Inr (), w\<lparr>working := (working w)\<lparr>refresh_tokens :=
     replace_where (\<lambda>r. rt_session_id r = i \<and> open_token r) (\<lambda>r. r\<lparr>rt_revoked_at := Some t\<rparr>) (refresh_tokens (working w))\<rparr>\<rparr>)"
    using tok unfolding revoke_current_refresh_tokens_def flush_def open_token_def
    by (subst if_not_P | auto simp: first_violation.simps)+
  then have "session_revoke i t w = (Inr s', w\<lparr>working := with_revoked i t s' (working w)\<rparr>)"
    using r x s'(1) again by (simp add: session_revoke_def with_revoked_def bind_def eff_simps)
  with rv show thesis by (rule that)
qed

text \<open>
  When the replay of a used token can be acted upon: the clock returns an aware time, the token and its
  session are rows their classes accept, created and issued not after that time, and the two audit
  events can be stored under fresh identifiers.
\<close>

definition replay_recordable :: "env \<Rightarrow> AuditRequestContext option \<Rightarrow> RefreshTokenRecord \<Rightarrow> world \<Rightarrow> bool" where
  "replay_recordable E c r w \<longleftrightarrow> (\<exists>t y s x. lifecycle_timestamp (e_now E (now_reads w)) = Inr t \<and>
       refresh_token_from_record r = Inr y \<and> stored_session (working w) (rt_session_id r) = Some s \<and>
       auth_session_from_record s = Inr x \<and> s_created_at x \<le> t \<and>
       (\<forall>q \<in> set (refresh_tokens (working w)). rt_session_id q = rt_session_id r \<and> open_token q \<longrightarrow> rt_issued_at q \<le> t)) \<and>
     constructed_context c \<and>
     distinct ([e_uuid4 E (uuid_reads w), e_uuid4 E (Suc (uuid_reads w))] @ map ae_id (audit_events (working w)))"

definition replay_revoked :: "SessionId \<Rightarrow> datetime \<Rightarrow> db \<Rightarrow> db \<Rightarrow> bool" where
  "replay_revoked i t d0 d \<longleftrightarrow> (\<exists>s' e1 e2. revocation i t d0 s' \<and>
     event_about SESSION_REFRESH_REPLAY_DETECTED None (Some i) e1 \<and> event_about SESSION_REVOKED None (Some i) e2 \<and>
     d = (with_revoked i t s' d0)\<lparr>audit_events := audit_events d0 @ [e1, e2]\<rparr>)"

lemma reason_metadata_safe:
  "safe_metadata [(''reason'', VStr ''refresh_replay'')] 0 = Inr [(''reason'', VStr ''refresh_replay'')]"
proof -
  have "\<not> secret_like ''reason''" by code_simp
  then show ?thesis by (simp add: safe_metadata.simps safe_metadata_value.simps audit_limits raise_if_def)
qed

lemma replay_recorded:
  assumes t: "is_utc t" and ok: "stored_session (working w) i = Some s"
    "auth_session_from_record s = Inr x" "s_created_at x \<le> t"
    "\<forall>q \<in> set (refresh_tokens (working w)). rt_session_id q = i \<and> open_token q \<longrightarrow> rt_issued_at q \<le> t"
    and c: "constructed_context c"
    and ids: "distinct ([e_uuid4 E (uuid_reads w), e_uuid4 E (Suc (uuid_reads w))] @ map ae_id (audit_events (working w)))"
  obtains w' where "bind (session_revoke i t) (\<lambda>_.
       bind (record_event E SESSION_REFRESH_REPLAY_DETECTED REPLAY_DETECTED t None (Some (SessionId_value i)) c None) (\<lambda>_.
       bind (record_event E SESSION_REVOKED SUCCESS t None (Some (SessionId_value i)) c
         (Some [(''reason'', VStr ''refresh_replay'')])) (\<lambda>_.
       bind commit (\<lambda>_. raise e :: TokenPair tx)))) w = (Inl e, w')"
    "committed w' = working w'" "replay_revoked i t (working w) (committed w')"
proof -
  obtain s' where s': "revocation i t (working w) s'"
    "session_revoke i t w = (Inr s', w\<lparr>working := with_revoked i t s' (working w)\<rparr>)"
    using session_revoke_run [OF ok(1,2) t ok(3,4)] by blast
  define w1 where "w1 = w\<lparr>working := with_revoked i t s' (working w)\<rparr>"
  have ids1: "map s_id (auth_sessions (working w1)) = map s_id (auth_sessions (working w))"
    using revoked_frame(1) [OF s'(1)] by (simp add: w1_def with_revoked_def replace_where_def comp_def)
  have w1: "audit_events (working w1) = audit_events (working w)" "uuid_reads w1 = uuid_reads w"
    by (simp_all add: w1_def with_revoked_def)
  have i1: "i \<in> s_id ` set (auth_sessions (working w1))"
    using find_SomeD [OF ok(1)] unfolding set_map [symmetric] ids1 by force
  obtain e1 w2 where e1: "record_event E SESSION_REFRESH_REPLAY_DETECTED REPLAY_DETECTED t None (Some (SessionId_value i)) c None w1 = (Inr (), w2)"
    "working w2 = (working w1)\<lparr>audit_events := audit_events (working w1) @ [e1]\<rparr>" "ae_id e1 = e_uuid4 E (uuid_reads w1)"
    "uuid_reads w2 = Suc (uuid_reads w1)" "event_about SESSION_REFRESH_REPLAY_DETECTED None (Some i) e1"
    by (rule record_event_run [of None _ t c E w1 i]) (use t c ids i1 w1 in \<open>auto simp: safe_metadata.simps\<close>)
  have w2: "audit_events (working w2) = audit_events (working w) @ [e1]" "auth_sessions (working w2) = auth_sessions (working w1)"
    using e1(2) w1(1) by simp_all
  obtain e2 w3 where e2: "record_event E SESSION_REVOKED SUCCESS t None (Some (SessionId_value i)) c
      (Some [(''reason'', VStr ''refresh_replay'')]) w2 = (Inr (), w3)"
    "working w3 = (working w2)\<lparr>audit_events := audit_events (working w2) @ [e2]\<rparr>" "ae_id e2 = e_uuid4 E (uuid_reads w2)"
    "uuid_reads w3 = Suc (uuid_reads w2)" "event_about SESSION_REVOKED None (Some i) e2"
    by (rule record_event_run [of "Some [(''reason'', VStr ''refresh_replay'')]" _ t c E w2 i])
      (use t c ids i1 w1 w2 e1 in \<open>auto simp: reason_metadata_safe\<close>)
  have "working w3 = (with_revoked i t s' (working w))\<lparr>audit_events := audit_events (working w) @ [e1, e2]\<rparr>"
    unfolding e2(2) w2(1) unfolding e1(2) by (simp add: w1_def)
  then have "replay_revoked i t (working w) (working w3)"
    unfolding replay_revoked_def using s'(1) e1(5) e2(5) by blast
  then show thesis
    using s'(2) e1(1) e2(1) unfolding w1_def [symmetric]
    by (intro that [of "snd (bind commit (\<lambda>_. raise e :: TokenPair tx) w3)"]) (simp_all add: bind_def eff_simps)
qed

lemma RefreshSession_replay_recorded:
  assumes inv: "token_inv (working w)" and g: "digest_token K tok = Inr (rt_token_digest r)"
    and r: "r \<in> set (refresh_tokens (working w))" "rt_used_at r \<noteq> None" and ok: "replay_recordable E c r w"
  obtains t w' where "RefreshSession E K p tok c w = (Inl (RefreshTokenReplayError ''Refresh token replay was detected.''), w')"
    "lifecycle_timestamp (e_now E (now_reads w)) = Inr t" "replay_revoked (rt_session_id r) t (working w) (committed w')"
proof -
  obtain t y s x where t: "lifecycle_timestamp (e_now E (now_reads w)) = Inr t" and y: "refresh_token_from_record r = Inr y"
    and rows: "stored_session (working w) (rt_session_id r) = Some s" "auth_session_from_record s = Inr x" "s_created_at x \<le> t"
      "\<forall>q \<in> set (refresh_tokens (working w)). rt_session_id q = rt_session_id r \<and> open_token q \<longrightarrow> rt_issued_at q \<le> t"
    and c: "constructed_context c"
    and ids: "distinct ([e_uuid4 E (uuid_reads w), e_uuid4 E (Suc (uuid_reads w))] @ map ae_id (audit_events (working w)))"
    using ok unfolding replay_recordable_def by blast
  have utc: "is_utc t" using t by (auto simp: lifecycle_timestamp_def to_utc_def split: if_splits)
  define w1 where "w1 = w\<lparr>now_reads := Suc (now_reads w)\<rparr>"
  have w1: "working w1 = working w" "uuid_reads w1 = uuid_reads w" by (simp_all add: w1_def)
  have clock: "bind (clock_utc E) k w = k t w1" for k :: "datetime \<Rightarrow> 'a tx"
    using t by (simp add: clock_utc_def bind_def eff_simps w1_def)
  have lookup: "bind (session_get_refresh_token_by_digest (rt_token_digest r)) k w1 = k (Some y) w1"
    for k :: "RefreshTokenRecord option \<Rightarrow> 'a tx"
    using token_lookup_run [of w1 r] inv r(1) w1 y by (simp add: bind_def)
  have y': "rt_used_at y \<noteq> None" "rt_session_id y = rt_session_id r"
    using refresh_token_from_record_frame [OF y] r(2) by simp_all
  let ?e = "RefreshTokenReplayError ''Refresh token replay was detected.''"
  obtain w' where w': "bind (session_revoke (rt_session_id r) t) (\<lambda>_.
       bind (record_event E SESSION_REFRESH_REPLAY_DETECTED REPLAY_DETECTED t None (Some (SessionId_value (rt_session_id r))) c None) (\<lambda>_.
       bind (record_event E SESSION_REVOKED SUCCESS t None (Some (SessionId_value (rt_session_id r))) c
         (Some [(''reason'', VStr ''refresh_replay'')])) (\<lambda>_.
       bind commit (\<lambda>_. raise ?e :: TokenPair tx)))) w1 = (Inl ?e, w')"
    "replay_revoked (rt_session_id r) t (working w1) (committed w')"
    by (rule replay_recorded [OF utc, of "rt_session_id r" w1 s x c E ?e]) (use rows c ids w1 in auto)
  have "refresh_body E K p tok c w = (Inl ?e, w')"
    using w'(1) [folded y'(2)] y'(1) by (simp add: refresh_body_def clock g lookup)
  then have "RefreshSession E K p tok c w = (Inl ?e, w')"
    by (simp add: RefreshSession_def bind_def try_except_def eff_simps)
  from this t w'(2) show thesis unfolding w1 by (rule that)
qed

lemma with_revoked_closed:
  assumes "s_revoked_at s' \<noteq> None" and "s_id s' = i"
  shows "\<not> session_open (with_revoked i t s' d) i"
    and "q \<in> set (refresh_tokens (with_revoked i t s' d)) \<Longrightarrow> rt_session_id q = i \<Longrightarrow> \<not> open_token q"
proof -
  have revoked: "s_revoked_at x \<noteq> None" if "x \<in> set (replace_where (\<lambda>s. s_id s = i) (\<lambda>_. s') xs)" "s_id x = i" for x xs
    using that assms(1) by (auto simp: replace_where_def split: if_splits)
  have "auth_sessions (with_revoked i t s' d) = replace_where (\<lambda>s. s_id s = i) (\<lambda>_. s') (auth_sessions d)"
    by (simp add: with_revoked_def)
  then show "\<not> session_open (with_revoked i t s' d) i"
    unfolding session_open_def by (metis (lifting) revoked)
  have closed: "\<not> open_token q" if q: "q \<in> set (replace_where (\<lambda>r. rt_session_id r = i \<and> open_token r) (\<lambda>r. r\<lparr>rt_revoked_at := Some t\<rparr>) rs)"
    "rt_session_id q = i" for q rs
  proof -
    obtain r where "q = (if rt_session_id r = i \<and> open_token r then r\<lparr>rt_revoked_at := Some t\<rparr> else r)"
      using q(1) unfolding replace_where_def set_map by blast
    then show ?thesis using q(2) by (cases "rt_session_id r = i \<and> open_token r") (auto simp: open_token_def)
  qed
  have "refresh_tokens (with_revoked i t s' d) =
      replace_where (\<lambda>r. rt_session_id r = i \<and> open_token r) (\<lambda>r. r\<lparr>rt_revoked_at := Some t\<rparr>) (refresh_tokens d)"
    by (simp add: with_revoked_def)
  note eq = this
  show "q \<in> set (refresh_tokens (with_revoked i t s' d)) \<Longrightarrow> rt_session_id q = i \<Longrightarrow> \<not> open_token q"
    unfolding eq by (rule closed)
qed

lemma replay_revoked_closed:
  assumes "replay_revoked i t d0 d"
  shows "\<not> session_open d i" "q \<in> set (refresh_tokens d) \<Longrightarrow> rt_session_id q = i \<Longrightarrow> \<not> open_token q"
proof -
  obtain s' a where s': "revocation i t d0 s'" and d: "d = (with_revoked i t s' d0)\<lparr>audit_events := a\<rparr>"
    using assms unfolding replay_revoked_def by blast
  note closed = with_revoked_closed [OF revoked_frame(2,1) [OF s']]
  show "\<not> session_open d i" using closed(1) unfolding d by simp
  show "q \<in> set (refresh_tokens d) \<Longrightarrow> rt_session_id q = i \<Longrightarrow> \<not> open_token q"
    using closed(2) unfolding d by simp
qed

lemma outcome_conj:
  assumes "case x of (Inl e, w') \<Rightarrow> P w' | (Inr y, w') \<Rightarrow> C w' \<and> A y w'"
    and "case x of (Inl e, w') \<Rightarrow> P w' | (Inr y, w') \<Rightarrow> C w' \<and> B y w'"
  shows "case x of (Inl e, w') \<Rightarrow> P w' | (Inr y, w') \<Rightarrow> C w' \<and> A y w' \<and> B y w'"
  using assms by (auto split: prod.splits sum.splits)

section \<open>Properties\<close>

text \<open>
  C2. Replay detection. Presenting a refresh token that was already used never yields tokens:
  the request raises, and either nothing at all was committed, or the replay error is raised
  and the token's whole session is revoked in the committed tables, where it has no open token
  left. When the clock and the stored rows are valid and the two audit events can be stored, it is
  always the second: the error is the replay error, and committed are exactly the revocation of
  the session, of its open tokens, and the two events.
\<close>

theorem replay_revokes_session:
  assumes "token_inv (working w)" and "digest_token K tok = Inr (rt_token_digest r)"
    and "r \<in> set (refresh_tokens (working w))" and "rt_used_at r \<noteq> None"
  shows "\<exists>e w'. RefreshSession E K p tok c w = (Inl e, w') \<and> (committed w' = committed w \<or>
     e = RefreshTokenReplayError ''Refresh token replay was detected.'' \<and>
     \<not> session_open (committed w') (rt_session_id r) \<and>
     (\<forall>q \<in> set (refresh_tokens (committed w')). rt_session_id q = rt_session_id r \<longrightarrow> \<not> open_token q)) \<and>
   (replay_recordable E c r w \<longrightarrow>
     e = RefreshTokenReplayError ''Refresh token replay was detected.'' \<and>
     \<not> session_open (committed w') (rt_session_id r) \<and>
     (\<forall>q \<in> set (refresh_tokens (committed w')). rt_session_id q = rt_session_id r \<longrightarrow> \<not> open_token q) \<and>
     (\<exists>t. lifecycle_timestamp (e_now E (now_reads w)) = Inr t \<and>
        replay_revoked (rt_session_id r) t (working w) (committed w')))"
proof -
  obtain e w' where run: "RefreshSession E K p tok c w = (Inl e, w')"
    and out: "committed w' = committed w \<or> e = RefreshTokenReplayError ''Refresh token replay was detected.'' \<and>
     token_inv (committed w') \<and> \<not> session_open (committed w') (rt_session_id r)"
    using RefreshSession_replay [OF assms, of E p c] by blast
  have closed: "\<not> open_token q" if "token_inv (committed w')" "\<not> session_open (committed w') (rt_session_id r)"
    "q \<in> set (refresh_tokens (committed w'))" "rt_session_id q = rt_session_id r" for q
    using token_invD(5) [OF that(1,3)] that(2,4) by auto
  have rec: "e = RefreshTokenReplayError ''Refresh token replay was detected.'' \<and>
     (\<exists>t. lifecycle_timestamp (e_now E (now_reads w)) = Inr t \<and>
        replay_revoked (rt_session_id r) t (working w) (committed w'))" if "replay_recordable E c r w"
    by (rule RefreshSession_replay_recorded [OF assms that, of p]) (use run in auto)
  show ?thesis
    using run out closed rec replay_revoked_closed by blast
qed

lemma sample_rows_accepted:
  "auth_session_from_record sample_session = Inr sample_session"
  "refresh_token_from_record sample_token = Inr sample_token"
proof -
  show "auth_session_from_record sample_session = Inr sample_session"
    by (rule session_from_record_id) (simp_all add: sample_session_def wf_session_def is_utc_def instant_def)
  have "RefreshTokenDigest_post_init (RefreshTokenDigest_value (rt_token_digest sample_token)) = Inr (rt_token_digest sample_token)"
    using sample_digest [of "[]"] by (auto simp: digest_token_def dest: digest_reread)
  then show "refresh_token_from_record sample_token = Inr sample_token"
    by (intro token_from_record_id) (simp_all add: sample_token_def wf_token_def is_utc_def instant_def)
qed

theorem replay_revokes_session_witness:
  "\<exists>w'. RefreshSession sample_env sample_crypto sample_policy ''t'' None (fresh_world sample_session_db) =
       (Inl (RefreshTokenReplayError ''Refresh token replay was detected.''), w') \<and>
     session_open sample_session_db (SessionId 1) \<and> \<not> session_open (committed w') (SessionId 1)"
proof -
  have "replay_recordable sample_env None sample_token (fresh_world sample_session_db)"
    unfolding replay_recordable_def
    by (intro conjI exI [of _ "DateTime 10 (Some 0)"] exI [of _ sample_token] exI [of _ sample_session])
      (simp_all add: sample_rows_accepted,
       simp_all add: sample_session_db_def empty_db_def sample_env_def lifecycle_timestamp_def to_utc_def is_utc_def
         sample_session_def sample_token_def open_token_def instant_def fresh_world_def)
  then show ?thesis
    using replay_revokes_session [of "fresh_world sample_session_db" sample_crypto "''t''" sample_token
      sample_env sample_policy None] sample_session_db_inv sample_digest
    by (auto simp: sample_session_db_def empty_db_def sample_token_def sample_session_def session_open_def fresh_world_def)
qed

text \<open>
  C19. Login and logout are transactions with exactly their effect. A request that raises commits
  nothing. A login that returns tokens belongs to an active stored user whose stored password hash
  the password verifies; it has added one session of that user with the configured lifetime, one open
  refresh token of it with the digest of the token handed out, and the events of login and session
  creation, and changed nothing else. A logout that returns had found the session stored for the
  user who asked; it has revoked that session and the open tokens of it at the time of the clock,
  appended one event, and changed nothing else. Logging out everywhere has done so for the sessions
  of the user that were not revoked, whose number it returns, and for no session of another user.
\<close>

theorem session_requests_are_transactions:
  assumes "token_inv (working w)"
  shows "(case StartUserSession E K p email pw c w of
        (Inl e, w') \<Rightarrow> committed w' = committed w
      | (Inr q, w') \<Rightarrow> committed w' = working w' \<and> session_granted K q (working w') \<and>
          (\<exists>t. lifecycle_timestamp (e_now E (now_reads w)) = Inr t \<and>
             logged_in K p email pw t (working w) q (working w'))) \<and>
    (case LogoutSession E u i c w of
        (Inl e, w') \<Rightarrow> committed w' = committed w
      | (Inr x, w') \<Rightarrow> committed w' = working w' \<and> session_closed i (working w') \<and>
          (\<exists>t. lifecycle_timestamp (e_now E (now_reads w)) = Inr t \<and>
             logged_out u i t (working w) (working w'))) \<and>
    (case LogoutAllSessions E u j c w of
        (Inl e, w') \<Rightarrow> committed w' = committed w
      | (Inr n, w') \<Rightarrow> committed w' = working w' \<and>
          (\<forall>s \<in> set (auth_sessions (working w')). s_user_id s = u \<longrightarrow> s_revoked_at s \<noteq> None) \<and>
          (\<exists>t. lifecycle_timestamp (e_now E (now_reads w)) = Inr t \<and>
             logged_out_everywhere u j t (working w) n (working w')))"
proof (intro conjI)
  note run = transacts_run [where P = token_inv, OF _ assms]
  show "case StartUserSession E K p email pw c w of
        (Inl e, w') \<Rightarrow> committed w' = committed w
      | (Inr q, w') \<Rightarrow> committed w' = working w' \<and> session_granted K q (working w') \<and>
          (\<exists>t. lifecycle_timestamp (e_now E (now_reads w)) = Inr t \<and> logged_in K p email pw t (working w) q (working w'))"
    by (rule outcome_conj [OF _ StartUserSession_effect], rule run, rule transacts_conseq [OF login_transacts], assumption, simp)
  show "case LogoutSession E u i c w of
        (Inl e, w') \<Rightarrow> committed w' = committed w
      | (Inr x, w') \<Rightarrow> committed w' = working w' \<and> session_closed i (working w') \<and>
          (\<exists>t. lifecycle_timestamp (e_now E (now_reads w)) = Inr t \<and> logged_out u i t (working w) (working w'))"
    by (rule outcome_conj [OF _ LogoutSession_effect], rule run, rule transacts_conseq [OF logout_transacts], assumption, simp)
  show "case LogoutAllSessions E u j c w of
        (Inl e, w') \<Rightarrow> committed w' = committed w
      | (Inr n, w') \<Rightarrow> committed w' = working w' \<and>
          (\<forall>s \<in> set (auth_sessions (working w')). s_user_id s = u \<longrightarrow> s_revoked_at s \<noteq> None) \<and>
          (\<exists>t. lifecycle_timestamp (e_now E (now_reads w)) = Inr t \<and> logged_out_everywhere u j t (working w) n (working w'))"
    by (rule outcome_conj [OF _ LogoutAllSessions_effect], rule run, rule transacts_conseq [OF logout_all_transacts], assumption, simp)
qed

definition sample_logout_db :: db where
  "sample_logout_db = sample_open_db\<lparr>users := [sample_user\<lparr>u_id := 7\<rparr>]\<rparr>"

lemma sample_logout_served:
  "\<exists>w'. LogoutSession sample_env 7 (SessionId 1) None (fresh_world sample_logout_db) = (Inr (), w')"
proof -
  let ?w = "(fresh_world sample_logout_db)\<lparr>now_reads := 1\<rparr>" and ?t = "DateTime 10 (Some 0)"
  have row: "stored_session (working ?w) (SessionId 1) = Some sample_session"
    by (simp add: sample_logout_db_def sample_open_db_def fresh_world_def sample_session_def)
  have aw: "is_utc ?t" "s_created_at sample_session \<le> ?t" by (simp_all add: is_utc_def sample_session_def instant_def)
  have tok: "\<forall>q \<in> set (refresh_tokens (working ?w)). rt_session_id q = SessionId 1 \<and> open_token q \<longrightarrow> rt_issued_at q \<le> ?t"
    by (simp add: sample_logout_db_def sample_open_db_def fresh_world_def sample_token_def instant_def)
  obtain s' where rv: "revocation (SessionId 1) ?t (working ?w) s'"
    and s': "session_revoke (SessionId 1) ?t ?w = (Inr s', ?w\<lparr>working := with_revoked (SessionId 1) ?t s' (working ?w)\<rparr>)"
    using session_revoke_run [OF row sample_rows_accepted(1) aw tok] by blast
  define w1 where "w1 = ?w\<lparr>working := with_revoked (SessionId 1) ?t s' (working ?w)\<rparr>"
  have "SessionId 1 \<in> s_id ` set (auth_sessions (working w1))"
    using revoked_frame(1) [OF rv] by (simp add: w1_def with_revoked_def replace_where_def sample_logout_db_def sample_open_db_def
      fresh_world_def sample_session_def)
  moreover have "audit_events (working w1) = []" "users (working w1) = [sample_user\<lparr>u_id := 7\<rparr>]"
    by (simp_all add: w1_def with_revoked_def sample_logout_db_def sample_open_db_def fresh_world_def empty_db_def)
  ultimately obtain w2 where w2: "record_event sample_env SESSION_REVOKED SUCCESS ?t (Some 7) (Some (SessionId_value (SessionId 1))) None None w1 = (Inr (), w2)"
    by - (rule record_event_run [of None "[]" ?t None sample_env w1 "SessionId 1" "Some 7"], auto simp: safe_metadata.simps is_utc_def tz_aware_def)
  have "lifecycle_timestamp (e_now sample_env 0) = Inr ?t"
    by (simp add: sample_env_def lifecycle_timestamp_def to_utc_def is_utc_def tz_aware_def astimezone_utc_def utc_def instant_def)
  then have clock: "bind (clock_utc sample_env) k (fresh_world sample_logout_db) = k ?t ?w" for k :: "datetime \<Rightarrow> unit tx"
    by (simp add: clock_utc_def bind_def eff_simps fresh_world_def)
  have "session_get_by_id (SessionId 1) (fresh_world sample_logout_db) = (Inr (Some sample_session), fresh_world sample_logout_db)"
    using row sample_rows_accepted(1) by (simp add: session_get_by_id_def opt_row_def eff_simps)
  then have "LogoutSession sample_env 7 (SessionId 1) None (fresh_world sample_logout_db) =
      rollback_and_reraise (\<lambda>_. revoke_and_record sample_env 7 (SessionId 1) None ?t ?w) (fresh_world sample_logout_db)"
    unfolding LogoutSession_steps rollback_reraise_run
    by (simp add: bind_def [of "session_get_by_id (SessionId 1)"] clock) (simp add: sample_session_def)
  moreover have "revoke_and_record sample_env 7 (SessionId 1) None ?t ?w = (Inr (), w2\<lparr>committed := working w2\<rparr>)"
    using s' w2 unfolding revoke_and_record_def w1_def [symmetric] by (simp add: bind_def eff_simps)
  ultimately show ?thesis by (simp add: rollback_reraise_run)
qed

theorem session_requests_are_transactions_witness:
  "\<exists>w'. LogoutSession sample_env 7 (SessionId 1) None (fresh_world sample_logout_db) = (Inr (), w') \<and>
     session_open sample_logout_db (SessionId 1) \<and> \<not> session_open (committed w') (SessionId 1) \<and>
     (\<exists>t. logged_out 7 (SessionId 1) t sample_logout_db (committed w'))"
proof -
  have inv: "token_inv sample_logout_db" "session_open sample_logout_db (SessionId 1)"
    by (simp_all add: token_inv_upto_def sample_logout_db_def sample_open_db_def empty_db_def sample_session_def sample_token_def
        open_token_def session_open_def)
  obtain w' where w': "LogoutSession sample_env 7 (SessionId 1) None (fresh_world sample_logout_db) = (Inr (), w')"
    using sample_logout_served by blast
  have "committed w' = working w' \<and> session_closed (SessionId 1) (working w') \<and>
     (\<exists>t. logged_out 7 (SessionId 1) t sample_logout_db (working w'))"
    using session_requests_are_transactions [where w = "fresh_world sample_logout_db" and E = sample_env and
      u = 7 and i = "SessionId 1" and c = None, THEN conjunct2, THEN conjunct1] inv(1) unfolding w' by auto
  with w' inv(2) show ?thesis by (auto simp: session_closed_def)
qed

end
