(* ===== verification/Batch_Store.thy ===== *)
theory Batch_Store
  imports Tenant_Store
begin

text \<open>
  The batch repository \<^verbatim>\<open>infrastructure/batches.py\<close>: the tables \<^verbatim>\<open>batches\<close> and
  \<^verbatim>\<open>batch_documents\<close> with their constraints, and every method of \<^verbatim>\<open>SqlAlchemyBatchRepository\<close>.
  \<^verbatim>\<open>update\<close> changes the rows whose stored lock version is one below the new one and does not
  look at the number of rows it matched. A name filter is an SQL \<^verbatim>\<open>ILIKE\<close> pattern.
\<close>

section \<open>Rows and constraints\<close>

definition batch_from_record :: "Batch \<Rightarrow> Batch res" where
  "batch_from_record r =
     bind_res (BatchId_post_init (BatchId_value (b_id r))) (\<lambda>batch_id.
     Batch_post_init
       (r\<lparr>b_id := batch_id, b_created_at := astimezone_utc (b_created_at r),
          b_updated_at := astimezone_utc (b_updated_at r),
          b_archived_at := map_option astimezone_utc (b_archived_at r)\<rparr>))"

definition batch_document_from_record :: "BatchDocument \<Rightarrow> BatchDocument res" where
  "batch_document_from_record r =
     bind_res (BatchDocumentId_post_init (BatchDocumentId_value (bd_id r))) (\<lambda>membership_id.
     bind_res (BatchId_post_init (BatchId_value (bd_batch_id r))) (\<lambda>batch_id.
     bind_res (DocumentId_post_init (DocumentId_value (bd_document_id r))) (\<lambda>document_id.
     BatchDocument_post_init
       (r\<lparr>bd_id := membership_id, bd_batch_id := batch_id, bd_document_id := document_id,
          bd_added_at := astimezone_utc (bd_added_at r)\<rparr>))))"

definition batch_violation :: "bool \<Rightarrow> Batch \<Rightarrow> db \<Rightarrow> string option" where
  "batch_violation fresh b d = first_violation
     [(''ck_batches_lock_version_positive'', b_lock_version b \<le> 0),
      (''pk_batches'', fresh \<and> b_id b \<in> set (map b_id (batches d))),
      (''fk_batches_organization_id_organizations'', organization_missing d (b_organization_id b)),
      (''fk_batches_created_by_user_id_users'', user_missing d (b_created_by_user_id b)),
      (''fk_batches_updated_by_user_id_users'', user_missing d (b_updated_by_user_id b)),
      (''fk_batches_archived_by_user_id_users'',
        \<not> pred_option (\<lambda>u. \<not> user_missing d u) (b_archived_by_user_id b))]"

definition batch_document_violation :: "BatchDocument \<Rightarrow> db \<Rightarrow> string option" where
  "batch_document_violation m d = first_violation
     [(''pk_batch_documents'', bd_id m \<in> set (map bd_id (batch_documents d))),
      (''uq_batch_documents_batch_document'',
        \<exists>x \<in> set (batch_documents d). bd_batch_id x = bd_batch_id m \<and> bd_document_id x = bd_document_id m),
      (''fk_batch_documents_organization_id_organizations'', organization_missing d (bd_organization_id m)),
      (''fk_batch_documents_organization_batch_batches'',
        \<not> (\<exists>b \<in> set (batches d). b_organization_id b = bd_organization_id m \<and> b_id b = bd_batch_id m)),
      (''fk_batch_documents_organization_document_documents'',
        \<not> (\<exists>x \<in> set (documents d). d_organization_id x = bd_organization_id m \<and> d_id x = bd_document_id m)),
      (''fk_batch_documents_added_by_user_id_users'', user_missing d (bd_added_by_user_id m))]"

section \<open>The repository\<close>

record BatchListFilter =
  bf_limit :: int
  bf_offset :: int
  bf_status :: "BatchStatus option"
  bf_archived :: "bool option"
  bf_name :: "string option"

record BatchListPage =
  bp_items :: "Batch list"
  bp_total :: nat
  bp_limit :: int
  bp_offset :: int

definition batch_add :: "Batch \<Rightarrow> Batch tx" where
  "batch_add batch =
     bind (flush (batch_violation True batch) (\<lambda>d. d\<lparr>batches := batches d @ [batch]\<rparr>)) (\<lambda>_.
     of_res (batch_from_record batch))"

definition batch_record_row :: "uuid \<Rightarrow> BatchId \<Rightarrow> Batch option tx" where
  "batch_record_row organization_id batch_id =
     bind (query (\<lambda>d. filter (\<lambda>b. b_organization_id b = organization_id \<and> b_id b = batch_id) (batches d))) (\<lambda>rows.
     of_res (scalar_one_or_none rows))"

definition batch_get :: "uuid \<Rightarrow> BatchId \<Rightarrow> Batch option tx" where
  "batch_get organization_id batch_id =
     bind (batch_record_row organization_id batch_id) (opt_row batch_from_record)"

text \<open>The row lock of \<^verbatim>\<open>with_for_update\<close> has no effect within one request.\<close>

definition batch_get_for_update :: "uuid \<Rightarrow> BatchId \<Rightarrow> Batch option tx" where
  "batch_get_for_update organization_id batch_id =
     bind (bind (query (\<lambda>d. filter (\<lambda>b. b_organization_id b = organization_id \<and> b_id b = batch_id) (batches d)))
       (\<lambda>rows. of_res (scalar_one_or_none rows))) (opt_row batch_from_record)"

definition batch_matches :: "uuid \<Rightarrow> BatchListFilter \<Rightarrow> Batch \<Rightarrow> bool" where
  "batch_matches organization_id q b \<longleftrightarrow>
     b_organization_id b = organization_id \<and>
     (case bf_status q of
        Some s \<Rightarrow> b_status b = s
      | None \<Rightarrow> (case bf_archived q of
            Some True \<Rightarrow> b_status b = BatchArchived
          | Some False \<Rightarrow> b_status b \<noteq> BatchArchived
          | None \<Rightarrow> True)) \<and>
     (case bf_name q of None \<Rightarrow> True | Some n \<Rightarrow> ilike (b_name b) (''%'' @ n @ ''%''))"

definition batch_list :: "uuid \<Rightarrow> BatchListFilter \<Rightarrow> BatchListPage tx" where
  "batch_list organization_id q =
     bind (query (\<lambda>d. filter (batch_matches organization_id q) (batches d))) (\<lambda>rows.
     bind (of_res (map_res batch_from_record (page (bf_limit q) (bf_offset q)
       (newest_first b_created_at (\<lambda>b. BatchId_value (b_id b)) rows))))
       (\<lambda>items.
     ret \<lparr>bp_items = items, bp_total = length rows, bp_limit = bf_limit q, bp_offset = bf_offset q\<rparr>))"

definition batch_row_update :: "Batch \<Rightarrow> Batch \<Rightarrow> Batch" where
  "batch_row_update batch r =
     r\<lparr>b_name := b_name batch, b_description := b_description batch, b_status := b_status batch,
       b_external_reference := b_external_reference batch, b_updated_at := b_updated_at batch,
       b_updated_by_user_id := b_updated_by_user_id batch, b_archived_at := b_archived_at batch,
       b_archived_by_user_id := b_archived_by_user_id batch, b_lock_version := b_lock_version batch\<rparr>"

definition batch_update_row :: "Batch \<Rightarrow> Batch tx" where
  "batch_update_row batch =
     (let matched = row_matched b_organization_id b_id b_lock_version batch in
      bind (of_res (check_int4 (b_lock_version batch))) (\<lambda>_.
      bind (flush
        (\<lambda>d. if list_ex matched (batches d) then batch_violation False batch d else None)
        (\<lambda>d. d\<lparr>batches := replace_where matched (batch_row_update batch) (batches d)\<rparr>)) (\<lambda>_.
      ret batch)))"

definition batch_membership_row :: "uuid \<Rightarrow> BatchId \<Rightarrow> DocumentId \<Rightarrow> BatchDocument option tx" where
  "batch_membership_row organization_id batch_id document_id =
     bind (query (\<lambda>d. filter (\<lambda>m. bd_organization_id m = organization_id \<and> bd_batch_id m = batch_id \<and>
       bd_document_id m = document_id) (batch_documents d))) (\<lambda>rows. of_res (scalar_one_or_none rows))"

definition batch_add_document :: "BatchDocument \<Rightarrow> BatchDocument tx" where
  "batch_add_document membership =
     bind (on_integrity_error
       (bind (flush (batch_document_violation membership)
         (\<lambda>d. d\<lparr>batch_documents := batch_documents d @ [membership]\<rparr>)) (\<lambda>_. ret membership))
       (\<lambda>c. bind (batch_membership_row (bd_organization_id membership) (bd_batch_id membership)
           (bd_document_id membership)) (\<lambda>existing.
         case existing of
           Some r \<Rightarrow> ret r
         | None \<Rightarrow> raise (DocumentNotFoundError ''Document was not found.'')))) (\<lambda>r.
     of_res (batch_document_from_record r))"

definition batch_remove_document :: "uuid \<Rightarrow> BatchId \<Rightarrow> DocumentId \<Rightarrow> bool tx" where
  "batch_remove_document organization_id batch_id document_id =
     (let P = (\<lambda>m. bd_organization_id m = organization_id \<and> bd_batch_id m = batch_id \<and>
        bd_document_id m = document_id) in
      bind (query (\<lambda>d. length (filter P (batch_documents d)))) (\<lambda>rowcount.
      bind (execute (\<lambda>d. d\<lparr>batch_documents := filter (\<lambda>m. \<not> P m) (batch_documents d)\<rparr>)) (\<lambda>_.
      ret (rowcount \<noteq> 0))))"

definition batch_list_documents :: "uuid \<Rightarrow> BatchId \<Rightarrow> BatchDocument list tx" where
  "batch_list_documents organization_id batch_id =
     bind (query (\<lambda>d. newest_first bd_added_at (\<lambda>m. BatchDocumentId_value (bd_id m))
         (filter (\<lambda>m. bd_organization_id m = organization_id \<and> bd_batch_id m = batch_id)
           (batch_documents d))))
       (\<lambda>rows. of_res (map_res batch_document_from_record rows))"

section \<open>The table invariant\<close>

text \<open>
  The tables as the repository leaves them: keys are unique, every row is what its domain
  constructor returns and satisfies the constraints of its table, and a membership row joins a
  batch and a document of its own tenant.
\<close>

definition batch_tables :: "db \<Rightarrow> bool" where
  "batch_tables d \<longleftrightarrow>
     distinct (map b_id (batches d)) \<and>
     (\<forall>b \<in> set (batches d). batch_from_record b = Inr b \<and> batch_violation False b d = None) \<and>
     distinct (map (\<lambda>m. (bd_batch_id m, bd_document_id m)) (batch_documents d)) \<and>
     (\<forall>m \<in> set (batch_documents d). batch_document_from_record m = Inr m \<and>
        (\<exists>b \<in> set (batches d). b_organization_id b = bd_organization_id m \<and> b_id b = bd_batch_id m) \<and>
        (\<exists>x \<in> set (documents d). d_organization_id x = bd_organization_id m \<and> d_id x = bd_document_id m))"

abbreviation batch_at :: "db \<Rightarrow> uuid \<Rightarrow> BatchId \<Rightarrow> Batch option" where
  "batch_at d \<equiv> row_at b_organization_id b_id (batches d)"

interpretation batch_table: versioned_table batches "\<lambda>rs d. d\<lparr>batches := rs\<rparr>" b_organization_id b_id
  b_lock_version "\<lambda>b. (b_created_at b, b_created_by_user_id b)" batch_row_update
  by unfold_locales (simp_all add: batch_row_update_def)

lemma batch_from_record_wf:
  "batch_from_record b = Inr b \<longleftrightarrow> wf_batch b \<and> BatchId_value (b_id b) \<noteq> 0"
proof
  assume "batch_from_record b = Inr b"
  then show "wf_batch b \<and> BatchId_value (b_id b) \<noteq> 0"
    by (auto simp: batch_from_record_def BatchId_post_init_def Batch_validate_uuid_def dest: Batch_post_init_wf)
next
  assume b: "wf_batch b \<and> BatchId_value (b_id b) \<noteq> 0"
  have "is_utc (b_created_at b)" "is_utc (b_updated_at b)"
      "map_option astimezone_utc (b_archived_at b) = b_archived_at b"
    using b by (simp_all add: wf_batch_def opt_astimezone_id)
  with b show "batch_from_record b = Inr b"
    by (simp add: batch_from_record_def BatchId_post_init_def Batch_validate_uuid_def check_uuid_def
        Batch_post_init_id)
qed

lemma batch_get_for_update_eq: "batch_get_for_update g i = batch_get g i"
  by (simp add: batch_get_for_update_def batch_get_def batch_record_row_def)

lemma batch_get_run:
  assumes "batch_tables d0"
  shows "hoare C (\<lambda>d. d = d0) (batch_get g i) (\<lambda>x d. x = batch_at d0 g i \<and> d = d0)"
  unfolding batch_get_def batch_record_row_def
  by (rule row_read) (use assms in \<open>auto simp: batch_tables_def\<close>)

lemma readonly_batch_reads [readonly_intros]:
  "readonly (batch_get g i)" "readonly (batch_get_for_update g i)" "readonly (batch_list g q)"
  "readonly (batch_membership_row g i x)" "readonly (batch_list_documents g i)"
  unfolding batch_get_def batch_get_for_update_def batch_record_row_def batch_list_def batch_membership_row_def batch_list_documents_def
  by (intro readonly_intros)+

lemma batch_add_run:
  "hoare C (\<lambda>d. d = d0) (batch_add b)
     (\<lambda>x d. (batch_from_record b = Inr x \<and> batch_violation True b d0 = None) \<and> d = d0\<lparr>batches := batches d0 @ [b]\<rparr>)"
  unfolding batch_add_def
  by (rule hoare_bind [OF hoare_flush [where Q = "\<lambda>_ d. batch_violation True b d0 = None \<and>
      d = d0\<lparr>batches := batches d0 @ [b]\<rparr>"]]) (auto intro: hoare_of_res)

lemma batch_violation_frame [simp]:
  "batch_violation False b (d\<lparr>batches := x\<rparr>) = batch_violation False b d"
  "batch_violation False b (d\<lparr>batch_documents := y\<rparr>) = batch_violation False b d"
  "batch_violation False b (d\<lparr>audit_events := z\<rparr>) = batch_violation False b d"
  by (simp_all add: batch_violation_def user_missing_def organization_missing_def)

lemma batch_update_run:
  assumes "distinct (map b_id (batches d0))" and "batch_at d0 (b_organization_id n) (b_id n) = Some b"
    and "b_lock_version n = b_lock_version b + 1"
    and "b_created_at n = b_created_at b" "b_created_by_user_id n = b_created_by_user_id b"
  shows "hoare C (\<lambda>d. d = d0) (batch_update_row n)
    (\<lambda>x d. (x = n \<and> batch_violation False n d0 = None) \<and>
      d = d0\<lparr>batches := map (\<lambda>s. if s = b then n else s) (batches d0)\<rparr>)"
proof -
  have m: "list_ex (row_matched b_organization_id b_id b_lock_version n) (batches d0)"
    using batch_table.update_matches assms(2,3) .
  show ?thesis
    unfolding batch_update_row_def Let_def
    by (rule hoare_bind_of_res, rule hoare_bind [OF batch_table.hoare_update [OF assms(1-3)]])
      (use assms(4,5) m in \<open>auto intro: hoare_ret\<close>)
qed

lemma batch_add_document_run:
  assumes "batch_tables d0"
  shows "hoare (\<lambda>d. d = d0) (\<lambda>d. d = d0) (batch_add_document m)
    (\<lambda>x d. (batch_document_violation m d0 = None \<and> batch_document_from_record m = Inr x \<and>
         d = d0\<lparr>batch_documents := batch_documents d0 @ [m]\<rparr>) \<or>
       (d = d0 \<and> x \<in> set (batch_documents d0) \<and> bd_organization_id x = bd_organization_id m \<and>
         bd_batch_id x = bd_batch_id m \<and> bd_document_id x = bd_document_id m))"
    (is "hoare _ _ _ ?Q")
  unfolding batch_add_document_def
proof (rule hoare_bind [OF hoare_insert_or [where Q = "\<lambda>r d. (r = m \<and> batch_document_violation m d0 = None \<and>
      d = d0\<lparr>batch_documents := batch_documents d0 @ [m]\<rparr>) \<or>
    (d = d0 \<and> r \<in> set (batch_documents d0) \<and> bd_organization_id r = bd_organization_id m \<and>
      bd_batch_id r = bd_batch_id m \<and> bd_document_id r = bd_document_id m)"]])
  show "hoare (\<lambda>d. d = d0) (\<lambda>d. d = d0)
     (bind (batch_membership_row (bd_organization_id m) (bd_batch_id m) (bd_document_id m)) (\<lambda>existing.
         case existing of
           Some r \<Rightarrow> ret r
         | None \<Rightarrow> raise (DocumentNotFoundError ''Document was not found.'')))
     (\<lambda>r d. (r = m \<and> batch_document_violation m d0 = None \<and>
      d = d0\<lparr>batch_documents := batch_documents d0 @ [m]\<rparr>) \<or>
    (d = d0 \<and> r \<in> set (batch_documents d0) \<and> bd_organization_id r = bd_organization_id m \<and>
      bd_batch_id r = bd_batch_id m \<and> bd_document_id r = bd_document_id m))" for c
    unfolding batch_membership_row_def
    by (rule hoareI) (auto simp: eff_simps scalar_one_or_none_def bind_def filter_eq_Cons_iff split: list.splits option.splits)
  show "hoare (\<lambda>d. d = d0) (\<lambda>d. (r = m \<and> batch_document_violation m d0 = None \<and>
      d = d0\<lparr>batch_documents := batch_documents d0 @ [m]\<rparr>) \<or>
    (d = d0 \<and> r \<in> set (batch_documents d0) \<and> bd_organization_id r = bd_organization_id m \<and>
      bd_batch_id r = bd_batch_id m \<and> bd_document_id r = bd_document_id m))
    (of_res (batch_document_from_record r)) ?Q" for r
    using assms by (intro hoare_of_res) (auto simp: batch_tables_def)
qed auto

end
