(* ===== verification/Batch_Service.thy ===== *)
theory Batch_Service
  imports Batch_Store
begin

text \<open>
  The batch use cases, \<^verbatim>\<open>application/batches.py\<close>, composed with the SQLAlchemy repository, the
  audit log and the request's transaction. Every mutation needs its permission, works on the
  tenant's own rows, checks the caller's lock version against the stored one and writes one
  audit event in the same transaction.
\<close>

section \<open>Commands\<close>

record CreateBatchCommand =
  cb_name :: string
  cb_description :: "string option"
  cb_external_reference :: "string option"
  cb_audit_context :: "AuditRequestContext option"

record UpdateBatchCommand =
  ub_batch_id :: BatchId
  ub_lock_version :: int
  ub_name :: "string option"
  ub_description :: "string option"
  ub_external_reference :: "string option"
  ub_audit_context :: "AuditRequestContext option"

record BatchDocumentCommand =
  bc_batch_id :: BatchId
  bc_document_id :: DocumentId
  bc_audit_context :: "AuditRequestContext option"

record ArchiveBatchCommand =
  ab_batch_id :: BatchId
  ab_lock_version :: int
  ab_audit_context :: "AuditRequestContext option"

section \<open>The service\<close>

definition BatchService_record ::
  "env \<Rightarrow> AuditEventType \<Rightarrow> TenantContext \<Rightarrow> BatchId \<Rightarrow> AuditRequestContext option \<Rightarrow> datetime \<Rightarrow> metadata \<Rightarrow> unit tx" where
  "BatchService_record E event_type tenant batch_id request_context now metadata =
     tenant_event ''batch'' E event_type tenant (BatchId_value batch_id) request_context now metadata"

definition BatchService_create :: "env \<Rightarrow> CreateBatchCommand \<Rightarrow> TenantContext \<Rightarrow> Batch tx" where
  "BatchService_create E command tenant =
     bind (of_res (require tenant BATCH_WRITE)) (\<lambda>_.
     bind (clock_now E) (\<lambda>timestamp.
     bind (uuid4 E) (\<lambda>new_id.
     bind (of_res (BatchId_post_init new_id)) (\<lambda>batch_id.
     bind (of_res (Batch_create batch_id (tn_organization_id tenant) (cb_name command)
       (cb_description command) (cb_external_reference command) (tn_user_id tenant) timestamp)) (\<lambda>batch.
     try_except
       (bind (batch_add batch) (\<lambda>saved.
        bind (BatchService_record E BATCH_CREATED tenant (b_id saved) (cb_audit_context command) timestamp []) (\<lambda>_.
        bind commit (\<lambda>_. ret saved))))
       (\<lambda>e. bind rollback (\<lambda>_. raise e)))))))"

definition BatchService_get :: "BatchId \<Rightarrow> TenantContext \<Rightarrow> Batch tx" where
  "BatchService_get batch_id tenant =
     bind (of_res (require tenant BATCH_READ)) (\<lambda>_.
     bind (batch_get (tn_organization_id tenant) batch_id) (\<lambda>found.
     case found of
       None \<Rightarrow> raise (BatchNotFoundError ''Batch was not found.'')
     | Some batch \<Rightarrow> ret batch))"

definition BatchService_list_batches :: "TenantContext \<Rightarrow> BatchListFilter \<Rightarrow> BatchListPage tx" where
  "BatchService_list_batches tenant q =
     bind (of_res (require tenant BATCH_READ)) (\<lambda>_. batch_list (tn_organization_id tenant) q)"

text \<open>The lookup that \<^verbatim>\<open>update\<close> and \<^verbatim>\<open>archive\<close> both start with.\<close>

definition locked_batch :: "TenantContext \<Rightarrow> BatchId \<Rightarrow> int \<Rightarrow> Batch tx" where
  "locked_batch tenant batch_id lock_version =
     bind (batch_get_for_update (tn_organization_id tenant) batch_id) (\<lambda>found.
     case found of
       None \<Rightarrow> raise (BatchNotFoundError ''Batch was not found.'')
     | Some batch \<Rightarrow>
         if b_lock_version batch \<noteq> lock_version then
           raise (ConcurrencyConflictError ''Batch was changed by another request.'')
         else ret batch)"

definition BatchService_update :: "env \<Rightarrow> UpdateBatchCommand \<Rightarrow> TenantContext \<Rightarrow> Batch tx" where
  "BatchService_update E command tenant =
     bind (of_res (require tenant BATCH_WRITE)) (\<lambda>_.
     bind (locked_batch tenant (ub_batch_id command) (ub_lock_version command)) (\<lambda>batch.
     bind (clock_now E) (\<lambda>now.
     bind (of_res (Batch_update batch (ub_name command) (ub_description command)
       (ub_external_reference command) (tn_user_id tenant) now)) (\<lambda>updated.
     try_except
       (bind (batch_update_row updated) (\<lambda>saved.
        bind (BatchService_record E BATCH_UPDATED tenant (b_id saved) (ub_audit_context command)
          (b_updated_at saved) []) (\<lambda>_.
        bind commit (\<lambda>_. ret saved))))
       (\<lambda>e. bind rollback (\<lambda>_. raise e))))))"

definition BatchService_add_document :: "env \<Rightarrow> BatchDocumentCommand \<Rightarrow> TenantContext \<Rightarrow> BatchDocument tx" where
  "BatchService_add_document E command tenant =
     bind (of_res (require tenant BATCH_MANAGE_DOCUMENTS)) (\<lambda>_.
     bind (BatchService_get (bc_batch_id command) tenant) (\<lambda>_.
     bind (uuid4 E) (\<lambda>new_id.
     bind (of_res (BatchDocumentId_post_init new_id)) (\<lambda>membership_id.
     bind (clock_now E) (\<lambda>now.
     bind (of_res (BatchDocument_post_init
       \<lparr>bd_id = membership_id, bd_organization_id = tn_organization_id tenant,
        bd_batch_id = bc_batch_id command, bd_document_id = bc_document_id command,
        bd_added_at = now, bd_added_by_user_id = tn_user_id tenant\<rparr>)) (\<lambda>membership.
     try_except
       (bind (batch_add_document membership) (\<lambda>saved.
        bind (BatchService_record E BATCH_DOCUMENT_ADDED tenant (bc_batch_id command)
          (bc_audit_context command) (bd_added_at saved)
          [(''document_id'', VUuid (DocumentId_value (bc_document_id command)))]) (\<lambda>_.
        bind commit (\<lambda>_. ret saved))))
       (\<lambda>e. case e of
           DocumentNotFoundError s \<Rightarrow> bind rollback (\<lambda>_. raise e)
         | _ \<Rightarrow> raise e)))))))"

definition BatchService_remove_document :: "env \<Rightarrow> BatchDocumentCommand \<Rightarrow> TenantContext \<Rightarrow> bool tx" where
  "BatchService_remove_document E command tenant =
     bind (of_res (require tenant BATCH_MANAGE_DOCUMENTS)) (\<lambda>_.
     bind (BatchService_get (bc_batch_id command) tenant) (\<lambda>_.
     bind (batch_remove_document (tn_organization_id tenant) (bc_batch_id command)
       (bc_document_id command)) (\<lambda>removed.
     bind (clock_now E) (\<lambda>now.
     bind (BatchService_record E BATCH_DOCUMENT_REMOVED tenant (bc_batch_id command)
       (bc_audit_context command) now
       [(''document_id'', VUuid (DocumentId_value (bc_document_id command))), (''removed'', VBool removed)]) (\<lambda>_.
     bind commit (\<lambda>_. ret removed))))))"

definition BatchService_archive :: "env \<Rightarrow> ArchiveBatchCommand \<Rightarrow> TenantContext \<Rightarrow> Batch tx" where
  "BatchService_archive E command tenant =
     bind (of_res (require tenant BATCH_ARCHIVE)) (\<lambda>_.
     bind (locked_batch tenant (ab_batch_id command) (ab_lock_version command)) (\<lambda>batch.
     bind (clock_now E) (\<lambda>now.
     bind (of_res (Batch_archive batch (tn_user_id tenant) now)) (\<lambda>archived.
     bind (batch_update_row archived) (\<lambda>saved.
     bind (BatchService_record E BATCH_ARCHIVED tenant (b_id saved) (ab_audit_context command)
       (b_updated_at saved) []) (\<lambda>_.
     bind commit (\<lambda>_. ret saved)))))))"

definition BatchService_list_documents :: "BatchId \<Rightarrow> TenantContext \<Rightarrow> BatchDocument list tx" where
  "BatchService_list_documents batch_id tenant =
     bind (BatchService_get batch_id tenant) (\<lambda>_.
     batch_list_documents (tn_organization_id tenant) batch_id)"

section \<open>Requests\<close>

datatype BatchRequest =
    CreateBatch CreateBatchCommand
  | UpdateBatch UpdateBatchCommand
  | ArchiveBatch ArchiveBatchCommand
  | AddBatchDocument BatchDocumentCommand
  | RemoveBatchDocument BatchDocumentCommand
  | GetBatch BatchId
  | ListBatches BatchListFilter
  | ListBatchDocuments BatchId

fun batch_request :: "env \<Rightarrow> TenantContext \<Rightarrow> BatchRequest \<Rightarrow> unit tx" where
  "batch_request E tn (CreateBatch c) = forget (BatchService_create E c tn)"
| "batch_request E tn (UpdateBatch c) = forget (BatchService_update E c tn)"
| "batch_request E tn (ArchiveBatch c) = forget (BatchService_archive E c tn)"
| "batch_request E tn (AddBatchDocument c) = forget (BatchService_add_document E c tn)"
| "batch_request E tn (RemoveBatchDocument c) = forget (BatchService_remove_document E c tn)"
| "batch_request E tn (GetBatch i) = forget (BatchService_get i tn)"
| "batch_request E tn (ListBatches q) = forget (BatchService_list_batches tn q)"
| "batch_request E tn (ListBatchDocuments i) = forget (BatchService_list_documents i tn)"

text \<open>Requests of any tenants, one after the other, each in its own session.\<close>

fun serve_batches :: "env \<Rightarrow> (TenantContext \<times> BatchRequest) list \<Rightarrow> world \<Rightarrow> world" where
  "serve_batches E [] w = w"
| "serve_batches E ((tn, q) # qs) w = serve_batches E qs (snd (session_scope (batch_request E tn q) w))"

section \<open>The specification\<close>

text \<open>
  The batch store as its users see it: the batches by tenant and identifier, and the set of
  memberships. A mutation needs its permission and acts on the caller's tenant; an update or
  archival needs the current lock version.
\<close>

record batch_state =
  bs_batch :: "uuid \<times> BatchId \<Rightarrow> Batch option"
  bs_members :: "(uuid \<times> BatchId \<times> DocumentId) set"

definition batch_abs :: "db \<Rightarrow> batch_state" where
  "batch_abs d = \<lparr>bs_batch = (\<lambda>(g, i). batch_at d g i),
     bs_members = (\<lambda>m. (bd_organization_id m, bd_batch_id m, bd_document_id m)) ` set (batch_documents d)\<rparr>"

inductive batch_spec :: "TenantContext \<Rightarrow> BatchRequest \<Rightarrow> batch_state \<Rightarrow> batch_state \<Rightarrow> bool" for tn where
  spec_create: "BATCH_WRITE \<in> set (tn_permissions tn) \<Longrightarrow>
    Batch_create i (tn_organization_id tn) (cb_name c) (cb_description c) (cb_external_reference c)
      (tn_user_id tn) t = Inr b \<Longrightarrow>
    bs_batch s (tn_organization_id tn, i) = None \<Longrightarrow>
    batch_spec tn (CreateBatch c) s (s\<lparr>bs_batch := (bs_batch s)((tn_organization_id tn, i) \<mapsto> b)\<rparr>)"
| spec_update: "BATCH_WRITE \<in> set (tn_permissions tn) \<Longrightarrow>
    bs_batch s (tn_organization_id tn, ub_batch_id c) = Some b \<Longrightarrow> b_lock_version b = ub_lock_version c \<Longrightarrow>
    Batch_update b (ub_name c) (ub_description c) (ub_external_reference c) (tn_user_id tn) t = Inr b' \<Longrightarrow>
    batch_spec tn (UpdateBatch c) s
      (s\<lparr>bs_batch := (bs_batch s)((tn_organization_id tn, ub_batch_id c) \<mapsto> b')\<rparr>)"
| spec_archive: "BATCH_ARCHIVE \<in> set (tn_permissions tn) \<Longrightarrow>
    bs_batch s (tn_organization_id tn, ab_batch_id c) = Some b \<Longrightarrow> b_lock_version b = ab_lock_version c \<Longrightarrow>
    Batch_archive b (tn_user_id tn) t = Inr b' \<Longrightarrow>
    batch_spec tn (ArchiveBatch c) s
      (s\<lparr>bs_batch := (bs_batch s)((tn_organization_id tn, ab_batch_id c) \<mapsto> b')\<rparr>)"
| spec_add: "BATCH_MANAGE_DOCUMENTS \<in> set (tn_permissions tn) \<Longrightarrow> BATCH_READ \<in> set (tn_permissions tn) \<Longrightarrow>
    bs_batch s (tn_organization_id tn, bc_batch_id c) \<noteq> None \<Longrightarrow>
    batch_spec tn (AddBatchDocument c) s
      (s\<lparr>bs_members := insert (tn_organization_id tn, bc_batch_id c, bc_document_id c) (bs_members s)\<rparr>)"
| spec_remove: "BATCH_MANAGE_DOCUMENTS \<in> set (tn_permissions tn) \<Longrightarrow> BATCH_READ \<in> set (tn_permissions tn) \<Longrightarrow>
    bs_batch s (tn_organization_id tn, bc_batch_id c) \<noteq> None \<Longrightarrow>
    batch_spec tn (RemoveBatchDocument c) s
      (s\<lparr>bs_members := bs_members s - {(tn_organization_id tn, bc_batch_id c, bc_document_id c)}\<rparr>)"
| spec_read: "BATCH_READ \<in> set (tn_permissions tn) \<Longrightarrow>
    q \<in> range GetBatch \<union> range ListBatches \<union> range ListBatchDocuments \<Longrightarrow> batch_spec tn q s s"

fun event_of_request :: "BatchRequest \<Rightarrow> AuditEventType option" where
  "event_of_request (CreateBatch c) = Some BATCH_CREATED"
| "event_of_request (UpdateBatch c) = Some BATCH_UPDATED"
| "event_of_request (ArchiveBatch c) = Some BATCH_ARCHIVED"
| "event_of_request (AddBatchDocument c) = Some BATCH_DOCUMENT_ADDED"
| "event_of_request (RemoveBatchDocument c) = Some BATCH_DOCUMENT_REMOVED"
| "event_of_request _ = None"

text \<open>What a successful request has committed.\<close>

definition batch_committed :: "TenantContext \<Rightarrow> BatchRequest \<Rightarrow> db \<Rightarrow> db \<Rightarrow> bool" where
  "batch_committed tn q d0 d \<longleftrightarrow>
     batch_tables d \<and> batch_spec tn q (batch_abs d0) (batch_abs d) \<and>
     outside (tn_organization_id tn) d = outside (tn_organization_id tn) d0 \<and>
     (case event_of_request q of
        None \<Rightarrow> audit_events d = audit_events d0
      | Some ty \<Rightarrow> \<exists>e. event_of tn ty e \<and> audit_events d = audit_events d0 @ [e])"

section \<open>The requests refine it\<close>

lemma batch_tables_audit [simp]: "batch_tables (d\<lparr>audit_events := a\<rparr>) = batch_tables d"
  by (simp add: batch_tables_def)

lemma batch_abs_audit [simp]: "batch_abs (d\<lparr>audit_events := a\<rparr>) = batch_abs d"
  by (simp add: batch_abs_def)

lemma batch_committed_logged:
  assumes "logged tn ty d1 d" and "event_of_request q = Some ty" and "audit_events d1 = audit_events d0"
    and "batch_tables d1" and "batch_spec tn q (batch_abs d0) (batch_abs d1)"
    and "outside (tn_organization_id tn) d1 = outside (tn_organization_id tn) d0"
  shows "batch_committed tn q d0 d"
proof -
  obtain e where e: "event_of tn ty e" "d = d1\<lparr>audit_events := audit_events d1 @ [e]\<rparr>"
    using assms(1) unfolding logged_def by blast
  have "outside (tn_organization_id tn) d = outside (tn_organization_id tn) d0"
    using logged_outside [OF assms(1)] assms(6) by simp
  then show ?thesis
    using e assms(2-5) by (auto simp: batch_committed_def)
qed

lemma locked_batch_run:
  assumes "batch_tables d0"
  shows "hoare C (\<lambda>d. d = d0) (locked_batch tn i l)
    (\<lambda>b d. (batch_at d0 (tn_organization_id tn) i = Some b \<and> b_lock_version b = l) \<and> d = d0)"
  unfolding locked_batch_def batch_get_for_update_eq
  by (rule hoare_step_fact [OF batch_get_run [OF assms]], rule hoare_option)
    (auto intro!: hoare_raise hoare_if hoare_ret)

lemma batch_service_get_run:
  assumes "batch_tables d0"
  shows "hoare C (\<lambda>d. d = d0) (BatchService_get i tn)
    (\<lambda>b d. (BATCH_READ \<in> set (tn_permissions tn) \<and> batch_at d0 (tn_organization_id tn) i = Some b) \<and> d = d0)"
  unfolding BatchService_get_def
  by (rule hoare_bind_of_res, rule hoare_step_fact [OF batch_get_run [OF assms]], rule hoare_option)
    (auto intro!: hoare_raise hoare_ret)

lemma batch_replaced_committed:
  assumes ok: "batch_tables d0" and b: "batch_at d0 (tn_organization_id tn) i = Some b"
    and n: "wf_batch n" "b_id n = b_id b" "b_organization_id n = b_organization_id b"
    and v: "batch_violation False n d0 = None"
    and s: "batch_spec tn q (batch_abs d0)
      ((batch_abs d0)\<lparr>bs_batch := (bs_batch (batch_abs d0))((tn_organization_id tn, i) \<mapsto> n)\<rparr>)"
    and ty: "event_of_request q = Some ty"
    and l: "logged tn ty (d0\<lparr>batches := map (\<lambda>s. if s = b then n else s) (batches d0)\<rparr>) d"
  shows "batch_committed tn q d0 d \<and>
    batch_abs d = (batch_abs d0)\<lparr>bs_batch := (bs_batch (batch_abs d0))((tn_organization_id tn, i) \<mapsto> n)\<rparr>"
proof -
  let ?d = "d0\<lparr>batches := map (\<lambda>s. if s = b then n else s) (batches d0)\<rparr>"
  have k: "distinct (map b_id (batches d0))"
    using ok by (simp add: batch_tables_def)
  have b': "b \<in> set (batches d0)" "b_organization_id b = tn_organization_id tn" "b_id b = i"
    using b row_at_iff [OF k] by blast+
  have at: "batch_at d0 (b_organization_id n) (b_id n) = Some b"
    using b b' n by simp
  have "batch_from_record b = Inr b"
    using ok b'(1) by (simp add: batch_tables_def)
  then have rec: "batch_from_record n = Inr n"
    using n by (simp add: batch_from_record_wf)
  have keys: "map b_id (batches ?d) = map b_id (batches d0)"
    using row_replaced_keys [OF k at] by simp
  have refs: "\<exists>x \<in> set (batches ?d). b_organization_id x = g \<and> b_id x = j"
    if "x \<in> set (batches d0)" "b_organization_id x = g" "b_id x = j" for x g j
    using that n by (cases "x = b") (auto intro!: bexI [of _ "if x = b then n else x"])
  have "batch_tables ?d"
    using ok refs rec keys k v unfolding batch_tables_def by (auto simp del: map_map)
  moreover have abs: "batch_abs ?d = (batch_abs d0)\<lparr>bs_batch := (bs_batch (batch_abs d0))((tn_organization_id tn, i) \<mapsto> n)\<rparr>"
    using row_at_replaced [OF k at] b' n by (auto simp: batch_abs_def)
  moreover have "outside (tn_organization_id tn) ?d = outside (tn_organization_id tn) d0"
    using batch_table.outside_update [OF at] b' n by simp
  ultimately have "batch_committed tn q d0 d"
    using batch_committed_logged [OF l ty] s by simp
  moreover have "batch_abs d = batch_abs ?d"
    using l by (auto simp: logged_def)
  ultimately show ?thesis using abs by simp
qed

lemma batch_replace_body:
  assumes ok: "batch_tables d0" and b: "batch_at d0 (tn_organization_id tn) i = Some b"
    and n: "wf_batch n" "b_lock_version n = b_lock_version b + 1" "b_id n = b_id b"
      "b_organization_id n = b_organization_id b" "b_created_by_user_id n = b_created_by_user_id b"
      "is_utc (b_created_at b) \<Longrightarrow> b_created_at n = b_created_at b"
    and s: "batch_spec tn q (batch_abs d0)
      ((batch_abs d0)\<lparr>bs_batch := (bs_batch (batch_abs d0))((tn_organization_id tn, i) \<mapsto> n)\<rparr>)"
    and ty: "event_of_request q = Some ty"
  shows "commits_from d0 (\<lambda>d. d = d0)
      (bind (batch_update_row n) (\<lambda>saved.
        bind (BatchService_record E ty tn (b_id saved) ctxt (b_updated_at saved) []) (\<lambda>_.
        bind commit (\<lambda>_. ret saved))))
      (\<lambda>x d. batch_committed tn q d0 d \<and>
        batch_abs d = (batch_abs d0)\<lparr>bs_batch := (bs_batch (batch_abs d0))((tn_organization_id tn, i) \<mapsto> x)\<rparr>)"
proof -
  have k: "distinct (map b_id (batches d0))"
    using ok by (simp add: batch_tables_def)
  have b': "b \<in> set (batches d0)" "b_organization_id b = tn_organization_id tn" "b_id b = i"
    using b row_at_iff [OF k] by blast+
  have "wf_batch b"
    using ok b'(1) by (auto simp: batch_tables_def batch_from_record_wf)
  then have utc: "is_utc (b_created_at b)" by (simp add: wf_batch_def)
  have u: "hoare (\<lambda>d. d = d0) (\<lambda>d. d = d0) (batch_update_row n)
      (\<lambda>x d. (x = n \<and> batch_violation False n d0 = None) \<and>
        d = d0\<lparr>batches := map (\<lambda>s. if s = b then n else s) (batches d0)\<rparr>)"
    by (rule batch_update_run) (use k b b' n utc in simp_all)
  show ?thesis
    unfolding BatchService_record_def
    by (rule commits_from_step [OF u], rule commits_from_logged)
      (use batch_replaced_committed [OF ok b n(1,3,4) _ s ty] in simp)
qed

lemma update_commits:
  assumes ok: "batch_tables d0"
  shows "commits_from d0 (\<lambda>d. d = d0) (BatchService_update E c tn)
      (\<lambda>x d. batch_committed tn (UpdateBatch c) d0 d \<and>
        batch_abs d = (batch_abs d0)\<lparr>bs_batch := (bs_batch (batch_abs d0))((tn_organization_id tn, ub_batch_id c) \<mapsto> x)\<rparr>)"
  unfolding BatchService_update_def
proof (intro commits_from_bind_of_res commits_from_step [OF locked_batch_run [OF ok]]
    commits_from_bind_readonly [OF readonly_basic(5)] commits_from_reraise)
  fix u b t n
  assume p: "require tn BATCH_WRITE = Inr u"
    and b: "batch_at d0 (tn_organization_id tn) (ub_batch_id c) = Some b \<and> b_lock_version b = ub_lock_version c"
    and n: "Batch_update b (ub_name c) (ub_description c) (ub_external_reference c) (tn_user_id tn) t = Inr n"
  have "batch_spec tn (UpdateBatch c) (batch_abs d0)
    ((batch_abs d0)\<lparr>bs_batch := (bs_batch (batch_abs d0))((tn_organization_id tn, ub_batch_id c) \<mapsto> n)\<rparr>)"
    by (rule spec_update [OF _ _ _ n]) (use p b in \<open>simp_all add: batch_abs_def\<close>)
  with b show "commits_from d0 (\<lambda>d. d = d0)
      (bind (batch_update_row n) (\<lambda>saved.
        bind (BatchService_record E BATCH_UPDATED tn (b_id saved) (ub_audit_context c) (b_updated_at saved) []) (\<lambda>_.
        bind commit (\<lambda>_. ret saved))))
      (\<lambda>x d. batch_committed tn (UpdateBatch c) d0 d \<and>
        batch_abs d = (batch_abs d0)\<lparr>bs_batch := (bs_batch (batch_abs d0))((tn_organization_id tn, ub_batch_id c) \<mapsto> x)\<rparr>)"
    by (intro batch_replace_body [OF ok _ Batch_update_frame(1-5,7) [OF n]]) simp_all
qed auto

lemma archive_commits:
  assumes ok: "batch_tables d0"
  shows "commits_from d0 (\<lambda>d. d = d0) (BatchService_archive E c tn)
      (\<lambda>x d. batch_committed tn (ArchiveBatch c) d0 d \<and>
        batch_abs d = (batch_abs d0)\<lparr>bs_batch := (bs_batch (batch_abs d0))((tn_organization_id tn, ab_batch_id c) \<mapsto> x)\<rparr>)"
  unfolding BatchService_archive_def
proof (intro commits_from_bind_of_res commits_from_step [OF locked_batch_run [OF ok]]
    commits_from_bind_readonly [OF readonly_basic(5)])
  fix u b t n
  assume p: "require tn BATCH_ARCHIVE = Inr u"
    and b: "batch_at d0 (tn_organization_id tn) (ab_batch_id c) = Some b \<and> b_lock_version b = ab_lock_version c"
    and n: "Batch_archive b (tn_user_id tn) t = Inr n"
  have "batch_spec tn (ArchiveBatch c) (batch_abs d0)
    ((batch_abs d0)\<lparr>bs_batch := (bs_batch (batch_abs d0))((tn_organization_id tn, ab_batch_id c) \<mapsto> n)\<rparr>)"
    by (rule spec_archive [OF _ _ _ n]) (use p b in \<open>simp_all add: batch_abs_def\<close>)
  with b show "commits_from d0 (\<lambda>d. d = d0)
      (bind (batch_update_row n) (\<lambda>saved.
        bind (BatchService_record E BATCH_ARCHIVED tn (b_id saved) (ab_audit_context c) (b_updated_at saved) []) (\<lambda>_.
        bind commit (\<lambda>_. ret saved))))
      (\<lambda>x d. batch_committed tn (ArchiveBatch c) d0 d \<and>
        batch_abs d = (batch_abs d0)\<lparr>bs_batch := (bs_batch (batch_abs d0))((tn_organization_id tn, ab_batch_id c) \<mapsto> x)\<rparr>)"
    by (intro batch_replace_body [OF ok _ Batch_archive_frame(1-5,7) [OF n]]) simp_all
qed

lemma create_commits:
  assumes ok: "batch_tables d0"
  shows "commits_from d0 (\<lambda>d. d = d0) (BatchService_create E c tn) (\<lambda>x. batch_committed tn (CreateBatch c) d0)"
  unfolding BatchService_create_def BatchService_record_def
proof (intro commits_from_bind_of_res commits_from_bind_readonly [OF readonly_basic(5)]
    commits_from_bind_readonly [OF readonly_basic(6)] commits_from_reraise commits_from_step [OF batch_add_run]
    commits_from_logged)
  fix u t j i n x d
  assume p: "require tn BATCH_WRITE = Inr u" and i: "BatchId_post_init j = Inr i"
    and n: "Batch_create i (tn_organization_id tn) (cb_name c) (cb_description c) (cb_external_reference c)
      (tn_user_id tn) t = Inr n"
    and x: "batch_from_record n = Inr x \<and> batch_violation True n d0 = None"
    and l: "logged tn BATCH_CREATED (d0\<lparr>batches := batches d0 @ [n]\<rparr>) d"
  note f = Batch_create_frame [OF n]
  have fresh: "i \<notin> set (map b_id (batches d0))"
    using x f by (simp add: batch_violation_def)
  have "BatchId_value i \<noteq> 0"
    using i by (auto simp: BatchId_post_init_def Batch_validate_uuid_def)
  then have "batch_from_record n = Inr n"
    using f by (simp add: batch_from_record_wf)
  moreover have "batch_violation False n d0 = None"
    using x by (simp add: batch_violation_def)
  ultimately have "batch_tables (d0\<lparr>batches := batches d0 @ [n]\<rparr>)"
    using ok fresh f by (auto simp: batch_tables_def)
  moreover have "batch_abs (d0\<lparr>batches := batches d0 @ [n]\<rparr>) =
      (batch_abs d0)\<lparr>bs_batch := (bs_batch (batch_abs d0))((tn_organization_id tn, i) \<mapsto> n)\<rparr>"
    using row_at_inserted [of b_id n "batches d0" b_organization_id] fresh f by (auto simp: batch_abs_def)
  moreover have "batch_spec tn (CreateBatch c) (batch_abs d0)
      ((batch_abs d0)\<lparr>bs_batch := (bs_batch (batch_abs d0))((tn_organization_id tn, i) \<mapsto> n)\<rparr>)"
    by (rule spec_create [OF _ n])
      (use p fresh in \<open>auto simp: batch_abs_def row_at_def find_None_iff\<close>)
  moreover have "outside (tn_organization_id tn) (d0\<lparr>batches := batches d0 @ [n]\<rparr>) = outside (tn_organization_id tn) d0"
    by (rule batch_rows.outside_insert) (simp add: f)
  ultimately show "batch_committed tn (CreateBatch c) d0 d"
    using batch_committed_logged [OF l] by simp
qed auto

lemma batch_document_reread:
  "is_utc (bd_added_at m) \<Longrightarrow> batch_document_from_record m = Inr x \<Longrightarrow> x = m"
  by (auto simp: batch_document_from_record_def BatchDocumentId_post_init_def BatchId_post_init_def
      DocumentId_post_init_def BatchDocument_post_init_def batch_helper_defs)

lemma add_document_effect:
  assumes ok: "batch_tables d0" and m: "is_utc (bd_added_at m)"
      "bd_organization_id m = tn_organization_id tn" "bd_batch_id m = bc_batch_id c" "bd_document_id m = bc_document_id c"
    and s: "batch_spec tn (AddBatchDocument c) (batch_abs d0) ((batch_abs d0)
      \<lparr>bs_members := insert (tn_organization_id tn, bc_batch_id c, bc_document_id c) (bs_members (batch_abs d0))\<rparr>)"
    and d1: "(batch_document_violation m d0 = None \<and> batch_document_from_record m = Inr x \<and>
         d1 = d0\<lparr>batch_documents := batch_documents d0 @ [m]\<rparr>) \<or>
       (d1 = d0 \<and> x \<in> set (batch_documents d0) \<and> bd_organization_id x = bd_organization_id m \<and>
         bd_batch_id x = bd_batch_id m \<and> bd_document_id x = bd_document_id m)"
    and l: "logged tn BATCH_DOCUMENT_ADDED d1 d"
  shows "batch_committed tn (AddBatchDocument c) d0 d"
  using d1
proof
  assume new: "batch_document_violation m d0 = None \<and> batch_document_from_record m = Inr x \<and>
    d1 = d0\<lparr>batch_documents := batch_documents d0 @ [m]\<rparr>"
  then have "batch_document_from_record m = Inr m"
    using batch_document_reread [OF m(1)] by blast
  then have "batch_tables d1"
    using ok new by (auto simp: batch_tables_def batch_document_violation_def)
  moreover have "batch_abs d1 = (batch_abs d0)
      \<lparr>bs_members := insert (tn_organization_id tn, bc_batch_id c, bc_document_id c) (bs_members (batch_abs d0))\<rparr>"
    using new m by (simp add: batch_abs_def)
  moreover have "outside (tn_organization_id tn) d1 = outside (tn_organization_id tn) d0"
    using new m(2) batch_document_rows.outside_insert by blast
  ultimately show ?thesis
    using batch_committed_logged [OF l] s new by simp
next
  assume old: "d1 = d0 \<and> x \<in> set (batch_documents d0) \<and> bd_organization_id x = bd_organization_id m \<and>
         bd_batch_id x = bd_batch_id m \<and> bd_document_id x = bd_document_id m"
  then have "(tn_organization_id tn, bc_batch_id c, bc_document_id c) \<in> bs_members (batch_abs d0)"
    using m by (auto simp: batch_abs_def intro!: image_eqI [of _ _ x])
  then have "batch_abs d0 = (batch_abs d0)
      \<lparr>bs_members := insert (tn_organization_id tn, bc_batch_id c, bc_document_id c) (bs_members (batch_abs d0))\<rparr>"
    by (simp add: insert_absorb)
  then show ?thesis
    using batch_committed_logged [OF l] s old ok by simp
qed

lemma add_document_commits:
  assumes ok: "batch_tables d0"
  shows "commits_from d0 (\<lambda>d. d = d0) (BatchService_add_document E c tn)
    (\<lambda>x. batch_committed tn (AddBatchDocument c) d0)"
  unfolding BatchService_add_document_def BatchService_record_def
proof (intro commits_from_bind_of_res commits_from_step [OF batch_service_get_run [OF ok]]
    commits_from_bind_readonly [OF readonly_basic(5)] commits_from_bind_readonly [OF readonly_basic(6)]
    commits_from_reraise commits_from_bind [OF batch_add_document_run [OF ok]] commits_from_logged_pre)
  fix u b j i t m x d d1
  assume p: "require tn BATCH_MANAGE_DOCUMENTS = Inr u"
    and b: "BATCH_READ \<in> set (tn_permissions tn) \<and> batch_at d0 (tn_organization_id tn) (bc_batch_id c) = Some b"
    and i: "BatchDocumentId_post_init j = Inr i"
    and m: "BatchDocument_post_init \<lparr>bd_id = i, bd_organization_id = tn_organization_id tn,
        bd_batch_id = bc_batch_id c, bd_document_id = bc_document_id c, bd_added_at = t,
        bd_added_by_user_id = tn_user_id tn\<rparr> = Inr m"
    and d1: "(batch_document_violation m d0 = None \<and> batch_document_from_record m = Inr x \<and>
         d1 = d0\<lparr>batch_documents := batch_documents d0 @ [m]\<rparr>) \<or>
       (d1 = d0 \<and> x \<in> set (batch_documents d0) \<and> bd_organization_id x = bd_organization_id m \<and>
         bd_batch_id x = bd_batch_id m \<and> bd_document_id x = bd_document_id m)"
    and l: "logged tn BATCH_DOCUMENT_ADDED d1 d"
  have "batch_spec tn (AddBatchDocument c) (batch_abs d0) ((batch_abs d0)
      \<lparr>bs_members := insert (tn_organization_id tn, bc_batch_id c, bc_document_id c) (bs_members (batch_abs d0))\<rparr>)"
    by (rule spec_add) (use p b in \<open>simp_all add: batch_abs_def\<close>)
  moreover have "is_utc (bd_added_at m)" "bd_organization_id m = tn_organization_id tn"
      "bd_batch_id m = bc_batch_id c" "bd_document_id m = bc_document_id c"
    using m by (auto simp: BatchDocument_post_init_def batch_helper_defs)
  ultimately show "batch_committed tn (AddBatchDocument c) d0 d"
    using add_document_effect [OF ok _ _ _ _ _ d1 l] by blast
qed (auto split: exn.split)

lemma batch_remove_run:
  "hoare C (\<lambda>d. d = d0) (batch_remove_document g i x)
     (\<lambda>r d. r = (\<exists>m \<in> set (batch_documents d0). bd_organization_id m = g \<and> bd_batch_id m = i \<and> bd_document_id m = x) \<and>
       d = d0\<lparr>batch_documents := filter (\<lambda>m. \<not> (bd_organization_id m = g \<and> bd_batch_id m = i \<and> bd_document_id m = x))
         (batch_documents d0)\<rparr>)"
  by (rule hoareI) (auto simp: batch_remove_document_def Let_def eff_simps filter_empty_conv)

lemma remove_document_commits:
  assumes ok: "batch_tables d0"
  shows "commits_from d0 (\<lambda>d. d = d0) (BatchService_remove_document E c tn)
    (\<lambda>x. batch_committed tn (RemoveBatchDocument c) d0)"
  unfolding BatchService_remove_document_def BatchService_record_def
proof (intro commits_from_bind_of_res commits_from_step [OF batch_service_get_run [OF ok]]
    commits_from_step [OF batch_remove_run] commits_from_bind_readonly [OF readonly_basic(5)] commits_from_logged)
  let ?P = "\<lambda>m. bd_organization_id m = tn_organization_id tn \<and> bd_batch_id m = bc_batch_id c \<and>
    bd_document_id m = bc_document_id c"
  let ?d = "d0\<lparr>batch_documents := filter (\<lambda>m. \<not> ?P m) (batch_documents d0)\<rparr>"
  fix u b d
  assume p: "require tn BATCH_MANAGE_DOCUMENTS = Inr u"
    and b: "BATCH_READ \<in> set (tn_permissions tn) \<and> batch_at d0 (tn_organization_id tn) (bc_batch_id c) = Some b"
    and l: "logged tn BATCH_DOCUMENT_REMOVED ?d d"
  have "batch_spec tn (RemoveBatchDocument c) (batch_abs d0) ((batch_abs d0)
      \<lparr>bs_members := bs_members (batch_abs d0) - {(tn_organization_id tn, bc_batch_id c, bc_document_id c)}\<rparr>)"
    by (rule spec_remove) (use p b in \<open>simp_all add: batch_abs_def\<close>)
  moreover have "batch_abs ?d = (batch_abs d0)
      \<lparr>bs_members := bs_members (batch_abs d0) - {(tn_organization_id tn, bc_batch_id c, bc_document_id c)}\<rparr>"
    by (auto simp: batch_abs_def)
  moreover have "batch_tables ?d"
    using ok by (auto simp: batch_tables_def distinct_map inj_on_def)
  moreover have "outside (tn_organization_id tn) ?d = outside (tn_organization_id tn) d0"
    by (rule batch_document_rows.outside_delete) simp
  ultimately show "batch_committed tn (RemoveBatchDocument c) d0 d"
    using batch_committed_logged [OF l] by simp
qed

lemma read_commits:
  assumes ok: "batch_tables d0" and m: "readonly m" "returns m (\<lambda>_. BATCH_READ \<in> set (tn_permissions tn))"
    and q: "q \<in> range GetBatch \<union> range ListBatches \<union> range ListBatchDocuments"
  shows "commits_from d0 (\<lambda>d. d = d0) m (\<lambda>x. batch_committed tn q d0)"
proof (rule commits_fromI)
  fix w x w'
  assume w: "committed w = d0" "working w = d0" "m w = (Inr x, w')"
  have "batch_spec tn q (batch_abs d0) (batch_abs d0)"
    using returnsD [OF m(2) w(3)] q by (rule spec_read)
  moreover have "event_of_request q = None"
    using q by auto
  ultimately show "committed w' = working w' \<and> batch_committed tn q d0 (working w')"
    using readonlyD [OF m(1) w(3)] w ok by (simp add: batch_committed_def)
next
  fix w e w'
  assume "committed w = d0" "m w = (Inl e, w')"
  then show "committed w' = d0"
    using readonlyD [OF m(1)] by blast
qed

lemma batch_reads:
  "readonly (BatchService_get i tn)" "returns (BatchService_get i tn) (\<lambda>_. BATCH_READ \<in> set (tn_permissions tn))"
  "readonly (BatchService_list_batches tn f)"
  "returns (BatchService_list_batches tn f) (\<lambda>_. BATCH_READ \<in> set (tn_permissions tn))"
  "readonly (BatchService_list_documents i tn)"
  "returns (BatchService_list_documents i tn) (\<lambda>_. BATCH_READ \<in> set (tn_permissions tn))"
  unfolding BatchService_get_def BatchService_list_batches_def BatchService_list_documents_def
  by (intro readonly_intros returns_require returns_first)+

lemma batch_request_commits:
  assumes ok: "batch_tables d0"
  shows "commits_from d0 (\<lambda>d. d = d0) (batch_request E tn q) (\<lambda>_. batch_committed tn q d0)"
  by (cases q; simp only: batch_request.simps; rule commits_from_forget)
    (intro create_commits commits_from_weaken [OF update_commits] commits_from_weaken [OF archive_commits] add_document_commits remove_document_commits
      read_commits batch_reads ok; simp)+

section \<open>Runs\<close>

lemma batch_get_exact: "batch_tables (working w) \<Longrightarrow> batch_get g i w = (Inr (batch_at (working w) g i), w)"
  unfolding batch_get_def batch_record_row_def
  by (rule row_read_run) (auto simp: batch_tables_def)

lemma locked_batch_exact:
  "batch_tables (working w) \<Longrightarrow> locked_batch tn i l w =
     (case batch_at (working w) (tn_organization_id tn) i of
        None \<Rightarrow> (Inl (BatchNotFoundError ''Batch was not found.''), w)
      | Some b \<Rightarrow> if b_lock_version b \<noteq> l
          then (Inl (ConcurrencyConflictError ''Batch was changed by another request.''), w)
          else (Inr b, w))"
  by (simp add: locked_batch_def batch_get_for_update_eq bind_def batch_get_exact eff_simps split: option.split)

lemma update_refusals:
  assumes "batch_tables (working w)"
  shows "BATCH_WRITE \<notin> set (tn_permissions tn) \<Longrightarrow> BatchService_update E c tn w =
      (Inl (PermissionDenied (tn_user_id tn) (tn_organization_id tn) BATCH_WRITE), w)"
    and "BATCH_WRITE \<in> set (tn_permissions tn) \<Longrightarrow>
      batch_at (working w) (tn_organization_id tn) (ub_batch_id c) = None \<Longrightarrow>
      BatchService_update E c tn w = (Inl (BatchNotFoundError ''Batch was not found.''), w)"
    and "BATCH_WRITE \<in> set (tn_permissions tn) \<Longrightarrow>
      batch_at (working w) (tn_organization_id tn) (ub_batch_id c) = Some b \<Longrightarrow>
      b_lock_version b \<noteq> ub_lock_version c \<Longrightarrow>
      BatchService_update E c tn w = (Inl (ConcurrencyConflictError ''Batch was changed by another request.''), w)"
    and "BATCH_WRITE \<in> set (tn_permissions tn) \<Longrightarrow>
      batch_at (working w) (tn_organization_id tn) (ub_batch_id c) = Some b \<Longrightarrow>
      b_lock_version b = ub_lock_version c \<Longrightarrow>
      Batch_update b (ub_name c) (ub_description c) (ub_external_reference c)
        (tn_user_id tn) (e_now E (now_reads w)) = Inl e \<Longrightarrow>
      BatchService_update E c tn w = (Inl e, w\<lparr>now_reads := Suc (now_reads w)\<rparr>)"
  by (simp_all add: BatchService_update_def require_Inl require_ok bind_def locked_batch_exact [OF assms] eff_simps)

lemma batch_request_served:
  assumes "batch_tables (committed w)" and "working w = committed w"
    and "session_scope (batch_request E tn q) w = (r, w')"
  shows "working w' = committed w'" and "batch_tables (committed w')"
    and "case r of Inl e \<Rightarrow> committed w' = committed w | Inr x \<Rightarrow> batch_committed tn q (committed w) (committed w')"
proof -
  note run = commits_from_run [OF batch_request_commits [OF assms(1)] assms(2,3)]
  show "working w' = committed w'" by (rule run(1))
  show c: "case r of Inl e \<Rightarrow> committed w' = committed w | Inr x \<Rightarrow> batch_committed tn q (committed w) (committed w')"
    by (rule run(2))
  show "batch_tables (committed w')"
    using c assms(1) by (cases r) (auto simp: batch_committed_def)
qed

lemma Batch_update_actors:
  "Batch_update b nm ds rf u t = Inr n \<Longrightarrow> b_updated_by_user_id n = u \<and>
     b_archived_by_user_id n = b_archived_by_user_id b \<and> is_utc (b_updated_at n)"
  by (auto simp: Batch_update_def batch_helper_defs wf_batch_def dest: Batch_post_init_frame Batch_post_init_wf)

lemma update_succeeds:
  assumes ok: "batch_tables (working w)" and p: "BATCH_WRITE \<in> set (tn_permissions tn)"
    and b: "batch_at (working w) (tn_organization_id tn) (ub_batch_id c) = Some b" "b_lock_version b = ub_lock_version c"
    and n: "Batch_update b (ub_name c) (ub_description c) (ub_external_reference c)
        (tn_user_id tn) (e_now E (now_reads w)) = Inr n"
    and e: "event_storable E tn w" "constructed_context (ub_audit_context c)" and lk: "b_lock_version b < 2 ^ 31 - 1"
  shows "\<exists>w'. BatchService_update E c tn w = (Inr n, w')"
proof -
  have k: "distinct (map b_id (batches (working w)))"
    using ok by (simp add: batch_tables_def)
  have b': "b \<in> set (batches (working w))" "b_organization_id b = tn_organization_id tn" "b_id b = ub_batch_id c"
    using b row_at_iff [OF k] by blast+
  note f = Batch_update_frame [OF n] Batch_update_actors [OF n]
  have "batch_violation False b (working w) = None"
    using ok b'(1) by (simp add: batch_tables_def)
  then have v: "batch_violation False n (working w) = None"
    using f e(1) wf_batch_def [of n] by (simp add: batch_violation_def event_storable_def user_missing_def)
  let ?w = "w\<lparr>now_reads := Suc (now_reads w),
    working := (working w)\<lparr>batches := replace_where (row_matched b_organization_id b_id b_lock_version n)
      (batch_row_update n) (batches (working w))\<rparr>\<rparr>"
  have lock: "check_int4 (b_lock_version n) = Inr ()"
    using f lk wf_batch_def [of n] by (simp add: check_int4_def raise_if_def)
  have u: "batch_update_row n (w\<lparr>now_reads := Suc (now_reads w)\<rparr>) = (Inr n, ?w)"
    using v lock by (simp add: batch_update_row_def Let_def flush_def bind_def eff_simps)
  have "event_storable E tn ?w"
    using e(1) by (simp add: event_storable_def)
  then obtain w' where "tenant_event ''batch'' E BATCH_UPDATED tn (BatchId_value (b_id n)) (ub_audit_context c) (b_updated_at n) [] ?w = (Inr (), w')"
    using tenant_event_run [of "b_updated_at n" "''batch''" E tn ?w "ub_audit_context c"] f e(2) by auto
  then show ?thesis
    using u p b n e(2) by (simp add: BatchService_update_def BatchService_record_def require_ok bind_def
        locked_batch_exact [OF ok] try_except_def eff_simps)
qed

text \<open>No request takes a batch away or turns its lock version back.\<close>

definition lock_at_least :: "uuid \<Rightarrow> BatchId \<Rightarrow> int \<Rightarrow> batch_state \<Rightarrow> bool" where
  "lock_at_least g i l s \<longleftrightarrow> (\<exists>b. bs_batch s (g, i) = Some b \<and> l \<le> b_lock_version b)"

lemma batch_spec_lock:
  assumes "batch_spec tn q s s'" and "lock_at_least g i l s"
  shows "lock_at_least g i l s'"
  using assms
proof (cases rule: batch_spec.cases)
  case (spec_update c b t b')
  then show ?thesis
    using assms(2) Batch_update_frame(2) [OF spec_update(6)] by (auto simp: lock_at_least_def)
next
  case (spec_archive c b t b')
  then show ?thesis
    using assms(2) Batch_archive_frame(2) [OF spec_archive(6)] by (auto simp: lock_at_least_def)
qed (auto simp: lock_at_least_def)

lemma serve_batches_lock:
  assumes "batch_tables (committed w)" and "working w = committed w" and "lock_at_least g i l (batch_abs (committed w))"
  shows "batch_tables (committed (serve_batches E qs w)) \<and>
    working (serve_batches E qs w) = committed (serve_batches E qs w) \<and>
    lock_at_least g i l (batch_abs (committed (serve_batches E qs w)))"
  using assms
proof (induction qs arbitrary: w)
  case (Cons a qs)
  obtain tn q where a: "a = (tn, q)" by fastforce
  obtain r w' where s: "session_scope (batch_request E tn q) w = (r, w')" by fastforce
  note served = batch_request_served [OF Cons.prems(1,2) s]
  have "lock_at_least g i l (batch_abs (committed w'))"
    using served(3) Cons.prems(3) batch_spec_lock by (cases r) (auto simp: batch_committed_def)
  then show ?case
    using Cons.IH [OF served(2,1)] a s by simp
qed simp

section \<open>A sample batch\<close>

definition sample_batch :: Batch where
  "sample_batch = \<lparr>b_id = BatchId 7, b_organization_id = 5, b_name = ''Q1'', b_description = None,
     b_status = BatchOpen, b_external_reference = None, b_created_at = utc 0, b_created_by_user_id = 101,
     b_updated_at = utc 0, b_updated_by_user_id = 101, b_archived_at = None, b_archived_by_user_id = None,
     b_lock_version = 1\<rparr>"

definition sample_batch_db :: db where
  "sample_batch_db = sample_tenant_db\<lparr>batches := [sample_batch]\<rparr>"

definition sample_update :: UpdateBatchCommand where
  "sample_update = \<lparr>ub_batch_id = BatchId 7, ub_lock_version = 1, ub_name = Some ''Q2'', ub_description = None,
     ub_external_reference = None, ub_audit_context = Some \<lparr>rc_request_id = Some ''r-1'', rc_source_ip = Some ''10.0.0.1'', rc_user_agent = None\<rparr>\<rparr>"

lemma sample_batch_facts:
  "batch_tables sample_batch_db"
  "batch_at sample_batch_db 5 (BatchId 7) = Some sample_batch"
  "BATCH_WRITE \<in> set (tn_permissions sample_tenant)"
  "\<exists>n. Batch_update sample_batch (Some ''Q2'') None None 101 (DateTime 10 (Some 0)) = Inr n"
  "event_storable sample_clock sample_tenant (fresh_world sample_batch_db)"
proof -
  have "wf_batch sample_batch"
    by (simp add: sample_batch_def batch_eval)
  then have "batch_from_record sample_batch = Inr sample_batch"
    by (simp add: batch_from_record_wf) (simp add: sample_batch_def)
  moreover have "batch_violation False sample_batch sample_batch_db = None"
    by (simp add: batch_violation_def user_missing_def organization_missing_def sample_batch_db_def
        sample_tenant_db_def sample_batch_def sample_user_def sample_organization_def empty_db_def)
  ultimately show "batch_tables sample_batch_db"
    by (simp add: batch_tables_def) (simp add: sample_batch_db_def sample_tenant_db_def empty_db_def)
  show "batch_at sample_batch_db 5 (BatchId 7) = Some sample_batch"
    by (simp add: sample_batch_db_def row_at_def sample_batch_def)
  show "BATCH_WRITE \<in> set (tn_permissions sample_tenant)"
    by (simp add: sample_tenant_def) code_simp
  show "\<exists>n. Batch_update sample_batch (Some ''Q2'') None None 101 (DateTime 10 (Some 0)) = Inr n"
    by (simp add: sample_batch_def batch_eval)
  show "event_storable sample_clock sample_tenant (fresh_world sample_batch_db)"
    by (simp add: event_storable_def sample_clock_def sample_tenant_def sample_batch_db_def sample_tenant_db_def
        sample_user_def sample_organization_def empty_db_def)
qed

section \<open>Properties\<close>

text \<open>
  C10. Every batch request, of any tenant, refines the specification of the batch store: when it
  raises, nothing has been committed; when it returns, it has made exactly the step that the
  specification allows for that request (permission, tenant, current lock version, result of
  the domain operation), has written exactly one audit event naming the actor and the tenant
  for a mutation and none for a read, and the tables are still consistent.
\<close>

theorem batch_requests_refine:
  assumes "batch_tables (committed w)" and "working w = committed w"
    and "session_scope (batch_request E tn q) w = (r, w')"
  shows "batch_tables (committed w') \<and> working w' = committed w' \<and>
    (case r of
       Inl e \<Rightarrow> committed w' = committed w
     | Inr x \<Rightarrow> batch_spec tn q (batch_abs (committed w)) (batch_abs (committed w')) \<and>
         (case event_of_request q of
            None \<Rightarrow> audit_events (committed w') = audit_events (committed w)
          | Some ty \<Rightarrow> \<exists>e. event_of tn ty e \<and> audit_events (committed w') = audit_events (committed w) @ [e]))"
  using batch_request_served [OF assms] by (cases r) (simp_all add: batch_committed_def)

lemma sample_update_conditions:
  obtains n where "Batch_update sample_batch (ub_name sample_update) (ub_description sample_update)
      (ub_external_reference sample_update) (tn_user_id sample_tenant)
      (e_now sample_clock (now_reads (fresh_world sample_batch_db))) = Inr n"
    and "batch_at sample_batch_db (tn_organization_id sample_tenant) (ub_batch_id sample_update) = Some sample_batch"
    and "b_lock_version sample_batch = ub_lock_version sample_update" "constructed_context (ub_audit_context sample_update)"
      "b_lock_version sample_batch < 2 ^ 31 - 1"
proof -
  obtain n where n: "Batch_update sample_batch (Some ''Q2'') None None 101 (DateTime 10 (Some 0)) = Inr n"
    using sample_batch_facts(4) by blast
  have "e_now sample_clock (now_reads (fresh_world sample_batch_db)) = DateTime 10 (Some 0)"
      "tn_user_id sample_tenant = 101" "tn_organization_id sample_tenant = 5" "b_lock_version sample_batch = 1"
    by (simp_all add: sample_clock_def fresh_world_def sample_tenant_def sample_batch_def)
  moreover have "constructed_context (ub_audit_context sample_update)"
    by (simp add: sample_update_def constructed_context_def AuditRequestContext_post_init_def Audit_validate_optional_string_def
        audit_limits raise_if_def)
  ultimately show thesis
    by (intro that [of n]) (use n sample_batch_facts(2) in \<open>simp_all add: sample_update_def\<close>)
qed

lemma sample_update_served:
  "\<exists>w'. session_scope (batch_request sample_clock sample_tenant (UpdateBatch sample_update))
     (fresh_world sample_batch_db) = (Inr (), w')"
proof (rule sample_update_conditions)
  fix n
  assume n: "Batch_update sample_batch (ub_name sample_update) (ub_description sample_update)
      (ub_external_reference sample_update) (tn_user_id sample_tenant)
      (e_now sample_clock (now_reads (fresh_world sample_batch_db))) = Inr n"
    and b: "batch_at sample_batch_db (tn_organization_id sample_tenant) (ub_batch_id sample_update) = Some sample_batch"
      "b_lock_version sample_batch = ub_lock_version sample_update" "constructed_context (ub_audit_context sample_update)"
      "b_lock_version sample_batch < 2 ^ 31 - 1"
  have "\<exists>w'. BatchService_update sample_clock sample_update sample_tenant (fresh_world sample_batch_db) = (Inr n, w')"
    by (rule update_succeeds [OF _ sample_batch_facts(3) _ b(2) n sample_batch_facts(5) b(3,4)])
      (simp_all add: b sample_batch_facts)
  then show ?thesis
    by (auto simp: session_scope_def bind_def eff_simps)
qed

theorem batch_requests_refine_witness:
  "\<exists>w'. session_scope (batch_request sample_clock sample_tenant (UpdateBatch sample_update))
     (fresh_world sample_batch_db) = (Inr (), w') \<and>
   batch_spec sample_tenant (UpdateBatch sample_update) (batch_abs sample_batch_db) (batch_abs (committed w'))"
proof -
  obtain w' where w': "session_scope (batch_request sample_clock sample_tenant (UpdateBatch sample_update))
      (fresh_world sample_batch_db) = (Inr (), w')"
    using sample_update_served by blast
  then show ?thesis
    using batch_requests_refine [OF _ _ w'] sample_batch_facts(1) by simp
qed

text \<open>
  C24. An update is refused without change in each of the cases the code names, in this order:
  the permission is missing, the tenant has no such batch, the caller's lock version is not
  the stored one, the domain operation raises (an archived batch, an invalid text).
\<close>

theorem batch_update_refused:
  assumes "batch_tables (working w)"
  shows "(BATCH_WRITE \<notin> set (tn_permissions tn) \<longrightarrow> BatchService_update E c tn w =
       (Inl (PermissionDenied (tn_user_id tn) (tn_organization_id tn) BATCH_WRITE), w)) \<and>
    (BATCH_WRITE \<in> set (tn_permissions tn) \<longrightarrow>
       (case batch_at (working w) (tn_organization_id tn) (ub_batch_id c) of
          None \<Rightarrow> BatchService_update E c tn w = (Inl (BatchNotFoundError ''Batch was not found.''), w)
        | Some b \<Rightarrow>
            if b_lock_version b \<noteq> ub_lock_version c then
              BatchService_update E c tn w =
                (Inl (ConcurrencyConflictError ''Batch was changed by another request.''), w)
            else (case Batch_update b (ub_name c) (ub_description c) (ub_external_reference c)
                (tn_user_id tn) (e_now E (now_reads w)) of
              Inl e \<Rightarrow> fst (BatchService_update E c tn w) = Inl e \<and>
                committed (snd (BatchService_update E c tn w)) = committed w \<and>
                working (snd (BatchService_update E c tn w)) = working w
            | Inr n \<Rightarrow> True)))"
  by (auto simp: update_refusals [OF assms] split: option.split sum.split)

theorem batch_update_refused_witness:
  "fst (BatchService_update sample_clock (sample_update\<lparr>ub_lock_version := 2\<rparr>) sample_tenant (fresh_world sample_batch_db)) =
     Inl (ConcurrencyConflictError ''Batch was changed by another request.'')"
proof -
  have "b_lock_version sample_batch \<noteq> 2" "tn_organization_id sample_tenant = 5"
    by (simp_all add: sample_batch_def sample_tenant_def)
  then show ?thesis
    using batch_update_refused [of "fresh_world sample_batch_db" sample_tenant sample_clock
        "sample_update\<lparr>ub_lock_version := 2\<rparr>"] sample_batch_facts(1-3)
    by (simp add: sample_update_def)
qed

text \<open>
  C12. No lost update: once an update of a batch with lock version \<open>l\<close> has been accepted, every
  later update of that batch that still carries \<open>l\<close> is refused with the concurrency conflict
  (or for a missing permission), whatever requests of whatever tenants came between.
\<close>

theorem batch_no_lost_update:
  assumes "batch_tables (committed w)" and "working w = committed w"
    and "session_scope (batch_request E tn (UpdateBatch c)) w = (Inr (), w1)"
    and "tn_organization_id tn' = tn_organization_id tn" and "ub_batch_id c' = ub_batch_id c"
    and "ub_lock_version c' = ub_lock_version c"
  shows "fst (BatchService_update E c' tn' (serve_batches E qs w1)) =
    (if BATCH_WRITE \<in> set (tn_permissions tn')
     then Inl (ConcurrencyConflictError ''Batch was changed by another request.'')
     else Inl (PermissionDenied (tn_user_id tn') (tn_organization_id tn') BATCH_WRITE))"
proof -
  let ?w = "serve_batches E qs w1"
  note served = batch_request_served [OF assms(1-3)]
  have "batch_spec tn (UpdateBatch c) (batch_abs (committed w)) (batch_abs (committed w1))"
    using served(3) by (simp add: batch_committed_def)
  then have "lock_at_least (tn_organization_id tn) (ub_batch_id c) (ub_lock_version c + 1) (batch_abs (committed w1))"
    by (cases rule: batch_spec.cases) (auto simp: lock_at_least_def dest: Batch_update_frame(2))
  then have "batch_tables (working ?w)"
      "lock_at_least (tn_organization_id tn) (ub_batch_id c) (ub_lock_version c + 1) (batch_abs (working ?w))"
    using serve_batches_lock [OF served(2,1)] by simp_all
  then obtain b where b: "batch_tables (working ?w)"
      "batch_at (working ?w) (tn_organization_id tn) (ub_batch_id c) = Some b" "ub_lock_version c < b_lock_version b"
    by (auto simp: lock_at_least_def batch_abs_def)
  show ?thesis
    using update_refusals(1) [OF b(1)] update_refusals(3) [OF b(1)] b(2,3) assms(4-6) by simp
qed

theorem batch_no_lost_update_witness:
  "\<exists>w1. session_scope (batch_request sample_clock sample_tenant (UpdateBatch sample_update))
     (fresh_world sample_batch_db) = (Inr (), w1) \<and>
   fst (BatchService_update sample_clock sample_update sample_tenant
     (serve_batches sample_clock [(sample_tenant, GetBatch (BatchId 7))] w1)) =
     Inl (ConcurrencyConflictError ''Batch was changed by another request.'')"
proof -
  obtain w1 where w1: "session_scope (batch_request sample_clock sample_tenant (UpdateBatch sample_update))
      (fresh_world sample_batch_db) = (Inr (), w1)"
    using sample_update_served by blast
  have "fst (BatchService_update sample_clock sample_update sample_tenant
     (serve_batches sample_clock [(sample_tenant, GetBatch (BatchId 7))] w1)) =
     Inl (ConcurrencyConflictError ''Batch was changed by another request.'')"
    using batch_no_lost_update [OF _ _ w1 refl refl refl, of "[(sample_tenant, GetBatch (BatchId 7))]"]
      sample_batch_facts(1,3) by simp
  with w1 show ?thesis by blast
qed

text \<open>
  C25. Updates are accepted: with the permission, the current lock version of a batch of the
  tenant and a change that the domain operation accepts, the request returns, and the committed
  table then holds the changed batch and every other batch as before. The audit event must be
  storable: the actor and the organization exist, the random event identifier is unused, and the
  audit context, if any, is an object its constructor has accepted. The next lock version must
  fit its 32-bit column.
\<close>

theorem batch_update_accepted:
  assumes "batch_tables (committed w)" and "working w = committed w"
    and "BATCH_WRITE \<in> set (tn_permissions tn)"
    and "batch_at (committed w) (tn_organization_id tn) (ub_batch_id c) = Some b"
    and "b_lock_version b = ub_lock_version c"
    and "Batch_update b (ub_name c) (ub_description c) (ub_external_reference c)
        (tn_user_id tn) (e_now E (now_reads w)) = Inr n"
    and "event_storable E tn w" and "constructed_context (ub_audit_context c)" and "b_lock_version b < 2 ^ 31 - 1"
  shows "\<exists>w'. session_scope (BatchService_update E c tn) w = (Inr n, w') \<and>
    (\<forall>g i. batch_at (committed w') g i =
       (if g = tn_organization_id tn \<and> i = ub_batch_id c then Some n else batch_at (committed w) g i))"
proof -
  obtain w1 where w1: "BatchService_update E c tn w = (Inr n, w1)"
    using update_succeeds [of w tn c b E n] assms by auto
  define w' where "w' = w1\<lparr>working := committed w1\<rparr>"
  have run: "session_scope (BatchService_update E c tn) w = (Inr n, w')"
    using w1 by (simp add: session_scope_def w'_def)
  have "batch_abs (committed w') = (batch_abs (committed w))
      \<lparr>bs_batch := (bs_batch (batch_abs (committed w)))((tn_organization_id tn, ub_batch_id c) \<mapsto> n)\<rparr>"
    using commits_from_run(2) [OF update_commits [OF assms(1)] assms(2) run] by simp
  then have "bs_batch (batch_abs (committed w')) (g, i) =
      ((bs_batch (batch_abs (committed w)))((tn_organization_id tn, ub_batch_id c) \<mapsto> n)) (g, i)" for g i
    by simp
  then have "batch_at (committed w') g i =
       (if g = tn_organization_id tn \<and> i = ub_batch_id c then Some n else batch_at (committed w) g i)" for g i
    by (simp add: batch_abs_def)
  then show ?thesis
    using run by blast
qed

theorem batch_update_accepted_witness:
  "\<exists>n w'. session_scope (BatchService_update sample_clock sample_update sample_tenant) (fresh_world sample_batch_db) = (Inr n, w') \<and>
     batch_at (committed w') (tn_organization_id sample_tenant) (ub_batch_id sample_update) = Some n"
proof (rule sample_update_conditions)
  fix n
  assume n: "Batch_update sample_batch (ub_name sample_update) (ub_description sample_update)
      (ub_external_reference sample_update) (tn_user_id sample_tenant)
      (e_now sample_clock (now_reads (fresh_world sample_batch_db))) = Inr n"
    and b: "batch_at sample_batch_db (tn_organization_id sample_tenant) (ub_batch_id sample_update) = Some sample_batch"
      "b_lock_version sample_batch = ub_lock_version sample_update" "constructed_context (ub_audit_context sample_update)"
      "b_lock_version sample_batch < 2 ^ 31 - 1"
  show ?thesis
    using batch_update_accepted [OF _ _ sample_batch_facts(3) _ b(2) n sample_batch_facts(5) b(3,4)]
      sample_batch_facts(1) b(1) by auto
qed

end
