(* ===== verification/Case_Store.thy ===== *)
theory Case_Store
  imports Tenant_Store
begin

text \<open>
  The case repository \<^verbatim>\<open>infrastructure/cases.py\<close>: the tables \<^verbatim>\<open>cases\<close>, \<^verbatim>\<open>case_documents\<close>,
  \<^verbatim>\<open>case_comments\<close>, \<^verbatim>\<open>case_tasks\<close> and \<^verbatim>\<open>case_decisions\<close> with their constraints and every method of
  \<^verbatim>\<open>SqlAlchemyCaseRepository\<close>. The records below a case have no constructor checks, so their
  texts are bounded by the column widths only: a longer text raises the driver's data error.
  Their time columns hold instants, written as datetimes in UTC.
\<close>

section \<open>Rows\<close>

definition case_from_record :: "Case \<Rightarrow> Case res" where
  "case_from_record r = Case_post_init
     (r\<lparr>c_created_at := astimezone_utc (c_created_at r), c_updated_at := astimezone_utc (c_updated_at r),
        c_closed_at := map_option astimezone_utc (c_closed_at r),
        c_archived_at := map_option astimezone_utc (c_archived_at r)\<rparr>)"

definition case_document_row :: "CaseDocument \<Rightarrow> CaseDocument" where
  "case_document_row m = m\<lparr>cd_added_at := astimezone_utc (cd_added_at m)\<rparr>"

definition case_document_from_record :: "CaseDocument \<Rightarrow> CaseDocument res" where
  "case_document_from_record r =
     bind_res (DocumentId_post_init (DocumentId_value (cd_document_id r))) (\<lambda>document_id.
     Inr (r\<lparr>cd_document_id := document_id, cd_added_at := astimezone_utc (cd_added_at r)\<rparr>))"

definition comment_from_record :: "CaseComment \<Rightarrow> CaseComment" where
  "comment_from_record r =
     r\<lparr>cc_created_at := astimezone_utc (cc_created_at r),
       cc_updated_at := map_option astimezone_utc (cc_updated_at r)\<rparr>"

definition task_from_record :: "CaseTask \<Rightarrow> CaseTask" where
  "task_from_record r =
     r\<lparr>ct_due_at := map_option astimezone_utc (ct_due_at r),
       ct_completed_at := map_option astimezone_utc (ct_completed_at r),
       ct_created_at := astimezone_utc (ct_created_at r),
       ct_updated_at := astimezone_utc (ct_updated_at r)\<rparr>"

definition decision_from_record :: "CaseDecision \<Rightarrow> CaseDecision" where
  "decision_from_record r = r\<lparr>cx_created_at := astimezone_utc (cx_created_at r)\<rparr>"

section \<open>Constraints\<close>

definition case_missing :: "db \<Rightarrow> uuid \<Rightarrow> CaseId \<Rightarrow> bool" where
  "case_missing d g i \<longleftrightarrow> \<not> (\<exists>c \<in> set (cases_tbl d). c_organization_id c = g \<and> c_id c = i)"

abbreviation opt_user_missing :: "db \<Rightarrow> uuid option \<Rightarrow> bool" where
  "opt_user_missing d x \<equiv> \<not> pred_option (\<lambda>u. \<not> user_missing d u) x"

definition case_violation :: "bool \<Rightarrow> Case \<Rightarrow> db \<Rightarrow> string option" where
  "case_violation fresh c d = first_violation
     [(''ck_cases_lock_version_positive'', c_lock_version c \<le> 0),
      (''pk_cases'', fresh \<and> c_id c \<in> set (map c_id (cases_tbl d))),
      (''fk_cases_organization_id_organizations'', organization_missing d (c_organization_id c)),
      (''fk_cases_created_by_user_id_users'', user_missing d (c_created_by_user_id c)),
      (''fk_cases_updated_by_user_id_users'', user_missing d (c_updated_by_user_id c)),
      (''fk_cases_closed_by_user_id_users'', opt_user_missing d (c_closed_by_user_id c)),
      (''fk_cases_archived_by_user_id_users'', opt_user_missing d (c_archived_by_user_id c))]"

definition case_document_violation :: "CaseDocument \<Rightarrow> db \<Rightarrow> string option" where
  "case_document_violation m d = first_violation
     [(''pk_case_documents'', cd_id m \<in> set (map cd_id (case_documents d))),
      (''uq_case_documents_case_document'',
        \<exists>x \<in> set (case_documents d). cd_case_id x = cd_case_id m \<and> cd_document_id x = cd_document_id m),
      (''fk_case_documents_organization_case_cases'', case_missing d (cd_organization_id m) (cd_case_id m)),
      (''fk_case_documents_organization_document_documents'',
        \<not> (\<exists>x \<in> set (documents d). d_organization_id x = cd_organization_id m \<and> d_id x = cd_document_id m)),
      (''fk_case_documents_added_by_user_id_users'', user_missing d (cd_added_by_user_id m))]"

definition comment_violation :: "CaseComment \<Rightarrow> db \<Rightarrow> string option" where
  "comment_violation c d = first_violation
     [(''pk_case_comments'', cc_id c \<in> set (map cc_id (case_comments d))),
      (''fk_case_comments_organization_case_cases'', case_missing d (cc_organization_id c) (cc_case_id c)),
      (''fk_case_comments_created_by_user_id_users'', user_missing d (cc_created_by_user_id c)),
      (''fk_case_comments_updated_by_user_id_users'', opt_user_missing d (cc_updated_by_user_id c))]"

definition task_violation :: "bool \<Rightarrow> CaseTask \<Rightarrow> db \<Rightarrow> string option" where
  "task_violation fresh t d = first_violation
     [(''ck_case_tasks_lock_version_positive'', ct_lock_version t \<le> 0),
      (''pk_case_tasks'', fresh \<and> ct_id t \<in> set (map ct_id (case_tasks d))),
      (''fk_case_tasks_organization_case_cases'', case_missing d (ct_organization_id t) (ct_case_id t)),
      (''fk_case_tasks_assigned_to_user_id_users'', opt_user_missing d (ct_assigned_to_user_id t)),
      (''fk_case_tasks_completed_by_user_id_users'', opt_user_missing d (ct_completed_by_user_id t)),
      (''fk_case_tasks_created_by_user_id_users'', user_missing d (ct_created_by_user_id t)),
      (''fk_case_tasks_updated_by_user_id_users'', user_missing d (ct_updated_by_user_id t))]"

definition decision_violation :: "CaseDecision \<Rightarrow> db \<Rightarrow> string option" where
  "decision_violation c d = first_violation
     [(''pk_case_decisions'', cx_id c \<in> set (map cx_id (case_decisions d))),
      (''fk_case_decisions_organization_case_cases'', case_missing d (cx_organization_id c) (cx_case_id c)),
      (''fk_case_decisions_created_by_user_id_users'', user_missing d (cx_created_by_user_id c))]"

definition comment_widths :: "CaseComment \<Rightarrow> (string \<times> nat) list" where
  "comment_widths c = [(cc_body c, 4000)]"

definition task_widths :: "CaseTask \<Rightarrow> (string \<times> nat) list" where
  "task_widths t = [(ct_title t, 255), (case ct_description t of None \<Rightarrow> [] | Some s \<Rightarrow> s, 2000)]"

definition decision_widths :: "CaseDecision \<Rightarrow> (string \<times> nat) list" where
  "decision_widths c = [(cx_decision_type c, 255), (cx_rationale c, 4000)]"

section \<open>The repository\<close>

record CaseListFilter =
  cf_limit :: int
  cf_offset :: int
  cf_status :: "CaseStatus option"
  cf_priority :: "CasePriority option"
  cf_archived :: "bool option"
  cf_title :: "string option"

record CaseListPage =
  cp_items :: "Case list"
  cp_total :: nat
  cp_limit :: int
  cp_offset :: int

definition case_add :: "Case \<Rightarrow> Case tx" where
  "case_add c =
     bind (flush (case_violation True c) (\<lambda>d. d\<lparr>cases_tbl := cases_tbl d @ [c]\<rparr>)) (\<lambda>_.
     of_res (case_from_record c))"

definition case_record_row :: "uuid \<Rightarrow> CaseId \<Rightarrow> Case option tx" where
  "case_record_row organization_id case_id =
     bind (query (\<lambda>d. filter (\<lambda>c. c_organization_id c = organization_id \<and> c_id c = case_id) (cases_tbl d))) (\<lambda>rows.
     of_res (scalar_one_or_none rows))"

definition case_get :: "uuid \<Rightarrow> CaseId \<Rightarrow> Case option tx" where
  "case_get organization_id case_id =
     bind (case_record_row organization_id case_id) (opt_row case_from_record)"

definition case_get_for_update :: "uuid \<Rightarrow> CaseId \<Rightarrow> Case option tx" where
  "case_get_for_update organization_id case_id =
     bind (bind (query (\<lambda>d. filter (\<lambda>c. c_organization_id c = organization_id \<and> c_id c = case_id) (cases_tbl d)))
       (\<lambda>rows. of_res (scalar_one_or_none rows))) (opt_row case_from_record)"

definition case_matches :: "uuid \<Rightarrow> CaseListFilter \<Rightarrow> Case \<Rightarrow> bool" where
  "case_matches organization_id q c \<longleftrightarrow>
     c_organization_id c = organization_id \<and>
     (case cf_status q of
        Some s \<Rightarrow> c_status c = s
      | None \<Rightarrow> (case cf_archived q of
            Some True \<Rightarrow> c_status c = CaseArchived
          | Some False \<Rightarrow> c_status c \<noteq> CaseArchived
          | None \<Rightarrow> True)) \<and>
     (case cf_priority q of None \<Rightarrow> True | Some p \<Rightarrow> c_priority c = p) \<and>
     (case cf_title q of None \<Rightarrow> True | Some n \<Rightarrow> ilike (c_title c) (''%'' @ n @ ''%''))"

definition case_list :: "uuid \<Rightarrow> CaseListFilter \<Rightarrow> CaseListPage tx" where
  "case_list organization_id q =
     bind (query (\<lambda>d. filter (case_matches organization_id q) (cases_tbl d))) (\<lambda>rows.
     bind (of_res (map_res case_from_record (page (cf_limit q) (cf_offset q)
       (newest_first c_created_at (\<lambda>c. CaseId_value (c_id c)) rows)))) (\<lambda>items.
     ret \<lparr>cp_items = items, cp_total = length rows, cp_limit = cf_limit q, cp_offset = cf_offset q\<rparr>))"

definition case_row_update :: "Case \<Rightarrow> Case \<Rightarrow> Case" where
  "case_row_update c r =
     r\<lparr>c_title := c_title c, c_summary := c_summary c, c_status := c_status c, c_priority := c_priority c,
       c_external_reference := c_external_reference c, c_updated_at := c_updated_at c,
       c_updated_by_user_id := c_updated_by_user_id c, c_closed_at := c_closed_at c,
       c_closed_by_user_id := c_closed_by_user_id c, c_archived_at := c_archived_at c,
       c_archived_by_user_id := c_archived_by_user_id c, c_lock_version := c_lock_version c\<rparr>"

definition case_update_row :: "Case \<Rightarrow> Case tx" where
  "case_update_row c =
     (let matched = row_matched c_organization_id c_id c_lock_version c in
      bind (of_res (check_int4 (c_lock_version c))) (\<lambda>_.
      bind (flush
        (\<lambda>d. if list_ex matched (cases_tbl d) then case_violation False c d else None)
        (\<lambda>d. d\<lparr>cases_tbl := replace_where matched (case_row_update c) (cases_tbl d)\<rparr>)) (\<lambda>_.
      ret c)))"

definition case_membership_row :: "uuid \<Rightarrow> CaseId \<Rightarrow> DocumentId \<Rightarrow> CaseDocument option tx" where
  "case_membership_row organization_id case_id document_id =
     bind (query (\<lambda>d. filter (\<lambda>m. cd_organization_id m = organization_id \<and> cd_case_id m = case_id \<and>
       cd_document_id m = document_id) (case_documents d))) (\<lambda>rows. of_res (scalar_one_or_none rows))"

definition case_add_document :: "CaseDocument \<Rightarrow> CaseDocument tx" where
  "case_add_document membership =
     bind (on_integrity_error
       (bind (flush (case_document_violation membership)
         (\<lambda>d. d\<lparr>case_documents := case_documents d @ [case_document_row membership]\<rparr>)) (\<lambda>_.
        ret (case_document_row membership)))
       (\<lambda>c. bind (case_membership_row (cd_organization_id membership) (cd_case_id membership)
           (cd_document_id membership)) (\<lambda>existing.
         case existing of
           Some r \<Rightarrow> ret r
         | None \<Rightarrow> raise (DocumentNotFoundError ''Document was not found.'')))) (\<lambda>r.
     of_res (case_document_from_record r))"

definition case_remove_document :: "uuid \<Rightarrow> CaseId \<Rightarrow> DocumentId \<Rightarrow> bool tx" where
  "case_remove_document organization_id case_id document_id =
     (let P = (\<lambda>m. cd_organization_id m = organization_id \<and> cd_case_id m = case_id \<and>
        cd_document_id m = document_id) in
      bind (query (\<lambda>d. length (filter P (case_documents d)))) (\<lambda>rowcount.
      bind (execute (\<lambda>d. d\<lparr>case_documents := filter (\<lambda>m. \<not> P m) (case_documents d)\<rparr>)) (\<lambda>_.
      ret (rowcount \<noteq> 0))))"

definition case_list_documents :: "uuid \<Rightarrow> CaseId \<Rightarrow> CaseDocument list tx" where
  "case_list_documents organization_id case_id =
     bind (query (\<lambda>d. filter (\<lambda>m. cd_organization_id m = organization_id \<and> cd_case_id m = case_id)
       (case_documents d))) (\<lambda>rows. of_res (map_res case_document_from_record rows))"

definition case_add_comment :: "CaseComment \<Rightarrow> CaseComment tx" where
  "case_add_comment c =
     bind (of_res (check_width (comment_widths c))) (\<lambda>_.
     bind (flush (comment_violation c) (\<lambda>d. d\<lparr>case_comments := case_comments d @ [comment_from_record c]\<rparr>)) (\<lambda>_.
     ret (comment_from_record c)))"

definition case_list_comments :: "uuid \<Rightarrow> CaseId \<Rightarrow> CaseComment list tx" where
  "case_list_comments organization_id case_id =
     query (\<lambda>d. map comment_from_record
       (filter (\<lambda>c. cc_organization_id c = organization_id \<and> cc_case_id c = case_id) (case_comments d)))"

definition case_add_task :: "CaseTask \<Rightarrow> CaseTask tx" where
  "case_add_task t =
     bind (of_res (check_timestamptz (ct_due_at t))) (\<lambda>_.
     bind (of_res (check_width (task_widths t))) (\<lambda>_.
     bind (flush (task_violation True t) (\<lambda>d. d\<lparr>case_tasks := case_tasks d @ [task_from_record t]\<rparr>)) (\<lambda>_.
     ret (task_from_record t))))"

definition task_key :: "CaseTask \<Rightarrow> CaseId \<times> CaseTaskId" where
  "task_key t = (ct_case_id t, ct_id t)"

definition case_get_task_for_update :: "uuid \<Rightarrow> CaseId \<Rightarrow> CaseTaskId \<Rightarrow> CaseTask option tx" where
  "case_get_task_for_update organization_id case_id task_id =
     bind (bind (query (\<lambda>d. filter (\<lambda>t. ct_organization_id t = organization_id \<and>
       task_key t = (case_id, task_id)) (case_tasks d)))
       (\<lambda>rows. of_res (scalar_one_or_none rows))) (opt_row (\<lambda>r. Inr (task_from_record r)))"

definition task_row_update :: "CaseTask \<Rightarrow> CaseTask \<Rightarrow> CaseTask" where
  "task_row_update t r =
     r\<lparr>ct_title := ct_title t, ct_description := ct_description t, ct_status := ct_status t,
       ct_assigned_to_user_id := ct_assigned_to_user_id t, ct_due_at := ct_due_at t,
       ct_completed_at := ct_completed_at t, ct_completed_by_user_id := ct_completed_by_user_id t,
       ct_updated_at := ct_updated_at t, ct_updated_by_user_id := ct_updated_by_user_id t,
       ct_lock_version := ct_lock_version t\<rparr>"

definition case_update_task :: "CaseTask \<Rightarrow> CaseTask tx" where
  "case_update_task t =
     (let matched = row_matched ct_organization_id task_key ct_lock_version t in
      bind (of_res (check_timestamptz (ct_due_at t))) (\<lambda>_.
      bind (of_res (check_int4 (ct_lock_version t))) (\<lambda>_.
      bind (query (\<lambda>d. list_ex matched (case_tasks d))) (\<lambda>hit.
      bind (of_res (if hit then check_width (task_widths t) else Inr ())) (\<lambda>_.
      bind (flush
        (\<lambda>d. if list_ex matched (case_tasks d) then task_violation False t d else None)
        (\<lambda>d. d\<lparr>case_tasks := replace_where matched (task_row_update (task_from_record t)) (case_tasks d)\<rparr>)) (\<lambda>_.
      ret t))))))"

definition case_list_tasks :: "uuid \<Rightarrow> CaseId \<Rightarrow> CaseTask list tx" where
  "case_list_tasks organization_id case_id =
     query (\<lambda>d. map task_from_record
       (filter (\<lambda>t. ct_organization_id t = organization_id \<and> ct_case_id t = case_id) (case_tasks d)))"

definition case_add_decision :: "CaseDecision \<Rightarrow> CaseDecision tx" where
  "case_add_decision c =
     bind (of_res (check_width (decision_widths c))) (\<lambda>_.
     bind (flush (decision_violation c) (\<lambda>d. d\<lparr>case_decisions := case_decisions d @ [decision_from_record c]\<rparr>)) (\<lambda>_.
     ret (decision_from_record c)))"

definition case_list_decisions :: "uuid \<Rightarrow> CaseId \<Rightarrow> CaseDecision list tx" where
  "case_list_decisions organization_id case_id =
     query (\<lambda>d. map decision_from_record
       (filter (\<lambda>c. cx_organization_id c = organization_id \<and> cx_case_id c = case_id) (case_decisions d)))"

section \<open>The table invariant\<close>

text \<open>
  The tables as the repository leaves them: unique keys; every case valid, in a state of its
  lifecycle and within its table's constraints; every record below a case in the tenant of
  that case, every joined document in the same tenant.
\<close>

definition case_tables :: "db \<Rightarrow> bool" where
  "case_tables d \<longleftrightarrow>
     distinct (map c_id (cases_tbl d)) \<and> distinct (map task_key (case_tasks d)) \<and>
     (\<forall>c \<in> set (cases_tbl d). wf_case c \<and> case_lifecycle c \<and> case_violation False c d = None) \<and>
     (\<forall>t \<in> set (case_tasks d). task_from_record t = t \<and> task_violation False t d = None) \<and>
     (\<forall>m \<in> set (case_documents d). \<not> case_missing d (cd_organization_id m) (cd_case_id m) \<and>
        (\<exists>x \<in> set (documents d). d_organization_id x = cd_organization_id m \<and> d_id x = cd_document_id m)) \<and>
     (\<forall>c \<in> set (case_comments d). \<not> case_missing d (cc_organization_id c) (cc_case_id c)) \<and>
     (\<forall>c \<in> set (case_decisions d). \<not> case_missing d (cx_organization_id c) (cx_case_id c))"

abbreviation case_at :: "db \<Rightarrow> uuid \<Rightarrow> CaseId \<Rightarrow> Case option" where
  "case_at d \<equiv> row_at c_organization_id c_id (cases_tbl d)"

abbreviation task_at :: "db \<Rightarrow> uuid \<Rightarrow> CaseId \<times> CaseTaskId \<Rightarrow> CaseTask option" where
  "task_at d \<equiv> row_at ct_organization_id task_key (case_tasks d)"

interpretation case_table: versioned_table cases_tbl "\<lambda>rs d. d\<lparr>cases_tbl := rs\<rparr>" c_organization_id c_id
  c_lock_version "\<lambda>c. (c_created_at c, c_created_by_user_id c)" case_row_update
  by unfold_locales (simp_all add: case_row_update_def)

interpretation task_table: versioned_table case_tasks "\<lambda>rs d. d\<lparr>case_tasks := rs\<rparr>" ct_organization_id task_key
  ct_lock_version "\<lambda>t. (ct_created_at t, ct_created_by_user_id t)" task_row_update
  by unfold_locales (simp_all add: task_row_update_def task_key_def)

lemma case_from_record_id: "wf_case c \<Longrightarrow> case_from_record c = Inr c"
proof -
  assume c: "wf_case c"
  then have "is_utc (c_created_at c)" "is_utc (c_updated_at c)"
      "map_option astimezone_utc (c_closed_at c) = c_closed_at c"
      "map_option astimezone_utc (c_archived_at c) = c_archived_at c"
    by (simp_all add: wf_case_def opt_astimezone_id)
  then show ?thesis
    using c by (simp add: case_from_record_def Case_post_init_id)
qed

lemma case_get_for_update_eq: "case_get_for_update g i = case_get g i"
  by (simp add: case_get_for_update_def case_get_def case_record_row_def)

lemma case_get_exact: "case_tables (working w) \<Longrightarrow> case_get g i w = (Inr (case_at (working w) g i), w)"
  unfolding case_get_def case_record_row_def
  by (rule row_read_run) (auto simp: case_tables_def case_from_record_id)

lemma task_get_exact: "case_tables (working w) \<Longrightarrow>
    case_get_task_for_update g i j w = (Inr (task_at (working w) g (i, j)), w)"
  unfolding case_get_task_for_update_def
  by (rule row_read_run) (auto simp: case_tables_def)

lemma readonly_case_reads [readonly_intros]:
  "readonly (case_get g i)" "readonly (case_get_for_update g i)" "readonly (case_list g q)"
  "readonly (case_membership_row g i x)" "readonly (case_list_documents g i)" "readonly (case_list_comments g i)"
  "readonly (case_list_tasks g i)" "readonly (case_list_decisions g i)" "readonly (case_get_task_for_update g i j)"
  unfolding case_get_def case_get_for_update_def case_record_row_def case_list_def case_membership_row_def
    case_list_documents_def case_list_comments_def case_list_tasks_def case_list_decisions_def
    case_get_task_for_update_def
  by (intro readonly_intros)+

lemma case_get_run: "case_tables d0 \<Longrightarrow>
    hoare C (\<lambda>d. d = d0) (case_get g i) (\<lambda>x d. x = case_at d0 g i \<and> d = d0)"
  by (rule hoare_exact) (auto dest: case_get_exact)

lemma task_get_run: "case_tables d0 \<Longrightarrow>
    hoare C (\<lambda>d. d = d0) (case_get_task_for_update g i j) (\<lambda>x d. x = task_at d0 g (i, j) \<and> d = d0)"
  by (rule hoare_exact) (auto dest: task_get_exact)

lemma case_violation_frame [simp]:
  "case_violation False c (d\<lparr>cases_tbl := x\<rparr>) = case_violation False c d"
  "case_violation False c (d\<lparr>case_documents := y\<rparr>) = case_violation False c d"
  "case_violation False c (d\<lparr>case_comments := y1\<rparr>) = case_violation False c d"
  "case_violation False c (d\<lparr>case_tasks := y2\<rparr>) = case_violation False c d"
  "case_violation False c (d\<lparr>case_decisions := y3\<rparr>) = case_violation False c d"
  "case_violation False c (d\<lparr>audit_events := z\<rparr>) = case_violation False c d"
  by (simp_all add: case_violation_def user_missing_def organization_missing_def)

lemma case_missing_frame [simp]:
  "case_missing (d\<lparr>case_documents := y\<rparr>) = case_missing d"
  "case_missing (d\<lparr>case_comments := y1\<rparr>) = case_missing d"
  "case_missing (d\<lparr>case_tasks := y2\<rparr>) = case_missing d"
  "case_missing (d\<lparr>case_decisions := y3\<rparr>) = case_missing d"
  "case_missing (d\<lparr>audit_events := z\<rparr>) = case_missing d"
  by (simp_all add: case_missing_def fun_eq_iff)

lemma task_violation_frame [simp]:
  "task_violation False c (d\<lparr>case_documents := y\<rparr>) = task_violation False c d"
  "task_violation False c (d\<lparr>case_comments := y1\<rparr>) = task_violation False c d"
  "task_violation False c (d\<lparr>case_tasks := y2\<rparr>) = task_violation False c d"
  "task_violation False c (d\<lparr>case_decisions := y3\<rparr>) = task_violation False c d"
  "task_violation False c (d\<lparr>audit_events := z\<rparr>) = task_violation False c d"
  by (simp_all add: task_violation_def user_missing_def)

lemma task_violation_cases:
  "(\<And>g i. case_missing d' g i \<Longrightarrow> case_missing d g i) \<Longrightarrow> users d' = users d \<Longrightarrow>
     task_violation False c d = None \<Longrightarrow> task_violation False c d' = None"
  by (auto simp: task_violation_def user_missing_def)

lemma case_update_run:
  assumes "distinct (map c_id (cases_tbl d0))" and "case_at d0 (c_organization_id n) (c_id n) = Some c"
    and "c_lock_version n = c_lock_version c + 1"
    and "c_created_at n = c_created_at c" "c_created_by_user_id n = c_created_by_user_id c"
  shows "hoare C (\<lambda>d. d = d0) (case_update_row n)
    (\<lambda>x d. (x = n \<and> case_violation False n d0 = None) \<and>
      d = d0\<lparr>cases_tbl := map (\<lambda>s. if s = c then n else s) (cases_tbl d0)\<rparr>)"
proof -
  have m: "list_ex (row_matched c_organization_id c_id c_lock_version n) (cases_tbl d0)"
    using case_table.update_matches assms(2,3) .
  show ?thesis
    unfolding case_update_row_def Let_def
    by (rule hoare_bind_of_res, rule hoare_bind [OF case_table.hoare_update [OF assms(1-3)]])
      (use assms(4,5) m in \<open>auto intro: hoare_ret\<close>)
qed

lemma task_from_record_key [simp]:
  "ct_organization_id (task_from_record t) = ct_organization_id t" "task_key (task_from_record t) = task_key t"
  "ct_lock_version (task_from_record t) = ct_lock_version t"
  "task_violation b (task_from_record t) d = task_violation b t d"
  "row_matched ct_organization_id task_key ct_lock_version (task_from_record t) =
     row_matched ct_organization_id task_key ct_lock_version t"
  by (simp_all add: task_from_record_def task_key_def task_violation_def row_matched_def fun_eq_iff)

lemma task_update_run:
  assumes "distinct (map task_key (case_tasks d0))" and "task_at d0 (ct_organization_id n) (task_key n) = Some t"
    and "ct_lock_version n = ct_lock_version t + 1"
    and "ct_created_at (task_from_record n) = ct_created_at t" "ct_created_by_user_id n = ct_created_by_user_id t"
  shows "hoare C (\<lambda>d. d = d0) (case_update_task n)
    (\<lambda>x d. (x = n \<and> task_violation False n d0 = None) \<and>
      d = d0\<lparr>case_tasks := map (\<lambda>s. if s = t then task_from_record n else s) (case_tasks d0)\<rparr>)"
proof -
  have m: "list_ex (row_matched ct_organization_id task_key ct_lock_version n) (case_tasks d0)"
    using task_table.update_matches assms(2,3) .
  have c: "ct_created_by_user_id (task_from_record n) = ct_created_by_user_id t"
    using assms(5) by (simp add: task_from_record_def)
  show ?thesis
    unfolding case_update_task_def Let_def
    by (rule hoare_bind_of_res, rule hoare_bind_of_res, rule hoare_bind_readonly [OF readonly_basic(4)], rule hoare_bind_of_res,
        rule hoare_bind [OF task_table.hoare_update [of d0 "task_from_record n" t, simplified]])
      (use assms c m in \<open>auto intro: hoare_ret\<close>)
qed

lemma case_insert_runs:
  "hoare C (\<lambda>d. d = d0) (case_add c)
     (\<lambda>x d. (case_from_record c = Inr x \<and> case_violation True c d0 = None) \<and> d = d0\<lparr>cases_tbl := cases_tbl d0 @ [c]\<rparr>)"
  "hoare C (\<lambda>d. d = d0) (case_add_comment m)
     (\<lambda>x d. (x = comment_from_record m \<and> check_width (comment_widths m) = Inr () \<and> comment_violation m d0 = None) \<and>
        d = d0\<lparr>case_comments := case_comments d0 @ [comment_from_record m]\<rparr>)"
  "hoare C (\<lambda>d. d = d0) (case_add_task t)
     (\<lambda>x d. (x = task_from_record t \<and> check_width (task_widths t) = Inr () \<and> task_violation True t d0 = None) \<and>
        d = d0\<lparr>case_tasks := case_tasks d0 @ [task_from_record t]\<rparr>)"
  "hoare C (\<lambda>d. d = d0) (case_add_decision y)
     (\<lambda>x d. (x = decision_from_record y \<and> check_width (decision_widths y) = Inr () \<and> decision_violation y d0 = None) \<and>
        d = d0\<lparr>case_decisions := case_decisions d0 @ [decision_from_record y]\<rparr>)"
  unfolding case_add_def case_add_comment_def case_add_task_def case_add_decision_def
  by (rule hoare_insert_res, ((rule hoare_bind_of_res)+, rule hoare_conseq [OF hoare_insert_ret], simp_all)+)

lemma case_add_document_run:
  assumes "case_tables d0"
  shows "hoare (\<lambda>d. d = d0) (\<lambda>d. d = d0) (case_add_document m)
    (\<lambda>x d. (case_document_violation m d0 = None \<and>
         d = d0\<lparr>case_documents := case_documents d0 @ [case_document_row m]\<rparr>) \<or>
       (d = d0 \<and> (\<exists>r \<in> set (case_documents d0). cd_organization_id r = cd_organization_id m \<and>
         cd_case_id r = cd_case_id m \<and> cd_document_id r = cd_document_id m)))"
    (is "hoare _ _ _ (\<lambda>x. ?Q)")
  unfolding case_add_document_def
proof (rule hoare_bind [OF hoare_insert_or [where Q = "\<lambda>x. ?Q"]])
  show "hoare (\<lambda>d. d = d0) (\<lambda>d. d = d0)
     (bind (case_membership_row (cd_organization_id m) (cd_case_id m) (cd_document_id m)) (\<lambda>existing.
         case existing of
           Some r \<Rightarrow> ret r
         | None \<Rightarrow> raise (DocumentNotFoundError ''Document was not found.''))) (\<lambda>x. ?Q)" for c
    unfolding case_membership_row_def
    by (rule hoareI) (auto simp: eff_simps scalar_one_or_none_def bind_def filter_eq_Cons_iff split: list.splits option.splits)
  show "hoare (\<lambda>d. d = d0) ?Q (of_res (case_document_from_record r)) (\<lambda>x. ?Q)" for r
    by (rule hoare_of_res) blast
qed blast

lemma case_remove_run:
  "hoare C (\<lambda>d. d = d0) (case_remove_document g i x)
     (\<lambda>r d. True \<and> d = d0\<lparr>case_documents := filter (\<lambda>m. \<not> (cd_organization_id m = g \<and> cd_case_id m = i \<and>
        cd_document_id m = x)) (case_documents d0)\<rparr>)"
  by (rule hoareI) (auto simp: case_remove_document_def Let_def eff_simps)

end
