(* ===== verification/Case_Service.thy ===== *)
theory Case_Service
  imports Case_Store
begin

text \<open>
  The case use cases, \<^verbatim>\<open>application/cases.py\<close>, composed with the SQLAlchemy repository, the audit
  log and the request's transaction, and the specification of the case store that every
  request refines. The service has no exception handlers of its own: a request that raises
  leaves its session uncommitted.
\<close>

section \<open>Commands\<close>

record CreateCaseCommand =
  nc_title :: string
  nc_summary :: "string option"
  nc_priority :: CasePriority
  nc_external_reference :: "string option"
  nc_audit_context :: "AuditRequestContext option"

record UpdateCaseCommand =
  uc_case_id :: CaseId
  uc_lock_version :: int
  uc_title :: "string option"
  uc_summary :: "string option"
  uc_priority :: "CasePriority option"
  uc_external_reference :: "string option"
  uc_audit_context :: "AuditRequestContext option"

record CaseDocumentCommand =
  kd_case_id :: CaseId
  kd_document_id :: DocumentId
  kd_audit_context :: "AuditRequestContext option"

record CreateCaseCommentCommand =
  km_case_id :: CaseId
  km_body :: string
  km_audit_context :: "AuditRequestContext option"

record CreateCaseTaskCommand =
  kt_case_id :: CaseId
  kt_title :: string
  kt_description :: "string option"
  kt_assigned_to_user_id :: "uuid option"
  kt_due_at :: "datetime option"
  kt_audit_context :: "AuditRequestContext option"

record UpdateCaseTaskCommand =
  ku_case_id :: CaseId
  ku_task_id :: CaseTaskId
  ku_lock_version :: int
  ku_title :: "string option"
  ku_description :: "string option"
  ku_assigned_to_user_id :: "uuid option"
  ku_due_at :: "datetime option"
  ku_audit_context :: "AuditRequestContext option"

record CompleteCaseTaskCommand =
  kc_case_id :: CaseId
  kc_task_id :: CaseTaskId
  kc_lock_version :: int
  kc_audit_context :: "AuditRequestContext option"

record CreateCaseDecisionCommand =
  kx_case_id :: CaseId
  kx_decision_type :: string
  kx_rationale :: string
  kx_audit_context :: "AuditRequestContext option"

record CaseStateCommand =
  ks_case_id :: CaseId
  ks_lock_version :: int
  ks_audit_context :: "AuditRequestContext option"

section \<open>The service\<close>

definition CaseService_record ::
  "env \<Rightarrow> AuditEventType \<Rightarrow> TenantContext \<Rightarrow> CaseId \<Rightarrow> AuditRequestContext option \<Rightarrow> datetime \<Rightarrow> metadata \<Rightarrow> unit tx" where
  "CaseService_record E event_type tenant case_id request_context now metadata =
     tenant_event ''case'' E event_type tenant (CaseId_value case_id) request_context now metadata"

definition CaseService_create :: "env \<Rightarrow> CreateCaseCommand \<Rightarrow> TenantContext \<Rightarrow> Case tx" where
  "CaseService_create E command tenant =
     bind (of_res (require tenant CASE_WRITE)) (\<lambda>_.
     bind (clock_now E) (\<lambda>timestamp.
     bind (uuid4 E) (\<lambda>new_id.
     bind (of_res (Case_create (CaseId new_id) (tn_organization_id tenant) (nc_title command)
       (nc_summary command) (nc_priority command) (nc_external_reference command)
       (tn_user_id tenant) timestamp)) (\<lambda>c.
     bind (case_add c) (\<lambda>saved.
     bind (CaseService_record E CASE_CREATED tenant (c_id saved) (nc_audit_context command) timestamp []) (\<lambda>_.
     bind commit (\<lambda>_. ret saved)))))))"

definition CaseService_get :: "CaseId \<Rightarrow> TenantContext \<Rightarrow> Case tx" where
  "CaseService_get case_id tenant =
     bind (of_res (require tenant CASE_READ)) (\<lambda>_.
     bind (case_get (tn_organization_id tenant) case_id) (\<lambda>found.
     case found of
       None \<Rightarrow> raise (CaseNotFoundError ''Case was not found.'')
     | Some c \<Rightarrow> ret c))"

definition CaseService_list_cases :: "TenantContext \<Rightarrow> CaseListFilter \<Rightarrow> CaseListPage tx" where
  "CaseService_list_cases tenant q =
     bind (of_res (require tenant CASE_READ)) (\<lambda>_. case_list (tn_organization_id tenant) q)"

definition locked_case :: "CaseId \<Rightarrow> TenantContext \<Rightarrow> int \<Rightarrow> Case tx" where
  "locked_case case_id tenant lock_version =
     bind (case_get_for_update (tn_organization_id tenant) case_id) (\<lambda>found.
     case found of
       None \<Rightarrow> raise (CaseNotFoundError ''Case was not found.'')
     | Some c \<Rightarrow>
         if c_lock_version c \<noteq> lock_version then
           raise (ConcurrencyConflictError ''Case was changed by another request.'')
         else ret c)"

definition locked_task :: "CaseId \<Rightarrow> CaseTaskId \<Rightarrow> TenantContext \<Rightarrow> int \<Rightarrow> CaseTask tx" where
  "locked_task case_id task_id tenant lock_version =
     bind (CaseService_get case_id tenant) (\<lambda>_.
     bind (case_get_task_for_update (tn_organization_id tenant) case_id task_id) (\<lambda>found.
     case found of
       None \<Rightarrow> raise (CaseTaskNotFoundError ''Case task was not found.'')
     | Some t \<Rightarrow>
         if ct_lock_version t \<noteq> lock_version then
           raise (ConcurrencyConflictError ''Case task was changed by another request.'')
         else ret t))"

definition CaseService_update :: "env \<Rightarrow> UpdateCaseCommand \<Rightarrow> TenantContext \<Rightarrow> Case tx" where
  "CaseService_update E command tenant =
     bind (of_res (require tenant CASE_WRITE)) (\<lambda>_.
     bind (locked_case (uc_case_id command) tenant (uc_lock_version command)) (\<lambda>c.
     bind (clock_now E) (\<lambda>now.
     bind (of_res (Case_update c (uc_title command) (uc_summary command) (uc_priority command)
       (uc_external_reference command) (tn_user_id tenant) now)) (\<lambda>updated.
     bind (case_update_row updated) (\<lambda>saved.
     bind (CaseService_record E CASE_UPDATED tenant (c_id saved) (uc_audit_context command) (c_updated_at saved) []) (\<lambda>_.
     bind commit (\<lambda>_. ret saved)))))))"

definition CaseService_close :: "env \<Rightarrow> CaseStateCommand \<Rightarrow> TenantContext \<Rightarrow> Case tx" where
  "CaseService_close E command tenant =
     bind (of_res (require tenant CASE_WRITE)) (\<lambda>_.
     bind (locked_case (ks_case_id command) tenant (ks_lock_version command)) (\<lambda>c.
     bind (clock_now E) (\<lambda>now.
     bind (of_res (Case_close c (tn_user_id tenant) now)) (\<lambda>closed.
     bind (case_update_row closed) (\<lambda>saved.
     bind (CaseService_record E CASE_CLOSED tenant (c_id saved) (ks_audit_context command) (c_updated_at saved) []) (\<lambda>_.
     bind commit (\<lambda>_. ret saved)))))))"

definition CaseService_reopen :: "env \<Rightarrow> CaseStateCommand \<Rightarrow> TenantContext \<Rightarrow> Case tx" where
  "CaseService_reopen E command tenant =
     bind (of_res (require tenant CASE_WRITE)) (\<lambda>_.
     bind (locked_case (ks_case_id command) tenant (ks_lock_version command)) (\<lambda>c.
     bind (clock_now E) (\<lambda>now.
     bind (of_res (Case_reopen c (tn_user_id tenant) now)) (\<lambda>reopened.
     bind (case_update_row reopened) (\<lambda>saved.
     bind (CaseService_record E CASE_REOPENED tenant (c_id saved) (ks_audit_context command) (c_updated_at saved) []) (\<lambda>_.
     bind commit (\<lambda>_. ret saved)))))))"

definition CaseService_archive :: "env \<Rightarrow> CaseStateCommand \<Rightarrow> TenantContext \<Rightarrow> Case tx" where
  "CaseService_archive E command tenant =
     bind (of_res (require tenant CASE_ARCHIVE)) (\<lambda>_.
     bind (locked_case (ks_case_id command) tenant (ks_lock_version command)) (\<lambda>c.
     bind (clock_now E) (\<lambda>now.
     bind (of_res (Case_archive c (tn_user_id tenant) now)) (\<lambda>archived.
     bind (case_update_row archived) (\<lambda>saved.
     bind (CaseService_record E CASE_ARCHIVED tenant (c_id saved) (ks_audit_context command) (c_updated_at saved) []) (\<lambda>_.
     bind commit (\<lambda>_. ret saved)))))))"

definition CaseService_add_document :: "env \<Rightarrow> CaseDocumentCommand \<Rightarrow> TenantContext \<Rightarrow> CaseDocument tx" where
  "CaseService_add_document E command tenant =
     bind (of_res (require tenant CASE_MANAGE_DOCUMENTS)) (\<lambda>_.
     bind (CaseService_get (kd_case_id command) tenant) (\<lambda>_.
     bind (uuid4 E) (\<lambda>new_id.
     bind (clock_now E) (\<lambda>now.
     bind (case_add_document
       \<lparr>cd_id = CaseDocumentId new_id, cd_organization_id = tn_organization_id tenant,
        cd_case_id = kd_case_id command, cd_document_id = kd_document_id command,
        cd_added_at = now, cd_added_by_user_id = tn_user_id tenant\<rparr>) (\<lambda>saved.
     bind (CaseService_record E CASE_DOCUMENT_ADDED tenant (kd_case_id command) (kd_audit_context command)
       (cd_added_at saved) [(''document_id'', VUuid (DocumentId_value (kd_document_id command)))]) (\<lambda>_.
     bind commit (\<lambda>_. ret saved)))))))"

definition CaseService_remove_document :: "env \<Rightarrow> CaseDocumentCommand \<Rightarrow> TenantContext \<Rightarrow> bool tx" where
  "CaseService_remove_document E command tenant =
     bind (of_res (require tenant CASE_MANAGE_DOCUMENTS)) (\<lambda>_.
     bind (CaseService_get (kd_case_id command) tenant) (\<lambda>_.
     bind (case_remove_document (tn_organization_id tenant) (kd_case_id command) (kd_document_id command)) (\<lambda>removed.
     bind (clock_now E) (\<lambda>now.
     bind (CaseService_record E CASE_DOCUMENT_REMOVED tenant (kd_case_id command) (kd_audit_context command) now
       [(''document_id'', VUuid (DocumentId_value (kd_document_id command))), (''removed'', VBool removed)]) (\<lambda>_.
     bind commit (\<lambda>_. ret removed))))))"

definition CaseService_create_comment :: "env \<Rightarrow> CreateCaseCommentCommand \<Rightarrow> TenantContext \<Rightarrow> CaseComment tx" where
  "CaseService_create_comment E command tenant =
     bind (of_res (require tenant CASE_COMMENT)) (\<lambda>_.
     bind (CaseService_get (km_case_id command) tenant) (\<lambda>_.
     bind (uuid4 E) (\<lambda>new_id.
     bind (clock_now E) (\<lambda>now.
     bind (case_add_comment
       \<lparr>cc_id = CaseCommentId new_id, cc_organization_id = tn_organization_id tenant,
        cc_case_id = km_case_id command, cc_body = km_body command, cc_created_at = now,
        cc_created_by_user_id = tn_user_id tenant, cc_updated_at = None, cc_updated_by_user_id = None\<rparr>) (\<lambda>saved.
     bind (CaseService_record E CASE_COMMENT_CREATED tenant (km_case_id command) (km_audit_context command)
       (cc_created_at saved) []) (\<lambda>_.
     bind commit (\<lambda>_. ret saved)))))))"

definition CaseService_create_task :: "env \<Rightarrow> CreateCaseTaskCommand \<Rightarrow> TenantContext \<Rightarrow> CaseTask tx" where
  "CaseService_create_task E command tenant =
     bind (of_res (require tenant CASE_TASK)) (\<lambda>_.
     bind (CaseService_get (kt_case_id command) tenant) (\<lambda>_.
     bind (clock_now E) (\<lambda>timestamp.
     bind (uuid4 E) (\<lambda>new_id.
     bind (case_add_task
       \<lparr>ct_id = CaseTaskId new_id, ct_organization_id = tn_organization_id tenant,
        ct_case_id = kt_case_id command, ct_title = kt_title command, ct_description = kt_description command,
        ct_status = TaskOpen, ct_assigned_to_user_id = kt_assigned_to_user_id command, ct_due_at = kt_due_at command,
        ct_completed_at = None, ct_completed_by_user_id = None, ct_created_at = timestamp,
        ct_created_by_user_id = tn_user_id tenant, ct_updated_at = timestamp,
        ct_updated_by_user_id = tn_user_id tenant, ct_lock_version = 1\<rparr>) (\<lambda>saved.
     bind (CaseService_record E CASE_TASK_CREATED tenant (kt_case_id command) (kt_audit_context command) timestamp []) (\<lambda>_.
     bind commit (\<lambda>_. ret saved)))))))"

definition CaseService_update_task :: "env \<Rightarrow> UpdateCaseTaskCommand \<Rightarrow> TenantContext \<Rightarrow> CaseTask tx" where
  "CaseService_update_task E command tenant =
     bind (of_res (require tenant CASE_TASK)) (\<lambda>_.
     bind (locked_task (ku_case_id command) (ku_task_id command) tenant (ku_lock_version command)) (\<lambda>t.
     bind (clock_now E) (\<lambda>now.
     bind (of_res (CaseTask_update t (ku_title command) (ku_description command)
       (ku_assigned_to_user_id command) (ku_due_at command) (tn_user_id tenant) now)) (\<lambda>updated.
     bind (case_update_task updated) (\<lambda>saved.
     bind (CaseService_record E CASE_TASK_UPDATED tenant (ku_case_id command) (ku_audit_context command)
       (ct_updated_at saved) [(''task_id'', VUuid (CaseTaskId_value (ct_id saved)))]) (\<lambda>_.
     bind commit (\<lambda>_. ret saved)))))))"

definition CaseService_complete_task :: "env \<Rightarrow> CompleteCaseTaskCommand \<Rightarrow> TenantContext \<Rightarrow> CaseTask tx" where
  "CaseService_complete_task E command tenant =
     bind (of_res (require tenant CASE_TASK)) (\<lambda>_.
     bind (locked_task (kc_case_id command) (kc_task_id command) tenant (kc_lock_version command)) (\<lambda>t.
     bind (clock_now E) (\<lambda>now.
     bind (of_res (CaseTask_complete t (tn_user_id tenant) now)) (\<lambda>completed.
     bind (case_update_task completed) (\<lambda>saved.
     bind (CaseService_record E CASE_TASK_COMPLETED tenant (kc_case_id command) (kc_audit_context command)
       (ct_updated_at saved) [(''task_id'', VUuid (CaseTaskId_value (ct_id saved)))]) (\<lambda>_.
     bind commit (\<lambda>_. ret saved)))))))"

definition CaseService_create_decision :: "env \<Rightarrow> CreateCaseDecisionCommand \<Rightarrow> TenantContext \<Rightarrow> CaseDecision tx" where
  "CaseService_create_decision E command tenant =
     bind (of_res (require tenant CASE_DECISION)) (\<lambda>_.
     bind (CaseService_get (kx_case_id command) tenant) (\<lambda>_.
     bind (uuid4 E) (\<lambda>new_id.
     bind (clock_now E) (\<lambda>now.
     bind (case_add_decision
       \<lparr>cx_id = CaseDecisionId new_id, cx_organization_id = tn_organization_id tenant,
        cx_case_id = kx_case_id command, cx_decision_type = kx_decision_type command,
        cx_rationale = kx_rationale command, cx_created_at = now, cx_created_by_user_id = tn_user_id tenant\<rparr>) (\<lambda>saved.
     bind (CaseService_record E CASE_DECISION_CREATED tenant (kx_case_id command) (kx_audit_context command)
       (cx_created_at saved) []) (\<lambda>_.
     bind commit (\<lambda>_. ret saved)))))))"

definition CaseService_details ::
  "CaseId \<Rightarrow> TenantContext \<Rightarrow> (CaseDocument list \<times> CaseComment list \<times> CaseTask list \<times> CaseDecision list) tx" where
  "CaseService_details case_id tenant =
     bind (CaseService_get case_id tenant) (\<lambda>_.
     bind (case_list_documents (tn_organization_id tenant) case_id) (\<lambda>docs.
     bind (case_list_comments (tn_organization_id tenant) case_id) (\<lambda>comments.
     bind (case_list_tasks (tn_organization_id tenant) case_id) (\<lambda>tasks.
     bind (case_list_decisions (tn_organization_id tenant) case_id) (\<lambda>decisions.
     ret (docs, comments, tasks, decisions))))))"

section \<open>Requests\<close>

datatype CaseRequest =
    CreateCase CreateCaseCommand
  | UpdateCase UpdateCaseCommand
  | CloseCase CaseStateCommand
  | ReopenCase CaseStateCommand
  | ArchiveCase CaseStateCommand
  | AddCaseDocument CaseDocumentCommand
  | RemoveCaseDocument CaseDocumentCommand
  | CreateCaseComment CreateCaseCommentCommand
  | CreateCaseTask CreateCaseTaskCommand
  | UpdateCaseTask UpdateCaseTaskCommand
  | CompleteCaseTask CompleteCaseTaskCommand
  | CreateCaseDecision CreateCaseDecisionCommand
  | GetCase CaseId
  | ListCases CaseListFilter
  | CaseDetails CaseId

fun case_request :: "env \<Rightarrow> TenantContext \<Rightarrow> CaseRequest \<Rightarrow> unit tx" where
  "case_request E tn (CreateCase c) = forget (CaseService_create E c tn)"
| "case_request E tn (UpdateCase c) = forget (CaseService_update E c tn)"
| "case_request E tn (CloseCase c) = forget (CaseService_close E c tn)"
| "case_request E tn (ReopenCase c) = forget (CaseService_reopen E c tn)"
| "case_request E tn (ArchiveCase c) = forget (CaseService_archive E c tn)"
| "case_request E tn (AddCaseDocument c) = forget (CaseService_add_document E c tn)"
| "case_request E tn (RemoveCaseDocument c) = forget (CaseService_remove_document E c tn)"
| "case_request E tn (CreateCaseComment c) = forget (CaseService_create_comment E c tn)"
| "case_request E tn (CreateCaseTask c) = forget (CaseService_create_task E c tn)"
| "case_request E tn (UpdateCaseTask c) = forget (CaseService_update_task E c tn)"
| "case_request E tn (CompleteCaseTask c) = forget (CaseService_complete_task E c tn)"
| "case_request E tn (CreateCaseDecision c) = forget (CaseService_create_decision E c tn)"
| "case_request E tn (GetCase i) = forget (CaseService_get i tn)"
| "case_request E tn (ListCases q) = forget (CaseService_list_cases tn q)"
| "case_request E tn (CaseDetails i) = forget (CaseService_details i tn)"

text \<open>Requests of any tenants, one after the other, each in its own session.\<close>

fun serve_cases :: "env \<Rightarrow> (TenantContext \<times> CaseRequest) list \<Rightarrow> world \<Rightarrow> world" where
  "serve_cases E [] w = w"
| "serve_cases E ((tn, q) # qs) w = serve_cases E qs (snd (session_scope (case_request E tn q) w))"

section \<open>The specification\<close>

text \<open>
  The case store as its users see it: cases and tasks by tenant and identifier, the set of
  joined documents, and the comments and decisions in the order they were made, which no
  request changes or removes.
\<close>

record case_state =
  sc_case :: "uuid \<times> CaseId \<Rightarrow> Case option"
  sc_task :: "uuid \<times> CaseId \<times> CaseTaskId \<Rightarrow> CaseTask option"
  sc_documents :: "(uuid \<times> CaseId \<times> DocumentId) set"
  sc_comments :: "CaseComment list"
  sc_decisions :: "CaseDecision list"

definition case_abs :: "db \<Rightarrow> case_state" where
  "case_abs d = \<lparr>sc_case = (\<lambda>(g, i). case_at d g i), sc_task = (\<lambda>(g, k). task_at d g k),
     sc_documents = (\<lambda>m. (cd_organization_id m, cd_case_id m, cd_document_id m)) ` set (case_documents d),
     sc_comments = case_comments d, sc_decisions = case_decisions d\<rparr>"

text \<open>The requests that change a case: permission, case, lock version and domain operation.\<close>

fun case_change :: "CaseRequest \<Rightarrow> (Permission \<times> CaseId \<times> int \<times> (uuid \<Rightarrow> datetime \<Rightarrow> CaseOp)) option" where
  "case_change (UpdateCase c) = Some (CASE_WRITE, uc_case_id c, uc_lock_version c,
     UpdateCaseOp (uc_title c) (uc_summary c) (uc_priority c) (uc_external_reference c))"
| "case_change (CloseCase c) = Some (CASE_WRITE, ks_case_id c, ks_lock_version c, CloseCaseOp)"
| "case_change (ReopenCase c) = Some (CASE_WRITE, ks_case_id c, ks_lock_version c, ReopenCaseOp)"
| "case_change (ArchiveCase c) = Some (CASE_ARCHIVE, ks_case_id c, ks_lock_version c, ArchiveCaseOp)"
| "case_change _ = None"

fun task_change ::
  "CaseRequest \<Rightarrow> ((CaseId \<times> CaseTaskId) \<times> int \<times> (CaseTask \<Rightarrow> uuid \<Rightarrow> datetime \<Rightarrow> CaseTask res)) option" where
  "task_change (UpdateCaseTask c) = Some ((ku_case_id c, ku_task_id c), ku_lock_version c,
     \<lambda>t. CaseTask_update t (ku_title c) (ku_description c) (ku_assigned_to_user_id c) (ku_due_at c))"
| "task_change (CompleteCaseTask c) = Some ((kc_case_id c, kc_task_id c), kc_lock_version c, CaseTask_complete)"
| "task_change _ = None"

inductive case_spec :: "TenantContext \<Rightarrow> CaseRequest \<Rightarrow> case_state \<Rightarrow> case_state \<Rightarrow> bool" for tn where
  spec_create: "CASE_WRITE \<in> set (tn_permissions tn) \<Longrightarrow>
    Case_create i (tn_organization_id tn) (nc_title q) (nc_summary q) (nc_priority q)
      (nc_external_reference q) (tn_user_id tn) t = Inr c \<Longrightarrow>
    sc_case s (tn_organization_id tn, i) = None \<Longrightarrow>
    case_spec tn (CreateCase q) s (s\<lparr>sc_case := (sc_case s)((tn_organization_id tn, i) \<mapsto> c)\<rparr>)"
| spec_change: "case_change q = Some (p, i, l, op) \<Longrightarrow> p \<in> set (tn_permissions tn) \<Longrightarrow>
    sc_case s (tn_organization_id tn, i) = Some c \<Longrightarrow> c_lock_version c = l \<Longrightarrow>
    case_step c (op (tn_user_id tn) t) = Inr c' \<Longrightarrow>
    case_spec tn q s (s\<lparr>sc_case := (sc_case s)((tn_organization_id tn, i) \<mapsto> c')\<rparr>)"
| spec_add: "{CASE_MANAGE_DOCUMENTS, CASE_READ} \<subseteq> set (tn_permissions tn) \<Longrightarrow>
    sc_case s (tn_organization_id tn, kd_case_id q) \<noteq> None \<Longrightarrow>
    case_spec tn (AddCaseDocument q) s
      (s\<lparr>sc_documents := insert (tn_organization_id tn, kd_case_id q, kd_document_id q) (sc_documents s)\<rparr>)"
| spec_remove: "{CASE_MANAGE_DOCUMENTS, CASE_READ} \<subseteq> set (tn_permissions tn) \<Longrightarrow>
    sc_case s (tn_organization_id tn, kd_case_id q) \<noteq> None \<Longrightarrow>
    case_spec tn (RemoveCaseDocument q) s
      (s\<lparr>sc_documents := sc_documents s - {(tn_organization_id tn, kd_case_id q, kd_document_id q)}\<rparr>)"
| spec_comment: "{CASE_COMMENT, CASE_READ} \<subseteq> set (tn_permissions tn) \<Longrightarrow>
    sc_case s (tn_organization_id tn, km_case_id q) \<noteq> None \<Longrightarrow> length (km_body q) \<le> 4000 \<Longrightarrow>
    cc_organization_id m = tn_organization_id tn \<Longrightarrow> cc_case_id m = km_case_id q \<Longrightarrow> cc_body m = km_body q \<Longrightarrow>
    cc_created_by_user_id m = tn_user_id tn \<Longrightarrow>
    case_spec tn (CreateCaseComment q) s (s\<lparr>sc_comments := sc_comments s @ [m]\<rparr>)"
| spec_task: "{CASE_TASK, CASE_READ} \<subseteq> set (tn_permissions tn) \<Longrightarrow>
    sc_case s (tn_organization_id tn, kt_case_id q) \<noteq> None \<Longrightarrow>
    ct_organization_id m = tn_organization_id tn \<Longrightarrow> ct_case_id m = kt_case_id q \<Longrightarrow> ct_title m = kt_title q \<Longrightarrow>
    ct_status m = TaskOpen \<Longrightarrow> ct_lock_version m = 1 \<Longrightarrow> ct_created_by_user_id m = tn_user_id tn \<Longrightarrow>
    sc_task s (tn_organization_id tn, task_key m) = None \<Longrightarrow>
    case_spec tn (CreateCaseTask q) s (s\<lparr>sc_task := (sc_task s)((tn_organization_id tn, task_key m) \<mapsto> m)\<rparr>)"
| spec_task_change: "task_change q = Some (k, l, op) \<Longrightarrow> {CASE_TASK, CASE_READ} \<subseteq> set (tn_permissions tn) \<Longrightarrow>
    sc_case s (tn_organization_id tn, fst k) \<noteq> None \<Longrightarrow>
    sc_task s (tn_organization_id tn, k) = Some m \<Longrightarrow> ct_lock_version m = l \<Longrightarrow>
    op m (tn_user_id tn) t = Inr m' \<Longrightarrow>
    case_spec tn q s (s\<lparr>sc_task := (sc_task s)((tn_organization_id tn, k) \<mapsto> task_from_record m')\<rparr>)"
| spec_decision: "{CASE_DECISION, CASE_READ} \<subseteq> set (tn_permissions tn) \<Longrightarrow>
    sc_case s (tn_organization_id tn, kx_case_id q) \<noteq> None \<Longrightarrow>
    cx_organization_id m = tn_organization_id tn \<Longrightarrow> cx_case_id m = kx_case_id q \<Longrightarrow>
    cx_decision_type m = kx_decision_type q \<Longrightarrow> cx_rationale m = kx_rationale q \<Longrightarrow>
    cx_created_by_user_id m = tn_user_id tn \<Longrightarrow>
    case_spec tn (CreateCaseDecision q) s (s\<lparr>sc_decisions := sc_decisions s @ [m]\<rparr>)"
| spec_read: "CASE_READ \<in> set (tn_permissions tn) \<Longrightarrow>
    q \<in> range GetCase \<union> range ListCases \<union> range CaseDetails \<Longrightarrow> case_spec tn q s s"

fun event_of_case_request :: "CaseRequest \<Rightarrow> AuditEventType option" where
  "event_of_case_request (CreateCase c) = Some CASE_CREATED"
| "event_of_case_request (UpdateCase c) = Some CASE_UPDATED"
| "event_of_case_request (CloseCase c) = Some CASE_CLOSED"
| "event_of_case_request (ReopenCase c) = Some CASE_REOPENED"
| "event_of_case_request (ArchiveCase c) = Some CASE_ARCHIVED"
| "event_of_case_request (AddCaseDocument c) = Some CASE_DOCUMENT_ADDED"
| "event_of_case_request (RemoveCaseDocument c) = Some CASE_DOCUMENT_REMOVED"
| "event_of_case_request (CreateCaseComment c) = Some CASE_COMMENT_CREATED"
| "event_of_case_request (CreateCaseTask c) = Some CASE_TASK_CREATED"
| "event_of_case_request (UpdateCaseTask c) = Some CASE_TASK_UPDATED"
| "event_of_case_request (CompleteCaseTask c) = Some CASE_TASK_COMPLETED"
| "event_of_case_request (CreateCaseDecision c) = Some CASE_DECISION_CREATED"
| "event_of_case_request _ = None"

definition case_committed :: "TenantContext \<Rightarrow> CaseRequest \<Rightarrow> db \<Rightarrow> db \<Rightarrow> bool" where
  "case_committed tn q d0 d \<longleftrightarrow>
     case_tables d \<and> case_spec tn q (case_abs d0) (case_abs d) \<and>
     outside (tn_organization_id tn) d = outside (tn_organization_id tn) d0 \<and>
     (case event_of_case_request q of
        None \<Rightarrow> audit_events d = audit_events d0
      | Some ty \<Rightarrow> \<exists>e. event_of tn ty e \<and> audit_events d = audit_events d0 @ [e])"

section \<open>The requests refine it\<close>

lemma case_tables_audit [simp]: "case_tables (d\<lparr>audit_events := a\<rparr>) = case_tables d"
  by (simp add: case_tables_def)

lemma case_abs_audit [simp]: "case_abs (d\<lparr>audit_events := a\<rparr>) = case_abs d"
  by (simp add: case_abs_def)

lemma case_committed_logged:
  assumes "logged tn ty d1 d" and "event_of_case_request q = Some ty" and "audit_events d1 = audit_events d0"
    and "case_tables d1" and "case_spec tn q (case_abs d0) (case_abs d1)"
    and "outside (tn_organization_id tn) d1 = outside (tn_organization_id tn) d0"
  shows "case_committed tn q d0 d"
proof -
  obtain e where e: "event_of tn ty e" "d = d1\<lparr>audit_events := audit_events d1 @ [e]\<rparr>"
    using assms(1) unfolding logged_def by blast
  have "outside (tn_organization_id tn) d = outside (tn_organization_id tn) d0"
    using logged_outside [OF assms(1)] assms(6) by simp
  then show ?thesis
    using e assms(2-5) by (auto simp: case_committed_def)
qed

lemma locked_case_run:
  assumes "case_tables d0"
  shows "hoare C (\<lambda>d. d = d0) (locked_case i tn l)
    (\<lambda>c d. (case_at d0 (tn_organization_id tn) i = Some c \<and> c_lock_version c = l) \<and> d = d0)"
  unfolding locked_case_def case_get_for_update_eq
  by (rule hoare_step_fact [OF case_get_run [OF assms]], rule hoare_option)
    (auto intro!: hoare_raise hoare_if hoare_ret)

lemma case_service_get_run:
  assumes "case_tables d0"
  shows "hoare C (\<lambda>d. d = d0) (CaseService_get i tn)
    (\<lambda>c d. (CASE_READ \<in> set (tn_permissions tn) \<and> case_at d0 (tn_organization_id tn) i = Some c) \<and> d = d0)"
  unfolding CaseService_get_def
  by (rule hoare_bind_of_res, rule hoare_step_fact [OF case_get_run [OF assms]], rule hoare_option)
    (auto intro!: hoare_raise hoare_ret)

lemma locked_task_run:
  assumes "case_tables d0"
  shows "hoare C (\<lambda>d. d = d0) (locked_task i j tn l)
    (\<lambda>t d. (CASE_READ \<in> set (tn_permissions tn) \<and> case_at d0 (tn_organization_id tn) i \<noteq> None \<and>
       task_at d0 (tn_organization_id tn) (i, j) = Some t \<and> ct_lock_version t = l) \<and> d = d0)"
  unfolding locked_task_def
  by (rule hoare_step_fact [OF case_service_get_run [OF assms]], rule hoare_step_fact [OF task_get_run [OF assms]],
      rule hoare_option) (auto intro!: hoare_raise hoare_if hoare_ret)

lemma case_step_created:
  assumes "case_step c p = Inr c'" and "is_utc (c_created_at c)"
  shows "c_created_at c' = c_created_at c"
  using assms by (cases p) (auto simp: case_op_defs Case_post_init_def case_helper_defs)

lemma case_replaced_committed:
  assumes ok: "case_tables d0" and c: "case_at d0 (tn_organization_id tn) i = Some c"
    and n: "case_step c p = Inr n" and v: "case_violation False n d0 = None"
    and s: "case_spec tn q (case_abs d0)
      ((case_abs d0)\<lparr>sc_case := (sc_case (case_abs d0))((tn_organization_id tn, i) \<mapsto> n)\<rparr>)"
    and ty: "event_of_case_request q = Some ty"
    and l: "logged tn ty (d0\<lparr>cases_tbl := map (\<lambda>s. if s = c then n else s) (cases_tbl d0)\<rparr>) d"
  shows "case_committed tn q d0 d"
proof -
  let ?d = "d0\<lparr>cases_tbl := map (\<lambda>s. if s = c then n else s) (cases_tbl d0)\<rparr>"
  have k: "distinct (map c_id (cases_tbl d0))"
    using ok by (simp add: case_tables_def)
  have c': "c \<in> set (cases_tbl d0)" "c_organization_id c = tn_organization_id tn" "c_id c = i"
    using c row_at_iff [OF k] by blast+
  note f = case_step_frame [OF n]
  have at: "case_at d0 (c_organization_id n) (c_id n) = Some c"
    using c c' f by simp
  have "case_lifecycle c"
    using ok c'(1) by (simp add: case_tables_def)
  then have wf: "wf_case n" "case_lifecycle n"
    using f by simp_all
  have keys: "map c_id (cases_tbl ?d) = map c_id (cases_tbl d0)"
    using row_replaced_keys [OF k at] by simp
  have refs: "case_missing d0 g j" if m: "case_missing ?d g j" for g j
    unfolding case_missing_def
  proof
    assume "\<exists>x \<in> set (cases_tbl d0). c_organization_id x = g \<and> c_id x = j"
    then obtain x where x: "x \<in> set (cases_tbl d0)" "c_organization_id x = g" "c_id x = j" by blast
    define y where "y = (if x = c then n else x)"
    have "y \<in> set (cases_tbl ?d)" "c_organization_id y = g" "c_id y = j"
      using x f(3,4) by (auto simp: y_def)
    then show False
      using m unfolding case_missing_def by blast
  qed
  have "task_violation False t ?d = None" if "t \<in> set (case_tasks d0)" for t
    by (rule task_violation_cases [OF refs]) (use ok that in \<open>simp_all add: case_tables_def\<close>)
  then have "case_tables ?d"
    using ok refs wf v keys k unfolding case_tables_def by (auto simp del: map_map)
  moreover have "case_abs ?d = (case_abs d0)\<lparr>sc_case := (sc_case (case_abs d0))((tn_organization_id tn, i) \<mapsto> n)\<rparr>"
    using row_at_replaced [OF k at] c' f by (auto simp: case_abs_def)
  moreover have "outside (tn_organization_id tn) ?d = outside (tn_organization_id tn) d0"
    using case_table.outside_update [OF at] c' f by simp
  ultimately show ?thesis
    using case_committed_logged [OF l ty] s by simp
qed

lemma case_change_commits:
  assumes ok: "case_tables d0" and q: "case_change q = Some (p, i, l, op)" "event_of_case_request q = Some ty"
    and step: "\<And>c t. step c t = case_step c (op (tn_user_id tn) t)"
  shows "commits_from d0 (\<lambda>d. d = d0)
    (bind (of_res (require tn p)) (\<lambda>_.
     bind (locked_case i tn l) (\<lambda>c.
     bind (clock_now E) (\<lambda>now.
     bind (of_res (step c now)) (\<lambda>n.
     bind (case_update_row n) (\<lambda>saved.
     bind (CaseService_record E ty tn (c_id saved) ctxt (c_updated_at saved) []) (\<lambda>_.
     bind commit (\<lambda>_. ret saved))))))))
    (\<lambda>x. case_committed tn q d0)"
proof (intro commits_from_bind_of_res commits_from_step [OF locked_case_run [OF ok]]
    commits_from_bind_readonly [OF readonly_basic(5)])
  fix u c t n
  assume p: "require tn p = Inr u"
    and c: "case_at d0 (tn_organization_id tn) i = Some c \<and> c_lock_version c = l"
    and "step c t = Inr n"
  then have n: "case_step c (op (tn_user_id tn) t) = Inr n" by (simp add: step)
  have s: "case_spec tn q (case_abs d0)
    ((case_abs d0)\<lparr>sc_case := (sc_case (case_abs d0))((tn_organization_id tn, i) \<mapsto> n)\<rparr>)"
    by (rule spec_change [OF q(1) _ _ _ n]) (use p c in \<open>simp_all add: case_abs_def\<close>)
  have k: "distinct (map c_id (cases_tbl d0))"
    using ok by (simp add: case_tables_def)
  have c': "c \<in> set (cases_tbl d0)" "c_organization_id c = tn_organization_id tn" "c_id c = i"
    using c row_at_iff [OF k] by blast+
  have "is_utc (c_created_at c)"
    using ok c'(1) by (auto simp: case_tables_def wf_case_def)
  then have u: "hoare (\<lambda>d. d = d0) (\<lambda>d. d = d0) (case_update_row n)
      (\<lambda>x d. (x = n \<and> case_violation False n d0 = None) \<and>
        d = d0\<lparr>cases_tbl := map (\<lambda>s. if s = c then n else s) (cases_tbl d0)\<rparr>)"
    by (intro case_update_run) (use k c c' case_step_frame [OF n] case_step_created [OF n] in simp_all)
  show "commits_from d0 (\<lambda>d. d = d0)
     (bind (case_update_row n) (\<lambda>saved.
     bind (CaseService_record E ty tn (c_id saved) ctxt (c_updated_at saved) []) (\<lambda>_.
     bind commit (\<lambda>_. ret saved)))) (\<lambda>x. case_committed tn q d0)"
    unfolding CaseService_record_def
    by (rule commits_from_step [OF u], rule commits_from_logged)
      (use case_replaced_committed [OF ok _ n _ s q(2)] c in simp)
qed

lemma case_update_commits: "case_tables d0 \<Longrightarrow> commits_from d0 (\<lambda>d. d = d0) (CaseService_update E c tn) (\<lambda>x. case_committed tn (UpdateCase c) d0)"
  unfolding CaseService_update_def by (rule case_change_commits, assumption, simp, simp, simp)

lemma case_close_commits: "case_tables d0 \<Longrightarrow> commits_from d0 (\<lambda>d. d = d0) (CaseService_close E c tn) (\<lambda>x. case_committed tn (CloseCase c) d0)"
  unfolding CaseService_close_def by (rule case_change_commits, assumption, simp, simp, simp)

lemma case_reopen_commits: "case_tables d0 \<Longrightarrow> commits_from d0 (\<lambda>d. d = d0) (CaseService_reopen E c tn) (\<lambda>x. case_committed tn (ReopenCase c) d0)"
  unfolding CaseService_reopen_def by (rule case_change_commits, assumption, simp, simp, simp)

lemma case_archive_commits: "case_tables d0 \<Longrightarrow> commits_from d0 (\<lambda>d. d = d0) (CaseService_archive E c tn) (\<lambda>x. case_committed tn (ArchiveCase c) d0)"
  unfolding CaseService_archive_def by (rule case_change_commits, assumption, simp, simp, simp)

lemma case_create_commits:
  assumes ok: "case_tables d0"
  shows "commits_from d0 (\<lambda>d. d = d0) (CaseService_create E q tn) (\<lambda>x. case_committed tn (CreateCase q) d0)"
  unfolding CaseService_create_def CaseService_record_def
proof (intro commits_from_bind_of_res commits_from_bind_readonly [OF readonly_basic(5)]
    commits_from_bind_readonly [OF readonly_basic(6)] commits_from_step [OF case_insert_runs(1)] commits_from_logged)
  fix u t j n x d
  assume p: "require tn CASE_WRITE = Inr u"
    and n: "Case_create (CaseId j) (tn_organization_id tn) (nc_title q) (nc_summary q) (nc_priority q)
      (nc_external_reference q) (tn_user_id tn) t = Inr n"
    and x: "case_from_record n = Inr x \<and> case_violation True n d0 = None"
    and l: "logged tn CASE_CREATED (d0\<lparr>cases_tbl := cases_tbl d0 @ [n]\<rparr>) d"
  let ?d = "d0\<lparr>cases_tbl := cases_tbl d0 @ [n]\<rparr>"
  note f = Case_create_frame [OF n]
  have fresh: "CaseId j \<notin> set (map c_id (cases_tbl d0))"
    using x f by (simp add: case_violation_def)
  have "case_violation False n d0 = None"
    using x by (simp add: case_violation_def)
  moreover have refs: "case_missing d0 g i" if "case_missing ?d g i" for g i
    using that by (simp add: case_missing_def)
  moreover have "task_violation False t ?d = None" if "t \<in> set (case_tasks d0)" for t
    by (rule task_violation_cases [OF refs]) (use ok that in \<open>simp_all add: case_tables_def\<close>)
  ultimately have "case_tables ?d"
    using ok fresh f unfolding case_tables_def by auto
  moreover have "case_abs ?d = (case_abs d0)\<lparr>sc_case := (sc_case (case_abs d0))((tn_organization_id tn, CaseId j) \<mapsto> n)\<rparr>"
    using row_at_inserted [of c_id n "cases_tbl d0" c_organization_id] fresh f by (auto simp: case_abs_def)
  moreover have "case_spec tn (CreateCase q) (case_abs d0)
      ((case_abs d0)\<lparr>sc_case := (sc_case (case_abs d0))((tn_organization_id tn, CaseId j) \<mapsto> n)\<rparr>)"
    by (rule spec_create [OF _ n])
      (use p row_at_fresh [OF fresh] in \<open>simp_all add: case_abs_def\<close>)
  moreover have "outside (tn_organization_id tn) ?d = outside (tn_organization_id tn) d0"
    by (rule case_rows.outside_insert) (simp add: f)
  ultimately show "case_committed tn (CreateCase q) d0 d"
    using case_committed_logged [OF l] by simp
qed

lemma case_comment_commits:
  assumes ok: "case_tables d0"
  shows "commits_from d0 (\<lambda>d. d = d0) (CaseService_create_comment E q tn) (\<lambda>x. case_committed tn (CreateCaseComment q) d0)"
  unfolding CaseService_create_comment_def CaseService_record_def
proof (intro commits_from_bind_of_res commits_from_step [OF case_service_get_run [OF ok]]
    commits_from_bind_readonly [OF readonly_basic(5)] commits_from_bind_readonly [OF readonly_basic(6)]
    commits_from_step [OF case_insert_runs(2)] commits_from_logged)
  fix u c j t x d
  let ?m = "\<lparr>cc_id = CaseCommentId j, cc_organization_id = tn_organization_id tn,
        cc_case_id = km_case_id q, cc_body = km_body q, cc_created_at = t,
        cc_created_by_user_id = tn_user_id tn, cc_updated_at = None, cc_updated_by_user_id = None\<rparr>"
  define m where "m = ?m"
  let ?d = "d0\<lparr>case_comments := case_comments d0 @ [comment_from_record m]\<rparr>"
  assume p: "require tn CASE_COMMENT = Inr u"
    and c: "CASE_READ \<in> set (tn_permissions tn) \<and> case_at d0 (tn_organization_id tn) (km_case_id q) = Some c"
    and "x = comment_from_record ?m \<and> check_width (comment_widths ?m) = Inr () \<and> comment_violation ?m d0 = None"
    and "logged tn CASE_COMMENT_CREATED (d0\<lparr>case_comments := case_comments d0 @ [comment_from_record ?m]\<rparr>) d"
  then have x: "check_width (comment_widths m) = Inr ()" "comment_violation m d0 = None"
    and l: "logged tn CASE_COMMENT_CREATED ?d d"
    by (simp_all add: m_def)
  have m: "cc_organization_id (comment_from_record m) = tn_organization_id tn"
      "cc_case_id (comment_from_record m) = km_case_id q" "cc_body (comment_from_record m) = km_body q"
      "cc_created_by_user_id (comment_from_record m) = tn_user_id tn"
    by (simp_all add: m_def comment_from_record_def)
  have "\<not> case_missing d0 (cc_organization_id m) (cc_case_id m)"
    using x(2) by (simp add: comment_violation_def)
  then have "case_tables ?d"
    using ok unfolding case_tables_def by (auto simp: comment_from_record_def)
  moreover have "case_spec tn (CreateCaseComment q) (case_abs d0) (case_abs ?d)"
    using spec_comment [of tn "case_abs d0" q "comment_from_record m"] p c m x(1)
    by (simp add: case_abs_def check_width_def comment_widths_def m_def)
  moreover have "outside (tn_organization_id tn) ?d = outside (tn_organization_id tn) d0"
    by (rule case_comment_rows.outside_insert) (rule m)
  ultimately show "case_committed tn (CreateCaseComment q) d0 d"
    using case_committed_logged [OF l] by simp
qed

lemma case_decision_commits:
  assumes ok: "case_tables d0"
  shows "commits_from d0 (\<lambda>d. d = d0) (CaseService_create_decision E q tn) (\<lambda>x. case_committed tn (CreateCaseDecision q) d0)"
  unfolding CaseService_create_decision_def CaseService_record_def
proof (intro commits_from_bind_of_res commits_from_step [OF case_service_get_run [OF ok]]
    commits_from_bind_readonly [OF readonly_basic(5)] commits_from_bind_readonly [OF readonly_basic(6)]
    commits_from_step [OF case_insert_runs(4)] commits_from_logged)
  fix u c j t x d
  let ?m = "\<lparr>cx_id = CaseDecisionId j, cx_organization_id = tn_organization_id tn,
        cx_case_id = kx_case_id q, cx_decision_type = kx_decision_type q,
        cx_rationale = kx_rationale q, cx_created_at = t, cx_created_by_user_id = tn_user_id tn\<rparr>"
  define m where "m = ?m"
  let ?d = "d0\<lparr>case_decisions := case_decisions d0 @ [decision_from_record m]\<rparr>"
  assume p: "require tn CASE_DECISION = Inr u"
    and c: "CASE_READ \<in> set (tn_permissions tn) \<and> case_at d0 (tn_organization_id tn) (kx_case_id q) = Some c"
    and "x = decision_from_record ?m \<and> check_width (decision_widths ?m) = Inr () \<and> decision_violation ?m d0 = None"
    and "logged tn CASE_DECISION_CREATED (d0\<lparr>case_decisions := case_decisions d0 @ [decision_from_record ?m]\<rparr>) d"
  then have x: "check_width (decision_widths m) = Inr ()" "decision_violation m d0 = None"
    and l: "logged tn CASE_DECISION_CREATED ?d d"
    by (simp_all add: m_def)
  have m: "cx_organization_id (decision_from_record m) = tn_organization_id tn"
      "cx_case_id (decision_from_record m) = kx_case_id q"
      "cx_decision_type (decision_from_record m) = kx_decision_type q"
      "cx_rationale (decision_from_record m) = kx_rationale q"
      "cx_created_by_user_id (decision_from_record m) = tn_user_id tn"
    by (simp_all add: m_def decision_from_record_def)
  have "\<not> case_missing d0 (cx_organization_id m) (cx_case_id m)"
    using x(2) by (simp add: decision_violation_def)
  then have "case_tables ?d"
    using ok unfolding case_tables_def by (auto simp: decision_from_record_def)
  moreover have "case_spec tn (CreateCaseDecision q) (case_abs d0) (case_abs ?d)"
    using spec_decision [of tn "case_abs d0" q "decision_from_record m"] p c m x(1)
    by (simp add: case_abs_def check_width_def decision_widths_def m_def)
  moreover have "outside (tn_organization_id tn) ?d = outside (tn_organization_id tn) d0"
    by (rule case_decision_rows.outside_insert) (rule m)
  ultimately show "case_committed tn (CreateCaseDecision q) d0 d"
    using case_committed_logged [OF l] by simp
qed

lemma task_from_record_idem [simp]: "task_from_record (task_from_record t) = task_from_record t"
  by (simp add: task_from_record_def option.map_comp comp_def)

lemma case_task_commits:
  assumes ok: "case_tables d0"
  shows "commits_from d0 (\<lambda>d. d = d0) (CaseService_create_task E q tn) (\<lambda>x. case_committed tn (CreateCaseTask q) d0)"
  unfolding CaseService_create_task_def CaseService_record_def
proof (intro commits_from_bind_of_res commits_from_step [OF case_service_get_run [OF ok]]
    commits_from_bind_readonly [OF readonly_basic(5)] commits_from_bind_readonly [OF readonly_basic(6)]
    commits_from_step [OF case_insert_runs(3)] commits_from_logged)
  fix u c t j x d
  let ?m = "\<lparr>ct_id = CaseTaskId j, ct_organization_id = tn_organization_id tn,
        ct_case_id = kt_case_id q, ct_title = kt_title q, ct_description = kt_description q,
        ct_status = TaskOpen, ct_assigned_to_user_id = kt_assigned_to_user_id q, ct_due_at = kt_due_at q,
        ct_completed_at = None, ct_completed_by_user_id = None, ct_created_at = t,
        ct_created_by_user_id = tn_user_id tn, ct_updated_at = t,
        ct_updated_by_user_id = tn_user_id tn, ct_lock_version = 1\<rparr>"
  define m where "m = ?m"
  let ?n = "task_from_record m"
  let ?d = "d0\<lparr>case_tasks := case_tasks d0 @ [?n]\<rparr>"
  assume p: "require tn CASE_TASK = Inr u"
    and c: "CASE_READ \<in> set (tn_permissions tn) \<and> case_at d0 (tn_organization_id tn) (kt_case_id q) = Some c"
    and "x = task_from_record ?m \<and> check_width (task_widths ?m) = Inr () \<and> task_violation True ?m d0 = None"
    and "logged tn CASE_TASK_CREATED (d0\<lparr>case_tasks := case_tasks d0 @ [task_from_record ?m]\<rparr>) d"
  then have x: "check_width (task_widths m) = Inr ()" "task_violation True m d0 = None"
    and l: "logged tn CASE_TASK_CREATED ?d d"
    by (simp_all add: m_def)
  have m: "ct_organization_id ?n = tn_organization_id tn" "ct_case_id ?n = kt_case_id q" "ct_title ?n = kt_title q"
      "ct_status ?n = TaskOpen" "ct_lock_version ?n = 1" "ct_created_by_user_id ?n = tn_user_id tn"
    by (simp_all add: m_def task_from_record_def)
  have "ct_id m \<notin> set (map ct_id (case_tasks d0))"
    using x(2) by (simp add: task_violation_def)
  then have fresh: "task_key ?n \<notin> set (map task_key (case_tasks d0))"
    by (auto simp: task_key_def task_from_record_def)
  have v: "task_violation False m d0 = None"
    using x(2) by (simp add: task_violation_def)
  have "case_tables ?d"
    using ok v fresh unfolding case_tables_def by auto
  moreover have "case_abs ?d = (case_abs d0)\<lparr>sc_task := (sc_task (case_abs d0))((tn_organization_id tn, task_key ?n) \<mapsto> ?n)\<rparr>"
    using row_at_inserted [OF fresh, of ct_organization_id] m by (auto simp: case_abs_def)
  moreover have "case_spec tn (CreateCaseTask q) (case_abs d0)
      ((case_abs d0)\<lparr>sc_task := (sc_task (case_abs d0))((tn_organization_id tn, task_key ?n) \<mapsto> ?n)\<rparr>)"
    by (rule spec_task) (use p c m row_at_fresh [OF fresh] in \<open>simp_all add: case_abs_def\<close>)
  moreover have "outside (tn_organization_id tn) ?d = outside (tn_organization_id tn) d0"
    by (rule case_task_rows.outside_insert) (rule m)
  ultimately show "case_committed tn (CreateCaseTask q) d0 d"
    using case_committed_logged [OF l] by simp
qed

lemma case_document_commits:
  assumes ok: "case_tables d0"
  shows "commits_from d0 (\<lambda>d. d = d0) (CaseService_add_document E q tn) (\<lambda>x. case_committed tn (AddCaseDocument q) d0)"
  unfolding CaseService_add_document_def CaseService_record_def
proof (intro commits_from_bind_of_res commits_from_step [OF case_service_get_run [OF ok]]
    commits_from_bind_readonly [OF readonly_basic(5)] commits_from_bind_readonly [OF readonly_basic(6)]
    commits_from_bind [OF case_add_document_run [OF ok]] commits_from_logged_pre)
  fix u c j t and x :: CaseDocument and d1 d
  let ?m = "\<lparr>cd_id = CaseDocumentId j, cd_organization_id = tn_organization_id tn,
        cd_case_id = kd_case_id q, cd_document_id = kd_document_id q,
        cd_added_at = t, cd_added_by_user_id = tn_user_id tn\<rparr>"
  define m where "m = ?m"
  assume p: "require tn CASE_MANAGE_DOCUMENTS = Inr u"
    and c: "CASE_READ \<in> set (tn_permissions tn) \<and> case_at d0 (tn_organization_id tn) (kd_case_id q) = Some c"
    and "(case_document_violation ?m d0 = None \<and>
         d1 = d0\<lparr>case_documents := case_documents d0 @ [case_document_row ?m]\<rparr>) \<or>
       (d1 = d0 \<and> (\<exists>r \<in> set (case_documents d0). cd_organization_id r = cd_organization_id ?m \<and>
         cd_case_id r = cd_case_id ?m \<and> cd_document_id r = cd_document_id ?m))"
    and l: "logged tn CASE_DOCUMENT_ADDED d1 d"
  then have d1: "(case_document_violation m d0 = None \<and>
         d1 = d0\<lparr>case_documents := case_documents d0 @ [case_document_row m]\<rparr>) \<or>
       (d1 = d0 \<and> (\<exists>r \<in> set (case_documents d0). cd_organization_id r = cd_organization_id m \<and>
         cd_case_id r = cd_case_id m \<and> cd_document_id r = cd_document_id m))"
    by (simp only: m_def)
  have m: "cd_organization_id m = tn_organization_id tn" "cd_case_id m = kd_case_id q" "cd_document_id m = kd_document_id q"
    by (simp_all add: m_def)
  have r: "cd_organization_id (case_document_row m) = tn_organization_id tn"
      "cd_case_id (case_document_row m) = kd_case_id q" "cd_document_id (case_document_row m) = kd_document_id q"
    by (simp_all add: m case_document_row_def)
  have s: "case_spec tn (AddCaseDocument q) (case_abs d0)
     ((case_abs d0)\<lparr>sc_documents := insert (tn_organization_id tn, kd_case_id q, kd_document_id q) (sc_documents (case_abs d0))\<rparr>)"
    by (rule spec_add) (use p c in \<open>simp_all add: case_abs_def\<close>)
  from d1 show "case_committed tn (AddCaseDocument q) d0 d"
  proof (elim disjE conjE)
    assume v: "case_document_violation m d0 = None"
      and d1: "d1 = d0\<lparr>case_documents := case_documents d0 @ [case_document_row m]\<rparr>"
    have "case_tables d1"
      using ok v m r unfolding case_tables_def d1 by (auto simp: case_document_violation_def)
    moreover have "case_abs d1 = (case_abs d0)\<lparr>sc_documents := insert (tn_organization_id tn, kd_case_id q, kd_document_id q) (sc_documents (case_abs d0))\<rparr>"
      by (simp add: case_abs_def d1 r)
    moreover have "outside (tn_organization_id tn) d1 = outside (tn_organization_id tn) d0"
      unfolding d1 by (rule case_document_rows.outside_insert) (rule r)
    ultimately show ?thesis
      using case_committed_logged [OF l] s by (simp add: d1)
  next
    assume d1: "d1 = d0" and "\<exists>r \<in> set (case_documents d0). cd_organization_id r = cd_organization_id m \<and>
         cd_case_id r = cd_case_id m \<and> cd_document_id r = cd_document_id m"
    then have "(tn_organization_id tn, kd_case_id q, kd_document_id q) \<in> sc_documents (case_abs d0)"
      by (force simp: case_abs_def m)
    then have "(case_abs d0)\<lparr>sc_documents := insert (tn_organization_id tn, kd_case_id q, kd_document_id q) (sc_documents (case_abs d0))\<rparr> = case_abs d0"
      by (simp add: insert_absorb)
    then show ?thesis
      using case_committed_logged [OF l] s ok by (simp add: d1)
  qed
qed

lemma case_remove_commits:
  assumes ok: "case_tables d0"
  shows "commits_from d0 (\<lambda>d. d = d0) (CaseService_remove_document E q tn) (\<lambda>x. case_committed tn (RemoveCaseDocument q) d0)"
  unfolding CaseService_remove_document_def CaseService_record_def
proof (intro commits_from_bind_of_res commits_from_step [OF case_service_get_run [OF ok]]
    commits_from_step [OF case_remove_run] commits_from_bind_readonly [OF readonly_basic(5)] commits_from_logged)
  fix u c and d
  let ?P = "\<lambda>m. cd_organization_id m = tn_organization_id tn \<and> cd_case_id m = kd_case_id q \<and> cd_document_id m = kd_document_id q"
  let ?d = "d0\<lparr>case_documents := filter (\<lambda>m. \<not> ?P m) (case_documents d0)\<rparr>"
  assume p: "require tn CASE_MANAGE_DOCUMENTS = Inr u"
    and c: "CASE_READ \<in> set (tn_permissions tn) \<and> case_at d0 (tn_organization_id tn) (kd_case_id q) = Some c"
    and l: "logged tn CASE_DOCUMENT_REMOVED ?d d"
  have "case_tables ?d"
    using ok unfolding case_tables_def by simp
  moreover have "case_spec tn (RemoveCaseDocument q) (case_abs d0)
     ((case_abs d0)\<lparr>sc_documents := sc_documents (case_abs d0) - {(tn_organization_id tn, kd_case_id q, kd_document_id q)}\<rparr>)"
    by (rule spec_remove) (use p c in \<open>simp_all add: case_abs_def\<close>)
  moreover have "case_abs ?d = (case_abs d0)\<lparr>sc_documents := sc_documents (case_abs d0) - {(tn_organization_id tn, kd_case_id q, kd_document_id q)}\<rparr>"
    by (auto simp: case_abs_def)
  moreover have "outside (tn_organization_id tn) ?d = outside (tn_organization_id tn) d0"
    by (rule case_document_rows.outside_delete) simp
  ultimately show "case_committed tn (RemoveCaseDocument q) d0 d"
    using case_committed_logged [OF l] by simp
qed

lemma task_change_frame:
  assumes "task_change q = Some (k, l, op)" and "op m u t = Inr n"
  shows "ct_organization_id n = ct_organization_id m" "task_key n = task_key m"
    "ct_lock_version n = ct_lock_version m + 1" "ct_created_at n = ct_created_at m"
    "ct_created_by_user_id n = ct_created_by_user_id m"
  using assms
  by (cases q; auto simp: CaseTask_update_def CaseTask_complete_def task_key_def bind_res_def split: sum.splits)+

lemma task_replaced_committed:
  assumes ok: "case_tables d0" and m: "task_at d0 (tn_organization_id tn) k = Some m"
    and n: "ct_organization_id n = ct_organization_id m" "task_key n = task_key m" "task_violation False n d0 = None"
    and s: "case_spec tn q (case_abs d0)
      ((case_abs d0)\<lparr>sc_task := (sc_task (case_abs d0))((tn_organization_id tn, k) \<mapsto> task_from_record n)\<rparr>)"
    and ty: "event_of_case_request q = Some ty"
    and l: "logged tn ty (d0\<lparr>case_tasks := map (\<lambda>s. if s = m then task_from_record n else s) (case_tasks d0)\<rparr>) d"
  shows "case_committed tn q d0 d"
proof -
  let ?d = "d0\<lparr>case_tasks := map (\<lambda>s. if s = m then task_from_record n else s) (case_tasks d0)\<rparr>"
  have keys: "distinct (map task_key (case_tasks d0))"
    using ok by (simp add: case_tables_def)
  have m': "ct_organization_id m = tn_organization_id tn" "task_key m = k"
    using m row_at_iff [OF keys] by blast+
  have at: "task_at d0 (ct_organization_id (task_from_record n)) (task_key (task_from_record n)) = Some m"
    using m m' n by simp
  have "map task_key (case_tasks ?d) = map task_key (case_tasks d0)"
    using row_replaced_keys [OF keys at] by simp
  then have "case_tables ?d"
    using ok keys n(3) unfolding case_tables_def by (auto simp del: map_map)
  moreover have "case_abs ?d = (case_abs d0)\<lparr>sc_task := (sc_task (case_abs d0))((tn_organization_id tn, k) \<mapsto> task_from_record n)\<rparr>"
    using row_at_replaced [OF keys at] m' n by (auto simp: case_abs_def)
  moreover have "outside (tn_organization_id tn) ?d = outside (tn_organization_id tn) d0"
    using task_table.outside_update [OF at] m' n by simp
  ultimately show ?thesis
    using case_committed_logged [OF l ty] s by simp
qed

lemma task_change_commits:
  assumes ok: "case_tables d0" and q: "task_change q = Some ((i, j), l, op)" "event_of_case_request q = Some ty"
  shows "commits_from d0 (\<lambda>d. d = d0)
    (bind (of_res (require tn CASE_TASK)) (\<lambda>_.
     bind (locked_task i j tn l) (\<lambda>t.
     bind (clock_now E) (\<lambda>now.
     bind (of_res (op t (tn_user_id tn) now)) (\<lambda>n.
     bind (case_update_task n) (\<lambda>saved.
     bind (CaseService_record E ty tn i ctxt (ct_updated_at saved) (md saved)) (\<lambda>_.
     bind commit (\<lambda>_. ret saved))))))))
    (\<lambda>x. case_committed tn q d0)"
proof (intro commits_from_bind_of_res commits_from_step [OF locked_task_run [OF ok]]
    commits_from_bind_readonly [OF readonly_basic(5)])
  fix u m t n
  assume p: "require tn CASE_TASK = Inr u"
    and m: "CASE_READ \<in> set (tn_permissions tn) \<and> case_at d0 (tn_organization_id tn) i \<noteq> None \<and>
       task_at d0 (tn_organization_id tn) (i, j) = Some m \<and> ct_lock_version m = l"
    and n: "op m (tn_user_id tn) t = Inr n"
  note f = task_change_frame [OF q(1) n]
  have s: "case_spec tn q (case_abs d0)
    ((case_abs d0)\<lparr>sc_task := (sc_task (case_abs d0))((tn_organization_id tn, (i, j)) \<mapsto> task_from_record n)\<rparr>)"
    by (rule spec_task_change [OF q(1) _ _ _ _ n]) (use p m in \<open>simp_all add: case_abs_def\<close>)
  have k: "distinct (map task_key (case_tasks d0))"
    using ok by (simp add: case_tables_def)
  have m': "m \<in> set (case_tasks d0)" "ct_organization_id m = tn_organization_id tn" "task_key m = (i, j)"
    using m row_at_iff [OF k] by blast+
  then have "task_from_record m = m"
    using ok by (simp add: case_tables_def)
  then have "ct_created_at (task_from_record m) = ct_created_at m" by simp
  then have "ct_created_at (task_from_record n) = ct_created_at m"
    using f(4) by (simp add: task_from_record_def)
  then have u: "hoare (\<lambda>d. d = d0) (\<lambda>d. d = d0) (case_update_task n)
      (\<lambda>x d. (x = n \<and> task_violation False n d0 = None) \<and>
        d = d0\<lparr>case_tasks := map (\<lambda>s. if s = m then task_from_record n else s) (case_tasks d0)\<rparr>)"
    by (intro task_update_run) (use k m m' f in simp_all)
  show "commits_from d0 (\<lambda>d. d = d0)
     (bind (case_update_task n) (\<lambda>saved.
     bind (CaseService_record E ty tn i ctxt (ct_updated_at saved) (md saved)) (\<lambda>_.
     bind commit (\<lambda>_. ret saved)))) (\<lambda>x. case_committed tn q d0)"
    unfolding CaseService_record_def
    by (rule commits_from_step [OF u], rule commits_from_logged)
      (use task_replaced_committed [OF ok _ f(1,2) _ s q(2)] m in simp)
qed

lemma case_read_commits:
  assumes ok: "case_tables d0" and m: "readonly m" "returns m (\<lambda>_. CASE_READ \<in> set (tn_permissions tn))"
    and q: "q \<in> range GetCase \<union> range ListCases \<union> range CaseDetails"
  shows "commits_from d0 (\<lambda>d. d = d0) m (\<lambda>x. case_committed tn q d0)"
proof (rule commits_fromI)
  fix w x w'
  assume w: "committed w = d0" "working w = d0" "m w = (Inr x, w')"
  have "case_spec tn q (case_abs d0) (case_abs d0)"
    using returnsD [OF m(2) w(3)] q by (rule spec_read)
  moreover have "event_of_case_request q = None"
    using q by auto
  ultimately show "committed w' = working w' \<and> case_committed tn q d0 (working w')"
    using readonlyD [OF m(1) w(3)] w ok by (simp add: case_committed_def)
next
  fix w e w'
  assume "committed w = d0" "m w = (Inl e, w')"
  then show "committed w' = d0"
    using readonlyD [OF m(1)] by blast
qed

lemma case_reads:
  "readonly (CaseService_get i tn)" "returns (CaseService_get i tn) (\<lambda>_. CASE_READ \<in> set (tn_permissions tn))"
  "readonly (CaseService_list_cases tn f)"
  "returns (CaseService_list_cases tn f) (\<lambda>_. CASE_READ \<in> set (tn_permissions tn))"
  "readonly (CaseService_details i tn)"
  "returns (CaseService_details i tn) (\<lambda>_. CASE_READ \<in> set (tn_permissions tn))"
  unfolding CaseService_get_def CaseService_list_cases_def CaseService_details_def
  by (intro readonly_intros returns_require returns_first)+

lemma task_changes_commit:
  assumes "case_tables d0"
  shows "commits_from d0 (\<lambda>d. d = d0) (CaseService_update_task E c tn) (\<lambda>x. case_committed tn (UpdateCaseTask c) d0)"
    and "commits_from d0 (\<lambda>d. d = d0) (CaseService_complete_task E c' tn) (\<lambda>x. case_committed tn (CompleteCaseTask c') d0)"
  unfolding CaseService_update_task_def CaseService_complete_task_def
  by (rule task_change_commits [OF assms, of "UpdateCaseTask c", simplified task_change.simps, OF refl], simp,
      rule task_change_commits [OF assms, of "CompleteCaseTask c'", simplified task_change.simps, OF refl], simp)

lemma case_request_commits:
  assumes ok: "case_tables d0"
  shows "commits_from d0 (\<lambda>d. d = d0) (case_request E tn q) (\<lambda>_. case_committed tn q d0)"
  by (cases q; simp only: case_request.simps; rule commits_from_forget)
    (intro case_create_commits case_update_commits case_close_commits case_reopen_commits case_archive_commits
      case_comment_commits case_decision_commits case_task_commits case_document_commits case_remove_commits
      task_changes_commit case_read_commits case_reads ok; simp)+

lemma case_request_served:
  assumes "case_tables (committed w)" and "working w = committed w"
    and "session_scope (case_request E tn q) w = (r, w')"
  shows "working w' = committed w'" and "case_tables (committed w')"
    and "case r of Inl e \<Rightarrow> committed w' = committed w | Inr x \<Rightarrow> case_committed tn q (committed w) (committed w')"
proof -
  note run = commits_from_run [OF case_request_commits [OF assms(1)] assms(2,3)]
  show "working w' = committed w'" by (rule run(1))
  show c: "case r of Inl e \<Rightarrow> committed w' = committed w | Inr x \<Rightarrow> case_committed tn q (committed w) (committed w')"
    by (rule run(2))
  show "case_tables (committed w')"
    using c assms(1) by (cases r) (auto simp: case_committed_def)
qed

section \<open>What stays\<close>

text \<open>
  What no request takes back: the comments and decisions made so far in their order, the
  existence and lock version of cases and tasks, and the archival of a case.
\<close>

definition case_later :: "case_state \<Rightarrow> case_state \<Rightarrow> bool" where
  "case_later s s' \<longleftrightarrow>
     (\<exists>xs. sc_comments s' = sc_comments s @ xs) \<and> (\<exists>xs. sc_decisions s' = sc_decisions s @ xs) \<and>
     (\<forall>k c. sc_case s k = Some c \<longrightarrow> (\<exists>c'. sc_case s' k = Some c' \<and> c_lock_version c \<le> c_lock_version c' \<and>
        (c_status c = CaseArchived \<longrightarrow> c_status c' = CaseArchived))) \<and>
     (\<forall>k t. sc_task s k = Some t \<longrightarrow> (\<exists>t'. sc_task s' k = Some t' \<and> ct_lock_version t \<le> ct_lock_version t'))"

lemma case_later_refl: "case_later s s"
  by (simp add: case_later_def)

lemma case_later_trans:
  assumes "case_later s s1" and "case_later s1 s2"
  shows "case_later s s2"
  unfolding case_later_def
proof (intro conjI allI impI)
  show "\<exists>xs. sc_comments s2 = sc_comments s @ xs" "\<exists>xs. sc_decisions s2 = sc_decisions s @ xs"
    using assms by (auto simp: case_later_def)
  show "\<exists>c'. sc_case s2 k = Some c' \<and> c_lock_version c \<le> c_lock_version c' \<and>
        (c_status c = CaseArchived \<longrightarrow> c_status c' = CaseArchived)" if "sc_case s k = Some c" for k c
    using assms that unfolding case_later_def by (meson order_trans)
  show "\<exists>t'. sc_task s2 k = Some t' \<and> ct_lock_version t \<le> ct_lock_version t'" if "sc_task s k = Some t" for k t
    using assms that unfolding case_later_def by (meson order_trans)
qed

lemma case_spec_later: "case_spec tn q s s' \<Longrightarrow> case_later s s'"
proof (induction rule: case_spec.induct)
  case (spec_change q p i l op s c t c')
  then show ?case
    using case_step_frame(2,6) [OF spec_change(5)] by (auto simp: case_later_def)
next
  case (spec_task_change q k l op s m t m')
  then show ?case
    using task_change_frame(3) [OF spec_task_change(1,6)] by (auto simp: case_later_def)
qed (auto simp: case_later_def)

lemma serve_cases_later:
  assumes "case_tables (committed w)" and "working w = committed w"
  shows "case_tables (committed (serve_cases E qs w)) \<and>
    working (serve_cases E qs w) = committed (serve_cases E qs w) \<and>
    case_later (case_abs (committed w)) (case_abs (committed (serve_cases E qs w)))"
  using assms
proof (induction qs arbitrary: w)
  case Nil
  then show ?case by (simp add: case_later_refl)
next
  case (Cons a qs)
  obtain tn q where a: "a = (tn, q)" by fastforce
  obtain r w' where s: "session_scope (case_request E tn q) w = (r, w')" by fastforce
  note served = case_request_served [OF Cons.prems s]
  have "case_later (case_abs (committed w)) (case_abs (committed w'))"
    using served(3) case_spec_later case_later_refl by (cases r) (auto simp: case_committed_def)
  then show ?case
    using Cons.IH [OF served(2,1)] a s case_later_trans by simp
qed

section \<open>A sample case\<close>

definition sample_case :: Case where
  "sample_case = sample_open_case\<lparr>c_organization_id := 5, c_created_by_user_id := 101, c_updated_by_user_id := 101\<rparr>"

definition sample_case_db :: db where
  "sample_case_db = sample_tenant_db\<lparr>cases_tbl := [sample_case]\<rparr>"

definition sample_comment :: CreateCaseCommentCommand where
  "sample_comment = \<lparr>km_case_id = CaseId 1, km_body = ''ok'', km_audit_context = None\<rparr>"

lemma sample_case_facts:
  "case_tables sample_case_db" "case_at sample_case_db 5 (CaseId 1) = Some sample_case"
  "{CASE_COMMENT, CASE_READ} \<subseteq> set (tn_permissions sample_tenant)"
proof -
  have "wf_case sample_case" "case_lifecycle sample_case"
    by (simp_all add: sample_case_def sample_open_case_def sample_archived_case_def case_eval case_lifecycle_def)
  moreover have "case_violation False sample_case sample_case_db = None"
    by (simp add: case_violation_def user_missing_def organization_missing_def sample_case_db_def
        sample_tenant_db_def sample_case_def sample_open_case_def sample_archived_case_def sample_user_def
        sample_organization_def empty_db_def)
  ultimately show "case_tables sample_case_db"
    by (simp add: case_tables_def) (simp add: sample_case_db_def sample_tenant_db_def empty_db_def)
  show "case_at sample_case_db 5 (CaseId 1) = Some sample_case"
    by (simp add: sample_case_db_def row_at_def sample_case_def sample_open_case_def sample_archived_case_def)
  show "{CASE_COMMENT, CASE_READ} \<subseteq> set (tn_permissions sample_tenant)"
    by (simp add: sample_tenant_def) code_simp
qed

lemma sample_comment_served:
  "\<exists>w'. session_scope (case_request sample_clock sample_tenant (CreateCaseComment sample_comment))
     (fresh_world sample_case_db) = (Inr (), w')"
proof -
  let ?w = "fresh_world sample_case_db"
  let ?m = "\<lparr>cc_id = CaseCommentId 50, cc_organization_id = 5, cc_case_id = CaseId 1, cc_body = ''ok'',
        cc_created_at = DateTime 10 (Some 0), cc_created_by_user_id = 101, cc_updated_at = None,
        cc_updated_by_user_id = None\<rparr>"
  have tn: "tn_organization_id sample_tenant = 5" "tn_user_id sample_tenant = 101"
    by (simp_all add: sample_tenant_def)
  have g: "CaseService_get (CaseId 1) sample_tenant ?w = (Inr sample_case, ?w)"
    using sample_case_facts
    by (simp add: CaseService_get_def require_ok case_get_exact bind_def tn eff_simps)
  have "comment_violation ?m sample_case_db = None"
    by (simp add: comment_violation_def case_missing_def user_missing_def sample_case_db_def sample_tenant_db_def
        sample_case_def sample_open_case_def sample_archived_case_def sample_user_def empty_db_def)
  then have a: "case_add_comment ?m (?w\<lparr>uuid_reads := 1, now_reads := 1\<rparr>) =
      (Inr ?m, ?w\<lparr>uuid_reads := 1, now_reads := 1, working := sample_case_db\<lparr>case_comments := [?m]\<rparr>\<rparr>)"
    by (simp add: case_add_comment_def check_width_def comment_widths_def raise_if_def flush_def bind_def eff_simps
        comment_from_record_def fresh_world_def)
      (simp add: sample_case_db_def sample_tenant_db_def empty_db_def)
  have "event_storable sample_clock sample_tenant
      (?w\<lparr>uuid_reads := 1, now_reads := 1, working := sample_case_db\<lparr>case_comments := [?m]\<rparr>\<rparr>)"
    by (simp add: event_storable_def sample_clock_def sample_tenant_def sample_case_db_def sample_tenant_db_def
        sample_user_def sample_organization_def empty_db_def)
  then have "\<exists>w'. tenant_event ''case'' sample_clock CASE_COMMENT_CREATED sample_tenant 1 None (DateTime 10 (Some 0)) []
      (?w\<lparr>uuid_reads := 1, now_reads := 1, working := sample_case_db\<lparr>case_comments := [?m]\<rparr>\<rparr>) = (Inr (), w')"
    by (rule tenant_event_run [rotated 2]) auto
  then obtain w' where e: "tenant_event ''case'' sample_clock CASE_COMMENT_CREATED sample_tenant 1 None (DateTime 10 (Some 0)) []
      (?w\<lparr>uuid_reads := 1, now_reads := 1, working := sample_case_db\<lparr>case_comments := [?m]\<rparr>\<rparr>) = (Inr (), w')" by blast
  have "e_now sample_clock 0 = DateTime 10 (Some 0)" "e_uuid4 sample_clock 0 = 50"
    by (simp_all add: sample_clock_def)
  then show ?thesis
    using g a e sample_case_facts(3)
    by (simp add: session_scope_def CaseService_create_comment_def CaseService_record_def require_ok bind_def
        sample_comment_def tn uuid4_def clock_now_def eff_simps fresh_world_def)
qed

section \<open>Properties\<close>

text \<open>
  C11. Every case request, of any tenant, refines the specification of the case store: when it
  raises, nothing has been committed; when it returns, it has made exactly the step that the
  specification allows for that request (permissions, tenant, current lock version of the
  case or task, result of the domain operation), has written exactly one audit event naming
  the actor and the tenant for a mutation and none for a read, and the tables are still
  consistent: unique keys, valid cases, no record below a case in another tenant than its
  case and no joined document of another tenant.
\<close>

theorem case_requests_refine:
  assumes "case_tables (committed w)" and "working w = committed w"
    and "session_scope (case_request E tn q) w = (r, w')"
  shows "case_tables (committed w') \<and> working w' = committed w' \<and>
    (case r of
       Inl e \<Rightarrow> committed w' = committed w
     | Inr x \<Rightarrow> case_spec tn q (case_abs (committed w)) (case_abs (committed w')) \<and>
         (case event_of_case_request q of
            None \<Rightarrow> audit_events (committed w') = audit_events (committed w)
          | Some ty \<Rightarrow> \<exists>e. event_of tn ty e \<and> audit_events (committed w') = audit_events (committed w) @ [e]))"
  using case_request_served [OF assms] by (cases r) (simp_all add: case_committed_def)

theorem case_requests_refine_witness:
  "\<exists>w'. session_scope (case_request sample_clock sample_tenant (CreateCaseComment sample_comment))
     (fresh_world sample_case_db) = (Inr (), w') \<and>
   case_spec sample_tenant (CreateCaseComment sample_comment) (case_abs sample_case_db) (case_abs (committed w'))"
proof -
  obtain w' where w': "session_scope (case_request sample_clock sample_tenant (CreateCaseComment sample_comment))
      (fresh_world sample_case_db) = (Inr (), w')"
    using sample_comment_served by blast
  then show ?thesis
    using case_requests_refine [OF _ _ w'] sample_case_facts(1) by simp
qed

text \<open>
  C16. The record of a case only grows. Whatever requests of whatever tenants are served, in
  whatever order and whether they succeed or fail: the comments and decisions made before are
  still there, unchanged and in their order, ahead of the new ones; every case and task still
  exists, with a lock version that is not smaller; and an archived case is still archived.
\<close>

theorem case_history_kept:
  assumes "case_tables (committed w)" and "working w = committed w"
  shows "case_later (case_abs (committed w)) (case_abs (committed (serve_cases E qs w)))"
  using serve_cases_later [OF assms] by blast

theorem case_history_kept_witness:
  "\<exists>c. case_at (committed (serve_cases sample_clock [(sample_tenant, CreateCaseComment sample_comment)]
     (fresh_world sample_case_db))) 5 (CaseId 1) = Some c \<and> 1 \<le> c_lock_version c"
proof -
  have "c_lock_version sample_case = 1"
    by (simp add: sample_case_def sample_open_case_def)
  then show ?thesis
    using case_history_kept [of "fresh_world sample_case_db" sample_clock
        "[(sample_tenant, CreateCaseComment sample_comment)]"] sample_case_facts(1,2)
    by (auto simp: case_later_def case_abs_def dest!: spec [of _ "5 :: uuid"] spec [of _ "CaseId 1"])
qed

end
