(* ===== verification/Document_Store.thy ===== *)
theory Document_Store
  imports Tenant_Store
begin

text \<open>
  The document repositories, \<^verbatim>\<open>infrastructure/documents/repository.py\<close> and \<^verbatim>\<open>models.py\<close>: the
  tables of documents, versions, artifacts and upload idempotency keys with their constraints
  and every repository method.

  The foreign keys between a document and its current version are deferred: they are not
  among the constraints a flush checks, and that they hold at every commit is part of the
  invariant \<open>document_tables\<close> proved of the requests. The order of the keys in the metadata of
  an artifact, which its JSONB column does not keep, is not observed.
\<close>

section \<open>Rows\<close>

definition document_from_record :: "Document \<Rightarrow> Document res" where
  "document_from_record r =
     bind_res (DocumentId_post_init (DocumentId_value (d_id r))) (\<lambda>document_id.
     bind_res (DocumentVersionId_post_init (DocumentVersionId_value (d_current_version_id r))) (\<lambda>version_id.
     Document_post_init
       (r\<lparr>d_id := document_id, d_current_version_id := version_id,
          d_archived_at := map_option astimezone_utc (d_archived_at r),
          d_created_at := astimezone_utc (d_created_at r), d_updated_at := astimezone_utc (d_updated_at r)\<rparr>)))"

definition version_from_record :: "DocumentVersion \<Rightarrow> DocumentVersion res" where
  "version_from_record r =
     bind_res (DocumentVersionId_post_init (DocumentVersionId_value (dv_id r))) (\<lambda>version_id.
     bind_res (DocumentId_post_init (DocumentId_value (dv_document_id r))) (\<lambda>document_id.
     bind_res (ContentHash_post_init (ContentHash_value (dv_content_hash r))) (\<lambda>content_hash.
     bind_res (StorageObjectKey_post_init (StorageObjectKey_value (dv_storage_object_key r))) (\<lambda>key.
     DocumentVersion_post_init
       (r\<lparr>dv_id := version_id, dv_document_id := document_id, dv_content_hash := content_hash,
          dv_storage_object_key := key, dv_created_at := astimezone_utc (dv_created_at r)\<rparr>)))))"

definition artifact_from_record :: "DocumentArtifact \<Rightarrow> DocumentArtifact res" where
  "artifact_from_record r =
     bind_res (DocumentArtifactId_post_init (DocumentArtifactId_value (da_id r))) (\<lambda>artifact_id.
     bind_res (DocumentId_post_init (DocumentId_value (da_document_id r))) (\<lambda>document_id.
     bind_res (opt_res (\<lambda>v. DocumentVersionId_post_init (DocumentVersionId_value v)) (da_document_version_id r)) (\<lambda>version_id.
     bind_res (opt_res (\<lambda>h. ContentHash_post_init (ContentHash_value h)) (da_content_hash r)) (\<lambda>content_hash.
     bind_res (StorageObjectKey_post_init (StorageObjectKey_value (da_storage_object_key r))) (\<lambda>key.
     DocumentArtifact_post_init
       (r\<lparr>da_id := artifact_id, da_document_id := document_id, da_document_version_id := version_id,
          da_content_hash := content_hash, da_storage_object_key := key,
          da_created_at := astimezone_utc (da_created_at r)\<rparr>))))))"

definition idempotency_from_record :: "UploadIdempotencyRecordModel \<Rightarrow> UploadIdempotencyRecord res" where
  "idempotency_from_record r =
     bind_res (opt_res (\<lambda>i. DocumentId_post_init (DocumentId_value i)) (ui_document_id r)) (\<lambda>document_id.
     bind_res (opt_res (\<lambda>i. DocumentVersionId_post_init (DocumentVersionId_value i)) (ui_document_version_id r)) (\<lambda>version_id.
     Inr \<lparr>ui_organization_id = ui_organization_id r, ui_idempotency_key = ui_idempotency_key r,
          ui_request_fingerprint = ui_request_fingerprint r, ui_status = ui_status r,
          ui_document_id = document_id, ui_document_version_id = version_id,
          ui_response_status = ui_response_status r, ui_outcome = ui_outcome r,
          ui_error_code = ui_error_code r, ui_retryable = ui_retryable r,
          ui_created_at = astimezone_utc (ui_created_at r), ui_updated_at = astimezone_utc (ui_updated_at r),
          ui_expires_at = astimezone_utc (ui_expires_at r)\<rparr>))"

section \<open>Constraints\<close>

definition document_missing :: "db \<Rightarrow> uuid \<Rightarrow> DocumentId \<Rightarrow> bool" where
  "document_missing d g i \<longleftrightarrow> \<not> (\<exists>x \<in> set (documents d). d_organization_id x = g \<and> d_id x = i)"

definition version_missing :: "db \<Rightarrow> uuid \<Rightarrow> DocumentVersionId \<Rightarrow> bool" where
  "version_missing d g i \<longleftrightarrow> \<not> (\<exists>x \<in> set (document_versions d). dv_organization_id x = g \<and> dv_id x = i)"

definition document_violations :: "bool \<Rightarrow> Document \<Rightarrow> db \<Rightarrow> (string \<times> bool) list" where
  "document_violations fresh x d =
     [(''ck_documents_lock_version_positive'', d_lock_version x \<le> 0),
      (''ck_documents_archive_state_consistent'',
        \<not> (if d_status x = DocArchived then d_archived_at x \<noteq> None \<and> d_archived_by_user_id x \<noteq> None
           else d_archived_at x = None \<and> d_archived_by_user_id x = None)),
      (''pk_documents'', fresh \<and> d_id x \<in> set (map d_id (documents d))),
      (''fk_documents_organization_id_organizations'', organization_missing d (d_organization_id x)),
      (''fk_documents_archived_by_user_id_users'',
        \<not> pred_option (\<lambda>u. \<not> user_missing d u) (d_archived_by_user_id x)),
      (''fk_documents_created_by_user_id_users'', user_missing d (d_created_by_user_id x)),
      (''fk_documents_updated_by_user_id_users'', user_missing d (d_updated_by_user_id x))]"

definition version_violations :: "DocumentVersion \<Rightarrow> db \<Rightarrow> (string \<times> bool) list" where
  "version_violations v d =
     [(''ck_document_versions_version_number_positive'', dv_version_number v \<le> 0),
      (''ck_document_versions_byte_size_non_negative'', dv_byte_size v < 0),
      (''pk_document_versions'', dv_id v \<in> set (map dv_id (document_versions d))),
      (''uq_document_versions_document_version'',
        \<exists>x \<in> set (document_versions d). dv_document_id x = dv_document_id v \<and> dv_version_number x = dv_version_number v),
      (''uq_document_versions_organization_content_hash'',
        \<exists>x \<in> set (document_versions d). dv_organization_id x = dv_organization_id v \<and> dv_content_hash x = dv_content_hash v),
      (''uq_document_versions_organization_storage_key'',
        \<exists>x \<in> set (document_versions d). dv_organization_id x = dv_organization_id v \<and>
          dv_storage_object_key x = dv_storage_object_key v),
      (''fk_document_versions_organization_id_organizations'', organization_missing d (dv_organization_id v)),
      (''fk_document_versions_created_by_user_id_users'', user_missing d (dv_created_by_user_id v))]"

definition artifact_violation :: "DocumentArtifact \<Rightarrow> db \<Rightarrow> string option" where
  "artifact_violation a d = first_violation
     [(''ck_document_artifacts_byte_size_non_negative'', da_byte_size a < 0),
      (''nn_document_artifacts_created_by_user_id'', da_created_by_user_id a = None),
      (''pk_document_artifacts'', da_id a \<in> set (map da_id (document_artifacts d))),
      (''uq_document_artifacts_organization_storage_key'',
        \<exists>x \<in> set (document_artifacts d). da_organization_id x = da_organization_id a \<and>
          da_storage_object_key x = da_storage_object_key a),
      (''fk_document_artifacts_organization_document_documents'',
        document_missing d (da_organization_id a) (da_document_id a)),
      (''fk_document_artifacts_organization_version_document_versions'',
        \<not> pred_option (\<lambda>v. \<not> version_missing d (da_organization_id a) v) (da_document_version_id a)),
      (''fk_document_artifacts_organization_id_organizations'', organization_missing d (da_organization_id a)),
      (''fk_document_artifacts_created_by_user_id_users'',
        \<not> pred_option (\<lambda>u. \<not> user_missing d u) (da_created_by_user_id a))]"

definition idempotency_violation :: "bool \<Rightarrow> UploadIdempotencyRecordModel \<Rightarrow> db \<Rightarrow> string option" where
  "idempotency_violation fresh r d = first_violation
     [(''ck_upload_idempotency_response_status_valid'', \<not> pred_option (\<lambda>s. 100 \<le> s) (ui_response_status r)),
      (''pk_upload_idempotency'', fresh \<and> um_id r \<in> set (map um_id (upload_idempotency d))),
      (''uq_upload_idempotency_organization_key'',
        fresh \<and> (\<exists>x \<in> set (upload_idempotency d). ui_organization_id x = ui_organization_id r \<and>
          ui_idempotency_key x = ui_idempotency_key r)),
      (''fk_upload_idempotency_organization_id_organizations'', organization_missing d (ui_organization_id r)),
      (''fk_upload_idempotency_organization_document_documents'',
        \<not> pred_option (\<lambda>i. \<not> document_missing d (ui_organization_id r) i) (ui_document_id r)),
      (''fk_upload_idempotency_organization_version_document_versions'',
        \<not> pred_option (\<lambda>i. \<not> version_missing d (ui_organization_id r) i) (ui_document_version_id r))]"

text \<open>Text columns without a bound in the domain, and the integer columns.\<close>

definition opt_text :: "string option \<Rightarrow> string" where
  "opt_text x = (case x of None \<Rightarrow> [] | Some s \<Rightarrow> s)"

definition check_version_columns :: "DocumentVersion \<Rightarrow> unit res" where
  "check_version_columns v =
     bind_res (check_int4 (dv_version_number v)) (\<lambda>_.
     bind_res (check_bigint (dv_byte_size v)) (\<lambda>_.
     check_width [(dv_media_type v, 255), (StorageObjectKey_value (dv_storage_object_key v), 255)]))"

definition check_artifact_columns :: "DocumentArtifact \<Rightarrow> unit res" where
  "check_artifact_columns a =
     bind_res (check_bigint (da_byte_size a)) (\<lambda>_.
     check_width [(da_media_type a, 255), (StorageObjectKey_value (da_storage_object_key a), 255)])"

definition check_idempotency_columns :: "UploadIdempotencyRecordModel \<Rightarrow> unit res" where
  "check_idempotency_columns r =
     check_width [(ui_idempotency_key r, 128), (opt_text (ui_request_fingerprint r), 64),
       (opt_text (ui_outcome r), 32), (opt_text (ui_error_code r), 64)]"

section \<open>The document repository\<close>

definition document_add :: "Document \<Rightarrow> DocumentVersion \<Rightarrow> Document tx" where
  "document_add document version =
     bind (of_res (check_version_columns version)) (\<lambda>_.
     bind (on_integrity_error
       (flush (\<lambda>d. first_violation (document_violations True document d @ version_violations version d))
         (\<lambda>d. d\<lparr>documents := documents d @ [document], document_versions := document_versions d @ [version]\<rparr>))
       (\<lambda>c. raise (DuplicateDocumentContentError ''Document content is already registered for this tenant.''))) (\<lambda>_.
     of_res (document_from_record document)))"

definition document_get :: "uuid \<Rightarrow> DocumentId \<Rightarrow> Document option tx" where
  "document_get organization_id document_id =
     bind (bind (query (\<lambda>d. filter (\<lambda>x. d_organization_id x = organization_id \<and> d_id x = document_id) (documents d)))
       (\<lambda>rows. of_res (scalar_one_or_none rows))) (opt_row document_from_record)"

definition document_get_for_update :: "uuid \<Rightarrow> DocumentId \<Rightarrow> Document option tx" where
  "document_get_for_update organization_id document_id =
     bind (bind (query (\<lambda>d. filter (\<lambda>x. d_organization_id x = organization_id \<and> d_id x = document_id) (documents d)))
       (\<lambda>rows. of_res (scalar_one_or_none rows))) (opt_row document_from_record)"

text \<open>The join of the tenant's documents with their current versions.\<close>

definition with_current :: "uuid \<Rightarrow> db \<Rightarrow> (Document \<times> DocumentVersion) list" where
  "with_current organization_id d =
     concat (map (\<lambda>x. map (Pair x) (filter (\<lambda>v. d_current_version_id x = dv_id v \<and> dv_organization_id v = organization_id)
       (document_versions d))) (filter (\<lambda>x. d_organization_id x = organization_id) (documents d)))"

definition document_find_by_hash :: "uuid \<Rightarrow> ContentHash \<Rightarrow> Document option tx" where
  "document_find_by_hash organization_id content_hash =
     bind (bind (query (\<lambda>d. map fst (filter (\<lambda>(x, v). dv_content_hash v = content_hash) (with_current organization_id d))))
       (\<lambda>rows. of_res (scalar_one_or_none rows))) (opt_row document_from_record)"

record DocumentListFilter =
  df_limit :: int
  df_offset :: int
  df_status :: "DocumentStatus option"
  df_archived :: "bool option"
  df_source_type :: "DocumentSourceType option"
  df_media_type :: "string option"
  df_created_from :: "datetime option"
  df_created_to :: "datetime option"
  df_filename :: "string option"

record DocumentProjection =
  dp_id :: DocumentId
  dp_organization_id :: uuid
  dp_display_filename :: string
  dp_source_type :: DocumentSourceType
  dp_status :: DocumentStatus
  dp_current_version_id :: DocumentVersionId
  dp_media_type :: string
  dp_byte_size :: int
  dp_storage_state :: string
  dp_created_at :: datetime
  dp_updated_at :: datetime
  dp_lock_version :: int

record DocumentListPage =
  dl_items :: "DocumentProjection list"
  dl_total :: nat
  dl_limit :: int
  dl_offset :: int

definition projection_from_record :: "Document \<times> DocumentVersion \<Rightarrow> DocumentProjection res" where
  "projection_from_record = (\<lambda>(r, v).
     bind_res (DocumentId_post_init (DocumentId_value (d_id r))) (\<lambda>document_id.
     bind_res (DocumentVersionId_post_init (DocumentVersionId_value (d_current_version_id r))) (\<lambda>version_id.
     Inr \<lparr>dp_id = document_id, dp_organization_id = d_organization_id r,
          dp_display_filename = d_display_filename r, dp_source_type = d_source_type r, dp_status = d_status r,
          dp_current_version_id = version_id, dp_media_type = dv_media_type v, dp_byte_size = dv_byte_size v,
          dp_storage_state = DocumentStorageState_value (dv_storage_state v),
          dp_created_at = astimezone_utc (d_created_at r), dp_updated_at = astimezone_utc (d_updated_at r),
          dp_lock_version = d_lock_version r\<rparr>)))"

definition document_matches :: "DocumentListFilter \<Rightarrow> Document \<times> DocumentVersion \<Rightarrow> bool" where
  "document_matches q = (\<lambda>(x, v).
     (case df_status q of
        Some s \<Rightarrow> d_status x = s
      | None \<Rightarrow> (case df_archived q of
            Some True \<Rightarrow> d_status x = DocArchived
          | Some False \<Rightarrow> d_status x \<noteq> DocArchived
          | None \<Rightarrow> True)) \<and>
     (case df_source_type q of None \<Rightarrow> True | Some s \<Rightarrow> d_source_type x = s) \<and>
     (case df_media_type q of None \<Rightarrow> True | Some m \<Rightarrow> dv_media_type v = m) \<and>
     (case df_created_from q of None \<Rightarrow> True | Some t \<Rightarrow> instant t \<le> instant (d_created_at x)) \<and>
     (case df_created_to q of None \<Rightarrow> True | Some t \<Rightarrow> instant (d_created_at x) \<le> instant t) \<and>
     (case df_filename q of None \<Rightarrow> True | Some n \<Rightarrow> ilike (d_display_filename x) (''%'' @ n @ ''%'')))"

definition document_list :: "uuid \<Rightarrow> DocumentListFilter \<Rightarrow> DocumentListPage tx" where
  "document_list organization_id q =
     bind (of_res (check_timestamptz (df_created_from q))) (\<lambda>_.
     bind (of_res (check_timestamptz (df_created_to q))) (\<lambda>_.
     bind (query (\<lambda>d. filter (document_matches q) (with_current organization_id d))) (\<lambda>rows.
     bind (of_res (map_res projection_from_record (page (df_limit q) (df_offset q)
       (newest_first (\<lambda>(x, v). d_created_at x) (\<lambda>(x, v). DocumentId_value (d_id x)) rows)))) (\<lambda>items.
     ret \<lparr>dl_items = items, dl_total = length rows, dl_limit = df_limit q, dl_offset = df_offset q\<rparr>))))"

definition document_row_update :: "Document \<Rightarrow> Document \<Rightarrow> Document" where
  "document_row_update x r =
     r\<lparr>d_display_filename := d_display_filename x, d_source_type := d_source_type x,
       d_source_reference := d_source_reference x, d_status := d_status x,
       d_current_version_id := d_current_version_id x, d_archived_at := d_archived_at x,
       d_archived_by_user_id := d_archived_by_user_id x, d_updated_at := d_updated_at x,
       d_updated_by_user_id := d_updated_by_user_id x, d_lock_version := d_lock_version x\<rparr>"

definition persist_document_state :: "Document \<Rightarrow> unit tx" where
  "persist_document_state document =
     (let matched = row_matched d_organization_id d_id d_lock_version document in
      bind (of_res (check_int4 (d_lock_version document))) (\<lambda>_. flush
        (\<lambda>d. if list_ex matched (documents d) then first_violation (document_violations False document d) else None)
        (\<lambda>d. d\<lparr>documents := replace_where matched (document_row_update document) (documents d)\<rparr>)))"

definition document_archive_row :: "Document \<Rightarrow> Document tx" where
  "document_archive_row document = bind (persist_document_state document) (\<lambda>_. ret document)"

definition version_add :: "DocumentVersion \<Rightarrow> DocumentVersion tx" where
  "version_add version =
     bind (of_res (check_version_columns version)) (\<lambda>_.
     bind (on_integrity_error
       (flush (\<lambda>d. first_violation (version_violations version d))
         (\<lambda>d. d\<lparr>document_versions := document_versions d @ [version]\<rparr>))
       (\<lambda>c. raise (DuplicateDocumentContentError ''Document content is already registered for this tenant.''))) (\<lambda>_.
     of_res (version_from_record version)))"

definition version_key :: "DocumentVersion \<Rightarrow> DocumentId \<times> DocumentVersionId" where
  "version_key v = (dv_document_id v, dv_id v)"

definition version_record :: "uuid \<Rightarrow> DocumentId \<Rightarrow> DocumentVersionId \<Rightarrow> DocumentVersion option tx" where
  "version_record organization_id document_id version_id =
     bind (query (\<lambda>d. filter (\<lambda>v. dv_organization_id v = organization_id \<and>
       version_key v = (document_id, version_id)) (document_versions d)))
       (\<lambda>rows. of_res (scalar_one_or_none rows))"

definition version_get :: "uuid \<Rightarrow> DocumentId \<Rightarrow> DocumentVersionId \<Rightarrow> DocumentVersion option tx" where
  "version_get organization_id document_id version_id =
     bind (bind (query (\<lambda>d. filter (\<lambda>v. dv_organization_id v = organization_id \<and>
       version_key v = (document_id, version_id)) (document_versions d)))
       (\<lambda>rows. of_res (scalar_one_or_none rows))) (opt_row version_from_record)"

definition version_list :: "uuid \<Rightarrow> DocumentId \<Rightarrow> DocumentVersion list tx" where
  "version_list organization_id document_id =
     bind (query (\<lambda>d. sort_key dv_version_number
       (filter (\<lambda>v. dv_organization_id v = organization_id \<and> dv_document_id v = document_id) (document_versions d))))
       (\<lambda>rows. of_res (map_res version_from_record rows))"

definition artifact_list :: "uuid \<Rightarrow> DocumentId \<Rightarrow> DocumentArtifact list tx" where
  "artifact_list organization_id document_id =
     bind (query (\<lambda>d. newest_first da_created_at (\<lambda>a. DocumentArtifactId_value (da_id a))
       (filter (\<lambda>a. da_organization_id a = organization_id \<and> da_document_id a = document_id) (document_artifacts d))))
       (\<lambda>rows. of_res (map_res artifact_from_record rows))"

definition document_set_current_row :: "Document \<Rightarrow> DocumentVersion \<Rightarrow> Document tx" where
  "document_set_current_row document version =
     (if dv_organization_id version \<noteq> d_organization_id document \<or> dv_document_id version \<noteq> d_id document then
        raise (ValueError ''Current version must match document tenant and ID.'')
      else bind (persist_document_state document) (\<lambda>_. ret document))"

definition artifact_add :: "DocumentArtifact \<Rightarrow> DocumentArtifact tx" where
  "artifact_add artifact =
     bind (of_res (check_artifact_columns artifact)) (\<lambda>_.
     bind (flush (artifact_violation artifact)
       (\<lambda>d. d\<lparr>document_artifacts := document_artifacts d @ [artifact]\<rparr>)) (\<lambda>_.
     of_res (artifact_from_record artifact)))"

definition artifact_key :: "DocumentArtifact \<Rightarrow> DocumentId \<times> DocumentArtifactId" where
  "artifact_key a = (da_document_id a, da_id a)"

definition artifact_get :: "uuid \<Rightarrow> DocumentId \<Rightarrow> DocumentArtifactId \<Rightarrow> DocumentArtifact option tx" where
  "artifact_get organization_id document_id artifact_id =
     bind (bind (query (\<lambda>d. filter (\<lambda>a. da_organization_id a = organization_id \<and>
       artifact_key a = (document_id, artifact_id)) (document_artifacts d)))
       (\<lambda>rows. of_res (scalar_one_or_none rows))) (opt_row artifact_from_record)"

definition mark_version_storage_state ::
  "uuid \<Rightarrow> DocumentId \<Rightarrow> DocumentVersionId \<Rightarrow> DocumentStorageState \<Rightarrow> DocumentVersion tx" where
  "mark_version_storage_state organization_id document_id version_id storage_state =
     bind (version_record organization_id document_id version_id) (\<lambda>found.
     case found of
       None \<Rightarrow> raise (ValueError ''Document version does not exist.'')
     | Some r \<Rightarrow>
         bind (flush (\<lambda>d. None) (\<lambda>d. d\<lparr>document_versions :=
           replace_where (\<lambda>v. dv_id v = dv_id r) (\<lambda>v. v\<lparr>dv_storage_state := storage_state\<rparr>) (document_versions d)\<rparr>)) (\<lambda>_.
         of_res (version_from_record (r\<lparr>dv_storage_state := storage_state\<rparr>))))"

definition mark_version_stored :: "uuid \<Rightarrow> DocumentId \<Rightarrow> DocumentVersionId \<Rightarrow> DocumentVersion tx" where
  "mark_version_stored organization_id document_id version_id =
     mark_version_storage_state organization_id document_id version_id StorageStored"

definition mark_version_failed :: "uuid \<Rightarrow> DocumentId \<Rightarrow> DocumentVersionId \<Rightarrow> DocumentVersion tx" where
  "mark_version_failed organization_id document_id version_id =
     mark_version_storage_state organization_id document_id version_id StorageFailed"

section \<open>The idempotency repository\<close>

definition idempotency_record :: "uuid \<Rightarrow> string \<Rightarrow> UploadIdempotencyRecordModel option tx" where
  "idempotency_record organization_id idempotency_key =
     bind (query (\<lambda>d. filter (\<lambda>r. ui_organization_id r = organization_id \<and> ui_idempotency_key r = idempotency_key)
       (upload_idempotency d))) (\<lambda>rows. of_res (scalar_one_or_none rows))"

definition idempotency_required :: "uuid \<Rightarrow> string \<Rightarrow> UploadIdempotencyRecordModel tx" where
  "idempotency_required organization_id idempotency_key =
     bind (idempotency_record organization_id idempotency_key) (\<lambda>found.
     case found of
       None \<Rightarrow> raise (ValueError ''Upload idempotency record does not exist.'')
     | Some r \<Rightarrow> ret r)"

definition idempotency_get :: "uuid \<Rightarrow> string \<Rightarrow> UploadIdempotencyRecord option tx" where
  "idempotency_get organization_id idempotency_key =
     bind (idempotency_record organization_id idempotency_key) (opt_row idempotency_from_record)"

definition idempotency_reserve ::
  "env \<Rightarrow> uuid \<Rightarrow> string \<Rightarrow> datetime \<Rightarrow> datetime \<Rightarrow> UploadIdempotencyRecord tx" where
  "idempotency_reserve E organization_id idempotency_key now expires_at =
     bind (uuid4 E) (\<lambda>new_id.
     let r = \<lparr>ui_organization_id = organization_id, ui_idempotency_key = idempotency_key,
         ui_request_fingerprint = None, ui_status = IdemInProgress, ui_document_id = None,
         ui_document_version_id = None, ui_response_status = None, ui_outcome = None, ui_error_code = None,
         ui_retryable = False, ui_created_at = astimezone_utc now, ui_updated_at = astimezone_utc now,
         ui_expires_at = astimezone_utc expires_at, um_id = new_id\<rparr> in
     bind (of_res (check_idempotency_columns r)) (\<lambda>_.
     on_integrity_error
       (bind (flush (idempotency_violation True r) (\<lambda>d. d\<lparr>upload_idempotency := upload_idempotency d @ [r]\<rparr>)) (\<lambda>_.
        of_res (idempotency_from_record r)))
       (\<lambda>c. bind (idempotency_get organization_id idempotency_key) (\<lambda>existing.
         case existing of
           None \<Rightarrow> raise (IntegrityError c)
         | Some x \<Rightarrow> ret x))))"

text \<open>Attributes of a loaded row are changed and flushed.\<close>

definition idempotency_save ::
  "UploadIdempotencyRecordModel \<Rightarrow> UploadIdempotencyRecordModel \<Rightarrow> UploadIdempotencyRecord tx" where
  "idempotency_save r r' =
     bind (of_res (check_idempotency_columns r')) (\<lambda>_.
     bind (flush (idempotency_violation False r')
       (\<lambda>d. d\<lparr>upload_idempotency := replace_where (\<lambda>x. um_id x = um_id r) (\<lambda>_. r') (upload_idempotency d)\<rparr>)) (\<lambda>_.
     of_res (idempotency_from_record r')))"

definition idempotency_mark_in_progress ::
  "uuid \<Rightarrow> string \<Rightarrow> datetime \<Rightarrow> datetime \<Rightarrow> UploadIdempotencyRecord tx" where
  "idempotency_mark_in_progress organization_id idempotency_key now expires_at =
     bind (idempotency_required organization_id idempotency_key) (\<lambda>r.
     if ui_status r \<noteq> IdemFailed \<or> \<not> ui_retryable r then
       raise (ValueError ''Only retryable failed upload idempotency records can be retried.'')
     else idempotency_save r
       (r\<lparr>ui_status := IdemInProgress, ui_response_status := None, ui_outcome := None, ui_error_code := None,
          ui_retryable := False, ui_updated_at := astimezone_utc now, ui_expires_at := astimezone_utc expires_at\<rparr>))"

definition idempotency_finalize_fingerprint ::
  "uuid \<Rightarrow> string \<Rightarrow> string \<Rightarrow> datetime \<Rightarrow> UploadIdempotencyRecord tx" where
  "idempotency_finalize_fingerprint organization_id idempotency_key request_fingerprint now =
     bind (idempotency_required organization_id idempotency_key) (\<lambda>r.
     idempotency_save r (r\<lparr>ui_request_fingerprint := Some request_fingerprint, ui_updated_at := astimezone_utc now\<rparr>))"

definition idempotency_complete ::
  "uuid \<Rightarrow> string \<Rightarrow> string \<Rightarrow> DocumentId \<Rightarrow> DocumentVersionId \<Rightarrow> int \<Rightarrow> string \<Rightarrow> datetime \<Rightarrow> UploadIdempotencyRecord tx" where
  "idempotency_complete organization_id idempotency_key request_fingerprint document_id document_version_id
     response_status outcome now =
     bind (idempotency_required organization_id idempotency_key) (\<lambda>r.
     idempotency_save r
       (r\<lparr>ui_request_fingerprint := Some request_fingerprint, ui_status := IdemCompleted,
          ui_document_id := Some document_id, ui_document_version_id := Some document_version_id,
          ui_response_status := Some response_status, ui_outcome := Some outcome, ui_error_code := None,
          ui_retryable := False, ui_updated_at := astimezone_utc now\<rparr>))"

definition idempotency_fail ::
  "uuid \<Rightarrow> string \<Rightarrow> string option \<Rightarrow> string \<Rightarrow> int \<Rightarrow> bool \<Rightarrow> datetime \<Rightarrow> UploadIdempotencyRecord tx" where
  "idempotency_fail organization_id idempotency_key request_fingerprint error_code response_status retryable now =
     bind (idempotency_required organization_id idempotency_key) (\<lambda>r.
     idempotency_save r
       (r\<lparr>ui_request_fingerprint := request_fingerprint, ui_status := IdemFailed,
          ui_response_status := Some response_status, ui_error_code := Some error_code, ui_outcome := None,
          ui_retryable := retryable, ui_updated_at := astimezone_utc now\<rparr>))"

section \<open>The table invariant\<close>

text \<open>
  The tables as the repositories leave them. Keys are unique and no content hash occurs twice
  in a tenant. The versions of a document are numbered from one without a gap in the order in
  which they were added, and the last one is the document's current version. Versions and
  artifacts belong to a document of their tenant.
\<close>

definition versions_of :: "db \<Rightarrow> uuid \<Rightarrow> DocumentId \<Rightarrow> DocumentVersion list" where
  "versions_of d g i = filter (\<lambda>v. dv_organization_id v = g \<and> dv_document_id v = i) (document_versions d)"

definition document_ok :: "db \<Rightarrow> Document \<Rightarrow> bool" where
  "document_ok d x \<longleftrightarrow>
     document_from_record x = Inr x \<and> first_violation (document_violations False x d) = None \<and>
     (let vs = versions_of d (d_organization_id x) (d_id x) in
      vs \<noteq> [] \<and> map dv_version_number vs = [1..int (length vs)] \<and> dv_id (last vs) = d_current_version_id x)"

definition version_ok :: "db \<Rightarrow> DocumentVersion \<Rightarrow> bool" where
  "version_ok d v \<longleftrightarrow> version_from_record v = Inr v \<and> \<not> document_missing d (dv_organization_id v) (dv_document_id v)"

definition artifact_ok :: "db \<Rightarrow> DocumentArtifact \<Rightarrow> bool" where
  "artifact_ok d a \<longleftrightarrow> artifact_from_record a = Inr a \<and> \<not> document_missing d (da_organization_id a) (da_document_id a) \<and>
     pred_option (\<lambda>v. \<not> version_missing d (da_organization_id a) v) (da_document_version_id a)"

definition version_hash :: "DocumentVersion \<Rightarrow> uuid \<times> ContentHash" where
  "version_hash v = (dv_organization_id v, dv_content_hash v)"

definition document_tables :: "db \<Rightarrow> bool" where
  "document_tables d \<longleftrightarrow>
     distinct (map d_id (documents d)) \<and> distinct (map dv_id (document_versions d)) \<and>
     distinct (map da_id (document_artifacts d)) \<and> distinct (map version_hash (document_versions d)) \<and>
     (\<forall>x \<in> set (documents d). document_ok d x) \<and> (\<forall>v \<in> set (document_versions d). version_ok d v) \<and>
     (\<forall>a \<in> set (document_artifacts d). artifact_ok d a)"

abbreviation document_at :: "db \<Rightarrow> uuid \<Rightarrow> DocumentId \<Rightarrow> Document option" where
  "document_at d \<equiv> row_at d_organization_id d_id (documents d)"

abbreviation version_at :: "db \<Rightarrow> uuid \<Rightarrow> DocumentId \<times> DocumentVersionId \<Rightarrow> DocumentVersion option" where
  "version_at d \<equiv> row_at dv_organization_id version_key (document_versions d)"

abbreviation artifact_at :: "db \<Rightarrow> uuid \<Rightarrow> DocumentId \<times> DocumentArtifactId \<Rightarrow> DocumentArtifact option" where
  "artifact_at d \<equiv> row_at da_organization_id artifact_key (document_artifacts d)"

interpretation document_table: versioned_table documents "\<lambda>rs d. d\<lparr>documents := rs\<rparr>" d_organization_id d_id
  d_lock_version "\<lambda>x. (d_created_at x, d_created_by_user_id x)" document_row_update
  by unfold_locales (simp_all add: document_row_update_def)

lemma document_tablesD:
  assumes "document_tables d"
  shows "distinct (map d_id (documents d))" "distinct (map dv_id (document_versions d))"
    "distinct (map da_id (document_artifacts d))" "distinct (map version_hash (document_versions d))"
    "\<And>x. x \<in> set (documents d) \<Longrightarrow> document_ok d x" "\<And>v. v \<in> set (document_versions d) \<Longrightarrow> version_ok d v"
    "\<And>a. a \<in> set (document_artifacts d) \<Longrightarrow> artifact_ok d a"
  using assms by (simp_all add: document_tables_def)

lemma distinct_key: "distinct (map f rs) \<Longrightarrow> distinct (map (\<lambda>r. (g r, f r)) rs)"
  by (auto simp: distinct_map inj_on_def)

lemma version_keys: "document_tables d \<Longrightarrow> distinct (map version_key (document_versions d))"
  using distinct_key [OF document_tablesD(2), of d dv_document_id] by (simp add: version_key_def [abs_def])

lemma artifact_keys: "document_tables d \<Longrightarrow> distinct (map artifact_key (document_artifacts d))"
  using distinct_key [OF document_tablesD(3), of d da_document_id] by (simp add: artifact_key_def [abs_def])

section \<open>Reads\<close>

lemma document_get_for_update_eq: "document_get_for_update g i = document_get g i"
  by (simp add: document_get_for_update_def document_get_def)

lemma document_get_exact: "document_tables (working w) \<Longrightarrow> document_get g i w = (Inr (document_at (working w) g i), w)"
  unfolding document_get_def
  by (rule row_read_run) (auto simp: document_ok_def dest: document_tablesD)

lemma version_get_exact: "document_tables (working w) \<Longrightarrow>
    version_get g i j w = (Inr (version_at (working w) g (i, j)), w)"
  unfolding version_get_def
  by (rule row_read_run) (auto simp: version_ok_def dest: document_tablesD version_keys)

lemma artifact_get_exact: "document_tables (working w) \<Longrightarrow>
    artifact_get g i j w = (Inr (artifact_at (working w) g (i, j)), w)"
  unfolding artifact_get_def
  by (rule row_read_run) (auto simp: artifact_ok_def dest: document_tablesD artifact_keys)

lemma document_get_run: "document_tables d0 \<Longrightarrow>
    hoare C (\<lambda>d. d = d0) (document_get g i) (\<lambda>x d. x = document_at d0 g i \<and> d = d0)"
  by (rule hoare_exact) (auto dest: document_get_exact)

lemma version_get_run: "document_tables d0 \<Longrightarrow>
    hoare C (\<lambda>d. d = d0) (version_get g i j) (\<lambda>x d. x = version_at d0 g (i, j) \<and> d = d0)"
  by (rule hoare_exact) (auto dest: version_get_exact)

lemma artifact_get_run: "document_tables d0 \<Longrightarrow>
    hoare C (\<lambda>d. d = d0) (artifact_get g i j) (\<lambda>x d. x = artifact_at d0 g (i, j) \<and> d = d0)"
  by (rule hoare_exact) (auto dest: artifact_get_exact)

lemma readonly_document_reads [readonly_intros]:
  "readonly (document_get g i)" "readonly (document_get_for_update g i)" "readonly (document_find_by_hash g h)"
  "readonly (document_list g q)" "readonly (version_get g i j)" "readonly (version_list g i)"
  "readonly (artifact_get g i k)" "readonly (artifact_list g i)" "readonly (version_record g i j)"
  "readonly (idempotency_record g s)" "readonly (idempotency_required g s)" "readonly (idempotency_get g s)"
  unfolding document_get_def document_get_for_update_def document_find_by_hash_def document_list_def version_get_def
    version_list_def artifact_get_def artifact_list_def version_record_def idempotency_record_def
    idempotency_required_def idempotency_get_def opt_row_def
  by (intro readonly_intros)+

lemma scalar_found: "scalar_one_or_none xs = Inr (Some y) \<Longrightarrow> xs = [y]"
  by (auto simp: scalar_one_or_none_def split: list.splits)

lemma map_res_length: "map_res f xs = Inr ys \<Longrightarrow> length ys = length xs"
  by (induction xs arbitrary: ys) auto

text \<open>A document found by a content hash has a version with that hash.\<close>

lemma find_by_hash_found:
  assumes ok: "document_tables (working w)" and run: "document_find_by_hash g h w = (Inr (Some x), w')"
  shows "document_at (working w) g (d_id x) = Some x \<and>
    (\<exists>v \<in> set (versions_of (working w) g (d_id x)). dv_content_hash v = h \<and> dv_id v = d_current_version_id x)"
proof -
  let ?d = "working w"
  let ?rows = "map fst (filter (\<lambda>(x, v). dv_content_hash v = h) (with_current g ?d))"
  obtain y where y: "scalar_one_or_none ?rows = Inr (Some y)" and x: "document_from_record y = Inr x"
    using run by (auto simp: document_find_by_hash_def opt_row_def opt_res_eq_Inr bind_def eff_simps
        split: sum.splits option.splits)
  have "y \<in> set ?rows"
    unfolding scalar_found [OF y] by simp
  then obtain v where v: "y \<in> set (documents ?d)" "d_organization_id y = g" "v \<in> set (document_versions ?d)"
      "d_current_version_id y = dv_id v" "dv_organization_id v = g" "dv_content_hash v = h"
    by (auto simp: with_current_def)
  have yx: "y = x"
    using document_tablesD(5) [OF ok v(1)] x by (simp add: document_ok_def)
  define vs where "vs = versions_of ?d g (d_id y)"
  have vs: "vs \<noteq> []" "dv_id (last vs) = d_current_version_id y"
    using document_tablesD(5) [OF ok v(1)] v(2) by (auto simp: document_ok_def Let_def vs_def)
  then have "last vs \<in> set vs" by simp
  then have l: "last vs \<in> set (document_versions ?d)" "last vs \<in> set (versions_of ?d g (d_id y))"
    by (simp_all add: vs_def versions_of_def)
  then have "last vs = v"
    using distinct_mapD [OF document_tablesD(2) [OF ok] l(1) v(3)] vs(2) v(4) by simp
  then show ?thesis
    using l(2) v yx row_at_iff [OF document_tablesD(1) [OF ok]] vs(2) by auto
qed

lemma version_list_length:
  assumes ok: "document_tables d0"
  shows "hoare C (\<lambda>d. d = d0) (version_list g i) (\<lambda>x d. length x = length (versions_of d0 g i) \<and> d = d0)"
proof (rule hoareI)
  fix w x w'
  assume w: "C (committed w)" "working w = d0" and run: "version_list g i w = (Inr x, w')"
  have "map_res version_from_record (sort_key dv_version_number (versions_of d0 g i)) = Inr x" "w' = w"
    using run w by (auto simp: version_list_def bind_def eff_simps versions_of_def split: sum.splits)
  then show "C (committed w') \<and> length x = length (versions_of d0 g i) \<and> working w' = d0"
    using w map_res_length by fastforce
qed (use readonlyD [OF readonly_document_reads(6)] in metis)

section \<open>Writes\<close>

lemma document_violations_frame [simp]:
  "document_violations False x (d\<lparr>documents := y\<rparr>) = document_violations False x d"
  "document_violations False x (d\<lparr>document_versions := y1\<rparr>) = document_violations False x d"
  "document_violations False x (d\<lparr>document_artifacts := y2\<rparr>) = document_violations False x d"
  "document_violations False x (d\<lparr>upload_idempotency := y3\<rparr>) = document_violations False x d"
  "document_violations False x (d\<lparr>audit_events := z\<rparr>) = document_violations False x d"
  by (simp_all add: document_violations_def user_missing_def organization_missing_def)

lemma versions_of_frame [simp]:
  "versions_of (d\<lparr>documents := y\<rparr>) = versions_of d"
  "versions_of (d\<lparr>document_artifacts := y2\<rparr>) = versions_of d"
  "versions_of (d\<lparr>upload_idempotency := y3\<rparr>) = versions_of d"
  "versions_of (d\<lparr>audit_events := z\<rparr>) = versions_of d"
  by (simp_all add: versions_of_def fun_eq_iff)

lemma missing_frame [simp]:
  "document_missing (d\<lparr>document_versions := y1\<rparr>) = document_missing d"
  "document_missing (d\<lparr>document_artifacts := y2\<rparr>) = document_missing d"
  "document_missing (d\<lparr>upload_idempotency := y3\<rparr>) = document_missing d"
  "document_missing (d\<lparr>audit_events := z\<rparr>) = document_missing d"
  "version_missing (d\<lparr>documents := y\<rparr>) = version_missing d"
  "version_missing (d\<lparr>document_artifacts := y2\<rparr>) = version_missing d"
  "version_missing (d\<lparr>upload_idempotency := y3\<rparr>) = version_missing d"
  "version_missing (d\<lparr>audit_events := z\<rparr>) = version_missing d"
  by (simp_all add: document_missing_def version_missing_def fun_eq_iff)

lemma document_tables_frame [simp]:
  "document_tables (d\<lparr>audit_events := z\<rparr>) = document_tables d"
  "document_tables (d\<lparr>upload_idempotency := y\<rparr>) = document_tables d"
  by (simp_all add: document_tables_def document_ok_def version_ok_def artifact_ok_def)

lemma versions_of_append:
  "versions_of (d\<lparr>document_versions := document_versions d @ [v]\<rparr>) g i =
     versions_of d g i @ (if dv_organization_id v = g \<and> dv_document_id v = i then [v] else [])"
  by (simp add: versions_of_def)

text \<open>The tables with one document replaced and other versions.\<close>

lemma document_tables_replaced:
  fixes d0 :: db and vs :: "DocumentVersion list" and x x' :: Document
  defines "d' \<equiv> d0\<lparr>documents := map (\<lambda>s. if s = x then x' else s) (documents d0), document_versions := vs\<rparr>"
  assumes ok: "document_tables d0" and x: "document_at d0 (d_organization_id x') (d_id x') = Some x"
    and x': "document_ok d' x'"
    and vs: "distinct (map dv_id vs)" "distinct (map version_hash vs)"
      "\<And>v. v \<in> set vs \<Longrightarrow> version_from_record v = Inr v \<and> \<not> document_missing d0 (dv_organization_id v) (dv_document_id v)"
    and others: "\<And>g i. g \<noteq> d_organization_id x' \<or> i \<noteq> d_id x' \<Longrightarrow> versions_of d' g i = versions_of d0 g i"
    and kept: "\<And>g i. \<not> version_missing d0 g i \<Longrightarrow> \<not> version_missing d' g i"
  shows "document_tables d'"
proof -
  note ids = document_tablesD(1) [OF ok]
  have xin: "x \<in> set (documents d0)" "d_organization_id x = d_organization_id x'" "d_id x = d_id x'"
    using x row_at_iff [OF ids] by blast+
  have missing: "document_missing d' g i \<longleftrightarrow> document_missing d0 g i" for g i
  proof -
    have "(\<exists>y \<in> set (documents d'). d_organization_id y = g \<and> d_id y = i) \<longleftrightarrow>
        (\<exists>y \<in> set (documents d0). d_organization_id y = g \<and> d_id y = i)"
      using xin by (auto simp: d'_def)
    then show ?thesis by (simp add: document_missing_def)
  qed
  have "document_ok d' y" if y: "y \<in> set (documents d0)" "y \<noteq> x" for y
  proof -
    have "d_id y \<noteq> d_id x'"
      using distinct_mapD [OF ids y(1) xin(1)] y(2) xin(3) by auto
    then show ?thesis
      using document_tablesD(5) [OF ok y(1)] others by (simp add: document_ok_def d'_def)
  qed
  moreover have "map d_id (documents d') = map d_id (documents d0)"
    using row_replaced_keys [OF ids x] by (simp add: d'_def)
  moreover have "artifact_ok d' a" if "a \<in> set (document_artifacts d0)" for a
  proof -
    have "pred_option (\<lambda>v. \<not> version_missing d' (da_organization_id a) v) (da_document_version_id a)"
      using document_tablesD(7) [OF ok that] kept by (cases "da_document_version_id a") (auto simp: artifact_ok_def)
    then show ?thesis
      using document_tablesD(7) [OF ok that] missing by (simp add: artifact_ok_def)
  qed
  moreover have "version_ok d' v" if "v \<in> set vs" for v
    using vs(3) [OF that] missing by (simp add: version_ok_def)
  ultimately show ?thesis
    using ids vs x' document_tablesD(3) [OF ok] unfolding document_tables_def
    by (auto simp: d'_def simp del: map_map)
qed

lemma document_tables_changed:
  assumes ok: "document_tables d0" and x: "document_at d0 (d_organization_id x') (d_id x') = Some x"
    and x': "document_from_record x' = Inr x'" "first_violation (document_violations False x' d0) = None"
      "d_current_version_id x' = d_current_version_id x"
  shows "document_tables (d0\<lparr>documents := map (\<lambda>s. if s = x then x' else s) (documents d0)\<rparr>)"
proof -
  have xin: "x \<in> set (documents d0)" "d_organization_id x = d_organization_id x'" "d_id x = d_id x'"
    using x row_at_iff [OF document_tablesD(1) [OF ok]] by blast+
  have "document_ok (d0\<lparr>documents := map (\<lambda>s. if s = x then x' else s) (documents d0)\<rparr>) x'"
    using document_tablesD(5) [OF ok xin(1)] xin x' by (simp add: document_ok_def)
  then show ?thesis
    using document_tables_replaced [OF ok x, of "document_versions d0"] document_tablesD(2,4,6) [OF ok]
    by (simp add: version_ok_def)
qed

lemma document_tables_new_version:
  fixes d0 :: db and v :: DocumentVersion and x x' :: Document
  defines "d' \<equiv> d0\<lparr>documents := map (\<lambda>s. if s = x then x' else s) (documents d0),
    document_versions := document_versions d0 @ [v]\<rparr>"
  assumes ok: "document_tables d0" and x: "document_at d0 (d_organization_id x') (d_id x') = Some x"
    and x': "document_from_record x' = Inr x'" "first_violation (document_violations False x' d0) = None"
      "d_current_version_id x' = dv_id v"
    and v: "version_from_record v = Inr v" "first_violation (version_violations v d0) = None"
      "dv_organization_id v = d_organization_id x'" "dv_document_id v = d_id x'"
      "dv_version_number v = int (length (versions_of d0 (d_organization_id x') (d_id x'))) + 1"
  shows "document_tables d'"
proof -
  have xin: "x \<in> set (documents d0)" "d_organization_id x = d_organization_id x'" "d_id x = d_id x'"
    using x row_at_iff [OF document_tablesD(1) [OF ok]] by blast+
  have vs: "versions_of d' g i = versions_of d0 g i @
      (if dv_organization_id v = g \<and> dv_document_id v = i then [v] else [])" for g i
    by (simp add: d'_def versions_of_def)
  have fresh: "dv_id v \<notin> set (map dv_id (document_versions d0))" "version_hash v \<notin> set (map version_hash (document_versions d0))"
    using v(2) by (auto simp: version_violations_def version_hash_def split: if_splits)
  have "map dv_version_number (versions_of d0 (d_organization_id x') (d_id x')) =
      [1..int (length (versions_of d0 (d_organization_id x') (d_id x')))]"
    using document_tablesD(5) [OF ok xin(1)] xin by (simp add: document_ok_def Let_def)
  then have "document_ok d' x'"
    using x' v vs [of "d_organization_id x'" "d_id x'"]
    by (simp add: document_ok_def Let_def upto_rec2) (simp add: d'_def)
  moreover have "\<not> document_missing d0 (dv_organization_id v) (dv_document_id v)"
    using v xin by (auto simp: document_missing_def)
  moreover have "\<not> version_missing d0 g i \<Longrightarrow> \<not> version_missing d' g i" for g i
    by (auto simp: version_missing_def d'_def)
  ultimately show ?thesis
    unfolding d'_def
    by (intro document_tables_replaced [OF ok x])
      (use fresh v vs document_tablesD(2,4,6) [OF ok] in \<open>auto simp: version_ok_def d'_def\<close>)
qed

lemma document_tables_new_document:
  fixes d0 :: db and v :: DocumentVersion and x :: Document
  defines "d' \<equiv> d0\<lparr>documents := documents d0 @ [x], document_versions := document_versions d0 @ [v]\<rparr>"
  assumes ok: "document_tables d0"
    and x: "document_from_record x = Inr x" "first_violation (document_violations True x d0) = None"
      "d_current_version_id x = dv_id v"
    and v: "version_from_record v = Inr v" "first_violation (version_violations v d0) = None"
      "dv_organization_id v = d_organization_id x" "dv_document_id v = d_id x" "dv_version_number v = 1"
  shows "document_tables d'"
proof -
  have new: "d_id x \<notin> set (map d_id (documents d0))"
    using x(2) by (auto simp: document_violations_def split: if_splits)
  have fresh: "dv_id v \<notin> set (map dv_id (document_versions d0))" "version_hash v \<notin> set (map version_hash (document_versions d0))"
    using v(2) by (auto simp: version_violations_def version_hash_def split: if_splits)
  have vs: "versions_of d' g i = versions_of d0 g i @
      (if d_organization_id x = g \<and> d_id x = i then [v] else [])" for g i
    using v(3,4) by (simp add: d'_def versions_of_def)
  have "dv_document_id u \<noteq> d_id x" if uin: "u \<in> set (document_versions d0)" for u
  proof
    assume u: "dv_document_id u = d_id x"
    obtain y where "y \<in> set (documents d0)" "d_id y = dv_document_id u"
      using document_tablesD(6) [OF ok uin] by (auto simp: version_ok_def document_missing_def)
    then show False using u new by (metis image_eqI set_map)
  qed
  then have none: "versions_of d0 g (d_id x) = []" for g
    by (simp add: versions_of_def filter_empty_conv)
  have missing: "\<not> document_missing d' g i" if "\<not> document_missing d0 g i" for g i
    using that by (auto simp: document_missing_def d'_def)
  have vmissing: "\<not> version_missing d' g i" if "\<not> version_missing d0 g i" for g i
    using that by (auto simp: version_missing_def d'_def)
  have viol: "document_violations False y d' = document_violations False y d0" for y
    by (simp add: d'_def)
  have "first_violation (document_violations False x d0) = None"
    using x(2) by (auto simp: document_violations_def split: if_splits)
  then have "document_ok d' x"
    using x v vs [of "d_organization_id x" "d_id x"] none viol by (simp add: document_ok_def Let_def)
  moreover have "document_ok d' y" if y: "y \<in> set (documents d0)" for y
    using document_tablesD(5) [OF ok y] new y vs [of "d_organization_id y" "d_id y"] viol
    by (auto simp: document_ok_def Let_def)
  moreover have "version_ok d' v"
    using v by (auto simp: version_ok_def document_missing_def d'_def)
  moreover have "version_ok d' u" if "u \<in> set (document_versions d0)" for u
    using document_tablesD(6) [OF ok that] missing by (simp add: version_ok_def)
  moreover have "artifact_ok d' a" if "a \<in> set (document_artifacts d0)" for a
    using document_tablesD(7) [OF ok that] missing vmissing
    by (cases "da_document_version_id a") (auto simp: artifact_ok_def)
  ultimately show ?thesis
    using document_tablesD(1-4) [OF ok] new fresh unfolding document_tables_def by (auto simp: d'_def)
qed

lemma document_tables_new_artifact:
  assumes ok: "document_tables d0" and a: "artifact_from_record a = Inr a" "artifact_violation a d0 = None"
  shows "document_tables (d0\<lparr>document_artifacts := document_artifacts d0 @ [a]\<rparr>)"
proof -
  let ?d = "d0\<lparr>document_artifacts := document_artifacts d0 @ [a]\<rparr>"
  have "artifact_ok ?d a" "da_id a \<notin> set (map da_id (document_artifacts d0))"
    using a by (auto simp: artifact_ok_def artifact_violation_def split: if_splits)
  moreover have "document_ok ?d = document_ok d0" "version_ok ?d = version_ok d0" "artifact_ok ?d = artifact_ok d0"
    by (simp_all add: fun_eq_iff document_ok_def version_ok_def artifact_ok_def)
  ultimately show ?thesis
    using ok unfolding document_tables_def by auto
qed

text \<open>What the write operations do when they return.\<close>

lemma first_violation_append:
  "first_violation (as @ bs) = None \<longleftrightarrow> first_violation as = None \<and> first_violation bs = None"
  by (induction as) auto

lemma hoare_insert_or_raise:
  "hoare C (\<lambda>d. d = d0) (bind (on_integrity_error (flush v f) (\<lambda>c. raise e)) (\<lambda>_. of_res r))
     (\<lambda>y d. (r = Inr y \<and> v d0 = None) \<and> d = f d0)"
proof (cases "v d0")
  case None
  then show ?thesis
    by (intro hoareI) (auto simp: on_integrity_error_def try_except_def flush_def bind_def eff_simps split: sum.splits)
next
  case (Some c)
  then show ?thesis
    by (intro hoareI) (auto simp: on_integrity_error_def try_except_def flush_def bind_def eff_simps)
qed

lemma document_add_run:
  "hoare C (\<lambda>d. d = d0) (document_add x v)
     (\<lambda>y d. (document_from_record x = Inr y \<and> first_violation (document_violations True x d0) = None \<and>
         first_violation (version_violations v d0) = None) \<and>
       d = d0\<lparr>documents := documents d0 @ [x], document_versions := document_versions d0 @ [v]\<rparr>)"
  unfolding document_add_def
  by (rule hoare_bind_of_res, rule hoare_conseq [OF hoare_insert_or_raise]) (auto simp: first_violation_append)

lemma version_add_run:
  "hoare C (\<lambda>d. d = d0) (version_add v)
     (\<lambda>y d. (version_from_record v = Inr y \<and> first_violation (version_violations v d0) = None) \<and>
       d = d0\<lparr>document_versions := document_versions d0 @ [v]\<rparr>)"
  unfolding version_add_def
  by (rule hoare_bind_of_res, rule hoare_conseq [OF hoare_insert_or_raise]) auto

lemma artifact_add_run:
  "hoare C (\<lambda>d. d = d0) (artifact_add a)
     (\<lambda>y d. (artifact_from_record a = Inr y \<and> artifact_violation a d0 = None) \<and>
       d = d0\<lparr>document_artifacts := document_artifacts d0 @ [a]\<rparr>)"
  unfolding artifact_add_def
  by (rule hoare_bind_of_res, rule hoare_insert_res)

lemma persist_run:
  assumes "distinct (map d_id (documents d0))" and "document_at d0 (d_organization_id n) (d_id n) = Some x"
    and "d_lock_version n = d_lock_version x + 1"
    and "d_created_at n = d_created_at x" "d_created_by_user_id n = d_created_by_user_id x"
  shows "hoare C (\<lambda>d. d = d0) (persist_document_state n)
    (\<lambda>_ d. first_violation (document_violations False n d0) = None \<and>
      d = d0\<lparr>documents := map (\<lambda>s. if s = x then n else s) (documents d0)\<rparr>)"
proof -
  have m: "list_ex (row_matched d_organization_id d_id d_lock_version n) (documents d0)"
    using document_table.update_matches assms(2,3) .
  show ?thesis
    unfolding persist_document_state_def Let_def
    by (rule hoare_bind_of_res, rule hoare_conseq [OF document_table.hoare_update [OF assms(1-3)]]) (use assms(4,5) m in auto)
qed

end
