(* ===== verification/Object_Storage.thy ===== *)
theory Object_Storage
  imports Session_Lifecycle Tenant_Store
begin

text \<open>
  The object storage adapter \<^verbatim>\<open>infrastructure/storage/s3.py\<close>. The S3 client is a parameter: what
  a call gives is a function of all calls made so far, the last one included. A call that
  raises gives the text of its exception. No operation touches the database.
\<close>

section \<open>The client\<close>

record head_response =
  hr_content_length :: "int option"
  hr_etag :: "string option"
  hr_content_type :: "string option"

record s3_client =
  s3_put_object :: "s3_call list \<Rightarrow> string + unit"
  s3_copy_object :: "s3_call list \<Rightarrow> string + unit"
  s3_delete_object :: "s3_call list \<Rightarrow> string + unit"
  s3_head_object :: "s3_call list \<Rightarrow> string + head_response"
  s3_presigned_url :: "s3_call list \<Rightarrow> string + string"

definition s3_do :: "s3_call \<Rightarrow> (s3_call list \<Rightarrow> 'a) \<Rightarrow> 'a tx" where
  "s3_do call answer = (\<lambda>w. (Inr (answer (s3_calls w @ [call])), w\<lparr>s3_calls := s3_calls w @ [call]\<rparr>))"

text \<open>A call in a \<^verbatim>\<open>try\<close> block whose handler raises another exception.\<close>

definition or_raise :: "exn \<Rightarrow> string + 'a \<Rightarrow> 'a tx" where
  "or_raise e r = (case r of Inl text \<Rightarrow> raise e | Inr x \<Rightarrow> ret x)"

section \<open>The adapter\<close>

record StoredObjectMetadata =
  so_key :: StorageObjectKey
  so_byte_size :: int
  so_etag :: "string option"
  so_media_type :: "string option"

record PutTempObjectRequest =
  pt_key :: StorageObjectKey
  pt_body :: string
  pt_media_type :: string

record PromoteObjectRequest =
  po_source_key :: StorageObjectKey
  po_destination_key :: StorageObjectKey
  po_media_type :: "string option"

record DownloadUrl =
  du_url :: string
  du_expires_at :: datetime

definition require_prefix :: "StorageObjectKey \<Rightarrow> string \<Rightarrow> unit res" where
  "require_prefix key prefix =
     raise_if (\<not> startswith (StorageObjectKey_value key) prefix)
       (ObjectStorageError (''Object key must use the '' @ [CHR 0x27] @ prefix @ [CHR 0x27] @ '' prefix.''))"

definition require_final_key :: "StorageObjectKey \<Rightarrow> unit res" where
  "require_final_key key =
     raise_if (\<not> (startswith (StorageObjectKey_value key) ''documents/'' \<or>
                  startswith (StorageObjectKey_value key) ''artifacts/''))
       (ObjectStorageError ''Final object key must be a document or artifact key.'')"

definition looks_missing :: "string \<Rightarrow> bool" where
  "looks_missing text \<longleftrightarrow> contains text ''404'' \<or> contains text ''NoSuchKey'' \<or> contains text ''NotFound''"

definition s3_head :: "s3_client \<Rightarrow> StorageObjectKey \<Rightarrow> StoredObjectMetadata option tx" where
  "s3_head S key =
     bind (s3_do (HeadObject (StorageObjectKey_value key)) (s3_head_object S)) (\<lambda>r.
     case r of
       Inl text \<Rightarrow>
         (if looks_missing text then ret None
          else raise (ObjectStorageError ''Object metadata lookup failed.''))
     | Inr response \<Rightarrow> ret (Some
         \<lparr>so_key = key, so_byte_size = (case hr_content_length response of None \<Rightarrow> 0 | Some n \<Rightarrow> n),
          so_etag = hr_etag response, so_media_type = hr_content_type response\<rparr>))"

definition put_temp_stream :: "s3_client \<Rightarrow> PutTempObjectRequest \<Rightarrow> StoredObjectMetadata tx" where
  "put_temp_stream S request =
     bind (of_res (require_prefix (pt_key request) ''tmp/'')) (\<lambda>_.
     bind (s3_do (PutObject (StorageObjectKey_value (pt_key request)) (pt_body request) (pt_media_type request))
       (s3_put_object S)) (\<lambda>r.
     bind (or_raise (ObjectStorageError ''Temporary object write failed.'') r) (\<lambda>_.
     bind (s3_head S (pt_key request)) (\<lambda>found.
     ret (case found of
         Some m \<Rightarrow> m
       | None \<Rightarrow> \<lparr>so_key = pt_key request, so_byte_size = 0, so_etag = None,
                  so_media_type = Some (pt_media_type request)\<rparr>)))))"

definition promote_temp_object :: "s3_client \<Rightarrow> PromoteObjectRequest \<Rightarrow> StoredObjectMetadata tx" where
  "promote_temp_object S request =
     bind (of_res (require_prefix (po_source_key request) ''tmp/'')) (\<lambda>_.
     bind (of_res (require_final_key (po_destination_key request))) (\<lambda>_.
     bind (s3_do (CopyObject (StorageObjectKey_value (po_source_key request))
       (StorageObjectKey_value (po_destination_key request)) (po_media_type request)) (s3_copy_object S)) (\<lambda>r.
     bind (or_raise (ObjectPromotionError ''Object promotion failed.'') r) (\<lambda>_.
     bind (s3_do (DeleteObject (StorageObjectKey_value (po_source_key request))) (s3_delete_object S)) (\<lambda>r.
     bind (or_raise (ObjectPromotionError ''Object promotion failed.'') r) (\<lambda>_.
     bind (s3_head S (po_destination_key request)) (\<lambda>metadata.
     case metadata of
       None \<Rightarrow> raise (ObjectPromotionError ''Promoted object was not found.'')
     | Some m \<Rightarrow> ret m)))))))"

definition s3_delete :: "s3_client \<Rightarrow> StorageObjectKey \<Rightarrow> unit tx" where
  "s3_delete S key =
     bind (s3_do (DeleteObject (StorageObjectKey_value key)) (s3_delete_object S)) (\<lambda>r.
     or_raise (ObjectStorageError ''Object deletion failed.'') r)"

definition s3_download_url :: "env \<Rightarrow> s3_client \<Rightarrow> StorageObjectKey \<Rightarrow> int \<Rightarrow> datetime \<Rightarrow> DownloadUrl tx" where
  "s3_download_url E S key expires_in_seconds now =
     (if expires_in_seconds \<le> 0 \<or> 3600 < expires_in_seconds then
        raise (ObjectStorageError ''Download URL expiry must be between 1 and 3600 seconds.'')
      else
        bind (s3_do (PresignGet (StorageObjectKey_value key) expires_in_seconds) (s3_presigned_url S)) (\<lambda>r.
        bind (or_raise (ObjectStorageError ''Download URL creation failed.'') r) (\<lambda>url.
        bind (if tz_aware now then ret now else clock_now E) (\<lambda>timestamp.
        ret \<lparr>du_url = url,
              du_expires_at = plus_timedelta (astimezone_utc timestamp) (expires_in_seconds * 1000000)\<rparr>))))"

section \<open>No effect on the tables\<close>

lemma readonly_s3 [readonly_intros]: "readonly (s3_do c f)" "readonly (or_raise e r)"
  by (auto simp: readonly_def s3_do_def or_raise_def eff_simps split: sum.split)

lemma readonly_sum [readonly_intros]:
  "(\<And>x. readonly (f x)) \<Longrightarrow> (\<And>x. readonly (g x)) \<Longrightarrow> readonly (case r of Inl x \<Rightarrow> f x | Inr x \<Rightarrow> g x)"
  by (cases r) simp_all

lemma readonly_storage [readonly_intros]:
  "readonly (s3_head S k)" "readonly (put_temp_stream S p)" "readonly (promote_temp_object S q)"
  "readonly (s3_delete S k)" "readonly (s3_download_url E S k n t)"
  unfolding s3_head_def put_temp_stream_def promote_temp_object_def s3_delete_def s3_download_url_def
  by (intro readonly_intros)+

section \<open>Which objects a computation touches\<close>

text \<open>
  \<open>calls_only P m\<close>: whatever the outcome of \<open>m\<close>, the client has been called only with calls that
  satisfy \<open>P\<close>, after those made before. The rules follow the text of a handler.
\<close>

named_theorems calls_intros \<open>rules for the calls of the S3 client\<close>

definition calls_after :: "s3_call list \<Rightarrow> (s3_call \<Rightarrow> bool) \<Rightarrow> world \<Rightarrow> bool" where
  "calls_after old P w \<longleftrightarrow> (\<exists>cs. s3_calls w = old @ cs \<and> (\<forall>c \<in> set cs. P c))"

definition calls_only :: "(s3_call \<Rightarrow> bool) \<Rightarrow> 'a tx \<Rightarrow> bool" where
  "calls_only P m \<longleftrightarrow> (\<forall>old. preserves (calls_after old P) m)"

lemma calls_after_simps [simp]:
  "calls_after old P (w\<lparr>now_reads := n\<rparr>) = calls_after old P w" "calls_after old P (w\<lparr>uuid_reads := n\<rparr>) = calls_after old P w"
  "calls_after old P (w\<lparr>working := d\<rparr>) = calls_after old P w" "calls_after old P (w\<lparr>committed := d\<rparr>) = calls_after old P w"
  "calls_after old P (w\<lparr>stream_reads := n\<rparr>) = calls_after old P w"
  by (simp_all add: calls_after_def)

lemma calls_onlyD:
  assumes "calls_only P m" and "m w = (r, w')"
  shows "\<exists>cs. s3_calls w' = s3_calls w @ cs \<and> (\<forall>c \<in> set cs. P c)"
proof -
  have "preserves (calls_after (s3_calls w) P) m"
    using assms(1) by (simp add: calls_only_def)
  moreover have "calls_after (s3_calls w) P w"
    by (simp add: calls_after_def)
  ultimately have "calls_after (s3_calls w) P w'"
    using assms(2) by (rule preservesD)
  then show ?thesis by (simp add: calls_after_def)
qed

lemma calls_only_basic [calls_intros]:
  "calls_only P (ret x)" "calls_only P (raise e)" "calls_only P (of_res r)" "calls_only P (query g)"
  "calls_only P (clock_now E)" "calls_only P (uuid4 E)" "calls_only P commit" "calls_only P rollback"
  "calls_only P (flush v f)" "calls_only P (execute f)" "calls_only P (or_raise e s)"
  by (auto simp: calls_only_def preserves_def or_raise_def eff_simps flush_def split: option.split sum.split)

lemma calls_only_do: "P c \<Longrightarrow> calls_only P (s3_do c f)"
  unfolding calls_only_def preserves_def s3_do_def calls_after_def
proof (intro allI impI; elim exE conjE)
  fix old w cs
  assume "P c" and "s3_calls w = old @ cs" and "\<forall>c \<in> set cs. P c"
  then show "\<exists>cs. s3_calls (snd (Inr (f (s3_calls w @ [c])), w\<lparr>s3_calls := s3_calls w @ [c]\<rparr>)) = old @ cs \<and> (\<forall>c \<in> set cs. P c)"
    by (intro exI [of _ "cs @ [c]"]) auto
qed

lemma calls_only_bind [calls_intros]:
  "calls_only P m \<Longrightarrow> (\<And>x. calls_only P (k x)) \<Longrightarrow> calls_only P (bind m k)"
  unfolding calls_only_def by (intro allI preserves_bind) blast+

lemma calls_only_bind_returns:
  "returns m R \<Longrightarrow> calls_only P m \<Longrightarrow> (\<And>x. R x \<Longrightarrow> calls_only P (k x)) \<Longrightarrow> calls_only P (bind m k)"
  unfolding calls_only_def using preserves_bind_returns by blast

lemma calls_only_bind_of_res:
  "(\<And>x. r = Inr x \<Longrightarrow> calls_only P (k x)) \<Longrightarrow> calls_only P (bind (of_res r) k)"
  unfolding calls_only_def by (intro allI preserves_bind_of_res) blast

lemma calls_only_try [calls_intros]:
  "calls_only P m \<Longrightarrow> (\<And>e. calls_only P (h e)) \<Longrightarrow> calls_only P (try_except m h)"
  unfolding calls_only_def by (intro allI preserves_try) blast+

lemma calls_only_cases [calls_intros]:
  "(c \<Longrightarrow> calls_only P m) \<Longrightarrow> (\<not> c \<Longrightarrow> calls_only P n) \<Longrightarrow> calls_only P (if c then m else n)"
  "(x = None \<Longrightarrow> calls_only P m) \<Longrightarrow> (\<And>y. x = Some y \<Longrightarrow> calls_only P (f y)) \<Longrightarrow>
     calls_only P (case x of None \<Rightarrow> m | Some y \<Rightarrow> f y)"
  "(\<And>a b. p = (a, b) \<Longrightarrow> calls_only P (g a b)) \<Longrightarrow> calls_only P (case p of (a, b) \<Rightarrow> g a b)"
  "(\<And>a. s = Inl a \<Longrightarrow> calls_only P (h a)) \<Longrightarrow> (\<And>b. s = Inr b \<Longrightarrow> calls_only P (k b)) \<Longrightarrow>
     calls_only P (case s of Inl a \<Rightarrow> h a | Inr b \<Rightarrow> k b)"
  "(\<And>c. e = IntegrityError c \<Longrightarrow> calls_only P (i c)) \<Longrightarrow> calls_only P m \<Longrightarrow>
     calls_only P (case e of IntegrityError c \<Rightarrow> i c | _ \<Rightarrow> m)"
  by (auto split: option.split prod.split sum.split exn.split)

lemma calls_only_events [calls_intros]:
  "calls_only P (audit_record E ev)" "calls_only P (tenant_event n E ty tn i c t m)"
  unfolding audit_record_def tenant_event_def by (intro calls_intros)+

lemma calls_only_session: "calls_only P m \<Longrightarrow> calls_only P (session_scope m)"
  unfolding calls_only_def preserves_def session_scope_def by (auto split: prod.split) (metis snd_conv)

lemma calls_only_head: "P (HeadObject (StorageObjectKey_value k)) \<Longrightarrow> calls_only P (s3_head S k)"
  unfolding s3_head_def by (intro calls_intros calls_only_do)

lemma calls_only_storage:
  "P (DeleteObject (StorageObjectKey_value k)) \<Longrightarrow> calls_only P (s3_delete S k)"
  "(0 < n \<Longrightarrow> n \<le> 3600 \<Longrightarrow> P (PresignGet (StorageObjectKey_value k) n)) \<Longrightarrow> calls_only P (s3_download_url E S k n t)"
  unfolding s3_delete_def s3_download_url_def by (intro calls_intros calls_only_do; simp)+

lemma calls_only_put:
  assumes "startswith (StorageObjectKey_value (pt_key q)) ''tmp/'' \<Longrightarrow>
      P (PutObject (StorageObjectKey_value (pt_key q)) (pt_body q) (pt_media_type q)) \<and>
      P (HeadObject (StorageObjectKey_value (pt_key q)))"
  shows "calls_only P (put_temp_stream S q)"
  unfolding put_temp_stream_def
  by (rule calls_only_bind_of_res) (use assms in \<open>intro calls_intros calls_only_do calls_only_head; simp add: require_prefix_def\<close>)

lemma calls_only_promote:
  assumes "P (CopyObject (StorageObjectKey_value (po_source_key q)) (StorageObjectKey_value (po_destination_key q)) (po_media_type q))"
    and "P (DeleteObject (StorageObjectKey_value (po_source_key q)))"
    and "P (HeadObject (StorageObjectKey_value (po_destination_key q)))"
  shows "calls_only P (promote_temp_object S q)"
  unfolding promote_temp_object_def
  by (intro calls_intros calls_only_do calls_only_head assms)

end
