(* ===== verification/Upload_Validation.thy ===== *)
theory Upload_Validation
  imports Storage_Keys
begin

text \<open>
  Upload intake, \<^verbatim>\<open>application/documents/upload_validation.py\<close>: the idempotency key, the file
  name and media type policy, the read loop that bounds and hashes the bytes, the request
  fingerprint and the content checks of the six supported types.

  A byte is a \<^typ>\<open>char\<close>. The upload stream is a parameter: \<open>rd s n\<close> is what the \<open>n\<close>-th call
  of \<^verbatim>\<open>read(s)\<close> gives, and \<^const>\<open>None\<close> when it raises. SHA-256 is a parameter too, a function of the
  bytes fed to it, and so is the archive reader \<^verbatim>\<open>zipfile.ZipFile(...).infolist()\<close>.
\<close>

section \<open>Limits and types\<close>

definition MAX_UPLOAD_BYTES :: int where "MAX_UPLOAD_BYTES = 50 * 1024 * 1024"
definition UPLOAD_CHUNK_SIZE :: int where "UPLOAD_CHUNK_SIZE = 1024 * 1024"
definition VALIDATION_PREFIX_BYTES :: nat where "VALIDATION_PREFIX_BYTES = 8192"
definition DOCX_MAX_ENTRIES :: nat where "DOCX_MAX_ENTRIES = 256"
definition DOCX_MAX_UNCOMPRESSED_BYTES :: int where "DOCX_MAX_UNCOMPRESSED_BYTES = 50 * 1024 * 1024"
definition DOCX_MAX_COMPRESSION_RATIO :: int where "DOCX_MAX_COMPRESSION_RATIO = 100"

lemmas upload_limits = MAX_UPLOAD_BYTES_def UPLOAD_CHUNK_SIZE_def VALIDATION_PREFIX_BYTES_def
  DOCX_MAX_ENTRIES_def DOCX_MAX_UNCOMPRESSED_BYTES_def DOCX_MAX_COMPRESSION_RATIO_def

datatype SupportedUploadType = PDF | PNG | JPEG | TXT | HTML | DOCX

record UploadTypePolicy =
  up_upload_type :: SupportedUploadType
  up_extensions :: "string list"
  up_media_type :: string

record NormalizedUploadMetadata =
  nm_filename :: string
  nm_extension :: string
  nm_media_type :: string
  nm_upload_type :: SupportedUploadType

record StreamedUpload =
  su_body :: string
  su_content_hash :: ContentHash
  su_byte_size :: int
  su_prefix :: string
  su_suffix :: string

definition POLICIES :: "UploadTypePolicy list" where
  "POLICIES =
     [\<lparr>up_upload_type = PDF, up_extensions = [''.pdf''], up_media_type = ''application/pdf''\<rparr>,
      \<lparr>up_upload_type = PNG, up_extensions = [''.png''], up_media_type = ''image/png''\<rparr>,
      \<lparr>up_upload_type = JPEG, up_extensions = [''.jpg'', ''.jpeg''], up_media_type = ''image/jpeg''\<rparr>,
      \<lparr>up_upload_type = TXT, up_extensions = [''.txt''], up_media_type = ''text/plain''\<rparr>,
      \<lparr>up_upload_type = HTML, up_extensions = [''.html'', ''.htm''], up_media_type = ''text/html''\<rparr>,
      \<lparr>up_upload_type = DOCX, up_extensions = [''.docx''],
       up_media_type = ''application/vnd.openxmlformats-officedocument.wordprocessingml.document''\<rparr>]"

section \<open>Idempotency keys\<close>

definition idempotency_char :: "char \<Rightarrow> bool" where
  "idempotency_char c \<longleftrightarrow> is_alnum c \<or> c \<in> set ''._:-''"

definition validate_idempotency_key :: "string \<Rightarrow> string res" where
  "validate_idempotency_key value =
     (let normalized = strip value in
      if 1 \<le> length normalized \<and> length normalized \<le> 128 \<and> list_all idempotency_char normalized
      then Inr normalized
      else Inl (InvalidIdempotencyKeyError
        ''Idempotency-Key must be non-empty and contain only safe printable characters.''))"

section \<open>File names and media types\<close>

definition normalize_upload_filename :: "(string \<Rightarrow> string) \<Rightarrow> string option \<Rightarrow> string res" where
  "normalize_upload_filename nf filename =
     (case filename of
        None \<Rightarrow> Inl (UploadValidationError ''invalid_filename'' ''Filename is required.'')
      | Some f \<Rightarrow>
          if CHR 0x00 \<in> set f \<or> CHR 0x0D \<in> set f \<or> CHR 0x0A \<in> set f then
            Inl (UploadValidationError ''invalid_filename'' ''Filename contains unsafe characters.'')
          else
            (let n1 = replace_char (CHR 0x5C) (CHR ''/'') (nf f);
                 n2 = strip (rsplit_last (CHR ''/'') n1);
                 n3 = filter (\<lambda>c. \<not> is_control c) n2;
                 normalized = join '' '' (split_ws n3)
             in if normalized \<in> {[], ''.'', ''..''} then
                  Inl (UploadValidationError ''invalid_filename'' ''Filename is required.'')
                else if 255 < length normalized then
                  Inl (UploadValidationError ''invalid_filename'' ''Filename is too long.'')
                else Inr normalized))"

definition upload_extension :: "string \<Rightarrow> string res" where
  "upload_extension filename =
     (if CHR ''.'' \<notin> set filename then
        Inl (UploadValidationError ''unsupported_file_type'' ''File extension is not supported.'')
      else
        (let extension = ''.'' @ casefold (rsplit_last (CHR ''.'') filename) in
         if extension = ''.'' then
           Inl (UploadValidationError ''unsupported_file_type'' ''File extension is not supported.'')
         else Inr extension))"

definition policy_for_extension :: "string \<Rightarrow> UploadTypePolicy res" where
  "policy_for_extension extension =
     (case find (\<lambda>p. extension \<in> set (up_extensions p)) POLICIES of
        Some p \<Rightarrow> Inr p
      | None \<Rightarrow> Inl (UploadValidationError ''unsupported_file_type'' ''File extension is not supported.''))"

definition normalize_upload_metadata_nfc ::
  "(string \<Rightarrow> string) \<Rightarrow> string option \<Rightarrow> string option \<Rightarrow> NormalizedUploadMetadata res" where
  "normalize_upload_metadata_nfc nf filename declared_media_type =
     bind_res (normalize_upload_filename nf filename) (\<lambda>safe_filename.
     bind_res (upload_extension safe_filename) (\<lambda>extension.
     bind_res (policy_for_extension extension) (\<lambda>policy.
     case normalize_media_type (case declared_media_type of None \<Rightarrow> [] | Some m \<Rightarrow> m) of
       Inl e \<Rightarrow> Inl (UploadValidationError ''unsupported_file_type'' ''Declared media type is not supported.'')
     | Inr media_type \<Rightarrow>
         if media_type \<noteq> up_media_type policy then
           Inl (UploadValidationError ''media_type_mismatch''
             ''Declared media type does not match the filename extension.'')
         else Inr \<lparr>nm_filename = safe_filename, nm_extension = extension, nm_media_type = media_type,
                   nm_upload_type = up_upload_type policy\<rparr>)))"

definition normalize_upload_metadata :: "string option \<Rightarrow> string option \<Rightarrow> NormalizedUploadMetadata res" where
  "normalize_upload_metadata = normalize_upload_metadata_nfc nfc"

section \<open>The read loop\<close>

record stream_state =
  ss_digest :: string
  ss_byte_size :: int
  ss_body :: string
  ss_prefix :: string
  ss_suffix :: string

definition take_last :: "nat \<Rightarrow> 'a list \<Rightarrow> 'a list" where
  "take_last n xs = drop (length xs - n) xs"

text \<open>What one chunk does to the hash input, the body and the samples.\<close>

definition add_chunk :: "string \<Rightarrow> stream_state \<Rightarrow> stream_state" where
  "add_chunk chunk s =
     s\<lparr>ss_digest := ss_digest s @ chunk, ss_byte_size := ss_byte_size s + int (length chunk),
       ss_body := ss_body s @ chunk,
       ss_prefix := (if length (ss_prefix s) < VALIDATION_PREFIX_BYTES
         then ss_prefix s @ take (VALIDATION_PREFIX_BYTES - length (ss_prefix s)) chunk else ss_prefix s),
       ss_suffix := take_last 16 (ss_suffix s @ chunk)\<rparr>"

text \<open>
  The loop gives the state after the last chunk, or the exception, and the number of calls of
  \<^verbatim>\<open>read\<close>. A chunk that is not empty uses up bytes of the limit, so the loop ends on every
  stream, also on one that never ends.
\<close>

function stream_loop ::
  "(int \<Rightarrow> nat \<Rightarrow> string option) \<Rightarrow> int \<Rightarrow> int \<Rightarrow> nat \<Rightarrow> stream_state \<Rightarrow> stream_state res \<times> nat" where
  "stream_loop rd max_bytes chunk_size n s =
     (case rd chunk_size n of
        None \<Rightarrow> (Inl (UploadValidationError ''stream_read_failed'' ''Uploaded file could not be read.''), Suc n)
      | Some chunk \<Rightarrow>
          if chunk = [] then (Inr s, Suc n)
          else if max_bytes < ss_byte_size s + int (length chunk) then
            (Inl (UploadValidationError ''file_too_large'' ''Uploaded file is too large.''), Suc n)
          else stream_loop rd max_bytes chunk_size (Suc n) (add_chunk chunk s))"
  by pat_completeness auto

termination stream_loop
  by (relation "measure (\<lambda>(rd, max_bytes, chunk_size, n, s). nat (max_bytes + 1 - ss_byte_size s))")
    (auto simp: add_chunk_def)

declare stream_loop.simps [simp del]

definition stream_start :: stream_state where
  "stream_start = \<lparr>ss_digest = [], ss_byte_size = 0, ss_body = [], ss_prefix = [], ss_suffix = []\<rparr>"

definition stream_upload ::
  "(string \<Rightarrow> string) \<Rightarrow> (int \<Rightarrow> nat \<Rightarrow> string option) \<Rightarrow> int \<Rightarrow> int \<Rightarrow> nat \<Rightarrow> StreamedUpload res \<times> nat" where
  "stream_upload sha256 rd max_bytes chunk_size n =
     (case stream_loop rd max_bytes chunk_size n stream_start of
        (Inl e, k) \<Rightarrow> (Inl e, k)
      | (Inr s, k) \<Rightarrow>
          (bind_res (raise_if (ss_byte_size s = 0)
             (UploadValidationError ''empty_file'' ''Uploaded file must not be empty.'')) (\<lambda>_.
           bind_res (ContentHash_post_init (sha256 (ss_digest s))) (\<lambda>content_hash.
           Inr \<lparr>su_body = ss_body s, su_content_hash = content_hash, su_byte_size = ss_byte_size s,
                su_prefix = ss_prefix s, su_suffix = ss_suffix s\<rparr>)), k))"

section \<open>UTF-8\<close>

text \<open>Strict decoding to code points: no overlong forms, no surrogates, nothing above U+10FFFF.\<close>

definition is_cont :: "char \<Rightarrow> bool" where
  "is_cont c \<longleftrightarrow> 128 \<le> ord c \<and> ord c < 192"

definition cont :: "char \<Rightarrow> nat" where
  "cont c = ord c - 128"

fun utf8_decode :: "string \<Rightarrow> nat list option" where
  "utf8_decode [] = Some []"
| "utf8_decode (a # s) =
     (if ord a < 128 then map_option (Cons (ord a)) (utf8_decode s)
      else if 194 \<le> ord a \<and> ord a < 224 then
        (case s of
           b # s' \<Rightarrow>
             if is_cont b then map_option (Cons ((ord a - 192) * 64 + cont b)) (utf8_decode s') else None
         | _ \<Rightarrow> None)
      else if 224 \<le> ord a \<and> ord a < 240 then
        (case s of
           b # c # s' \<Rightarrow>
             if is_cont b \<and> is_cont c \<and> (ord a = 224 \<longrightarrow> 160 \<le> ord b) \<and> (ord a = 237 \<longrightarrow> ord b < 160)
             then map_option (Cons ((ord a - 224) * 4096 + cont b * 64 + cont c)) (utf8_decode s') else None
         | _ \<Rightarrow> None)
      else if 240 \<le> ord a \<and> ord a < 245 then
        (case s of
           b # c # d # s' \<Rightarrow>
             if is_cont b \<and> is_cont c \<and> is_cont d \<and> (ord a = 240 \<longrightarrow> 144 \<le> ord b) \<and> (ord a = 244 \<longrightarrow> ord b < 144)
             then map_option (Cons ((ord a - 240) * 262144 + cont b * 4096 + cont c * 64 + cont d)) (utf8_decode s')
             else None
         | _ \<Rightarrow> None)
      else None)"

definition utf8_encode :: "string \<Rightarrow> string" where
  "utf8_encode s = concat (map (\<lambda>c. if ord c < 128 then [c]
     else [char_of (192 + ord c div 64), char_of (128 + ord c mod 64)]) s)"

definition int_str :: "int \<Rightarrow> string" where
  "int_str i = (if i < 0 then ''-'' @ nat_str (nat (- i)) else nat_str (nat i))"

definition fingerprint_material :: "ContentHash \<Rightarrow> string \<Rightarrow> string \<Rightarrow> int \<Rightarrow> string" where
  "fingerprint_material content_hash filename media_type byte_size =
     ''sha256='' @ ContentHash_value content_hash @ '';name='' @ filename @
     '';type='' @ media_type @ '';size='' @ int_str byte_size"

definition request_fingerprint ::
  "(string \<Rightarrow> string) \<Rightarrow> ContentHash \<Rightarrow> string \<Rightarrow> string \<Rightarrow> int \<Rightarrow> string" where
  "request_fingerprint sha256 content_hash filename media_type byte_size =
     sha256 (utf8_encode (fingerprint_material content_hash filename media_type byte_size))"

section \<open>Content checks\<close>

definition validate_pdf :: "string \<Rightarrow> unit res" where
  "validate_pdf prefix =
     bind_res (raise_if (\<not> startswith prefix ''%PDF-'')
       (UploadValidationError ''invalid_file_signature'' ''PDF signature is invalid.'')) (\<lambda>_.
     raise_if (length prefix < 8 \<or> take 3 (drop 5 prefix) \<notin>
         {''1.0'', ''1.1'', ''1.2'', ''1.3'', ''1.4'', ''1.5'', ''1.6'', ''1.7'', ''2.0''})
       (UploadValidationError ''malformed_file'' ''PDF header is malformed.''))"

definition validate_png :: "string \<Rightarrow> unit res" where
  "validate_png prefix =
     raise_if (\<not> startswith prefix
         [CHR 0x89, CHR ''P'', CHR ''N'', CHR ''G'', CHR 0x0D, CHR 0x0A, CHR 0x1A, CHR 0x0A])
       (UploadValidationError ''invalid_file_signature'' ''PNG signature is invalid.'')"

definition validate_jpeg :: "string \<Rightarrow> string \<Rightarrow> unit res" where
  "validate_jpeg prefix suffix =
     bind_res (raise_if (\<not> startswith prefix [CHR 0xFF, CHR 0xD8])
       (UploadValidationError ''invalid_file_signature'' ''JPEG signature is invalid.'')) (\<lambda>_.
     raise_if (\<not> endswith suffix [CHR 0xFF, CHR 0xD9])
       (UploadValidationError ''malformed_file'' ''JPEG appears truncated.''))"

text \<open>
  The text is searched for two ASCII words without regard to case. Case folding turns no
  other letter into one of theirs at a place where they could match, so folding the ASCII
  letters is enough.
\<close>

definition fold_ascii :: "nat \<Rightarrow> nat" where
  "fold_ascii n = (if 65 \<le> n \<and> n \<le> 90 then n + 32 else n)"

fun sublist_at :: "nat list \<Rightarrow> nat list \<Rightarrow> bool" where
  "sublist_at [] pat \<longleftrightarrow> pat = []"
| "sublist_at (c # cs) pat \<longleftrightarrow> take (length pat) (c # cs) = pat \<or> sublist_at cs pat"

definition validate_text :: "string \<Rightarrow> bool \<Rightarrow> unit res" where
  "validate_text data expect_html =
     bind_res (raise_if (CHR 0x00 \<in> set data)
       (UploadValidationError ''malformed_file'' ''Text upload contains null bytes.'')) (\<lambda>_.
     case utf8_decode data of
       None \<Rightarrow> Inl (UploadValidationError ''malformed_file'' ''Text upload must be valid UTF-8.'')
     | Some t \<Rightarrow>
         (let lowered = map fold_ascii t in
          raise_if (expect_html \<and> \<not> sublist_at lowered (map ord ''<html'') \<and>
              \<not> sublist_at lowered (map ord ''<!doctype html''))
            (UploadValidationError ''malformed_file'' ''HTML upload is not structurally plausible.'')))"

record ZipInfo =
  z_filename :: string
  z_file_size :: int
  z_compress_size :: int
  z_flag_bits :: int

definition validate_zip_entry :: "ZipInfo \<Rightarrow> unit res" where
  "validate_zip_entry entry =
     (let filename = replace_char (CHR 0x5C) (CHR ''/'') (z_filename entry) in
      bind_res (raise_if (startswith filename ''/'' \<or> startswith filename ''../'' \<or> contains filename ''/../'')
        (UploadValidationError ''malformed_file'' ''DOCX entry path is unsafe.'')) (\<lambda>_.
      raise_if (odd (z_flag_bits entry))
        (UploadValidationError ''malformed_file'' ''Encrypted DOCX files are not supported.'')))"

fun sum_zip_entries :: "ZipInfo list \<Rightarrow> int \<Rightarrow> int \<Rightarrow> (int \<times> int) res" where
  "sum_zip_entries [] total_uncompressed total_compressed = Inr (total_uncompressed, total_compressed)"
| "sum_zip_entries (entry # entries) total_uncompressed total_compressed =
     bind_res (validate_zip_entry entry) (\<lambda>_.
     sum_zip_entries entries (total_uncompressed + z_file_size entry)
       (total_compressed + max (z_compress_size entry) 1))"

text \<open>
  The ratio test divides floats. By then the first total is at most 50 MiB, so a quotient
  above 100 is above it by more than rounding, and the test is the comparison of integers.
\<close>

definition check_docx_entries :: "ZipInfo list \<Rightarrow> unit res" where
  "check_docx_entries entries =
     bind_res (raise_if (DOCX_MAX_ENTRIES < length entries)
       (UploadValidationError ''malformed_file'' ''DOCX contains too many entries.'')) (\<lambda>_.
     let names = map z_filename entries in
     bind_res (raise_if (''[Content_Types].xml'' \<notin> set names \<or> ''word/document.xml'' \<notin> set names)
       (UploadValidationError ''malformed_file'' ''DOCX required entries are missing.'')) (\<lambda>_.
     bind_res (sum_zip_entries entries 0 0) (\<lambda>(total_uncompressed, total_compressed).
     bind_res (raise_if (DOCX_MAX_UNCOMPRESSED_BYTES < total_uncompressed)
       (UploadValidationError ''malformed_file'' ''DOCX is too large after decompression.'')) (\<lambda>_.
     raise_if (DOCX_MAX_COMPRESSION_RATIO * total_compressed < total_uncompressed)
       (UploadValidationError ''malformed_file'' ''DOCX compression ratio is suspicious.'')))))"

definition validate_docx :: "(string \<Rightarrow> ZipInfo list res) \<Rightarrow> string \<Rightarrow> unit res" where
  "validate_docx zip_infolist data =
     bind_res (raise_if (\<not> startswith data [CHR ''P'', CHR ''K'', CHR 0x03, CHR 0x04])
       (UploadValidationError ''invalid_file_signature'' ''DOCX ZIP signature is invalid.'')) (\<lambda>_.
     case bind_res (zip_infolist data) check_docx_entries of
       Inl (BadZipFile m) \<Rightarrow> Inl (UploadValidationError ''malformed_file'' ''DOCX archive is malformed.'')
     | r \<Rightarrow> r)"

definition validate_streamed_content ::
  "(string \<Rightarrow> ZipInfo list res) \<Rightarrow> NormalizedUploadMetadata \<Rightarrow> StreamedUpload \<Rightarrow> unit res" where
  "validate_streamed_content zip_infolist metadata upload =
     (case nm_upload_type metadata of
        PDF \<Rightarrow> validate_pdf (su_prefix upload)
      | PNG \<Rightarrow> validate_png (su_prefix upload)
      | JPEG \<Rightarrow> validate_jpeg (su_prefix upload) (su_suffix upload)
      | TXT \<Rightarrow> validate_text (su_body upload) False
      | HTML \<Rightarrow> validate_text (su_body upload) True
      | DOCX \<Rightarrow> validate_docx zip_infolist (su_body upload))"

section \<open>The read loop computes samples of the content\<close>

text \<open>The stream delivers the given chunks from its \<open>n\<close>-th read on, then its end.\<close>

fun delivers :: "(int \<Rightarrow> nat \<Rightarrow> string option) \<Rightarrow> int \<Rightarrow> nat \<Rightarrow> string list \<Rightarrow> bool" where
  "delivers rd sz n [] \<longleftrightarrow> rd sz n = Some []"
| "delivers rd sz n (c # cs) \<longleftrightarrow> rd sz n = Some c \<and> c \<noteq> [] \<and> delivers rd sz (Suc n) cs"

definition state_of :: "string \<Rightarrow> stream_state" where
  "state_of data = \<lparr>ss_digest = data, ss_byte_size = int (length data), ss_body = data,
     ss_prefix = take VALIDATION_PREFIX_BYTES data, ss_suffix = take_last 16 data\<rparr>"

lemma take_last_append: "take_last n (take_last n xs @ ys) = take_last n (xs @ ys)"
  by (cases "n \<le> length xs") (auto simp: take_last_def drop_append add.commute)

lemma add_chunk_state: "add_chunk c (state_of data) = state_of (data @ c)"
  by (auto simp: add_chunk_def state_of_def take_last_append take_append)

lemma stream_start_state: "stream_start = state_of []"
  by (simp add: stream_start_def state_of_def take_last_def)

lemma stream_loop_delivers:
  assumes "delivers rd sz n cs"
  shows "int (length (data @ concat cs)) \<le> max_bytes \<Longrightarrow>
      stream_loop rd max_bytes sz n (state_of data) = (Inr (state_of (data @ concat cs)), n + length cs + 1)"
    and "max_bytes < int (length (data @ concat cs)) \<Longrightarrow> cs \<noteq> [] \<Longrightarrow>
      fst (stream_loop rd max_bytes sz n (state_of data)) =
        Inl (UploadValidationError ''file_too_large'' ''Uploaded file is too large.'')"
  using assms
proof (induction cs arbitrary: n data)
  case Nil
  {
    case 1
    then show ?case by (simp add: stream_loop.simps)
  next
    case 2
    then show ?case by simp
  }
next
  case (Cons c cs)
  have s: "ss_byte_size (state_of d) = int (length d)" for d by (simp add: state_of_def)
  {
    case 1
    then have "\<not> max_bytes < int (length data) + int (length c)" by simp
    then have "stream_loop rd max_bytes sz n (state_of data) =
        stream_loop rd max_bytes sz (Suc n) (state_of (data @ c))"
      using 1 by (simp add: stream_loop.simps [of rd max_bytes sz n] s add_chunk_state)
    then show ?case
      using Cons.IH(1) [of "data @ c" "Suc n"] 1 by simp
  next
    case 2
    show ?case
    proof (cases "max_bytes < int (length data) + int (length c)")
      case True
      then show ?thesis
        using 2 by (simp add: stream_loop.simps [of rd max_bytes sz n] s)
    next
      case False
      then have "cs \<noteq> []" using 2(1) by (cases cs) auto
      moreover have "stream_loop rd max_bytes sz n (state_of data) =
          stream_loop rd max_bytes sz (Suc n) (state_of (data @ c))"
        using 2 False by (simp add: stream_loop.simps [of rd max_bytes sz n] s add_chunk_state)
      ultimately show ?thesis
        using Cons.IH(2) [of "data @ c" "Suc n"] 2 by simp
    qed
  }
qed

text \<open>What the upload of a given content is, without chunks.\<close>

definition upload_of :: "(string \<Rightarrow> string) \<Rightarrow> int \<Rightarrow> string \<Rightarrow> StreamedUpload res" where
  "upload_of sha256 max_bytes data =
     (if data = [] then Inl (UploadValidationError ''empty_file'' ''Uploaded file must not be empty.'')
      else if max_bytes < int (length data) then
        Inl (UploadValidationError ''file_too_large'' ''Uploaded file is too large.'')
      else Inr \<lparr>su_body = data, su_content_hash = ContentHash (sha256 data), su_byte_size = int (length data),
                su_prefix = take 8192 data, su_suffix = take_last 16 data\<rparr>)"

lemma delivers_empty: "delivers rd sz n cs \<Longrightarrow> concat cs = [] \<longleftrightarrow> cs = []"
  by (cases cs) auto

lemma is_hex_lower: "is_hex c \<Longrightarrow> lower_char c = c"
  by (auto simp: is_hex_def lower_char_def)

lemma sha256_hex_hash: "sha256_hex h \<Longrightarrow> ContentHash_post_init h = Inr (ContentHash h)"
proof -
  assume h: "sha256_hex h"
  then have "lower h = h"
    by (auto simp: sha256_hex_def list_all_iff lower_def is_hex_lower intro: map_idI)
  then show ?thesis using h by (simp add: ContentHash_post_init_def)
qed

section \<open>Every stream is read a bounded number of times\<close>

lemma stream_loop_reads:
  "0 \<le> ss_byte_size s \<Longrightarrow> ss_byte_size s \<le> max_bytes \<Longrightarrow>
     snd (stream_loop rd max_bytes sz n s) \<le> n + nat (max_bytes - ss_byte_size s) + 1"
proof (induction rd max_bytes sz n s rule: stream_loop.induct)
  case (1 rd max_bytes sz n s)
  show ?case
  proof (cases "rd sz n")
    case None
    then show ?thesis by (simp add: stream_loop.simps)
  next
    case (Some c)
    show ?thesis
    proof (cases "c = [] \<or> max_bytes < ss_byte_size s + int (length c)")
      case True
      then show ?thesis using Some by (auto simp: stream_loop.simps)
    next
      case False
      have a: "ss_byte_size (add_chunk c s) = ss_byte_size s + int (length c)"
        by (simp add: add_chunk_def)
      have c: "0 < length c" using False by simp
      have "snd (stream_loop rd max_bytes sz (Suc n) (add_chunk c s)) \<le>
          Suc n + nat (max_bytes - ss_byte_size (add_chunk c s)) + 1"
        by (rule "1.IH" [OF Some]) (use False "1.prems" a in auto)
      moreover have "stream_loop rd max_bytes sz n s = stream_loop rd max_bytes sz (Suc n) (add_chunk c s)"
        using False Some by (simp add: stream_loop.simps [of rd max_bytes sz n])
      moreover have "nat (max_bytes - (ss_byte_size s + int (length c))) + 1 \<le> nat (max_bytes - ss_byte_size s)"
        using c False by linarith
      ultimately show ?thesis
        using a by simp
    qed
  qed
qed

lemma stream_loop_body:
  "ss_byte_size s \<le> max_bytes \<Longrightarrow> ss_byte_size s = int (length (ss_body s)) \<Longrightarrow>
     fst (stream_loop rd max_bytes sz n s) = Inr s' \<Longrightarrow>
     ss_byte_size s' = int (length (ss_body s')) \<and> ss_byte_size s' \<le> max_bytes"
proof (induction rd max_bytes sz n s rule: stream_loop.induct)
  case (1 rd max_bytes sz n s)
  then show ?case
    by (simp add: stream_loop.simps [of rd max_bytes sz n] add_chunk_def split: option.splits if_splits)
qed

section \<open>The fingerprint\<close>

lemma digit_char_ord: "n < 10 \<Longrightarrow> ord (digit_char n) = 48 + n"
  by (simp add: digit_char_def)

lemma digit_char_inj: "a < 10 \<Longrightarrow> b < 10 \<Longrightarrow> digit_char a = digit_char b \<Longrightarrow> a = b"
  by (metis digit_char_ord add_left_cancel)

lemma nat_str_digits: "c \<in> set (nat_str n) \<Longrightarrow> 48 \<le> ord c \<and> ord c \<le> 57"
proof (induction n rule: nat_str.induct)
  case (1 n)
  then show ?case
    by (auto simp: nat_str.simps [of n] digit_char_ord split: if_splits)
qed

lemma nat_str_nonempty: "nat_str n \<noteq> []"
  by (simp add: nat_str.simps [of n])

lemma nat_str_inj: "nat_str a = nat_str b \<Longrightarrow> a = b"
proof (induction a arbitrary: b rule: nat_str.induct)
  case (1 a)
  show ?case
  proof (cases "a < 10")
    case True
    then show ?thesis
      using "1.prems" nat_str_nonempty [of "b div 10"]
      by (auto simp: nat_str.simps [of a] nat_str.simps [of b] dest: digit_char_inj split: if_splits)
  next
    case False
    then have "\<not> b < 10"
      using "1.prems" nat_str_nonempty [of "a div 10"] by (auto simp: nat_str.simps [of a] nat_str.simps [of b])
    then have "nat_str (a div 10) = nat_str (b div 10)" "digit_char (a mod 10) = digit_char (b mod 10)"
      using "1.prems" False by (simp_all add: nat_str.simps [of a] nat_str.simps [of b])
    then have "a div 10 = b div 10" "a mod 10 = b mod 10"
      using "1.IH" [OF False] digit_char_inj by auto
    then show ?thesis
      by (metis div_mult_mod_eq)
  qed
qed

lemma rsplit_last_append:
  assumes "d \<notin> set t"
  shows "rsplit_last d (s @ d # t) = t"
proof -
  have "takeWhile (\<lambda>c. c \<noteq> d) (rev t @ d # rev s) = rev t"
    by (subst takeWhile_append2) (use assms in auto)
  then show ?thesis by (simp add: rsplit_last_def)
qed

lemma last_field_eq:
  fixes d :: char
  assumes "s @ d # t = s' @ d # t'" and "d \<notin> set t" and "d \<notin> set t'"
  shows "s = s' \<and> t = t'"
proof -
  have "t = t'"
    using rsplit_last_append [OF assms(2), of s] rsplit_last_append [OF assms(3), of s'] assms(1) by simp
  then show ?thesis using assms(1) by simp
qed

lemma fingerprint_material_inj:
  assumes "fingerprint_material h f m i = fingerprint_material h' f' m' i'"
    and "sha256_hex (ContentHash_value h)" "sha256_hex (ContentHash_value h')"
    and "CHR '';'' \<notin> set m" "CHR '';'' \<notin> set m'" and "0 \<le> i" "0 \<le> i'"
  shows "h = h' \<and> f = f' \<and> m = m' \<and> i = i'"
proof -
  have digits: "CHR '';'' \<notin> set (nat_str n)" for n
    using nat_str_digits [of "CHR '';''" n] by auto
  define a where "a = ''sha256='' @ ContentHash_value h @ '';name='' @ f"
  define a' where "a' = ''sha256='' @ ContentHash_value h' @ '';name='' @ f'"
  define n where "n = ''size='' @ nat_str (nat i)"
  define n' where "n' = ''size='' @ nat_str (nat i')"
  define t where "t = ''type='' @ m"
  define t' where "t' = ''type='' @ m'"
  have free: "CHR '';'' \<notin> set n" "CHR '';'' \<notin> set n'" "CHR '';'' \<notin> set t" "CHR '';'' \<notin> set t'"
    using digits assms(4,5) by (simp_all add: n_def n'_def t_def t'_def)
  have "(a @ CHR '';'' # t) @ CHR '';'' # n = (a' @ CHR '';'' # t') @ CHR '';'' # n'"
    using assms(1,6,7)
    by (simp add: fingerprint_material_def int_str_def a_def a'_def n_def n'_def t_def t'_def)
  from last_field_eq [OF this free(1,2)] have n: "n = n'" and "a @ CHR '';'' # t = a' @ CHR '';'' # t'"
    by blast+
  from last_field_eq [OF this(2) free(3,4)] have t: "t = t'" and a: "a = a'"
    by blast+
  have "nat i = nat i'"
    by (rule nat_str_inj) (use n in \<open>simp add: n_def n'_def\<close>)
  then have i: "i = i'" and m: "m = m'"
    using t assms(6,7) by (simp_all add: t_def t'_def)
  have "length (ContentHash_value h) = length (ContentHash_value h')"
    using assms(2,3) by (simp add: sha256_hex_def)
  then have "ContentHash_value h = ContentHash_value h'" "f = f'"
    using a by (auto simp: a_def a'_def)
  then show ?thesis
    using i m by (simp add: ContentHash.expand)
qed

lemma ord_bound: "ord c < 256"
  by (metis nat_of_char_less_256)

lemma utf8_roundtrip_step:
  "\<not> ord c < 128 \<Longrightarrow> utf8_decode (char_of (192 + ord c div 64) # char_of (128 + ord c mod 64) # s) =
     map_option (Cons (ord c)) (utf8_decode s)"
proof -
  assume c: "\<not> ord c < 128"
  have "2 \<le> ord c div 64" "ord c div 64 < 4"
    using c ord_bound [of c] by linarith+
  then have b: "ord c div 64 \<in> {2, 3}" by auto
  have o: "ord (char_of (192 + ord c div 64)) = 192 + ord c div 64"
      "ord (char_of (128 + ord c mod 64)) = 128 + ord c mod 64"
    using b ord_bound [of c] by (auto simp: of_char_of)
  then show ?thesis
    using b by (auto simp: is_cont_def cont_def)
qed

lemma utf8_decode_encode: "utf8_decode (utf8_encode s) = Some (map ord s)"
proof (induction s)
  case (Cons c s)
  then show ?case
    by (cases "ord c < 128") (simp_all add: utf8_encode_def utf8_roundtrip_step del: utf8_decode.simps(2), simp)
qed (simp add: utf8_encode_def)

lemma utf8_encode_inj: "utf8_encode s = utf8_encode t \<Longrightarrow> s = t"
proof -
  assume "utf8_encode s = utf8_encode t"
  then have "map ord s = map ord t"
    using utf8_decode_encode [of s] utf8_decode_encode [of t] by simp
  then show ?thesis
    by (rule map_injective) (auto intro: injI)
qed

section \<open>Accepted metadata\<close>

lemma normalize_upload_filename_domain:
  "normalize_upload_filename nf f = Inr g \<Longrightarrow> safe_filename g"
proof -
  assume g: "normalize_upload_filename nf f = Inr g"
  then obtain h where h: "f = Some h"
    by (cases f) (simp_all add: normalize_upload_filename_def)
  have "normalize_original_filename (nf h) = Inr g"
    using g unfolding h
    by (simp add: normalize_upload_filename_def normalize_original_filename_def normalize_original_filename_nfc_def Let_def
        document_limits split: if_splits)
  then show ?thesis by (rule normalize_original_filename_safe)
qed

lemma policy_found: "policy_for_extension x = Inr p \<Longrightarrow> p \<in> set POLICIES \<and> x \<in> set (up_extensions p)"
  by (auto simp: policy_for_extension_def find_Some_iff split: option.splits)

text \<open>The media type of each supported type.\<close>

fun media_type_of :: "SupportedUploadType \<Rightarrow> string" where
  "media_type_of PDF = ''application/pdf''"
| "media_type_of PNG = ''image/png''"
| "media_type_of JPEG = ''image/jpeg''"
| "media_type_of TXT = ''text/plain''"
| "media_type_of HTML = ''text/html''"
| "media_type_of DOCX = ''application/vnd.openxmlformats-officedocument.wordprocessingml.document''"

lemma policy_media_type: "p \<in> set POLICIES \<Longrightarrow> up_media_type p = media_type_of (up_upload_type p)"
  by (auto simp: POLICIES_def)

lemma normalize_upload_metadata_cases:
  assumes "normalize_upload_metadata_nfc nf f d = Inr m"
  obtains p where "normalize_upload_filename nf f = Inr (nm_filename m)" "upload_extension (nm_filename m) = Inr (nm_extension m)"
    "p \<in> set POLICIES" "nm_extension m \<in> set (up_extensions p)" "nm_upload_type m = up_upload_type p"
    "nm_media_type m = up_media_type p"
    "normalize_media_type (case d of None \<Rightarrow> [] | Some x \<Rightarrow> x) = Inr (nm_media_type m)"
proof -
  obtain x y p where 1: "normalize_upload_filename nf f = Inr x" "upload_extension x = Inr y" "policy_for_extension y = Inr p"
    and m: "(case normalize_media_type (case d of None \<Rightarrow> [] | Some m \<Rightarrow> m) of
       Inl e \<Rightarrow> Inl (UploadValidationError ''unsupported_file_type'' ''Declared media type is not supported.'')
     | Inr media_type \<Rightarrow>
         if media_type \<noteq> up_media_type p then
           Inl (UploadValidationError ''media_type_mismatch''
             ''Declared media type does not match the filename extension.'')
         else Inr \<lparr>nm_filename = x, nm_extension = y, nm_media_type = media_type,
                   nm_upload_type = up_upload_type p\<rparr>) = Inr m"
    using assms unfolding normalize_upload_metadata_nfc_def by (simp only: bind_res_eq_Inr) blast
  from m obtain t where t: "normalize_media_type (case d of None \<Rightarrow> [] | Some m \<Rightarrow> m) = Inr t" "t = up_media_type p"
      "m = \<lparr>nm_filename = x, nm_extension = y, nm_media_type = t, nm_upload_type = up_upload_type p\<rparr>"
    by (auto split: sum.splits if_splits)
  show thesis
    by (rule that [of p]) (use 1 t policy_found [OF 1(3)] in simp_all)
qed

section \<open>Accepted archives\<close>

definition safe_zip_path :: "ZipInfo \<Rightarrow> bool" where
  "safe_zip_path entry \<longleftrightarrow>
     (let p = replace_char (CHR 0x5C) (CHR ''/'') (z_filename entry) in
      \<not> startswith p ''/'' \<and> \<not> startswith p ''../'' \<and> \<not> contains p ''/../'')"

lemma validate_zip_entry_ok:
  "validate_zip_entry entry = Inr x \<longleftrightarrow> safe_zip_path entry \<and> even (z_flag_bits entry)"
  by (auto simp: validate_zip_entry_def safe_zip_path_def Let_def raise_if_def)

lemma sum_zip_entries_ok:
  "sum_zip_entries es u c = Inr (u', c') \<longleftrightarrow>
     (\<forall>e \<in> set es. safe_zip_path e \<and> even (z_flag_bits e)) \<and>
     u' = u + (\<Sum>e\<leftarrow>es. z_file_size e) \<and> c' = c + (\<Sum>e\<leftarrow>es. max (z_compress_size e) 1)"
  by (induction es arbitrary: u c) (auto simp: bind_res_eq_Inr validate_zip_entry_ok)

lemma check_docx_entries_ok:
  "check_docx_entries es = Inr () \<longleftrightarrow>
     length es \<le> 256 \<and> {''[Content_Types].xml'', ''word/document.xml''} \<subseteq> z_filename ` set es \<and>
     (\<forall>e \<in> set es. safe_zip_path e \<and> even (z_flag_bits e)) \<and>
     (\<Sum>e\<leftarrow>es. z_file_size e) \<le> 50 * 1024 * 1024 \<and>
     (\<Sum>e\<leftarrow>es. z_file_size e) \<le> 100 * (\<Sum>e\<leftarrow>es. max (z_compress_size e) 1)"
  by (auto simp: check_docx_entries_def Let_def bind_res_eq_Inr raise_if_def sum_zip_entries_ok upload_limits
      split: if_splits prod.splits)

section \<open>Properties\<close>

text \<open>
  C18. Chunks do not matter: on a stream that delivers a content in any number of chunks of any
  sizes and then ends, the read loop gives what the content alone determines, namely the
  refusal of an empty or too large content, or the content with its SHA-256 digest, its size,
  its first 8192 and its last 16 bytes.
\<close>

theorem stream_upload_exact:
  assumes "delivers rd sz n cs" and "sha256_hex (sha256 (concat cs))"
  shows "fst (stream_upload sha256 rd max_bytes sz n) = upload_of sha256 max_bytes (concat cs)"
proof (cases "cs = [] \<or> int (length (concat cs)) \<le> max_bytes")
  case True
  have l: "stream_loop rd max_bytes sz n (state_of []) = (Inr (state_of (concat cs)), n + length cs + 1)"
  proof (cases "cs = []")
    case True
    then show ?thesis using assms(1) by (simp add: stream_loop.simps)
  next
    case False
    then show ?thesis using stream_loop_delivers(1) [OF assms(1), of "[]"] \<open>cs = [] \<or> _\<close> by simp
  qed
  show ?thesis
    using True delivers_empty [OF assms(1)] sha256_hex_hash [OF assms(2)]
    by (simp add: stream_upload_def stream_start_state l upload_of_def raise_if_def)
      (auto simp: state_of_def upload_limits)
next
  case False
  then have "fst (stream_loop rd max_bytes sz n (state_of [])) =
      Inl (UploadValidationError ''file_too_large'' ''Uploaded file is too large.'')"
    using stream_loop_delivers(2) [OF assms(1), of max_bytes "[]"] by simp
  then obtain k where "stream_loop rd max_bytes sz n stream_start =
      (Inl (UploadValidationError ''file_too_large'' ''Uploaded file is too large.''), k)"
    by (cases "stream_loop rd max_bytes sz n stream_start") (simp add: stream_start_state)
  moreover have "concat cs \<noteq> []"
    using False delivers_empty [OF assms(1)] by blast
  ultimately show ?thesis
    using False by (simp add: stream_upload_def upload_of_def del: concat_eq_Nil_conv)
qed

theorem stream_upload_exact_witness:
  "fst (stream_upload (\<lambda>_. sample_hash)
     (\<lambda>_ n. Some (if n = 0 then ''%PDF'' else if n = 1 then ''-1.7'' else [])) 100 4 0) =
   upload_of (\<lambda>_. sample_hash) 100 ''%PDF-1.7''"
  using stream_upload_exact [of "\<lambda>_ n. Some (if n = 0 then ''%PDF'' else if n = 1 then ''-1.7'' else [])" 4 0
      "[''%PDF'', ''-1.7'']" "\<lambda>_. sample_hash" 100] by simp

text \<open>
  C23. The read loop ends on every stream, also on one that never ends: it makes at most one
  read more than the limit has bytes, and what it accepts is never longer than the limit.
\<close>

theorem stream_upload_bounded:
  assumes "0 \<le> max_bytes"
  shows "snd (stream_upload sha256 rd max_bytes sz n) \<le> n + nat max_bytes + 1 \<and>
    (\<forall>u. fst (stream_upload sha256 rd max_bytes sz n) = Inr u \<longrightarrow>
       su_byte_size u = int (length (su_body u)) \<and> 0 < su_byte_size u \<and> su_byte_size u \<le> max_bytes)"
proof -
  have s: "snd (stream_upload sha256 rd max_bytes sz n) = snd (stream_loop rd max_bytes sz n stream_start)"
    by (simp add: stream_upload_def split: prod.split sum.split)
  have "snd (stream_loop rd max_bytes sz n stream_start) \<le> n + nat (max_bytes - ss_byte_size stream_start) + 1"
    by (rule stream_loop_reads) (use assms in \<open>simp_all add: stream_start_def\<close>)
  moreover have "su_byte_size u = int (length (su_body u)) \<and> 0 < su_byte_size u \<and> su_byte_size u \<le> max_bytes"
    if u: "fst (stream_upload sha256 rd max_bytes sz n) = Inr u" for u
  proof -
    obtain s' where s': "fst (stream_loop rd max_bytes sz n stream_start) = Inr s'" "ss_byte_size s' \<noteq> 0"
      "su_body u = ss_body s'" "su_byte_size u = ss_byte_size s'"
      using u by (auto simp: stream_upload_def raise_if_def split: prod.splits sum.splits if_splits)
    then show ?thesis
      using stream_loop_body [OF _ _ s'(1)] assms by (simp add: stream_start_def)
  qed
  moreover have "nat (max_bytes - ss_byte_size stream_start) = nat max_bytes"
    by (simp add: stream_start_def)
  ultimately show ?thesis
    unfolding s by metis
qed

theorem stream_upload_bounded_witness:
  "snd (stream_upload (\<lambda>_. sample_hash) (\<lambda>_ _. Some ''a'') 3 1 0) \<le> 4"
  using stream_upload_bounded [of 3 "\<lambda>_. sample_hash" "\<lambda>_ _. Some ''a''" 1 0] by simp

text \<open>
  C26. The fingerprint identifies the upload. For two uploads with accepted metadata, and
  unless SHA-256 maps the two different fingerprint texts to one digest, the fingerprints are
  equal exactly when content hash, file name, media type and size are all equal: a file name
  cannot imitate the fields that follow it.
\<close>

theorem fingerprint_identifies_upload:
  assumes "normalize_upload_metadata f d = Inr m" and "normalize_upload_metadata f' d' = Inr m'"
    and "sha256_hex (ContentHash_value h)" and "sha256_hex (ContentHash_value h')" and "0 \<le> i" and "0 \<le> i'"
    and "inj_on sha256 {utf8_encode (fingerprint_material h (nm_filename m) (nm_media_type m) i),
      utf8_encode (fingerprint_material h' (nm_filename m') (nm_media_type m') i')}"
  shows "request_fingerprint sha256 h (nm_filename m) (nm_media_type m) i =
      request_fingerprint sha256 h' (nm_filename m') (nm_media_type m') i' \<longleftrightarrow>
    h = h' \<and> nm_filename m = nm_filename m' \<and> nm_media_type m = nm_media_type m' \<and> i = i'"
proof -
  have sep: "CHR '';'' \<notin> set (nm_media_type x)" if x: "normalize_upload_metadata g e = Inr x" for g e x
  proof (rule normalize_upload_metadata_cases [OF x [unfolded normalize_upload_metadata_def]])
    fix p
    assume "p \<in> set POLICIES" "nm_media_type x = up_media_type p"
    then show ?thesis by (auto simp: POLICIES_def)
  qed
  have "fingerprint_material h (nm_filename m) (nm_media_type m) i =
      fingerprint_material h' (nm_filename m') (nm_media_type m') i'"
    if "request_fingerprint sha256 h (nm_filename m) (nm_media_type m) i =
      request_fingerprint sha256 h' (nm_filename m') (nm_media_type m') i'"
    by (rule utf8_encode_inj, rule inj_onD [OF assms(7)]) (use that in \<open>simp_all add: request_fingerprint_def\<close>)
  then show ?thesis
    using fingerprint_material_inj [OF _ assms(3,4) sep [OF assms(1)] sep [OF assms(2)] assms(5,6)] by metis
qed

lemma sample_metadata:
  "normalize_upload_metadata (Some ''a.txt'') (Some ''text/plain'') =
     Inr \<lparr>nm_filename = ''a.txt'', nm_extension = ''.txt'', nm_media_type = ''text/plain'', nm_upload_type = TXT\<rparr>"
  "normalize_upload_metadata (Some ''b.TXT'') (Some ''text/plain'') =
     Inr \<lparr>nm_filename = ''b.TXT'', nm_extension = ''.txt'', nm_media_type = ''text/plain'', nm_upload_type = TXT\<rparr>"
  by code_simp+

theorem fingerprint_identifies_upload_witness:
  "request_fingerprint (\<lambda>x. x) (ContentHash sample_hash) ''a.txt'' ''text/plain'' 3 \<noteq>
     request_fingerprint (\<lambda>x. x) (ContentHash sample_hash) ''b.TXT'' ''text/plain'' 3"
  using fingerprint_identifies_upload [OF sample_metadata, of "ContentHash sample_hash" "ContentHash sample_hash" 3 3
      "\<lambda>x. x"] by simp

text \<open>
  C27. Accepted metadata fit the domain, whatever the Unicode normalisation \<open>nf\<close> does: the file
  name of an accepted upload that is in normal form is accepted unchanged by the document model's
  file name rule, its media type by the media type rule, and the pair of declared media type and
  file extension is the one of the upload type that selects the content check. The hypothesis on
  the name is needed: the upload rule removes format characters after it has normalised, and what
  remains need not be in normal form.
\<close>

theorem upload_metadata_fits_domain:
  assumes "normalize_upload_metadata_nfc nf f d = Inr m" and "nf (nm_filename m) = nm_filename m"
  shows "normalize_original_filename_nfc nf (nm_filename m) = Inr (nm_filename m) \<and>
    normalize_media_type (nm_media_type m) = Inr (nm_media_type m) \<and>
    nm_media_type m = media_type_of (nm_upload_type m) \<and>
    (\<exists>p \<in> set POLICIES. up_upload_type p = nm_upload_type m \<and>
       ''.'' @ casefold (rsplit_last (CHR ''.'') (nm_filename m)) \<in> set (up_extensions p))"
proof (rule normalize_upload_metadata_cases [OF assms(1)])
  fix p
  assume f: "normalize_upload_filename nf f = Inr (nm_filename m)"
    and x: "upload_extension (nm_filename m) = Inr (nm_extension m)"
    and p: "p \<in> set POLICIES" "nm_extension m \<in> set (up_extensions p)" "nm_upload_type m = up_upload_type p"
      "nm_media_type m = up_media_type p"
    and t: "normalize_media_type (case d of None \<Rightarrow> [] | Some x \<Rightarrow> x) = Inr (nm_media_type m)"
  have "nm_extension m = ''.'' @ casefold (rsplit_last (CHR ''.'') (nm_filename m))"
    using x by (auto simp: upload_extension_def Let_def split: if_splits)
  moreover have "normalize_original_filename_nfc nf (nm_filename m) = normalize_original_filename (nm_filename m)"
    using assms(2) by (simp add: normalize_original_filename_def normalize_original_filename_nfc_def)
  ultimately show ?thesis
    using normalize_original_filename_id [OF normalize_upload_filename_domain [OF f]]
      normalize_media_type_id [OF normalize_media_type_fixed [OF t]] policy_media_type [OF p(1)] p by auto
qed

text \<open>A normalisation that turns the digit one into the letter A leaves the accepted name alone.\<close>

theorem upload_metadata_fits_domain_witness:
  "let nf = replace_char (CHR ''1'') (CHR ''A'')
   in normalize_upload_metadata_nfc nf (Some ''b1.TXT'') (Some ''text/plain'') =
        Inr \<lparr>nm_filename = ''bA.TXT'', nm_extension = ''.txt'', nm_media_type = ''text/plain'', nm_upload_type = TXT\<rparr> \<and>
      normalize_original_filename_nfc nf ''bA.TXT'' = Inr ''bA.TXT''"
proof -
  let ?nf = "replace_char (CHR ''1'') (CHR ''A'')"
  have m: "normalize_upload_metadata_nfc ?nf (Some ''b1.TXT'') (Some ''text/plain'') =
      Inr \<lparr>nm_filename = ''bA.TXT'', nm_extension = ''.txt'', nm_media_type = ''text/plain'', nm_upload_type = TXT\<rparr>"
    by code_simp
  have "?nf ''bA.TXT'' = ''bA.TXT''" by code_simp
  with upload_metadata_fits_domain [OF m] m show ?thesis by (simp add: Let_def)
qed

text \<open>
  C28. A DOCX upload is accepted exactly when it has the archive signature, the archive reader
  accepts it, it has at most 256 entries, among them the two required ones, no entry with an
  absolute or climbing path or an encryption flag, at most 50 MiB of uncompressed content and
  at most a hundred times the compressed size. Which archives the reader accepts is its own
  matter.
\<close>

theorem docx_acceptance_bounds:
  "validate_docx zip_infolist data = Inr () \<longleftrightarrow>
     startswith data [CHR ''P'', CHR ''K'', CHR 0x03, CHR 0x04] \<and>
     (\<exists>es. zip_infolist data = Inr es \<and> length es \<le> 256 \<and>
        {''[Content_Types].xml'', ''word/document.xml''} \<subseteq> z_filename ` set es \<and>
        list_all (\<lambda>e. safe_zip_path e \<and> even (z_flag_bits e)) es \<and>
        (\<Sum>e\<leftarrow>es. z_file_size e) \<le> 50 * 1024 * 1024 \<and>
        (\<Sum>e\<leftarrow>es. z_file_size e) \<le> 100 * (\<Sum>e\<leftarrow>es. max (z_compress_size e) 1))"
proof (cases "zip_infolist data")
  case (Inl e)
  then show ?thesis
    by (cases e) (simp_all add: validate_docx_def raise_if_def)
next
  case (Inr es)
  show ?thesis
    using Inr check_docx_entries_ok [of es]
    by (cases "check_docx_entries es") (auto simp: validate_docx_def raise_if_def list_all_iff split: exn.splits)
qed

end
