(* ===== verification/Document_Service.thy ===== *)
theory Document_Service
  imports Document_Store Object_Storage Upload_Validation
begin

text \<open>
  The document use cases, \<^verbatim>\<open>DocumentService\<close> of \<^verbatim>\<open>application/documents/service.py\<close>, composed with the
  repository, the audit log, the object storage and the request's transaction.
\<close>

section \<open>Commands\<close>

record DocumentRegistrationCommand =
  rc_display_filename :: string
  rc_media_type :: string
  rc_byte_size :: int
  rc_content_hash :: string
  rc_source_type :: DocumentSourceType
  rc_source_reference :: "string option"
  rc_audit_context :: "AuditRequestContext option"

record DocumentVersionCreationCommand =
  vc_document_id :: DocumentId
  vc_original_filename :: string
  vc_media_type :: string
  vc_byte_size :: int
  vc_content_hash :: string
  vc_storage_state :: DocumentStorageState
  vc_audit_context :: "AuditRequestContext option"

record DocumentArtifactRegistrationCommand =
  ac_document_id :: DocumentId
  ac_document_version_id :: "DocumentVersionId option"
  ac_artifact_type :: DocumentArtifactType
  ac_media_type :: string
  ac_byte_size :: int
  ac_storage_object_key :: StorageObjectKey
  ac_content_hash :: "string option"
  ac_metadata :: "metadata option"
  ac_audit_context :: "AuditRequestContext option"

record DocumentArchiveCommand =
  xc_document_id :: DocumentId
  xc_expected_lock_version :: int
  xc_audit_context :: "AuditRequestContext option"

record DocumentDownloadCommand =
  lc_document_id :: DocumentId
  lc_version_id :: "DocumentVersionId option"
  lc_artifact_id :: "DocumentArtifactId option"
  lc_expires_in_seconds :: int
  lc_audit_context :: "AuditRequestContext option"

record DocumentDownloadResult =
  lr_url :: string
  lr_expires_at :: datetime
  lr_filename :: string
  lr_media_type :: string
  lr_byte_size :: int

section \<open>Helpers\<close>

definition document_now :: "env \<Rightarrow> datetime option \<Rightarrow> datetime tx" where
  "document_now E value =
     bind (case value of Some t \<Rightarrow> ret t | None \<Rightarrow> clock_now E) (\<lambda>timestamp.
     if \<not> tz_aware timestamp then raise (ValueError ''Application timestamp must be timezone-aware.'')
     else ret (astimezone_utc timestamp))"

definition safe_download_filename :: "string \<Rightarrow> string" where
  "safe_download_filename filename =
     replace_char (CHR 0x22) (CHR 0x27) (filter (\<lambda>c. c \<noteq> CHR 0x0D \<and> c \<noteq> CHR 0x0A) filename)"

definition record_document_event ::
  "env \<Rightarrow> AuditEventType \<Rightarrow> TenantContext \<Rightarrow> uuid \<Rightarrow> AuditRequestContext option \<Rightarrow> datetime \<Rightarrow> metadata \<Rightarrow> unit tx" where
  "record_document_event E event_type tenant target_id request_context now metadata =
     tenant_event ''document'' E event_type tenant target_id request_context now metadata"

section \<open>The service\<close>

text \<open>Both handlers of \<^verbatim>\<open>register_document\<close> and the single one of the other mutations.\<close>

definition roll_back_and_raise :: "exn \<Rightarrow> 'a tx" where
  "roll_back_and_raise e = bind rollback (\<lambda>_. raise e)"

text \<open>The \<^verbatim>\<open>try\<close> statement of \<^verbatim>\<open>register_document\<close>.\<close>

definition save_registration ::
  "env \<Rightarrow> DocumentRegistrationCommand \<Rightarrow> TenantContext \<Rightarrow> datetime \<Rightarrow> ContentHash \<Rightarrow> Document \<Rightarrow> DocumentVersion \<Rightarrow>
   Document tx" where
  "save_registration E command tenant timestamp content_hash document version =
     try_except
       (bind (document_add document version) (\<lambda>saved.
        bind (record_document_event E DOCUMENT_REGISTERED tenant (DocumentId_value (d_id saved))
          (rc_audit_context command) timestamp
          [(''source_type'', VStr (DocumentSourceType_value (d_source_type saved)))]) (\<lambda>_.
        bind commit (\<lambda>_. ret saved))))
       (\<lambda>e. case e of
          DuplicateDocumentContentError m \<Rightarrow>
            bind rollback (\<lambda>_.
            bind (document_find_by_hash (tn_organization_id tenant) content_hash) (\<lambda>duplicate.
            case duplicate of Some x \<Rightarrow> ret x | None \<Rightarrow> raise e))
        | _ \<Rightarrow> roll_back_and_raise e)"

definition DocumentService_register :: "env \<Rightarrow> DocumentRegistrationCommand \<Rightarrow> TenantContext \<Rightarrow> Document tx" where
  "DocumentService_register E command tenant =
     bind (of_res (require tenant DOCUMENT_WRITE)) (\<lambda>_.
     bind (document_now E None) (\<lambda>timestamp.
     bind (of_res (ContentHash_post_init (rc_content_hash command))) (\<lambda>content_hash.
     bind (document_find_by_hash (tn_organization_id tenant) content_hash) (\<lambda>existing.
     case existing of
       Some document \<Rightarrow> ret document
     | None \<Rightarrow>
         bind (uuid4 E) (\<lambda>i.
         bind (of_res (DocumentId_post_init i)) (\<lambda>document_id.
         bind (uuid4 E) (\<lambda>j.
         bind (of_res (DocumentVersionId_post_init j)) (\<lambda>version_id.
         bind (of_res (DocumentVersion_create timestamp version_id (tn_organization_id tenant) document_id 1
           (rc_display_filename command) (rc_media_type command) (rc_byte_size command) content_hash
           StoragePending (Some timestamp) (tn_user_id tenant) None)) (\<lambda>version.
         bind (of_res (Document_register timestamp document_id (tn_organization_id tenant)
           (rc_display_filename command) (rc_source_type command) (rc_source_reference command) version
           (tn_user_id tenant) (Some timestamp))) (\<lambda>document.
         save_registration E command tenant timestamp content_hash document version))))))))))"

definition DocumentService_get :: "DocumentId \<Rightarrow> TenantContext \<Rightarrow> Document tx" where
  "DocumentService_get document_id tenant =
     bind (of_res (require tenant DOCUMENT_READ)) (\<lambda>_.
     bind (document_get (tn_organization_id tenant) document_id) (\<lambda>found.
     case found of
       None \<Rightarrow> raise (DocumentNotFoundError ''Document was not found.'')
     | Some document \<Rightarrow> ret document))"

definition DocumentService_list :: "TenantContext \<Rightarrow> DocumentListFilter \<Rightarrow> DocumentListPage tx" where
  "DocumentService_list tenant q =
     bind (of_res (require tenant DOCUMENT_READ)) (\<lambda>_. document_list (tn_organization_id tenant) q)"

definition DocumentService_create_version ::
  "env \<Rightarrow> DocumentVersionCreationCommand \<Rightarrow> TenantContext \<Rightarrow> DocumentVersion tx" where
  "DocumentService_create_version E command tenant =
     bind (of_res (require tenant DOCUMENT_VERSION_CREATE)) (\<lambda>_.
     bind (document_now E None) (\<lambda>timestamp.
     bind (document_get_for_update (tn_organization_id tenant) (vc_document_id command)) (\<lambda>found.
     case found of
       None \<Rightarrow> raise (DocumentNotFoundError ''Document was not found.'')
     | Some document \<Rightarrow>
         bind (version_list (tn_organization_id tenant) (vc_document_id command)) (\<lambda>versions.
         bind (uuid4 E) (\<lambda>j.
         bind (of_res (DocumentVersionId_post_init j)) (\<lambda>version_id.
         bind (of_res (ContentHash_post_init (vc_content_hash command))) (\<lambda>content_hash.
         bind (of_res (DocumentVersion_create timestamp version_id (tn_organization_id tenant)
           (vc_document_id command) (int (length versions) + 1) (vc_original_filename command)
           (vc_media_type command) (vc_byte_size command) content_hash (vc_storage_state command)
           (Some timestamp) (tn_user_id tenant) None)) (\<lambda>version.
         bind (of_res (Document_set_current_version timestamp document version (tn_user_id tenant)
           (Some timestamp))) (\<lambda>updated.
         try_except
           (bind (version_add version) (\<lambda>saved.
            bind (document_set_current_row updated saved) (\<lambda>_.
            bind (record_document_event E DOCUMENT_VERSION_CREATED tenant (DocumentId_value (d_id document))
              (vc_audit_context command) timestamp
              [(''version_id'', VUuid (DocumentVersionId_value (dv_id saved))),
               (''version_number'', VInt (dv_version_number saved))]) (\<lambda>_.
            bind commit (\<lambda>_. ret saved)))))
           roll_back_and_raise))))))))) "

definition DocumentService_get_version ::
  "TenantContext \<Rightarrow> DocumentId \<Rightarrow> DocumentVersionId \<Rightarrow> DocumentVersion tx" where
  "DocumentService_get_version tenant document_id version_id =
     bind (of_res (require tenant DOCUMENT_VERSION_READ)) (\<lambda>_.
     bind (version_get (tn_organization_id tenant) document_id version_id) (\<lambda>found.
     case found of
       None \<Rightarrow> raise (DocumentNotFoundError ''Document version was not found.'')
     | Some version \<Rightarrow> ret version))"

definition DocumentService_archive_with_lock ::
  "env \<Rightarrow> DocumentArchiveCommand \<Rightarrow> TenantContext \<Rightarrow> datetime option \<Rightarrow> Document tx" where
  "DocumentService_archive_with_lock E command tenant now =
     bind (of_res (require tenant DOCUMENT_ARCHIVE)) (\<lambda>_.
     bind (document_now E now) (\<lambda>timestamp.
     bind (document_get_for_update (tn_organization_id tenant) (xc_document_id command)) (\<lambda>found.
     case found of
       None \<Rightarrow> raise (DocumentNotFoundError ''Document was not found.'')
     | Some document \<Rightarrow>
         if d_lock_version document \<noteq> xc_expected_lock_version command then
           raise (ConcurrencyConflictError ''Document was changed by another request.'')
         else
           bind (of_res (Document_archive timestamp document (tn_user_id tenant) (Some timestamp))) (\<lambda>archived.
           try_except
             (bind (document_archive_row archived) (\<lambda>saved.
              bind (record_document_event E DOCUMENT_ARCHIVED tenant (DocumentId_value (d_id saved))
                (xc_audit_context command) timestamp []) (\<lambda>_.
              bind commit (\<lambda>_. ret saved))))
             roll_back_and_raise))))"

definition DocumentService_archive ::
  "env \<Rightarrow> DocumentId \<Rightarrow> TenantContext \<Rightarrow> datetime option \<Rightarrow> AuditRequestContext option \<Rightarrow> Document tx" where
  "DocumentService_archive E document_id tenant now audit_context =
     bind (DocumentService_get document_id tenant) (\<lambda>document.
     DocumentService_archive_with_lock E
       \<lparr>xc_document_id = document_id, xc_expected_lock_version = d_lock_version document,
        xc_audit_context = audit_context\<rparr> tenant now)"

definition DocumentService_list_versions :: "DocumentId \<Rightarrow> TenantContext \<Rightarrow> DocumentVersion list tx" where
  "DocumentService_list_versions document_id tenant =
     bind (of_res (require tenant DOCUMENT_VERSION_READ)) (\<lambda>_.
     bind (DocumentService_get document_id tenant) (\<lambda>document.
     version_list (tn_organization_id tenant) (d_id document)))"

definition DocumentService_list_artifacts :: "DocumentId \<Rightarrow> TenantContext \<Rightarrow> DocumentArtifact list tx" where
  "DocumentService_list_artifacts document_id tenant =
     bind (of_res (require tenant ARTIFACT_READ)) (\<lambda>_.
     bind (DocumentService_get document_id tenant) (\<lambda>document.
     artifact_list (tn_organization_id tenant) (d_id document)))"

definition DocumentService_get_artifact ::
  "TenantContext \<Rightarrow> DocumentId \<Rightarrow> DocumentArtifactId \<Rightarrow> DocumentArtifact tx" where
  "DocumentService_get_artifact tenant document_id artifact_id =
     bind (of_res (require tenant ARTIFACT_READ)) (\<lambda>_.
     bind (DocumentService_get document_id tenant) (\<lambda>document.
     bind (artifact_get (tn_organization_id tenant) (d_id document) artifact_id) (\<lambda>found.
     case found of
       None \<Rightarrow> raise (DocumentNotFoundError ''Document artifact was not found.'')
     | Some artifact \<Rightarrow> ret artifact)))"

definition DocumentService_download ::
  "env \<Rightarrow> s3_client \<Rightarrow> DocumentDownloadCommand \<Rightarrow> TenantContext \<Rightarrow> DocumentDownloadResult tx" where
  "DocumentService_download E S command tenant =
     bind (document_now E None) (\<lambda>timestamp.
     case lc_artifact_id command of
       Some artifact_id \<Rightarrow>
         bind (of_res (require tenant ARTIFACT_DOWNLOAD)) (\<lambda>_.
         bind (DocumentService_get (lc_document_id command) tenant) (\<lambda>document.
         bind (artifact_get (tn_organization_id tenant) (d_id document) artifact_id) (\<lambda>found.
         case found of
           None \<Rightarrow> raise (DocumentNotFoundError ''Document artifact was not found.'')
         | Some artifact \<Rightarrow>
             bind (s3_download_url E S (da_storage_object_key artifact) (lc_expires_in_seconds command) timestamp) (\<lambda>url.
             bind (record_document_event E DOCUMENT_ARTIFACT_DOWNLOADED tenant (DocumentId_value (d_id document))
               (lc_audit_context command) timestamp
               [(''artifact_id'', VUuid (DocumentArtifactId_value (da_id artifact)))]) (\<lambda>_.
             ret \<lparr>lr_url = du_url url, lr_expires_at = du_expires_at url,
                  lr_filename = safe_download_filename (d_display_filename document),
                  lr_media_type = da_media_type artifact, lr_byte_size = da_byte_size artifact\<rparr>)))))
     | None \<Rightarrow>
         bind (of_res (require tenant DOCUMENT_DOWNLOAD)) (\<lambda>_.
         bind (DocumentService_get (lc_document_id command) tenant) (\<lambda>document.
         let version_id = (case lc_version_id command of Some v \<Rightarrow> v | None \<Rightarrow> d_current_version_id document) in
         bind (version_get (tn_organization_id tenant) (d_id document) version_id) (\<lambda>found.
         case found of
           None \<Rightarrow> raise (DocumentNotFoundError ''Document version was not found.'')
         | Some version \<Rightarrow>
             bind (s3_download_url E S (dv_storage_object_key version) (lc_expires_in_seconds command) timestamp) (\<lambda>url.
             bind (record_document_event E
               (if lc_version_id command \<noteq> None then DOCUMENT_VERSION_DOWNLOADED else DOCUMENT_DOWNLOADED)
               tenant (DocumentId_value (d_id document)) (lc_audit_context command) timestamp
               [(''version_id'', VUuid (DocumentVersionId_value (dv_id version)))]) (\<lambda>_.
             ret \<lparr>lr_url = du_url url, lr_expires_at = du_expires_at url,
                  lr_filename = safe_download_filename (dv_original_filename version),
                  lr_media_type = dv_media_type version, lr_byte_size = dv_byte_size version\<rparr>))))))"

definition DocumentService_register_artifact ::
  "env \<Rightarrow> DocumentArtifactRegistrationCommand \<Rightarrow> TenantContext \<Rightarrow> DocumentArtifact tx" where
  "DocumentService_register_artifact E command tenant =
     bind (of_res (require tenant ARTIFACT_READ)) (\<lambda>_.
     bind (document_now E None) (\<lambda>timestamp.
     bind (DocumentService_get (ac_document_id command) tenant) (\<lambda>document.
     bind (case ac_document_version_id command of
         None \<Rightarrow> ret None
       | Some i \<Rightarrow> bind (DocumentService_get_version tenant (ac_document_id command) i) (\<lambda>v. ret (Some v))) (\<lambda>version.
     bind (uuid4 E) (\<lambda>j.
     bind (of_res (DocumentArtifactId_post_init j)) (\<lambda>artifact_id.
     bind (of_res (opt_res ContentHash_post_init (ac_content_hash command))) (\<lambda>content_hash.
     bind (of_res (DocumentArtifact_create timestamp artifact_id (tn_organization_id tenant)
       (ac_document_id command) (ac_document_version_id command) (ac_artifact_type command)
       (ac_media_type command) (ac_byte_size command) (ac_storage_object_key command) (tn_user_id tenant)
       content_hash (ac_metadata command) (Some timestamp))) (\<lambda>artifact.
     bind (of_res (assert_artifact_consistent document artifact version)) (\<lambda>_.
     try_except
       (bind (artifact_add artifact) (\<lambda>saved.
        bind (record_document_event E DOCUMENT_ARTIFACT_REGISTERED tenant (DocumentId_value (d_id document))
          (ac_audit_context command) timestamp
          [(''artifact_id'', VUuid (DocumentArtifactId_value (da_id saved))),
           (''artifact_type'', VStr (DocumentArtifactType_value (da_artifact_type saved)))]) (\<lambda>_.
        bind commit (\<lambda>_. ret saved))))
       roll_back_and_raise)))))))))"

section \<open>Objects that load as they are\<close>

lemma id_post_init [simp]:
  "DocumentId_post_init u = Inr i \<longleftrightarrow> u \<noteq> 0 \<and> i = DocumentId u"
  "DocumentVersionId_post_init u = Inr j \<longleftrightarrow> u \<noteq> 0 \<and> j = DocumentVersionId u"
  "DocumentArtifactId_post_init u = Inr k \<longleftrightarrow> u \<noteq> 0 \<and> k = DocumentArtifactId u"
  by (auto simp: DocumentId_post_init_def DocumentVersionId_post_init_def DocumentArtifactId_post_init_def
      Doc_validate_uuid_def check_uuid_def raise_if_def)

lemma hash_post_init_id: "ContentHash_post_init s = Inr h \<Longrightarrow> ContentHash_post_init (ContentHash_value h) = Inr h"
  by (auto simp: ContentHash_post_init_def Let_def sha256_hex_hash split: if_splits)

lemma key_post_init_id: "StorageObjectKey_post_init s = Inr k \<Longrightarrow> StorageObjectKey_value k = s"
  by (auto simp: StorageObjectKey_post_init_def)

lemma document_loads:
  "document_from_record x = Inr x \<longleftrightarrow>
     wf_document x \<and> DocumentId_value (d_id x) \<noteq> 0 \<and> DocumentVersionId_value (d_current_version_id x) \<noteq> 0"
proof
  assume x: "document_from_record x = Inr x"
  then obtain y where "Document_post_init y = Inr x" "DocumentId_value (d_id x) \<noteq> 0"
      "DocumentVersionId_value (d_current_version_id x) \<noteq> 0"
    by (auto simp: document_from_record_def)
  then show "wf_document x \<and> DocumentId_value (d_id x) \<noteq> 0 \<and> DocumentVersionId_value (d_current_version_id x) \<noteq> 0"
    using Document_post_init_frame by blast
next
  assume x: "wf_document x \<and> DocumentId_value (d_id x) \<noteq> 0 \<and> DocumentVersionId_value (d_current_version_id x) \<noteq> 0"
  then have t: "is_utc (d_created_at x)" "is_utc (d_updated_at x)"
      "map_option astimezone_utc (d_archived_at x) = d_archived_at x"
    by (simp_all add: wf_document_def opt_astimezone_id)
  have ids: "DocumentId_post_init (DocumentId_value (d_id x)) = Inr (d_id x)"
      "DocumentVersionId_post_init (DocumentVersionId_value (d_current_version_id x)) = Inr (d_current_version_id x)"
    using x by simp_all
  show "document_from_record x = Inr x"
    using x t Document_post_init_id [of x] by (simp add: document_from_record_def ids)
qed

lemma normalize_media_type_idem: "normalize_media_type m = Inr n \<Longrightarrow> normalize_media_type n = Inr n"
  using normalize_media_type_id [OF normalize_media_type_fixed] by blast

lemma DocumentVersion_post_init_frame:
  assumes "DocumentVersion_post_init u = Inr v"
  shows "dv_id v = dv_id u" "dv_organization_id v = dv_organization_id u" "dv_document_id v = dv_document_id u"
    "dv_version_number v = dv_version_number u" "dv_content_hash v = dv_content_hash u"
    "dv_storage_object_key v = dv_storage_object_key u" "dv_storage_state v = dv_storage_state u"
    "dv_created_by_user_id v = dv_created_by_user_id u" "is_utc (dv_created_at v)"
    "safe_filename (dv_original_filename v)"
    "DocumentVersion_post_init v = Inr v"
proof -
  obtain f m where ok: "dv_organization_id u \<noteq> 0" "dv_created_by_user_id u \<noteq> 0" "0 < dv_version_number u"
      "normalize_original_filename (dv_original_filename u) = Inr f" "normalize_media_type (dv_media_type u) = Inr m"
      "0 \<le> dv_byte_size u" "tz_aware (dv_created_at u)"
      "ensure_key_is_tenant_safe (dv_storage_object_key u) (dv_organization_id u)
        (''documents/'' @ uuid_str (dv_organization_id u) @ ''/sha256/'') = Inr ()"
    and v: "v = u\<lparr>dv_original_filename := f, dv_media_type := m, dv_created_at := astimezone_utc (dv_created_at u)\<rparr>"
    using assms
    by (auto simp: DocumentVersion_post_init_def document_helper_defs validate_byte_size_def to_utc_def raise_if_def
        check_uuid_def split: if_splits)
  show "dv_id v = dv_id u" "dv_organization_id v = dv_organization_id u" "dv_document_id v = dv_document_id u"
    "dv_version_number v = dv_version_number u" "dv_content_hash v = dv_content_hash u"
    "dv_storage_object_key v = dv_storage_object_key u" "dv_storage_state v = dv_storage_state u"
    "dv_created_by_user_id v = dv_created_by_user_id u"
    by (simp_all add: v)
  show "is_utc (dv_created_at v)" using ok(7) by (simp add: v)
  show f: "safe_filename (dv_original_filename v)"
    using normalize_original_filename_safe [OF ok(4)] by (simp add: v)
  show "DocumentVersion_post_init v = Inr v"
    using ok normalize_original_filename_id [OF f] normalize_media_type_idem [OF ok(5)]
    by (simp add: v DocumentVersion_post_init_def document_helper_defs validate_byte_size_def to_utc_def raise_if_def
        check_uuid_def)
qed

lemma version_created:
  assumes "DocumentVersion_create t (DocumentVersionId j) g i n f m b h st ct u None = Inr v"
    and "j \<noteq> 0" "DocumentId_value i \<noteq> 0" "ContentHash_post_init s = Inr h"
  shows "dv_id v = DocumentVersionId j" "dv_organization_id v = g" "dv_document_id v = i" "dv_version_number v = n"
    "dv_content_hash v = h" "dv_storage_state v = st" "version_from_record v = Inr v"
proof -
  obtain k where k: "StorageObjectKey_for_document_content g h = Inr k"
    and p: "DocumentVersion_post_init
       \<lparr>dv_id = DocumentVersionId j, dv_organization_id = g, dv_document_id = i, dv_version_number = n,
        dv_original_filename = f, dv_media_type = m, dv_byte_size = b, dv_content_hash = h,
        dv_storage_object_key = k, dv_storage_state = st,
        dv_created_at = (case ct of None \<Rightarrow> t | Some t \<Rightarrow> t), dv_created_by_user_id = u\<rparr> = Inr v"
    using assms(1) by (auto simp: DocumentVersion_create_def)
  note fr = DocumentVersion_post_init_frame [OF p, simplified]
  show "dv_id v = DocumentVersionId j" "dv_organization_id v = g" "dv_document_id v = i" "dv_version_number v = n"
    "dv_content_hash v = h" "dv_storage_state v = st"
    using fr by simp_all
  obtain x where x: "StorageObjectKey_post_init x = Inr k"
    using k by (auto simp: StorageObjectKey_for_document_content_def Let_def)
  have ids: "DocumentVersionId_post_init (DocumentVersionId_value (dv_id v)) = Inr (dv_id v)"
      "DocumentId_post_init (DocumentId_value (dv_document_id v)) = Inr (dv_document_id v)"
      "ContentHash_post_init (ContentHash_value (dv_content_hash v)) = Inr (dv_content_hash v)"
      "StorageObjectKey_post_init (StorageObjectKey_value (dv_storage_object_key v)) = Inr (dv_storage_object_key v)"
    using assms(2,3) hash_post_init_id [OF assms(4)] x key_post_init_id [OF x] fr by simp_all
  show "version_from_record v = Inr v"
    unfolding version_from_record_def ids bind_res_simps using fr(9,11) by simp
qed

lemma document_change_frame:
  assumes "Document_set_current_version t x v u (Some t) = Inr y \<or> Document_archive t x u (Some t) = Inr y \<or>
    Document_mark_stored t x u (Some t) = Inr y \<or> Document_mark_failed t x u (Some t) = Inr y"
    and "document_from_record x = Inr x"
  shows "wf_document y" "d_id y = d_id x" "d_organization_id y = d_organization_id x"
    "d_lock_version y = d_lock_version x + 1" "d_created_at y = d_created_at x"
    "d_created_by_user_id y = d_created_by_user_id x"
proof -
  obtain p where "document_step x p = Inr y"
    using assms(1) by (metis document_step.simps)
  note f = document_step_frame [OF this]
  show "wf_document y" "d_id y = d_id x" "d_organization_id y = d_organization_id x"
    "d_lock_version y = d_lock_version x + 1" "d_created_by_user_id y = d_created_by_user_id x"
    using f by simp_all
  have "is_utc (d_created_at x)"
    using assms(2) by (simp add: document_loads wf_document_def)
  then show "d_created_at y = d_created_at x"
    using assms(1) by (auto simp: document_op_defs dest!: Document_post_init_frame)
qed

lemma document_change_current:
  "Document_set_current_version t x v u n = Inr y \<Longrightarrow> d_current_version_id y = dv_id v"
  "Document_archive t x u n = Inr y \<Longrightarrow> d_current_version_id y = d_current_version_id x"
  "Document_mark_stored t x u n = Inr y \<Longrightarrow> d_current_version_id y = d_current_version_id x"
  "Document_mark_failed t x u n = Inr y \<Longrightarrow> d_current_version_id y = d_current_version_id x"
  by (auto simp: document_op_defs dest!: Document_post_init_frame)

lemma safe_artifact_items_idem: "safe_artifact_items m = Inr n \<Longrightarrow> safe_artifact_items n = Inr n \<and> length n = length m"
proof (induction m arbitrary: n)
  case (Cons a m)
  obtain k v where a: "a = (k, v)" by fastforce
  then show ?case
    using Cons
    by (auto simp: a raise_if_def document_limits ARTIFACT_METADATA_VALUE_MAX_LENGTH_def split: pyval.splits if_splits)
qed simp

lemma DocumentArtifact_post_init_frame:
  assumes "DocumentArtifact_post_init b = Inr a"
  shows "da_id a = da_id b" "da_organization_id a = da_organization_id b" "da_document_id a = da_document_id b"
    "da_document_version_id a = da_document_version_id b" "da_storage_object_key a = da_storage_object_key b"
    "da_content_hash a = da_content_hash b" "is_utc (da_created_at a)" "DocumentArtifact_post_init a = Inr a"
proof -
  obtain u m md where ok: "da_organization_id b \<noteq> 0" "da_created_by_user_id b = Some u" "u \<noteq> 0"
      "normalize_media_type (da_media_type b) = Inr m" "0 \<le> da_byte_size b"
      "safe_artifact_metadata (da_metadata b) = Inr md" "tz_aware (da_created_at b)"
      "ensure_key_is_tenant_safe (da_storage_object_key b) (da_organization_id b)
        (''artifacts/'' @ uuid_str (da_organization_id b) @ ''/'' @ uuid_str (DocumentId_value (da_document_id b)) @ ''/'') = Inr ()"
    and a: "a = b\<lparr>da_media_type := m, da_metadata := md, da_created_at := astimezone_utc (da_created_at b)\<rparr>"
    using assms
    by (auto simp: DocumentArtifact_post_init_def document_helper_defs validate_byte_size_def to_utc_def raise_if_def
        check_uuid_def split: if_splits option.splits)
  show "da_id a = da_id b" "da_organization_id a = da_organization_id b" "da_document_id a = da_document_id b"
    "da_document_version_id a = da_document_version_id b" "da_storage_object_key a = da_storage_object_key b"
    "da_content_hash a = da_content_hash b"
    by (simp_all add: a)
  show "is_utc (da_created_at a)" using ok(7) by (simp add: a)
  have "safe_artifact_metadata md = Inr md"
    using ok(6) safe_artifact_items_idem [of "da_metadata b" md]
    by (auto simp: safe_artifact_metadata_def raise_if_def split: if_splits)
  then show "DocumentArtifact_post_init a = Inr a"
    using ok normalize_media_type_idem [OF ok(4)]
    by (simp add: a DocumentArtifact_post_init_def document_helper_defs validate_byte_size_def to_utc_def raise_if_def
        check_uuid_def)
qed

lemma opt_res_hash_id:
  "opt_res ContentHash_post_init s = Inr h \<Longrightarrow> opt_res (\<lambda>h. ContentHash_post_init (ContentHash_value h)) h = Inr h"
  by (cases s) (auto simp: hash_post_init_id)

lemma artifact_loaded:
  assumes a: "DocumentArtifact_post_init b = Inr a" and y: "artifact_from_record a = Inr y"
    and h: "opt_res ContentHash_post_init s = Inr (da_content_hash b)"
  shows "y = a"
proof -
  note f = DocumentArtifact_post_init_frame [OF a]
  have h': "opt_res (\<lambda>h. ContentHash_post_init (ContentHash_value h)) (da_content_hash a) = Inr (da_content_hash a)"
    using opt_res_hash_id [OF h] f(6) by simp
  obtain v k where "opt_res (\<lambda>v. DocumentVersionId_post_init (DocumentVersionId_value v)) (da_document_version_id a) = Inr v"
    and "StorageObjectKey_post_init (StorageObjectKey_value (da_storage_object_key a)) = Inr k"
    and p: "DocumentArtifact_post_init (a\<lparr>da_document_version_id := v, da_storage_object_key := k,
       da_created_at := astimezone_utc (da_created_at a)\<rparr>) = Inr y"
    using y by (auto simp: artifact_from_record_def h')
  moreover from this(2) have "k = da_storage_object_key a"
    using key_post_init_id by (metis StorageObjectKey.expand)
  moreover have "v = da_document_version_id a"
    using calculation(1) by (cases "da_document_version_id a") auto
  ultimately show ?thesis
    using p f(7,8) by simp
qed

section \<open>Requests\<close>

datatype DocumentRequest =
    RegisterDocument DocumentRegistrationCommand
  | CreateVersion DocumentVersionCreationCommand
  | ArchiveDocument DocumentArchiveCommand
  | ArchiveCurrent DocumentId "AuditRequestContext option"
  | RegisterArtifact DocumentArtifactRegistrationCommand
  | GetDocument DocumentId
  | ListDocuments DocumentListFilter
  | GetVersion DocumentId DocumentVersionId
  | ListVersions DocumentId
  | ListArtifacts DocumentId
  | GetArtifact DocumentId DocumentArtifactId

fun document_request :: "env \<Rightarrow> TenantContext \<Rightarrow> DocumentRequest \<Rightarrow> unit tx" where
  "document_request E tn (RegisterDocument c) = forget (DocumentService_register E c tn)"
| "document_request E tn (CreateVersion c) = forget (DocumentService_create_version E c tn)"
| "document_request E tn (ArchiveDocument c) = forget (DocumentService_archive_with_lock E c tn None)"
| "document_request E tn (ArchiveCurrent i a) = forget (DocumentService_archive E i tn None a)"
| "document_request E tn (RegisterArtifact c) = forget (DocumentService_register_artifact E c tn)"
| "document_request E tn (GetDocument i) = forget (DocumentService_get i tn)"
| "document_request E tn (ListDocuments q) = forget (DocumentService_list tn q)"
| "document_request E tn (GetVersion i j) = forget (DocumentService_get_version tn i j)"
| "document_request E tn (ListVersions i) = forget (DocumentService_list_versions i tn)"
| "document_request E tn (ListArtifacts i) = forget (DocumentService_list_artifacts i tn)"
| "document_request E tn (GetArtifact i k) = forget (DocumentService_get_artifact tn i k)"

text \<open>Requests of any tenants, one after the other, each in its own session.\<close>

fun serve_documents :: "env \<Rightarrow> (TenantContext \<times> DocumentRequest) list \<Rightarrow> world \<Rightarrow> world" where
  "serve_documents E [] w = w"
| "serve_documents E ((tn, q) # qs) w = serve_documents E qs (snd (session_scope (document_request E tn q) w))"

section \<open>The specification\<close>

text \<open>
  The document store as its users see it: documents by tenant and identifier, the history of
  versions of each, and the artifacts. A step carries the type of the audit event it leaves.
\<close>

record document_state =
  sd_document :: "uuid \<times> DocumentId \<Rightarrow> Document option"
  sd_versions :: "uuid \<times> DocumentId \<Rightarrow> DocumentVersion list"
  sd_artifact :: "uuid \<times> DocumentId \<times> DocumentArtifactId \<Rightarrow> DocumentArtifact option"

definition document_abs :: "db \<Rightarrow> document_state" where
  "document_abs d = \<lparr>sd_document = (\<lambda>(g, i). document_at d g i), sd_versions = (\<lambda>(g, i). versions_of d g i),
     sd_artifact = (\<lambda>(g, k). artifact_at d g k)\<rparr>"

fun read_permission :: "DocumentRequest \<Rightarrow> Permission option" where
  "read_permission (GetDocument i) = Some DOCUMENT_READ"
| "read_permission (ListDocuments q) = Some DOCUMENT_READ"
| "read_permission (GetVersion i j) = Some DOCUMENT_VERSION_READ"
| "read_permission (ListVersions i) = Some DOCUMENT_VERSION_READ"
| "read_permission (ListArtifacts i) = Some ARTIFACT_READ"
| "read_permission (GetArtifact i k) = Some ARTIFACT_READ"
| "read_permission _ = None"

text \<open>The requests that archive a document: the document and the lock version that must be current.\<close>

fun archives :: "DocumentRequest \<Rightarrow> (DocumentId \<times> int option) option" where
  "archives (ArchiveDocument c) = Some (xc_document_id c, Some (xc_expected_lock_version c))"
| "archives (ArchiveCurrent i a) = Some (i, None)"
| "archives _ = None"

definition hash_unused :: "uuid \<Rightarrow> ContentHash \<Rightarrow> document_state \<Rightarrow> bool" where
  "hash_unused g h s \<longleftrightarrow> (\<forall>i. \<forall>v \<in> set (sd_versions s (g, i)). dv_content_hash v \<noteq> h)"

inductive document_spec ::
  "TenantContext \<Rightarrow> DocumentRequest \<Rightarrow> document_state \<Rightarrow> AuditEventType option \<Rightarrow> document_state \<Rightarrow> bool" for tn where
  spec_known: "DOCUMENT_WRITE \<in> set (tn_permissions tn) \<Longrightarrow> ContentHash_post_init (rc_content_hash c) = Inr h \<Longrightarrow>
    sd_document s (tn_organization_id tn, i) = Some x \<Longrightarrow> v \<in> set (sd_versions s (tn_organization_id tn, i)) \<Longrightarrow>
    dv_content_hash v = h \<Longrightarrow>
    document_spec tn (RegisterDocument c) s None s"
| spec_register: "DOCUMENT_WRITE \<in> set (tn_permissions tn) \<Longrightarrow> ContentHash_post_init (rc_content_hash c) = Inr h \<Longrightarrow>
    hash_unused (tn_organization_id tn) h s \<Longrightarrow>
    DocumentVersion_create t j (tn_organization_id tn) i 1 (rc_display_filename c) (rc_media_type c)
      (rc_byte_size c) h StoragePending (Some t) (tn_user_id tn) None = Inr v \<Longrightarrow>
    Document_register t i (tn_organization_id tn) (rc_display_filename c) (rc_source_type c)
      (rc_source_reference c) v (tn_user_id tn) (Some t) = Inr x \<Longrightarrow>
    sd_document s (tn_organization_id tn, i) = None \<Longrightarrow>
    document_spec tn (RegisterDocument c) s (Some DOCUMENT_REGISTERED)
      (s\<lparr>sd_document := (sd_document s)((tn_organization_id tn, i) \<mapsto> x),
         sd_versions := (sd_versions s)((tn_organization_id tn, i) := [v])\<rparr>)"
| spec_version: "DOCUMENT_VERSION_CREATE \<in> set (tn_permissions tn) \<Longrightarrow>
    ContentHash_post_init (vc_content_hash c) = Inr h \<Longrightarrow> hash_unused (tn_organization_id tn) h s \<Longrightarrow>
    sd_document s (tn_organization_id tn, vc_document_id c) = Some x \<Longrightarrow>
    DocumentVersion_create t j (tn_organization_id tn) (vc_document_id c)
      (int (length (sd_versions s (tn_organization_id tn, vc_document_id c))) + 1) (vc_original_filename c)
      (vc_media_type c) (vc_byte_size c) h (vc_storage_state c) (Some t) (tn_user_id tn) None = Inr v \<Longrightarrow>
    Document_set_current_version t x v (tn_user_id tn) (Some t) = Inr x' \<Longrightarrow>
    document_spec tn (CreateVersion c) s (Some DOCUMENT_VERSION_CREATED)
      (s\<lparr>sd_document := (sd_document s)((tn_organization_id tn, vc_document_id c) \<mapsto> x'),
         sd_versions := (sd_versions s)((tn_organization_id tn, vc_document_id c) :=
           sd_versions s (tn_organization_id tn, vc_document_id c) @ [v])\<rparr>)"
| spec_archive: "archives q = Some (i, l) \<Longrightarrow> DOCUMENT_ARCHIVE \<in> set (tn_permissions tn) \<Longrightarrow>
    sd_document s (tn_organization_id tn, i) = Some x \<Longrightarrow> pred_option (\<lambda>n. d_lock_version x = n) l \<Longrightarrow>
    Document_archive t x (tn_user_id tn) (Some t) = Inr x' \<Longrightarrow>
    document_spec tn q s (Some DOCUMENT_ARCHIVED)
      (s\<lparr>sd_document := (sd_document s)((tn_organization_id tn, i) \<mapsto> x')\<rparr>)"
| spec_artifact: "{ARTIFACT_READ, DOCUMENT_READ} \<subseteq> set (tn_permissions tn) \<Longrightarrow>
    sd_document s (tn_organization_id tn, ac_document_id c) = Some x \<Longrightarrow>
    opt_res ContentHash_post_init (ac_content_hash c) = Inr h \<Longrightarrow>
    DocumentArtifact_create t k (tn_organization_id tn) (ac_document_id c) (ac_document_version_id c)
      (ac_artifact_type c) (ac_media_type c) (ac_byte_size c) (ac_storage_object_key c) (tn_user_id tn) h
      (ac_metadata c) (Some t) = Inr a \<Longrightarrow>
    pred_option (\<lambda>j. \<exists>v \<in> set (sd_versions s (tn_organization_id tn, ac_document_id c)). dv_id v = j)
      (ac_document_version_id c) \<Longrightarrow>
    sd_artifact s (tn_organization_id tn, ac_document_id c, k) = None \<Longrightarrow>
    document_spec tn (RegisterArtifact c) s (Some DOCUMENT_ARTIFACT_REGISTERED)
      (s\<lparr>sd_artifact := (sd_artifact s)((tn_organization_id tn, ac_document_id c, k) \<mapsto> a)\<rparr>)"
| spec_read: "read_permission q = Some p \<Longrightarrow> p \<in> set (tn_permissions tn) \<Longrightarrow> document_spec tn q s None s"

definition document_committed :: "TenantContext \<Rightarrow> DocumentRequest \<Rightarrow> db \<Rightarrow> db \<Rightarrow> bool" where
  "document_committed tn q d0 d \<longleftrightarrow>
     document_tables d \<and> outside (tn_organization_id tn) d = outside (tn_organization_id tn) d0 \<and>
     (\<exists>ev. document_spec tn q (document_abs d0) ev (document_abs d) \<and>
       (case ev of
          None \<Rightarrow> audit_events d = audit_events d0
        | Some ty \<Rightarrow> \<exists>e. event_of tn ty e \<and> audit_events d = audit_events d0 @ [e]))"

section \<open>The requests refine it\<close>

lemma document_abs_audit [simp]: "document_abs (d\<lparr>audit_events := a\<rparr>) = document_abs d"
  by (simp add: document_abs_def)

lemma document_committed_logged:
  assumes "logged tn ty d1 d" and "document_tables d1"
    and "document_spec tn q (document_abs d0) (Some ty) (document_abs d1)"
    and "outside (tn_organization_id tn) d1 = outside (tn_organization_id tn) d0"
    and "audit_events d1 = audit_events d0"
  shows "document_committed tn q d0 d"
proof -
  obtain e where e: "event_of tn ty e" "d = d1\<lparr>audit_events := audit_events d1 @ [e]\<rparr>"
    using assms(1) unfolding logged_def by blast
  have "outside (tn_organization_id tn) d = outside (tn_organization_id tn) d0"
    using logged_outside [OF assms(1)] assms(4) by simp
  then show ?thesis
    using e assms(2,3,5) by (auto simp: document_committed_def intro!: exI [of _ "Some ty"])
qed

text \<open>A body whose handlers roll back first.\<close>

lemma commits_from_rollback:
  assumes m: "commits_from c P m Q" and h: "\<And>e. h e = bind rollback (\<lambda>_. k e)"
    and k: "\<And>e. commits_from c (\<lambda>d. d = c) (k e) Q"
  shows "commits_from c P (try_except m h) Q"
proof (rule commits_fromI)
  fix w e w'
  assume w: "committed w = c" "P (working w)" and t: "try_except m h w = (Inl e, w')"
  from t show "committed w' = c"
  proof (cases rule: try_except_cases)
    case (2 e1 w1)
    have c: "committed w1 = c" using commits_fromD(1) [OF m w 2(1)] .
    have run: "k e1 (w1\<lparr>working := committed w1\<rparr>) = (Inl e, w')"
      using 2(2) by (simp add: h bind_def eff_simps)
    show ?thesis by (rule commits_fromD(1) [OF k _ _ run]) (simp_all add: c)
  qed simp
next
  fix w x w'
  assume w: "committed w = c" "P (working w)" and t: "try_except m h w = (Inr x, w')"
  from t show "committed w' = working w' \<and> Q x (working w')"
  proof (cases rule: try_except_cases)
    case (1 y)
    then show ?thesis using commits_fromD(2) [OF m w, of x w'] by simp
  next
    case (2 e1 w1)
    have c: "committed w1 = c" using commits_fromD(1) [OF m w 2(1)] .
    have run: "k e1 (w1\<lparr>working := committed w1\<rparr>) = (Inr x, w')"
      using 2(2) by (simp add: h bind_def eff_simps)
    show ?thesis by (rule commits_fromD(2) [OF k _ _ run]) (simp_all add: c)
  qed
qed

lemma commits_from_roll_back_and_raise:
  "commits_from c P m Q \<Longrightarrow> commits_from c P (try_except m roll_back_and_raise) Q"
  by (rule commits_from_rollback, assumption, simp add: roll_back_and_raise_def, rule commits_from_raise)

lemma readonly_document_now [readonly_intros]: "readonly (document_now E t)"
  unfolding document_now_def by (intro readonly_intros)

lemma hash_unused_abs:
  assumes "first_violation (version_violations v d0) = None" and "dv_organization_id v = g" and "dv_content_hash v = h"
  shows "hash_unused g h (document_abs d0)"
  using assms by (auto simp: hash_unused_def document_abs_def versions_of_def version_violations_def split: if_splits)

lemma document_abs_changed:
  assumes "document_tables d0" and "document_at d0 (d_organization_id x') (d_id x') = Some x"
  shows "document_abs (d0\<lparr>documents := map (\<lambda>s. if s = x then x' else s) (documents d0)\<rparr>) =
    (document_abs d0)\<lparr>sd_document := (sd_document (document_abs d0))((d_organization_id x', d_id x') \<mapsto> x')\<rparr>"
  using row_at_replaced [OF document_tablesD(1) [OF assms(1)] assms(2)] by (auto simp: document_abs_def)

lemma find_by_hash_run:
  assumes ok: "document_tables d0"
  shows "hoare C (\<lambda>d. d = d0) (document_find_by_hash g h)
    (\<lambda>y d. (\<forall>x. y = Some x \<longrightarrow> document_at d0 g (d_id x) = Some x \<and>
       (\<exists>v \<in> set (versions_of d0 g (d_id x)). dv_content_hash v = h)) \<and> d = d0)"
proof (rule hoareI)
  fix w y w'
  assume w: "C (committed w)" "working w = d0" and run: "document_find_by_hash g h w = (Inr y, w')"
  have "document_at d0 g (d_id x) = Some x \<and> (\<exists>v \<in> set (versions_of d0 g (d_id x)). dv_content_hash v = h)"
    if y: "y = Some x" for x
    using find_by_hash_found [of w g h x w'] ok w run y by auto
  then show "C (committed w') \<and> (\<forall>x. y = Some x \<longrightarrow> document_at d0 g (d_id x) = Some x \<and>
       (\<exists>v \<in> set (versions_of d0 g (d_id x)). dv_content_hash v = h)) \<and> working w' = d0"
    using readonlyD [OF readonly_document_reads(3) run] w by simp
next
  fix w e w'
  assume "C (committed w)" "document_find_by_hash g h w = (Inl e, w')"
  then show "C (committed w')"
    using readonlyD [OF readonly_document_reads(3)] by metis
qed

lemma commits_from_return: "Q x d0 \<Longrightarrow> commits_from d0 (\<lambda>d. d = d0) (ret x) Q"
  by (auto simp: commits_from_def eff_simps)

lemma commits_from_option:
  "(z = None \<Longrightarrow> commits_from c P a Q) \<Longrightarrow> (\<And>y. z = Some y \<Longrightarrow> commits_from c P (f y) Q) \<Longrightarrow>
     commits_from c P (case z of None \<Rightarrow> a | Some y \<Rightarrow> f y) Q"
  by (cases z) simp_all

lemma commits_from_if:
  "(b \<Longrightarrow> commits_from c P m Q) \<Longrightarrow> (\<not> b \<Longrightarrow> commits_from c P n Q) \<Longrightarrow> commits_from c P (if b then m else n) Q"
  by simp

lemma known_committed:
  assumes ok: "document_tables d0" and p: "DOCUMENT_WRITE \<in> set (tn_permissions tn)"
    and h: "ContentHash_post_init (rc_content_hash c) = Inr h"
    and x: "document_at d0 (tn_organization_id tn) (d_id x) = Some x \<and>
      (\<exists>v \<in> set (versions_of d0 (tn_organization_id tn) (d_id x)). dv_content_hash v = h)"
  shows "document_committed tn (RegisterDocument c) d0 d0"
proof -
  obtain v where v: "v \<in> set (versions_of d0 (tn_organization_id tn) (d_id x))" "dv_content_hash v = h"
    using x by blast
  have "document_spec tn (RegisterDocument c) (document_abs d0) None (document_abs d0)"
    by (rule spec_known [OF p h, of _ "d_id x" x v]) (use x v in \<open>simp_all add: document_abs_def\<close>)
  then show ?thesis
    using ok by (auto simp: document_committed_def intro!: exI [of _ None])
qed

lemma registered_committed:
  assumes ok: "document_tables d0" and p: "DOCUMENT_WRITE \<in> set (tn_permissions tn)"
    and h: "ContentHash_post_init (rc_content_hash c) = Inr h" and ids: "i \<noteq> 0" "j \<noteq> 0"
    and v: "DocumentVersion_create t (DocumentVersionId j) (tn_organization_id tn) (DocumentId i) 1
      (rc_display_filename c) (rc_media_type c) (rc_byte_size c) h StoragePending (Some t) (tn_user_id tn) None = Inr v"
    and x: "Document_register t (DocumentId i) (tn_organization_id tn) (rc_display_filename c) (rc_source_type c)
      (rc_source_reference c) v (tn_user_id tn) (Some t) = Inr x"
    and viol: "first_violation (document_violations True x d0) = None" "first_violation (version_violations v d0) = None"
    and l: "logged tn DOCUMENT_REGISTERED (d0\<lparr>documents := documents d0 @ [x], document_versions := document_versions d0 @ [v]\<rparr>) d"
  shows "document_committed tn (RegisterDocument c) d0 d"
proof -
  let ?d = "d0\<lparr>documents := documents d0 @ [x], document_versions := document_versions d0 @ [v]\<rparr>"
  let ?k = "(tn_organization_id tn, DocumentId i)"
  note fv = version_created [OF v ids(2) _ h, simplified, OF ids(1)]
  note fx = Document_register_frame [OF x]
  have fresh: "DocumentId i \<notin> set (map d_id (documents d0))"
    using viol(1) fx by (auto simp: document_violations_def split: if_splits)
  have none: "versions_of d0 g (DocumentId i) = []" for g
  proof -
    have "dv_document_id u \<noteq> DocumentId i" if u: "u \<in> set (document_versions d0)" for u
    proof
      assume i: "dv_document_id u = DocumentId i"
      obtain y where "y \<in> set (documents d0)" "d_id y = dv_document_id u"
        using document_tablesD(6) [OF ok u] by (auto simp: version_ok_def document_missing_def)
      then show False using i fresh by (metis image_eqI set_map)
    qed
    then show ?thesis by (simp add: versions_of_def filter_empty_conv)
  qed
  have "document_tables ?d"
    by (rule document_tables_new_document [OF ok])
      (use fx fv ids viol in \<open>simp_all add: document_loads\<close>)
  moreover have "document_abs ?d = (document_abs d0)\<lparr>sd_document := (sd_document (document_abs d0))(?k \<mapsto> x),
      sd_versions := (sd_versions (document_abs d0))(?k := [v])\<rparr>"
    using row_at_inserted [of d_id x "documents d0" d_organization_id] fresh fx fv none
    by (auto simp: document_abs_def versions_of_def fun_eq_iff)
  moreover have "document_spec tn (RegisterDocument c) (document_abs d0) (Some DOCUMENT_REGISTERED)
      ((document_abs d0)\<lparr>sd_document := (sd_document (document_abs d0))(?k \<mapsto> x),
      sd_versions := (sd_versions (document_abs d0))(?k := [v])\<rparr>)"
    by (rule spec_register [OF p h hash_unused_abs [OF viol(2) fv(2,5)] v x])
      (use row_at_fresh [OF fresh] in \<open>simp add: document_abs_def\<close>)
  moreover have "outside (tn_organization_id tn) ?d = outside (tn_organization_id tn) d0"
  proof -
    have "outside (tn_organization_id tn) (d0\<lparr>documents := documents d0 @ [x]\<rparr>) = outside (tn_organization_id tn) d0"
      by (rule document_rows.outside_insert) (rule fx)
    then show ?thesis
      using document_version_rows.outside_insert [of v "tn_organization_id tn" "d0\<lparr>documents := documents d0 @ [x]\<rparr>"] fv by simp
  qed
  ultimately show ?thesis
    using document_committed_logged [OF l] by simp
qed

lemma save_registration_commits:
  assumes ok: "document_tables d0" and p: "DOCUMENT_WRITE \<in> set (tn_permissions tn)"
    and h: "ContentHash_post_init (rc_content_hash c) = Inr h" and ids: "i \<noteq> 0" "j \<noteq> 0"
    and v: "DocumentVersion_create t (DocumentVersionId j) (tn_organization_id tn) (DocumentId i) 1
      (rc_display_filename c) (rc_media_type c) (rc_byte_size c) h StoragePending (Some t) (tn_user_id tn) None = Inr v"
    and x: "Document_register t (DocumentId i) (tn_organization_id tn) (rc_display_filename c) (rc_source_type c)
      (rc_source_reference c) v (tn_user_id tn) (Some t) = Inr x"
  shows "commits_from d0 (\<lambda>d. d = d0) (save_registration E c tn t h x v) (\<lambda>x. document_committed tn (RegisterDocument c) d0)"
  unfolding save_registration_def
proof (rule commits_from_rollback)
  let ?find = "\<lambda>e. bind (document_find_by_hash (tn_organization_id tn) h) (\<lambda>duplicate.
     case duplicate of Some x \<Rightarrow> ret x | None \<Rightarrow> raise e)"
  show "(case e of
              DuplicateDocumentContentError m \<Rightarrow> bind rollback (\<lambda>_. ?find e)
            | _ \<Rightarrow> roll_back_and_raise e) =
          bind rollback (\<lambda>_. case e of DuplicateDocumentContentError m \<Rightarrow> ?find e | _ \<Rightarrow> raise e)" for e
    by (simp only: exn.case_distrib [of "\<lambda>m. bind rollback (\<lambda>_. m)"] roll_back_and_raise_def)
  have "commits_from d0 (\<lambda>d. d = d0) (?find e) (\<lambda>x. document_committed tn (RegisterDocument c) d0)" for e
    by (rule commits_from_step [OF find_by_hash_run [OF ok]], rule commits_from_option)
      (use known_committed [OF ok p h] in \<open>auto intro!: commits_from_raise commits_from_return\<close>)
  then show "commits_from d0 (\<lambda>d. d = d0) (case e of DuplicateDocumentContentError m \<Rightarrow> ?find e | _ \<Rightarrow> raise e)
      (\<lambda>x. document_committed tn (RegisterDocument c) d0)" for e
    by (cases e) (simp_all add: commits_from_raise)
  show "commits_from d0 (\<lambda>d. d = d0)
       (bind (document_add x v) (\<lambda>saved.
            bind (record_document_event E DOCUMENT_REGISTERED tn (DocumentId_value (d_id saved))
              (rc_audit_context c) t
              [(''source_type'', VStr (DocumentSourceType_value (d_source_type saved)))]) (\<lambda>_.
            bind commit (\<lambda>_. ret saved)))) (\<lambda>x. document_committed tn (RegisterDocument c) d0)"
    unfolding record_document_event_def
    by (rule commits_from_step [OF document_add_run], rule commits_from_logged)
      (use registered_committed [OF ok p h ids v x] in blast)
qed

lemma register_commits:
  assumes ok: "document_tables d0"
  shows "commits_from d0 (\<lambda>d. d = d0) (DocumentService_register E c tn) (\<lambda>x. document_committed tn (RegisterDocument c) d0)"
  unfolding DocumentService_register_def
proof (intro commits_from_bind_of_res commits_from_bind_readonly [OF readonly_document_now]
    commits_from_step [OF find_by_hash_run [OF ok]] commits_from_option commits_from_bind_readonly [OF readonly_basic(6)])
  fix u t h y x
  assume "require tn DOCUMENT_WRITE = Inr u" "ContentHash_post_init (rc_content_hash c) = Inr h"
    "\<forall>x. y = Some x \<longrightarrow> document_at d0 (tn_organization_id tn) (d_id x) = Some x \<and>
       (\<exists>v \<in> set (versions_of d0 (tn_organization_id tn) (d_id x)). dv_content_hash v = h)" "y = Some x"
  then show "commits_from d0 (\<lambda>d. d = d0) (ret x) (\<lambda>x. document_committed tn (RegisterDocument c) d0)"
    by (intro commits_from_return known_committed [OF ok]) auto
next
  fix u t h i i' j j' v x
  assume p: "require tn DOCUMENT_WRITE = Inr u" and h: "ContentHash_post_init (rc_content_hash c) = Inr h"
    and ids: "DocumentId_post_init i = Inr i'" "DocumentVersionId_post_init j = Inr j'"
    and v: "DocumentVersion_create t j' (tn_organization_id tn) i' 1 (rc_display_filename c) (rc_media_type c)
        (rc_byte_size c) h StoragePending (Some t) (tn_user_id tn) None = Inr v"
    and x: "Document_register t i' (tn_organization_id tn) (rc_display_filename c) (rc_source_type c)
        (rc_source_reference c) v (tn_user_id tn) (Some t) = Inr x"
  show "commits_from d0 (\<lambda>d. d = d0) (save_registration E c tn t h x v) (\<lambda>x. document_committed tn (RegisterDocument c) d0)"
    using save_registration_commits [OF ok _ h, of tn i j t v x] p ids v x by simp
qed

lemma document_found:
  assumes "document_tables d0" and "document_at d0 g i = Some x"
  shows "x \<in> set (documents d0)" "d_organization_id x = g" "d_id x = i" "document_from_record x = Inr x"
proof -
  show "x \<in> set (documents d0)" "d_organization_id x = g" "d_id x = i"
    using row_at_iff [OF document_tablesD(1) [OF assms(1)]] assms(2) by blast+
  then show "document_from_record x = Inr x"
    using document_tablesD(5) [OF assms(1)] by (simp add: document_ok_def)
qed

text \<open>Writing a changed document whose version history stays or has been extended.\<close>

lemma persist_change:
  assumes ok: "document_tables d0" and x: "document_at d0 g i = Some x"
    and ch: "Document_set_current_version t x v u (Some t) = Inr y \<or> Document_archive t x u (Some t) = Inr y \<or>
      Document_mark_stored t x u (Some t) = Inr y \<or> Document_mark_failed t x u (Some t) = Inr y"
  shows "hoare C (\<lambda>d. d = d0\<lparr>document_versions := vs\<rparr>) (persist_document_state y)
    (\<lambda>_ d. first_violation (document_violations False y d0) = None \<and>
      d = d0\<lparr>documents := map (\<lambda>s. if s = x then y else s) (documents d0), document_versions := vs\<rparr>)"
proof -
  note f = document_found [OF ok x] document_change_frame [OF ch document_found(4) [OF ok x]]
  have "hoare C (\<lambda>d. d = d0\<lparr>document_versions := vs\<rparr>) (persist_document_state y)
    (\<lambda>_ d. first_violation (document_violations False y (d0\<lparr>document_versions := vs\<rparr>)) = None \<and>
      d = (d0\<lparr>document_versions := vs\<rparr>)\<lparr>documents := map (\<lambda>s. if s = x then y else s) (documents (d0\<lparr>document_versions := vs\<rparr>))\<rparr>)"
    by (rule persist_run) (use document_tablesD(1) [OF ok] x f in simp_all)
  moreover have "(d0\<lparr>document_versions := vs\<rparr>)\<lparr>documents := z\<rparr> = d0\<lparr>documents := z, document_versions := vs\<rparr>" for z
    by (cases d0) simp
  ultimately show ?thesis by simp
qed

lemma archived_committed:
  assumes ok: "document_tables d0" and p: "DOCUMENT_ARCHIVE \<in> set (tn_permissions tn)"
    and q: "archives q = Some (i, l)" "pred_option (\<lambda>n. d_lock_version x = n) l"
    and x: "document_at d0 (tn_organization_id tn) i = Some x"
    and y: "Document_archive t x (tn_user_id tn) (Some t) = Inr y"
    and viol: "first_violation (document_violations False y d0) = None"
    and l: "logged tn DOCUMENT_ARCHIVED (d0\<lparr>documents := map (\<lambda>s. if s = x then y else s) (documents d0)\<rparr>) d"
  shows "document_committed tn q d0 d"
proof -
  let ?d = "d0\<lparr>documents := map (\<lambda>s. if s = x then y else s) (documents d0)\<rparr>"
  note f = document_found [OF ok x] document_change_frame [OF _ document_found(4) [OF ok x], of t _ "tn_user_id tn" y]
  have y': "wf_document y" "d_id y = i" "d_organization_id y = tn_organization_id tn"
    using f y by simp_all
  have at: "document_at d0 (d_organization_id y) (d_id y) = Some x"
    using x y' by simp
  have cur: "d_current_version_id y = d_current_version_id x"
    using y by (rule document_change_current)
  have "document_tables ?d"
    by (rule document_tables_changed [OF ok at _ viol cur])
      (use y' cur f in \<open>simp add: document_loads\<close>)
  moreover have "document_spec tn q (document_abs d0) (Some DOCUMENT_ARCHIVED) (document_abs ?d)"
    using spec_archive [OF q(1) p _ q(2) y, of "document_abs d0"] document_abs_changed [OF ok at] x y'
    by (simp add: document_abs_def)
  moreover have "outside (tn_organization_id tn) ?d = outside (tn_organization_id tn) d0"
    using document_table.outside_update [OF at] y' by simp
  ultimately show ?thesis
    using document_committed_logged [OF l] by simp
qed

lemma archive_with_lock_commits:
  assumes ok: "document_tables d0" and q: "archives q = Some (xc_document_id c, l)"
    and l: "pred_option (\<lambda>n. xc_expected_lock_version c = n) l"
  shows "commits_from d0 (\<lambda>d. d = d0) (DocumentService_archive_with_lock E c tn now) (\<lambda>x. document_committed tn q d0)"
  unfolding DocumentService_archive_with_lock_def document_get_for_update_eq
proof (intro commits_from_bind_of_res commits_from_bind_readonly [OF readonly_document_now]
    commits_from_step [OF document_get_run [OF ok]] commits_from_option commits_from_if commits_from_raise
    commits_from_roll_back_and_raise)
  fix u t z x y
  assume p: "require tn DOCUMENT_ARCHIVE = Inr u" and x: "z = document_at d0 (tn_organization_id tn) (xc_document_id c)" "z = Some x"
    and lock: "\<not> d_lock_version x \<noteq> xc_expected_lock_version c"
    and y: "Document_archive t x (tn_user_id tn) (Some t) = Inr y"
  have at: "document_at d0 (tn_organization_id tn) (xc_document_id c) = Some x" using x by simp
  have run: "hoare (\<lambda>d. d = d0) (\<lambda>d. d = d0) (document_archive_row y)
      (\<lambda>r d. (r = y \<and> first_violation (document_violations False y d0) = None) \<and>
        d = d0\<lparr>documents := map (\<lambda>s. if s = x then y else s) (documents d0)\<rparr>)"
    unfolding document_archive_row_def
    by (rule hoare_bind [OF persist_change [OF ok at, of t _ "tn_user_id tn" y _ "document_versions d0", simplified]])
      (use y in \<open>auto intro: hoare_ret\<close>)
  show "commits_from d0 (\<lambda>d. d = d0)
     (bind (document_archive_row y) (\<lambda>saved.
              bind (record_document_event E DOCUMENT_ARCHIVED tn (DocumentId_value (d_id saved))
                (xc_audit_context c) t []) (\<lambda>_.
              bind commit (\<lambda>_. ret saved)))) (\<lambda>x. document_committed tn q d0)"
    unfolding record_document_event_def
    by (rule commits_from_step [OF run], rule commits_from_logged)
      (use archived_committed [OF ok _ q _ at y] p l lock in simp)
qed

lemma service_get_run:
  assumes "document_tables d0"
  shows "hoare C (\<lambda>d. d = d0) (DocumentService_get i tn)
    (\<lambda>x d. (DOCUMENT_READ \<in> set (tn_permissions tn) \<and> document_at d0 (tn_organization_id tn) i = Some x) \<and> d = d0)"
  unfolding DocumentService_get_def
  by (rule hoare_bind_of_res, rule hoare_step_fact [OF document_get_run [OF assms]], rule hoare_option)
    (auto intro!: hoare_raise hoare_ret)

lemma document_archive_commits:
  assumes ok: "document_tables d0"
  shows "commits_from d0 (\<lambda>d. d = d0) (DocumentService_archive E i tn now a) (\<lambda>x. document_committed tn (ArchiveCurrent i a) d0)"
  unfolding DocumentService_archive_def
  by (rule commits_from_step [OF service_get_run [OF ok]], rule archive_with_lock_commits [OF ok, where l = None]) simp_all

lemma version_committed:
  assumes ok: "document_tables d0" and p: "DOCUMENT_VERSION_CREATE \<in> set (tn_permissions tn)"
    and h: "ContentHash_post_init (vc_content_hash c) = Inr h" and j: "j \<noteq> 0"
    and x: "document_at d0 (tn_organization_id tn) (vc_document_id c) = Some x"
    and v: "DocumentVersion_create t (DocumentVersionId j) (tn_organization_id tn) (vc_document_id c)
      (int (length (versions_of d0 (tn_organization_id tn) (vc_document_id c))) + 1) (vc_original_filename c)
      (vc_media_type c) (vc_byte_size c) h (vc_storage_state c) (Some t) (tn_user_id tn) None = Inr v"
    and y: "Document_set_current_version t x v (tn_user_id tn) (Some t) = Inr y"
    and viol: "first_violation (version_violations v d0) = None" "first_violation (document_violations False y d0) = None"
    and l: "logged tn DOCUMENT_VERSION_CREATED (d0\<lparr>documents := map (\<lambda>s. if s = x then y else s) (documents d0),
      document_versions := document_versions d0 @ [v]\<rparr>) d"
  shows "document_committed tn (CreateVersion c) d0 d"
proof -
  let ?d1 = "d0\<lparr>documents := map (\<lambda>s. if s = x then y else s) (documents d0)\<rparr>"
  let ?d = "d0\<lparr>documents := map (\<lambda>s. if s = x then y else s) (documents d0), document_versions := document_versions d0 @ [v]\<rparr>"
  let ?k = "(tn_organization_id tn, vc_document_id c)"
  note f = document_found [OF ok x]
  have i: "DocumentId_value (vc_document_id c) \<noteq> 0"
    using f by (auto simp: document_loads)
  note fv = version_created [OF v j i h]
  have y': "wf_document y" "d_id y = vc_document_id c" "d_organization_id y = tn_organization_id tn"
    using document_change_frame [OF _ f(4), of t _ "tn_user_id tn" y] y f by auto
  have at: "document_at d0 (d_organization_id y) (d_id y) = Some x"
    using x y' by simp
  have cur: "d_current_version_id y = dv_id v"
    using y by (rule document_change_current)
  have "document_tables ?d"
    by (rule document_tables_new_version [OF ok at _ viol(2) cur fv(7) viol(1)])
      (use y' cur f i j fv in \<open>simp_all add: document_loads\<close>)
  moreover have "document_abs ?d = (document_abs d0)
      \<lparr>sd_document := (sd_document (document_abs d0))(?k \<mapsto> y),
       sd_versions := (sd_versions (document_abs d0))(?k := sd_versions (document_abs d0) ?k @ [v])\<rparr>"
    using row_at_replaced [OF document_tablesD(1) [OF ok] at] y' fv
    by (auto simp: document_abs_def versions_of_def fun_eq_iff)
  moreover have "document_spec tn (CreateVersion c) (document_abs d0) (Some DOCUMENT_VERSION_CREATED)
      ((document_abs d0)\<lparr>sd_document := (sd_document (document_abs d0))(?k \<mapsto> y),
       sd_versions := (sd_versions (document_abs d0))(?k := sd_versions (document_abs d0) ?k @ [v])\<rparr>)"
    by (rule spec_version [OF p h hash_unused_abs [OF viol(1) fv(2,5)] _ _ y])
      (use x v in \<open>simp_all add: document_abs_def\<close>)
  moreover have "outside (tn_organization_id tn) ?d = outside (tn_organization_id tn) d0"
    using document_version_rows.outside_insert [of v "tn_organization_id tn" ?d1] fv
      document_table.outside_update [OF at] y' by simp
  ultimately show ?thesis
    using document_committed_logged [OF l] by simp
qed

lemma create_version_commits:
  assumes ok: "document_tables d0"
  shows "commits_from d0 (\<lambda>d. d = d0) (DocumentService_create_version E c tn) (\<lambda>x. document_committed tn (CreateVersion c) d0)"
  unfolding DocumentService_create_version_def document_get_for_update_eq
proof (intro commits_from_bind_of_res commits_from_bind_readonly [OF readonly_document_now]
    commits_from_step [OF document_get_run [OF ok]] commits_from_option commits_from_raise
    commits_from_step [OF version_list_length [OF ok]] commits_from_bind_readonly [OF readonly_basic(6)]
    commits_from_roll_back_and_raise)
  fix u t z x vs j j' h v y
  assume p: "require tn DOCUMENT_VERSION_CREATE = Inr u"
    and x: "z = document_at d0 (tn_organization_id tn) (vc_document_id c)" "z = Some x"
    and n: "length vs = length (versions_of d0 (tn_organization_id tn) (vc_document_id c))"
    and j: "DocumentVersionId_post_init j = Inr j'" and h: "ContentHash_post_init (vc_content_hash c) = Inr h"
    and v: "DocumentVersion_create t j' (tn_organization_id tn) (vc_document_id c) (int (length vs) + 1)
      (vc_original_filename c) (vc_media_type c) (vc_byte_size c) h (vc_storage_state c) (Some t) (tn_user_id tn) None = Inr v"
    and y: "Document_set_current_version t x v (tn_user_id tn) (Some t) = Inr y"
  have at: "document_at d0 (tn_organization_id tn) (vc_document_id c) = Some x" using x by simp
  have j': "j' = DocumentVersionId j" "j \<noteq> 0" using j by simp_all
  have i: "DocumentId_value (vc_document_id c) \<noteq> 0"
    using document_found [OF ok at] by (auto simp: document_loads)
  have saved: "version_from_record v = Inr v"
    using version_created(7) [OF v [unfolded j'] j'(2) i h] .
  have fits: "dv_organization_id v = d_organization_id y \<and> dv_document_id v = d_id y"
    using version_created(2,3) [OF v [unfolded j'] j'(2) i h] document_found [OF ok at]
      document_change_frame [OF _ document_found(4) [OF ok at], of t v "tn_user_id tn" y] y by simp
  have set: "hoare (\<lambda>d. d = d0) (\<lambda>d. d = d0\<lparr>document_versions := document_versions d0 @ [v]\<rparr>) (document_set_current_row y v)
      (\<lambda>r d. first_violation (document_violations False y d0) = None \<and>
        d = d0\<lparr>documents := map (\<lambda>s. if s = x then y else s) (documents d0), document_versions := document_versions d0 @ [v]\<rparr>)"
    unfolding document_set_current_row_def
    by (rule hoare_if, use fits in simp, rule hoare_bind [OF persist_change [OF ok at, of t v "tn_user_id tn"]])
      (use y in \<open>auto intro: hoare_ret\<close>)
  show "commits_from d0 (\<lambda>d. d = d0)
     (bind (version_add v) (\<lambda>saved.
            bind (document_set_current_row y saved) (\<lambda>_.
            bind (record_document_event E DOCUMENT_VERSION_CREATED tn (DocumentId_value (d_id x))
              (vc_audit_context c) t
              [(''version_id'', VUuid (DocumentVersionId_value (dv_id saved))),
               (''version_number'', VInt (dv_version_number saved))]) (\<lambda>_.
            bind commit (\<lambda>_. ret saved))))) (\<lambda>x. document_committed tn (CreateVersion c) d0)"
    unfolding record_document_event_def
  proof (rule commits_from_step [OF version_add_run])
    fix r
    assume r: "version_from_record v = Inr r \<and> first_violation (version_violations v d0) = None"
    then have rv: "r = v" using saved by simp
    show "commits_from d0 (\<lambda>d. d = d0\<lparr>document_versions := document_versions d0 @ [v]\<rparr>)
       (bind (document_set_current_row y r) (\<lambda>_.
            bind (tenant_event ''document'' E DOCUMENT_VERSION_CREATED tn (DocumentId_value (d_id x))
              (vc_audit_context c) t
              [(''version_id'', VUuid (DocumentVersionId_value (dv_id r))),
               (''version_number'', VInt (dv_version_number r))]) (\<lambda>_.
            bind commit (\<lambda>_. ret r)))) (\<lambda>x. document_committed tn (CreateVersion c) d0)"
      unfolding rv
      by (rule commits_from_step [OF set], rule commits_from_logged)
        (use version_committed [OF ok _ h j'(2) at _ y] v [unfolded j' n] p r in simp)
  qed
qed

lemma service_get_version_run:
  assumes "document_tables d0"
  shows "hoare C (\<lambda>d. d = d0) (DocumentService_get_version tn i j)
    (\<lambda>v d. version_at d0 (tn_organization_id tn) (i, j) = Some v \<and> d = d0)"
  unfolding DocumentService_get_version_def
  by (rule hoare_bind_of_res, rule hoare_step_fact [OF version_get_run [OF assms]], rule hoare_option)
    (auto intro!: hoare_raise hoare_ret)

lemma artifact_committed:
  assumes ok: "document_tables d0" and p: "{ARTIFACT_READ, DOCUMENT_READ} \<subseteq> set (tn_permissions tn)"
    and x: "document_at d0 (tn_organization_id tn) (ac_document_id c) = Some x"
    and h: "opt_res ContentHash_post_init (ac_content_hash c) = Inr h"
    and a: "DocumentArtifact_create t k (tn_organization_id tn) (ac_document_id c) (ac_document_version_id c)
      (ac_artifact_type c) (ac_media_type c) (ac_byte_size c) (ac_storage_object_key c) (tn_user_id tn) h
      (ac_metadata c) (Some t) = Inr a"
    and v: "pred_option (\<lambda>j. \<exists>v. version_at d0 (tn_organization_id tn) (ac_document_id c, j) = Some v) (ac_document_version_id c)"
    and r: "artifact_from_record a = Inr r" "artifact_violation a d0 = None"
    and l: "logged tn DOCUMENT_ARTIFACT_REGISTERED (d0\<lparr>document_artifacts := document_artifacts d0 @ [a]\<rparr>) d"
  shows "document_committed tn (RegisterArtifact c) d0 d"
proof -
  let ?d = "d0\<lparr>document_artifacts := document_artifacts d0 @ [a]\<rparr>"
  let ?k = "(tn_organization_id tn, ac_document_id c, k)"
  note post = a [unfolded DocumentArtifact_create_def]
  note f = DocumentArtifact_post_init_frame [OF post, simplified]
  have ra: "artifact_from_record a = Inr a"
    using artifact_loaded [OF post r(1)] h r(1) by simp
  have fresh: "k \<notin> set (map da_id (document_artifacts d0))"
    using r(2) f(1) by (auto simp: artifact_violation_def split: if_splits)
  then have fresh': "artifact_key a \<notin> set (map artifact_key (document_artifacts d0))"
    using f(1) by (auto simp: artifact_key_def)
  have key: "artifact_key a = (ac_document_id c, k)"
    using f by (simp add: artifact_key_def)
  have vs: "\<exists>v \<in> set (versions_of d0 (tn_organization_id tn) (ac_document_id c)). dv_id v = j"
    if "version_at d0 (tn_organization_id tn) (ac_document_id c, j) = Some v" for j v
    using that row_at_iff [OF version_keys [OF ok]] by (auto simp: versions_of_def version_key_def)
  have "document_spec tn (RegisterArtifact c) (document_abs d0) (Some DOCUMENT_ARTIFACT_REGISTERED)
      ((document_abs d0)\<lparr>sd_artifact := (sd_artifact (document_abs d0))(?k \<mapsto> a)\<rparr>)"
    by (rule spec_artifact [OF p _ h a])
      (use x v vs row_at_fresh [OF fresh'] key in \<open>auto simp: document_abs_def split: option.splits simp: pred_option_def\<close>)
  moreover have "document_abs ?d = (document_abs d0)\<lparr>sd_artifact := (sd_artifact (document_abs d0))(?k \<mapsto> a)\<rparr>"
    using row_at_inserted [OF fresh', of da_organization_id] f key by (auto simp: document_abs_def fun_eq_iff)
  moreover have "outside (tn_organization_id tn) ?d = outside (tn_organization_id tn) d0"
    by (rule document_artifact_rows.outside_insert) (use f in simp)
  ultimately show ?thesis
    using document_committed_logged [OF l document_tables_new_artifact [OF ok ra r(2)]] by simp
qed

lemma optional_version_run:
  assumes "document_tables d0"
  shows "hoare C (\<lambda>d. d = d0)
    (case j of None \<Rightarrow> ret None | Some i' \<Rightarrow> bind (DocumentService_get_version tn i i') (\<lambda>v. ret (Some v)))
    (\<lambda>v d. pred_option (\<lambda>i'. \<exists>v. version_at d0 (tn_organization_id tn) (i, i') = Some v) j \<and> d = d0)"
  by (rule hoare_option)
    (auto intro!: hoare_ret hoare_step_fact [OF service_get_version_run [OF assms]])

lemma artifact_commits:
  assumes ok: "document_tables d0"
  shows "commits_from d0 (\<lambda>d. d = d0) (DocumentService_register_artifact E c tn) (\<lambda>x. document_committed tn (RegisterArtifact c) d0)"
  unfolding DocumentService_register_artifact_def record_document_event_def
proof (intro commits_from_bind_of_res commits_from_bind_readonly [OF readonly_document_now]
    commits_from_step [OF service_get_run [OF ok]] commits_from_step [OF optional_version_run [OF ok]]
    commits_from_bind_readonly [OF readonly_basic(6)] commits_from_roll_back_and_raise
    commits_from_step [OF artifact_add_run] commits_from_logged)
  fix u t x z j k h a s r d
  assume "require tn ARTIFACT_READ = Inr u"
    "DOCUMENT_READ \<in> set (tn_permissions tn) \<and> document_at d0 (tn_organization_id tn) (ac_document_id c) = Some x"
    "pred_option (\<lambda>i'. \<exists>v. version_at d0 (tn_organization_id tn) (ac_document_id c, i') = Some v) (ac_document_version_id c)"
    "opt_res ContentHash_post_init (ac_content_hash c) = Inr h"
    "DocumentArtifact_create t k (tn_organization_id tn) (ac_document_id c) (ac_document_version_id c)
      (ac_artifact_type c) (ac_media_type c) (ac_byte_size c) (ac_storage_object_key c) (tn_user_id tn) h
      (ac_metadata c) (Some t) = Inr a"
    "artifact_from_record a = Inr r \<and> artifact_violation a d0 = None"
    "logged tn DOCUMENT_ARTIFACT_REGISTERED (d0\<lparr>document_artifacts := document_artifacts d0 @ [a]\<rparr>) d"
  then show "document_committed tn (RegisterArtifact c) d0 d"
    by (intro artifact_committed [OF ok]) auto
qed

lemma document_read_commits:
  assumes ok: "document_tables d0" and q: "read_permission q = Some p"
    and m: "readonly m" "returns m (\<lambda>_. p \<in> set (tn_permissions tn))"
  shows "commits_from d0 (\<lambda>d. d = d0) m (\<lambda>x. document_committed tn q d0)"
proof (rule commits_fromI)
  fix w x w'
  assume w: "committed w = d0" "working w = d0" "m w = (Inr x, w')"
  have "document_spec tn q (document_abs d0) None (document_abs d0)"
    using q returnsD [OF m(2) w(3)] by (rule spec_read)
  then have "document_committed tn q d0 d0"
    using ok by (auto simp: document_committed_def intro!: exI [of _ None])
  then show "committed w' = working w' \<and> document_committed tn q d0 (working w')"
    using readonlyD [OF m(1) w(3)] w by simp
next
  fix w e w'
  assume "committed w = d0" "m w = (Inl e, w')"
  then show "committed w' = d0"
    using readonlyD [OF m(1)] by blast
qed

lemma document_reads:
  "readonly (DocumentService_get i tn)" "returns (DocumentService_get i tn) (\<lambda>_. DOCUMENT_READ \<in> set (tn_permissions tn))"
  "readonly (DocumentService_list tn q)" "returns (DocumentService_list tn q) (\<lambda>_. DOCUMENT_READ \<in> set (tn_permissions tn))"
  "readonly (DocumentService_get_version tn i j)"
  "returns (DocumentService_get_version tn i j) (\<lambda>_. DOCUMENT_VERSION_READ \<in> set (tn_permissions tn))"
  "readonly (DocumentService_list_versions i tn)"
  "returns (DocumentService_list_versions i tn) (\<lambda>_. DOCUMENT_VERSION_READ \<in> set (tn_permissions tn))"
  "readonly (DocumentService_list_artifacts i tn)"
  "returns (DocumentService_list_artifacts i tn) (\<lambda>_. ARTIFACT_READ \<in> set (tn_permissions tn))"
  "readonly (DocumentService_get_artifact tn i k)"
  "returns (DocumentService_get_artifact tn i k) (\<lambda>_. ARTIFACT_READ \<in> set (tn_permissions tn))"
  unfolding DocumentService_get_def DocumentService_list_def DocumentService_get_version_def
    DocumentService_list_versions_def DocumentService_list_artifacts_def DocumentService_get_artifact_def
  by (intro readonly_intros returns_require)+

lemma document_request_commits:
  assumes ok: "document_tables d0"
  shows "commits_from d0 (\<lambda>d. d = d0) (document_request E tn q) (\<lambda>_. document_committed tn q d0)"
proof (cases q)
  case (RegisterDocument c)
  show ?thesis
    unfolding RegisterDocument document_request.simps
    by (rule commits_from_forget [OF register_commits [OF ok]])
next
  case (CreateVersion c)
  show ?thesis
    unfolding CreateVersion document_request.simps
    by (rule commits_from_forget [OF create_version_commits [OF ok]])
next
  case (ArchiveDocument c)
  show ?thesis
    unfolding ArchiveDocument document_request.simps
    by (rule commits_from_forget [OF archive_with_lock_commits [OF ok, where l = "Some (xc_expected_lock_version c)"]]) simp_all
next
  case (ArchiveCurrent i a)
  show ?thesis
    unfolding ArchiveCurrent document_request.simps
    by (rule commits_from_forget [OF document_archive_commits [OF ok]])
next
  case (RegisterArtifact c)
  show ?thesis
    unfolding RegisterArtifact document_request.simps
    by (rule commits_from_forget [OF artifact_commits [OF ok]])
next
  case (GetDocument i)
  show ?thesis
    unfolding GetDocument document_request.simps
    by (rule commits_from_forget [OF document_read_commits [OF ok _ document_reads(1,2)]]) simp
next
  case (ListDocuments f)
  show ?thesis
    unfolding ListDocuments document_request.simps
    by (rule commits_from_forget [OF document_read_commits [OF ok _ document_reads(3,4)]]) simp
next
  case (GetVersion i j)
  show ?thesis
    unfolding GetVersion document_request.simps
    by (rule commits_from_forget [OF document_read_commits [OF ok _ document_reads(5,6)]]) simp
next
  case (ListVersions i)
  show ?thesis
    unfolding ListVersions document_request.simps
    by (rule commits_from_forget [OF document_read_commits [OF ok _ document_reads(7,8)]]) simp
next
  case (ListArtifacts i)
  show ?thesis
    unfolding ListArtifacts document_request.simps
    by (rule commits_from_forget [OF document_read_commits [OF ok _ document_reads(9,10)]]) simp
next
  case (GetArtifact i k)
  show ?thesis
    unfolding GetArtifact document_request.simps
    by (rule commits_from_forget [OF document_read_commits [OF ok _ document_reads(11,12)]]) simp
qed

lemma document_request_served:
  assumes "document_tables (committed w)" and "working w = committed w"
    and "session_scope (document_request E tn q) w = (r, w')"
  shows "working w' = committed w'" and "document_tables (committed w')"
    and "case r of Inl e \<Rightarrow> committed w' = committed w | Inr x \<Rightarrow> document_committed tn q (committed w) (committed w')"
proof -
  note run = commits_from_run [OF document_request_commits [OF assms(1)] assms(2,3)]
  show "working w' = committed w'" by (rule run(1))
  show c: "case r of Inl e \<Rightarrow> committed w' = committed w | Inr x \<Rightarrow> document_committed tn q (committed w) (committed w')"
    by (rule run(2))
  show "document_tables (committed w')"
    using c assms(1) by (cases r) (auto simp: document_committed_def)
qed

section \<open>What stays\<close>

text \<open>
  What no request takes back: documents, their version histories as prefixes of the later
  ones, their lock versions, the archival of a document, and artifacts.
\<close>

definition document_later :: "document_state \<Rightarrow> document_state \<Rightarrow> bool" where
  "document_later s s' \<longleftrightarrow>
     (\<forall>k. \<exists>vs. sd_versions s' k = sd_versions s k @ vs) \<and>
     (\<forall>k x. sd_document s k = Some x \<longrightarrow> (\<exists>x'. sd_document s' k = Some x' \<and> d_lock_version x \<le> d_lock_version x' \<and>
        (d_status x = DocArchived \<longrightarrow> d_status x' = DocArchived))) \<and>
     (\<forall>k a. sd_artifact s k = Some a \<longrightarrow> sd_artifact s' k = Some a)"

lemma document_later_refl: "document_later s s"
  by (simp add: document_later_def)

lemma document_later_trans:
  assumes "document_later s s1" and "document_later s1 s2"
  shows "document_later s s2"
  unfolding document_later_def
proof (intro conjI allI impI)
  show "\<exists>vs. sd_versions s2 k = sd_versions s k @ vs" for k
    using assms unfolding document_later_def by (metis append.assoc)
  show "\<exists>x'. sd_document s2 k = Some x' \<and> d_lock_version x \<le> d_lock_version x' \<and>
        (d_status x = DocArchived \<longrightarrow> d_status x' = DocArchived)" if "sd_document s k = Some x" for k x
    using assms that unfolding document_later_def by (meson order_trans)
  show "sd_artifact s2 k = Some a" if "sd_artifact s k = Some a" for k a
    using assms that unfolding document_later_def by blast
qed

lemma document_op_frames:
  "Document_set_current_version t x v u (Some t) = Inr y \<Longrightarrow> d_lock_version y = d_lock_version x + 1 \<and> d_status x \<noteq> DocArchived"
  "Document_archive t x u (Some t) = Inr y \<Longrightarrow> d_lock_version y = d_lock_version x + 1 \<and> d_status y = DocArchived"
  using document_step_frame(2,6) [of x "SetCurrentVersionOp v u t" y] document_step_frame(2,6) [of x "ArchiveDocumentOp u t" y]
  by (auto split: if_splits)

text \<open>A document that is not there has no versions.\<close>

lemma document_spec_later:
  assumes "document_spec tn q s ev s'" and "\<And>k. sd_document s k = None \<Longrightarrow> sd_versions s k = []"
  shows "document_later s s'"
  using assms
proof (induction rule: document_spec.induct)
  case (spec_register c h s t j i v x)
  then show ?case by (auto simp: document_later_def)
next
  case (spec_version c h s x t j v x')
  then show ?case
    using document_op_frames(1) [OF spec_version(6)] by (auto simp: document_later_def)
next
  case (spec_archive q i l s x t x')
  then show ?case
    using document_op_frames(2) [OF spec_archive(5)] by (auto simp: document_later_def)
qed (auto simp: document_later_def)

lemma no_document_no_versions:
  assumes ok: "document_tables d" and "document_at d g i = None"
  shows "versions_of d g i = []"
proof -
  have "\<not> (dv_organization_id v = g \<and> dv_document_id v = i)" if v: "v \<in> set (document_versions d)" for v
  proof
    assume "dv_organization_id v = g \<and> dv_document_id v = i"
    then obtain x where "x \<in> set (documents d)" "d_organization_id x = g" "d_id x = i"
      using document_tablesD(6) [OF ok v] by (auto simp: version_ok_def document_missing_def)
    then have "document_at d g i = Some x"
      using row_at_iff [OF document_tablesD(1) [OF ok]] by blast
    then show False using assms(2) by simp
  qed
  then show ?thesis by (simp add: versions_of_def filter_empty_conv)
qed

lemma serve_documents_later:
  assumes "document_tables (committed w)" and "working w = committed w"
  shows "document_tables (committed (serve_documents E qs w)) \<and>
    working (serve_documents E qs w) = committed (serve_documents E qs w) \<and>
    document_later (document_abs (committed w)) (document_abs (committed (serve_documents E qs w)))"
  using assms
proof (induction qs arbitrary: w)
  case Nil
  then show ?case by (simp add: document_later_refl)
next
  case (Cons a qs)
  obtain tn q where a: "a = (tn, q)" by fastforce
  obtain r w' where s: "session_scope (document_request E tn q) w = (r, w')" by fastforce
  note served = document_request_served [OF Cons.prems s]
  have "sd_versions (document_abs (committed w)) k = []" if "sd_document (document_abs (committed w)) k = None" for k
    using that no_document_no_versions [OF Cons.prems(1)] by (cases k) (simp add: document_abs_def)
  then have "document_later (document_abs (committed w)) (document_abs (committed w'))"
    using served(3) document_spec_later document_later_refl
    by (cases r) (auto simp: document_committed_def)
  then show ?case
    using Cons.IH [OF served(2,1)] a s document_later_trans by simp
qed

section \<open>Downloads\<close>

text \<open>
  A download adds at most one call of the client: a request for a URL of an object of the
  tenant, valid for at most an hour. It never commits.
\<close>

definition tenant_key :: "uuid \<Rightarrow> string \<Rightarrow> bool" where
  "tenant_key g k \<longleftrightarrow> startswith k (''documents/'' @ uuid_str g @ ''/'') \<or> startswith k (''artifacts/'' @ uuid_str g @ ''/'')"

lemma startswith_prefix: "startswith s (p @ q) \<Longrightarrow> startswith s p"
  by (auto simp: startswith_iff)

lemma bind_res_InrE:
  "bind_res r f = Inr y \<Longrightarrow> (\<And>x. r = Inr x \<Longrightarrow> f x = Inr y \<Longrightarrow> thesis) \<Longrightarrow> thesis"
  by auto

text \<open>Reading a row checks its key again, so a row that is read holds a key of its own tenant.\<close>

lemma version_tenant_key:
  assumes "version_from_record u = Inr v"
  shows "tenant_key (dv_organization_id u) (StorageObjectKey_value (dv_storage_object_key v))"
proof -
  obtain i d h k where p: "DocumentVersion_post_init
       (u\<lparr>dv_id := i, dv_document_id := d, dv_content_hash := h, dv_storage_object_key := k,
          dv_created_at := astimezone_utc (dv_created_at u)\<rparr>) = Inr v"
    using assms unfolding version_from_record_def by (elim bind_res_InrE)
  have "startswith (StorageObjectKey_value (dv_storage_object_key v)) ((''documents/'' @ uuid_str (dv_organization_id u) @ ''/'') @ ''sha256/'')"
    using DocumentVersion_post_init_key [OF p] by simp
  then show ?thesis
    unfolding tenant_key_def using startswith_prefix by blast
qed

lemma artifact_tenant_key:
  assumes "artifact_from_record b = Inr a"
  shows "tenant_key (da_organization_id b) (StorageObjectKey_value (da_storage_object_key a))"
proof -
  obtain i d v h k where p: "DocumentArtifact_post_init
       (b\<lparr>da_id := i, da_document_id := d, da_document_version_id := v, da_content_hash := h,
          da_storage_object_key := k, da_created_at := astimezone_utc (da_created_at b)\<rparr>) = Inr a"
    using assms unfolding artifact_from_record_def by (elim bind_res_InrE)
  note f = DocumentArtifact_post_init_frame [OF p]
  have "startswith (StorageObjectKey_value (da_storage_object_key a))
      ((''artifacts/'' @ uuid_str (da_organization_id b) @ ''/'') @ uuid_str (DocumentId_value (da_document_id a)) @ ''/'')"
    using f(8) f(2) by (simp add: DocumentArtifact_post_init_def ensure_key_is_tenant_safe_def raise_if_def split: if_splits)
  then show ?thesis
    unfolding tenant_key_def using startswith_prefix by blast
qed

lemma returns_row:
  assumes "\<And>x y. P x \<Longrightarrow> f x = Inr y \<Longrightarrow> R y"
  shows "returns (bind (bind (query (\<lambda>d. filter P (rows d))) (\<lambda>rs. of_res (scalar_one_or_none rs))) (opt_row f))
    (\<lambda>r. \<forall>y. r = Some y \<longrightarrow> R y)"
  unfolding returns_def
proof (intro allI impI)
  fix w r w' y
  assume run: "bind (bind (query (\<lambda>d. filter P (rows d))) (\<lambda>rs. of_res (scalar_one_or_none rs))) (opt_row f) w = (Inr r, w')"
    and y: "r = Some y"
  obtain x where x: "scalar_one_or_none (filter P (rows (working w))) = Inr (Some x)" and fx: "f x = Inr y"
    using run y by (auto simp: opt_row_def bind_def eff_simps opt_res_eq_Inr split: sum.splits)
  have "filter P (rows (working w)) = [x]"
    by (rule scalar_found [OF x])
  then have "P x" by (metis filter_eq_ConsD)
  then show "R y" using assms fx by blast
qed

lemma returns_document_rows:
  "returns (version_get g i j) (\<lambda>r. \<forall>v. r = Some v \<longrightarrow> tenant_key g (StorageObjectKey_value (dv_storage_object_key v)))"
  "returns (artifact_get g i k) (\<lambda>r. \<forall>a. r = Some a \<longrightarrow> tenant_key g (StorageObjectKey_value (da_storage_object_key a)))"
  unfolding version_get_def artifact_get_def
  by (rule returns_row, elim conjE, drule version_tenant_key, simp)
    (rule returns_row, elim conjE, drule artifact_tenant_key, simp)

definition download_call :: "uuid \<Rightarrow> s3_call \<Rightarrow> bool" where
  "download_call g c \<longleftrightarrow> (\<exists>k n. c = PresignGet k n \<and> tenant_key g k \<and> 0 < n \<and> n \<le> 3600)"

lemma calls_only_document_reads [calls_intros]:
  "calls_only P (document_get g i)" "calls_only P (version_get g i j)" "calls_only P (artifact_get g i k)"
  "calls_only P (document_now E t)" "calls_only P (DocumentService_get i tn)"
  unfolding document_get_def version_get_def artifact_get_def opt_row_def document_now_def DocumentService_get_def
  by (intro calls_intros)+

lemma download_calls: "calls_only (download_call (tn_organization_id tn)) (DocumentService_download E S c tn)"
  unfolding DocumentService_download_def Let_def record_document_event_def
  by (intro calls_intros calls_only_bind_returns [OF returns_document_rows(1)]
      calls_only_bind_returns [OF returns_document_rows(2)] calls_only_storage)
    (auto simp: download_call_def)

lemma readonly_no_commit: "readonly m \<Longrightarrow> preserves (commits_to c) m"
  unfolding preserves_def commits_to_def by (metis prod.collapse readonlyD)

lemma no_commit_event [preserves_intros]: "preserves (commits_to c) (tenant_event s E ty tn i a t m)"
  unfolding tenant_event_def by (intro preserves_bind preserves_intros)

lemma no_commit_reads [preserves_intros]:
  "preserves (commits_to c) (version_get g i j)" "preserves (commits_to c) (artifact_get g i k)"
  "preserves (commits_to c) (document_now E t)" "preserves (commits_to c) (DocumentService_get i tn)"
  "preserves (commits_to c) (s3_download_url E S key n s)"
  by (intro readonly_no_commit readonly_intros document_reads)+

lemma download_no_commit: "preserves (commits_to d) (DocumentService_download E S c tn)"
  unfolding DocumentService_download_def Let_def record_document_event_def
  by (intro preserves_bind preserves_intros)

lemma quiet_calls: "calls_only (\<lambda>_. False) m \<Longrightarrow> m w = (r, w') \<Longrightarrow> s3_calls w' = s3_calls w"
  by (auto dest: calls_onlyD)

lemma s3_download_urlD:
  assumes "s3_download_url E S k n t w = (Inr u, w')"
  shows "0 < n" "n \<le> 3600" "s3_calls w' = s3_calls w @ [PresignGet (StorageObjectKey_value k) n]"
    "s3_presigned_url S (s3_calls w') = Inr (du_url u)"
  using assms
  by (auto simp: s3_download_url_def s3_do_def or_raise_def bind_def eff_simps split: if_splits sum.splits)

text \<open>The object a download asks for: the artifact named, else the version named, else the
  current version.\<close>

definition download_target :: "db \<Rightarrow> TenantContext \<Rightarrow> DocumentDownloadCommand \<Rightarrow> StorageObjectKey option" where
  "download_target d tn c =
     (case lc_artifact_id c of
        Some k \<Rightarrow> map_option da_storage_object_key (artifact_at d (tn_organization_id tn) (lc_document_id c, k))
      | None \<Rightarrow>
          (case document_at d (tn_organization_id tn) (lc_document_id c) of
             None \<Rightarrow> None
           | Some x \<Rightarrow> map_option dv_storage_object_key (version_at d (tn_organization_id tn)
               (lc_document_id c, case lc_version_id c of Some v \<Rightarrow> v | None \<Rightarrow> d_current_version_id x))))"

lemma service_get_exact:
  assumes "document_tables (working w)" and "DocumentService_get i tn w = (Inr x, w')"
  shows "DOCUMENT_READ \<in> set (tn_permissions tn)" "document_at (working w) (tn_organization_id tn) i = Some x" "w' = w"
    "d_id x = i"
proof -
  show *: "DOCUMENT_READ \<in> set (tn_permissions tn)" "document_at (working w) (tn_organization_id tn) i = Some x" "w' = w"
    using assms by (auto simp: DocumentService_get_def document_get_exact bind_def eff_simps split: option.splits sum.splits)
  show "d_id x = i"
    using *(2) by (auto simp: row_at_def dest!: find_SomeD)
qed

lemma document_now_quiet: "document_now E t w = (Inr y, w') \<Longrightarrow> working w' = working w \<and> s3_calls w' = s3_calls w"
  using readonlyD [OF readonly_document_now] quiet_calls [OF calls_only_document_reads(4)] by metis

lemma event_quiet: "tenant_event s E ty tn i a t m w = (r, w') \<Longrightarrow> s3_calls w' = s3_calls w"
  by (rule quiet_calls [OF calls_only_events(2)])

definition download_outcome :: "s3_client \<Rightarrow> DocumentDownloadCommand \<Rightarrow> TenantContext \<Rightarrow> world \<Rightarrow> world \<Rightarrow> DocumentDownloadResult \<Rightarrow> bool" where
  "download_outcome S c tn w w' x \<longleftrightarrow>
     {DOCUMENT_READ, if lc_artifact_id c = None then DOCUMENT_DOWNLOAD else ARTIFACT_DOWNLOAD} \<subseteq> set (tn_permissions tn) \<and>
     (\<exists>k. download_target (working w) tn c = Some k \<and>
        s3_calls w' = s3_calls w @ [PresignGet (StorageObjectKey_value k) (lc_expires_in_seconds c)] \<and>
        s3_presigned_url S (s3_calls w') = Inr (lr_url x))"

lemma download_succeeded:
  assumes ok: "document_tables (working w)" and run: "DocumentService_download E S c tn w = (Inr x, w')"
  shows "download_outcome S c tn w w' x"
proof -
  obtain t w1 where now: "document_now E None w = (Inr t, w1)"
    using run unfolding DocumentService_download_def by (rule bind_InrE)
  note q = document_now_quiet [OF now]
  have ok1: "document_tables (working w1)" using ok q by simp
  show ?thesis
  proof (cases "lc_artifact_id c")
    case None
    obtain y w2 r w3 v u w4 ty m z w5 where p: "DOCUMENT_DOWNLOAD \<in> set (tn_permissions tn)"
      and y: "DocumentService_get (lc_document_id c) tn w1 = (Inr y, w2)"
      and v: "version_get (tn_organization_id tn) (d_id y)
        (case lc_version_id c of Some v \<Rightarrow> v | None \<Rightarrow> d_current_version_id y) w2 = (Inr (Some v), w3)"
      and u: "s3_download_url E S (dv_storage_object_key v) (lc_expires_in_seconds c) t w3 = (Inr u, w4)"
      and e: "tenant_event ''document'' E ty tn (DocumentId_value (d_id y)) (lc_audit_context c) t m w4 = (Inr z, w')"
      and x: "lr_url x = du_url u"
      using run now None unfolding DocumentService_download_def Let_def record_document_event_def
      by (auto elim!: bind_InrE simp: eff_simps split: option.splits sum.splits)
    note g = service_get_exact [OF ok1 y]
    have "w3 = w2" "version_at (working w2) (tn_organization_id tn)
        (d_id y, case lc_version_id c of Some v \<Rightarrow> v | None \<Rightarrow> d_current_version_id y) = Some v"
      using v ok1 g(3) by (auto simp: version_get_exact)
    then show ?thesis
      using p g q None x s3_download_urlD [OF u] event_quiet [OF e]
      by (simp add: download_outcome_def download_target_def)
  next
    case (Some k)
    obtain y w2 r w3 v u w4 m z where p: "ARTIFACT_DOWNLOAD \<in> set (tn_permissions tn)"
      and y: "DocumentService_get (lc_document_id c) tn w1 = (Inr y, w2)"
      and v: "artifact_get (tn_organization_id tn) (d_id y) k w2 = (Inr (Some v), w3)"
      and u: "s3_download_url E S (da_storage_object_key v) (lc_expires_in_seconds c) t w3 = (Inr u, w4)"
      and e: "tenant_event ''document'' E DOCUMENT_ARTIFACT_DOWNLOADED tn (DocumentId_value (d_id y)) (lc_audit_context c) t m w4 = (Inr z, w')"
      and x: "lr_url x = du_url u"
      using run now Some unfolding DocumentService_download_def record_document_event_def
      by (auto elim!: bind_InrE simp: eff_simps split: option.splits sum.splits)
    note g = service_get_exact [OF ok1 y]
    have "w3 = w2" "artifact_at (working w2) (tn_organization_id tn) (d_id y, k) = Some v"
      using v ok1 g(3) by (auto simp: artifact_get_exact)
    then show ?thesis
      using p g q Some x s3_download_urlD [OF u] event_quiet [OF e]
      by (simp add: download_outcome_def download_target_def)
  qed
qed

section \<open>A sample document\<close>

definition sample_stored_document :: Document where
  "sample_stored_document = sample_document\<lparr>d_created_by_user_id := 101, d_updated_by_user_id := 101\<rparr>"

definition sample_stored_version :: DocumentVersion where
  "sample_stored_version = sample_version\<lparr>dv_created_by_user_id := 101\<rparr>"

definition sample_document_db :: db where
  "sample_document_db = sample_tenant_db\<lparr>documents := [sample_stored_document], document_versions := [sample_stored_version]\<rparr>"

definition sample_archived_document :: Document where
  "sample_archived_document = sample_stored_document\<lparr>d_status := DocArchived, d_archived_at := Some (utc 10),
     d_archived_by_user_id := Some 101, d_updated_at := utc 10, d_lock_version := 2\<rparr>"

definition sample_archive :: DocumentRequest where
  "sample_archive = ArchiveDocument \<lparr>xc_document_id = DocumentId 8, xc_expected_lock_version = 1, xc_audit_context = None\<rparr>"

lemmas sample_document_defs = sample_document_db_def sample_tenant_db_def sample_stored_document_def sample_document_def
  sample_stored_version_def sample_version_def sample_user_def sample_organization_def empty_db_def

lemma sample_document_facts:
  "document_tables sample_document_db" "document_at sample_document_db 5 (DocumentId 8) = Some sample_stored_document"
  "version_at sample_document_db 5 (DocumentId 8, DocumentVersionId 7) = Some sample_stored_version"
  "wf_document sample_stored_document"
proof -
  show wf: "wf_document sample_stored_document"
    by (simp add: wf_document_def sample_document_defs)
  have v: "DocumentVersion_post_init sample_stored_version = Inr sample_stored_version"
    using content_key_tenant_safe [of 5 "ContentHash sample_hash"]
      build_key_ok [of "ContentKey 5 (ContentHash sample_hash)"]
    by (simp add: sample_stored_version_def sample_version_def DocumentVersion_post_init_def Doc_validate_uuid_def check_uuid_def
        validate_byte_size_def Doc_normalize_timestamp_def to_utc_def raise_if_def)
  have l: "1 < length (key_segments (ContentKey 5 (ContentHash sample_hash)))" by simp
  have key: "StorageObjectKey_post_init (StorageObjectKey_value (dv_storage_object_key sample_version)) = Inr (dv_storage_object_key sample_version)"
    using StorageObjectKey_join [OF key_segments_plain l] unfolding sample_version_def by (simp del: key_segments.simps)
  show "document_at sample_document_db 5 (DocumentId 8) = Some sample_stored_document"
    "version_at sample_document_db 5 (DocumentId 8, DocumentVersionId 7) = Some sample_stored_version"
    by (simp_all add: row_at_def version_key_def sample_document_defs)
  have "document_from_record sample_stored_document = Inr sample_stored_document"
    using Document_post_init_id [OF wf] by (simp add: document_from_record_def sample_document_defs)
  moreover have "version_from_record sample_stored_version = Inr sample_stored_version"
    using v key sha256_hex_hash [of sample_hash] unfolding version_from_record_def
    by (simp add: sample_stored_version_def sample_version_def)
  moreover have "first_violation (document_violations False sample_stored_document sample_document_db) = None"
    by (simp add: document_violations_def user_missing_def organization_missing_def sample_document_defs)
  ultimately show "document_tables sample_document_db"
    by (simp add: document_tables_def document_ok_def version_ok_def versions_of_def document_missing_def Let_def)
      (simp add: sample_document_defs)
qed

lemma sample_archive_served:
  "\<exists>w'. session_scope (document_request sample_clock sample_tenant sample_archive)
     (fresh_world sample_document_db) = (Inr (), w')"
proof -
  let ?w = "(fresh_world sample_document_db)\<lparr>now_reads := 1\<rparr>"
  let ?w1 = "?w\<lparr>working := sample_document_db\<lparr>documents := [sample_archived_document]\<rparr>\<rparr>"
  have tn: "tn_organization_id sample_tenant = 5" "tn_user_id sample_tenant = 101"
    by (simp_all add: sample_tenant_def)
  have p: "DOCUMENT_ARCHIVE \<in> set (tn_permissions sample_tenant)"
    by (simp add: sample_tenant_def) code_simp
  have now: "document_now sample_clock None (fresh_world sample_document_db) = (Inr (utc 10), ?w)"
    by (simp add: document_now_def sample_clock_def bind_def eff_simps fresh_world_def utc_def)
  have a: "Document_archive (utc 10) sample_stored_document 101 (Some (utc 10)) = Inr sample_archived_document"
    by (simp add: document_op_defs document_helper_defs to_utc_def raise_if_def check_uuid_def Document_post_init_id
        wf_document_def sample_archived_document_def sample_stored_document_def sample_document_def)
  have d: "documents sample_document_db = [sample_stored_document]"
    by (simp add: sample_document_db_def)
  have m: "row_matched d_organization_id d_id d_lock_version sample_archived_document sample_stored_document"
    "document_row_update sample_archived_document sample_stored_document = sample_archived_document"
    by (simp_all add: row_matched_def document_row_update_def sample_archived_document_def sample_stored_document_def
        sample_document_def)
  have "first_violation (document_violations False sample_archived_document sample_document_db) = None"
    by (simp add: document_violations_def user_missing_def organization_missing_def sample_archived_document_def
        sample_document_defs)
  moreover have "check_int4 (d_lock_version sample_archived_document) = Inr ()"
    by (simp add: check_int4_def raise_if_def sample_archived_document_def sample_stored_document_def sample_document_def)
  ultimately have pd: "document_archive_row sample_archived_document ?w = (Inr sample_archived_document, ?w1)"
    using m by (simp add: document_archive_row_def persist_document_state_def Let_def flush_def bind_def eff_simps
        replace_where_def d fresh_world_def)
  have "event_storable sample_clock sample_tenant ?w1"
    by (simp add: event_storable_def tn) (simp add: sample_document_defs)
  then obtain w2 where e: "tenant_event ''document'' sample_clock DOCUMENT_ARCHIVED sample_tenant 8 None (utc 10) [] ?w1 = (Inr (), w2)"
    by (rule tenant_event_run [rotated 2]) auto
  have "d_id sample_archived_document = DocumentId 8" "d_lock_version sample_stored_document = 1"
    by (simp_all add: sample_archived_document_def sample_stored_document_def sample_document_def)
  then show ?thesis
    using p now a pd e sample_document_facts
    by (simp add: sample_archive_def DocumentService_archive_with_lock_def require_ok tn bind_def session_scope_def
        try_except_def record_document_event_def document_get_for_update_eq document_get_exact eff_simps)
qed

section \<open>Properties\<close>

text \<open>
  C5. Every request of the document service refines the specification of the document store: on
  consistent tables it either raises and leaves the committed tables as they were, or commits
  exactly one step of the specification for the tenant that asked, with exactly one audit
  event for a mutation and none for a read or for a registration of known content. The tables
  are consistent again and the rows of all other tenants are untouched.
\<close>

theorem document_requests_refine:
  assumes "document_tables (committed w)" and "working w = committed w"
    and "session_scope (document_request E tn q) w = (r, w')"
  shows "document_tables (committed w') \<and>
    (case r of Inl e \<Rightarrow> committed w' = committed w | Inr x \<Rightarrow> document_committed tn q (committed w) (committed w'))"
  using document_request_served(2,3) [OF assms] by simp

theorem document_requests_refine_witness:
  "\<exists>d. document_committed sample_tenant sample_archive sample_document_db d"
proof -
  obtain w' where w': "session_scope (document_request sample_clock sample_tenant sample_archive)
      (fresh_world sample_document_db) = (Inr (), w')"
    using sample_archive_served by blast
  then show ?thesis
    using document_requests_refine [OF _ _ w'] sample_document_facts(1) by auto
qed

text \<open>
  C14. Document history only grows. Whatever requests of whatever tenants are served, in whatever
  order and whether they succeed or fail: the versions of a document stay, unchanged and in
  their order, ahead of the new ones; every document still exists with a lock version that is
  not smaller, an archived one is still archived; artifacts stay as they were; and the versions
  of each document are numbered from one without a gap, the last one being the current one.
\<close>

theorem document_history_kept:
  assumes "document_tables (committed w)" and "working w = committed w"
  shows "document_later (document_abs (committed w)) (document_abs (committed (serve_documents E qs w))) \<and>
    (\<forall>g i x. document_at (committed (serve_documents E qs w)) g i = Some x \<longrightarrow>
       (let vs = versions_of (committed (serve_documents E qs w)) g i in
        map dv_version_number vs = [1..int (length vs)] \<and> dv_id (last vs) = d_current_version_id x))"
proof -
  note later = serve_documents_later [OF assms, of E qs]
  let ?d = "committed (serve_documents E qs w)"
  have "map dv_version_number (versions_of ?d g i) = [1..int (length (versions_of ?d g i))] \<and>
      dv_id (last (versions_of ?d g i)) = d_current_version_id x" if x: "document_at ?d g i = Some x" for g i x
  proof -
    have "x \<in> set (documents ?d)" "d_organization_id x = g" "d_id x = i"
      using x by (auto simp: row_at_def dest!: find_SomeD)
    then show ?thesis
      using document_tablesD(5) later by (fastforce simp: document_ok_def Let_def)
  qed
  then show ?thesis using later by (simp add: Let_def)
qed

theorem document_history_kept_witness:
  "\<exists>vs. versions_of (committed (serve_documents sample_clock [(sample_tenant, sample_archive)]
     (fresh_world sample_document_db))) 5 (DocumentId 8) = sample_stored_version # vs"
proof -
  have v: "sd_versions (document_abs sample_document_db) (5, DocumentId 8) = [sample_stored_version]"
    by (simp add: document_abs_def versions_of_def sample_document_defs)
  have "document_later (document_abs (committed (fresh_world sample_document_db)))
      (document_abs (committed (serve_documents sample_clock [(sample_tenant, sample_archive)] (fresh_world sample_document_db))))"
    using document_history_kept [of "fresh_world sample_document_db" sample_clock "[(sample_tenant, sample_archive)]"]
      sample_document_facts(1) by simp
  then obtain vs where "sd_versions (document_abs (committed (serve_documents sample_clock [(sample_tenant, sample_archive)]
      (fresh_world sample_document_db)))) (5, DocumentId 8) = sd_versions (document_abs sample_document_db) (5, DocumentId 8) @ vs"
    unfolding document_later_def fresh_world_simps by blast
  then show ?thesis
    unfolding v by (simp add: document_abs_def)
qed

text \<open>
  C15. A download stays within its tenant. Whatever a download request does, it asks the storage
  for nothing but URLs of objects under the prefixes of the tenant that asked, valid for one
  to 3600 seconds; when it succeeds it made exactly one call, for the requested version (the
  current one when none is named) or artifact, with the requested validity, the caller held the
  read and download permissions, and the URL is the one the storage gave. The request never
  changes the committed tables: the audit event of a download, recorded in the session, is
  dropped when the session closes.
\<close>

theorem download_stays_in_tenant:
  assumes "document_tables (committed w)" and "working w = committed w"
    and "session_scope (DocumentService_download E S c tn) w = (r, w')"
  shows "committed w' = committed w \<and>
    (\<exists>cs. s3_calls w' = s3_calls w @ cs \<and> list_all (download_call (tn_organization_id tn)) cs) \<and>
    (case r of Inl e \<Rightarrow> True | Inr x \<Rightarrow> download_outcome S c tn w w' x)"
proof (intro conjI)
  obtain w1 where m: "DocumentService_download E S c tn w = (r, w1)" and w': "w' = w1\<lparr>working := committed w1\<rparr>"
    using assms(3) by (auto simp: session_scope_def split: prod.splits)
  show "committed w' = committed w"
    using preservesD [OF download_no_commit _ m, of "committed w"] w' by (simp add: commits_to_def)
  show "\<exists>cs. s3_calls w' = s3_calls w @ cs \<and> list_all (download_call (tn_organization_id tn)) cs"
    using calls_onlyD [OF download_calls m] w' by (simp add: list_all_iff)
  show "case r of Inl e \<Rightarrow> True | Inr x \<Rightarrow> download_outcome S c tn w w' x"
    using download_succeeded [of w E S c tn _ w1] m assms(1,2) w' by (cases r) (simp_all add: download_outcome_def)
qed

definition sample_storage :: s3_client where
  "sample_storage = \<lparr>s3_put_object = (\<lambda>_. Inr ()), s3_copy_object = (\<lambda>_. Inr ()), s3_delete_object = (\<lambda>_. Inr ()),
     s3_head_object = (\<lambda>_. Inr \<lparr>hr_content_length = Some 4, hr_etag = None, hr_content_type = None\<rparr>),
     s3_presigned_url = (\<lambda>_. Inr ''https://s3/x'')\<rparr>"

definition sample_download :: DocumentDownloadCommand where
  "sample_download = \<lparr>lc_document_id = DocumentId 8, lc_version_id = None, lc_artifact_id = None,
     lc_expires_in_seconds = 300, lc_audit_context = None\<rparr>"

lemma sample_download_served:
  "\<exists>x w'. session_scope (DocumentService_download sample_clock sample_storage sample_download sample_tenant)
     (fresh_world sample_document_db) = (Inr x, w')"
proof -
  let ?w = "(fresh_world sample_document_db)\<lparr>now_reads := 1\<rparr>"
  let ?w1 = "?w\<lparr>s3_calls := [PresignGet (StorageObjectKey_value (dv_storage_object_key sample_version)) 300]\<rparr>"
  have tn: "tn_organization_id sample_tenant = 5" "tn_user_id sample_tenant = 101"
    by (simp_all add: sample_tenant_def)
  have p: "DOCUMENT_DOWNLOAD \<in> set (tn_permissions sample_tenant)" "DOCUMENT_READ \<in> set (tn_permissions sample_tenant)"
    by (simp_all add: sample_tenant_def) code_simp+
  have now: "document_now sample_clock None (fresh_world sample_document_db) = (Inr (utc 10), ?w)"
    by (simp add: document_now_def sample_clock_def bind_def eff_simps fresh_world_def utc_def)
  have u: "s3_download_url sample_clock sample_storage (dv_storage_object_key sample_version) 300 (utc 10) ?w =
      (Inr \<lparr>du_url = ''https://s3/x'', du_expires_at = plus_timedelta (utc 10) 300000000\<rparr>, ?w1)"
    by (simp add: s3_download_url_def s3_do_def sample_storage_def or_raise_def bind_def eff_simps fresh_world_def)
  have "\<not> secret_like ''target_type''" "\<not> secret_like ''target_id''" "\<not> secret_like ''version_id''"
    by code_simp+
  then have "safe_metadata [(''target_type'', VStr ''document''), (''target_id'', VUuid 8), (''version_id'', VUuid 7)] 0 =
      Inr [(''target_type'', VStr ''document''), (''target_id'', VStr (uuid_str 8)), (''version_id'', VStr (uuid_str 7))]"
    by (simp add: safe_metadata.simps safe_metadata_value.simps audit_limits raise_if_def)
  from AuditEvent_create_ok [OF this, of "utc 10" 50 DOCUMENT_DOWNLOADED SUCCESS "Some 101" "Some 5" None]
  obtain ev where c: "AuditEvent_create 50 DOCUMENT_DOWNLOADED SUCCESS (utc 10) (Some 101) (Some 5) None None
      (Some [(''target_type'', VStr ''document''), (''target_id'', VUuid 8), (''version_id'', VUuid 7)]) = Inr ev"
    and i: "ae_id ev = 50"
    by simp
  note f = AuditEvent_create_frame [OF c]
  have "audit_violation ev sample_document_db = None"
    using f i by (simp add: audit_violation_def) (simp add: sample_document_defs)
  then obtain w2 where e: "tenant_event ''document'' sample_clock DOCUMENT_DOWNLOADED sample_tenant 8 None (utc 10)
      [(''version_id'', VUuid 7)] ?w1 = (Inr (), w2)"
    using c f by (simp add: tenant_event_def tn audit_record_run Let_def sample_clock_def fresh_world_def)
  have k: "d_id sample_stored_document = DocumentId 8" "d_current_version_id sample_stored_document = DocumentVersionId 7"
    "dv_id sample_stored_version = DocumentVersionId 7"
    "dv_storage_object_key sample_stored_version = dv_storage_object_key sample_version"
    by (simp_all add: sample_stored_document_def sample_document_def sample_stored_version_def)
      (simp add: sample_version_def)
  show ?thesis
    using p now u e sample_document_facts k
    by (simp add: sample_download_def DocumentService_download_def DocumentService_get_def require_ok tn bind_def session_scope_def
        record_document_event_def document_get_exact version_get_exact eff_simps Let_def)
qed

theorem download_stays_in_tenant_witness:
  "\<exists>x w'. session_scope (DocumentService_download sample_clock sample_storage sample_download sample_tenant)
      (fresh_world sample_document_db) = (Inr x, w') \<and> committed w' = sample_document_db \<and> lr_url x = ''https://s3/x''"
proof -
  obtain x w' where s: "session_scope (DocumentService_download sample_clock sample_storage sample_download sample_tenant)
      (fresh_world sample_document_db) = (Inr x, w')"
    using sample_download_served by blast
  then show ?thesis
    using download_stays_in_tenant [OF _ _ s] sample_document_facts(1)
    by (auto simp: download_outcome_def sample_storage_def)
qed

end
