(* ===== verification/Upload_Document.thy ===== *)
theory Upload_Document
  imports Document_Service
begin

text \<open>
  The upload use case: class \<^verbatim>\<open>UploadDocument\<close> of \<^verbatim>\<open>application/documents/service.py\<close> over the
  document and idempotency repositories, the object storage and the upload validation. One
  request commits several times. The stream of a request is a parameter: the outcome of its
  \<open>n\<close>-th read; \<open>stream_reads\<close> of the state is the position in it. Closing and rewinding the spooled
  file have no visible effect.
\<close>

section \<open>Commands and results\<close>

record UploadDocumentCommand =
  cu_filename :: "string option"
  cu_declared_media_type :: "string option"
  cu_stream :: "int \<Rightarrow> nat \<Rightarrow> string option"
  cu_idempotency_key :: string
  cu_audit_context :: "AuditRequestContext option"

datatype UploadDocumentOutcome = CREATED | DUPLICATE | IDEMPOTENT_REPLAY

fun UploadDocumentOutcome_value :: "UploadDocumentOutcome \<Rightarrow> string" where
  "UploadDocumentOutcome_value CREATED = ''created''"
| "UploadDocumentOutcome_value DUPLICATE = ''duplicate''"
| "UploadDocumentOutcome_value IDEMPOTENT_REPLAY = ''idempotent_replay''"

record UploadDocumentResult =
  ur_document :: Document
  ur_current_version :: DocumentVersion
  ur_outcome :: UploadDocumentOutcome
  ur_duplicate :: bool
  ur_idempotent_replay :: bool
  ur_response_status :: int

text \<open>What the use case is constructed with, and the library functions it relies on.\<close>

record UploadDocument_init =
  us_storage :: s3_client
  us_max_bytes :: int
  us_idempotency_ttl :: int
  us_sha256 :: "string \<Rightarrow> string"
  us_zip_infolist :: "string \<Rightarrow> ZipInfo list res"

section \<open>Helpers\<close>

text \<open>A \<^verbatim>\<open>try\<close> statement whose handlers are written out by the caller.\<close>

definition catch :: "'a tx \<Rightarrow> (exn + 'a) tx" where
  "catch m = try_except (bind m (\<lambda>x. ret (Inr x))) (\<lambda>e. ret (Inl e))"

text \<open>
  After a failed flush the session refuses every statement until it is rolled back. These are
  the exceptions a failed flush gives.
\<close>

fun flush_failed :: "exn \<Rightarrow> bool" where
  "flush_failed (IntegrityError c) = True"
| "flush_failed (DataError c) = True"
| "flush_failed (AuditPersistenceError c) = True"
| "flush_failed e = False"

definition in_session_after :: "exn \<Rightarrow> 'a tx \<Rightarrow> 'a tx" where
  "in_session_after e m =
     (if flush_failed e then
        raise (PendingRollbackError ''The transaction of this session has been rolled back due to a previous exception during flush.'')
      else m)"

definition record_upload_event ::
  "env \<Rightarrow> AuditEventType \<Rightarrow> TenantContext \<Rightarrow> AuditRequestContext option \<Rightarrow> datetime \<Rightarrow> AuditOutcome \<Rightarrow> metadata \<Rightarrow>
   unit tx" where
  "record_upload_event E event_type tenant request_context now outcome metadata =
     bind (uuid4 E) (\<lambda>event_id.
     bind (of_res (AuditEvent_create event_id event_type outcome now (Some (tn_user_id tenant))
       (Some (tn_organization_id tenant)) None request_context (Some metadata)))
       (audit_record E))"

definition record_failed_upload ::
  "env \<Rightarrow> UploadDocumentCommand \<Rightarrow> TenantContext \<Rightarrow> string \<Rightarrow> uuid option \<Rightarrow> unit tx" where
  "record_failed_upload E command tenant error_code document_id =
     bind (document_now E None) (\<lambda>now.
     record_upload_event E DOCUMENT_UPLOAD_FAILED tenant (cu_audit_context command) now FAILURE
       ([(''error_code'', VStr error_code)] @
        (case document_id of None \<Rightarrow> [] | Some i \<Rightarrow> [(''document_id'', VUuid i)])))"

definition delete_temp_best_effort :: "UploadDocument_init \<Rightarrow> StorageObjectKey \<Rightarrow> unit tx" where
  "delete_temp_best_effort U key = try_except (s3_delete (us_storage U) key) (\<lambda>e. ret ())"

definition read_stream :: "UploadDocument_init \<Rightarrow> UploadDocumentCommand \<Rightarrow> StreamedUpload tx" where
  "read_stream U command = (\<lambda>w.
     case stream_upload (us_sha256 U) (cu_stream command) (us_max_bytes U) UPLOAD_CHUNK_SIZE (stream_reads w) of
       (r, n) \<Rightarrow> (r, w\<lparr>stream_reads := n\<rparr>))"

definition prepare_upload ::
  "UploadDocument_init \<Rightarrow> UploadDocumentCommand \<Rightarrow> (NormalizedUploadMetadata \<times> StreamedUpload \<times> string) tx" where
  "prepare_upload U command =
     bind (of_res (normalize_upload_metadata (cu_filename command) (cu_declared_media_type command))) (\<lambda>metadata.
     bind (read_stream U command) (\<lambda>streamed.
     let fingerprint = request_fingerprint (us_sha256 U) (su_content_hash streamed) (nm_filename metadata)
           (nm_media_type metadata) (su_byte_size streamed) in
     bind (of_res (validate_streamed_content (us_zip_infolist U) metadata streamed)) (\<lambda>_.
     ret (metadata, streamed, fingerprint))))"

definition assert_replay_fingerprint ::
  "UploadDocument_init \<Rightarrow> UploadDocumentCommand \<Rightarrow> UploadIdempotencyRecord \<Rightarrow> unit tx" where
  "assert_replay_fingerprint U command record =
     bind (catch (prepare_upload U command)) (\<lambda>prepared.
     case prepared of
       Inl e \<Rightarrow>
         (case e of
            UploadValidationError code m \<Rightarrow>
              raise (IdempotencyConflictError ''Idempotency-Key was already used with a different upload.'')
          | _ \<Rightarrow> raise e)
     | Inr (metadata, streamed, fingerprint) \<Rightarrow>
         if ui_request_fingerprint record \<noteq> Some fingerprint then
           raise (IdempotencyConflictError ''Idempotency-Key was already used with a different upload.'')
         else ret ())"

definition replay_completed :: "UploadIdempotencyRecord \<Rightarrow> TenantContext \<Rightarrow> UploadDocumentResult tx" where
  "replay_completed record tenant =
     (case (ui_document_id record, ui_document_version_id record) of
        (Some document_id, Some version_id) \<Rightarrow>
          bind (document_get (tn_organization_id tenant) document_id) (\<lambda>found.
          case found of
            None \<Rightarrow> raise (IdempotencyConflictError ''Stored idempotency result is unavailable.'')
          | Some document \<Rightarrow>
              bind (version_get (tn_organization_id tenant) (d_id document) version_id) (\<lambda>found.
              case found of
                None \<Rightarrow> raise (IdempotencyConflictError ''Stored idempotency result is unavailable.'')
              | Some version \<Rightarrow>
                  ret \<lparr>ur_document = document, ur_current_version = version, ur_outcome = IDEMPOTENT_REPLAY,
                       ur_duplicate = (ui_outcome record = Some (UploadDocumentOutcome_value DUPLICATE)),
                       ur_idempotent_replay = True,
                       ur_response_status = (case ui_response_status record of
                           None \<Rightarrow> 200 | Some s \<Rightarrow> if s = 0 then 200 else s)\<rparr>))
      | _ \<Rightarrow> raise (IdempotencyConflictError ''Stored idempotency result is incomplete.''))"

definition require_current_version :: "Document \<Rightarrow> DocumentVersion tx" where
  "require_current_version document =
     bind (version_get (d_organization_id document) (d_id document) (d_current_version_id document)) (\<lambda>found.
     case found of
       None \<Rightarrow> raise (DocumentNotFoundError ''Document current version was not found.'')
     | Some version \<Rightarrow> ret version)"

definition complete_duplicate ::
  "env \<Rightarrow> UploadDocument_init \<Rightarrow> UploadDocumentCommand \<Rightarrow> TenantContext \<Rightarrow> string \<Rightarrow> string \<Rightarrow> StorageObjectKey \<Rightarrow>
   Document \<Rightarrow> int \<Rightarrow> UploadDocumentResult tx" where
  "complete_duplicate E U command tenant idempotency_key fingerprint temp_key duplicate byte_size =
     bind (delete_temp_best_effort U temp_key) (\<lambda>_.
     bind (require_current_version duplicate) (\<lambda>version.
     bind (document_now E None) (\<lambda>now.
     bind (idempotency_complete (tn_organization_id tenant) idempotency_key fingerprint (d_id duplicate) (dv_id version)
       200 (UploadDocumentOutcome_value DUPLICATE) now) (\<lambda>_.
     bind commit (\<lambda>_.
     bind (document_now E None) (\<lambda>now.
     bind (record_upload_event E DOCUMENT_DUPLICATE_DETECTED tenant (cu_audit_context command) now SUCCESS
       [(''document_id'', VUuid (DocumentId_value (d_id duplicate))), (''byte_size'', VInt byte_size)]) (\<lambda>_.
     ret \<lparr>ur_document = duplicate, ur_current_version = version, ur_outcome = DUPLICATE, ur_duplicate = True,
          ur_idempotent_replay = False, ur_response_status = 200\<rparr>)))))))"

definition complete_duplicate_if_present ::
  "env \<Rightarrow> UploadDocument_init \<Rightarrow> UploadDocumentCommand \<Rightarrow> TenantContext \<Rightarrow> string \<Rightarrow> string \<Rightarrow> StorageObjectKey \<Rightarrow>
   ContentHash \<Rightarrow> int \<Rightarrow> UploadDocumentResult option tx" where
  "complete_duplicate_if_present E U command tenant idempotency_key fingerprint temp_key content_hash byte_size =
     bind (document_find_by_hash (tn_organization_id tenant) content_hash) (\<lambda>existing.
     case existing of
       None \<Rightarrow> ret None
     | Some duplicate \<Rightarrow>
         bind (complete_duplicate E U command tenant idempotency_key fingerprint temp_key duplicate byte_size)
           (\<lambda>result. ret (Some result)))"

definition promote_new_document ::
  "env \<Rightarrow> UploadDocument_init \<Rightarrow> Document \<Rightarrow> DocumentVersion \<Rightarrow> TenantContext \<Rightarrow> StorageObjectKey \<Rightarrow> string \<Rightarrow> int \<Rightarrow>
   ContentHash \<Rightarrow> (Document \<times> DocumentVersion) tx" where
  "promote_new_document E U document version tenant temp_key media_type byte_size content_hash =
     bind (of_res (StorageObjectKey_for_document_content (tn_organization_id tenant) content_hash)) (\<lambda>final_key.
     bind (s3_head (us_storage U) final_key) (\<lambda>existing_object.
     bind (case existing_object of
         None \<Rightarrow> bind (promote_temp_object (us_storage U)
             \<lparr>po_source_key = temp_key, po_destination_key = final_key, po_media_type = Some media_type\<rparr>) (\<lambda>_. ret ())
       | Some m \<Rightarrow>
           if so_byte_size m \<noteq> byte_size then
             raise (ObjectStorageUnavailableError ''Final object metadata is inconsistent.'')
           else delete_temp_best_effort U temp_key) (\<lambda>_.
     bind (mark_version_stored (tn_organization_id tenant) (d_id document) (dv_id version)) (\<lambda>stored_version.
     bind (document_now E None) (\<lambda>now.
     bind (of_res (Document_mark_stored now document (tn_user_id tenant) (Some now))) (\<lambda>stored_document.
     bind (document_archive_row stored_document) (\<lambda>_.
     ret (stored_document, stored_version))))))))"

definition mark_upload_storage_failed ::
  "env \<Rightarrow> UploadDocumentCommand \<Rightarrow> TenantContext \<Rightarrow> string \<Rightarrow> string \<Rightarrow> Document \<Rightarrow> DocumentVersion \<Rightarrow> unit tx" where
  "mark_upload_storage_failed E command tenant idempotency_key fingerprint document version =
     bind (mark_version_failed (tn_organization_id tenant) (d_id document) (dv_id version)) (\<lambda>_.
     bind (document_now E None) (\<lambda>now.
     bind (of_res (Document_mark_failed now document (tn_user_id tenant) (Some now))) (\<lambda>failed_document.
     bind (document_archive_row failed_document) (\<lambda>_.
     bind (document_now E None) (\<lambda>now.
     bind (idempotency_fail (tn_organization_id tenant) idempotency_key (Some fingerprint)
       ''object_storage_unavailable'' 503 True now) (\<lambda>_.
     bind commit (\<lambda>_.
     record_failed_upload E command tenant ''object_storage_unavailable'' (Some (DocumentId_value (d_id document))))))))))"

definition new_document_pair ::
  "env \<Rightarrow> TenantContext \<Rightarrow> NormalizedUploadMetadata \<Rightarrow> ContentHash \<Rightarrow> int \<Rightarrow> datetime \<Rightarrow> (Document \<times> DocumentVersion) tx" where
  "new_document_pair E tenant metadata content_hash byte_size now =
     bind (uuid4 E) (\<lambda>i.
     bind (of_res (DocumentId_post_init i)) (\<lambda>document_id.
     bind (uuid4 E) (\<lambda>j.
     bind (of_res (DocumentVersionId_post_init j)) (\<lambda>version_id.
     bind (of_res (DocumentVersion_create now version_id (tn_organization_id tenant) document_id 1
       (nm_filename metadata) (nm_media_type metadata) byte_size content_hash StoragePending (Some now)
       (tn_user_id tenant) None)) (\<lambda>version.
     bind (of_res (Document_register now document_id (tn_organization_id tenant) (nm_filename metadata)
       SourceUpload None version (tn_user_id tenant) (Some now))) (\<lambda>document.
     ret (document, version)))))))"

section \<open>The use case\<close>

text \<open>
  The first \<^verbatim>\<open>try\<close> statement of \<^verbatim>\<open>_process_reserved_upload\<close>: the handlers, given what was assigned to
  \<^verbatim>\<open>fingerprint\<close> when the exception was raised, and the statement itself.
\<close>

definition upload_not_stored ::
  "env \<Rightarrow> UploadDocument_init \<Rightarrow> UploadDocumentCommand \<Rightarrow> TenantContext \<Rightarrow> string \<Rightarrow> StorageObjectKey \<Rightarrow> string option \<Rightarrow>
   exn \<Rightarrow> 'a tx" where
  "upload_not_stored E U command tenant key temp_key fingerprint e =
     (case e of
        UploadValidationError code m \<Rightarrow>
          bind (document_now E None) (\<lambda>now.
          bind (idempotency_fail (tn_organization_id tenant) key fingerprint code 422 False now) (\<lambda>_.
          bind commit (\<lambda>_.
          bind (record_failed_upload E command tenant code None) (\<lambda>_.
          raise e))))
      | _ \<Rightarrow>
          bind (delete_temp_best_effort U temp_key) (\<lambda>_.
          bind (document_now E None) (\<lambda>now.
          in_session_after e
            (bind (idempotency_fail (tn_organization_id tenant) key fingerprint ''object_storage_unavailable'' 503 True now) (\<lambda>_.
             bind commit (\<lambda>_.
             bind (record_failed_upload E command tenant ''object_storage_unavailable'' None) (\<lambda>_.
             raise (ObjectStorageUnavailableError ''Object storage is unavailable.''))))))))"

definition store_temporarily ::
  "env \<Rightarrow> UploadDocument_init \<Rightarrow> UploadDocumentCommand \<Rightarrow> TenantContext \<Rightarrow> string \<Rightarrow> StorageObjectKey \<Rightarrow>
   (NormalizedUploadMetadata \<times> StreamedUpload \<times> string) tx" where
  "store_temporarily E U command tenant key temp_key =
     bind (catch (prepare_upload U command)) (\<lambda>prepared.
     case prepared of
       Inl e \<Rightarrow> upload_not_stored E U command tenant key temp_key None e
     | Inr (metadata, streamed, fingerprint) \<Rightarrow>
         bind (catch
           (bind (document_now E None) (\<lambda>now.
            bind (idempotency_finalize_fingerprint (tn_organization_id tenant) key fingerprint now) (\<lambda>_.
            bind (put_temp_stream (us_storage U)
              \<lparr>pt_key = temp_key, pt_body = su_body streamed, pt_media_type = nm_media_type metadata\<rparr>) (\<lambda>_.
            commit))))) (\<lambda>stored.
         case stored of
           Inl e \<Rightarrow> upload_not_stored E U command tenant key temp_key (Some fingerprint) e
         | Inr u \<Rightarrow> ret (metadata, streamed, fingerprint)))"

text \<open>The last \<^verbatim>\<open>try\<close> statement: promotion, completion of the key and the result.\<close>

definition finish_upload ::
  "env \<Rightarrow> UploadDocument_init \<Rightarrow> UploadDocumentCommand \<Rightarrow> TenantContext \<Rightarrow> string \<Rightarrow> string \<Rightarrow> StorageObjectKey \<Rightarrow>
   NormalizedUploadMetadata \<Rightarrow> StreamedUpload \<Rightarrow> Document \<Rightarrow> DocumentVersion \<Rightarrow> UploadDocumentResult tx" where
  "finish_upload E U command tenant key fingerprint temp_key metadata streamed document version =
     try_except
       (bind (promote_new_document E U document version tenant temp_key (nm_media_type metadata)
          (su_byte_size streamed) (su_content_hash streamed)) (\<lambda>(stored_document, stored_version).
        bind (document_now E None) (\<lambda>now.
        bind (idempotency_complete (tn_organization_id tenant) key fingerprint (d_id stored_document)
          (dv_id stored_version) 201 (UploadDocumentOutcome_value CREATED) now) (\<lambda>_.
        bind commit (\<lambda>_.
        bind (document_now E None) (\<lambda>now.
        bind (record_upload_event E DOCUMENT_STORAGE_SUCCEEDED tenant (cu_audit_context command) now SUCCESS
          [(''document_id'', VUuid (DocumentId_value (d_id stored_document))), (''byte_size'', VInt (su_byte_size streamed))]) (\<lambda>_.
        ret \<lparr>ur_document = stored_document, ur_current_version = stored_version, ur_outcome = CREATED,
             ur_duplicate = False, ur_idempotent_replay = False, ur_response_status = 201\<rparr>)))))))
       (\<lambda>e.
        bind (in_session_after e (mark_upload_storage_failed E command tenant key fingerprint document version)) (\<lambda>_.
        raise (ObjectStorageUnavailableError ''Object storage is unavailable.'')))"

definition process_reserved_upload ::
  "env \<Rightarrow> UploadDocument_init \<Rightarrow> UploadDocumentCommand \<Rightarrow> TenantContext \<Rightarrow> string \<Rightarrow> UploadDocumentResult tx" where
  "process_reserved_upload E U command tenant key =
     bind (uuid4 E) (\<lambda>upload_id.
     bind (of_res (StorageObjectKey_for_temporary_upload (tn_organization_id tenant) upload_id)) (\<lambda>temp_key.
     bind (store_temporarily E U command tenant key temp_key) (\<lambda>(metadata, streamed, fingerprint).
     bind (complete_duplicate_if_present E U command tenant key fingerprint temp_key (su_content_hash streamed)
       (su_byte_size streamed)) (\<lambda>duplicate_result.
     case duplicate_result of
       Some result \<Rightarrow> ret result
     | None \<Rightarrow>
         bind (document_now E None) (\<lambda>now.
         bind (new_document_pair E tenant metadata (su_content_hash streamed) (su_byte_size streamed) now)
           (\<lambda>(document, version).
         bind (catch (bind (document_add document version) (\<lambda>document. bind commit (\<lambda>_. ret document)))) (\<lambda>added.
         case added of
           Inl e \<Rightarrow>
             (case e of
                DuplicateDocumentContentError m \<Rightarrow>
                  bind rollback (\<lambda>_.
                  bind (document_find_by_hash (tn_organization_id tenant) (su_content_hash streamed)) (\<lambda>duplicate.
                  case duplicate of
                    None \<Rightarrow> raise e
                  | Some x \<Rightarrow> complete_duplicate E U command tenant key fingerprint temp_key x (su_byte_size streamed)))
              | _ \<Rightarrow> raise e)
         | Inr document \<Rightarrow>
             finish_upload E U command tenant key fingerprint temp_key metadata streamed document version)))))))"

definition handle_existing_record ::
  "env \<Rightarrow> UploadDocument_init \<Rightarrow> UploadDocumentCommand \<Rightarrow> TenantContext \<Rightarrow> UploadIdempotencyRecord \<Rightarrow>
   UploadDocumentResult tx" where
  "handle_existing_record E U command tenant record =
     (if ui_status record = IdemInProgress then raise (IdempotencyInProgressError ''Upload is already in progress.'')
      else if ui_status record = IdemCompleted then
        bind (assert_replay_fingerprint U command record) (\<lambda>_. replay_completed record tenant)
      else if ui_status record = IdemFailed \<and> \<not> ui_retryable record then
        bind (if ui_request_fingerprint record \<noteq> None then assert_replay_fingerprint U command record else ret ()) (\<lambda>_.
        raise (UploadValidationError
          (case ui_error_code record of
             None \<Rightarrow> ''validation_error''
           | Some c \<Rightarrow> if c = [] then ''validation_error'' else c)
          ''The previous upload attempt failed validation.''))
      else
        bind (if ui_request_fingerprint record \<noteq> None then assert_replay_fingerprint U command record else ret ()) (\<lambda>_.
        bind (document_now E None) (\<lambda>timestamp.
        bind (idempotency_mark_in_progress (tn_organization_id tenant) (ui_idempotency_key record) timestamp
          (plus_timedelta timestamp (us_idempotency_ttl U))) (\<lambda>_.
        bind commit (\<lambda>_.
        bind (record_upload_event E DOCUMENT_UPLOAD_STARTED tenant (cu_audit_context command) timestamp SUCCESS
          [(''idempotency_replay'', VBool True)]) (\<lambda>_.
        process_reserved_upload E U command tenant (ui_idempotency_key record)))))))"

definition UploadDocument ::
  "env \<Rightarrow> UploadDocument_init \<Rightarrow> UploadDocumentCommand \<Rightarrow> TenantContext \<Rightarrow> datetime option \<Rightarrow> UploadDocumentResult tx" where
  "UploadDocument E U command tenant now =
     bind (of_res (require tenant DOCUMENT_WRITE)) (\<lambda>_.
     bind (document_now E now) (\<lambda>timestamp.
     bind (of_res (validate_idempotency_key (cu_idempotency_key command))) (\<lambda>key.
     bind (idempotency_get (tn_organization_id tenant) key) (\<lambda>existing_record.
     case existing_record of
       Some record \<Rightarrow> handle_existing_record E U command tenant record
     | None \<Rightarrow>
         bind (idempotency_reserve E (tn_organization_id tenant) key timestamp
           (plus_timedelta timestamp (us_idempotency_ttl U))) (\<lambda>_.
         bind commit (\<lambda>_.
         bind (record_upload_event E DOCUMENT_UPLOAD_STARTED tenant (cu_audit_context command) timestamp SUCCESS
           [(''idempotency_replay'', VBool False)]) (\<lambda>_.
         process_reserved_upload E U command tenant key)))))))"

text \<open>A request: its own session, and its stream from the start.\<close>

definition upload_request ::
  "env \<Rightarrow> UploadDocument_init \<Rightarrow> UploadDocumentCommand \<Rightarrow> TenantContext \<Rightarrow> UploadDocumentResult tx" where
  "upload_request E U command tenant = (\<lambda>w. session_scope (UploadDocument E U command tenant None) (w\<lparr>stream_reads := 0\<rparr>))"

end
