(* ===== verification/Upload_Safety.thy ===== *)
theory Upload_Safety
  imports Upload_Document
begin

text \<open>
  What every upload request keeps, whatever its outcome. The locale \<open>upload_invariant\<close> states what
  a predicate of the tables needs of the repositories to survive an upload; the helpers of the
  use case are proved to keep such a predicate once, inside it. It is interpreted with the table
  invariant together with the rows of all other tenants, and with the same and the fact that
  one new document is still as it was added or has moved on.
\<close>

section \<open>Case distinctions\<close>

lemma pres_sum:
  "(\<And>a. s = Inl a \<Longrightarrow> preserves P (f a)) \<Longrightarrow> (\<And>b. s = Inr b \<Longrightarrow> preserves P (g b)) \<Longrightarrow>
     preserves P (case s of Inl a \<Rightarrow> f a | Inr b \<Rightarrow> g b)"
  by (cases s) simp_all

lemma pres_prod: "(\<And>a b. p = (a, b) \<Longrightarrow> preserves P (f a b)) \<Longrightarrow> preserves P (case p of (a, b) \<Rightarrow> f a b)"
  by (cases p) simp

lemma readonly_replay: "readonly (replay_completed r tn)"
  unfolding replay_completed_def
  by (cases "ui_document_id r"; cases "ui_document_version_id r"; simp add: readonly_basic; intro readonly_intros)

section \<open>What a predicate of the tables needs\<close>

locale upload_invariant =
  fixes I :: "db \<Rightarrow> bool" and t :: uuid
  assumes I_audit: "I d \<Longrightarrow> ae_organization_id e = Some t \<Longrightarrow> I (d\<lparr>audit_events := audit_events d @ [e]\<rparr>)"
    and I_reserve: "I d \<Longrightarrow> ui_organization_id r = t \<Longrightarrow> idempotency_violation True r d = None \<Longrightarrow>
      I (d\<lparr>upload_idempotency := upload_idempotency d @ [r]\<rparr>)"
    and I_save: "I d \<Longrightarrow> r \<in> set (upload_idempotency d) \<Longrightarrow> ui_organization_id r = t \<Longrightarrow>
      um_id r' = um_id r \<Longrightarrow> ui_organization_id r' = t \<Longrightarrow> ui_idempotency_key r' = ui_idempotency_key r \<Longrightarrow>
      I (d\<lparr>upload_idempotency := replace_where (\<lambda>x. um_id x = um_id r) (\<lambda>_. r') (upload_idempotency d)\<rparr>)"
    and I_mark: "I d \<Longrightarrow> v \<in> set (document_versions d) \<Longrightarrow> dv_organization_id v = t \<Longrightarrow>
      I (d\<lparr>document_versions := replace_where (\<lambda>u. dv_id u = dv_id v) (\<lambda>u. u\<lparr>dv_storage_state := st\<rparr>) (document_versions d)\<rparr>)"
begin

lemma pres_readonly: "readonly m \<Longrightarrow> preserves (both I) m"
  unfolding preserves_def both_def by (metis prod.collapse readonlyD)

lemma pres_event: "tn_organization_id tn = t \<Longrightarrow> preserves (both I) (record_upload_event E ty tn c now out md)"
  unfolding record_upload_event_def audit_record_def
  by (intro preserves_bind preserves_bind_of_res preserves_intros preserves_both_flush)
    (auto intro!: I_audit simp: record_from_event_def AuditEvent_create_frame)

lemma pres_failed_event: "tn_organization_id tn = t \<Longrightarrow> preserves (both I) (record_failed_upload E c tn code i)"
  unfolding record_failed_upload_def
  by (intro preserves_bind pres_event pres_readonly readonly_document_now)

lemma pres_save:
  assumes "\<And>r. um_id (f r) = um_id r \<and> ui_organization_id (f r) = ui_organization_id r \<and>
    ui_idempotency_key (f r) = ui_idempotency_key r"
  shows "preserves (both I) (bind (idempotency_required t k) (\<lambda>r. if b r then raise e else idempotency_save r (f r)))"
  unfolding preserves_def
proof (intro allI impI)
  fix w
  assume w: "both I w"
  show "both I (snd (bind (idempotency_required t k) (\<lambda>r. if b r then raise e else idempotency_save r (f r)) w))"
  proof (cases "idempotency_required t k w")
    case (Pair z w1)
    have w1: "w1 = w"
      using Pair by (auto simp: idempotency_required_def idempotency_record_def bind_def eff_simps split: sum.splits option.splits)
    show ?thesis
    proof (cases z)
      case (Inl e)
      then show ?thesis using Pair w w1 by (simp add: bind_def)
    next
      case (Inr r)
      have "scalar_one_or_none (filter (\<lambda>r. ui_organization_id r = t \<and> ui_idempotency_key r = k)
          (upload_idempotency (working w))) = Inr (Some r)"
        using Pair Inr
        by (auto simp: idempotency_required_def idempotency_record_def bind_def eff_simps split: sum.splits option.splits)
      then have "filter (\<lambda>r. ui_organization_id r = t \<and> ui_idempotency_key r = k) (upload_idempotency (working w)) = [r]"
        by (rule scalar_found)
      then have "r \<in> set (filter (\<lambda>r. ui_organization_id r = t \<and> ui_idempotency_key r = k) (upload_idempotency (working w)))"
        by (simp only: list.set) simp
      then have r: "r \<in> set (upload_idempotency (working w))" "ui_organization_id r = t"
        by simp_all
      have "I (working w)" "I (committed w)" using w by (simp_all add: both_def)
      then have "both I (snd (idempotency_save r (f r) w))"
        unfolding idempotency_save_def
        using I_save [OF _ r, of "f r"] assms [of r] r(2)
        by (auto simp: bind_def eff_simps flush_def both_def split: sum.split option.split)
      then show ?thesis
        using Pair Inr w w1 by (simp add: bind_def eff_simps)
    qed
  qed
qed

lemma pres_idempotency:
  "preserves (both I) (idempotency_mark_in_progress t k now x)"
  "preserves (both I) (idempotency_finalize_fingerprint t k f now)"
  "preserves (both I) (idempotency_complete t k f i j s out now)"
  "preserves (both I) (idempotency_fail t k g code s b now)"
proof -
  show "preserves (both I) (idempotency_mark_in_progress t k now x)"
    unfolding idempotency_mark_in_progress_def by (rule pres_save) simp
  have plain: "(\<lambda>r. idempotency_save r (h r)) = (\<lambda>r. if False then raise e else idempotency_save r (h r))" for h e
    by simp
  show "preserves (both I) (idempotency_finalize_fingerprint t k f now)"
    "preserves (both I) (idempotency_complete t k f i j s out now)"
    "preserves (both I) (idempotency_fail t k g code s b now)"
    unfolding idempotency_finalize_fingerprint_def idempotency_complete_def idempotency_fail_def
    by (subst plain, rule pres_save, simp)+
qed

lemma pres_get: "preserves (both I) (idempotency_get t k)"
  by (intro pres_readonly readonly_intros)

lemma pres_reserve: "preserves (both I) (idempotency_reserve E t k now x)"
  unfolding idempotency_reserve_def Let_def on_integrity_error_def
  by (intro preserves_bind preserves_intros preserves_both_flush pres_get) (auto intro!: I_reserve)

lemma pres_mark: "preserves (both I) (mark_version_storage_state t i j st)"
  unfolding preserves_def
proof (intro allI impI)
  fix w
  assume w: "both I w"
  show "both I (snd (mark_version_storage_state t i j st w))"
  proof (cases "version_record t i j w")
    case (Pair z w1)
    have w1: "w1 = w"
      using Pair by (auto simp: version_record_def bind_def eff_simps split: sum.splits)
    show ?thesis
    proof (cases "\<exists>r. z = Inr (Some r)")
      case False
      then show ?thesis
        using Pair w w1 by (auto simp: mark_version_storage_state_def bind_def eff_simps split: sum.split option.split)
    next
      case True
      then obtain r where z: "z = Inr (Some r)" by blast
      have "scalar_one_or_none (filter (\<lambda>v. dv_organization_id v = t \<and> version_key v = (i, j))
          (document_versions (working w))) = Inr (Some r)"
        using Pair z by (auto simp: version_record_def bind_def eff_simps split: sum.splits)
      then have "filter (\<lambda>v. dv_organization_id v = t \<and> version_key v = (i, j)) (document_versions (working w)) = [r]"
        by (rule scalar_found)
      then have "r \<in> set (filter (\<lambda>v. dv_organization_id v = t \<and> version_key v = (i, j)) (document_versions (working w)))"
        by (simp only: list.set) simp
      then have r: "r \<in> set (document_versions (working w))" "dv_organization_id r = t"
        by simp_all
      have "I (working w)" "I (committed w)" using w by (simp_all add: both_def)
      then show ?thesis
        using Pair z w1 I_mark [OF _ r, of st]
        by (simp add: mark_version_storage_state_def bind_def eff_simps flush_def both_def)
    qed
  qed
qed

lemma pres_catch: "preserves (both I) m \<Longrightarrow> preserves (both I) (catch m)"
  unfolding catch_def by (intro preserves_bind preserves_intros)

lemma pres_delete: "preserves (both I) (delete_temp_best_effort U k)"
  unfolding delete_temp_best_effort_def by (intro preserves_intros pres_readonly readonly_intros)

lemma pres_prepare: "preserves (both I) (prepare_upload U c)"
  unfolding prepare_upload_def Let_def read_stream_def
  by (intro preserves_bind preserves_intros) (auto simp: preserves_def split: prod.split)

lemma pres_after: "preserves (both I) m \<Longrightarrow> preserves (both I) (in_session_after e m)"
  by (simp add: in_session_after_def preserves_basic)

lemma pres_not_stored:
  assumes "tn_organization_id tn = t"
  shows "preserves (both I) (upload_not_stored E U c tn k tk f e)"
proof -
  have a: "preserves (both I) (bind (document_now E None) (\<lambda>now.
          bind (idempotency_fail (tn_organization_id tn) k f code 422 False now) (\<lambda>_.
          bind commit (\<lambda>_.
          bind (record_failed_upload E c tn code None) (\<lambda>_.
          raise e)))))" for code e
    unfolding assms
    by (intro preserves_bind preserves_intros pres_readonly readonly_document_now pres_idempotency pres_failed_event assms)
  have b: "preserves (both I) (bind (delete_temp_best_effort U tk) (\<lambda>_.
          bind (document_now E None) (\<lambda>now.
          in_session_after e
            (bind (idempotency_fail (tn_organization_id tn) k f ''object_storage_unavailable'' 503 True now) (\<lambda>_.
             bind commit (\<lambda>_.
             bind (record_failed_upload E c tn ''object_storage_unavailable'' None) (\<lambda>_.
             raise e')))))))" for e'
    unfolding assms
    by (intro preserves_bind preserves_intros pres_readonly readonly_document_now pres_idempotency pres_failed_event
        pres_delete pres_after assms)
  show ?thesis
    unfolding upload_not_stored_def using a b by (cases e) simp_all
qed

lemma pres_store:
  assumes "tn_organization_id tn = t"
  shows "preserves (both I) (store_temporarily E U c tn k tk)"
  unfolding store_temporarily_def
  by (intro preserves_bind preserves_intros pres_catch pres_prepare pres_sum pres_prod pres_not_stored
      pres_readonly readonly_document_now readonly_storage pres_idempotency [of k, folded assms] assms)

lemma pres_duplicate:
  assumes "tn_organization_id tn = t"
  shows "preserves (both I) (complete_duplicate E U c tn k f tk x n)"
    "preserves (both I) (complete_duplicate_if_present E U c tn k f tk h n)"
proof -
  show *: "preserves (both I) (complete_duplicate E U c tn k f tk x n)" for x
    unfolding complete_duplicate_def require_current_version_def
    by (intro preserves_bind preserves_intros pres_delete pres_readonly readonly_document_now readonly_document_reads
        pres_idempotency [of k, folded assms] pres_event assms)
  show "preserves (both I) (complete_duplicate_if_present E U c tn k f tk h n)"
    unfolding complete_duplicate_if_present_def
    by (intro preserves_bind preserves_intros pres_readonly readonly_document_reads *)
qed

lemma pres_replay:
  "preserves (both I) (assert_replay_fingerprint U c r)" "preserves (both I) (replay_completed r tn)"
proof -
  have "preserves (both I) (case p of
       Inl e \<Rightarrow> (case e of UploadValidationError code m \<Rightarrow> raise e1 | _ \<Rightarrow> raise e)
     | Inr (metadata, streamed, fingerprint) \<Rightarrow> if b fingerprint then raise e2 else ret ())" for p b e1 e2
    by (auto simp: preserves_basic split: sum.split exn.split prod.split)
  then show "preserves (both I) (assert_replay_fingerprint U c r)"
    unfolding assert_replay_fingerprint_def by (intro preserves_bind pres_catch pres_prepare)
  show "preserves (both I) (replay_completed r tn)"
    by (rule pres_readonly [OF readonly_replay])
qed

end

section \<open>The last step of an upload\<close>

locale upload_finish = upload_invariant +
  fixes x :: Document
  assumes I_persist: "I d \<Longrightarrow> Document_mark_stored now x u (Some now) = Inr y \<or> Document_mark_failed now x u (Some now) = Inr y \<Longrightarrow>
      (list_ex (row_matched d_organization_id d_id d_lock_version y) (documents d) \<Longrightarrow>
        first_violation (document_violations False y d) = None) \<Longrightarrow>
      I (d\<lparr>documents := replace_where (row_matched d_organization_id d_id d_lock_version y) (document_row_update y) (documents d)\<rparr>)"
begin

lemma pres_persist:
  assumes "Document_mark_stored now x u (Some now) = Inr y \<or> Document_mark_failed now x u (Some now) = Inr y"
  shows "preserves (both I) (document_archive_row y)"
  unfolding document_archive_row_def persist_document_state_def Let_def
  by (intro preserves_bind preserves_intros preserves_both_flush I_persist [OF _ assms]) (auto split: if_splits)

lemma pres_promote:
  assumes "tn_organization_id tn = t"
  shows "preserves (both I) (promote_new_document E U x v tn tk m n h)"
  unfolding promote_new_document_def mark_version_stored_def
  by (intro preserves_bind preserves_bind_of_res preserves_intros pres_readonly readonly_storage pres_delete
      pres_mark [folded assms] readonly_document_now pres_persist [OF disjI1])

lemma pres_storage_failed:
  assumes "tn_organization_id tn = t"
  shows "preserves (both I) (mark_upload_storage_failed E c tn k f x v)"
  unfolding mark_upload_storage_failed_def mark_version_failed_def
  by (intro preserves_bind preserves_bind_of_res preserves_intros pres_readonly
      pres_mark [folded assms] readonly_document_now pres_persist [OF disjI2] pres_idempotency [of k, folded assms]
      pres_failed_event assms)

lemma pres_finish:
  assumes "tn_organization_id tn = t"
  shows "preserves (both I) (finish_upload E U c tn k f tk md st x v)"
  unfolding finish_upload_def
  by (intro preserves_intros preserves_bind pres_prod pres_promote pres_after pres_storage_failed pres_readonly
      readonly_document_now pres_idempotency [of k, folded assms] pres_event assms)

end

section \<open>The table invariant and the other tenants\<close>

definition upload_tables :: "db \<Rightarrow> bool" where
  "upload_tables d \<longleftrightarrow> document_tables d \<and> distinct (map um_id (upload_idempotency d)) \<and>
     distinct (map (\<lambda>r. (ui_organization_id r, ui_idempotency_key r)) (upload_idempotency d))"

text \<open>A new document is as it was added, or its row has a later lock version.\<close>

definition added_or_later :: "Document \<Rightarrow> db \<Rightarrow> bool" where
  "added_or_later x d \<longleftrightarrow> (\<forall>s \<in> set (documents d). d_id s = d_id x \<longrightarrow> s = x \<or> d_lock_version s \<noteq> d_lock_version x)"

lemma replace_where_unique:
  assumes "distinct (map f xs)" and "x \<in> set xs"
  shows "replace_where (\<lambda>y. f y = f x) g xs = map (\<lambda>y. if y = x then g x else y) xs"
  using assms by (auto simp: replace_where_def distinct_map inj_on_def)

lemma filter_map_replaced: "\<not> Q x \<Longrightarrow> \<not> Q y \<Longrightarrow> filter Q (map (\<lambda>z. if z = x then y else z) xs) = filter Q xs"
  by (induction xs) auto

lemma DocumentVersion_post_init_state:
  "DocumentVersion_post_init (u\<lparr>dv_storage_state := st\<rparr>) = map_sum id (\<lambda>v. v\<lparr>dv_storage_state := st\<rparr>) (DocumentVersion_post_init u)"
  by (simp add: DocumentVersion_post_init_def bind_res_def split: sum.split)

lemma version_from_record_state:
  assumes "version_from_record v = Inr w"
  shows "version_from_record (v\<lparr>dv_storage_state := st\<rparr>) = Inr (w\<lparr>dv_storage_state := st\<rparr>)"
proof -
  obtain a b h k where ok: "DocumentVersionId_post_init (DocumentVersionId_value (dv_id v)) = Inr a"
      "DocumentId_post_init (DocumentId_value (dv_document_id v)) = Inr b"
      "ContentHash_post_init (ContentHash_value (dv_content_hash v)) = Inr h"
      "StorageObjectKey_post_init (StorageObjectKey_value (dv_storage_object_key v)) = Inr k"
    and p: "DocumentVersion_post_init (v\<lparr>dv_id := a, dv_document_id := b, dv_content_hash := h,
        dv_storage_object_key := k, dv_created_at := astimezone_utc (dv_created_at v)\<rparr>) = Inr w"
    using assms unfolding version_from_record_def by (elim bind_res_InrE)
  have "DocumentVersion_post_init ((v\<lparr>dv_id := a, dv_document_id := b, dv_content_hash := h,
        dv_storage_object_key := k, dv_created_at := astimezone_utc (dv_created_at v)\<rparr>)\<lparr>dv_storage_state := st\<rparr>) =
      Inr (w\<lparr>dv_storage_state := st\<rparr>)"
    unfolding DocumentVersion_post_init_state p by simp
  moreover have "(v\<lparr>dv_id := a, dv_document_id := b, dv_content_hash := h,
        dv_storage_object_key := k, dv_created_at := astimezone_utc (dv_created_at v)\<rparr>)\<lparr>dv_storage_state := st\<rparr> =
      v\<lparr>dv_storage_state := st, dv_id := a, dv_document_id := b, dv_content_hash := h,
        dv_storage_object_key := k, dv_created_at := astimezone_utc (dv_created_at v)\<rparr>"
    by (cases v) simp
  ultimately show ?thesis
    unfolding version_from_record_def by (simp add: ok del: id_post_init)
qed

lemma document_tables_marked:
  assumes ok: "document_tables d" and v: "v \<in> set (document_versions d)"
  shows "document_tables (d\<lparr>document_versions := map (\<lambda>u. if u = v then v\<lparr>dv_storage_state := st\<rparr> else u) (document_versions d)\<rparr>)"
proof -
  define f where "f = (\<lambda>u. if u = v then v\<lparr>dv_storage_state := st\<rparr> else u)"
  let ?d = "d\<lparr>document_versions := map f (document_versions d)\<rparr>"
  have keys [simp]: "dv_id (f u) = dv_id u" "dv_organization_id (f u) = dv_organization_id u" "dv_document_id (f u) = dv_document_id u"
    "dv_version_number (f u) = dv_version_number u" "version_hash (f u) = version_hash u" for u
    by (auto simp: version_hash_def f_def)
  have vs: "versions_of ?d g i = map f (versions_of d g i)" for g i
    by (simp add: versions_of_def filter_map comp_def)
  have missing: "version_missing ?d = version_missing d"
    by (simp add: version_missing_def fun_eq_iff)
  have "document_ok ?d x" if "x \<in> set (documents d)" for x
    using document_tablesD(5) [OF ok that] unfolding document_ok_def Let_def vs
    by (simp add: last_map comp_def)
  moreover have "version_ok ?d u" if "u \<in> set (document_versions ?d)" for u
    using that document_tablesD(6) [OF ok] v version_from_record_state [of v v st] by (auto simp: version_ok_def f_def)
  moreover have "artifact_ok ?d a" if "a \<in> set (document_artifacts d)" for a
    using document_tablesD(7) [OF ok that] by (simp add: artifact_ok_def missing)
  ultimately have "document_tables ?d"
    using document_tablesD(1-4) [OF ok] unfolding document_tables_def by (simp add: comp_def)
  then show ?thesis by (simp add: f_def)
qed

definition tenant_kept :: "uuid \<Rightarrow> (tenant_view \<times> User list \<times> Organization list \<times> Membership list \<times>
    PasswordCredential list \<times> AuthSession list \<times> RefreshTokenRecord list) \<Rightarrow> db \<Rightarrow> bool" where
  "tenant_kept t X d \<longleftrightarrow> outside t d = X \<and> upload_tables d"

lemma upload_tables_frame [simp]: "upload_tables (d\<lparr>audit_events := a\<rparr>) = upload_tables d"
  by (simp add: upload_tables_def)

lemma tenant_kept_audit:
  "tenant_kept t X d \<Longrightarrow> ae_organization_id e = Some t \<Longrightarrow> tenant_kept t X (d\<lparr>audit_events := audit_events d @ [e]\<rparr>)"
  by (simp add: tenant_kept_def) (simp add: outside_defs)

lemma tenant_kept_reserve:
  assumes "tenant_kept t X d" and "ui_organization_id r = t" and "idempotency_violation True r d = None"
  shows "tenant_kept t X (d\<lparr>upload_idempotency := upload_idempotency d @ [r]\<rparr>)"
  using assms upload_idempotency_rows.outside_insert [of r t d]
  by (auto simp: tenant_kept_def upload_tables_def idempotency_violation_def split: if_splits)

lemma tenant_kept_save:
  assumes k: "tenant_kept t X d" and r: "r \<in> set (upload_idempotency d)" "ui_organization_id r = t"
    and r': "um_id r' = um_id r" "ui_organization_id r' = t" "ui_idempotency_key r' = ui_idempotency_key r"
  shows "tenant_kept t X (d\<lparr>upload_idempotency := replace_where (\<lambda>x. um_id x = um_id r) (\<lambda>_. r') (upload_idempotency d)\<rparr>)"
proof -
  have ids: "distinct (map um_id (upload_idempotency d))"
    using k by (simp add: tenant_kept_def upload_tables_def)
  let ?rs = "map (\<lambda>y. if y = r then r' else y) (upload_idempotency d)"
  have u: "replace_where (\<lambda>x. um_id x = um_id r) (\<lambda>_. r') (upload_idempotency d) = ?rs"
    by (rule replace_where_unique [OF ids r(1)])
  have "outside t (d\<lparr>upload_idempotency := ?rs\<rparr>) = outside t d"
    by (rule upload_idempotency_rows.outside_put) (rule filter_map_replaced; use r r' in simp)
  moreover have "map um_id ?rs = map um_id (upload_idempotency d)"
    "map (\<lambda>r. (ui_organization_id r, ui_idempotency_key r)) ?rs =
      map (\<lambda>r. (ui_organization_id r, ui_idempotency_key r)) (upload_idempotency d)"
    using r r' by auto
  ultimately show ?thesis
    using k unfolding u tenant_kept_def upload_tables_def by (simp del: map_map)
qed

lemma tenant_kept_mark:
  assumes k: "tenant_kept t X d" and v: "v \<in> set (document_versions d)" "dv_organization_id v = t"
  shows "tenant_kept t X (d\<lparr>document_versions := replace_where (\<lambda>u. dv_id u = dv_id v) (\<lambda>u. u\<lparr>dv_storage_state := st\<rparr>) (document_versions d)\<rparr>)"
proof -
  have ok: "document_tables d"
    using k by (simp add: tenant_kept_def upload_tables_def)
  let ?vs = "map (\<lambda>u. if u = v then v\<lparr>dv_storage_state := st\<rparr> else u) (document_versions d)"
  have u: "replace_where (\<lambda>u. dv_id u = dv_id v) (\<lambda>u. u\<lparr>dv_storage_state := st\<rparr>) (document_versions d) = ?vs"
    by (rule replace_where_unique [OF document_tablesD(2) [OF ok] v(1)])
  have "outside t (d\<lparr>document_versions := ?vs\<rparr>) = outside t d"
    by (rule document_version_rows.outside_put) (rule filter_map_replaced; use v in simp)
  then show ?thesis
    using k document_tables_marked [OF ok v(1), of st] unfolding u tenant_kept_def upload_tables_def by simp
qed

interpretation kept: upload_invariant "tenant_kept t X" t for t X
  by unfold_locales (fact tenant_kept_audit tenant_kept_reserve tenant_kept_save tenant_kept_mark)+

lemma added_or_later_frame [simp]:
  "added_or_later x (d\<lparr>audit_events := a\<rparr>) = added_or_later x d"
  "added_or_later x (d\<lparr>upload_idempotency := b\<rparr>) = added_or_later x d"
  "added_or_later x (d\<lparr>document_versions := v\<rparr>) = added_or_later x d"
  by (simp_all add: added_or_later_def)

lemma tenant_kept_persist:
  assumes k: "tenant_kept t X d" "added_or_later x d" and x: "document_from_record x = Inr x" "d_organization_id x = t"
    and y: "Document_mark_stored now x u (Some now) = Inr y \<or> Document_mark_failed now x u (Some now) = Inr y"
    and viol: "list_ex (row_matched d_organization_id d_id d_lock_version y) (documents d) \<Longrightarrow>
        first_violation (document_violations False y d) = None"
  shows "tenant_kept t X (d\<lparr>documents := replace_where (row_matched d_organization_id d_id d_lock_version y) (document_row_update y) (documents d)\<rparr>) \<and>
    added_or_later x (d\<lparr>documents := replace_where (row_matched d_organization_id d_id d_lock_version y) (document_row_update y) (documents d)\<rparr>)"
proof (cases "list_ex (row_matched d_organization_id d_id d_lock_version y) (documents d)")
  case False
  then have "replace_where (row_matched d_organization_id d_id d_lock_version y) (document_row_update y) (documents d) = documents d"
    by (auto simp: replace_where_def list_ex_iff intro: map_idI)
  then show ?thesis using k by simp
next
  case True
  have ok: "document_tables d"
    using k by (simp add: tenant_kept_def upload_tables_def)
  note f = document_change_frame [of now x undefined u y, OF _ x(1)]
  have fr: "wf_document y" "d_id y = d_id x" "d_organization_id y = d_organization_id x" "d_lock_version y = d_lock_version x + 1"
    "d_created_at y = d_created_at x" "d_created_by_user_id y = d_created_by_user_id x"
    using f y by blast+
  have cur: "d_current_version_id y = d_current_version_id x"
    using y document_change_current(3,4) by blast
  have m: "row_matched d_organization_id d_id d_lock_version y s \<longleftrightarrow> s = x" if "s \<in> set (documents d)" for s
    using that k(2) fr by (auto simp: row_matched_def added_or_later_def)
  then have xin: "x \<in> set (documents d)"
    using True by (auto simp: list_ex_iff)
  have at: "document_at d (d_organization_id y) (d_id y) = Some x"
    using row_at_iff [OF document_tablesD(1) [OF ok]] xin fr by auto
  have "document_row_update y x = y"
    using fr by (cases x; cases y) (simp add: document_row_update_def)
  then have u: "replace_where (row_matched d_organization_id d_id d_lock_version y) (document_row_update y) (documents d) =
      map (\<lambda>s. if s = x then y else s) (documents d)"
    using m by (auto simp: replace_where_def)
  have "document_from_record y = Inr y"
    using fr cur x by (simp add: document_loads)
  then have "document_tables (d\<lparr>documents := map (\<lambda>s. if s = x then y else s) (documents d)\<rparr>)"
    using document_tables_changed [OF ok at _ viol [OF True] cur] by blast
  moreover have "outside t (d\<lparr>documents := map (\<lambda>s. if s = x then y else s) (documents d)\<rparr>) = outside t d"
    by (rule document_rows.outside_put) (rule filter_map_replaced; use fr x in simp)
  moreover have "added_or_later x (d\<lparr>documents := map (\<lambda>s. if s = x then y else s) (documents d)\<rparr>)"
    using k(2) fr by (auto simp: added_or_later_def)
  ultimately show ?thesis
    using k(1) unfolding u by (simp add: tenant_kept_def upload_tables_def)
qed

definition new_kept :: "uuid \<Rightarrow> (tenant_view \<times> User list \<times> Organization list \<times> Membership list \<times>
    PasswordCredential list \<times> AuthSession list \<times> RefreshTokenRecord list) \<Rightarrow> Document \<Rightarrow> db \<Rightarrow> bool" where
  "new_kept t X x d \<longleftrightarrow>
     tenant_kept t X d \<and> added_or_later x d \<and> document_from_record x = Inr x \<and> d_organization_id x = t"

interpretation finishing: upload_finish "new_kept t X x" t x for t X x
proof unfold_locales
  fix d now u y
  assume "new_kept t X x d"
    "Document_mark_stored now x u (Some now) = Inr y \<or> Document_mark_failed now x u (Some now) = Inr y"
    "list_ex (row_matched d_organization_id d_id d_lock_version y) (documents d) \<Longrightarrow>
        first_violation (document_violations False y d) = None"
  then show "new_kept t X x (d\<lparr>documents :=
      replace_where (row_matched d_organization_id d_id d_lock_version y) (document_row_update y) (documents d)\<rparr>)"
    using tenant_kept_persist [of t X d x now u y] by (simp add: new_kept_def)
qed (simp_all add: new_kept_def tenant_kept_audit tenant_kept_reserve tenant_kept_save tenant_kept_mark)

section \<open>The whole request\<close>

lemma preserves_bind_post:
  assumes "\<And>w r w'. P w \<Longrightarrow> m w = (Inr r, w') \<Longrightarrow> R r w'" and "\<And>w e w'. P w \<Longrightarrow> m w = (Inl e, w') \<Longrightarrow> P w'"
    and "\<And>r w. R r w \<Longrightarrow> P (snd (k r w))"
  shows "preserves P (bind m k)"
  unfolding preserves_def
proof (intro allI impI)
  fix w
  assume w: "P w"
  show "P (snd (bind m k w))"
  proof (cases "m w")
    case (Pair z w1)
    then show ?thesis
      using assms(1) [OF w, of _ w1] assms(2) [OF w, of _ w1] assms(3) by (cases z) (auto simp: bind_def)
  qed
qed

definition fresh_pair :: "uuid \<Rightarrow> Document \<times> DocumentVersion \<Rightarrow> bool" where
  "fresh_pair t = (\<lambda>(x, v). d_organization_id x = t \<and> document_from_record x = Inr x \<and> d_lock_version x = 1 \<and>
     version_from_record v = Inr v \<and> dv_organization_id v = t \<and> dv_document_id v = d_id x \<and>
     dv_id v = d_current_version_id x \<and> dv_version_number v = 1)"

lemma new_pair:
  assumes h: "ContentHash_post_init s = Inr h"
  shows "returns (new_document_pair E tn md h n now) (fresh_pair (tn_organization_id tn))"
  unfolding new_document_pair_def
proof (rule returns_bind, rule returns_bind_of_res, rule returns_bind, rule returns_bind_of_res, rule returns_bind_of_res,
    rule returns_bind_of_res)
  fix i i' j j' v x
  assume ids: "DocumentId_post_init i = Inr i'" "DocumentVersionId_post_init j = Inr j'"
    and v: "DocumentVersion_create now j' (tn_organization_id tn) i' 1 (nm_filename md) (nm_media_type md) n h
        StoragePending (Some now) (tn_user_id tn) None = Inr v"
    and x: "Document_register now i' (tn_organization_id tn) (nm_filename md) SourceUpload None v (tn_user_id tn)
        (Some now) = Inr x"
  note fv = version_created [of now j "tn_organization_id tn" i' 1 "nm_filename md" "nm_media_type md" n h StoragePending
      "Some now" "tn_user_id tn" v s]
  note fx = Document_register_frame [OF x]
  have "fresh_pair (tn_organization_id tn) (x, v)"
    using fv v ids h fx by (simp add: fresh_pair_def document_loads)
  then show "returns (ret (x, v)) (fresh_pair (tn_organization_id tn))"
    by (simp add: returns_def eff_simps)
qed

text \<open>Adding the new pair: both rows are there, or the tables are as they were or rolled back.\<close>

lemma add_pair:
  assumes w: "both (tenant_kept t X) w" and x: "fresh_pair t (x, v)"
    and run: "catch (bind (document_add x v) (\<lambda>x. bind commit (\<lambda>_. ret x))) w = (z, w')"
  shows "(z = Inr (Inr x) \<and> both (new_kept t X x) w' \<and> committed w' = working w' \<and>
       working w' = (working w)\<lparr>documents := documents (working w) @ [x], document_versions := document_versions (working w) @ [v]\<rparr>) \<or>
     (\<exists>e. z = Inr (Inl e) \<and> both (tenant_kept t X) w')"
proof -
  let ?d = "working w"
  let ?d' = "?d\<lparr>documents := documents ?d @ [x], document_versions := document_versions ?d @ [v]\<rparr>"
  let ?viol = "first_violation (document_violations True x ?d @ version_violations v ?d)"
  have k: "tenant_kept t X ?d" "tenant_kept t X (committed w)"
    using w by (simp_all add: both_def)
  show ?thesis
  proof (cases "check_version_columns v = Inr () \<and> ?viol = None")
    case True
    then have viol: "first_violation (document_violations True x ?d) = None" "first_violation (version_violations v ?d) = None"
      by (simp_all add: first_violation_append)
    have "document_tables ?d'"
      by (rule document_tables_new_document) (use k viol x in \<open>simp_all add: tenant_kept_def upload_tables_def fresh_pair_def\<close>)
    moreover have "outside t ?d' = outside t ?d"
      using document_rows.outside_insert [of x t ?d] document_version_rows.outside_insert [of v t "?d\<lparr>documents := documents ?d @ [x]\<rparr>"] x
      by (simp add: fresh_pair_def)
    moreover have "added_or_later x ?d'"
    proof -
      have "d_id x \<notin> set (map d_id (documents ?d))"
        using viol(1) by (auto simp: document_violations_def split: if_splits)
      then have "\<forall>s \<in> set (documents ?d). d_id s \<noteq> d_id x"
        by (metis image_eqI set_map)
      then show ?thesis by (simp add: added_or_later_def)
    qed
    ultimately have "new_kept t X x ?d'"
      using k x by (simp add: new_kept_def tenant_kept_def upload_tables_def fresh_pair_def)
    moreover have "(z, w') = (Inr (Inr x), w\<lparr>working := ?d', committed := ?d'\<rparr>)"
      using run True x
      by (simp add: catch_def document_add_def on_integrity_error_def try_except_def flush_def bind_def eff_simps fresh_pair_def)
    ultimately show ?thesis by (simp add: both_def)
  next
    case False
    then have "\<exists>e. (z, w') = (Inr (Inl e), w) \<or> (z, w') = (Inr (Inl e), w\<lparr>working := committed w\<rparr>)"
      using run
      by (cases "check_version_columns v")
        (auto simp: catch_def document_add_def on_integrity_error_def try_except_def flush_def bind_def eff_simps
          split: option.splits)
    then show ?thesis using k by (auto simp: both_def)
  qed
qed

lemma catch_simps [simp]:
  "catch m w = (Inr (Inr x), w') \<longleftrightarrow> m w = (Inr x, w')"
  "catch m w = (Inr (Inl e), w') \<longleftrightarrow> m w = (Inl e, w')"
  "catch m w \<noteq> (Inl e', w')"
  by (auto simp: catch_def try_except_def bind_def eff_simps split: prod.splits sum.splits)

lemma streamed_hash:
  "returns (prepare_upload U c) (\<lambda>(m, s, f). \<exists>x. ContentHash_post_init x = Inr (su_content_hash s))"
  unfolding returns_def
proof (intro allI impI)
  fix w p w'
  assume "prepare_upload U c w = (Inr p, w')"
  then obtain m s f w1 where p: "p = (m, s, f)" and s: "read_stream U c w = (Inr s, w1)"
    by (auto simp: prepare_upload_def Let_def eff_simps elim!: bind_InrE)
  then show "case p of (m, s, f) \<Rightarrow> \<exists>x. ContentHash_post_init x = Inr (su_content_hash s)"
    by (auto simp: read_stream_def stream_upload_def split: prod.splits sum.splits)
qed

lemma not_stored_raises: "upload_not_stored E U c tn k tk f e w \<noteq> (Inr x, w')"
  by (cases e) (auto simp: upload_not_stored_def in_session_after_def eff_simps elim!: bind_InrE split: if_splits)

lemma store_temporarilyD:
  assumes "store_temporarily E U c tn k tk w = (Inr (m, s, f), w')"
  obtains w1 w2 w3 w4 now r p where "prepare_upload U c w = (Inr (m, s, f), w1)"
    and "document_now E None w1 = (Inr now, w2)"
    and "idempotency_finalize_fingerprint (tn_organization_id tn) k f now w2 = (Inr r, w3)"
    and "put_temp_stream (us_storage U) \<lparr>pt_key = tk, pt_body = su_body s, pt_media_type = nm_media_type m\<rparr> w3 = (Inr p, w4)"
    and "w' = w4\<lparr>committed := working w4\<rparr>"
proof -
  obtain z w1 where z: "catch (prepare_upload U c) w = (Inr z, w1)"
    and rest: "(case z of
       Inl e \<Rightarrow> upload_not_stored E U c tn k tk None e
     | Inr (metadata, streamed, fingerprint) \<Rightarrow>
         bind (catch
           (bind (document_now E None) (\<lambda>now.
            bind (idempotency_finalize_fingerprint (tn_organization_id tn) k fingerprint now) (\<lambda>_.
            bind (put_temp_stream (us_storage U)
              \<lparr>pt_key = tk, pt_body = su_body streamed, pt_media_type = nm_media_type metadata\<rparr>) (\<lambda>_.
            commit))))) (\<lambda>stored.
         case stored of
           Inl e \<Rightarrow> upload_not_stored E U c tn k tk (Some fingerprint) e
         | Inr u \<Rightarrow> ret (metadata, streamed, fingerprint))) w1 = (Inr (m, s, f), w')"
    using assms unfolding store_temporarily_def by (rule bind_InrE)
  obtain m1 s1 f1 where z': "z = Inr (m1, s1, f1)"
  proof (cases z)
    case (Inl e)
    then show thesis using rest not_stored_raises [of E U c tn k tk None e w1 "(m, s, f)" w'] by simp
  next
    case (Inr p)
    then show thesis by (cases p) (rule that, simp)
  qed
  note rest' = rest [unfolded z', simplified]
  obtain st w5 where st: "catch
           (bind (document_now E None) (\<lambda>now.
            bind (idempotency_finalize_fingerprint (tn_organization_id tn) k f1 now) (\<lambda>_.
            bind (put_temp_stream (us_storage U)
              \<lparr>pt_key = tk, pt_body = su_body s1, pt_media_type = nm_media_type m1\<rparr>) (\<lambda>_.
            commit)))) w1 = (Inr st, w5)"
    and fin: "(case st of
           Inl e \<Rightarrow> upload_not_stored E U c tn k tk (Some f1) e
         | Inr u \<Rightarrow> ret (m1, s1, f1)) w5 = (Inr (m, s, f), w')"
    using rest' by (rule bind_InrE)
  obtain u where u: "st = Inr u" and eq: "m1 = m" "s1 = s" "f1 = f" "w5 = w'"
  proof (cases st)
    case (Inl e)
    then show thesis using fin not_stored_raises [of E U c tn k tk "Some f1" e w5 "(m, s, f)" w'] by simp
  next
    case (Inr u)
    then show thesis using fin by (intro that) (simp_all add: eff_simps)
  qed
  have "bind (document_now E None) (\<lambda>now.
            bind (idempotency_finalize_fingerprint (tn_organization_id tn) k f now) (\<lambda>_.
            bind (put_temp_stream (us_storage U)
              \<lparr>pt_key = tk, pt_body = su_body s, pt_media_type = nm_media_type m\<rparr>) (\<lambda>_.
            commit))) w1 = (Inr u, w')"
    using st unfolding u eq by simp
  then show thesis
    using that z unfolding z' eq by (auto simp: eff_simps elim!: bind_InrE)
qed

lemma store_hash:
  "returns (store_temporarily E U c tn k tk) (\<lambda>(m, s, f). \<exists>x. ContentHash_post_init x = Inr (su_content_hash s))"
  unfolding returns_def
proof (intro allI impI)
  fix w p w'
  assume run: "store_temporarily E U c tn k tk w = (Inr p, w')"
  obtain m s f where p: "p = (m, s, f)" by (cases p)
  obtain w1 where "prepare_upload U c w = (Inr p, w1)"
    using run unfolding p by (rule store_temporarilyD)
  from returnsD [OF streamed_hash this]
  show "case p of (m, s, f) \<Rightarrow> \<exists>x. ContentHash_post_init x = Inr (su_content_hash s)" .
qed

text \<open>The end of the request once the content is stored temporarily and is not a known one.\<close>

lemma kept_added:
  assumes "tn_organization_id tn = t" and fresh: "fresh_pair t p"
  shows "preserves (both (tenant_kept t X)) (case p of (x, v) \<Rightarrow>
     bind (catch (bind (document_add x v) (\<lambda>x. bind commit (\<lambda>_. ret x)))) (\<lambda>added.
         case added of
           Inl e \<Rightarrow>
             (case e of
                DuplicateDocumentContentError m \<Rightarrow>
                  bind rollback (\<lambda>_.
                  bind (document_find_by_hash (tn_organization_id tn) (su_content_hash st)) (\<lambda>duplicate.
                  case duplicate of
                    None \<Rightarrow> raise e
                  | Some x \<Rightarrow> complete_duplicate E U c tn k f tk x (su_byte_size st)))
              | _ \<Rightarrow> raise e)
         | Inr x \<Rightarrow> finish_upload E U c tn k f tk md st x v))"
proof -
  obtain x v where p: "p = (x, v)" by fastforce
  let ?R = "\<lambda>r w. case r of Inl e \<Rightarrow> both (tenant_kept t X) w | Inr y \<Rightarrow> y = x \<and> both (new_kept t X x) w"
  let ?h = "\<lambda>e. case e of DuplicateDocumentContentError m \<Rightarrow>
             bind rollback (\<lambda>_.
             bind (document_find_by_hash (tn_organization_id tn) (su_content_hash st)) (\<lambda>duplicate.
             case duplicate of
               None \<Rightarrow> raise e
             | Some x \<Rightarrow> complete_duplicate E U c tn k f tk x (su_byte_size st)))
         | _ \<Rightarrow> raise e"
  have "preserves (both (tenant_kept t X)) (bind rollback (\<lambda>_.
             bind (document_find_by_hash (tn_organization_id tn) (su_content_hash st)) (\<lambda>duplicate.
             case duplicate of
               None \<Rightarrow> raise e
             | Some x \<Rightarrow> complete_duplicate E U c tn k f tk x (su_byte_size st))))" for e
    by (intro preserves_bind preserves_intros kept.pres_duplicate kept.pres_readonly readonly_document_reads assms(1))
  then have h: "preserves (both (tenant_kept t X)) (?h e)" for e
    by (cases e) (simp_all add: preserves_basic)
  have weaken: "both (tenant_kept t X) w" if "both (new_kept t X x) w" for w
    using that by (simp add: both_def new_kept_def)
  show ?thesis
    unfolding p prod.case
  proof (rule preserves_bind_post [where R = ?R])
    fix w r w'
    assume "both (tenant_kept t X) w" "catch (bind (document_add x v) (\<lambda>x. bind commit (\<lambda>_. ret x))) w = (Inr r, w')"
    from add_pair [OF this(1) _ this(2)] fresh show "?R r w'"
      by (auto simp: p)
  next
    fix r :: "exn + Document" and w
    assume r: "?R r w"
    show "both (tenant_kept t X) (snd ((case r of Inl e \<Rightarrow>
             (case e of
                DuplicateDocumentContentError m \<Rightarrow>
                  bind rollback (\<lambda>_.
                  bind (document_find_by_hash (tn_organization_id tn) (su_content_hash st)) (\<lambda>duplicate.
                  case duplicate of
                    None \<Rightarrow> raise e
                  | Some x \<Rightarrow> complete_duplicate E U c tn k f tk x (su_byte_size st)))
              | _ \<Rightarrow> raise e)
         | Inr x \<Rightarrow> finish_upload E U c tn k f tk md st x v) w))"
    proof (cases r)
      case (Inl e)
      then show ?thesis using h [of e] r by (simp add: preserves_def)
    next
      case (Inr y)
      then show ?thesis
        using finishing.pres_finish [OF assms(1), of X x E U c k f tk md st v] r weaken by (simp add: preserves_def)
    qed
  qed simp
qed

lemma kept_process:
  assumes "tn_organization_id tn = t"
  shows "preserves (both (tenant_kept t X)) (process_reserved_upload E U c tn k)"
  unfolding process_reserved_upload_def
proof (rule preserves_bind [OF preserves_oracles(2)], rule preserves_bind_of_res,
    rule preserves_bind_returns [OF store_hash kept.pres_store [OF assms]], clarify)
  fix i tk f h and m :: NormalizedUploadMetadata and s :: StreamedUpload
  assume h: "ContentHash_post_init h = Inr (su_content_hash s)"
  note pair = new_pair [OF h, of E tn, unfolded assms]
  have n: "preserves (both (tenant_kept t X)) (new_document_pair E tn m (su_content_hash s) (su_byte_size s) now)" for now
    unfolding new_document_pair_def by (intro preserves_bind preserves_intros)
  show "preserves (both (tenant_kept t X))
     (bind (complete_duplicate_if_present E U c tn k f tk (su_content_hash s) (su_byte_size s)) (\<lambda>duplicate_result.
     case duplicate_result of
       Some result \<Rightarrow> ret result
     | None \<Rightarrow>
         bind (document_now E None) (\<lambda>now.
         bind (new_document_pair E tn m (su_content_hash s) (su_byte_size s) now)
           (\<lambda>(document, version).
         bind (catch (bind (document_add document version) (\<lambda>document. bind commit (\<lambda>_. ret document)))) (\<lambda>added.
         case added of
           Inl e \<Rightarrow>
             (case e of
                DuplicateDocumentContentError m \<Rightarrow>
                  bind rollback (\<lambda>_.
                  bind (document_find_by_hash (tn_organization_id tn) (su_content_hash s)) (\<lambda>duplicate.
                  case duplicate of
                    None \<Rightarrow> raise e
                  | Some x \<Rightarrow> complete_duplicate E U c tn k f tk x (su_byte_size s)))
              | _ \<Rightarrow> raise e)
         | Inr document \<Rightarrow>
             finish_upload E U c tn k f tk m s document version)))))"
    by (intro preserves_bind [OF kept.pres_duplicate(2) [OF assms]] preserves_intros
        preserves_bind [OF kept.pres_readonly [OF readonly_document_now]]
        preserves_bind_returns [OF pair n] kept_added [OF assms])
qed

lemma kept_upload: "preserves (both (tenant_kept (tn_organization_id tn) X)) (UploadDocument E U c tn now)"
proof -
  let ?I = "both (tenant_kept (tn_organization_id tn) X)"
  have a: "preserves ?I (if b then assert_replay_fingerprint U c r else ret ())" for b r
    by (intro preserves_intros kept.pres_replay)
  have "preserves ?I (handle_existing_record E U c tn r)" for r
    unfolding handle_existing_record_def
    by (intro preserves_if preserves_basic preserves_bind a kept.pres_replay kept.pres_readonly [OF readonly_document_now]
        kept.pres_idempotency preserves_transaction kept.pres_event kept_process refl)
  then show ?thesis
    unfolding UploadDocument_def
    by (intro preserves_bind preserves_basic preserves_option kept.pres_readonly [OF readonly_document_now] kept.pres_get
        kept.pres_reserve preserves_transaction kept.pres_event kept_process refl)
qed

section \<open>The objects an upload touches\<close>

definition upload_key :: "uuid \<Rightarrow> string \<Rightarrow> bool" where
  "upload_key g k \<longleftrightarrow> startswith k (''tmp/'' @ uuid_str g @ ''/'') \<or> startswith k (''documents/'' @ uuid_str g @ ''/'')"

fun upload_call :: "uuid \<Rightarrow> s3_call \<Rightarrow> bool" where
  "upload_call g (PutObject k body m) \<longleftrightarrow> startswith k (''tmp/'' @ uuid_str g @ ''/'')"
| "upload_call g (CopyObject k k' m) \<longleftrightarrow>
     startswith k (''tmp/'' @ uuid_str g @ ''/'') \<and> startswith k' (''documents/'' @ uuid_str g @ ''/'')"
| "upload_call g (DeleteObject k) \<longleftrightarrow> startswith k (''tmp/'' @ uuid_str g @ ''/'')"
| "upload_call g (HeadObject k) \<longleftrightarrow> upload_key g k"
| "upload_call g (PresignGet k n) \<longleftrightarrow> False"

lemma upload_keys:
  "StorageObjectKey_for_temporary_upload g u = Inr k \<Longrightarrow> startswith (StorageObjectKey_value k) (''tmp/'' @ uuid_str g @ ''/'')"
  "StorageObjectKey_for_document_content g h = Inr k \<Longrightarrow> startswith (StorageObjectKey_value k) (''documents/'' @ uuid_str g @ ''/'')"
  by (auto simp: StorageObjectKey_for_temporary_upload_def StorageObjectKey_for_document_content_def Let_def
      dest!: key_post_init_id simp: startswith_iff)

end
