(* ===== verification/Upload_Requests.thy ===== *)
theory Upload_Requests
  imports Upload_Safety
begin

text \<open>
  Upload requests as a whole: the storage objects they touch, what a replay of an idempotency key
  gives, and the properties of the use case.
\<close>

section \<open>Storage calls\<close>

lemma quiet_repositories [calls_intros]:
  "calls_only P (idempotency_get g k)" "calls_only P (idempotency_required g k)" 
  "calls_only P (idempotency_reserve E g k t x)" "calls_only P (idempotency_mark_in_progress g k t x)"
  "calls_only P (idempotency_finalize_fingerprint g k f t)" "calls_only P (idempotency_complete g k f i j n out t)"
  "calls_only P (idempotency_fail g k h code n b t)" "calls_only P (document_find_by_hash g c)"
  "calls_only P (document_add y v)" "calls_only P (document_archive_row y)" "calls_only P (mark_version_storage_state g i j st)"
  unfolding idempotency_get_def idempotency_record_def opt_row_def idempotency_required_def idempotency_save_def
    idempotency_reserve_def Let_def on_integrity_error_def idempotency_mark_in_progress_def
    idempotency_finalize_fingerprint_def idempotency_complete_def idempotency_fail_def document_find_by_hash_def
    document_add_def document_archive_row_def persist_document_state_def mark_version_storage_state_def version_record_def
  by (intro calls_intros)+

lemma quiet_event [calls_intros]: "calls_only P (record_upload_event E ty tn a t out m)"
  unfolding record_upload_event_def by (intro calls_intros)

lemma quiet_helpers [calls_intros]:
  "calls_only P (record_failed_upload E c tn code i)"
  "calls_only P (prepare_upload U c)" "calls_only P (new_document_pair E tn md h n t)"
  "calls_only P (replay_completed r tn)" "calls_only P (require_current_version x)"
proof -
  show "calls_only P (record_failed_upload E c tn code i)"
    unfolding record_failed_upload_def by (intro calls_intros)
  have "calls_only P (read_stream U c)"
    by (auto simp: calls_only_def preserves_def read_stream_def split: prod.split)
  then show "calls_only P (prepare_upload U c)"
    unfolding prepare_upload_def Let_def by (intro calls_intros)
  show "calls_only P (new_document_pair E tn md h n t)"
    unfolding new_document_pair_def by (intro calls_intros)
  show "calls_only P (replay_completed r tn)"
    unfolding replay_completed_def
    by (cases "ui_document_id r"; cases "ui_document_version_id r"; simp add: calls_only_basic; intro calls_intros)
  show "calls_only P (require_current_version x)"
    unfolding require_current_version_def by (intro calls_intros)
qed

lemma calls_catch [calls_intros]: "calls_only P m \<Longrightarrow> calls_only P (catch m)"
  unfolding catch_def by (intro calls_intros)

lemma calls_after_failure [calls_intros]: "calls_only P m \<Longrightarrow> calls_only P (in_session_after e m)"
  by (simp add: in_session_after_def calls_only_basic)

lemma calls_assert [calls_intros]: "calls_only P (assert_replay_fingerprint U c r)"
proof -
  have "calls_only P (case e of UploadValidationError code m \<Rightarrow> raise e1 | _ \<Rightarrow> raise e)" for e e1
    by (cases e) (simp_all add: calls_only_basic)
  then show ?thesis
    unfolding assert_replay_fingerprint_def by (intro calls_intros)
qed

text \<open>The calls with the keys of one tenant.\<close>

abbreviation tenant_calls :: "TenantContext \<Rightarrow> 'a tx \<Rightarrow> bool" where
  "tenant_calls tn \<equiv> calls_only (upload_call (tn_organization_id tn))"

definition temp_key :: "TenantContext \<Rightarrow> StorageObjectKey \<Rightarrow> bool" where
  "temp_key tn k \<longleftrightarrow> startswith (StorageObjectKey_value k) (''tmp/'' @ uuid_str (tn_organization_id tn) @ ''/'')"

lemma calls_delete: "temp_key tn k \<Longrightarrow> tenant_calls tn (delete_temp_best_effort U k)"
  unfolding delete_temp_best_effort_def temp_key_def by (intro calls_intros calls_only_storage) simp

lemma calls_not_stored:
  assumes "temp_key tn tk"
  shows "tenant_calls tn (upload_not_stored E U c tn k tk f e)"
proof -
  note d = calls_delete [OF assms, of U]
  show ?thesis
    unfolding upload_not_stored_def by (cases e) (simp_all, (intro calls_intros d)+)
qed

lemma calls_store:
  assumes "temp_key tn tk"
  shows "tenant_calls tn (store_temporarily E U c tn k tk)"
  unfolding store_temporarily_def
  by (intro calls_intros calls_not_stored [OF assms] calls_only_put) (use assms in \<open>auto simp: temp_key_def upload_key_def\<close>)

lemma calls_duplicate:
  assumes "temp_key tn tk"
  shows "tenant_calls tn (complete_duplicate E U c tn k f tk x n)"
    "tenant_calls tn (complete_duplicate_if_present E U c tn k f tk h n)"
  unfolding complete_duplicate_if_present_def complete_duplicate_def
  by (intro calls_intros calls_delete [OF assms])+

lemma calls_finish:
  assumes "temp_key tn tk"
  shows "tenant_calls tn (finish_upload E U c tn k f tk md st x v)"
proof -
  have "tenant_calls tn (promote_new_document E U x v tn tk m n h)" for m n h
    unfolding promote_new_document_def mark_version_stored_def
    by (rule calls_only_bind_of_res, frule upload_keys(2),
        intro calls_intros calls_only_head calls_only_promote calls_delete [OF assms])
      (use assms in \<open>simp_all add: temp_key_def upload_key_def\<close>)
  moreover have "tenant_calls tn (mark_upload_storage_failed E c tn k f x v)"
    unfolding mark_upload_storage_failed_def mark_version_failed_def by (intro calls_intros)
  ultimately show ?thesis
    unfolding finish_upload_def by (intro calls_intros)
qed

lemma calls_process: "tenant_calls tn (process_reserved_upload E U c tn k)"
  unfolding process_reserved_upload_def
proof (rule calls_only_bind [OF calls_only_basic(6)], rule calls_only_bind_of_res)
  fix u tk
  assume "StorageObjectKey_for_temporary_upload (tn_organization_id tn) u = Inr tk"
  then have tk: "temp_key tn tk"
    unfolding temp_key_def by (rule upload_keys)
  have h: "tenant_calls tn (case e of
                DuplicateDocumentContentError m \<Rightarrow>
                  bind rollback (\<lambda>_.
                  bind (document_find_by_hash (tn_organization_id tn) h) (\<lambda>duplicate.
                  case duplicate of
                    None \<Rightarrow> raise e
                  | Some x \<Rightarrow> complete_duplicate E U c tn k f tk x n))
              | _ \<Rightarrow> raise e)" for e h f n
    by (cases e) (simp_all add: calls_only_basic, intro calls_intros calls_duplicate [OF tk])
  show "tenant_calls tn (bind (store_temporarily E U c tn k tk) (\<lambda>(metadata, streamed, fingerprint).
     bind (complete_duplicate_if_present E U c tn k fingerprint tk (su_content_hash streamed)
       (su_byte_size streamed)) (\<lambda>duplicate_result.
     case duplicate_result of
       Some result \<Rightarrow> ret result
     | None \<Rightarrow>
         bind (document_now E None) (\<lambda>now.
         bind (new_document_pair E tn metadata (su_content_hash streamed) (su_byte_size streamed) now)
           (\<lambda>(document, version).
         bind (catch (bind (document_add document version) (\<lambda>document. bind commit (\<lambda>_. ret document)))) (\<lambda>added.
         case added of
           Inl e \<Rightarrow>
             (case e of
                DuplicateDocumentContentError m \<Rightarrow>
                  bind rollback (\<lambda>_.
                  bind (document_find_by_hash (tn_organization_id tn) (su_content_hash streamed)) (\<lambda>duplicate.
                  case duplicate of
                    None \<Rightarrow> raise e
                  | Some x \<Rightarrow> complete_duplicate E U c tn k fingerprint tk x (su_byte_size streamed)))
              | _ \<Rightarrow> raise e)
         | Inr document \<Rightarrow>
             finish_upload E U c tn k fingerprint tk metadata streamed document version))))))"
    by (intro h calls_intros calls_store [OF tk] calls_duplicate [OF tk] calls_finish [OF tk])
qed

lemma calls_upload: "tenant_calls tn (UploadDocument E U c tn now)"
  unfolding UploadDocument_def handle_existing_record_def by (intro calls_intros calls_process)

section \<open>What a successful upload leaves\<close>

text \<open>The key is completed with the fingerprint of the upload and points to stored rows.\<close>

definition replay_status :: "'a UploadIdempotencyRecord_scheme \<Rightarrow> int" where
  "replay_status r = (case ui_response_status r of None \<Rightarrow> 200 | Some s \<Rightarrow> if s = 0 then 200 else s)"

definition completed_upload :: "db \<Rightarrow> uuid \<Rightarrow> string \<Rightarrow> string \<Rightarrow> UploadDocumentResult \<Rightarrow> bool" where
  "completed_upload d g k f res \<longleftrightarrow>
     (\<exists>r \<in> set (upload_idempotency d). ui_organization_id r = g \<and> ui_idempotency_key r = k \<and>
        ui_status r = IdemCompleted \<and> ui_request_fingerprint r = Some f \<and>
        ui_document_id r = Some (d_id (ur_document res)) \<and>
        ui_document_version_id r = Some (dv_id (ur_current_version res)) \<and>
        (ui_outcome r = Some (UploadDocumentOutcome_value DUPLICATE) \<longleftrightarrow> ur_duplicate res) \<and>
        replay_status r = ur_response_status res) \<and>
     document_at d g (d_id (ur_document res)) = Some (ur_document res) \<and>
     version_at d g (d_id (ur_document res), dv_id (ur_current_version res)) = Some (ur_current_version res)"

lemma idempotency_required_run:
  assumes "idempotency_required g k w = (Inr r, w')"
  shows "w' = w" "r \<in> set (upload_idempotency (working w))" "ui_organization_id r = g" "ui_idempotency_key r = k"
proof -
  have *: "scalar_one_or_none (filter (\<lambda>r. ui_organization_id r = g \<and> ui_idempotency_key r = k)
      (upload_idempotency (working w))) = Inr (Some r)" and "w' = w"
    using assms by (auto simp: idempotency_required_def idempotency_record_def bind_def eff_simps split: sum.splits option.splits)
  have "r \<in> set (filter (\<lambda>r. ui_organization_id r = g \<and> ui_idempotency_key r = k) (upload_idempotency (working w)))"
    unfolding scalar_found [OF *] by simp
  then show "w' = w" "r \<in> set (upload_idempotency (working w))" "ui_organization_id r = g" "ui_idempotency_key r = k"
    using \<open>w' = w\<close> by simp_all
qed

lemma idempotency_saved:
  assumes "upload_tables (working w)" and "bind (idempotency_required g k) (\<lambda>r. idempotency_save r (h r)) w = (Inr x, w')"
  obtains r where "r \<in> set (upload_idempotency (working w))" "ui_organization_id r = g" "ui_idempotency_key r = k"
    and "working w' = (working w)\<lparr>upload_idempotency := map (\<lambda>y. if y = r then h r else y) (upload_idempotency (working w))\<rparr>"
    and "committed w' = committed w"
proof -
  obtain r w1 where r: "idempotency_required g k w = (Inr r, w1)" and s: "idempotency_save r (h r) w1 = (Inr x, w')"
    using assms(2) by (rule bind_InrE)
  note f = idempotency_required_run [OF r]
  have "replace_where (\<lambda>y. um_id y = um_id r) (\<lambda>_. h r) (upload_idempotency (working w)) =
      map (\<lambda>y. if y = r then h r else y) (upload_idempotency (working w))"
    by (rule replace_where_unique) (use assms(1) f in \<open>simp_all add: upload_tables_def\<close>)
  then have "working w' = (working w)\<lparr>upload_idempotency := map (\<lambda>y. if y = r then h r else y) (upload_idempotency (working w))\<rparr> \<and>
      committed w' = committed w"
    using s unfolding f(1) by (auto simp: idempotency_save_def bind_def eff_simps flush_def split: sum.splits option.splits)
  then show thesis
    using that f(2-4) by blast
qed

lemma idempotency_completed:
  assumes ok: "upload_tables (working w)" and run: "idempotency_complete g k f i j n out now w = (Inr x, w')"
  shows "\<exists>r \<in> set (upload_idempotency (working w')). ui_organization_id r = g \<and> ui_idempotency_key r = k \<and>
      ui_status r = IdemCompleted \<and> ui_request_fingerprint r = Some f \<and> ui_document_id r = Some i \<and>
      ui_document_version_id r = Some j \<and> ui_outcome r = Some out \<and> ui_response_status r = Some n"
    and "\<exists>rs. working w' = (working w)\<lparr>upload_idempotency := rs\<rparr>" and "committed w' = committed w"
proof -
  obtain r where r: "r \<in> set (upload_idempotency (working w))" "ui_organization_id r = g" "ui_idempotency_key r = k"
    and w': "working w' = (working w)\<lparr>upload_idempotency := map (\<lambda>y. if y = r then r\<lparr>ui_request_fingerprint := Some f, ui_status := IdemCompleted,
          ui_document_id := Some i, ui_document_version_id := Some j,
          ui_response_status := Some n, ui_outcome := Some out, ui_error_code := None,
          ui_retryable := False, ui_updated_at := astimezone_utc now\<rparr> else y) (upload_idempotency (working w))\<rparr>"
    and c: "committed w' = committed w"
    using run unfolding idempotency_complete_def by (rule idempotency_saved [OF ok])
  show "\<exists>r \<in> set (upload_idempotency (working w')). ui_organization_id r = g \<and> ui_idempotency_key r = k \<and>
      ui_status r = IdemCompleted \<and> ui_request_fingerprint r = Some f \<and> ui_document_id r = Some i \<and>
      ui_document_version_id r = Some j \<and> ui_outcome r = Some out \<and> ui_response_status r = Some n"
    unfolding w' using r by (auto intro!: bexI [of _ r])
  show "\<exists>rs. working w' = (working w)\<lparr>upload_idempotency := rs\<rparr>" using w' by blast
  show "committed w' = committed w" by (rule c)
qed

lemma event_no_commit: "preserves (commits_to d) (record_upload_event E ty tn a t out m)"
  unfolding record_upload_event_def by (intro preserves_bind preserves_intros)

lemma event_committed: "record_upload_event E ty tn a t out m w = (r, w') \<Longrightarrow> committed w' = committed w"
  by (rule no_commitD [OF allI [OF event_no_commit]])

lemma readonly_delete: "readonly (delete_temp_best_effort U k)"
  unfolding delete_temp_best_effort_def readonly_def
  using readonlyD [OF readonly_storage(4)] by (force simp: try_except_def eff_simps split: prod.split sum.split)

lemma duplicate_completed:
  assumes ok: "upload_tables (working w)" and x: "document_at (working w) g (d_id x) = Some x" and g: "tn_organization_id tn = g"
    and run: "complete_duplicate E U c tn k f tk x n w = (Inr res, w')"
  shows "completed_upload (committed w') g k f res" "ur_outcome res = DUPLICATE \<and> \<not> ur_idempotent_replay res"
proof -
  have dt: "document_tables (working w)" using ok by (simp add: upload_tables_def)
  obtain u w1 v w2 now w3 y w4 now' w5 z where d: "delete_temp_best_effort U tk w = (Inr u, w1)"
    and v: "require_current_version x w1 = (Inr v, w2)" and now: "document_now E None w2 = (Inr now, w3)"
    and y: "idempotency_complete (tn_organization_id tn) k f (d_id x) (dv_id v) 200 (UploadDocumentOutcome_value DUPLICATE) now w3 = (Inr y, w4)"
    and now': "document_now E None (w4\<lparr>committed := working w4\<rparr>) = (Inr now', w5)"
    and e: "record_upload_event E DOCUMENT_DUPLICATE_DETECTED tn (cu_audit_context c) now' SUCCESS
       [(''document_id'', VUuid (DocumentId_value (d_id x))), (''byte_size'', VInt n)] w5 = (Inr z, w')"
    and res: "res = \<lparr>ur_document = x, ur_current_version = v, ur_outcome = DUPLICATE, ur_duplicate = True,
          ur_idempotent_replay = False, ur_response_status = 200\<rparr>"
    using run unfolding complete_duplicate_def by (auto simp: eff_simps elim!: bind_InrE)
  have w1: "working w1 = working w" using readonlyD [OF readonly_delete d] by simp
  have xo: "d_organization_id x = g" using document_found(2) [OF dt x] .
  have v': "version_at (working w) g (d_id x, d_current_version_id x) = Some v" "w2 = w1"
    using v w1 xo dt by (auto simp: require_current_version_def version_get_exact bind_def eff_simps split: option.splits)
  then have vid: "dv_id v = d_current_version_id x"
    using row_at_iff [OF version_keys [OF dt]] by (auto simp: version_key_def)
  have w3: "working w3 = working w" using readonlyD [OF readonly_document_now now] w1 v' by simp
  note i = idempotency_completed [OF _ y, unfolded w3, OF ok, unfolded g]
  have c: "committed w' = working w4"
    using event_committed [OF e] readonlyD [OF readonly_document_now now'] by simp
  obtain rs where rs: "working w4 = (working w)\<lparr>upload_idempotency := rs\<rparr>" using i(2) by blast
  show "completed_upload (committed w') g k f res"
    unfolding completed_upload_def c res using i(1) x v' vid unfolding rs by (auto simp: replay_status_def)
  show "ur_outcome res = DUPLICATE \<and> \<not> ur_idempotent_replay res" by (simp add: res)
qed

lemma version_marked:
  assumes ok: "document_tables (working w)" and run: "mark_version_storage_state g i j st w = (Inr y, w')"
  obtains v where "version_at (working w) g (i, j) = Some v" "y = v\<lparr>dv_storage_state := st\<rparr>"
    and "working w' = (working w)\<lparr>document_versions := map (\<lambda>u. if u = v then y else u) (document_versions (working w))\<rparr>"
proof -
  obtain v where v: "scalar_one_or_none (filter (\<lambda>v. dv_organization_id v = g \<and> version_key v = (i, j))
      (document_versions (working w))) = Inr (Some v)"
    and y: "version_from_record (v\<lparr>dv_storage_state := st\<rparr>) = Inr y"
    and w': "working w' = (working w)\<lparr>document_versions := replace_where (\<lambda>u. dv_id u = dv_id v)
       (\<lambda>u. u\<lparr>dv_storage_state := st\<rparr>) (document_versions (working w))\<rparr>"
    using run
    by (auto simp: mark_version_storage_state_def version_record_def flush_def bind_def eff_simps split: sum.splits option.splits)
  have "v \<in> set (filter (\<lambda>v. dv_organization_id v = g \<and> version_key v = (i, j)) (document_versions (working w)))"
    unfolding scalar_found [OF v] by simp
  then have vin: "v \<in> set (document_versions (working w))" "dv_organization_id v = g" "version_key v = (i, j)"
    by simp_all
  have "version_from_record v = Inr v"
    using document_tablesD(6) [OF ok vin(1)] by (simp add: version_ok_def)
  then have y': "y = v\<lparr>dv_storage_state := st\<rparr>"
    using version_from_record_state [of v v st] y by simp
  have "working w' = (working w)\<lparr>document_versions := map (\<lambda>u. if u = v then y else u) (document_versions (working w))\<rparr>"
    unfolding w' y' using replace_where_unique [OF document_tablesD(2) [OF ok] vin(1)] by simp
  moreover have "version_at (working w) g (i, j) = Some v"
    using row_at_iff [OF version_keys [OF ok]] vin by blast
  ultimately show thesis using that y' by blast
qed

lemma promoted:
  assumes ok: "document_tables (working w)" and x: "document_at (working w) g (d_id x) = Some x" and g: "tn_organization_id tn = g"
    and run: "promote_new_document E U x v tn tk m n h w = (Inr (y, u), w')"
  shows "document_at (working w') g (d_id x) = Some y" "version_at (working w') g (d_id x, dv_id v) = Some u"
    "d_id y = d_id x" "dv_id u = dv_id v" "d_status y = DocStored" "dv_storage_state u = StorageStored"
    "upload_idempotency (working w') = upload_idempotency (working w)"
proof -
  obtain fk ob w1 a w2 w3 now w4 z where hd: "s3_head (us_storage U) fk w = (Inr ob, w1)"
    and pr: "(case ob of
         None \<Rightarrow> bind (promote_temp_object (us_storage U)
             \<lparr>po_source_key = tk, po_destination_key = fk, po_media_type = Some m\<rparr>) (\<lambda>_. ret ())
       | Some m \<Rightarrow>
           if so_byte_size m \<noteq> n then
             raise (ObjectStorageUnavailableError ''Final object metadata is inconsistent.'')
           else delete_temp_best_effort U tk) w1 = (Inr a, w2)"
    and mk: "mark_version_storage_state g (d_id x) (dv_id v) StorageStored w2 = (Inr u, w3)"
    and now: "document_now E None w3 = (Inr now, w4)"
    and y: "Document_mark_stored now x (tn_user_id tn) (Some now) = Inr y"
    and ar: "document_archive_row y w4 = (Inr z, w')"
    using run g unfolding promote_new_document_def mark_version_stored_def
    by (auto simp: eff_simps elim!: bind_InrE)
  have ro: "readonly (case ob of
         None \<Rightarrow> bind (promote_temp_object (us_storage U)
             \<lparr>po_source_key = tk, po_destination_key = fk, po_media_type = Some m\<rparr>) (\<lambda>_. ret ())
       | Some m \<Rightarrow>
           if so_byte_size m \<noteq> n then
             raise (ObjectStorageUnavailableError ''Final object metadata is inconsistent.'')
           else delete_temp_best_effort U tk)"
    by (intro readonly_intros readonly_delete)
  have w2: "working w2 = working w"
    using readonlyD [OF ro pr] readonlyD [OF readonly_storage(1) hd] by simp
  have ok2: "document_tables (working w2)" using ok w2 by simp
  obtain v0 where v0: "version_at (working w2) g (d_id x, dv_id v) = Some v0" "u = v0\<lparr>dv_storage_state := StorageStored\<rparr>"
    and w3: "working w3 = (working w2)\<lparr>document_versions := map (\<lambda>r. if r = v0 then u else r) (document_versions (working w2))\<rparr>"
    using mk by (rule version_marked [OF ok2])
  have w4: "working w4 = working w3" using readonlyD [OF readonly_document_now now] by simp
  have hh: "hoare (\<lambda>_. True) (\<lambda>d. d = (working w)\<lparr>document_versions := document_versions (working w3)\<rparr>) (persist_document_state y)
    (\<lambda>_ d. first_violation (document_violations False y (working w)) = None \<and>
      d = (working w)\<lparr>documents := map (\<lambda>s. if s = x then y else s) (documents (working w)), document_versions := document_versions (working w3)\<rparr>)"
    by (rule persist_change [OF ok x, of now undefined "tn_user_id tn"]) (use y in blast)
  obtain z' where pp: "persist_document_state y w4 = (Inr z', w')"
    using ar unfolding document_archive_row_def by (auto simp: eff_simps elim!: bind_InrE)
  have wq: "working w4 = (working w)\<lparr>document_versions := document_versions (working w3)\<rparr>"
    unfolding w4 w3 w2 by simp
  have w': "working w' = (working w)\<lparr>documents := map (\<lambda>s. if s = x then y else s) (documents (working w)),
      document_versions := document_versions (working w3)\<rparr>"
    using hoareD(1) [OF hh TrueI wq pp] by blast
  note f = document_found [OF ok x] document_change_frame [of now x undefined "tn_user_id tn" y, OF _ document_found(4) [OF ok x]]
  have y': "d_id y = d_id x" "d_organization_id y = g"
    using f y by simp_all
  show "document_at (working w') g (d_id x) = Some y"
    using row_at_replaced [OF document_tablesD(1) [OF ok], of d_organization_id y x g "d_id x"] x y' by (simp add: w')
  have v0': "dv_organization_id v0 = g" "version_key v0 = (d_id x, dv_id v)"
    using row_at_iff [OF version_keys [OF ok2]] v0(1) by blast+
  then have u: "dv_organization_id u = g" "version_key u = (d_id x, dv_id v)"
    by (simp_all add: v0(2) version_key_def)
  show "version_at (working w') g (d_id x, dv_id v) = Some u"
    using row_at_replaced [OF version_keys [OF ok2], of dv_organization_id u v0 g "(d_id x, dv_id v)"] v0(1) u by (simp add: w' w3)
  show "d_id y = d_id x" by (rule y')
  show "dv_id u = dv_id v" "dv_storage_state u = StorageStored" using u by (simp_all add: version_key_def v0(2))
  show "d_status y = DocStored"
    using document_step_frame(6) [of x "MarkStoredOp (tn_user_id tn) now" y] y by (auto split: if_splits)
  show "upload_idempotency (working w') = upload_idempotency (working w)" by (simp add: w')
qed

lemma finish_completed:
  assumes ok: "both (new_kept g X x) w" and x: "document_at (working w) g (d_id x) = Some x" and g: "tn_organization_id tn = g"
    and run: "finish_upload E U c tn k f tk md st x v w = (Inr res, w')"
  shows "completed_upload (committed w') g k f res" "ur_outcome res = CREATED \<and> \<not> ur_idempotent_replay res \<and>
    d_status (ur_document res) = DocStored \<and> dv_storage_state (ur_current_version res) = StorageStored"
proof -
  obtain y u w1 now w2 b w3 now' w4 z where p: "promote_new_document E U x v tn tk (nm_media_type md)
          (su_byte_size st) (su_content_hash st) w = (Inr (y, u), w1)"
    and now: "document_now E None w1 = (Inr now, w2)"
    and i: "idempotency_complete (tn_organization_id tn) k f (d_id y) (dv_id u) 201 (UploadDocumentOutcome_value CREATED) now w2 = (Inr b, w3)"
    and now': "document_now E None (w3\<lparr>committed := working w3\<rparr>) = (Inr now', w4)"
    and e: "record_upload_event E DOCUMENT_STORAGE_SUCCEEDED tn (cu_audit_context c) now' SUCCESS
          [(''document_id'', VUuid (DocumentId_value (d_id y))), (''byte_size'', VInt (su_byte_size st))] w4 = (Inr z, w')"
    and res: "res = \<lparr>ur_document = y, ur_current_version = u, ur_outcome = CREATED,
             ur_duplicate = False, ur_idempotent_replay = False, ur_response_status = 201\<rparr>"
    using run unfolding finish_upload_def
    by (cases rule: try_except_cases) (auto simp: eff_simps elim!: bind_InrE)
  have dt: "document_tables (working w)"
    using ok by (simp add: both_def new_kept_def tenant_kept_def upload_tables_def)
  note pd = promoted [OF dt x g p]
  have "both (new_kept g X x) w1"
    using preservesD [OF finishing.pres_promote [OF g] ok p] .
  then have ok2: "upload_tables (working w2)"
    using readonlyD [OF readonly_document_now now] by (simp add: both_def new_kept_def tenant_kept_def)
  have w2: "working w2 = working w1" using readonlyD [OF readonly_document_now now] by simp
  note ic = idempotency_completed [OF ok2 i, unfolded g]
  obtain rs where rs: "working w3 = (working w2)\<lparr>upload_idempotency := rs\<rparr>" using ic(2) by blast
  have c: "committed w' = working w3"
    using event_committed [OF e] readonlyD [OF readonly_document_now now'] by simp
  show "completed_upload (committed w') g k f res"
    unfolding completed_upload_def c res using ic(1) pd(1-4) w2 unfolding rs by (auto simp: replay_status_def)
  show "ur_outcome res = CREATED \<and> \<not> ur_idempotent_replay res \<and>
    d_status (ur_document res) = DocStored \<and> dv_storage_state (ur_current_version res) = StorageStored"
    using pd(5,6) by (simp add: res)
qed

text \<open>Preparing an upload depends on the state only through the position in the stream.\<close>

lemma prepare_stream:
  assumes "prepare_upload U c w = (r, w1)" and "stream_reads v = stream_reads w"
  shows "prepare_upload U c v = (r, v\<lparr>stream_reads := stream_reads w1\<rparr>)" "w1 = w\<lparr>stream_reads := stream_reads w1\<rparr>"
proof -
  have upd: "u = u\<lparr>stream_reads := stream_reads u\<rparr>" for u :: world by simp
  show "prepare_upload U c v = (r, v\<lparr>stream_reads := stream_reads w1\<rparr>)" "w1 = w\<lparr>stream_reads := stream_reads w1\<rparr>"
    using assms upd
    by (auto simp: prepare_upload_def read_stream_def Let_def bind_def eff_simps split: sum.splits prod.splits)
qed

lemma store_stream:
  assumes "store_temporarily E U c tn k tk w = (Inr (m, s, f), w')"
  shows "\<exists>v. prepare_upload U c w = (Inr (m, s, f), v)"
  using assms by (rule store_temporarilyD) blast

lemma readonly_pair: "readonly (new_document_pair E tn md h n now)"
  unfolding new_document_pair_def by (intro readonly_intros)

lemma process_completed:
  assumes ok: "both (tenant_kept g X) w" and g: "tn_organization_id tn = g"
    and run: "process_reserved_upload E U c tn k w = (Inr res, w')"
  shows "\<exists>m s f v. prepare_upload U c w = (Inr (m, s, f), v) \<and> completed_upload (committed w') g k f res \<and>
    \<not> ur_idempotent_replay res"
proof -
  obtain i w0 tk m s f w1 dup w2 where u: "uuid4 E w = (Inr i, w0)"
    and st: "store_temporarily E U c tn k tk w0 = (Inr (m, s, f), w1)"
    and du: "complete_duplicate_if_present E U c tn k f tk (su_content_hash s) (su_byte_size s) w1 = (Inr dup, w2)"
    and rest: "(case dup of
       Some result \<Rightarrow> ret result
     | None \<Rightarrow>
         bind (document_now E None) (\<lambda>now.
         bind (new_document_pair E tn m (su_content_hash s) (su_byte_size s) now)
           (\<lambda>(document, version).
         bind (catch (bind (document_add document version) (\<lambda>document. bind commit (\<lambda>_. ret document)))) (\<lambda>added.
         case added of
           Inl e \<Rightarrow>
             (case e of
                DuplicateDocumentContentError m \<Rightarrow>
                  bind rollback (\<lambda>_.
                  bind (document_find_by_hash (tn_organization_id tn) (su_content_hash s)) (\<lambda>duplicate.
                  case duplicate of
                    None \<Rightarrow> raise e
                  | Some x \<Rightarrow> complete_duplicate E U c tn k f tk x (su_byte_size s)))
              | _ \<Rightarrow> raise e)
         | Inr document \<Rightarrow>
             finish_upload E U c tn k f tk m s document version)))) w2 = (Inr res, w')"
    using run unfolding process_reserved_upload_def by (auto elim!: bind_InrE simp: eff_simps)
  have ok0: "both (tenant_kept g X) w0"
    using preservesD [OF preserves_oracles(2) ok u] .
  have ok1: "both (tenant_kept g X) w1"
    using preservesD [OF kept.pres_store [OF g] ok0 st] .
  have ok2: "both (tenant_kept g X) w2"
    using preservesD [OF kept.pres_duplicate(2) [OF g] ok1 du] .
  have tables: "upload_tables (working v)" "document_tables (working v)" if "both (tenant_kept g X) v" for v
    using that by (simp_all add: both_def tenant_kept_def upload_tables_def)
  obtain v where "prepare_upload U c w0 = (Inr (m, s, f), v)"
    using store_stream [OF st] by blast
  moreover have "stream_reads w0 = stream_reads w" using u by (auto simp: uuid4_def eff_simps)
  ultimately have p: "\<exists>v. prepare_upload U c w = (Inr (m, s, f), v)"
    using prepare_stream(1) [of U c w0 _ v w] by metis
  have dupl: "completed_upload (committed w'') g k f r \<and> \<not> ur_idempotent_replay r"
    if a: "both (tenant_kept g X) a" and x: "document_find_by_hash g (su_content_hash s) a = (Inr (Some x), b)"
      and r: "complete_duplicate E U c tn k f tk x (su_byte_size s) b = (Inr r, w'')" for a b x r w''
  proof -
    have b: "working b = working a" using readonlyD [OF readonly_document_reads(3) x] by simp
    show ?thesis
      using duplicate_completed [OF _ _ g r, unfolded b, OF tables(1) [OF a]] find_by_hash_found [OF tables(2) [OF a] x] by simp
  qed
  have "completed_upload (committed w') g k f res \<and> \<not> ur_idempotent_replay res"
  proof (cases dup)
    case (Some r)
    then have "res = r" "w' = w2" using rest by (simp_all add: eff_simps)
    moreover obtain x b where "document_find_by_hash g (su_content_hash s) w1 = (Inr (Some x), b)"
      "complete_duplicate E U c tn k f tk x (su_byte_size s) b = (Inr r, w2)"
      using du Some g unfolding complete_duplicate_if_present_def
      by (auto elim!: bind_InrE simp: eff_simps split: option.splits)
    ultimately show ?thesis using dupl [OF ok1] by blast
  next
    case None
    then obtain now w3 x v w4 ad w5 where now: "document_now E None w2 = (Inr now, w3)"
      and pr: "new_document_pair E tn m (su_content_hash s) (su_byte_size s) now w3 = (Inr (x, v), w4)"
      and ad: "catch (bind (document_add x v) (\<lambda>document. bind commit (\<lambda>_. ret document))) w4 = (Inr ad, w5)"
      and fin: "(case ad of
           Inl e \<Rightarrow>
             (case e of
                DuplicateDocumentContentError m \<Rightarrow>
                  bind rollback (\<lambda>_.
                  bind (document_find_by_hash (tn_organization_id tn) (su_content_hash s)) (\<lambda>duplicate.
                  case duplicate of
                    None \<Rightarrow> raise e
                  | Some x \<Rightarrow> complete_duplicate E U c tn k f tk x (su_byte_size s)))
              | _ \<Rightarrow> raise e)
         | Inr document \<Rightarrow>
             finish_upload E U c tn k f tk m s document v) w5 = (Inr res, w')"
      using rest by (auto elim!: bind_InrE)
    obtain h where h: "ContentHash_post_init h = Inr (su_content_hash s)"
      using returnsD [OF store_hash st] by auto
    have fp: "fresh_pair g (x, v)" using returnsD [OF new_pair [OF h] pr] g by simp
    have "working w4 = working w2" "committed w4 = committed w2"
      using readonlyD [OF readonly_document_now now] readonlyD [OF readonly_pair pr] by simp_all
    then have ok4: "both (tenant_kept g X) w4" using ok2 by (simp add: both_def)
    show ?thesis
    proof (cases ad)
      case (Inr y)
      then have y: "y = x" "both (new_kept g X x) w5" "working w5 = (working w4)\<lparr>documents := documents (working w4) @ [x],
          document_versions := document_versions (working w4) @ [v]\<rparr>"
        using add_pair [OF ok4 fp ad] by auto
      have t5: "document_tables (working w5)"
        using y(2) by (simp add: both_def new_kept_def tenant_kept_def upload_tables_def)
      have "x \<in> set (documents (working w5))" "d_organization_id x = g"
        using y(3) fp by (simp_all add: fresh_pair_def)
      then have at: "document_at (working w5) g (d_id x) = Some x"
        using row_at_iff [OF document_tablesD(1) [OF t5]] by blast
      show ?thesis
        using finish_completed [OF y(2) at g, of E U c k f tk m s v res w'] fin Inr y(1) by simp
    next
      case (Inl e)
      then have ok5: "both (tenant_kept g X) w5"
        using add_pair [OF ok4 fp ad] by auto
      have ok6: "both (tenant_kept g X) (w5\<lparr>working := committed w5\<rparr>)"
        using ok5 by (simp add: both_def)
      obtain x' b where "document_find_by_hash g (su_content_hash s) (w5\<lparr>working := committed w5\<rparr>) = (Inr (Some x'), b)"
        "complete_duplicate E U c tn k f tk x' (su_byte_size s) b = (Inr res, w')"
        using fin Inl g by (cases e) (auto elim!: bind_InrE simp: eff_simps split: option.splits)
      then show ?thesis using dupl [OF ok6] by blast
    qed
  qed
  then show ?thesis using p by blast
qed

section \<open>Reading the stream again\<close>

text \<open>Once a read of the stream has given its end, later reads do so, too.\<close>

definition stays_at_end :: "(int \<Rightarrow> nat \<Rightarrow> string option) \<Rightarrow> bool" where
  "stays_at_end rd \<longleftrightarrow> (\<forall>sz n. rd sz n = Some [] \<longrightarrow> rd sz (Suc n) = Some [])"

lemma stream_loop_end: "stream_loop rd mx sz n s = (Inr s', k) \<Longrightarrow> \<exists>j. k = Suc j \<and> rd sz j = Some []"
proof (induction rd mx sz n s rule: stream_loop.induct)
  case (1 rd mx sz n s)
  then show ?case
    by (subst (asm) (2) stream_loop.simps) (auto split: option.splits if_splits)
qed

lemma prepare_twice:
  assumes eof: "stays_at_end (cu_stream c)" and p: "prepare_upload U c w = (Inr p, w1)"
    and v: "stream_reads v = stream_reads w1"
  shows "\<exists>n. prepare_upload U c v = (Inl (UploadValidationError ''empty_file'' ''Uploaded file must not be empty.''), v\<lparr>stream_reads := n\<rparr>)"
proof -
  obtain md where md: "normalize_upload_metadata (cu_filename c) (cu_declared_media_type c) = Inr md"
    using p by (auto simp: prepare_upload_def bind_def eff_simps split: sum.splits)
  obtain s w2 where s: "read_stream U c w = (Inr s, w2)" and w2: "stream_reads w2 = stream_reads w1"
    using p by (auto simp: prepare_upload_def md Let_def bind_def eff_simps split: sum.splits prod.splits)
  obtain s' k where l: "stream_loop (cu_stream c) (us_max_bytes U) UPLOAD_CHUNK_SIZE (stream_reads w) stream_start = (Inr s', k)"
    and k: "k = stream_reads w1"
    using s w2 by (auto simp: read_stream_def stream_upload_def split: prod.splits sum.splits)
  obtain j where "k = Suc j" "cu_stream c UPLOAD_CHUNK_SIZE j = Some []"
    using stream_loop_end [OF l] by blast
  then have e: "cu_stream c UPLOAD_CHUNK_SIZE (stream_reads v) = Some []"
    using eof v k by (simp add: stays_at_end_def)
  have "read_stream U c v =
      (Inl (UploadValidationError ''empty_file'' ''Uploaded file must not be empty.''), v\<lparr>stream_reads := Suc (stream_reads v)\<rparr>)"
    using e by (simp add: read_stream_def stream_upload_def stream_loop.simps stream_start_def raise_if_def)
  then show ?thesis
    by (auto simp: prepare_upload_def md bind_def eff_simps)
qed

lemma assert_passed:
  assumes "assert_replay_fingerprint U c r w = (Inr x, w')"
  obtains m s f where "prepare_upload U c w = (Inr (m, s, f), w')" and "ui_request_fingerprint r = Some f"
proof -
  obtain p where p: "catch (prepare_upload U c) w = (Inr (Inr p), w')"
    and f: "ui_request_fingerprint r = Some (snd (snd p))"
    using assms unfolding assert_replay_fingerprint_def
    by (auto elim!: bind_InrE simp: eff_simps split: sum.splits exn.splits if_splits)
  then show thesis using that by (cases p) auto
qed

section \<open>Replays\<close>

lemma idempotency_get_row:
  assumes "upload_tables (working w)" and "r \<in> set (upload_idempotency (working w))"
    and "ui_organization_id r = g" "ui_idempotency_key r = k"
  shows "idempotency_get g k w = (case idempotency_from_record r of Inl e \<Rightarrow> (Inl e, w) | Inr x \<Rightarrow> (Inr (Some x), w))"
proof -
  have "filter (\<lambda>x. (ui_organization_id x, ui_idempotency_key x) = (ui_organization_id r, ui_idempotency_key r))
      (upload_idempotency (working w)) = [r]"
    by (rule filter_unique) (use assms in \<open>simp_all add: upload_tables_def\<close>)
  then show ?thesis
    using assms(3,4)
    by (simp add: idempotency_get_def idempotency_record_def scalar_one_or_none_def opt_row_def bind_def eff_simps
        bind_res_def split: sum.split)
qed

lemma idempotency_got:
  assumes "idempotency_get g k w = (Inr (Some x), w')"
  obtains r where "r \<in> set (upload_idempotency (working w))" "ui_organization_id r = g" "ui_idempotency_key r = k"
    "idempotency_from_record r = Inr x" "w' = w"
proof -
  obtain r where r: "scalar_one_or_none (filter (\<lambda>r. ui_organization_id r = g \<and> ui_idempotency_key r = k)
      (upload_idempotency (working w))) = Inr (Some r)" and x: "idempotency_from_record r = Inr x" "w' = w"
    using assms by (auto simp: idempotency_get_def idempotency_record_def opt_row_def bind_def eff_simps opt_res_eq_Inr split: sum.splits)
  have "r \<in> set (filter (\<lambda>r. ui_organization_id r = g \<and> ui_idempotency_key r = k) (upload_idempotency (working w)))"
    unfolding scalar_found [OF r] by simp
  then show thesis using that x by auto
qed

lemma idempotency_loaded:
  assumes "idempotency_from_record r = Inr x"
  shows "ui_status x = ui_status r" "ui_request_fingerprint x = ui_request_fingerprint r" "ui_document_id x = ui_document_id r"
    "ui_document_version_id x = ui_document_version_id r" "ui_outcome x = ui_outcome r"
    "ui_response_status x = ui_response_status r" "ui_idempotency_key x = ui_idempotency_key r"
    "ui_retryable x = ui_retryable r" "ui_error_code x = ui_error_code r"
  using assms by (auto simp: idempotency_from_record_def opt_res_eq_Inr)

text \<open>Steps that do not read the stream.\<close>

definition at_read :: "nat \<Rightarrow> world \<Rightarrow> bool" where
  "at_read n w \<longleftrightarrow> stream_reads w = n"

lemma at_read_intros [preserves_intros]:
  "preserves (at_read n) (clock_now E)" "preserves (at_read n) (uuid4 E)" "preserves (at_read n) commit"
  "preserves (at_read n) rollback" "preserves (at_read n) (flush v f)"
  by (auto simp: preserves_def at_read_def eff_simps flush_def split: option.split)

lemma at_read_steps:
  "preserves (at_read n) (document_now E t)" "preserves (at_read n) (idempotency_get g k)"
  "preserves (at_read n) (idempotency_reserve E g k u x)" "preserves (at_read n) (idempotency_mark_in_progress g k u x)"
  "preserves (at_read n) (record_upload_event E ty tn a u out m)"
proof -
  show "preserves (at_read n) (document_now E t)"
    unfolding document_now_def by (intro preserves_bind preserves_intros)
  show get: "preserves (at_read n) (idempotency_get g k)"
    unfolding idempotency_get_def idempotency_record_def opt_row_def by (intro preserves_bind preserves_intros)
  show "preserves (at_read n) (idempotency_reserve E g k u x)"
    unfolding idempotency_reserve_def Let_def on_integrity_error_def by (intro preserves_bind preserves_intros get)
  show "preserves (at_read n) (idempotency_mark_in_progress g k u x)"
    unfolding idempotency_mark_in_progress_def idempotency_required_def idempotency_record_def idempotency_save_def
    by (intro preserves_bind preserves_intros)
  show "preserves (at_read n) (record_upload_event E ty tn a u out m)"
    unfolding record_upload_event_def audit_record_def by (intro preserves_bind preserves_intros)
qed

lemma same_read: "(\<And>n. preserves (at_read n) m) \<Longrightarrow> m w = (r, w') \<Longrightarrow> stream_reads w' = stream_reads w"
  using preservesD [of "at_read (stream_reads w)" m w r w'] by (simp add: at_read_def)

lemmas stream_document_now = same_read [OF at_read_steps(1)]
lemmas stream_get = same_read [OF at_read_steps(2)]
lemmas stream_reserve = same_read [OF at_read_steps(3)]
lemmas stream_mark_in_progress = same_read [OF at_read_steps(4)]
lemmas stream_event = same_read [OF at_read_steps(5)]

text \<open>A retry of a failed upload whose fingerprint is stored reads its stream twice and never succeeds.\<close>

lemma retry_fails:
  assumes ok: "both (tenant_kept g X) w" and g: "tn_organization_id tn = g" and eof: "stays_at_end (cu_stream c)"
    and r: "ui_status r = IdemFailed" "ui_retryable r" "ui_request_fingerprint r \<noteq> None"
  shows "handle_existing_record E U c tn r w \<noteq> (Inr res, w')"
proof
  assume run: "handle_existing_record E U c tn r w = (Inr res, w')"
  obtain x w1 t w2 y w3 z w4 where a: "assert_replay_fingerprint U c r w = (Inr x, w1)"
    and t: "document_now E None w1 = (Inr t, w2)"
    and m: "idempotency_mark_in_progress (tn_organization_id tn) (ui_idempotency_key r) t
          (plus_timedelta t (us_idempotency_ttl U)) w2 = (Inr y, w3)"
    and e: "record_upload_event E DOCUMENT_UPLOAD_STARTED tn (cu_audit_context c) t SUCCESS
          [(''idempotency_replay'', VBool True)] (w3\<lparr>committed := working w3\<rparr>) = (Inr z, w4)"
    and p: "process_reserved_upload E U c tn (ui_idempotency_key r) w4 = (Inr res, w')"
    using run r unfolding handle_existing_record_def by (auto elim!: bind_InrE simp: eff_simps)
  have k1: "both (tenant_kept g X) w1" using preservesD [OF kept.pres_replay(1) ok a] .
  have k2: "both (tenant_kept g X) w2" using preservesD [OF kept.pres_readonly [OF readonly_document_now] k1 t] .
  have k3: "both (tenant_kept g X) w3" using preservesD [OF kept.pres_idempotency(1) k2 m [unfolded g]] .
  then have "both (tenant_kept g X) (w3\<lparr>committed := working w3\<rparr>)" by (simp add: both_def)
  then have k4: "both (tenant_kept g X) w4" using preservesD [OF kept.pres_event [OF g] _ e] by blast
  obtain q v where "prepare_upload U c w4 = (Inr q, v)"
    using process_completed [OF k4 g p] by blast
  moreover have "stream_reads w4 = stream_reads w1"
    using stream_document_now [OF t] stream_mark_in_progress [OF m] stream_event [OF e] by simp
  moreover obtain q' where "prepare_upload U c w = (Inr q', w1)"
    using a by (rule assert_passed) blast
  ultimately show False
    using prepare_twice [OF eof, of U w q' w1 w4] by auto
qed

definition replay_result :: "UploadIdempotencyRecord \<Rightarrow> Document \<Rightarrow> DocumentVersion \<Rightarrow> UploadDocumentResult" where
  "replay_result r x v = \<lparr>ur_document = x, ur_current_version = v, ur_outcome = IDEMPOTENT_REPLAY,
     ur_duplicate = (ui_outcome r = Some (UploadDocumentOutcome_value DUPLICATE)), ur_idempotent_replay = True,
     ur_response_status = replay_status r\<rparr>"

lemma replay_completed_run:
  assumes ok: "document_tables (working w)" and ids: "ui_document_id r = Some i" "ui_document_version_id r = Some j"
  shows "replay_completed r tn w =
    (case document_at (working w) (tn_organization_id tn) i of
       None \<Rightarrow> (Inl (IdempotencyConflictError ''Stored idempotency result is unavailable.''), w)
     | Some x \<Rightarrow> (case version_at (working w) (tn_organization_id tn) (d_id x, j) of
         None \<Rightarrow> (Inl (IdempotencyConflictError ''Stored idempotency result is unavailable.''), w)
       | Some v \<Rightarrow> (Inr (replay_result r x v), w)))"
  unfolding replay_completed_def ids prod.case option.case replay_status_def [symmetric] replay_result_def [symmetric]
  by (cases "document_at (working w) (tn_organization_id tn) i")
    (simp_all only: bind_def eff_simps document_get_exact [OF ok] version_get_exact [OF ok] prod.case sum.case option.case
      split: option.split, simp_all)

lemma replay_completedD:
  assumes ok: "document_tables (working w)" and run: "replay_completed r tn w = (Inr res, w')"
  shows "w' = w" "ui_document_id r = Some (d_id (ur_document res))"
    "ui_document_version_id r = Some (dv_id (ur_current_version res))"
    "document_at (working w) (tn_organization_id tn) (d_id (ur_document res)) = Some (ur_document res)"
    "version_at (working w) (tn_organization_id tn) (d_id (ur_document res), dv_id (ur_current_version res)) = Some (ur_current_version res)"
    "ur_outcome res = IDEMPOTENT_REPLAY" "ur_idempotent_replay res"
    "ur_duplicate res \<longleftrightarrow> ui_outcome r = Some (UploadDocumentOutcome_value DUPLICATE)" "ur_response_status res = replay_status r"
proof -
  obtain i j where ids: "ui_document_id r = Some i" "ui_document_version_id r = Some j"
    using run by (cases "ui_document_id r"; cases "ui_document_version_id r") (simp_all add: replay_completed_def eff_simps)
  note run = run [unfolded replay_completed_run [OF ok ids]]
  obtain x where x: "document_at (working w) (tn_organization_id tn) i = Some x"
    using run by (cases "document_at (working w) (tn_organization_id tn) i") simp_all
  note run = run [unfolded x option.case]
  obtain v where v: "version_at (working w) (tn_organization_id tn) (d_id x, j) = Some v"
    using run by (cases "version_at (working w) (tn_organization_id tn) (d_id x, j)") simp_all
  have w': "w' = w" and res: "res = replay_result r x v"
    using run [unfolded v option.case] by simp_all
  have "d_id x = i" "dv_id v = j"
    using document_found(3) [OF ok x] v row_at_iff [OF version_keys [OF ok]] by (auto simp: version_key_def)
  then show "w' = w" "ui_document_id r = Some (d_id (ur_document res))"
    "ui_document_version_id r = Some (dv_id (ur_current_version res))"
    "document_at (working w) (tn_organization_id tn) (d_id (ur_document res)) = Some (ur_document res)"
    "version_at (working w) (tn_organization_id tn) (d_id (ur_document res), dv_id (ur_current_version res)) = Some (ur_current_version res)"
    "ur_outcome res = IDEMPOTENT_REPLAY" "ur_idempotent_replay res"
    "ur_duplicate res \<longleftrightarrow> ui_outcome r = Some (UploadDocumentOutcome_value DUPLICATE)" "ur_response_status res = replay_status r"
    using ids x v w' by (simp_all add: res replay_result_def)
qed

lemma existing_succeeded:
  assumes k: "both (tenant_kept g X) w" and wc: "working w = committed w" and g: "tn_organization_id tn = g"
    and eof: "stays_at_end (cu_stream c)"
    and row: "row \<in> set (upload_idempotency (working w))" "ui_organization_id row = g"
    and l: "idempotency_from_record row = Inr r"
    and run: "handle_existing_record E U c tn r w = (Inr res, w')"
  shows "\<exists>m s f v. prepare_upload U c w = (Inr (m, s, f), v) \<and>
    completed_upload (committed w') g (ui_idempotency_key row) f res"
proof -
  note ld = idempotency_loaded [OF l]
  consider (completed) "ui_status r = IdemCompleted" | (retry) "ui_status r = IdemFailed" "ui_retryable r" "ui_request_fingerprint r = None"
  proof (cases "ui_status r")
    case IdemInProgress
    then show thesis using run by (simp add: handle_existing_record_def eff_simps)
  next
    case IdemFailed
    then show thesis
      using run retry_fails [OF k g eof IdemFailed, of E U res w'] that(2)
      by (cases "ui_retryable r"; cases "ui_request_fingerprint r")
        (auto simp: handle_existing_record_def eff_simps elim!: bind_InrE)
  qed (rule that)
  then show ?thesis
  proof cases
    case completed
    obtain u w1 where a: "assert_replay_fingerprint U c r w = (Inr u, w1)" and rp: "replay_completed r tn w1 = (Inr res, w')"
      using run completed unfolding handle_existing_record_def by (auto elim!: bind_InrE)
    obtain m s f where p: "prepare_upload U c w = (Inr (m, s, f), w1)" and f: "ui_request_fingerprint r = Some f"
      using a by (rule assert_passed)
    have w1: "w1 = w\<lparr>stream_reads := stream_reads w1\<rparr>" using prepare_stream(2) [OF p refl] .
    have d: "working w1 = working w" "committed w1 = committed w" by (subst w1, simp)+
    have dt: "document_tables (working w1)" using k d by (simp add: both_def tenant_kept_def upload_tables_def)
    note rd = replay_completedD [OF dt rp]
    have "completed_upload (committed w') g (ui_idempotency_key row) f res"
      unfolding completed_upload_def using rd row ld f completed d wc g
      by (auto simp: replay_status_def intro!: bexI [of _ row])
    then show ?thesis using p by blast
  next
    case retry
    obtain t w2 y w3 z w4 where t: "document_now E None w = (Inr t, w2)"
      and m: "idempotency_mark_in_progress (tn_organization_id tn) (ui_idempotency_key r) t
          (plus_timedelta t (us_idempotency_ttl U)) w2 = (Inr y, w3)"
      and e: "record_upload_event E DOCUMENT_UPLOAD_STARTED tn (cu_audit_context c) t SUCCESS
          [(''idempotency_replay'', VBool True)] (w3\<lparr>committed := working w3\<rparr>) = (Inr z, w4)"
      and p: "process_reserved_upload E U c tn (ui_idempotency_key r) w4 = (Inr res, w')"
      using run retry unfolding handle_existing_record_def by (auto elim!: bind_InrE simp: eff_simps)
    have k2: "both (tenant_kept g X) w2" using preservesD [OF kept.pres_readonly [OF readonly_document_now] k t] .
    have "both (tenant_kept g X) w3" using preservesD [OF kept.pres_idempotency(1) k2 m [unfolded g]] .
    then have "both (tenant_kept g X) (w3\<lparr>committed := working w3\<rparr>)" by (simp add: both_def)
    then have k4: "both (tenant_kept g X) w4" using preservesD [OF kept.pres_event [OF g] _ e] by blast
    obtain md s f v where pp: "prepare_upload U c w4 = (Inr (md, s, f), v)"
      and cu: "completed_upload (committed w') g (ui_idempotency_key row) f res"
      using process_completed [OF k4 g p] ld(7) by auto
    have "stream_reads w = stream_reads w4"
      using stream_document_now [OF t] stream_mark_in_progress [OF m] stream_event [OF e] by simp
    then show ?thesis using prepare_stream(1) [OF pp, of w] cu by blast
  qed
qed

lemma upload_succeeded:
  assumes ok: "upload_tables (committed w)" and wc: "working w = committed w" and eof: "stays_at_end (cu_stream c)"
    and g: "tn_organization_id tn = g" and run: "UploadDocument E U c tn None w = (Inr res, w')"
  shows "\<exists>key m s f v. DOCUMENT_WRITE \<in> set (tn_permissions tn) \<and> validate_idempotency_key (cu_idempotency_key c) = Inr key \<and>
    prepare_upload U c w = (Inr (m, s, f), v) \<and> completed_upload (committed w') g key f res"
proof -
  let ?X = "outside g (committed w)"
  have k: "both (tenant_kept g ?X) w" using ok wc by (simp add: both_def tenant_kept_def)
  obtain t w1 key ex w2 where p: "DOCUMENT_WRITE \<in> set (tn_permissions tn)" and t: "document_now E None w = (Inr t, w1)"
    and key: "validate_idempotency_key (cu_idempotency_key c) = Inr key"
    and ex: "idempotency_get g key w1 = (Inr ex, w2)"
    and rest: "(case ex of
       Some record \<Rightarrow> handle_existing_record E U c tn record
     | None \<Rightarrow>
         bind (idempotency_reserve E (tn_organization_id tn) key t
           (plus_timedelta t (us_idempotency_ttl U))) (\<lambda>_.
         bind commit (\<lambda>_.
         bind (record_upload_event E DOCUMENT_UPLOAD_STARTED tn (cu_audit_context c) t SUCCESS
           [(''idempotency_replay'', VBool False)]) (\<lambda>_.
         process_reserved_upload E U c tn key)))) w2 = (Inr res, w')"
    using run g unfolding UploadDocument_def by (auto elim!: bind_InrE simp: eff_simps)
  have k1: "both (tenant_kept g ?X) w1" using preservesD [OF kept.pres_readonly [OF readonly_document_now] k t] .
  have k2: "both (tenant_kept g ?X) w2" using preservesD [OF kept.pres_get k1 ex] .
  have wc2: "working w2 = committed w2"
    using readonlyD [OF readonly_document_now t] readonlyD [OF readonly_document_reads(12) ex] wc by simp
  have s2: "stream_reads w2 = stream_reads w"
    using stream_document_now [OF t] stream_get [OF ex] by simp
  have same: "\<exists>v. prepare_upload U c w = (Inr q, v)" if "prepare_upload U c a = (Inr q, b)" "stream_reads a = stream_reads w" for a b q
    using prepare_stream(1) [OF that(1), of w] that(2) by metis
  have "\<exists>m s f v. prepare_upload U c w = (Inr (m, s, f), v) \<and> completed_upload (committed w') g key f res"
  proof (cases ex)
    case None
    then obtain y w3 z w4 where rs: "idempotency_reserve E g key t (plus_timedelta t (us_idempotency_ttl U)) w2 = (Inr y, w3)"
      and e: "record_upload_event E DOCUMENT_UPLOAD_STARTED tn (cu_audit_context c) t SUCCESS
           [(''idempotency_replay'', VBool False)] (w3\<lparr>committed := working w3\<rparr>) = (Inr z, w4)"
      and pr: "process_reserved_upload E U c tn key w4 = (Inr res, w')"
      using rest g by (auto elim!: bind_InrE simp: eff_simps)
    have "both (tenant_kept g ?X) w3" using preservesD [OF kept.pres_reserve k2 rs] .
    then have "both (tenant_kept g ?X) (w3\<lparr>committed := working w3\<rparr>)" by (simp add: both_def)
    then have k4: "both (tenant_kept g ?X) w4" using preservesD [OF kept.pres_event [OF g] _ e] by blast
    have "stream_reads w4 = stream_reads w"
      using s2 stream_reserve [OF rs] stream_event [OF e] by simp
    then show ?thesis using process_completed [OF k4 g pr] same by blast
  next
    case (Some r)
    have hr: "handle_existing_record E U c tn r w2 = (Inr res, w')" using rest Some by simp
    obtain row where row: "row \<in> set (upload_idempotency (working w1))" "ui_organization_id row = g" "ui_idempotency_key row = key"
      and l: "idempotency_from_record row = Inr r" and w2: "w2 = w1"
      using ex unfolding Some by (rule idempotency_got)
    have row2: "row \<in> set (upload_idempotency (working w2))" using row(1) w2 by simp
    show ?thesis
      using existing_succeeded [OF k2 wc2 g eof row2 row(2) l hr] same [OF _ s2] row(3) by blast
  qed
  then show ?thesis using p key by blast
qed

lemma completed_ids:
  assumes "document_tables d" and "completed_upload d g k f res"
  shows "DocumentId_post_init (DocumentId_value (d_id (ur_document res))) = Inr (d_id (ur_document res))"
    "DocumentVersionId_post_init (DocumentVersionId_value (dv_id (ur_current_version res))) = Inr (dv_id (ur_current_version res))"
proof -
  have x: "ur_document res \<in> set (documents d)" "ur_current_version res \<in> set (document_versions d)"
    using assms(2) row_at_iff [OF document_tablesD(1) [OF assms(1)]] row_at_iff [OF version_keys [OF assms(1)]]
    by (auto simp: completed_upload_def)
  have "document_from_record (ur_document res) = Inr (ur_document res)"
    "version_from_record (ur_current_version res) = Inr (ur_current_version res)"
    using document_tablesD(5,6) [OF assms(1)] x by (auto simp: document_ok_def version_ok_def)
  then show "DocumentId_post_init (DocumentId_value (d_id (ur_document res))) = Inr (d_id (ur_document res))"
    "DocumentVersionId_post_init (DocumentVersionId_value (dv_id (ur_current_version res))) = Inr (dv_id (ur_current_version res))"
    by (auto simp: document_from_record_def version_from_record_def elim!: bind_res_InrE split: if_splits)
qed

text \<open>The answer to a repeated request.\<close>

definition as_replay :: "UploadDocumentResult \<Rightarrow> UploadDocumentResult" where
  "as_replay res = res\<lparr>ur_outcome := IDEMPOTENT_REPLAY, ur_idempotent_replay := True\<rparr>"

lemma upload_replayed:
  assumes ok: "upload_tables (committed w)" and wc: "working w = committed w"
    and cu: "completed_upload (committed w) (tn_organization_id tn) key f res"
    and p: "DOCUMENT_WRITE \<in> set (tn_permissions tn)" and key: "validate_idempotency_key (cu_idempotency_key c) = Inr key"
    and prep: "prepare_upload U c v = (Inr (m, s, f), v')" "stream_reads v = stream_reads w" and clock: "\<And>n. tz_aware (e_now E n)"
  shows "\<exists>n. UploadDocument E U c tn None w =
    (Inr (as_replay res), w\<lparr>now_reads := Suc (now_reads w), stream_reads := n\<rparr>)"
proof -
  let ?g = "tn_organization_id tn" and ?w = "w\<lparr>now_reads := Suc (now_reads w)\<rparr>"
  let ?v = "?w\<lparr>stream_reads := stream_reads v'\<rparr>"
  have dt: "document_tables (working ?v)" "document_tables (committed w)" using ok wc by (simp_all add: upload_tables_def)
  obtain r where r: "r \<in> set (upload_idempotency (committed w))" "ui_organization_id r = ?g" "ui_idempotency_key r = key"
    and st: "ui_status r = IdemCompleted" "ui_request_fingerprint r = Some f"
    and ids: "ui_document_id r = Some (d_id (ur_document res))" "ui_document_version_id r = Some (dv_id (ur_current_version res))"
    and out: "ui_outcome r = Some (UploadDocumentOutcome_value DUPLICATE) \<longleftrightarrow> ur_duplicate res"
      "replay_status r = ur_response_status res"
    and at: "document_at (committed w) ?g (d_id (ur_document res)) = Some (ur_document res)"
      "version_at (committed w) ?g (d_id (ur_document res), dv_id (ur_current_version res)) = Some (ur_current_version res)"
    using cu unfolding completed_upload_def by blast
  obtain x where x: "idempotency_from_record r = Inr x"
    using completed_ids [OF dt(2) cu] by (simp add: idempotency_from_record_def ids opt_res_def)
  note l = idempotency_loaded [OF x]
  have get: "idempotency_get ?g key ?w = (Inr (Some x), ?w)"
    using idempotency_get_row [of ?w r ?g key] ok wc r x by simp
  have pr: "prepare_upload U c ?w = (Inr (m, s, f), ?v)"
    using prepare_stream(1) [OF prep(1), of ?w] prep(2) by simp
  have a: "assert_replay_fingerprint U c x ?w = (Inr (), ?v)"
    using l(2) st(2) by (simp add: assert_replay_fingerprint_def bind_def eff_simps catch_def try_except_def pr)
  have "replay_completed x tn ?v = (Inr (replay_result x (ur_document res) (ur_current_version res)), ?v)"
    using replay_completed_run [OF dt(1), of x "d_id (ur_document res)" "dv_id (ur_current_version res)" tn] l(3,4) ids at wc
    by simp
  moreover have "replay_result x (ur_document res) (ur_current_version res) = as_replay res"
    using out l(5,6) by (cases res) (simp add: replay_result_def as_replay_def replay_status_def)
  moreover have "document_now E None w = (Inr (astimezone_utc (e_now E (now_reads w))), ?w)"
    using clock by (simp add: document_now_def bind_def eff_simps)
  ultimately have "UploadDocument E U c tn None w = (Inr (as_replay res), ?v)"
    using p key get a l(1) st(1)
    by (simp add: UploadDocument_def handle_existing_record_def require_ok bind_def eff_simps)
  then show ?thesis by blast
qed

section \<open>A sample upload\<close>

text \<open>A text file whose key is completed, and the same key after an attempt that may be retried.\<close>

definition sample_upload :: UploadDocumentCommand where
  "sample_upload = \<lparr>cu_filename = Some ''a.txt'', cu_declared_media_type = Some ''text/plain'',
     cu_stream = (\<lambda>sz n. Some (if n = 0 then ''abc'' else [])), cu_idempotency_key = ''key-1'', cu_audit_context = None\<rparr>"

definition sample_uploader :: UploadDocument_init where
  "sample_uploader = \<lparr>us_storage = sample_storage, us_max_bytes = 100, us_idempotency_ttl = 86400000000,
     us_sha256 = (\<lambda>_. sample_hash), us_zip_infolist = (\<lambda>_. Inr [])\<rparr>"

definition sample_key_row :: UploadIdempotencyRecordModel where
  "sample_key_row = \<lparr>ui_organization_id = 5, ui_idempotency_key = ''key-1'', ui_request_fingerprint = Some sample_hash,
     ui_status = IdemCompleted, ui_document_id = Some (DocumentId 8), ui_document_version_id = Some (DocumentVersionId 7),
     ui_response_status = Some 201, ui_outcome = Some ''created'', ui_error_code = None, ui_retryable = False,
     ui_created_at = utc 1, ui_updated_at = utc 2, ui_expires_at = utc 90, um_id = 60\<rparr>"

definition sample_failed_row :: UploadIdempotencyRecordModel where
  "sample_failed_row = sample_key_row\<lparr>ui_status := IdemFailed, ui_document_id := None, ui_document_version_id := None,
     ui_response_status := Some 503, ui_outcome := None, ui_error_code := Some ''object_storage_unavailable'', ui_retryable := True\<rparr>"

definition sample_upload_db :: "UploadIdempotencyRecordModel \<Rightarrow> db" where
  "sample_upload_db r = sample_document_db\<lparr>upload_idempotency := [r]\<rparr>"

definition sample_created :: UploadDocumentResult where
  "sample_created = \<lparr>ur_document = sample_stored_document, ur_current_version = sample_stored_version, ur_outcome = CREATED,
     ur_duplicate = False, ur_idempotent_replay = False, ur_response_status = 201\<rparr>"

lemma sample_upload_facts:
  "upload_tables (sample_upload_db r)" "stays_at_end (cu_stream sample_upload)" "tz_aware (e_now sample_clock n)"
  "validate_idempotency_key (cu_idempotency_key sample_upload) = Inr ''key-1''"
  "DOCUMENT_WRITE \<in> set (tn_permissions sample_tenant)" "tn_organization_id sample_tenant = 5"
  "completed_upload (sample_upload_db sample_key_row) 5 ''key-1'' sample_hash sample_created"
proof -
  have at: "document_at (sample_upload_db r) g i = document_at sample_document_db g i"
    "version_at (sample_upload_db r) g k = version_at sample_document_db g k" for r g i k
    by (simp_all add: sample_upload_db_def)
  show "upload_tables (sample_upload_db r)"
    using sample_document_facts(1) by (simp add: upload_tables_def sample_upload_db_def)
  show "stays_at_end (cu_stream sample_upload)"
    by (simp add: stays_at_end_def sample_upload_def)
  show "tz_aware (e_now sample_clock n)" by (simp add: sample_clock_def)
  show "validate_idempotency_key (cu_idempotency_key sample_upload) = Inr ''key-1''" by code_simp
  show "DOCUMENT_WRITE \<in> set (tn_permissions sample_tenant)" by (simp add: sample_tenant_def) code_simp
  show "tn_organization_id sample_tenant = 5" by (simp add: sample_tenant_def)
  have "d_id sample_stored_document = DocumentId 8" "dv_id sample_stored_version = DocumentVersionId 7"
    by (simp_all add: sample_document_defs)
  then show "completed_upload (sample_upload_db sample_key_row) 5 ''key-1'' sample_hash sample_created"
    using sample_document_facts(2,3)
    by (simp add: completed_upload_def at sample_created_def)
      (simp add: sample_upload_db_def sample_key_row_def replay_status_def)
qed

lemma sample_prepared:
  assumes "stream_reads w = 0"
  obtains m s w' where "prepare_upload sample_uploader sample_upload w = (Inr (m, s, sample_hash), w')"
proof -
  have "validate_text ''abc'' False = Inr ()" by code_simp
  then show thesis
    using assms that
    by (simp add: prepare_upload_def sample_upload_def sample_uploader_def sample_metadata read_stream_def stream_upload_def
        stream_loop.simps stream_start_def add_chunk_def raise_if_def request_fingerprint_def validate_streamed_content_def
        sha256_hex_hash bind_def eff_simps Let_def)
qed

lemma sample_upload_served:
  "\<exists>w'. upload_request sample_clock sample_uploader sample_upload sample_tenant (fresh_world (sample_upload_db sample_key_row)) =
     (Inr (as_replay sample_created), w')"
proof -
  let ?w = "(fresh_world (sample_upload_db sample_key_row))\<lparr>stream_reads := 0\<rparr>"
  obtain m s v' where p: "prepare_upload sample_uploader sample_upload ?w = (Inr (m, s, sample_hash), v')"
    by (rule sample_prepared [of ?w]) simp_all
  have "\<exists>n. UploadDocument sample_clock sample_uploader sample_upload sample_tenant None ?w =
      (Inr (as_replay sample_created), ?w\<lparr>now_reads := Suc (now_reads ?w), stream_reads := n\<rparr>)"
    by (rule upload_replayed [OF _ _ _ _ _ p]) (simp_all add: sample_upload_facts)
  then show ?thesis by (auto simp: upload_request_def session_scope_def)
qed

section \<open>Properties\<close>

text \<open>
  C4. Uploads are idempotent. When a request succeeded, in whichever of its ways (a new
  document, a duplicate, a replay), sending it again with the same key and file gives the same
  document, version, duplicate flag and status, marked as a replay. The second request changes
  nothing: no table, and no object in the storage. The clock must give aware times, and a
  stream that is at its end stays there.
\<close>

theorem upload_replay_roundtrip:
  assumes "upload_tables (committed w)" and "working w = committed w" and "stays_at_end (cu_stream c)"
    and "\<forall>n. tz_aware (e_now E n)" and "upload_request E U c tn w = (Inr res, w1)"
  shows "\<exists>w2. upload_request E U c tn w1 =
      (Inr (res\<lparr>ur_outcome := IDEMPOTENT_REPLAY, ur_idempotent_replay := True\<rparr>), w2) \<and>
    committed w2 = committed w1 \<and> s3_calls w2 = s3_calls w1"
proof -
  let ?w = "w\<lparr>stream_reads := 0\<rparr>" and ?w1 = "w1\<lparr>stream_reads := 0\<rparr>"
  obtain v where run: "UploadDocument E U c tn None ?w = (Inr res, v)" and w1: "w1 = v\<lparr>working := committed v\<rparr>"
    using assms(5) by (auto simp: upload_request_def session_scope_def split: prod.splits)
  have ok: "upload_tables (committed ?w)" "working ?w = committed ?w" using assms(1,2) by simp_all
  obtain key m s f u where p: "DOCUMENT_WRITE \<in> set (tn_permissions tn)"
    "validate_idempotency_key (cu_idempotency_key c) = Inr key" "prepare_upload U c ?w = (Inr (m, s, f), u)"
    and cu: "completed_upload (committed v) (tn_organization_id tn) key f res"
    using upload_succeeded [OF ok assms(3) refl run] by blast
  have "both (tenant_kept (tn_organization_id tn) (outside (tn_organization_id tn) (committed w))) v"
    by (rule preservesD [OF kept_upload _ run]) (use assms(1,2) in \<open>simp add: both_def tenant_kept_def\<close>)
  then have "upload_tables (committed v)" by (simp add: both_def tenant_kept_def)
  then have "\<exists>n. UploadDocument E U c tn None ?w1 =
      (Inr (as_replay res), ?w1\<lparr>now_reads := Suc (now_reads ?w1), stream_reads := n\<rparr>)"
    by (intro upload_replayed [OF _ _ _ p]) (use cu w1 assms(4) in simp_all)
  then show ?thesis
    using w1 by (auto simp: upload_request_def session_scope_def as_replay_def)
qed

theorem upload_replay_roundtrip_witness:
  "\<exists>w1 w2. upload_request sample_clock sample_uploader sample_upload sample_tenant
      (fresh_world (sample_upload_db sample_key_row)) = (Inr (as_replay sample_created), w1) \<and>
    upload_request sample_clock sample_uploader sample_upload sample_tenant w1 = (Inr (as_replay sample_created), w2)"
proof -
  obtain w1 where w1: "upload_request sample_clock sample_uploader sample_upload sample_tenant
      (fresh_world (sample_upload_db sample_key_row)) = (Inr (as_replay sample_created), w1)"
    using sample_upload_served by blast
  then show ?thesis
    using upload_replay_roundtrip [OF _ _ _ _ w1] by (auto simp: sample_upload_facts) (simp add: as_replay_def)
qed

text \<open>
  C13. An upload that succeeds is recorded. The caller held the write permission, the key is
  valid, the file passed validation, and the committed tables then hold the completed key of
  this tenant with the fingerprint of the uploaded file, pointing to the document and the
  version that the result shows, as they are stored.
\<close>

theorem upload_success_recorded:
  assumes "upload_tables (committed w)" and "working w = committed w" and "stays_at_end (cu_stream c)"
    and "upload_request E U c tn w = (Inr res, w')"
  shows "DOCUMENT_WRITE \<in> set (tn_permissions tn) \<and>
    (\<exists>key m s f v. validate_idempotency_key (cu_idempotency_key c) = Inr key \<and>
       prepare_upload U c (w\<lparr>stream_reads := 0\<rparr>) = (Inr (m, s, f), v) \<and>
       completed_upload (committed w') (tn_organization_id tn) key f res)"
proof -
  obtain v where run: "UploadDocument E U c tn None (w\<lparr>stream_reads := 0\<rparr>) = (Inr res, v)" and w': "w' = v\<lparr>working := committed v\<rparr>"
    using assms(4) by (auto simp: upload_request_def session_scope_def split: prod.splits)
  have ok: "upload_tables (committed (w\<lparr>stream_reads := 0\<rparr>))" "working (w\<lparr>stream_reads := 0\<rparr>) = committed (w\<lparr>stream_reads := 0\<rparr>)"
    using assms(1,2) by simp_all
  show ?thesis
    using upload_succeeded [OF ok assms(3) refl run] w' by simp
qed

theorem upload_success_recorded_witness:
  "\<exists>w' f. upload_request sample_clock sample_uploader sample_upload sample_tenant
      (fresh_world (sample_upload_db sample_key_row)) = (Inr (as_replay sample_created), w') \<and>
    completed_upload (committed w') 5 ''key-1'' f (as_replay sample_created)"
proof -
  obtain w' where w': "upload_request sample_clock sample_uploader sample_upload sample_tenant
      (fresh_world (sample_upload_db sample_key_row)) = (Inr (as_replay sample_created), w')"
    using sample_upload_served by blast
  then show ?thesis
    using upload_success_recorded [OF _ _ _ w'] by (auto simp: sample_upload_facts)
qed

text \<open>
  C7. An upload stays within its tenant, whether it succeeds or fails at any of its steps: the
  rows of all other tenants and the identity tables are untouched, the document and key tables
  are consistent again, and the storage is only asked to write and delete temporary objects of
  this tenant, to copy one of them below the content prefix of this tenant, and to look at
  either. No call deletes an object below the content prefix, and none writes one except by
  copying a temporary object.
\<close>

theorem upload_stays_in_tenant:
  assumes "upload_tables (committed w)" and "working w = committed w" and "upload_request E U c tn w = (r, w')"
  shows "upload_tables (committed w') \<and>
    outside (tn_organization_id tn) (committed w') = outside (tn_organization_id tn) (committed w) \<and>
    (\<exists>cs. s3_calls w' = s3_calls w @ cs \<and> list_all (upload_call (tn_organization_id tn)) cs)"
proof -
  let ?g = "tn_organization_id tn"
  obtain v where run: "UploadDocument E U c tn None (w\<lparr>stream_reads := 0\<rparr>) = (r, v)" and w': "w' = v\<lparr>working := committed v\<rparr>"
    using assms(3) by (auto simp: upload_request_def session_scope_def split: prod.splits)
  have "both (tenant_kept ?g (outside ?g (committed w))) v"
    by (rule preservesD [OF kept_upload _ run]) (use assms(1,2) in \<open>simp add: both_def tenant_kept_def\<close>)
  moreover have "\<exists>cs. s3_calls v = s3_calls w @ cs \<and> list_all (upload_call ?g) cs"
    using calls_onlyD [OF calls_upload run] by (simp add: list_all_iff)
  ultimately show ?thesis
    using w' by (simp add: both_def tenant_kept_def)
qed

theorem upload_stays_in_tenant_witness:
  "upload_tables (committed (snd (upload_request sample_clock sample_uploader sample_upload sample_tenant
     (fresh_world (sample_upload_db sample_failed_row)))))"
  using upload_stays_in_tenant [of "fresh_world (sample_upload_db sample_failed_row)" sample_clock sample_uploader sample_upload
      sample_tenant] sample_upload_facts(1)
  by (metis fresh_world_simps prod.collapse)

text \<open>
  C22. A retry of a failed upload never succeeds. When the stored attempt failed, is marked as
  one that may be retried, and got as far as storing its fingerprint (a failure of the object
  storage), every later request with its key is answered with an error: the comparison of the
  fingerprints reads the stream to its end, and the upload that follows reads from there.
\<close>

theorem upload_retry_never_succeeds:
  assumes "upload_tables (committed w)" and "working w = committed w" and "stays_at_end (cu_stream c)"
    and "row \<in> set (upload_idempotency (committed w))" and "ui_organization_id row = tn_organization_id tn"
    and "validate_idempotency_key (cu_idempotency_key c) = Inr (ui_idempotency_key row)"
    and "ui_status row = IdemFailed" and "ui_retryable row" and "ui_request_fingerprint row \<noteq> None"
  shows "\<exists>e. fst (upload_request E U c tn w) = Inl e"
proof (rule ccontr)
  assume "\<nexists>e. fst (upload_request E U c tn w) = Inl e"
  then obtain res v where run: "UploadDocument E U c tn None (w\<lparr>stream_reads := 0\<rparr>) = (Inr res, v)"
    by (cases "UploadDocument E U c tn None (w\<lparr>stream_reads := 0\<rparr>)"; cases "fst (upload_request E U c tn w)")
      (auto simp: upload_request_def session_scope_def)
  let ?g = "tn_organization_id tn" and ?k = "ui_idempotency_key row"
  obtain t w1 x where t: "document_now E None (w\<lparr>stream_reads := 0\<rparr>) = (Inr t, w1)"
    and x: "idempotency_from_record row = Inr x" and h: "handle_existing_record E U c tn x w1 = (Inr res, v)"
  proof -
    obtain t w1 where t: "document_now E None (w\<lparr>stream_reads := 0\<rparr>) = (Inr t, w1)"
      using run by (auto simp: UploadDocument_def eff_simps elim!: bind_InrE)
    have "working w1 = committed w" using readonlyD [OF readonly_document_now t] assms(2) by simp
    then have get: "idempotency_get ?g ?k w1 = (case idempotency_from_record row of Inl e \<Rightarrow> (Inl e, w1) | Inr x \<Rightarrow> (Inr (Some x), w1))"
      by (intro idempotency_get_row) (use assms in simp_all)
    show thesis
      using that [OF t] run get t assms(6)
      by (cases "idempotency_from_record row") (auto simp: UploadDocument_def elim!: bind_InrE simp: eff_simps)
  qed
  have "both (tenant_kept ?g (outside ?g (committed w))) w1"
    by (rule preservesD [OF kept.pres_readonly [OF readonly_document_now] _ t])
      (use assms(1,2) in \<open>simp add: both_def tenant_kept_def\<close>)
  then show False
    using retry_fails [OF _ refl assms(3)] idempotency_loaded [OF x] assms(7-9) h by metis
qed

theorem upload_retry_never_succeeds_witness:
  "\<exists>e. fst (upload_request sample_clock sample_uploader sample_upload sample_tenant
     (fresh_world (sample_upload_db sample_failed_row))) = Inl e"
  by (rule upload_retry_never_succeeds [where row = sample_failed_row])
    (simp_all add: sample_upload_facts, simp_all add: sample_upload_db_def sample_failed_row_def sample_key_row_def)

end
