(* ===== verification/Tenant_Requests.thy ===== *)
theory Tenant_Requests
  imports Batch_Service Case_Service Upload_Requests
begin

text \<open>
  The tenant-scoped services together. Each service writes its own tables: a predicate that its
  updates keep survives each of its requests, whatever the outcome. The locales state what such a
  predicate needs of the tables of one service; they are interpreted with the tables of the other
  services and with the document keys that these refer to.
\<close>

section \<open>What a predicate needs of the tables of a service\<close>

lemma preserves_not_found:
  "(\<And>s. preserves P (h s)) \<Longrightarrow> preserves P m \<Longrightarrow> preserves P (case e of DocumentNotFoundError s \<Rightarrow> h s | _ \<Rightarrow> m)"
  "(\<And>s. preserves P (h s)) \<Longrightarrow> preserves P m \<Longrightarrow>
     preserves P (case e of DuplicateDocumentContentError s \<Rightarrow> h s | _ \<Rightarrow> m)"
  by (cases e; simp)+

locale audited =
  fixes J :: "db \<Rightarrow> bool"
  assumes J_audit: "J (d\<lparr>audit_events := es\<rparr>) = J d"
begin

lemma keeps_event: "preserves (both J) (tenant_event s E ty tn i a now md)"
  unfolding tenant_event_def by (intro preserves_bind preserves_intros J_audit)

end

locale outside_batches = audited +
  assumes J_batches: "J d \<Longrightarrow> J (d\<lparr>batches := bs\<rparr>)"
    and J_batch_documents: "J d \<Longrightarrow> J (d\<lparr>batch_documents := ms\<rparr>)"
begin

lemma keeps_batch_reads:
  "preserves (both J) (batch_record_row g i)" "preserves (both J) (batch_get g i)" "preserves (both J) (batch_get_for_update g i)"
  "preserves (both J) (batch_list g q)" "preserves (both J) (batch_membership_row g i x)"
  "preserves (both J) (batch_list_documents g i)"
  unfolding batch_record_row_def batch_get_def batch_get_for_update_def batch_list_def batch_membership_row_def
    batch_list_documents_def opt_row_def Let_def
  by (intro preserves_bind preserves_intros)+

lemma keeps_batch_writes:
  "preserves (both J) (batch_add b)" "preserves (both J) (batch_update_row b)" "preserves (both J) (batch_add_document m)"
  "preserves (both J) (batch_remove_document g i x)"
  unfolding batch_add_def batch_update_row_def batch_add_document_def batch_remove_document_def Let_def on_integrity_error_def
  by (intro preserves_bind preserves_intros preserves_both_flush preserves_both_execute keeps_batch_reads J_batches
      J_batch_documents; assumption)+

lemma keeps_batch_request: "preserves (both J) (batch_request E tn q)"
proof -
  have get: "preserves (both J) (BatchService_get i tn)" for i
    unfolding BatchService_get_def by (intro preserves_bind preserves_intros keeps_batch_reads)
  have locked: "preserves (both J) (locked_batch tn i l)" for i l
    unfolding locked_batch_def by (intro preserves_bind preserves_intros keeps_batch_reads)
  show ?thesis
    by (cases q)
      (simp_all only: batch_request.simps BatchService_create_def BatchService_update_def BatchService_archive_def
        BatchService_add_document_def BatchService_remove_document_def BatchService_list_batches_def
        BatchService_list_documents_def BatchService_record_def;
       intro preserves_bind preserves_intros keeps_batch_reads keeps_batch_writes keeps_event preserves_not_found get locked)+
qed

end

locale outside_cases = audited +
  assumes J_cases: "J d \<Longrightarrow> J (d\<lparr>cases_tbl := cs\<rparr>)"
    and J_case_documents: "J d \<Longrightarrow> J (d\<lparr>case_documents := ms\<rparr>)"
    and J_case_comments: "J d \<Longrightarrow> J (d\<lparr>case_comments := xs\<rparr>)"
    and J_case_tasks: "J d \<Longrightarrow> J (d\<lparr>case_tasks := ts\<rparr>)"
    and J_case_decisions: "J d \<Longrightarrow> J (d\<lparr>case_decisions := ds\<rparr>)"
begin

lemma keeps_case_reads:
  "preserves (both J) (case_record_row g i)" "preserves (both J) (case_get g i)" "preserves (both J) (case_get_for_update g i)"
  "preserves (both J) (case_list g q)" "preserves (both J) (case_membership_row g i x)"
  "preserves (both J) (case_get_task_for_update g i k)"
  "preserves (both J) (case_list_documents g i)" "preserves (both J) (case_list_comments g i)"
  "preserves (both J) (case_list_tasks g i)" "preserves (both J) (case_list_decisions g i)"
  unfolding case_record_row_def case_get_def case_get_for_update_def case_list_def case_membership_row_def
    case_get_task_for_update_def case_list_documents_def case_list_comments_def case_list_tasks_def case_list_decisions_def
    opt_row_def Let_def
  by (intro preserves_bind preserves_intros)+

lemma keeps_case_writes:
  "preserves (both J) (case_add c)" "preserves (both J) (case_update_row c)" "preserves (both J) (case_add_document m)"
  "preserves (both J) (case_remove_document g i x)" "preserves (both J) (case_add_comment n)" "preserves (both J) (case_add_task t)"
  "preserves (both J) (case_update_task t)" "preserves (both J) (case_add_decision y)"
  unfolding case_add_def case_update_row_def case_add_document_def case_remove_document_def case_add_comment_def
    case_add_task_def case_update_task_def case_add_decision_def Let_def on_integrity_error_def
  by (intro preserves_bind preserves_intros preserves_both_flush preserves_both_execute keeps_case_reads J_cases
      J_case_documents J_case_comments J_case_tasks J_case_decisions; assumption)+

lemma keeps_case_request: "preserves (both J) (case_request E tn q)"
proof -
  have get: "preserves (both J) (CaseService_get i tn)" for i
    unfolding CaseService_get_def by (intro preserves_bind preserves_intros keeps_case_reads)
  have locked: "preserves (both J) (locked_case i tn l)" "preserves (both J) (locked_task i k tn l)" for i k l
    unfolding locked_case_def locked_task_def by (intro preserves_bind preserves_intros keeps_case_reads get)+
  show ?thesis
    by (cases q)
      (simp_all only: case_request.simps CaseService_create_def CaseService_update_def CaseService_close_def
        CaseService_reopen_def CaseService_archive_def CaseService_add_document_def CaseService_remove_document_def
        CaseService_create_comment_def CaseService_create_task_def CaseService_update_task_def CaseService_complete_task_def
        CaseService_create_decision_def CaseService_list_cases_def CaseService_details_def CaseService_record_def;
       intro preserves_bind preserves_intros keeps_case_reads keeps_case_writes keeps_event preserves_not_found get locked)+
qed

end

locale outside_documents = audited +
  assumes J_new_document: "J d \<Longrightarrow> J (d\<lparr>documents := documents d @ [x], document_versions := vs\<rparr>)"
    and J_document: "J d \<Longrightarrow> J (d\<lparr>documents := replace_where P (document_row_update x) (documents d)\<rparr>)"
    and J_versions: "J d \<Longrightarrow> J (d\<lparr>document_versions := vs\<rparr>)"
    and J_artifacts: "J d \<Longrightarrow> J (d\<lparr>document_artifacts := rs\<rparr>)"
begin

lemma keeps_readonly: "readonly m \<Longrightarrow> preserves (both J) m"
  unfolding preserves_def both_def by (metis prod.collapse readonlyD)

lemmas keeps_document_reads = readonly_document_reads [THEN keeps_readonly] readonly_document_now [THEN keeps_readonly]

lemma keeps_persist: "preserves (both J) (persist_document_state x)"
  unfolding persist_document_state_def Let_def
  by (intro preserves_bind preserves_intros preserves_both_flush J_document)

lemma keeps_document_writes:
  "preserves (both J) (document_add x v)" "preserves (both J) (document_archive_row x)" "preserves (both J) (version_add v)"
  "preserves (both J) (document_set_current_row x v)" "preserves (both J) (artifact_add a)"
  unfolding document_add_def document_archive_row_def version_add_def document_set_current_row_def artifact_add_def
    on_integrity_error_def
  by (intro preserves_bind preserves_intros preserves_both_flush keeps_persist J_new_document J_versions J_artifacts; assumption)+

lemma keeps_document_request: "preserves (both J) (document_request E tn q)"
proof -
  have get: "preserves (both J) (DocumentService_get i tn)" for i
    unfolding DocumentService_get_def by (intro preserves_bind preserves_intros keeps_document_reads)
  have version: "preserves (both J) (DocumentService_get_version tn i j)" for i j
    unfolding DocumentService_get_version_def by (intro preserves_bind preserves_intros keeps_document_reads get)
  have archive: "preserves (both J) (DocumentService_archive_with_lock E c tn now)" for c now
    unfolding DocumentService_archive_with_lock_def record_document_event_def roll_back_and_raise_def
    by (intro preserves_bind preserves_intros keeps_document_reads keeps_document_writes keeps_event)
  show ?thesis
    by (cases q)
      (simp_all only: document_request.simps DocumentService_register_def save_registration_def
        DocumentService_create_version_def DocumentService_archive_def DocumentService_register_artifact_def
        DocumentService_list_def DocumentService_list_versions_def DocumentService_list_artifacts_def
        DocumentService_get_artifact_def record_document_event_def roll_back_and_raise_def Let_def;
       intro preserves_bind preserves_intros keeps_document_reads keeps_document_writes keeps_event preserves_not_found
         get version archive)+
qed

end

locale outside_uploads = outside_documents +
  assumes J_keys: "J d \<Longrightarrow> J (d\<lparr>upload_idempotency := rs\<rparr>)"

sublocale outside_uploads \<subseteq> up: upload_finish J t x for t x
  by unfold_locales (simp_all add: J_audit J_keys J_versions J_document)

context outside_uploads
begin

lemma keeps_process:
  assumes "tn_organization_id tn = t"
  shows "preserves (both J) (process_reserved_upload E U c tn k)"
proof -
  have pair: "preserves (both J) (new_document_pair E tn m h n now)" for m h n now
    unfolding new_document_pair_def by (intro preserves_bind preserves_intros)
  have finish: "preserves (both J) (finish_upload E U c tn k f tk md st x v)" for f tk md st x v
    by (rule up.pres_finish [OF assms])
  show ?thesis
    unfolding process_reserved_upload_def
    by (intro preserves_bind preserves_intros pres_prod pres_sum up.pres_store [OF assms] up.pres_duplicate [OF assms]
        keeps_document_reads keeps_document_writes pair up.pres_catch finish preserves_not_found)
qed

lemma keeps_upload: "preserves (both J) (UploadDocument E U c tn now)"
proof -
  have existing: "preserves (both J) (handle_existing_record E U c tn r)" for r
    unfolding handle_existing_record_def
    by (intro preserves_bind preserves_intros up.pres_replay keeps_document_reads up.pres_idempotency up.pres_event [OF refl]
        keeps_process [OF refl])
  show ?thesis
    unfolding UploadDocument_def
    by (intro preserves_bind preserves_intros keeps_document_reads up.pres_get up.pres_reserve up.pres_event [OF refl]
        keeps_process [OF refl] existing)
qed

end

section \<open>The tables of the services side by side\<close>

lemma document_tables_cong:
  assumes "documents d' = documents d" "document_versions d' = document_versions d" "document_artifacts d' = document_artifacts d"
    "users d' = users d" "organizations d' = organizations d"
  shows "document_tables d' = document_tables d"
proof -
  have m: "versions_of d' = versions_of d" "document_missing d' = document_missing d" "version_missing d' = version_missing d"
    "user_missing d' = user_missing d" "organization_missing d' = organization_missing d"
    using assms
    by (simp_all add: versions_of_def document_missing_def version_missing_def user_missing_def organization_missing_def fun_eq_iff)
  then have "document_violations False x d' = document_violations False x d" for x
    by (simp add: document_violations_def)
  then have "document_ok d' = document_ok d" "version_ok d' = version_ok d" "artifact_ok d' = artifact_ok d"
    using m by (simp_all add: document_ok_def version_ok_def artifact_ok_def fun_eq_iff)
  then show ?thesis
    using assms by (simp add: document_tables_def)
qed

lemma document_tables_others [simp]:
  "document_tables (d\<lparr>batches := y1\<rparr>) = document_tables d" "document_tables (d\<lparr>batch_documents := y2\<rparr>) = document_tables d"
  "document_tables (d\<lparr>cases_tbl := y3\<rparr>) = document_tables d" "document_tables (d\<lparr>case_documents := y4\<rparr>) = document_tables d"
  "document_tables (d\<lparr>case_comments := y5\<rparr>) = document_tables d" "document_tables (d\<lparr>case_tasks := y6\<rparr>) = document_tables d"
  "document_tables (d\<lparr>case_decisions := y7\<rparr>) = document_tables d"
  by (rule document_tables_cong; simp)+

text \<open>What the batch and case tables refer to: users, organizations and documents.\<close>

definition document_ref :: "Document \<Rightarrow> uuid \<times> DocumentId" where
  "document_ref x = (d_organization_id x, d_id x)"

definition same_references :: "db \<Rightarrow> db \<Rightarrow> bool" where
  "same_references d d' \<longleftrightarrow> users d' = users d \<and> organizations d' = organizations d \<and>
     document_ref ` set (documents d) \<subseteq> document_ref ` set (documents d')"

lemma document_still_there:
  assumes "same_references d d'" and "\<exists>x \<in> set (documents d). d_organization_id x = g \<and> d_id x = i"
  shows "\<exists>x \<in> set (documents d'). d_organization_id x = g \<and> d_id x = i"
proof -
  have "(\<exists>x \<in> set ys. d_organization_id x = g \<and> d_id x = i) \<longleftrightarrow> (g, i) \<in> document_ref ` set ys" for ys
    by (auto simp: document_ref_def image_iff)
  then show ?thesis
    using assms unfolding same_references_def by blast
qed

lemma batch_tables_kept:
  assumes ok: "batch_tables d" and r: "same_references d d'"
    and same: "batches d' = batches d" "batch_documents d' = batch_documents d"
  shows "batch_tables d'"
proof -
  have "batch_violation False b d' = batch_violation False b d" for b
    using r by (simp add: batch_violation_def user_missing_def organization_missing_def same_references_def)
  then show ?thesis
    using ok document_still_there [OF r] unfolding batch_tables_def same by simp
qed

lemma case_tables_kept:
  assumes ok: "case_tables d" and r: "same_references d d'"
    and same: "cases_tbl d' = cases_tbl d" "case_documents d' = case_documents d" "case_comments d' = case_comments d"
      "case_tasks d' = case_tasks d" "case_decisions d' = case_decisions d"
  shows "case_tables d'"
proof -
  have m: "case_missing d' g i = case_missing d g i" "user_missing d' u = user_missing d u"
    "organization_missing d' g = organization_missing d g" for g i u
    using r same by (simp_all add: case_missing_def user_missing_def organization_missing_def same_references_def)
  have "case_violation False c d' = case_violation False c d" "task_violation False k d' = task_violation False k d" for c k
    by (simp_all add: case_violation_def task_violation_def m)
  then show ?thesis
    using ok document_still_there [OF r] unfolding case_tables_def same m by simp
qed

lemma same_references_others:
  "same_references d (d\<lparr>audit_events := z\<rparr>)" "same_references d (d\<lparr>batches := y1\<rparr>)"
  "same_references d (d\<lparr>batch_documents := y2\<rparr>)" "same_references d (d\<lparr>cases_tbl := y3\<rparr>)"
  "same_references d (d\<lparr>case_documents := y4\<rparr>)" "same_references d (d\<lparr>case_comments := y5\<rparr>)"
  "same_references d (d\<lparr>case_tasks := y6\<rparr>)" "same_references d (d\<lparr>case_decisions := y7\<rparr>)"
  "same_references d (d\<lparr>document_versions := y8\<rparr>)" "same_references d (d\<lparr>document_artifacts := y9\<rparr>)"
  "same_references d (d\<lparr>upload_idempotency := y10\<rparr>)"
  "same_references d (d\<lparr>documents := documents d @ [x], document_versions := y8\<rparr>)"
  "same_references d (d\<lparr>documents := replace_where P (document_row_update x) (documents d)\<rparr>)"
proof -
  have "map document_ref (replace_where P (document_row_update x) ys) =
      map document_ref ys" for ys
    by (simp add: document_ref_def replace_where_def document_row_update_def)
  then show "same_references d (d\<lparr>documents := replace_where P (document_row_update x) (documents d)\<rparr>)"
    unfolding same_references_def set_map [symmetric] by (simp del: set_map)
qed (auto simp: same_references_def)

definition upload_keys_distinct :: "db \<Rightarrow> bool" where
  "upload_keys_distinct d \<longleftrightarrow> distinct (map um_id (upload_idempotency d)) \<and>
     distinct (map (\<lambda>r. (ui_organization_id r, ui_idempotency_key r)) (upload_idempotency d))"

lemma upload_tables_split: "upload_tables d \<longleftrightarrow> document_tables d \<and> upload_keys_distinct d"
  by (simp add: upload_tables_def upload_keys_distinct_def)

interpretation batches_apart: outside_batches "\<lambda>d. case_tables d \<and> upload_tables d"
  by unfold_locales
    (auto simp: upload_tables_split upload_keys_distinct_def intro: case_tables_kept [OF _ same_references_others(2)]
      case_tables_kept [OF _ same_references_others(3)])

interpretation cases_apart: outside_cases "\<lambda>d. batch_tables d \<and> upload_tables d"
  by unfold_locales
    (auto simp: upload_tables_split upload_keys_distinct_def intro: batch_tables_kept [OF _ same_references_others(4)]
      batch_tables_kept [OF _ same_references_others(5)] batch_tables_kept [OF _ same_references_others(6)]
      batch_tables_kept [OF _ same_references_others(7)] batch_tables_kept [OF _ same_references_others(8)])

interpretation uploads_apart: outside_uploads "\<lambda>d. batch_tables d \<and> case_tables d"
proof unfold_locales
  fix d es
  have "same_references (d\<lparr>audit_events := es\<rparr>) d" by (simp add: same_references_def)
  then show "(batch_tables (d\<lparr>audit_events := es\<rparr>) \<and> case_tables (d\<lparr>audit_events := es\<rparr>)) = (batch_tables d \<and> case_tables d)"
    by simp
qed (simp_all add: batch_tables_kept [OF _ same_references_others(9)] batch_tables_kept [OF _ same_references_others(10)]
    batch_tables_kept [OF _ same_references_others(11)] batch_tables_kept [OF _ same_references_others(12)]
    batch_tables_kept [OF _ same_references_others(13)] case_tables_kept [OF _ same_references_others(9)]
    case_tables_kept [OF _ same_references_others(10)] case_tables_kept [OF _ same_references_others(11)]
    case_tables_kept [OF _ same_references_others(12)] case_tables_kept [OF _ same_references_others(13)])

interpretation documents_apart: outside_documents upload_keys_distinct
  by unfold_locales (simp_all add: upload_keys_distinct_def)

section \<open>Requests that do not use the object storage\<close>

lemma calls_only_exn [calls_intros]:
  "(\<And>s. calls_only P (h s)) \<Longrightarrow> calls_only P m \<Longrightarrow> calls_only P (case e of DocumentNotFoundError s \<Rightarrow> h s | _ \<Rightarrow> m)"
  "(\<And>s. calls_only P (h s)) \<Longrightarrow> calls_only P m \<Longrightarrow>
     calls_only P (case e of DuplicateDocumentContentError s \<Rightarrow> h s | _ \<Rightarrow> m)"
  by (cases e; simp)+

lemma quiet_batch_store:
  "calls_only P (batch_get g i)" "calls_only P (batch_get_for_update g i)" "calls_only P (batch_list g q)"
  "calls_only P (batch_list_documents g i)" "calls_only P (batch_add b)" "calls_only P (batch_update_row b)"
  "calls_only P (batch_add_document m)" "calls_only P (batch_remove_document g i x)"
  unfolding batch_get_def batch_get_for_update_def batch_list_def batch_list_documents_def batch_add_def batch_update_row_def
    batch_add_document_def batch_remove_document_def batch_record_row_def batch_membership_row_def opt_row_def Let_def
    on_integrity_error_def
  by (intro calls_intros)+

lemma quiet_batch_request: "calls_only P (batch_request E tn q)"
  by (cases q)
    (simp_all only: batch_request.simps BatchService_create_def BatchService_update_def BatchService_archive_def
      BatchService_add_document_def BatchService_remove_document_def BatchService_list_batches_def
      BatchService_list_documents_def BatchService_record_def BatchService_get_def locked_batch_def;
     intro calls_intros quiet_batch_store)+

lemma quiet_case_store:
  "calls_only P (case_get g i)" "calls_only P (case_get_for_update g i)" "calls_only P (case_list g q)"
  "calls_only P (case_get_task_for_update g i k)" "calls_only P (case_list_documents g i)"
  "calls_only P (case_list_comments g i)" "calls_only P (case_list_tasks g i)" "calls_only P (case_list_decisions g i)"
  "calls_only P (case_add c)" "calls_only P (case_update_row c)" "calls_only P (case_add_document m)"
  "calls_only P (case_remove_document g i x)" "calls_only P (case_add_comment n)" "calls_only P (case_add_task t)"
  "calls_only P (case_update_task t)" "calls_only P (case_add_decision y)"
  unfolding case_get_def case_get_for_update_def case_list_def case_get_task_for_update_def case_list_documents_def
    case_list_comments_def case_list_tasks_def case_list_decisions_def case_add_def case_update_row_def case_add_document_def
    case_remove_document_def case_add_comment_def case_add_task_def case_update_task_def case_add_decision_def
    case_record_row_def case_membership_row_def opt_row_def Let_def on_integrity_error_def
  by (intro calls_intros)+

lemma quiet_case_request: "calls_only P (case_request E tn q)"
  by (cases q)
    (simp_all only: case_request.simps CaseService_create_def CaseService_update_def CaseService_close_def
      CaseService_reopen_def CaseService_archive_def CaseService_add_document_def CaseService_remove_document_def
      CaseService_create_comment_def CaseService_create_task_def CaseService_update_task_def CaseService_complete_task_def
      CaseService_create_decision_def CaseService_list_cases_def CaseService_details_def CaseService_record_def
      CaseService_get_def locked_case_def locked_task_def;
     intro calls_intros quiet_case_store)+

lemma quiet_document_store:
  "calls_only P (document_list g q)" "calls_only P (version_list g i)" "calls_only P (artifact_list g i)"
  "calls_only P (version_add v)" "calls_only P (document_set_current_row x v)" "calls_only P (artifact_add a)"
  "calls_only P (document_get_for_update g i)"
  unfolding document_list_def version_list_def artifact_list_def version_add_def document_set_current_row_def
    persist_document_state_def artifact_add_def document_get_for_update_def opt_row_def Let_def on_integrity_error_def
  by (intro calls_intros)+

lemma quiet_document_request: "calls_only P (document_request E tn q)"
proof -
  have v: "calls_only P (DocumentService_get_version tn i j)" for i j
    unfolding DocumentService_get_version_def by (intro calls_intros quiet_document_store)
  have a: "calls_only P (DocumentService_archive_with_lock E c tn now)" for c now
    unfolding DocumentService_archive_with_lock_def record_document_event_def roll_back_and_raise_def
    by (intro calls_intros quiet_document_store)
  show ?thesis
    by (cases q)
      (simp_all only: document_request.simps DocumentService_register_def save_registration_def
        DocumentService_create_version_def DocumentService_archive_def DocumentService_register_artifact_def
        DocumentService_list_def DocumentService_list_versions_def DocumentService_list_artifacts_def
        DocumentService_get_artifact_def record_document_event_def roll_back_and_raise_def Let_def;
       intro calls_intros quiet_document_store v a)+
qed

section \<open>All tenant-scoped requests\<close>

datatype TenantRequest =
    BatchUse BatchRequest
  | CaseUse CaseRequest
  | DocumentUse DocumentRequest
  | DownloadUse DocumentDownloadCommand
  | UploadUse UploadDocumentCommand

text \<open>One request with its own session, as the API gives one to each.\<close>

fun tenant_request :: "env \<Rightarrow> UploadDocument_init \<Rightarrow> TenantContext \<Rightarrow> TenantRequest \<Rightarrow> unit tx" where
  "tenant_request E U tn (BatchUse q) = session_scope (batch_request E tn q)"
| "tenant_request E U tn (CaseUse q) = session_scope (case_request E tn q)"
| "tenant_request E U tn (DocumentUse q) = session_scope (document_request E tn q)"
| "tenant_request E U tn (DownloadUse c) = session_scope (forget (DocumentService_download E (us_storage U) c tn))"
| "tenant_request E U tn (UploadUse c) = (\<lambda>w. session_scope (forget (UploadDocument E U c tn None)) (w\<lparr>stream_reads := 0\<rparr>))"

fun serve_tenants :: "env \<Rightarrow> UploadDocument_init \<Rightarrow> (TenantContext \<times> TenantRequest) list \<Rightarrow> world \<Rightarrow> world" where
  "serve_tenants E U [] w = w"
| "serve_tenants E U ((tn, q) # qs) w = serve_tenants E U qs (snd (tenant_request E U tn q w))"

definition all_tables :: "db \<Rightarrow> bool" where
  "all_tables d \<longleftrightarrow> batch_tables d \<and> case_tables d \<and> upload_tables d"

definition settled :: "uuid \<Rightarrow> world \<Rightarrow> world \<Rightarrow> bool" where
  "settled t w w' \<longleftrightarrow> all_tables (committed w') \<and> working w' = committed w' \<and>
     outside t (committed w') = outside t (committed w)"

lemma session_scope_kept:
  assumes "preserves (both J) m" and "J (committed w)" and "working w = committed w" and "session_scope m w = (r, w')"
  shows "J (committed w')" and "working w' = committed w'"
  using assms by (auto simp: session_scope_def both_def preserves_def split: prod.splits)

lemma batch_use_settled:
  assumes ok: "all_tables (committed w)" and wc: "working w = committed w" and run: "session_scope (batch_request E tn q) w = (r, w')"
  shows "settled (tn_organization_id tn) w w'"
proof -
  have b: "batch_tables (committed w)" and others: "case_tables (committed w) \<and> upload_tables (committed w)"
    using ok by (simp_all add: all_tables_def)
  have "case_tables (committed w') \<and> upload_tables (committed w')"
    by (rule session_scope_kept [OF batches_apart.keeps_batch_request others wc run])
  then show ?thesis
    using batch_request_served [OF b wc run] by (cases r) (simp_all add: settled_def all_tables_def batch_committed_def)
qed

lemma case_use_settled:
  assumes ok: "all_tables (committed w)" and wc: "working w = committed w" and run: "session_scope (case_request E tn q) w = (r, w')"
  shows "settled (tn_organization_id tn) w w'"
proof -
  have c: "case_tables (committed w)" and others: "batch_tables (committed w) \<and> upload_tables (committed w)"
    using ok by (simp_all add: all_tables_def)
  have "batch_tables (committed w') \<and> upload_tables (committed w')"
    by (rule session_scope_kept [OF cases_apart.keeps_case_request others wc run])
  then show ?thesis
    using case_request_served [OF c wc run] by (cases r) (simp_all add: settled_def all_tables_def case_committed_def)
qed

lemma document_use_settled:
  assumes ok: "all_tables (committed w)" and wc: "working w = committed w" and run: "session_scope (document_request E tn q) w = (r, w')"
  shows "settled (tn_organization_id tn) w w'"
proof -
  have d: "document_tables (committed w)" and k: "upload_keys_distinct (committed w)"
    and others: "batch_tables (committed w) \<and> case_tables (committed w)"
    using ok by (simp_all add: all_tables_def upload_tables_split)
  have "batch_tables (committed w') \<and> case_tables (committed w')"
    by (rule session_scope_kept [OF uploads_apart.keeps_document_request others wc run])
  moreover have "upload_keys_distinct (committed w')"
    by (rule session_scope_kept [OF documents_apart.keeps_document_request k wc run])
  ultimately show ?thesis
    using document_request_served [OF d wc run]
    by (cases r) (simp_all add: settled_def all_tables_def upload_tables_split document_committed_def)
qed

lemma download_use_settled:
  assumes ok: "all_tables (committed w)" and run: "session_scope (forget (DocumentService_download E S c tn)) w = (r, w')"
  shows "settled (tn_organization_id tn) w w'"
proof -
  have p: "preserves (commits_to (committed w)) (forget (DocumentService_download E S c tn))"
    by (intro preserves_bind preserves_intros download_no_commit)
  obtain w1 where m: "forget (DocumentService_download E S c tn) w = (r, w1)" and w': "w' = w1\<lparr>working := committed w1\<rparr>"
    using run by (auto simp: session_scope_def split: prod.splits)
  have "committed w1 = committed w"
    using preservesD [OF p _ m] by (simp add: commits_to_def)
  then show ?thesis using ok w' by (simp add: settled_def)
qed

lemma upload_use_settled:
  assumes ok: "all_tables (committed w)" and wc: "working w = committed w"
    and run: "session_scope (forget (UploadDocument E U c tn None)) w = (r, w')"
  shows "settled (tn_organization_id tn) w w'"
proof -
  let ?t = "tn_organization_id tn"
  have own: "tenant_kept ?t (outside ?t (committed w)) (committed w)"
    and others: "batch_tables (committed w) \<and> case_tables (committed w)"
    using ok by (simp_all add: all_tables_def tenant_kept_def)
  have "preserves (both (tenant_kept ?t (outside ?t (committed w)))) (forget (UploadDocument E U c tn None))"
    by (intro preserves_bind preserves_intros kept_upload)
  note k = session_scope_kept [OF this own wc run]
  have "preserves (both (\<lambda>d. batch_tables d \<and> case_tables d)) (forget (UploadDocument E U c tn None))"
    by (intro preserves_bind preserves_intros uploads_apart.keeps_upload)
  note o = session_scope_kept [OF this others wc run]
  show ?thesis using k o by (simp add: settled_def all_tables_def tenant_kept_def)
qed

lemma tenant_request_settled:
  assumes "all_tables (committed w)" and "working w = committed w" and "tenant_request E U tn q w = (r, w')"
  shows "settled (tn_organization_id tn) w w'"
proof (cases q)
  case (UploadUse c)
  then have "session_scope (forget (UploadDocument E U c tn None)) (w\<lparr>stream_reads := 0\<rparr>) = (r, w')"
    using assms(3) by simp
  from upload_use_settled [OF _ _ this] show ?thesis
    using assms(1,2) by (simp add: settled_def)
qed (use assms batch_use_settled case_use_settled document_use_settled download_use_settled in auto)

section \<open>The objects of a tenant\<close>

definition object_of :: "uuid \<Rightarrow> string \<Rightarrow> bool" where
  "object_of g k \<longleftrightarrow> startswith k (''tmp/'' @ uuid_str g @ ''/'') \<or> startswith k (''documents/'' @ uuid_str g @ ''/'') \<or>
     startswith k (''artifacts/'' @ uuid_str g @ ''/'')"

fun call_keys :: "s3_call \<Rightarrow> string list" where
  "call_keys (PutObject k body m) = [k]"
| "call_keys (CopyObject k k' m) = [k, k']"
| "call_keys (DeleteObject k) = [k]"
| "call_keys (HeadObject k) = [k]"
| "call_keys (PresignGet k n) = [k]"

definition call_of :: "uuid \<Rightarrow> s3_call \<Rightarrow> bool" where
  "call_of g c \<longleftrightarrow> (\<forall>k \<in> set (call_keys c). object_of g k)"

lemma object_of_one:
  assumes "object_of g k" and "object_of h k"
  shows "g = h"
  using assms by (auto simp: object_of_def startswith_iff uuid_str_inj)

lemma call_of_calls: "upload_call g c \<Longrightarrow> call_of g c" "download_call g c \<Longrightarrow> call_of g c"
  by (cases c) (auto simp: call_of_def object_of_def upload_key_def download_call_def tenant_key_def)

lemma tenant_request_calls:
  assumes "tenant_request E U tn q w = (r, w')"
  shows "\<exists>cs. s3_calls w' = s3_calls w @ cs \<and> list_all (call_of (tn_organization_id tn)) cs"
proof -
  have calls: "\<exists>cs. s3_calls w' = s3_calls w @ cs \<and> list_all (call_of (tn_organization_id tn)) cs"
    if "calls_only (call_of (tn_organization_id tn)) (tenant_request E U tn q)"
    using calls_onlyD [OF that assms] by (simp add: list_all_iff)
  show ?thesis
  proof (cases q)
    case (UploadUse c)
    have "calls_only (upload_call (tn_organization_id tn)) (session_scope (forget (UploadDocument E U c tn None)))"
      by (intro calls_only_session calls_intros calls_upload)
    from calls_onlyD [OF this, of "w\<lparr>stream_reads := 0\<rparr>" r w'] show ?thesis
      using assms UploadUse call_of_calls(1) by (auto simp: list_all_iff)
  next
    case (DownloadUse c)
    have "calls_only (download_call (tn_organization_id tn)) (session_scope (forget (DocumentService_download E (us_storage U) c tn)))"
      by (intro calls_only_session calls_intros download_calls)
    from calls_onlyD [OF this, of w r w'] show ?thesis
      using assms DownloadUse call_of_calls(2) by (auto simp: list_all_iff)
  qed (rule calls, simp, intro calls_only_session quiet_batch_request quiet_case_request quiet_document_request)+
qed

section \<open>The rows of a tenant\<close>

definition tenant_rows :: "uuid \<Rightarrow> db \<Rightarrow> tenant_view" where
  "tenant_rows g d =
     \<lparr>v_batches = filter (\<lambda>r. b_organization_id r = g) (batches d),
      v_batch_documents = filter (\<lambda>r. bd_organization_id r = g) (batch_documents d),
      v_cases = filter (\<lambda>r. c_organization_id r = g) (cases_tbl d),
      v_case_documents = filter (\<lambda>r. cd_organization_id r = g) (case_documents d),
      v_case_comments = filter (\<lambda>r. cc_organization_id r = g) (case_comments d),
      v_case_tasks = filter (\<lambda>r. ct_organization_id r = g) (case_tasks d),
      v_case_decisions = filter (\<lambda>r. cx_organization_id r = g) (case_decisions d),
      v_documents = filter (\<lambda>r. d_organization_id r = g) (documents d),
      v_document_versions = filter (\<lambda>r. dv_organization_id r = g) (document_versions d),
      v_document_artifacts = filter (\<lambda>r. da_organization_id r = g) (document_artifacts d),
      v_upload_idempotency = filter (\<lambda>r. ui_organization_id r = g) (upload_idempotency d),
      v_audit_events = filter (\<lambda>r. ae_organization_id r = Some g) (audit_events d)\<rparr>"

lemma filter_own: "g \<noteq> t \<Longrightarrow> filter (\<lambda>r. f r \<noteq> t) xs = filter (\<lambda>r. f r \<noteq> t) ys \<Longrightarrow> filter (\<lambda>r. f r = g) xs = filter (\<lambda>r. f r = g) ys"
proof -
  assume "g \<noteq> t" and eq: "filter (\<lambda>r. f r \<noteq> t) xs = filter (\<lambda>r. f r \<noteq> t) ys"
  then have "filter (\<lambda>r. f r = g) zs = filter (\<lambda>r. f r = g) (filter (\<lambda>r. f r \<noteq> t) zs)" for zs
    by (induction zs) auto
  then show ?thesis using eq by metis
qed

lemma tenant_rows_outside:
  assumes "g \<noteq> t" and "outside t d' = outside t d"
  shows "tenant_rows g d' = tenant_rows g d"
proof -
  have e: "filter (\<lambda>r. b_organization_id r \<noteq> t) (batches d') = filter (\<lambda>r. b_organization_id r \<noteq> t) (batches d)"
    "filter (\<lambda>r. bd_organization_id r \<noteq> t) (batch_documents d') = filter (\<lambda>r. bd_organization_id r \<noteq> t) (batch_documents d)"
    "filter (\<lambda>r. c_organization_id r \<noteq> t) (cases_tbl d') = filter (\<lambda>r. c_organization_id r \<noteq> t) (cases_tbl d)"
    "filter (\<lambda>r. cd_organization_id r \<noteq> t) (case_documents d') = filter (\<lambda>r. cd_organization_id r \<noteq> t) (case_documents d)"
    "filter (\<lambda>r. cc_organization_id r \<noteq> t) (case_comments d') = filter (\<lambda>r. cc_organization_id r \<noteq> t) (case_comments d)"
    "filter (\<lambda>r. ct_organization_id r \<noteq> t) (case_tasks d') = filter (\<lambda>r. ct_organization_id r \<noteq> t) (case_tasks d)"
    "filter (\<lambda>r. cx_organization_id r \<noteq> t) (case_decisions d') = filter (\<lambda>r. cx_organization_id r \<noteq> t) (case_decisions d)"
    "filter (\<lambda>r. d_organization_id r \<noteq> t) (documents d') = filter (\<lambda>r. d_organization_id r \<noteq> t) (documents d)"
    "filter (\<lambda>r. dv_organization_id r \<noteq> t) (document_versions d') = filter (\<lambda>r. dv_organization_id r \<noteq> t) (document_versions d)"
    "filter (\<lambda>r. da_organization_id r \<noteq> t) (document_artifacts d') = filter (\<lambda>r. da_organization_id r \<noteq> t) (document_artifacts d)"
    "filter (\<lambda>r. ui_organization_id r \<noteq> t) (upload_idempotency d') = filter (\<lambda>r. ui_organization_id r \<noteq> t) (upload_idempotency d)"
    and a: "filter (\<lambda>r. ae_organization_id r \<noteq> Some t) (audit_events d') = filter (\<lambda>r. ae_organization_id r \<noteq> Some t) (audit_events d)"
    using assms(2) by (simp_all add: outside_def foreign_def)
  have "Some g \<noteq> Some t" using assms(1) by simp
  from filter_own [OF this a] show ?thesis
    unfolding tenant_rows_def e [THEN filter_own [OF assms(1)]] by (rule arg_cong)
qed

lemma serve_tenants_isolated:
  assumes "all_tables (committed w)" and "working w = committed w" and "list_all (\<lambda>(tn, q). tn_organization_id tn \<noteq> g) qs"
  shows "all_tables (committed (serve_tenants E U qs w)) \<and>
    tenant_rows g (committed (serve_tenants E U qs w)) = tenant_rows g (committed w) \<and>
    shared (committed (serve_tenants E U qs w)) = shared (committed w) \<and>
    (\<exists>cs. s3_calls (serve_tenants E U qs w) = s3_calls w @ cs \<and>
       list_all (\<lambda>c. list_all (\<lambda>k. \<not> object_of g k) (call_keys c)) cs)"
  using assms
proof (induction qs arbitrary: w)
  case (Cons p qs)
  obtain tn q where p: "p = (tn, q)" by fastforce
  obtain r w1 where run: "tenant_request E U tn q w = (r, w1)" by fastforce
  have g: "g \<noteq> tn_organization_id tn" using Cons.prems(3) p by auto
  note s = tenant_request_settled [OF Cons.prems(1,2) run, unfolded settled_def]
  obtain cs where cs: "s3_calls w1 = s3_calls w @ cs" "list_all (call_of (tn_organization_id tn)) cs"
    using tenant_request_calls [OF run] by blast
  have foreign: "list_all (\<lambda>c. list_all (\<lambda>k. \<not> object_of g k) (call_keys c)) cs"
    unfolding list_all_iff
  proof (intro ballI notI)
    fix c k assume "c \<in> set cs" "k \<in> set (call_keys c)" "object_of g k"
    then have "object_of (tn_organization_id tn) k" using cs(2) by (simp add: list_all_iff call_of_def)
    then show False using object_of_one [OF \<open>object_of g k\<close>] g by blast
  qed
  have same: "tenant_rows g (committed w1) = tenant_rows g (committed w)" "shared (committed w1) = shared (committed w)"
    using tenant_rows_outside [OF g, of "committed w1" "committed w"] s by (simp_all add: outside_def)
  have "list_all (\<lambda>(tn, q). tn_organization_id tn \<noteq> g) qs" using Cons.prems(3) by simp
  from Cons.IH [OF _ _ this] s obtain cs' where
    "all_tables (committed (serve_tenants E U qs w1))" "tenant_rows g (committed (serve_tenants E U qs w1)) = tenant_rows g (committed w1)"
    "shared (committed (serve_tenants E U qs w1)) = shared (committed w1)"
    "s3_calls (serve_tenants E U qs w1) = s3_calls w1 @ cs'" "list_all (\<lambda>c. list_all (\<lambda>k. \<not> object_of g k) (call_keys c)) cs'"
    by blast
  then show ?case
    using cs(1) foreign same by (simp add: p run)
qed simp

lemma sample_all_tables: "all_tables sample_document_db"
  using sample_document_facts(1)
  by (simp add: all_tables_def upload_tables_def) (simp add: batch_tables_def case_tables_def sample_document_defs)

end
