(* ===== verification/Api_Access.thy ===== *)
theory Api_Access
  imports Authorization Session_Requests Document_Store
begin

text \<open>
  The gate of every tenant-scoped endpoint: the dependencies of \<^verbatim>\<open>apps/api/dependencies.py\<close> that turn
  a bearer token into a principal, the principal into a tenant context and check a permission,
  with the audit events of refused requests, which \<^verbatim>\<open>apps/api/audit.py\<close> commits in a transaction of
  their own. What the request says of itself (request identifier, source address, user agent) is
  an argument.
\<close>

section \<open>Permission names\<close>

fun Permission_value :: "Permission \<Rightarrow> string" where
  "Permission_value ORGANIZATION_READ = ''organization.read''"
| "Permission_value ORGANIZATION_UPDATE = ''organization.update''"
| "Permission_value MEMBERSHIP_READ = ''membership.read''"
| "Permission_value MEMBERSHIP_INVITE = ''membership.invite''"
| "Permission_value MEMBERSHIP_UPDATE = ''membership.update''"
| "Permission_value MEMBERSHIP_REMOVE = ''membership.remove''"
| "Permission_value AUDIT_READ = ''audit.read''"
| "Permission_value SECURITY_MANAGE = ''security.manage''"
| "Permission_value API_KEYS_MANAGE = ''api_keys.manage''"
| "Permission_value PROVIDER_CREDENTIALS_MANAGE = ''provider_credentials.manage''"
| "Permission_value DOCUMENT_READ = ''document.read''"
| "Permission_value DOCUMENT_WRITE = ''document.write''"
| "Permission_value DOCUMENT_ARCHIVE = ''document.archive''"
| "Permission_value DOCUMENT_DOWNLOAD = ''document.download''"
| "Permission_value DOCUMENT_VERSION_READ = ''document_version.read''"
| "Permission_value DOCUMENT_VERSION_CREATE = ''document_version.create''"
| "Permission_value ARTIFACT_READ = ''artifact.read''"
| "Permission_value ARTIFACT_DOWNLOAD = ''artifact.download''"
| "Permission_value BATCH_READ = ''batch.read''"
| "Permission_value BATCH_WRITE = ''batch.write''"
| "Permission_value BATCH_ARCHIVE = ''batch.archive''"
| "Permission_value BATCH_MANAGE_DOCUMENTS = ''batch.manage_documents''"
| "Permission_value CASE_READ = ''case.read''"
| "Permission_value CASE_WRITE = ''case.write''"
| "Permission_value CASE_ARCHIVE = ''case.archive''"
| "Permission_value CASE_MANAGE_DOCUMENTS = ''case.manage_documents''"
| "Permission_value CASE_COMMENT = ''case.comment''"
| "Permission_value CASE_TASK = ''case.task''"
| "Permission_value CASE_DECISION = ''case.decision''"

section \<open>Independent audit events\<close>

text \<open>
  A second session inserts the event and commits or rolls back. The session of the request keeps
  its own pending changes and sees the committed row, as with the isolation level of the database.
\<close>

definition independent_record :: "env \<Rightarrow> AuditEvent \<Rightarrow> unit tx" where
  "independent_record E event = (\<lambda>w.
     case session_scope
       (try_except (bind (audit_record E event) (\<lambda>_. commit))
         (\<lambda>e. bind rollback (\<lambda>_.
            case e of
              AuditPersistenceError m \<Rightarrow> raise e
            | _ \<Rightarrow> raise (AuditPersistenceError ''Audit event could not be persisted.''))))
       (w\<lparr>working := committed w\<rparr>) of
       (r, w') \<Rightarrow> (r, w'\<lparr>working := (working w)\<lparr>audit_events := audit_events (working w) @
          drop (length (audit_events (committed w))) (audit_events (committed w'))\<rparr>\<rparr>))"

definition record_independent_audit_event ::
  "env \<Rightarrow> uuid \<Rightarrow> AuditEventType \<Rightarrow> AuditOutcome \<Rightarrow> uuid option \<Rightarrow> uuid option \<Rightarrow> uuid option \<Rightarrow>
   AuditRequestContext option \<Rightarrow> metadata option \<Rightarrow> unit tx" where
  "record_independent_audit_event E event_id event_type outcome actor_user_id organization_id session_id request_context
     metadata =
     bind (clock_now E) (\<lambda>occurred_at.
     bind (of_res (AuditEvent_create event_id event_type outcome occurred_at actor_user_id organization_id session_id
       request_context (Some (case metadata of None \<Rightarrow> [] | Some m \<Rightarrow> m)))) (\<lambda>event.
     try_except (independent_record E event)
       (\<lambda>e. case e of AuditPersistenceError m \<Rightarrow> ret () | _ \<Rightarrow> raise e)))"

section \<open>Errors of the gate\<close>

definition dependency_authentication_error :: exn where
  "dependency_authentication_error =
     ApiError 401 ''authentication_failed'' ''Authentication is required.'' [(''WWW-Authenticate'', ''Bearer'')]"

definition tenant_access_error :: exn where
  "tenant_access_error = ApiError 403 ''tenant_access_denied'' ''The selected organization is not available.'' []"

definition permission_denied_error :: exn where
  "permission_denied_error = ApiError 403 ''permission_denied'' ''The request is not allowed.'' []"

section \<open>The dependencies\<close>

record HTTPAuthorizationCredentials =
  hc_scheme :: string
  hc_credentials :: string

definition record_access_token_rejected :: "env \<Rightarrow> AuditRequestContext \<Rightarrow> unit tx" where
  "record_access_token_rejected E context =
     bind (uuid4 E) (\<lambda>event_id.
     record_independent_audit_event E event_id AUTHENTICATION_ACCESS_TOKEN_REJECTED FAILURE None None None (Some context) None)"

definition get_current_principal ::
  "env \<Rightarrow> crypto \<Rightarrow> HTTPAuthorizationCredentials option \<Rightarrow> AuditRequestContext \<Rightarrow> AccessTokenClaims tx" where
  "get_current_principal E K credentials context =
     (case credentials of
        None \<Rightarrow> bind (record_access_token_rejected E context) (\<lambda>_. raise dependency_authentication_error)
      | Some c \<Rightarrow>
          if casefold (hc_scheme c) \<noteq> ''bearer'' \<or> hc_credentials c = [] then
            bind (record_access_token_rejected E context) (\<lambda>_. raise dependency_authentication_error)
          else
            try_except (VerifyAccessToken E K (hc_credentials c))
              (\<lambda>e. case e of
                 ExpiredAccessTokenError m \<Rightarrow>
                   bind (record_access_token_rejected E context) (\<lambda>_. raise dependency_authentication_error)
               | InvalidAccessTokenError m \<Rightarrow>
                   bind (record_access_token_rejected E context) (\<lambda>_. raise dependency_authentication_error)
               | _ \<Rightarrow> raise e))"

definition get_current_tenant_context ::
  "env \<Rightarrow> uuid \<Rightarrow> AccessTokenClaims \<Rightarrow> AuditRequestContext \<Rightarrow> TenantContext tx" where
  "get_current_tenant_context E organization_id claims context =
     try_except (ResolveTenantContext (tc_user_id claims) organization_id)
       (\<lambda>e. case e of
          TenantMembershipInactive user_id org_id membership_id status \<Rightarrow>
            bind (uuid4 E) (\<lambda>event_id.
            bind (record_independent_audit_event E event_id TENANCY_INACTIVE_MEMBERSHIP DENIED (Some user_id) (Some org_id)
              (Some (SessionId_value (tc_session_id claims))) (Some context)
              (Some [(''membership_status'', VStr (MembershipStatus_value status))])) (\<lambda>_.
            raise tenant_access_error))
        | TenantAccessDenied user_id org_id reason \<Rightarrow>
            bind (uuid4 E) (\<lambda>event_id.
            bind (record_independent_audit_event E event_id
              (if reason = ''organization inactive'' then TENANCY_INACTIVE_ORGANIZATION else TENANCY_ACCESS_DENIED)
              DENIED (Some user_id) (Some org_id)
              (Some (SessionId_value (tc_session_id claims))) (Some context)
              (Some [(''reason'', VStr reason)])) (\<lambda>_.
            raise tenant_access_error))
        | _ \<Rightarrow> raise e)"

definition record_permission_denied ::
  "env \<Rightarrow> uuid \<Rightarrow> uuid \<Rightarrow> Permission \<Rightarrow> AuditRequestContext \<Rightarrow> unit tx" where
  "record_permission_denied E user_id organization_id permission context =
     bind (uuid4 E) (\<lambda>event_id.
     record_independent_audit_event E event_id AUTHORIZATION_PERMISSION_DENIED DENIED (Some user_id) (Some organization_id)
       None (Some context) (Some [(''permission'', VStr (Permission_value permission))]))"

definition guarded :: "env \<Rightarrow> unit res \<Rightarrow> TenantContext \<Rightarrow> AuditRequestContext \<Rightarrow> TenantContext tx" where
  \<comment> \<open>the body the three permission dependencies share\<close>
  "guarded E decision tenant context =
     bind (try_except (of_res decision)
       (\<lambda>e. case e of
          PermissionDenied user_id organization_id permission \<Rightarrow>
            bind (record_permission_denied E user_id organization_id permission context) (\<lambda>_.
            raise permission_denied_error)
        | _ \<Rightarrow> raise e)) (\<lambda>_.
     ret tenant)"

definition require_permission :: "env \<Rightarrow> Permission \<Rightarrow> TenantContext \<Rightarrow> AuditRequestContext \<Rightarrow> TenantContext tx" where
  "require_permission E permission tenant context = guarded E (require tenant permission) tenant context"

definition require_any_permission ::
  "(Permission list \<Rightarrow> Permission) \<Rightarrow> env \<Rightarrow> Permission list \<Rightarrow> TenantContext \<Rightarrow> AuditRequestContext \<Rightarrow> TenantContext tx" where
  "require_any_permission next_iter E permissions tenant context =
     guarded E (require_any next_iter tenant permissions) tenant context"

definition require_all_permissions ::
  "(Permission list \<Rightarrow> Permission) \<Rightarrow> env \<Rightarrow> Permission list \<Rightarrow> TenantContext \<Rightarrow> AuditRequestContext \<Rightarrow> TenantContext tx" where
  "require_all_permissions next_iter E permissions tenant context =
     guarded E (require_all next_iter tenant permissions) tenant context"

text \<open>The chain of dependencies of an endpoint with one required permission.\<close>

definition tenant_access ::
  "env \<Rightarrow> crypto \<Rightarrow> HTTPAuthorizationCredentials option \<Rightarrow> uuid \<Rightarrow> Permission \<Rightarrow> AuditRequestContext \<Rightarrow> TenantContext tx" where
  "tenant_access E K credentials organization_id permission context =
     bind (get_current_principal E K credentials context) (\<lambda>claims.
     bind (get_current_tenant_context E organization_id claims context) (\<lambda>tenant.
     require_permission E permission tenant context))"

section \<open>What the gate commits\<close>

text \<open>At most one event, of the given kind, is appended; the session stays settled.\<close>

definition only_noted :: "(AuditEvent \<Rightarrow> bool) \<Rightarrow> world \<Rightarrow> world \<Rightarrow> bool" where
  "only_noted P w w' \<longleftrightarrow> working w' = committed w' \<and>
     (\<exists>evs. committed w' = (committed w)\<lparr>audit_events := audit_events (committed w) @ evs\<rparr> \<and>
        length evs \<le> 1 \<and> list_all P evs)"

definition refusal :: "AuditEvent \<Rightarrow> bool" where
  "refusal e \<longleftrightarrow> ae_outcome e \<in> {FAILURE, DENIED} \<and>
     ae_event_type e \<in> {AUTHENTICATION_ACCESS_TOKEN_REJECTED, TENANCY_INACTIVE_MEMBERSHIP, TENANCY_INACTIVE_ORGANIZATION,
       TENANCY_ACCESS_DENIED, AUTHORIZATION_PERMISSION_DENIED}"

lemma only_noted_refl: "working w = committed w \<Longrightarrow> only_noted P w w"
  by (auto simp: only_noted_def intro!: exI [of _ "[]"])

lemma independent_record_noted:
  assumes "independent_record E ev w = (r, w')" and "working w = committed w" and "ae_created_at ev = None"
    and "\<And>t. P (record_from_event t ev)"
  shows "only_noted P w w'"
proof -
  let ?v = "w\<lparr>working := committed w\<rparr>"
  show ?thesis
  proof (cases "audit_violation ev (committed w) = None")
    case True
    then show ?thesis
      using assms audit_record_run [OF assms(3), of E ?v]
      by (auto simp: independent_record_def session_scope_def try_except_def bind_def eff_simps Let_def only_noted_def)
  next
    case False
    then show ?thesis
      using assms audit_record_run [OF assms(3), of E ?v]
      by (auto simp: independent_record_def session_scope_def try_except_def bind_def eff_simps Let_def only_noted_def
          intro!: exI [of _ "[]"])
  qed
qed

lemma event_noted:
  assumes run: "record_independent_audit_event E i ty out a g s c md w = (r, w')" and wc: "working w = committed w"
    and k: "out \<in> {FAILURE, DENIED}" "ty \<in> {AUTHENTICATION_ACCESS_TOKEN_REJECTED, TENANCY_INACTIVE_MEMBERSHIP,
      TENANCY_INACTIVE_ORGANIZATION, TENANCY_ACCESS_DENIED, AUTHORIZATION_PERMISSION_DENIED}"
  shows "only_noted refusal w w'"
proof -
  let ?w = "w\<lparr>now_reads := Suc (now_reads w)\<rparr>"
  let ?md = "case md of None \<Rightarrow> [] | Some m \<Rightarrow> m"
  have same: "only_noted P ?w v \<Longrightarrow> only_noted P w v" for P v by (simp add: only_noted_def)
  show ?thesis
  proof (cases "AuditEvent_create i ty out (e_now E (now_reads w)) a g s c (Some ?md)")
    case (Inl e)
    then have "w' = ?w" using run by (simp add: record_independent_audit_event_def eff_simps bind_def)
    then show ?thesis using wc by (intro same) (simp add: only_noted_refl)
  next
    case (Inr ev)
    note f = AuditEvent_create_frame [OF Inr]
    obtain q v where m: "independent_record E ev ?w = (q, v)" by fastforce
    have "only_noted refusal ?w v"
      by (rule independent_record_noted [OF m]) (use wc f k in \<open>auto simp: refusal_def record_from_event_def\<close>)
    moreover have "w' = v"
      using run Inr m
      by (cases q) (auto simp: record_independent_audit_event_def try_except_def eff_simps bind_def split: exn.splits)
    ultimately show ?thesis by (intro same) simp
  qed
qed

text \<open>A step of the gate returns and changes nothing, or refuses with at most one event.\<close>

definition gate :: "(db \<Rightarrow> bool) \<Rightarrow> 'a tx \<Rightarrow> ('a \<Rightarrow> db \<Rightarrow> bool) \<Rightarrow> bool" where
  "gate P m Q \<longleftrightarrow> (\<forall>w r w'. working w = committed w \<longrightarrow> P (committed w) \<longrightarrow> m w = (r, w') \<longrightarrow>
     (case r of
        Inl e \<Rightarrow> only_noted refusal w w'
      | Inr x \<Rightarrow> committed w' = committed w \<and> working w' = committed w' \<and> Q x (committed w)))"

lemma gateD:
  assumes "gate P m Q" and "working w = committed w" and "P (committed w)" and "m w = (r, w')"
  shows "case r of Inl e \<Rightarrow> only_noted refusal w w'
    | Inr x \<Rightarrow> committed w' = committed w \<and> working w' = committed w' \<and> Q x (committed w)"
  using assms unfolding gate_def by blast

lemma gate_bind:
  assumes "gate P m Q" and "\<And>x. gate (Q x) (k x) R"
  shows "gate P (bind m k) R"
  unfolding gate_def
proof (intro allI impI)
  fix w r w'
  assume w: "working w = committed w" "P (committed w)" and run: "bind m k w = (r, w')"
  obtain q v where q: "m w = (q, v)" by fastforce
  note first = gateD [OF assms(1) w q]
  show "case r of Inl e \<Rightarrow> only_noted refusal w w'
      | Inr x \<Rightarrow> committed w' = committed w \<and> working w' = committed w' \<and> R x (committed w)"
  proof (cases q)
    case (Inl e)
    then show ?thesis using first run q by (auto simp: bind_def)
  next
    case (Inr x)
    then have "k x v = (r, w')" using run q by (simp add: bind_def)
    from gateD [OF assms(2) _ _ this] first Inr show ?thesis
      by (cases r) (simp_all add: only_noted_def)
  qed
qed

lemma gate_refuse:
  fixes Q :: "'b \<Rightarrow> db \<Rightarrow> bool"
  assumes "\<And>w r w'. working w = committed w \<Longrightarrow> m w = (r, w') \<Longrightarrow> only_noted refusal w w'"
  shows "gate P (bind m (\<lambda>_. raise e)) Q"
  unfolding gate_def
proof (intro allI impI)
  fix w w' and r :: "exn + 'b"
  assume w: "working w = committed w" "P (committed w)" and run: "bind m (\<lambda>_. raise e) w = (r, w')"
  obtain q v where q: "m w = (q, v)" by fastforce
  have "(\<exists>e. r = Inl e) \<and> w' = v" using run q by (cases q) (auto simp: bind_def eff_simps)
  then show "case r of Inl e \<Rightarrow> only_noted refusal w w'
      | Inr x \<Rightarrow> committed w' = committed w \<and> working w' = committed w' \<and> Q x (committed w)"
    using assms [OF w(1) q] by auto
qed

text \<open>A read only step whose exceptions the gate turns into refusals.\<close>

lemma gate_try:
  assumes ro: "readonly m" and h: "\<And>e. gate (\<lambda>_. True) (h e) Q"
    and ok: "\<And>w x w'. working w = committed w \<Longrightarrow> P (committed w) \<Longrightarrow> m w = (Inr x, w') \<Longrightarrow> Q x (committed w)"
  shows "gate P (try_except m h) Q"
  unfolding gate_def
proof (intro allI impI)
  fix w r w'
  assume w: "working w = committed w" "P (committed w)" and run: "try_except m h w = (r, w')"
  obtain q v where q: "m w = (q, v)" by fastforce
  have v: "working v = committed v" "committed v = committed w" using readonlyD [OF ro q] w by simp_all
  show "case r of Inl e \<Rightarrow> only_noted refusal w w'
      | Inr x \<Rightarrow> committed w' = committed w \<and> working w' = committed w' \<and> Q x (committed w)"
  proof (cases q)
    case (Inl e)
    then have "h e v = (r, w')" using run q by (simp add: try_except_def)
    from gateD [OF h v(1) TrueI this] v show ?thesis by (cases r) (simp_all add: only_noted_def)
  next
    case (Inr x)
    then show ?thesis using run q v ok [OF w] by (auto simp: try_except_def)
  qed
qed

lemma gate_post:
  assumes "gate P m Q" and "\<And>x d. Q x d \<Longrightarrow> R x d"
  shows "gate P m R"
  unfolding gate_def
proof (intro allI impI)
  fix w r w'
  assume "working w = committed w" "P (committed w)" "m w = (r, w')"
  from gateD [OF assms(1) this] show "case r of Inl e \<Rightarrow> only_noted refusal w w'
      | Inr x \<Rightarrow> committed w' = committed w \<and> working w' = committed w' \<and> R x (committed w)"
    by (cases r) (simp_all add: assms(2))
qed

lemma gate_raise: "gate P (raise e) Q"
  by (auto simp: gate_def eff_simps only_noted_refl)

section \<open>The steps of the gate\<close>

lemma rejected_noted:
  assumes "record_access_token_rejected E c w = (r, w')" and "working w = committed w"
  shows "only_noted refusal w w'"
proof -
  have "record_independent_audit_event E (e_uuid4 E (uuid_reads w)) AUTHENTICATION_ACCESS_TOKEN_REJECTED FAILURE None None None
      (Some c) None (w\<lparr>uuid_reads := Suc (uuid_reads w)\<rparr>) = (r, w')"
    using assms(1) by (simp add: record_access_token_rejected_def eff_simps bind_def)
  from event_noted [OF this] assms(2) show ?thesis by (simp add: only_noted_def)
qed

lemma denied_noted:
  assumes "bind (uuid4 E) (\<lambda>i. record_independent_audit_event E i ty DENIED a g s c md) w = (r, w')" and "working w = committed w"
    and "ty \<in> {TENANCY_INACTIVE_MEMBERSHIP, TENANCY_INACTIVE_ORGANIZATION, TENANCY_ACCESS_DENIED, AUTHORIZATION_PERMISSION_DENIED}"
  shows "only_noted refusal w w'"
proof -
  have "record_independent_audit_event E (e_uuid4 E (uuid_reads w)) ty DENIED a g s c md
      (w\<lparr>uuid_reads := Suc (uuid_reads w)\<rparr>) = (r, w')"
    using assms(1) by (simp add: eff_simps bind_def)
  from event_noted [OF this] assms(2,3) show ?thesis by (auto simp: only_noted_def)
qed

text \<open>
  The bearer token verifies, and its session is stored for its user, not revoked and not expired
  at the \<open>n\<close>-th reading of the clock.
\<close>

definition principal_ok ::
  "env \<Rightarrow> crypto \<Rightarrow> HTTPAuthorizationCredentials option \<Rightarrow> AccessTokenClaims \<Rightarrow> nat \<Rightarrow> db \<Rightarrow> bool" where
  "principal_ok E K credentials p n d \<longleftrightarrow>
     (\<exists>c claims t. credentials = Some c \<and> casefold (hc_scheme c) = ''bearer'' \<and> hc_credentials c \<noteq> [] \<and>
        k_verify_token K (hc_credentials c) = Inr claims \<and>
        tc_user_id p = tc_user_id claims \<and> tc_session_id p = tc_session_id claims \<and>
        lifecycle_timestamp (e_now E n) = Inr t \<and>
        (\<exists>s \<in> set (auth_sessions d). s_id s = tc_session_id claims \<and> s_user_id s = tc_user_id claims \<and>
           s_revoked_at s = None \<and> t < s_expires_at s))"

lemma readonly_verify: "readonly (VerifyAccessToken E K tok)"
  unfolding VerifyAccessToken_def clock_utc_def session_get_active_by_id_def by (intro readonly_intros)

lemma verified:
  assumes "VerifyAccessToken E K (hc_credentials c) w = (Inr p, w')" and "working w = committed w"
    and "casefold (hc_scheme c) = ''bearer''" and "hc_credentials c \<noteq> []"
  shows "principal_ok E K (Some c) p (now_reads w) (committed w)"
proof -
  obtain claims t s where k: "k_verify_token K (hc_credentials c) = Inr claims"
    and s: "scalar_one_or_none (filter (\<lambda>s. s_id s = tc_session_id claims \<and> s_revoked_at s = None \<and> t < s_expires_at s)
        (auth_sessions (committed w))) = Inr (Some s)"
    and u: "\<exists>s'. auth_session_from_record s = Inr s' \<and> s_user_id s' = tc_user_id claims"
    and p: "VerifiedAccessPrincipal_post_init claims = Inr p" and t: "lifecycle_timestamp (e_now E (now_reads w)) = Inr t"
    using assms(1,2)
    by (auto simp: VerifyAccessToken_def clock_utc_def session_get_active_by_id_def opt_row_def eff_simps opt_res_eq_Inr
        elim!: bind_InrE split: option.splits if_splits sum.splits)
  have "s \<in> set (filter (\<lambda>s. s_id s = tc_session_id claims \<and> s_revoked_at s = None \<and> t < s_expires_at s)
        (auth_sessions (committed w)))"
    unfolding scalar_found [OF s] by simp
  moreover have "s_user_id s = tc_user_id claims" using u auth_session_from_record_frame by metis
  moreover have "tc_user_id p = tc_user_id claims" "tc_session_id p = tc_session_id claims"
    using p by (auto simp: VerifiedAccessPrincipal_post_init_def AccessTokenClaims_post_init_def)
  ultimately show ?thesis using k t assms(3,4) by (auto simp: principal_ok_def)
qed

lemma principal_granted:
  assumes "get_current_principal E K credentials ctxt w = (Inr p, w')" and "working w = committed w"
  shows "principal_ok E K credentials p (now_reads w) (committed w)"
proof -
  have no: "bind (record_access_token_rejected E ctxt) (\<lambda>_. raise e) w \<noteq> (Inr q, w')" for e w w' and q :: AccessTokenClaims
    by (auto simp: eff_simps elim!: bind_InrE)
  then obtain c where c: "credentials = Some c" "casefold (hc_scheme c) = ''bearer''" "hc_credentials c \<noteq> []"
    using assms(1) by (auto simp: get_current_principal_def split: option.splits if_splits)
  then have t: "try_except (VerifyAccessToken E K (hc_credentials c)) (\<lambda>e. case e of
       ExpiredAccessTokenError m \<Rightarrow> bind (record_access_token_rejected E ctxt) (\<lambda>_. raise dependency_authentication_error)
     | InvalidAccessTokenError m \<Rightarrow> bind (record_access_token_rejected E ctxt) (\<lambda>_. raise dependency_authentication_error)
     | _ \<Rightarrow> raise e) w = (Inr p, w')"
    using assms(1) by (simp add: get_current_principal_def)
  then have "VerifyAccessToken E K (hc_credentials c) w = (Inr p, w')"
  proof (cases rule: try_except_cases)
    case (2 e w1)
    then show ?thesis using no by (cases e) (auto simp: eff_simps)
  qed simp
  from verified [OF this assms(2) c(2,3)] c(1) show ?thesis by simp
qed

lemma gate_principal: "gate P (get_current_principal E K credentials ctxt) (\<lambda>_. P)"
proof -
  have refuse: "gate P (bind (record_access_token_rejected E ctxt) (\<lambda>_. raise e)) Q"
    for P e and Q :: "AccessTokenClaims \<Rightarrow> db \<Rightarrow> bool"
    by (rule gate_refuse) (rule rejected_noted)
  have h: "gate P (case e of
       ExpiredAccessTokenError m \<Rightarrow> bind (record_access_token_rejected E ctxt) (\<lambda>_. raise dependency_authentication_error)
     | InvalidAccessTokenError m \<Rightarrow> bind (record_access_token_rejected E ctxt) (\<lambda>_. raise dependency_authentication_error)
     | _ \<Rightarrow> raise e) Q" for P e and Q :: "AccessTokenClaims \<Rightarrow> db \<Rightarrow> bool"
    by (cases e) (simp_all add: gate_raise refuse)
  show ?thesis
  proof (cases credentials)
    case None
    then show ?thesis by (simp add: get_current_principal_def refuse)
  next
    case (Some c)
    show ?thesis
    proof (cases "casefold (hc_scheme c) \<noteq> ''bearer'' \<or> hc_credentials c = []")
      case True
      then show ?thesis using Some by (simp add: get_current_principal_def refuse)
    next
      case False
      then have "get_current_principal E K credentials ctxt = try_except (VerifyAccessToken E K (hc_credentials c)) (\<lambda>e. case e of
           ExpiredAccessTokenError m \<Rightarrow> bind (record_access_token_rejected E ctxt) (\<lambda>_. raise dependency_authentication_error)
         | InvalidAccessTokenError m \<Rightarrow> bind (record_access_token_rejected E ctxt) (\<lambda>_. raise dependency_authentication_error)
         | _ \<Rightarrow> raise e)"
        using Some by (simp add: get_current_principal_def)
      then show ?thesis
        by (auto intro!: gate_try readonly_verify h)
    qed
  qed
qed

definition context_ok :: "uuid \<Rightarrow> uuid \<Rightarrow> TenantContext \<Rightarrow> db \<Rightarrow> bool" where
  "context_ok u i c d \<longleftrightarrow>
     (\<exists>g m. g \<in> set (organizations d) \<and> o_id g = i \<and> o_is_active g \<and>
        m \<in> set (memberships d) \<and> m_user_id m = u \<and> m_organization_id m = i \<and> m_status m = ACTIVE \<and>
        c = \<lparr>tn_user_id = u, tn_organization_id = i, tn_membership_id = m_id m, tn_role = m_role m,
             tn_permissions = permissions_for_role (m_role m)\<rparr>)"

lemma bind_assoc: "bind (bind m k) h = bind m (\<lambda>x. bind (k x) h)"
  by (rule ext) (simp add: bind_def split: prod.split sum.split)

lemma gate_context:
  assumes "\<And>d. P d \<Longrightarrow> identity_tables d"
  shows "gate P (get_current_tenant_context E i p ctxt) (\<lambda>c d. P d \<and> context_ok (tc_user_id p) i c d)"
proof -
  have refuse: "gate P (bind (uuid4 E) (\<lambda>j. bind (record_independent_audit_event E j ty DENIED a g s c md) (\<lambda>_. raise e))) Q"
    if "ty \<in> {TENANCY_INACTIVE_MEMBERSHIP, TENANCY_INACTIVE_ORGANIZATION, TENANCY_ACCESS_DENIED, AUTHORIZATION_PERMISSION_DENIED}"
    for P ty a g s c md e and Q :: "TenantContext \<Rightarrow> db \<Rightarrow> bool"
    unfolding bind_assoc [symmetric] by (rule gate_refuse) (rule denied_noted [OF _ _ that])
  show ?thesis
    unfolding get_current_tenant_context_def
  proof (rule gate_try [OF readonly_resolve])
    fix w x w'
    assume "working w = committed w" "P (committed w)" "ResolveTenantContext (tc_user_id p) i w = (Inr x, w')"
    then show "P (committed w) \<and> context_ok (tc_user_id p) i x (committed w)"
      using resolve_run [of w "tc_user_id p" i x] assms unfolding context_ok_def by auto
  next
    fix e
    show "gate (\<lambda>_. True) (case e of
          TenantMembershipInactive user_id org_id membership_id status \<Rightarrow>
            bind (uuid4 E) (\<lambda>event_id.
            bind (record_independent_audit_event E event_id TENANCY_INACTIVE_MEMBERSHIP DENIED (Some user_id) (Some org_id)
              (Some (SessionId_value (tc_session_id p))) (Some ctxt)
              (Some [(''membership_status'', VStr (MembershipStatus_value status))])) (\<lambda>_.
            raise tenant_access_error))
        | TenantAccessDenied user_id org_id reason \<Rightarrow>
            bind (uuid4 E) (\<lambda>event_id.
            bind (record_independent_audit_event E event_id
              (if reason = ''organization inactive'' then TENANCY_INACTIVE_ORGANIZATION else TENANCY_ACCESS_DENIED)
              DENIED (Some user_id) (Some org_id)
              (Some (SessionId_value (tc_session_id p))) (Some ctxt)
              (Some [(''reason'', VStr reason)])) (\<lambda>_.
            raise tenant_access_error))
        | _ \<Rightarrow> raise e) (\<lambda>c d. P d \<and> context_ok (tc_user_id p) i c d)"
      by (cases e) (simp_all add: gate_raise refuse)
  qed
qed

lemma gate_permission: "gate P (require_permission E q tn ctxt) (\<lambda>c d. P d \<and> c = tn \<and> q \<in> set (tn_permissions tn))"
proof (cases "require tn q")
  case (Inr u)
  then have q: "q \<in> set (tn_permissions tn)" by (auto simp: require_def allows_def raise_if_def split: if_splits)
  have "require_permission E q tn ctxt w = (Inr tn, w)" for w
    using q by (simp add: require_permission_def guarded_def require_def allows_def raise_if_def try_except_def bind_def eff_simps)
  with q show ?thesis by (simp add: gate_def)
next
  case (Inl e)
  have "gate P (bind (record_permission_denied E u g r ctxt) (\<lambda>_. raise x)) Q" for u g r x and Q :: "TenantContext \<Rightarrow> db \<Rightarrow> bool"
    unfolding record_permission_denied_def by (rule gate_refuse, rule denied_noted, assumption, assumption) simp
  moreover have "e = PermissionDenied (tn_user_id tn) (tn_organization_id tn) q"
    using Inl by (auto simp: require_def raise_if_def split: if_splits)
  moreover have "bind (bind m (\<lambda>_. raise x)) k = bind m (\<lambda>_. raise x)" for m :: "unit tx" and x and k :: "unit \<Rightarrow> TenantContext tx"
    by (rule ext) (simp add: bind_def eff_simps split: prod.split sum.split)
  moreover have "try_except (of_res (Inl e)) h = h e" for e and h :: "exn \<Rightarrow> unit tx"
    by (rule ext) (simp add: try_except_def eff_simps)
  ultimately show ?thesis
    using Inl by (simp add: require_permission_def guarded_def)
qed

lemma gate_chosen:
  "gate identity_tables (bind (get_current_tenant_context E i p ctxt) (\<lambda>c. require_permission E q c ctxt))
     (\<lambda>c d. context_ok (tc_user_id p) i c d \<and> q \<in> set (tn_permissions c))"
proof (rule gate_bind [OF gate_context])
  fix c
  show "gate (\<lambda>d. identity_tables d \<and> context_ok (tc_user_id p) i c d) (require_permission E q c ctxt)
      (\<lambda>c d. context_ok (tc_user_id p) i c d \<and> q \<in> set (tn_permissions c))"
    by (rule gate_post [OF gate_permission]) auto
qed simp

section \<open>A sample request\<close>

definition sample_access_db :: db where
  "sample_access_db = sample_identity_db\<lparr>auth_sessions := [sample_session\<lparr>s_user_id := 101\<rparr>]\<rparr>"

definition sample_verifier :: crypto where
  "sample_verifier = sample_crypto\<lparr>k_verify_token := (\<lambda>_. Inr \<lparr>tc_user_id = 101, tc_session_id = SessionId 1,
      tc_token_id = 9, tc_issued_at = utc 0, tc_expires_at = utc 900\<rparr>)\<rparr>"

definition sample_bearer :: HTTPAuthorizationCredentials where
  "sample_bearer = \<lparr>hc_scheme = ''Bearer'', hc_credentials = ''t''\<rparr>"

definition sample_request_context :: AuditRequestContext where
  "sample_request_context = \<lparr>rc_request_id = None, rc_source_ip = None, rc_user_agent = None\<rparr>"

lemma sample_access_tables: "identity_tables sample_access_db"
  using sample_identity_tables by (simp add: identity_tables_def sample_access_db_def)

lemma sample_access_granted:
  "\<exists>c w'. tenant_access sample_env sample_verifier (Some sample_bearer) 5 DOCUMENT_READ sample_request_context
     (fresh_world sample_access_db) = (Inr c, w') \<and> tn_role c = OWNER"
proof -
  let ?w = "(fresh_world sample_access_db)\<lparr>now_reads := 1\<rparr>"
  let ?p = "\<lparr>tc_user_id = 101, tc_session_id = SessionId 1, tc_token_id = 9, tc_issued_at = utc 0, tc_expires_at = utc 900\<rparr>"
  have b: "casefold ''Bearer'' = ''bearer''" by code_simp
  have f: "auth_session_from_record (sample_session\<lparr>s_user_id := 101\<rparr>) = Inr (sample_session\<lparr>s_user_id := 101\<rparr>)"
    by (simp add: auth_session_from_record_def SessionId_post_init_def validate_uuid_def check_uuid_def AuthSession_post_init_id
        wf_session_def sample_session_def)
  have p: "VerifiedAccessPrincipal_post_init ?p = Inr ?p"
    by (simp add: VerifiedAccessPrincipal_post_init_def AccessTokenClaims_post_init_def validate_uuid_def check_uuid_def
        normalize_timestamp_def to_utc_def raise_if_def)
  have "VerifyAccessToken sample_env sample_verifier ''t'' (fresh_world sample_access_db) = (Inr ?p, ?w)"
    using f p
    by (simp add: VerifyAccessToken_def sample_verifier_def clock_utc_def lifecycle_timestamp_def to_utc_def sample_env_def
        session_get_active_by_id_def opt_row_def bind_def eff_simps fresh_world_def)
      (simp add: sample_access_db_def sample_session_def scalar_one_or_none_def opt_row_def eff_simps)
  then have g: "get_current_principal sample_env sample_verifier (Some sample_bearer) sample_request_context
      (fresh_world sample_access_db) = (Inr ?p, ?w)"
    by (simp add: get_current_principal_def sample_bearer_def b try_except_def)
  let ?c = "\<lparr>tn_user_id = 101, tn_organization_id = 5, tn_membership_id = 1, tn_role = OWNER,
      tn_permissions = permissions_for_role OWNER\<rparr>"
  have "\<exists>w'. ResolveTenantContext 101 5 ?w = (Inr ?c, w')"
    using resolve_run [of ?w 101 5 ?c] sample_access_tables
    by (simp add: sample_access_db_def sample_identity_db_def empty_db_def sample_owner_def sample_organization_def)
  then obtain w' where "ResolveTenantContext 101 5 ?w = (Inr ?c, w')" by blast
  then have t: "get_current_tenant_context sample_env 5 ?p sample_request_context ?w = (Inr ?c, w')"
    by (simp add: get_current_tenant_context_def try_except_def)
  have "DOCUMENT_READ \<in> set (permissions_for_role OWNER)" by code_simp
  then have "require_permission sample_env DOCUMENT_READ ?c sample_request_context w' = (Inr ?c, w')"
    by (simp add: require_permission_def guarded_def require_def allows_def raise_if_def try_except_def bind_def eff_simps)
  then show ?thesis
    using g t by (simp add: tenant_access_def bind_def)
qed

section \<open>Properties\<close>

text \<open>
  C9. The gate of the tenant-scoped endpoints. A request is let through only when it has a bearer
  token that verifies, the session of the token is stored for the token's user, not revoked and
  not expired at the time the clock gives to this request,
  the organization of the path is stored and active, the user's membership of it is active, and
  the role of that membership has the required permission; the handler is then given exactly
  that membership's context and nothing has changed. Every other request is refused, and the
  refusal changes nothing but the audit log, which gets at most one event, a refusal.
\<close>

theorem access_only_for_members:
  assumes "identity_tables (committed w)" and "working w = committed w"
    and "tenant_access E K cr i q ctxt w = (r, w')"
  shows "case r of
      Inl e \<Rightarrow> only_noted refusal w w'
    | Inr c \<Rightarrow> committed w' = committed w \<and> q \<in> set (tn_permissions c) \<and>
        (\<exists>p. principal_ok E K cr p (now_reads w) (committed w) \<and> context_ok (tc_user_id p) i c (committed w))"
proof (cases r)
  case (Inl e)
  have "gate identity_tables (tenant_access E K cr i q ctxt) (\<lambda>_ _. True)"
    unfolding tenant_access_def by (rule gate_bind [OF gate_principal]) (rule gate_post [OF gate_chosen], simp)
  from gateD [OF this assms(2,1,3)] show ?thesis by (simp add: Inl)
next
  case (Inr c)
  obtain p w1 where p: "get_current_principal E K cr ctxt w = (Inr p, w1)"
    and k: "bind (get_current_tenant_context E i p ctxt) (\<lambda>c. require_permission E q c ctxt) w1 = (Inr c, w')"
    using assms(3) unfolding tenant_access_def Inr by (rule bind_InrE) (rule that)
  have w1: "committed w1 = committed w" "working w1 = committed w1" "identity_tables (committed w1)"
    using gateD [OF gate_principal [where P = identity_tables] assms(2,1) p] assms(1) by simp_all
  show ?thesis
    using gateD [OF gate_chosen w1(2,3) k] principal_granted [OF p assms(2)] w1(1) Inr by auto
qed

theorem access_only_for_members_witness:
  "\<exists>c w'. tenant_access sample_env sample_verifier (Some sample_bearer) 5 DOCUMENT_READ sample_request_context
      (fresh_world sample_access_db) = (Inr c, w') \<and> committed w' = sample_access_db \<and> DOCUMENT_READ \<in> set (tn_permissions c)"
proof -
  obtain c w' where s: "tenant_access sample_env sample_verifier (Some sample_bearer) 5 DOCUMENT_READ sample_request_context
      (fresh_world sample_access_db) = (Inr c, w')"
    using sample_access_granted by blast
  then show ?thesis
    using access_only_for_members [OF _ _ s] sample_access_tables by auto
qed

end
