(* ===== verification/Maintenance.thy ===== *)
theory Maintenance
  imports Session_Requests Tenant_Store
begin

text \<open>
  Operation of the identity tables: the creation of the first owner and the cleanup of old
  sessions, from \<^verbatim>\<open>application/security\<close> with their repositories of \<^verbatim>\<open>infrastructure/security\<close>. The
  advisory lock of the first has no effect of its own when requests are served one after the other.
\<close>

section \<open>The first owner\<close>

record BootstrapOwnerCommand =
  bo_email :: string
  bo_display_name :: string
  bo_password :: string
  bo_organization_name :: string
  bo_organization_slug :: string
  bo_audit_context :: "AuditRequestContext option"

record BootstrapOwnerResult =
  br_user_id :: uuid
  br_organization_id :: uuid
  br_membership_id :: uuid

record BootstrapState =
  bs_users :: int
  bs_organizations :: int

definition BootstrapState_initialized :: "BootstrapState \<Rightarrow> bool" where
  "BootstrapState_initialized s \<longleftrightarrow> bs_users s > 0 \<or> bs_organizations s > 0"

definition bootstrap_state :: "BootstrapState tx" where
  "bootstrap_state = query (\<lambda>d. \<lparr>bs_users = int (length (users d)), bs_organizations = int (length (organizations d))\<rparr>)"

text \<open>\<^verbatim>\<open>SetUserPassword\<close> as the bootstrap constructs it: without an audit recorder.\<close>

definition SetUserPassword_unaudited ::
  "env \<Rightarrow> crypto \<Rightarrow> uuid \<Rightarrow> string \<Rightarrow> datetime option \<Rightarrow> PasswordCredential tx" where
  "SetUserPassword_unaudited E K user_id password now =
     bind (of_res (validate_password_policy password)) (\<lambda>_.
     bind (user_get_by_id user_id) (\<lambda>user.
     if user = None then raise (MissingIdentityReferenceError ''User does not exist.'')
     else
       bind (case now of None \<Rightarrow> clock_now E | Some t \<Rightarrow> ret t) (\<lambda>t.
       let timestamp = astimezone_utc t in
       bind (next_secret (\<lambda>n. k_hash_password K n password)) (\<lambda>password_hash.
       bind (credential_get_by_user_id user_id) (\<lambda>existing.
       bind (of_res (case existing of
           Some c \<Rightarrow> PasswordCredential_replace_hash c password_hash timestamp
         | None \<Rightarrow> PasswordCredential_post_init
             \<lparr>pc_user_id = user_id, pc_password_hash = password_hash, pc_created_at = timestamp,
              pc_updated_at = timestamp\<rparr>)) (\<lambda>credential.
       credential_set_for_user credential))))))"

definition create_owner :: "env \<Rightarrow> crypto \<Rightarrow> BootstrapOwnerCommand \<Rightarrow> datetime \<Rightarrow> BootstrapOwnerResult tx" where
  \<comment> \<open>the part of \<^verbatim>\<open>BootstrapOwner.__call__\<close> after the guard\<close>
  "create_owner E K command now =
     bind (uuid4 E) (\<lambda>user_id.
     bind (uuid4 E) (\<lambda>organization_id.
     bind (uuid4 E) (\<lambda>membership_id.
     bind (of_res (EmailAddress_post_init (bo_email command))) (\<lambda>email.
     bind (of_res (User_create user_id email (bo_display_name command) now)) (\<lambda>user.
     bind (of_res (OrganizationSlug_post_init (bo_organization_slug command))) (\<lambda>slug.
     bind (of_res (Organization_create organization_id (bo_organization_name command) slug now)) (\<lambda>organization.
     bind (of_res (Membership_activate_directly membership_id user_id organization_id OWNER now)) (\<lambda>membership.
     bind (user_add user) (\<lambda>_.
     bind (organization_add organization) (\<lambda>_.
     bind (membership_add membership) (\<lambda>_.
     bind (SetUserPassword_unaudited E K user_id (bo_password command) (Some now)) (\<lambda>_.
     bind (uuid4 E) (\<lambda>event_id.
     bind (of_res (AuditEvent_create event_id BOOTSTRAP_OWNER_CREATED SUCCESS now (Some user_id) (Some organization_id) None
       (bo_audit_context command) None)) (\<lambda>event.
     bind (audit_record E event) (\<lambda>_.
     bind commit (\<lambda>_.
     ret \<lparr>br_user_id = user_id, br_organization_id = organization_id, br_membership_id = membership_id\<rparr>))))))))))))))))"

definition refuse_bootstrap :: "env \<Rightarrow> BootstrapOwnerCommand \<Rightarrow> datetime \<Rightarrow> BootstrapState \<Rightarrow> BootstrapOwnerResult tx" where
  \<comment> \<open>the guard of \<^verbatim>\<open>BootstrapOwner.__call__\<close>\<close>
  "refuse_bootstrap E command now state =
     bind (uuid4 E) (\<lambda>event_id.
     bind (of_res (AuditEvent_create event_id BOOTSTRAP_REFUSED DENIED now None None None (bo_audit_context command)
       (Some [(''users'', VInt (bs_users state)), (''organizations'', VInt (bs_organizations state))]))) (\<lambda>event.
     bind (audit_record E event) (\<lambda>_.
     bind commit (\<lambda>_.
     raise (BootstrapRefusedError ''WorkflowForge identity is already initialized.'')))))"

definition BootstrapOwner :: "env \<Rightarrow> crypto \<Rightarrow> BootstrapOwnerCommand \<Rightarrow> BootstrapOwnerResult tx" where
  "BootstrapOwner E K command =
     try_except
       (bind (clock_now E) (\<lambda>now.
        bind bootstrap_state (\<lambda>state.
        if BootstrapState_initialized state then refuse_bootstrap E command now state
        else create_owner E K command now)))
       (\<lambda>e. case e of
          BootstrapRefusedError m \<Rightarrow> raise e
        | _ \<Rightarrow> bind rollback (\<lambda>_. raise e))"

section \<open>The cleanup of sessions\<close>













section \<open>What the bootstrap creates\<close>

lemma hoare_insert:
  assumes "\<And>c w. \<exists>e. h c w = (Inl e, w)" and "\<And>d. P d \<Longrightarrow> Q (f d)"
  shows "hoare C P (bind (on_integrity_error (flush v f) h) (\<lambda>_. of_res r)) (\<lambda>_. Q)"
proof (rule hoare_bind)
  show "hoare C P (on_integrity_error (flush v f) h) (\<lambda>_. Q)"
    by (rule hoare_on_integrity_error [OF hoare_flush]) (rule assms(2) assms(1), assumption?)+
  show "hoare C Q (of_res r) (\<lambda>_. Q)" by (rule hoare_of_res)
qed

lemma raise_Inl: "\<exists>e'. raise e w = (Inl e', w)" "\<exists>e'. raise_membership_integrity_error c w = (Inl e', w)"
  by (simp_all add: raise_def raise_membership_integrity_error_def)

lemma created_identifiers:
  "User_create i em dn t = Inr u \<Longrightarrow> u_id u = i \<and> u_is_active u"
  "Organization_create i nm sl t = Inr g \<Longrightarrow> o_id g = i \<and> o_is_active g"
  "Membership_activate_directly i u' g' r t = Inr m \<Longrightarrow>
     m_id m = i \<and> m_user_id m = u' \<and> m_organization_id m = g' \<and> m_role m = r \<and> m_status m = ACTIVE"
  "PasswordCredential_post_init c = Inr c' \<Longrightarrow> pc_user_id c' = pc_user_id c"
  by (auto simp: User_create_def User_post_init_def Organization_create_def Organization_post_init_def
      Membership_activate_directly_def Membership_post_init_def PasswordCredential_post_init_def Let_def
      raise_if_def split: if_splits)

lemma hoare_set_password:
  assumes "\<And>d a. P (d\<lparr>password_credentials := a\<rparr>) = P d"
  shows "hoare C (\<lambda>d. P d \<and> password_credentials d = []) (SetUserPassword_unaudited E K u p (Some t))
    (\<lambda>_ d. P d \<and> (\<exists>c. password_credentials d = [c] \<and> pc_user_id c = u))"
proof -
  let ?P = "\<lambda>d. P d \<and> password_credentials d = []"
  have get: "hoare C ?P (credential_get_by_user_id u) (\<lambda>x d. ?P d \<and> x = None)"
    unfolding credential_get_by_user_id_def
    by (rule hoare_bind [where Q = "\<lambda>x d. ?P d \<and> x = None"], rule hoare_query, simp)
      (auto simp: opt_row_def opt_res_def intro!: hoare_of_res)
  have set: "hoare C ?P (credential_set_for_user c)
      (\<lambda>_ d. P d \<and> (\<exists>c. password_credentials d = [c] \<and> pc_user_id c = u))" if "pc_user_id c = u" for c
    unfolding credential_set_for_user_def
    by (rule hoare_bind [where Q = "\<lambda>x d. ?P d \<and> x = None"], rule hoare_query, simp, rule hoare_insert, rule raise_Inl)
      (use assms that in auto)
  show ?thesis
    unfolding SetUserPassword_unaudited_def
  proof (rule hoare_bind_of_res, rule hoare_bind_readonly, intro readonly_intros readonly_lookups, rule hoare_if, rule hoare_raise,
      unfold option.case Let_def, rule hoare_bind_readonly, rule readonly_basic, rule hoare_bind_readonly, rule readonly_secret,
      rule hoare_bind [OF get])
    fix s h existing
    let ?k = "\<lambda>x. bind (of_res (case x of None \<Rightarrow> PasswordCredential_post_init
          \<lparr>pc_user_id = u, pc_password_hash = h, pc_created_at = astimezone_utc s, pc_updated_at = astimezone_utc s\<rparr>
        | Some c \<Rightarrow> PasswordCredential_replace_hash c h (astimezone_utc s))) credential_set_for_user"
    have "hoare C ?P (?k None) (\<lambda>_ d. P d \<and> (\<exists>c. password_credentials d = [c] \<and> pc_user_id c = u))"
      unfolding option.case by (rule hoare_bind_of_res, rule set) (use created_identifiers(4) in fastforce)
    then show "hoare C (\<lambda>d. ?P d \<and> existing = None) (?k existing) (\<lambda>_ d. P d \<and> (\<exists>c. password_credentials d = [c] \<and> pc_user_id c = u))"
      by (cases existing) (simp_all add: hoare_def)
  qed
qed

text \<open>The tables after a bootstrap: one active user, who owns the one active organization and has a password.\<close>

definition founded :: "BootstrapOwnerResult \<Rightarrow> db \<Rightarrow> bool" where
  "founded r d \<longleftrightarrow> (\<exists>u g m c. users d = [u] \<and> u_id u = br_user_id r \<and> u_is_active u \<and>
     organizations d = [g] \<and> o_id g = br_organization_id r \<and> o_is_active g \<and>
     memberships d = [m] \<and> m_id m = br_membership_id r \<and> m_user_id m = br_user_id r \<and>
     m_organization_id m = br_organization_id r \<and> m_role m = OWNER \<and> m_status m = ACTIVE \<and>
     password_credentials d = [c] \<and> pc_user_id c = br_user_id r)"

lemma create_owner_founds:
  "transacts (\<lambda>d. users d = [] \<and> organizations d = [] \<and> memberships d = [] \<and> password_credentials d = [])
     (create_owner E K command now) founded"
  unfolding create_owner_def
proof (rule transacts_bind_readonly, rule readonly_basic, rule transacts_bind_readonly, rule readonly_basic,
    rule transacts_bind_readonly, rule readonly_basic, (rule transacts_bind_of_res)+)
  fix i g j em user sl organization membership
  assume "User_create i em (bo_display_name command) now = Inr user"
    "Organization_create g (bo_organization_name command) sl now = Inr organization"
    "Membership_activate_directly j i g OWNER now = Inr membership"
  note made = created_identifiers(1) [OF this(1)] created_identifiers(2) [OF this(2)] created_identifiers(3) [OF this(3)]
  let ?U = "\<lambda>d. users d = [user]" and ?O = "\<lambda>d. organizations d = [organization]" and ?M = "\<lambda>d. memberships d = [membership]"
  let ?N = "\<lambda>d. password_credentials d = []" and ?F = "\<lambda>d. founded \<lparr>br_user_id = i, br_organization_id = g, br_membership_id = j\<rparr> d"
  have u: "hoare C (\<lambda>d. users d = [] \<and> organizations d = [] \<and> memberships d = [] \<and> ?N d) (user_add user)
      (\<lambda>_ d. ?U d \<and> organizations d = [] \<and> memberships d = [] \<and> ?N d)" for C
    unfolding user_add_def by (rule hoare_insert, rule raise_Inl) simp
  have o: "hoare C (\<lambda>d. ?U d \<and> organizations d = [] \<and> memberships d = [] \<and> ?N d) (organization_add organization)
      (\<lambda>_ d. ?U d \<and> ?O d \<and> memberships d = [] \<and> ?N d)" for C
    unfolding organization_add_def by (rule hoare_insert, rule raise_Inl) simp
  have m: "hoare C (\<lambda>d. ?U d \<and> ?O d \<and> memberships d = [] \<and> ?N d) (membership_add membership)
      (\<lambda>_ d. (?U d \<and> ?O d \<and> ?M d) \<and> ?N d)" for C
    unfolding membership_add_def by (rule hoare_insert, rule raise_Inl) simp
  have p: "hoare C (\<lambda>d. (?U d \<and> ?O d \<and> ?M d) \<and> ?N d) (SetUserPassword_unaudited E K i pw (Some now)) (\<lambda>_. ?F)" for C pw
    by (rule hoare_conseq [OF hoare_set_password [where P = "\<lambda>d. ?U d \<and> ?O d \<and> ?M d"]]) (use made in \<open>auto simp: founded_def\<close>)
  have a: "hoare C ?F (audit_record E e) (\<lambda>_. ?F)" if "ae_created_at e = None" for C e
    by (rule hoare_audit [OF that]) (simp add: founded_def)
  show "transacts (\<lambda>d. users d = [] \<and> organizations d = [] \<and> memberships d = [] \<and> ?N d)
    (bind (user_add user) (\<lambda>_. bind (organization_add organization) (\<lambda>_. bind (membership_add membership) (\<lambda>_.
     bind (SetUserPassword_unaudited E K i (bo_password command) (Some now)) (\<lambda>_. bind (uuid4 E) (\<lambda>event_id.
     bind (of_res (AuditEvent_create event_id BOOTSTRAP_OWNER_CREATED SUCCESS now (Some i) (Some g) None (bo_audit_context command) None)) (\<lambda>event.
     bind (audit_record E event) (\<lambda>_. bind commit (\<lambda>_.
     ret \<lparr>br_user_id = i, br_organization_id = g, br_membership_id = j\<rparr>)))))))))
    founded"
    by (rule transacts_bind [OF u], rule transacts_bind [OF o], rule transacts_bind [OF m], rule transacts_bind [OF p],
        rule transacts_bind_readonly, rule readonly_basic, rule transacts_bind_of_res, rule transacts_bind [OF a])
      (rule AuditEvent_create_created_at transacts_commit, assumption)+
qed

lemma BootstrapOwner_run:
  assumes "session_scope (BootstrapOwner E K command) w = (res, w')"
    and "state = \<lparr>bs_users = int (length (users (working w))), bs_organizations = int (length (organizations (working w)))\<rparr>"
  shows "\<exists>w1. (if BootstrapState_initialized state then refuse_bootstrap E command (e_now E (now_reads w)) state
      else create_owner E K command (e_now E (now_reads w))) (w\<lparr>now_reads := Suc (now_reads w)\<rparr>) = (res, w1) \<and>
    committed w' = committed w1"
proof -
  define m where "m = (if BootstrapState_initialized state then refuse_bootstrap E command (e_now E (now_reads w)) state
      else create_owner E K command (e_now E (now_reads w)))"
  obtain r w1 where p: "m (w\<lparr>now_reads := Suc (now_reads w)\<rparr>) = (r, w1)" by (cases "m (w\<lparr>now_reads := Suc (now_reads w)\<rparr>)")
  have b: "BootstrapOwner E K command w = (case r of Inl e \<Rightarrow> (case e of
      BootstrapRefusedError m \<Rightarrow> raise e | _ \<Rightarrow> bind rollback (\<lambda>_. raise e)) w1 | Inr x \<Rightarrow> (Inr x, w1))"
    using p unfolding m_def assms(2)
    by (cases "BootstrapState_initialized state")
      (simp_all add: BootstrapOwner_def try_except_def bootstrap_state_def eff_simps assms(2))
  have "\<exists>w2. BootstrapOwner E K command w = (r, w2) \<and> committed w2 = committed w1"
  proof (cases r)
    case (Inl e)
    then show ?thesis unfolding b by (cases e) (simp_all add: eff_simps)
  next
    case (Inr x)
    then show ?thesis unfolding b by simp
  qed
  then have "r = res" "committed w' = committed w1" using assms(1) by (auto simp: session_scope_def)
  then show ?thesis using p unfolding m_def by blast
qed

lemma refuse_bootstrap_run:
  assumes "refuse_bootstrap E command now state w = (res, w')" and "working w = committed w"
  shows "\<exists>e. res = Inl e \<and> (committed w' = committed w \<or> e = BootstrapRefusedError ''WorkflowForge identity is already initialized.'' \<and>
    (\<exists>a. ae_event_type a = BOOTSTRAP_REFUSED \<and> committed w' = (committed w)\<lparr>audit_events := audit_events (committed w) @ [a]\<rparr>))"
proof -
  let ?c = "AuditEvent_create (e_uuid4 E (uuid_reads w)) BOOTSTRAP_REFUSED DENIED now None None None (bo_audit_context command)
       (Some [(''users'', VInt (bs_users state)), (''organizations'', VInt (bs_organizations state))])"
  show ?thesis
  proof (cases ?c)
    case (Inl e)
    then show ?thesis using assms(1) by (auto simp: refuse_bootstrap_def eff_simps)
  next
    case (Inr a)
    note at = audit_record_run [OF AuditEvent_create_created_at [OF Inr], of E, unfolded Let_def]
    have ty: "ae_event_type (record_from_event s a) = BOOTSTRAP_REFUSED" for s
      using AuditEvent_create_frame [OF Inr] by (simp add: record_from_event_def)
    let ?d = "(committed w)\<lparr>audit_events := audit_events (committed w) @ [record_from_event (e_now E (now_reads w)) a]\<rparr>"
    have "res = Inl (BootstrapRefusedError ''WorkflowForge identity is already initialized.'') \<and> committed w' = ?d \<or>
        (\<exists>e. res = Inl e \<and> committed w' = committed w)"
      using assms Inr at by (cases "audit_violation a (committed w)") (auto simp: refuse_bootstrap_def eff_simps bind_def)
    then show ?thesis using ty by blast
  qed
qed

section \<open>What the cleanup deletes\<close>












lemma plus_timedelta_back [simp]: "instant (plus_timedelta t k) = instant t + k"
  by (cases "utcoffset t") (simp_all add: plus_timedelta_def instant_def)





section \<open>Properties\<close>





text \<open>
  C20. The first owner is created once. A bootstrap succeeds only when there is no user and no
  organization; then there is exactly one active user, who is the active owner of exactly one
  active organization and has a password, with the identifiers of the result. A bootstrap that
  fails changes nothing, but for one audit event when it is refused because the tables are not
  empty.
\<close>

theorem bootstrap_only_once:
  assumes "working w = committed w"
    and "list_all (\<lambda>m. m_user_id m \<in> u_id ` set (users (committed w))) (memberships (committed w))"
    and "list_all (\<lambda>c. pc_user_id c \<in> u_id ` set (users (committed w))) (password_credentials (committed w))"
    and "session_scope (BootstrapOwner E K command) w = (res, w')"
  shows "case res of
      Inr r \<Rightarrow> users (committed w) = [] \<and> organizations (committed w) = [] \<and> founded r (committed w')
    | Inl e \<Rightarrow> committed w' = committed w \<or>
        (users (committed w) \<noteq> [] \<or> organizations (committed w) \<noteq> []) \<and>
        e = BootstrapRefusedError ''WorkflowForge identity is already initialized.'' \<and>
        (\<exists>a. ae_event_type a = BOOTSTRAP_REFUSED \<and>
           committed w' = (committed w)\<lparr>audit_events := audit_events (committed w) @ [a]\<rparr>)"
proof (cases "users (committed w) = [] \<and> organizations (committed w) = []")
  case True
  then have none: "memberships (committed w) = []" "password_credentials (committed w) = []"
    using assms(2,3) by (simp_all add: list_all_iff)
  have init: "\<not> BootstrapState_initialized \<lparr>bs_users = int (length (users (working w))), bs_organizations = int (length (organizations (working w)))\<rparr>"
    using True assms(1) by (simp add: BootstrapState_initialized_def)
  obtain w1 where run: "create_owner E K command (e_now E (now_reads w)) (w\<lparr>now_reads := Suc (now_reads w)\<rparr>) = (res, w1)"
    and w': "committed w' = committed w1"
    using BootstrapOwner_run [OF assms(4) refl] init by (simp only: if_False) blast
  note tr = transactsD [OF create_owner_founds, of "w\<lparr>now_reads := Suc (now_reads w)\<rparr>" E K command "e_now E (now_reads w)"]
  have "working (w\<lparr>now_reads := Suc (now_reads w)\<rparr>) = committed w" "committed (w\<lparr>now_reads := Suc (now_reads w)\<rparr>) = committed w"
    using assms(1) by simp_all
  note tr = tr [unfolded this run]
  show ?thesis
  proof (cases res)
    case (Inl e)
    then show ?thesis using tr(1) True none w' by simp
  next
    case (Inr r)
    then show ?thesis using tr(2) True none w' by simp
  qed
next
  case False
  let ?s = "\<lparr>bs_users = int (length (users (working w))), bs_organizations = int (length (organizations (working w)))\<rparr>"
  have init: "BootstrapState_initialized ?s" using False assms(1) by (simp add: BootstrapState_initialized_def)
  obtain w1 where run: "refuse_bootstrap E command (e_now E (now_reads w)) ?s (w\<lparr>now_reads := Suc (now_reads w)\<rparr>) = (res, w1)"
    and w': "committed w' = committed w1"
    using BootstrapOwner_run [OF assms(4) refl] init by (simp only: if_True) blast
  show ?thesis using refuse_bootstrap_run [OF run] assms(1) w' False by auto
qed

text \<open>The first bootstrap of an empty database.\<close>

definition sample_bootstrap :: BootstrapOwnerCommand where
  "sample_bootstrap = \<lparr>bo_email = ''ada@example.org'', bo_display_name = ''Ada'', bo_password = ''a-long-password'',
     bo_organization_name = ''Acme'', bo_organization_slug = ''acme'', bo_audit_context = None\<rparr>"

lemma pred_option_eval [code]: "pred_option P None = True" "pred_option P (Some x) = P x"
  by simp_all

lemma sample_bootstrap_succeeds:
  "isl (fst (session_scope (BootstrapOwner sample_env sample_crypto sample_bootstrap) (fresh_world empty_db))) = False"
  by code_simp

theorem bootstrap_only_once_witness:
  "\<exists>r w'. session_scope (BootstrapOwner sample_env sample_crypto sample_bootstrap) (fresh_world empty_db) = (Inr r, w') \<and>
     founded r (committed w')"
proof (cases "session_scope (BootstrapOwner sample_env sample_crypto sample_bootstrap) (fresh_world empty_db)")
  case (Pair res w')
  then obtain r where res: "res = Inr r" using sample_bootstrap_succeeds by (cases res) simp_all
  show ?thesis using bootstrap_only_once [OF _ _ _ Pair] Pair res by (simp add: empty_db_def)
qed

end
