(* ===== verification/Spec2Isabelle.thy ===== *)
theory Spec2Isabelle
  imports Storage_Keys Memberships Session_Requests Session_Effects Tenant_Requests Api_Access Maintenance
begin

text \<open>
  A verification of the core of WorkflowForge, a multi-tenant document workflow backend in Python.

  \<^bold>\<open>The program.\<close> The sources are layered. \<^verbatim>\<open>packages/domain\<close> holds immutable entities and value
  objects that validate themselves on construction and raise on a forbidden change. \<^verbatim>\<open>packages/application\<close>
  holds the use cases: each checks a permission of the tenant context, reads rows through a repository,
  changes an entity, writes it back, records an audit event and commits, and rolls back on every
  exception. \<^verbatim>\<open>packages/infrastructure\<close> implements the repositories with SQLAlchemy, the object
  storage with an S3 client and the cryptographic adapters. \<^verbatim>\<open>apps/api\<close> puts FastAPI routes in front;
  their dependencies authenticate the bearer token, resolve the tenant and check a permission before a
  use case runs.

  \<^bold>\<open>State and effects.\<close> A Python call that may raise is a function into \<open>'a res\<close>, the sum of the
  exceptions of the sources (type \<open>exn\<close>, theory \<open>Errors\<close>) and a result. A method with access to the
  database session is a computation of type \<open>'a tx\<close> (theory \<open>Database\<close>): it threads a \<open>world\<close>, which
  holds the committed tables, the working copy of the open transaction, the number of readings of the
  clock, of the identifier source, of the secret source and of the upload stream, and the calls made to
  the object storage. \<open>commit\<close> copies the working tables to the committed ones, \<open>rollback\<close> the other
  way, and \<open>session_scope\<close> closes the session of a request without a commit. A flushed statement that
  violates a unique, foreign-key or check constraint raises an integrity error naming the constraint. The record
  \<open>db\<close> has one list of rows per table, in insertion order. What the driver refuses is an error as well: an
  integer outside the 32 or 64 bits of its column, a naive time for a column with a time zone
  (\<open>check_int4\<close>, \<open>check_bigint\<close>, \<open>check_timestamptz\<close>). Requests run one after the other: the
  interleaving of requests is an arbitrary sequence of whole requests, each with its commits, and
  optimistic lock versions and unique keys are checked against whatever requests came before.

  \<^bold>\<open>Theories and sources.\<close>
  \<^item> \<open>Prelude\<close>, \<open>Errors\<close>, \<open>Values\<close>: Python strings over the Latin-1 range, timestamps as wall-clock
    microseconds with an optional UTC offset, UUIDs as 128-bit words, results; the identity
    enumerations and all exceptions; metadata values.
  \<^item> \<open>Identity\<close>, \<open>Memberships\<close>: \<^verbatim>\<open>domain/identity/{value_objects,entities,policies,permissions}.py\<close>.
  \<^item> \<open>Sessions\<close>: \<^verbatim>\<open>domain/identity/sessions.py\<close>; \<open>Audit_Log\<close>: \<^verbatim>\<open>domain/audit.py\<close>.
  \<^item> \<open>Documents\<close>, \<open>Storage_Keys\<close>, \<open>Document_Lifecycle\<close>: \<^verbatim>\<open>domain/documents.py\<close>.
  \<^item> \<open>Batches\<close>, \<open>Cases\<close>: \<^verbatim>\<open>domain/batches.py\<close>, \<^verbatim>\<open>domain/cases.py\<close>.
  \<^item> \<open>Database\<close>, \<open>Transactions\<close>, \<open>Tenancy\<close>: \<^verbatim>\<open>infrastructure/database/session.py\<close>, the audit
    repository, and the calculus of computations (preservation, atomicity, triples over the tables,
    tenant isolation).
  \<^item> \<open>Identity_Store\<close>: \<^verbatim>\<open>infrastructure/identity/{repository,models}.py\<close>.
  \<^item> \<open>Session_Lifecycle\<close>, \<open>Session_Safety\<close>, \<open>Session_Requests\<close>, \<open>Session_Effects\<close>:
    \<^verbatim>\<open>application/identity/{authentication,session_lifecycle,tokens,credentials,organizations}.py\<close>, with the table invariant
    of refresh-token rotation, the serving of login, refresh and logout requests, and the rows that
    login, logout and the replay of a token commit.
  \<^item> \<open>Authorization\<close>: \<^verbatim>\<open>application/authorization\<close>, tenant contexts and the administration policy.
  \<^item> \<open>Api_Access\<close>: \<^verbatim>\<open>apps/api/{dependencies,audit}.py\<close>, the gate of the tenant-scoped endpoints.
  \<^item> \<open>Tenant_Store\<close>: what the tenant-scoped repositories share, with the locales \<open>tenant_table\<close> and
    \<open>versioned_table\<close> as contracts of a table with a tenant column and of one with a lock version.
  \<^item> \<open>Batch_Store\<close>, \<open>Batch_Service\<close>, \<open>Case_Store\<close>, \<open>Case_Service\<close>: repositories and use cases of
    batches and cases (\<^verbatim>\<open>{infrastructure,application}/{batches,cases}.py\<close>).
  \<^item> \<open>Document_Store\<close>, \<open>Document_Service\<close>: \<^verbatim>\<open>infrastructure/documents\<close> and the class
    \<^verbatim>\<open>DocumentService\<close> of \<^verbatim>\<open>application/documents/service.py\<close>.
  \<^item> \<open>Upload_Validation\<close>, \<open>Object_Storage\<close>, \<open>Upload_Document\<close>, \<open>Upload_Safety\<close>, \<open>Upload_Requests\<close>:
    \<^verbatim>\<open>application/documents/upload_validation.py\<close>, \<^verbatim>\<open>infrastructure/storage/s3.py\<close> and the class
    \<^verbatim>\<open>UploadDocument\<close>, with its reservation of an idempotency key, its four commits and its failure handlers.
  \<^item> \<open>Tenant_Requests\<close>: the batch, case, document, download and upload services together.
  \<^item> \<open>Maintenance\<close>: \<^verbatim>\<open>application/security/{bootstrap,cleanup}.py\<close> and \<^verbatim>\<open>infrastructure/security/repository.py\<close>.

  Definitions carry the Python names; a method is prefixed with its class
  (\<open>Batch_update\<close> is \<^verbatim>\<open>Batch.update\<close>) and \<open>_post_init\<close> is the constructor check. A field has a prefix of its record.

  \<^bold>\<open>What the lemmas show.\<close> The domain theories prove that the constructors establish a
  well-formedness predicate, that every operation keeps it, and what each operation does on each
  branch; the histories of documents, batches, cases and memberships are inductive step relations.
  The repository theories prove consistency invariants of the tables and isolation between tenants. The service theories prove
  that every request refines a specification: it raises with nothing committed, or commits exactly the
  specified step with its one audit event. The locales state those contracts once
  (\<open>tenant_table\<close>, \<open>versioned_table\<close>, \<open>session_tables\<close>, \<open>upload_invariant\<close>, \<open>audited\<close> and the contracts of
  requests outside the tables of a service) and are interpreted on the tables of the program. This theory
  and the theories of requests compose them over sequences of requests with any outcome.

  \<^bold>\<open>Bounds and termination.\<close> The upload loop of \<^verbatim>\<open>stream_upload\<close> is the only loop that need not end by
  itself, since a stream may never end; \<open>stream_loop\<close> terminates because every chunk has at least one
  byte and the loop stops once the size exceeds the limit, which is its measure. No definition has
  fuel. The limits of the sources (lengths of texts, 8192-byte prefix, 3600-second download URLs,
  10000 rows of a cleanup batch, the bounds on DOCX archives) are written as in the sources.

  \<^bold>\<open>Parameters.\<close> The clock, the UUID source and the secret source are functions of the number of earlier
  readings (record \<open>env\<close>, fields of \<open>crypto\<close>). Argon2, SHA-256 and the JWT codec are the fields of
  \<open>crypto\<close> and of the upload use case; the S3 client, the reader of a zip directory and the upload
  stream are functions as well. Strings are Latin-1, and a Latin-1 string is its own NFC form
  (\<open>nfc\<close> in \<open>Prelude\<close>); the two normalizations of filenames are also defined for an arbitrary
  normalization \<open>nf\<close>, where what the upload check accepts may differ from what the domain
  stores. A theorem that relies on a law of one of them states it as a
  hypothesis (an aware clock, a stream that stays at its end, no SHA-256 collision on two given inputs).

  \<^bold>\<open>Not modelled.\<close> HTTP routing, request and response schemas, the exception-to-response mapping,
  cookies, CSRF tokens and middleware: they render what the use cases return and are declared through
  FastAPI and Pydantic. The Redis rate limiter, settings, logging, health checks, Celery workers and
  tasks: configuration and calls into libraries. Migrations: the constraints of the final schema are in
  the repository theories. Characters beyond Latin-1; real concurrency
  within a request (row locks and the advisory lock of the bootstrap have no effect when requests are
  serial). After a failed flush the handlers of an upload meet the session that awaits a rollback.
\<close>

section \<open>The services together\<close>

text \<open>
  C3. Tenants are isolated from each other. Whatever requests other tenants make to the batch,
  case, document, download and upload services, in whatever order and whether they succeed or
  fail, no row of this tenant changes in any table, nor do users, organizations, memberships,
  credentials, sessions and tokens; no call to the object storage names an object of this tenant;
  and the tables of all services stay consistent.
\<close>

theorem tenants_are_isolated:
  assumes "all_tables (committed w)" and "working w = committed w"
    and "list_all (\<lambda>(tn, q). tn_organization_id tn \<noteq> g) qs"
  shows "all_tables (committed (serve_tenants E U qs w)) \<and>
    tenant_rows g (committed (serve_tenants E U qs w)) = tenant_rows g (committed w) \<and>
    shared (committed (serve_tenants E U qs w)) = shared (committed w) \<and>
    (\<exists>cs. s3_calls (serve_tenants E U qs w) = s3_calls w @ cs \<and>
       list_all (\<lambda>c. list_all (\<lambda>k. \<not> object_of g k) (call_keys c)) cs)"
  using assms by (rule serve_tenants_isolated)

text \<open>Another tenant archives and uploads; the document of tenant 5 stays.\<close>

theorem tenants_are_isolated_witness:
  "let other = sample_tenant\<lparr>tn_organization_id := 6\<rparr>;
       after = serve_tenants sample_clock sample_uploader [(other, DocumentUse sample_archive), (other, UploadUse sample_upload)]
         (fresh_world sample_document_db)
   in tenant_rows 5 (committed after) = tenant_rows 5 sample_document_db \<and> all_tables (committed after)"
  using tenants_are_isolated [of "fresh_world sample_document_db" 5
      "[(sample_tenant\<lparr>tn_organization_id := 6\<rparr>, DocumentUse sample_archive),
        (sample_tenant\<lparr>tn_organization_id := 6\<rparr>, UploadUse sample_upload)]" sample_clock sample_uploader]
    sample_all_tables by (simp add: Let_def)

end
